(* ===== verification/Prelude.thy ===== *)
theory Prelude
  imports Main "HOL-Library.Word"
begin

unbundle bit_operations_syntax

section \<open>Prelude: machine integers, bit fields and the collections of hints\<close>

text \<open>
  The C++ integer types the sources use, the bit fields of their unions
  (\<open>getf\<close>, \<open>setf\<close>: debugger/src/common/riscv-isa.h), the bytes of a payload word and the
  integer division of C++.  Shared by every theory of the development; the bit-level
  lemmas are collected in \<open>bitfield_simps\<close>.
\<close>

type_synonym u8 = "8 word"
type_synonym u16 = "16 word"
type_synonym u32 = "32 word"
type_synonym u64 = "64 word"

named_theorems exec_defs
  \<open>definitions of the instructions' exec functions and the helpers they call\<close>
named_theorems frame_simps
  \<open>which fields of the state an operation leaves alone\<close>
named_theorems bitfield_simps
  \<open>fields of encoded words\<close>

subsection \<open>Bit fields\<close>

text \<open>
  \<open>getf lo n w\<close> is the field \<open>uint : n\<close> that starts at bit \<open>lo\<close> of \<open>w\<close>, in the type it is
  used at; \<open>setf lo n x w\<close> is \<open>w\<close> with that field assigned (the value is cut to \<open>n\<close> bits,
  as an assignment to a C++ bit field cuts it).
\<close>

definition getf :: "nat \<Rightarrow> nat \<Rightarrow> 'a::len word \<Rightarrow> 'b::len word" where
  "getf lo n w = ucast (take_bit n (drop_bit lo w))"

definition setf :: "nat \<Rightarrow> nat \<Rightarrow> 'a::len word \<Rightarrow> 'a word \<Rightarrow> 'a word" where
  "setf lo n x w = (w AND NOT (push_bit lo (mask n))) OR push_bit lo (take_bit n x)"

definition getb :: "nat \<Rightarrow> 'a::len word \<Rightarrow> bool" where
  "getb i w = bit w i"

text \<open>A C++ condition \<open>if (x)\<close> on an integer.\<close>

abbreviation truth :: "'a::len word \<Rightarrow> bool" where
  "truth x \<equiv> x \<noteq> 0"

lemma bit_getf:
  fixes w :: "'a::len word"
  shows "bit (getf lo n w :: 'b::len word) i
    \<longleftrightarrow> i < LENGTH('b) \<and> i < LENGTH('a) \<and> i < n \<and> bit w (lo + i)"
  by (auto simp: getf_def bit_simps dest: bit_imp_le_length)

lemma bit_setf:
  fixes w :: "'a::len word"
  shows "bit (setf lo n x w) i
    \<longleftrightarrow> i < LENGTH('a) \<and> (if lo \<le> i \<and> i < lo + n then bit x (i - lo) else bit w i)"
  by (auto simp: setf_def bit_simps)

lemma getf_setf_same:
  fixes w x :: "'a::len word"
  assumes "lo + n \<le> LENGTH('a)"
  shows "getf lo n (setf lo n x w) = (ucast (take_bit n x) :: 'b::len word)"
  by (rule bit_word_eqI) (use assms in \<open>auto simp: bit_getf bit_setf bit_simps\<close>)

lemma getf_setf_other:
  fixes w x :: "'a::len word"
  assumes "lo + n \<le> lo' \<or> lo' + n' \<le> lo"
  shows "getf lo' n' (setf lo n x w) = (getf lo' n' w :: 'b::len word)"
  by (rule bit_word_eqI) (use assms in \<open>auto simp: bit_getf bit_setf dest: bit_imp_le_length\<close>)

lemma setf_setf_same:
  "setf lo n x (setf lo n y w) = setf lo n x w"
  by (rule bit_word_eqI) (auto simp: bit_setf)

lemma setf_commute:
  assumes "lo + n \<le> lo' \<or> lo' + n' \<le> lo"
  shows "setf lo n x (setf lo' n' y w) = setf lo' n' y (setf lo n x w)"
  by (rule bit_word_eqI) (use assms in \<open>auto simp: bit_setf\<close>)

lemma unat_getf_less:
  assumes "n \<le> LENGTH('b::len)"
  shows "unat (getf lo n (w :: 'a::len word) :: 'b word) < 2 ^ n"
proof -
  have "(getf lo n w :: 'b word) = take_bit n (getf lo n w)"
    by (rule bit_word_eqI) (auto simp: bit_getf bit_simps)
  then show ?thesis
    by (metis take_bit_nat_less_exp unsigned_take_bit_eq)
qed

subsection \<open>Bytes of a 64-bit payload\<close>

definition byte_of :: "u64 \<Rightarrow> nat \<Rightarrow> u8" where
  "byte_of w i = getf (8 * i) 8 w"

definition set_byte :: "nat \<Rightarrow> u8 \<Rightarrow> u64 \<Rightarrow> u64" where
  "set_byte i b w = setf (8 * i) 8 (ucast b) w"

lemma byte_of_set_byte:
  assumes "i < 8"
  shows "byte_of (set_byte i b w) j = (if i = j then b else byte_of w j)"
proof (cases "i = j")
  case True
  have "(ucast (take_bit 8 (ucast b :: u64)) :: u8) = b"
    by (rule bit_word_eqI) (auto simp: bit_simps dest: bit_imp_le_length)
  with True assms show ?thesis
    by (simp add: byte_of_def set_byte_def getf_setf_same)
next
  case False
  then have "8 * i + 8 \<le> 8 * j \<or> 8 * j + 8 \<le> 8 * i" by arith
  with False show ?thesis
    by (simp add: byte_of_def set_byte_def getf_setf_other)
qed

lemma u64_eq_bytesI:
  assumes "\<And>i. i < 8 \<Longrightarrow> byte_of v i = byte_of w i"
  shows "v = w"
proof (rule bit_word_eqI)
  fix n :: nat
  assume "n < LENGTH(64)"
  then have n: "n div 8 < 8" "8 * (n div 8) + n mod 8 = n" by auto
  from assms [OF n(1)] have "bit (byte_of v (n div 8)) (n mod 8) = bit (byte_of w (n div 8)) (n mod 8)"
    by simp
  then show "bit v n = bit w n"
    by (simp add: byte_of_def bit_getf n(2) less_trans [of "n mod 8" 8 64])
qed

lemma upt_consts:
  "[0..<1] = [0::nat]" "[0..<2] = [0, 1::nat]" "[0..<4] = [0, 1, 2, 3::nat]"
  "[0..<8] = [0, 1, 2, 3, 4, 5, 6, 7::nat]"
  by (simp_all add: upt_conv_Cons)

subsection \<open>The division and the remainder of C++\<close>

text \<open>C++ rounds the quotient towards zero; the remainder has the sign of the dividend.\<close>

definition cdiv :: "int \<Rightarrow> int \<Rightarrow> int" where
  "cdiv a b = sgn a * sgn b * (\<bar>a\<bar> div \<bar>b\<bar>)"

definition cmod :: "int \<Rightarrow> int \<Rightarrow> int" where
  "cmod a b = a - b * cdiv a b"

lemma cdiv_cmod: "b * cdiv a b + cmod a b = a"
  by (simp add: cmod_def)

lemma cmod_abs: "cmod a b = sgn a * (\<bar>a\<bar> mod \<bar>b\<bar>)"
proof -
  have "b * (sgn a * sgn b * (\<bar>a\<bar> div \<bar>b\<bar>)) = sgn a * (\<bar>b\<bar> * (\<bar>a\<bar> div \<bar>b\<bar>))"
    by (simp add: abs_sgn mult.commute mult.left_commute)
  moreover have "a = sgn a * \<bar>a\<bar>"
    by (simp add: sgn_mult_abs)
  ultimately have "cmod a b = sgn a * (\<bar>a\<bar> - \<bar>b\<bar> * (\<bar>a\<bar> div \<bar>b\<bar>))"
    by (metis cdiv_def cmod_def right_diff_distrib)
  then show ?thesis
    by (simp add: minus_mult_div_eq_mod)
qed

lemma cmod_bound:
  assumes "b \<noteq> 0"
  shows "\<bar>cmod a b\<bar> < \<bar>b\<bar>"
  using assms by (cases "a = 0") (auto simp: cmod_abs abs_mult)

lemma abs_cdiv_le: "\<bar>cdiv a b\<bar> \<le> \<bar>a\<bar>"
proof -
  have "\<bar>cdiv a b\<bar> \<le> \<bar>a\<bar> div \<bar>b\<bar>"
    by (auto simp: cdiv_def abs_mult sgn_if pos_imp_zdiv_nonneg_iff)
  also have "\<dots> \<le> \<bar>a\<bar>"
    by (cases "b = 0") (auto intro: zdiv_mono2 [of "\<bar>a\<bar>" 1, simplified])
  finally show ?thesis .
qed

end
