(* ===== verification/Isa_Formats.thy ===== *)
theory Isa_Formats
  imports Prelude
begin

section \<open>Instruction and register formats\<close>

text \<open>
  The unions of debugger/src/common/riscv-isa.h that the instructions read their fields
  through, the sign extension constants of debugger/src/common/api_types.h and the CSR
  numbers and enumerations of coreservices/icpuriscv.h.  A bit field narrower than
  \<open>int\<close> is promoted to \<open>int\<close> where the sources use it: the accessors return the promoted
  32-bit value (it is never negative).  \<open>unat\<close> of it is the array index.
\<close>

subsection \<open>ISA_R_type\<close>

definition R_rd :: "u32 \<Rightarrow> u32" where
  "R_rd = getf 7 5"
definition R_rs1 :: "u32 \<Rightarrow> u32" where
  "R_rs1 = getf 15 5"
definition R_rs2 :: "u32 \<Rightarrow> u32" where
  "R_rs2 = getf 20 5"

subsection \<open>ISA_I_type\<close>

definition I_rd :: "u32 \<Rightarrow> u32" where
  "I_rd = getf 7 5"
definition I_rs1 :: "u32 \<Rightarrow> u32" where
  "I_rs1 = getf 15 5"
definition I_imm :: "u32 \<Rightarrow> u32" where
  "I_imm = getf 20 12"

subsection \<open>ISA_S_type\<close>

definition S_imm4_0 :: "u32 \<Rightarrow> u32" where
  "S_imm4_0 = getf 7 5"
definition S_rs1 :: "u32 \<Rightarrow> u32" where
  "S_rs1 = getf 15 5"
definition S_rs2 :: "u32 \<Rightarrow> u32" where
  "S_rs2 = getf 20 5"
definition S_imm11_5 :: "u32 \<Rightarrow> u32" where
  "S_imm11_5 = getf 25 7"

subsection \<open>ISA_SB_type\<close>

definition SB_imm11 :: "u32 \<Rightarrow> u32" where
  "SB_imm11 = getf 7 1"
definition SB_imm4_1 :: "u32 \<Rightarrow> u32" where
  "SB_imm4_1 = getf 8 4"
definition SB_rs1 :: "u32 \<Rightarrow> u32" where
  "SB_rs1 = getf 15 5"
definition SB_rs2 :: "u32 \<Rightarrow> u32" where
  "SB_rs2 = getf 20 5"
definition SB_imm10_5 :: "u32 \<Rightarrow> u32" where
  "SB_imm10_5 = getf 25 6"
definition SB_imm12 :: "u32 \<Rightarrow> u32" where
  "SB_imm12 = getf 31 1"

subsection \<open>ISA_U_type\<close>

definition U_rd :: "u32 \<Rightarrow> u32" where
  "U_rd = getf 7 5"
definition U_imm31_12 :: "u32 \<Rightarrow> u32" where
  "U_imm31_12 = getf 12 20"

subsection \<open>ISA_UJ_type\<close>

definition UJ_rd :: "u32 \<Rightarrow> u32" where
  "UJ_rd = getf 7 5"
definition UJ_imm19_12 :: "u32 \<Rightarrow> u32" where
  "UJ_imm19_12 = getf 12 8"
definition UJ_imm11 :: "u32 \<Rightarrow> u32" where
  "UJ_imm11 = getf 20 1"
definition UJ_imm10_1 :: "u32 \<Rightarrow> u32" where
  "UJ_imm10_1 = getf 21 10"
definition UJ_imm20 :: "u32 \<Rightarrow> u32" where
  "UJ_imm20 = getf 31 1"

subsection \<open>ISA_CR_type\<close>

definition CR_rs2 :: "u16 \<Rightarrow> u32" where
  "CR_rs2 = getf 2 5"
definition CR_rdrs1 :: "u16 \<Rightarrow> u32" where
  "CR_rdrs1 = getf 7 5"

subsection \<open>ISA_CI_type\<close>

definition CI_imm :: "u16 \<Rightarrow> u32" where
  "CI_imm = getf 2 5"
definition CI_rdrs :: "u16 \<Rightarrow> u32" where
  "CI_rdrs = getf 7 5"
definition CI_imm6 :: "u16 \<Rightarrow> u32" where
  "CI_imm6 = getf 12 1"
definition CI_sp_imm5 :: "u16 \<Rightarrow> u32" where
  "CI_sp_imm5 = getf 2 1"
definition CI_sp_imm8_7 :: "u16 \<Rightarrow> u32" where
  "CI_sp_imm8_7 = getf 3 2"
definition CI_sp_imm6 :: "u16 \<Rightarrow> u32" where
  "CI_sp_imm6 = getf 5 1"
definition CI_sp_imm4 :: "u16 \<Rightarrow> u32" where
  "CI_sp_imm4 = getf 6 1"
definition CI_sp_imm9 :: "u16 \<Rightarrow> u32" where
  "CI_sp_imm9 = getf 12 1"
definition CI_ldsp_off8_6 :: "u16 \<Rightarrow> u32" where
  "CI_ldsp_off8_6 = getf 2 3"
definition CI_ldsp_off4_3 :: "u16 \<Rightarrow> u32" where
  "CI_ldsp_off4_3 = getf 5 2"
definition CI_ldsp_rd :: "u16 \<Rightarrow> u32" where
  "CI_ldsp_rd = getf 7 5"
definition CI_ldsp_off5 :: "u16 \<Rightarrow> u32" where
  "CI_ldsp_off5 = getf 12 1"
definition CI_lwsp_off7_6 :: "u16 \<Rightarrow> u32" where
  "CI_lwsp_off7_6 = getf 2 2"
definition CI_lwsp_off4_2 :: "u16 \<Rightarrow> u32" where
  "CI_lwsp_off4_2 = getf 4 3"
definition CI_lwsp_rd :: "u16 \<Rightarrow> u32" where
  "CI_lwsp_rd = getf 7 5"
definition CI_lwsp_off5 :: "u16 \<Rightarrow> u32" where
  "CI_lwsp_off5 = getf 12 1"

subsection \<open>ISA_CSS_type\<close>

definition CSS_w_rs2 :: "u16 \<Rightarrow> u32" where
  "CSS_w_rs2 = getf 2 5"
definition CSS_w_imm7_6 :: "u16 \<Rightarrow> u32" where
  "CSS_w_imm7_6 = getf 7 2"
definition CSS_w_imm5_2 :: "u16 \<Rightarrow> u32" where
  "CSS_w_imm5_2 = getf 9 4"
definition CSS_d_rs2 :: "u16 \<Rightarrow> u32" where
  "CSS_d_rs2 = getf 2 5"
definition CSS_d_imm8_6 :: "u16 \<Rightarrow> u32" where
  "CSS_d_imm8_6 = getf 7 3"
definition CSS_d_imm5_3 :: "u16 \<Rightarrow> u32" where
  "CSS_d_imm5_3 = getf 10 3"

subsection \<open>ISA_CIW_type\<close>

definition CIW_rd :: "u16 \<Rightarrow> u32" where
  "CIW_rd = getf 2 3"
definition CIW_imm3 :: "u16 \<Rightarrow> u32" where
  "CIW_imm3 = getf 5 1"
definition CIW_imm2 :: "u16 \<Rightarrow> u32" where
  "CIW_imm2 = getf 6 1"
definition CIW_imm9_6 :: "u16 \<Rightarrow> u32" where
  "CIW_imm9_6 = getf 7 4"
definition CIW_imm5_4 :: "u16 \<Rightarrow> u32" where
  "CIW_imm5_4 = getf 11 2"

subsection \<open>ISA_CL_type\<close>

definition CL_rd :: "u16 \<Rightarrow> u32" where
  "CL_rd = getf 2 3"
definition CL_imm6 :: "u16 \<Rightarrow> u32" where
  "CL_imm6 = getf 5 1"
definition CL_imm27 :: "u16 \<Rightarrow> u32" where
  "CL_imm27 = getf 6 1"
definition CL_rs1 :: "u16 \<Rightarrow> u32" where
  "CL_rs1 = getf 7 3"
definition CL_imm5_3 :: "u16 \<Rightarrow> u32" where
  "CL_imm5_3 = getf 10 3"

subsection \<open>ISA_CS_type\<close>

definition CS_rs2 :: "u16 \<Rightarrow> u32" where
  "CS_rs2 = getf 2 3"
definition CS_imm6 :: "u16 \<Rightarrow> u32" where
  "CS_imm6 = getf 5 1"
definition CS_imm27 :: "u16 \<Rightarrow> u32" where
  "CS_imm27 = getf 6 1"
definition CS_rs1 :: "u16 \<Rightarrow> u32" where
  "CS_rs1 = getf 7 3"
definition CS_imm5_3 :: "u16 \<Rightarrow> u32" where
  "CS_imm5_3 = getf 10 3"

subsection \<open>ISA_CB_type\<close>

definition CB_off5 :: "u16 \<Rightarrow> u32" where
  "CB_off5 = getf 2 1"
definition CB_off2_1 :: "u16 \<Rightarrow> u32" where
  "CB_off2_1 = getf 3 2"
definition CB_off7_6 :: "u16 \<Rightarrow> u32" where
  "CB_off7_6 = getf 5 2"
definition CB_rs1 :: "u16 \<Rightarrow> u32" where
  "CB_rs1 = getf 7 3"
definition CB_off4_3 :: "u16 \<Rightarrow> u32" where
  "CB_off4_3 = getf 10 2"
definition CB_off8 :: "u16 \<Rightarrow> u32" where
  "CB_off8 = getf 12 1"
definition CB_sh_shamt :: "u16 \<Rightarrow> u32" where
  "CB_sh_shamt = getf 2 5"
definition CB_sh_rd :: "u16 \<Rightarrow> u32" where
  "CB_sh_rd = getf 7 3"
definition CB_sh_funct2 :: "u16 \<Rightarrow> u32" where
  "CB_sh_funct2 = getf 10 2"
definition CB_sh_shamt5 :: "u16 \<Rightarrow> u32" where
  "CB_sh_shamt5 = getf 12 1"

subsection \<open>ISA_CJ_type\<close>

definition CJ_off5 :: "u16 \<Rightarrow> u32" where
  "CJ_off5 = getf 2 1"
definition CJ_off3_1 :: "u16 \<Rightarrow> u32" where
  "CJ_off3_1 = getf 3 3"
definition CJ_off7 :: "u16 \<Rightarrow> u32" where
  "CJ_off7 = getf 6 1"
definition CJ_off6 :: "u16 \<Rightarrow> u32" where
  "CJ_off6 = getf 7 1"
definition CJ_off10 :: "u16 \<Rightarrow> u32" where
  "CJ_off10 = getf 8 1"
definition CJ_off9_8 :: "u16 \<Rightarrow> u32" where
  "CJ_off9_8 = getf 9 2"
definition CJ_off4 :: "u16 \<Rightarrow> u32" where
  "CJ_off4 = getf 11 1"
definition CJ_off11 :: "u16 \<Rightarrow> u32" where
  "CJ_off11 = getf 12 1"

lemmas format_defs =
  R_rd_def R_rs1_def R_rs2_def I_rd_def I_rs1_def I_imm_def S_imm4_0_def S_rs1_def S_rs2_def
  S_imm11_5_def SB_imm11_def SB_imm4_1_def SB_rs1_def SB_rs2_def SB_imm10_5_def SB_imm12_def
  U_rd_def U_imm31_12_def UJ_rd_def UJ_imm19_12_def UJ_imm11_def UJ_imm10_1_def UJ_imm20_def
  CR_rs2_def CR_rdrs1_def CI_imm_def CI_rdrs_def CI_imm6_def CI_sp_imm5_def CI_sp_imm8_7_def
  CI_sp_imm6_def CI_sp_imm4_def CI_sp_imm9_def CI_ldsp_off8_6_def CI_ldsp_off4_3_def
  CI_ldsp_rd_def CI_ldsp_off5_def CI_lwsp_off7_6_def CI_lwsp_off4_2_def CI_lwsp_rd_def
  CI_lwsp_off5_def CSS_w_rs2_def CSS_w_imm7_6_def CSS_w_imm5_2_def CSS_d_rs2_def
  CSS_d_imm8_6_def CSS_d_imm5_3_def CIW_rd_def CIW_imm3_def CIW_imm2_def CIW_imm9_6_def
  CIW_imm5_4_def CL_rd_def CL_imm6_def CL_imm27_def CL_rs1_def CL_imm5_3_def CS_rs2_def
  CS_imm6_def CS_imm27_def CS_rs1_def CS_imm5_3_def CB_off5_def CB_off2_1_def CB_off7_6_def
  CB_rs1_def CB_off4_3_def CB_off8_def CB_sh_shamt_def CB_sh_rd_def CB_sh_funct2_def
  CB_sh_shamt5_def CJ_off5_def CJ_off3_1_def CJ_off7_def CJ_off6_def CJ_off10_def CJ_off9_8_def
  CJ_off4_def CJ_off11_def

text \<open>Reading a field of an instruction never needs more bits than the field has.\<close>

lemma field5_less: "unat (getf lo 5 w :: u32) < 32"
  using unat_getf_less [where 'b = 32 and n = 5] by simp

lemma field12_less: "unat (getf lo 12 w :: u32) < 4096"
  using unat_getf_less [where 'b = 32 and n = 12] by simp

subsection \<open>Sign extension constants (api_types.h)\<close>

definition EXT_SIGN_6 :: u64 where "EXT_SIGN_6 = 0xFFFFFFFFFFFFFFE0"
definition EXT_SIGN_8 :: u64 where "EXT_SIGN_8 = 0xFFFFFFFFFFFFFF80"
definition EXT_SIGN_9 :: u64 where "EXT_SIGN_9 = 0xFFFFFFFFFFFFFF00"
definition EXT_SIGN_11 :: u64 where "EXT_SIGN_11 = 0xFFFFFFFFFFFFF800"
definition EXT_SIGN_12 :: u64 where "EXT_SIGN_12 = 0xFFFFFFFFFFFFF000"
definition EXT_SIGN_16 :: u64 where "EXT_SIGN_16 = 0xFFFFFFFFFFFF0000"
definition EXT_SIGN_32 :: u64 where "EXT_SIGN_32 = 0xFFFFFFFF00000000"

lemmas EXT_SIGN_defs = EXT_SIGN_6_def EXT_SIGN_8_def EXT_SIGN_9_def EXT_SIGN_11_def
  EXT_SIGN_12_def EXT_SIGN_16_def EXT_SIGN_32_def

subsection \<open>mstatus, mcause, mie, mip, dcsr, satp, trigger data: bit positions\<close>

definition mstatus_SIE :: "u64 \<Rightarrow> u64" where "mstatus_SIE = getf 1 1"
definition mstatus_MIE :: "u64 \<Rightarrow> u64" where "mstatus_MIE = getf 3 1"
definition mstatus_SPIE :: "u64 \<Rightarrow> u64" where "mstatus_SPIE = getf 5 1"
definition mstatus_MPIE :: "u64 \<Rightarrow> u64" where "mstatus_MPIE = getf 7 1"
definition mstatus_SPP :: "u64 \<Rightarrow> u64" where "mstatus_SPP = getf 8 1"
definition mstatus_MPP :: "u64 \<Rightarrow> u64" where "mstatus_MPP = getf 11 2"
definition mstatus_MPRV :: "u64 \<Rightarrow> u64" where "mstatus_MPRV = getf 17 1"
definition set_SIE :: "u64 \<Rightarrow> u64 \<Rightarrow> u64" where "set_SIE = setf 1 1"
definition set_MIE :: "u64 \<Rightarrow> u64 \<Rightarrow> u64" where "set_MIE = setf 3 1"
definition set_SPIE :: "u64 \<Rightarrow> u64 \<Rightarrow> u64" where "set_SPIE = setf 5 1"
definition set_MPIE :: "u64 \<Rightarrow> u64 \<Rightarrow> u64" where "set_MPIE = setf 7 1"
definition set_SPP :: "u64 \<Rightarrow> u64 \<Rightarrow> u64" where "set_SPP = setf 8 1"
definition set_MPP :: "u64 \<Rightarrow> u64 \<Rightarrow> u64" where "set_MPP = setf 11 2"

lemmas mstatus_defs = mstatus_SIE_def mstatus_MIE_def mstatus_SPIE_def mstatus_MPIE_def
  mstatus_SPP_def mstatus_MPP_def mstatus_MPRV_def set_SIE_def set_MIE_def set_SPIE_def
  set_MPIE_def set_SPP_def set_MPP_def

definition set_mcause_code :: "u64 \<Rightarrow> u64 \<Rightarrow> u64" where "set_mcause_code = setf 0 63"
definition set_mcause_irq :: "u64 \<Rightarrow> u64 \<Rightarrow> u64" where "set_mcause_irq = setf 63 1"
definition mcause_code :: "u64 \<Rightarrow> u64" where "mcause_code = getf 0 63"
definition mcause_irq :: "u64 \<Rightarrow> u64" where "mcause_irq = getf 63 1"

definition mie_MSIE :: "u64 \<Rightarrow> u64" where "mie_MSIE = getf 3 1"
definition mie_MTIE :: "u64 \<Rightarrow> u64" where "mie_MTIE = getf 7 1"
definition mie_MEIE :: "u64 \<Rightarrow> u64" where "mie_MEIE = getf 11 1"
definition set_MSIP :: "u64 \<Rightarrow> u64 \<Rightarrow> u64" where "set_MSIP = setf 3 1"
definition set_MTIP :: "u64 \<Rightarrow> u64 \<Rightarrow> u64" where "set_MTIP = setf 7 1"
definition set_MEIP :: "u64 \<Rightarrow> u64 \<Rightarrow> u64" where "set_MEIP = setf 11 1"

definition dcsr_step :: "u64 \<Rightarrow> u64" where "dcsr_step = getf 2 1"
definition dcsr_cause :: "u64 \<Rightarrow> u64" where "dcsr_cause = getf 6 3"
definition dcsr_ebreakm :: "u64 \<Rightarrow> u64" where "dcsr_ebreakm = getf 15 1"
definition set_dcsr_cause :: "u64 \<Rightarrow> u64 \<Rightarrow> u64" where "set_dcsr_cause = setf 6 3"

text \<open>
  The bit fields of \<open>csr_satp_type\<close> are declared as 44, 9 and 4 bits wide, so \<open>mode\<close>
  starts at bit 53, not at bit 60 as the comment beside it says.
\<close>

definition satp_mode :: "u64 \<Rightarrow> u64" where "satp_mode = getf 53 4"

definition tdata1_type :: "u64 \<Rightarrow> u64" where "tdata1_type = getf 60 4"
definition set_mcontrol_maskmax :: "u64 \<Rightarrow> u64 \<Rightarrow> u64" where
  "set_mcontrol_maskmax = setf 53 6"
definition mcontrol_execute :: "u64 \<Rightarrow> u64" where "mcontrol_execute = getf 2 1"
definition mcontrol_u :: "u64 \<Rightarrow> u64" where "mcontrol_u = getf 3 1"
definition mcontrol_s :: "u64 \<Rightarrow> u64" where "mcontrol_s = getf 4 1"
definition mcontrol_m :: "u64 \<Rightarrow> u64" where "mcontrol_m = getf 6 1"
definition mcontrol_match :: "u64 \<Rightarrow> u64" where "mcontrol_match = getf 7 4"
definition mcontrol_action :: "u64 \<Rightarrow> u64" where "mcontrol_action = getf 12 4"
definition mcontrol_hit :: "u64 \<Rightarrow> u64" where "mcontrol_hit = getf 20 1"
definition set_mcontrol_hit :: "u64 \<Rightarrow> u64 \<Rightarrow> u64" where "set_mcontrol_hit = setf 20 1"
definition icount_u :: "u64 \<Rightarrow> u64" where "icount_u = getf 6 1"
definition icount_s :: "u64 \<Rightarrow> u64" where "icount_s = getf 7 1"
definition icount_m :: "u64 \<Rightarrow> u64" where "icount_m = getf 9 1"
definition icount_count :: "u64 \<Rightarrow> u64" where "icount_count = getf 10 14"
definition set_icount_count :: "u64 \<Rightarrow> u64 \<Rightarrow> u64" where "set_icount_count = setf 10 14"
definition set_icount_hit :: "u64 \<Rightarrow> u64 \<Rightarrow> u64" where "set_icount_hit = setf 24 1"

end
