(* ===== verification/Bus.thy ===== *)
theory Bus
  imports Isa_Formats
begin

section \<open>Transactions, the memory device and the system bus\<close>

text \<open>
  coreservices/imemop.h (\<open>Axi4TransactionType\<close>), common/generic/mem_generic.cpp
  (\<open>MemoryGeneric\<close>) and common/generic/bus_generic.cpp (\<open>BusGeneric\<close>) of debugger/src.
  A memory device owns an array of bytes; an access that runs past the array is undefined
  in C++ and sets the flag \<open>m_oob\<close>.  The bus finds the device of an address through a
  hash table built once by \<open>maphash\<close>; the theory shows that the table answers what a scan
  of all mapped devices would answer.  The DPI co-simulation hook (\<open>idpi_\<close>) is off.
\<close>

subsection \<open>Axi4TransactionType\<close>

datatype EAxi4Action = MemAction_Read | MemAction_Write
datatype EAxi4Response = MemResp_Valid | MemResp_Accepted | MemResp_Error
datatype ETransStatus = TRANS_OK | TRANS_ERROR

record trans =
  action :: EAxi4Action
  response :: EAxi4Response
  xsize :: u32
  wstrb :: u32
  addr :: u64
  rpayload :: u64
  wpayload :: u64
  source_idx :: int

text \<open>\<open>(1 << xsize) - 1\<close>, one strobe bit per byte.\<close>

definition full_wstrb :: "u32 \<Rightarrow> u32" where
  "full_wstrb n = push_bit (unat n) 1 - 1"

text \<open>\<open>memcpy\<close> and \<open>memset\<close> on the eight bytes of a payload.\<close>

definition payload_load :: "(nat \<Rightarrow> u8) \<Rightarrow> nat \<Rightarrow> u64 \<Rightarrow> u64" where
  "payload_load src n w = fold (\<lambda>i. set_byte i (src i)) [0..<n] w"

lemma byte_of_payload_load:
  "n \<le> 8 \<Longrightarrow> byte_of (payload_load src n w) j = (if j < n then src j else byte_of w j)"
proof (induction n)
  case 0
  then show ?case by (simp add: payload_load_def)
next
  case (Suc n)
  then have "byte_of (payload_load src n w) j = (if j < n then src j else byte_of w j)"
    by simp
  moreover have "payload_load src (Suc n) w = set_byte n (src n) (payload_load src n w)"
    by (simp add: payload_load_def)
  ultimately show ?case
    using Suc.prems by (simp add: byte_of_set_byte less_Suc_eq)
qed

lemma payload_load_cong:
  "(\<And>i. i < n \<Longrightarrow> src i = src' i) \<Longrightarrow> payload_load src n w = payload_load src' n w"
  unfolding payload_load_def by (rule fold_cong) auto

subsection \<open>MemoryGeneric\<close>

record memcfg =
  m_base :: u64
  m_length :: nat
  m_readOnly :: bool

record memdev =
  mem :: "nat \<Rightarrow> u8"
  m_oob :: bool

definition mem_off :: "memcfg \<Rightarrow> u64 \<Rightarrow> nat" where
  "mem_off K a = unat (a - m_base K) mod m_length K"

definition in_bounds :: "memcfg \<Rightarrow> nat \<Rightarrow> nat \<Rightarrow> bool" where
  "in_bounds K off n \<longleftrightarrow> off + n \<le> m_length K \<and> n \<le> 8"

definition mem_put :: "nat \<Rightarrow> u64 \<Rightarrow> (nat \<Rightarrow> bool) \<Rightarrow> nat \<Rightarrow> (nat \<Rightarrow> u8) \<Rightarrow> (nat \<Rightarrow> u8)" where
  "mem_put off w strb n f =
     fold (\<lambda>i f. if strb i then f(off + i := byte_of w i) else f) [0..<n] f"

definition mem_b_transport ::
  "memcfg \<Rightarrow> trans \<Rightarrow> memdev \<Rightarrow> ETransStatus \<times> trans \<times> memdev" where
  "mem_b_transport K t d =
     (let off = mem_off K (addr t); n = unat (xsize t);
          t = t\<lparr>response := MemResp_Valid\<rparr>;
          d = (if in_bounds K off n then d else d\<lparr>m_oob := True\<rparr>)
      in case action t of
           MemAction_Write \<Rightarrow>
             if m_readOnly K then (TRANS_OK, t\<lparr>response := MemResp_Error\<rparr>, d)
             else if full_wstrb (xsize t) = wstrb t
               then (TRANS_OK, t, d\<lparr>mem := mem_put off (wpayload t) (\<lambda>i. True) n (mem d)\<rparr>)
               else (TRANS_OK, t, d\<lparr>mem := mem_put off (wpayload t) (bit (wstrb t)) n (mem d)\<rparr>)
         | MemAction_Read \<Rightarrow>
             (TRANS_OK, t\<lparr>rpayload := payload_load (\<lambda>i. mem d (off + i)) n 0\<rparr>, d))"

lemma mem_put_apply:
  "mem_put off w strb n f a
     = (if off \<le> a \<and> a < off + n \<and> strb (a - off) then byte_of w (a - off) else f a)"
proof (induction n)
  case 0
  then show ?case by (auto simp: mem_put_def)
next
  case (Suc n)
  have "mem_put off w strb (Suc n) f
      = (if strb n then (mem_put off w strb n f)(off + n := byte_of w n)
         else mem_put off w strb n f)"
    by (simp add: mem_put_def)
  with Suc.IH show ?case by (auto simp: less_Suc_eq)
qed

text \<open>A full-width write and the byte-by-byte write under the full strobe are the same.\<close>

lemma bit_full_wstrb: "unat n < 32 \<Longrightarrow> bit (full_wstrb n) i \<longleftrightarrow> i < unat n"
  by (auto simp: full_wstrb_def bit_simps simp flip: mask_eq_decr_exp mask_eq_exp_minus_1)

lemma mem_put_full:
  "unat n < 32 \<Longrightarrow> mem_put off w (bit (full_wstrb n)) (unat n) f = mem_put off w (\<lambda>i. True) (unat n) f"
  by (rule ext) (simp add: mem_put_apply bit_full_wstrb less_diff_conv2)

lemma mem_b_transport_status [simp]: "fst (mem_b_transport K t d) = TRANS_OK"
  by (simp add: mem_b_transport_def Let_def split: EAxi4Action.split)

subsection \<open>BusGeneric: mapping\<close>

text \<open>
  A mapped device is known by its index in \<open>imap_\<close>.  \<open>maphash\<close> enters it in every
  bucket from that of its first address to that of the address after its end.
\<close>

record device =
  baseAddress :: u64
  dlength :: u64
  priority :: int

record hash_item =
  nxtlvlena :: bool
  idev :: "nat option"
  devlist :: "nat list"

record busmap =
  addrWidth :: nat
  imap :: "device list"

abbreviation (input) HASH_ADDR_WIDTH :: nat where "HASH_ADDR_WIDTH \<equiv> 14"

definition ADDR_MASK :: "busmap \<Rightarrow> u64" where
  "ADDR_MASK b = push_bit (addrWidth b) 1 - 1"

definition HASH_MASK :: u64 where
  "HASH_MASK = push_bit HASH_ADDR_WIDTH 1 - 1"

definition HASH_LVL1_OFFSET :: "busmap \<Rightarrow> nat" where
  "HASH_LVL1_OFFSET b = addrWidth b - HASH_ADDR_WIDTH"

definition empty_item :: hash_item where
  "empty_item = \<lparr>nxtlvlena = False, idev = None, devlist = []\<rparr>"

definition map_item :: "nat \<Rightarrow> hash_item \<Rightarrow> hash_item" where
  "map_item imem item =
     (if \<not> nxtlvlena item \<and> idev item = None then item\<lparr>idev := Some imem\<rparr>
      else case idev item of
        Some d \<Rightarrow> item\<lparr>nxtlvlena := True, devlist := devlist item @ [d, imem], idev := None\<rparr>
      | None \<Rightarrow> item\<lparr>devlist := devlist item @ [imem]\<rparr>)"

definition first_bucket :: "busmap \<Rightarrow> device \<Rightarrow> nat" where
  "first_bucket b dv = unat (drop_bit (HASH_LVL1_OFFSET b) (baseAddress dv) AND HASH_MASK)"

definition last_bucket :: "busmap \<Rightarrow> device \<Rightarrow> nat" where
  "last_bucket b dv =
     unat (drop_bit (HASH_LVL1_OFFSET b) (baseAddress dv + dlength dv) AND HASH_MASK)"

definition map_device ::
  "busmap \<Rightarrow> nat \<Rightarrow> (nat \<Rightarrow> hash_item) \<Rightarrow> (nat \<Rightarrow> hash_item)" where
  "map_device b i tbl =
     fold (\<lambda>n t. t(n := map_item i (t n)))
       [first_bucket b (imap b ! i)..<Suc (last_bucket b (imap b ! i))] tbl"

definition maphash :: "busmap \<Rightarrow> (nat \<Rightarrow> hash_item) \<Rightarrow> (nat \<Rightarrow> hash_item)" where
  "maphash b tbl = fold (map_device b) [0..<length (imap b)] tbl"

definition covers :: "device \<Rightarrow> u64 \<Rightarrow> bool" where
  "covers dv a \<longleftrightarrow> baseAddress dv \<le> a \<and> a < baseAddress dv + dlength dv"

definition pick :: "busmap \<Rightarrow> u64 \<Rightarrow> nat \<Rightarrow> nat option \<Rightarrow> nat option" where
  "pick b a i pdev =
     (if covers (imap b ! i) a
        \<and> (case pdev of None \<Rightarrow> True
           | Some p \<Rightarrow> priority (imap b ! i) > priority (imap b ! p))
      then Some i else pdev)"

definition hash_index :: "busmap \<Rightarrow> u64 \<Rightarrow> nat" where
  "hash_index b a = unat (drop_bit (HASH_LVL1_OFFSET b) (a AND ADDR_MASK b))"

definition getMapedDevice ::
  "busmap \<Rightarrow> (nat \<Rightarrow> hash_item) \<Rightarrow> u64 \<Rightarrow> nat option" where
  "getMapedDevice b tbl a =
     (let item = tbl (hash_index b a)
      in case idev item of
           Some d \<Rightarrow> Some d
         | None \<Rightarrow> if nxtlvlena item then fold (pick b a) (devlist item) None else None)"

definition bus_b_transport ::
  "busmap \<Rightarrow> (nat \<Rightarrow> hash_item) \<Rightarrow> (nat \<Rightarrow> trans \<Rightarrow> 'm \<Rightarrow> trans \<times> 'm)
     \<Rightarrow> trans \<Rightarrow> 'm \<Rightarrow> ETransStatus \<times> trans \<times> 'm" where
  "bus_b_transport b tbl dev t m =
     (case getMapedDevice b tbl (addr t) of
        None \<Rightarrow> (TRANS_ERROR,
                  t\<lparr>rpayload := payload_load (\<lambda>_. 0xFF) (unat (xsize t)) (rpayload t)\<rparr>, m)
      | Some i \<Rightarrow> (case dev i t m of (t', m') \<Rightarrow> (TRANS_OK, t', m')))"

text \<open>The reference: every mapped device is asked, in the order of the map.\<close>

definition scan_devices :: "busmap \<Rightarrow> u64 \<Rightarrow> nat option" where
  "scan_devices b a = fold (pick b a) [0..<length (imap b)] None"

subsection \<open>BusGeneric: the hash table answers the scan\<close>

definition bucket_item :: "nat list \<Rightarrow> hash_item" where
  "bucket_item ds = (case ds of
       [] \<Rightarrow> empty_item
     | [d] \<Rightarrow> \<lparr>nxtlvlena = False, idev = Some d, devlist = []\<rparr>
     | _ \<Rightarrow> \<lparr>nxtlvlena = True, idev = None, devlist = ds\<rparr>)"

definition in_bucket :: "busmap \<Rightarrow> nat \<Rightarrow> nat \<Rightarrow> bool" where
  "in_bucket b n i \<longleftrightarrow> first_bucket b (imap b ! i) \<le> n \<and> n \<le> last_bucket b (imap b ! i)"

lemma map_item_bucket: "map_item i (bucket_item ds) = bucket_item (ds @ [i])"
  by (auto simp: map_item_def bucket_item_def empty_item_def split: list.splits)

lemma fold_pointwise:
  "distinct ns \<Longrightarrow> fold (\<lambda>n t. t(n := f (t n))) ns t n = (if n \<in> set ns then f (t n) else t n)"
  by (induction ns arbitrary: t) auto

lemma map_device_apply:
  "map_device b i t n = (if in_bucket b n i then map_item i (t n) else t n)"
  unfolding map_device_def in_bucket_def by (subst fold_pointwise) auto

lemma maphash_bucket:
  "fold (map_device b) [0..<k] (\<lambda>_. empty_item) n = bucket_item (filter (in_bucket b n) [0..<k])"
proof (induction k)
  case 0
  show ?case by (simp add: bucket_item_def)
next
  case (Suc k)
  then show ?case by (simp add: map_device_apply map_item_bucket)
qed

lemma fold_filter_id:
  "(\<And>x. x \<in> set xs \<Longrightarrow> \<not> P x \<Longrightarrow> f x = id) \<Longrightarrow> fold f (filter P xs) = fold f xs"
  by (induction xs) auto

text \<open>The devices the platform maps: inside the address space, not wrapping around it.\<close>

definition device_wf :: "busmap \<Rightarrow> device \<Rightarrow> bool" where
  "device_wf b dv \<longleftrightarrow> unat (baseAddress dv) + unat (dlength dv) < 2 ^ addrWidth b"

definition busmap_wf :: "busmap \<Rightarrow> bool" where
  "busmap_wf b \<longleftrightarrow> HASH_ADDR_WIDTH \<le> addrWidth b \<and> addrWidth b < 64 \<and> list_all (device_wf b) (imap b)"

lemma ADDR_MASK_mask: "ADDR_MASK b = mask (addrWidth b)"
  by (simp add: ADDR_MASK_def mask_eq_decr_exp)

lemma HASH_MASK_mask: "HASH_MASK = mask HASH_ADDR_WIDTH"
  by (simp add: HASH_MASK_def mask_eq_decr_exp)

lemma and_ADDR_MASK: "unat a < 2 ^ addrWidth b \<Longrightarrow> a AND ADDR_MASK b = a"
  by (metis ADDR_MASK_mask take_bit_eq_mask take_bit_nat_eq_self unsigned_take_bit_eq word_unat_eq_iff)

lemma unat_bucket:
  fixes a :: u64
  assumes "HASH_ADDR_WIDTH \<le> addrWidth b" and "unat a < 2 ^ addrWidth b"
  shows "unat (drop_bit (HASH_LVL1_OFFSET b) a AND HASH_MASK) = unat a div 2 ^ HASH_LVL1_OFFSET b"
    and "unat (drop_bit (HASH_LVL1_OFFSET b) a) = unat a div 2 ^ HASH_LVL1_OFFSET b"
proof -
  show eq: "unat (drop_bit (HASH_LVL1_OFFSET b) a) = unat a div 2 ^ HASH_LVL1_OFFSET b"
    by (simp add: unat_drop_bit_eq flip: drop_bit_eq_div)
  have "(2::nat) ^ HASH_ADDR_WIDTH * 2 ^ HASH_LVL1_OFFSET b = 2 ^ addrWidth b"
    unfolding HASH_LVL1_OFFSET_def power_add [symmetric] using assms(1) by simp
  with assms(2) have "unat a < 2 ^ HASH_ADDR_WIDTH * 2 ^ HASH_LVL1_OFFSET b"
    by (simp only:)
  then have "unat a div 2 ^ HASH_LVL1_OFFSET b < 2 ^ HASH_ADDR_WIDTH"
    by (simp add: less_mult_imp_div_less)
  with eq have "unat (take_bit HASH_ADDR_WIDTH (drop_bit (HASH_LVL1_OFFSET b) a))
      = unat a div 2 ^ HASH_LVL1_OFFSET b"
    by (simp add: unsigned_take_bit_eq take_bit_nat_eq_self)
  then show "unat (drop_bit (HASH_LVL1_OFFSET b) a AND HASH_MASK) = unat a div 2 ^ HASH_LVL1_OFFSET b"
    by (simp add: HASH_MASK_mask take_bit_eq_mask)
qed

lemma covers_unat:
  assumes "device_wf b dv" and "addrWidth b < 64"
  shows "covers dv a \<longleftrightarrow> unat (baseAddress dv) \<le> unat a \<and> unat a < unat (baseAddress dv) + unat (dlength dv)"
proof -
  have "2 ^ addrWidth b < (2::nat) ^ 64"
    using assms(2) by (rule power_strict_increasing) simp
  with assms(1) have "unat (baseAddress dv) + unat (dlength dv) < 2 ^ 64"
    unfolding device_wf_def by linarith
  then have "unat (baseAddress dv + dlength dv) = unat (baseAddress dv) + unat (dlength dv)"
    by (simp add: unat_word_ariths)
  then show ?thesis
    by (simp add: covers_def word_le_nat_alt word_less_nat_alt)
qed

lemma covers_in_bucket:
  assumes wf: "busmap_wf b" and i: "i < length (imap b)" and cov: "covers (imap b ! i) a"
  shows "in_bucket b (hash_index b a) i"
proof -
  let ?dv = "imap b ! i"
  have w: "HASH_ADDR_WIDTH \<le> addrWidth b" "addrWidth b < 64" and dv: "device_wf b ?dv"
    using wf i by (auto simp: busmap_wf_def list_all_length)
  have e: "unat (baseAddress ?dv) + unat (dlength ?dv) < 2 ^ addrWidth b"
    using dv by (simp add: device_wf_def)
  have "(2::nat) ^ addrWidth b < 2 ^ 64"
    using w(2) by (rule power_strict_increasing) simp
  with e have end': "unat (baseAddress ?dv + dlength ?dv) = unat (baseAddress ?dv) + unat (dlength ?dv)"
    by (simp add: unat_word_ariths)
  have c: "unat (baseAddress ?dv) \<le> unat a" "unat a < unat (baseAddress ?dv) + unat (dlength ?dv)"
    using cov covers_unat [OF dv w(2)] by auto
  have a: "unat a < 2 ^ addrWidth b"
    using c(2) e by linarith
  show ?thesis
    unfolding hash_index_def in_bucket_def first_bucket_def last_bucket_def and_ADDR_MASK [OF a]
    using c e end' unat_bucket [OF w(1), of "baseAddress ?dv"] unat_bucket [OF w(1) a]
      unat_bucket [OF w(1), of "baseAddress ?dv + dlength ?dv"]
    by (auto intro: div_le_mono)
qed

lemma pick_uncovered: "\<not> covers (imap b ! i) a \<Longrightarrow> pick b a i = id"
  by (rule ext) (simp add: pick_def)

lemma getMapedDevice_bucket:
  "getMapedDevice b (maphash b (\<lambda>_. empty_item)) a
     = (let ds = filter (in_bucket b (hash_index b a)) [0..<length (imap b)]
        in case ds of [d] \<Rightarrow> Some d | _ \<Rightarrow> fold (pick b a) ds None)"
  unfolding getMapedDevice_def maphash_def maphash_bucket
  by (simp add: bucket_item_def empty_item_def Let_def split: list.split)

lemma fold_pick_bucket:
  assumes "busmap_wf b"
  shows "fold (pick b a) (filter (in_bucket b (hash_index b a))
            [0..<length (imap b)]) = fold (pick b a) [0..<length (imap b)]"
proof (rule fold_filter_id)
  fix i
  assume "i \<in> set [0..<length (imap b)]" and "\<not> in_bucket b (hash_index b a) i"
  then have "\<not> covers (imap b ! i) a"
    using covers_in_bucket [OF assms] by auto
  then show "pick b a i = id"
    by (rule pick_uncovered)
qed

lemma getMapedDevice_scan:
  assumes wf: "busmap_wf b" and cov: "\<exists>i<length (imap b). covers (imap b ! i) a"
  shows "getMapedDevice b (maphash b (\<lambda>_. empty_item)) a = scan_devices b a"
proof -
  let ?ds = "filter (in_bucket b (hash_index b a))
               [0..<length (imap b)]"
  obtain i where i: "i < length (imap b)" "covers (imap b ! i) a"
    using cov by blast
  then have "i \<in> set ?ds"
    using covers_in_bucket [OF wf] by auto
  then have single: "pick b a d None = Some d" if "?ds = [d]" for d
    using i(2) that by (auto simp: pick_def)
  have "getMapedDevice b (maphash b (\<lambda>_. empty_item)) a = fold (pick b a) ?ds None"
    using single by (simp add: getMapedDevice_bucket Let_def split: list.split)
  then show ?thesis
    by (simp only: fold_pick_bucket [OF wf] scan_devices_def)
qed

end
