(* ===== verification/Cpu_State.thy ===== *)
theory Cpu_State
  imports Bus
begin

section \<open>The state of the functional CPU and what its operations share\<close>

text \<open>
  common/generic/cpu_generic.h (\<open>CpuGeneric\<close>) and cpu_fnc_plugin/cpu_riscv_func.h
  (\<open>CpuRiver_Functional\<close>) of debugger/src: the fields of the two classes as the record
  \<open>cpu\<close>, the services and attributes they are connected to as the record \<open>platform\<close>,
  registers and program counters, the CSRs with the triggers and the physical memory
  protection, the access to the system bus, exceptions and the stack trace buffer.

  \<open>oob\<close> is set where the C++ code would write outside one of its arrays.  The instruction
  cache \<open>icache_\<close> (with \<open>flush\<close>) is left out: \<open>updatePipeline\<close> decodes the fetched word
  again in every step, so its contents reach no other field.
\<close>

subsection \<open>Numbers (icpuriscv.h)\<close>

abbreviation (input) Reg_ra :: nat where "Reg_ra \<equiv> 1"
abbreviation (input) Reg_sp :: nat where "Reg_sp \<equiv> 2"

abbreviation (input) PRV_U :: u64 where "PRV_U \<equiv> 0"
abbreviation (input) PRV_S :: u64 where "PRV_S \<equiv> 1"
abbreviation (input) PRV_H :: u64 where "PRV_H \<equiv> 2"
abbreviation (input) PRV_M :: u64 where "PRV_M \<equiv> 3"

abbreviation (input) EXCEPTION_InstrFault :: nat where "EXCEPTION_InstrFault \<equiv> 1"
abbreviation (input) EXCEPTION_InstrIllegal :: nat where "EXCEPTION_InstrIllegal \<equiv> 2"
abbreviation (input) EXCEPTION_Breakpoint :: nat where "EXCEPTION_Breakpoint \<equiv> 3"
abbreviation (input) EXCEPTION_LoadMisalign :: nat where "EXCEPTION_LoadMisalign \<equiv> 4"
abbreviation (input) EXCEPTION_LoadFault :: nat where "EXCEPTION_LoadFault \<equiv> 5"
abbreviation (input) EXCEPTION_StoreMisalign :: nat where "EXCEPTION_StoreMisalign \<equiv> 6"
abbreviation (input) EXCEPTION_StoreFault :: nat where "EXCEPTION_StoreFault \<equiv> 7"
abbreviation (input) EXCEPTION_CallFromUmode :: nat where "EXCEPTION_CallFromUmode \<equiv> 8"
abbreviation (input) EXCEPTION_CallFromMmode :: nat where "EXCEPTION_CallFromMmode \<equiv> 11"
abbreviation (input) EXCEPTION_StackOverflow :: nat where "EXCEPTION_StackOverflow \<equiv> 16"
abbreviation (input) EXCEPTION_StackUnderflow :: nat where "EXCEPTION_StackUnderflow \<equiv> 17"

abbreviation (input) CSR_mstatus :: u32 where "CSR_mstatus \<equiv> 0x300"
abbreviation (input) CSR_misa :: u32 where "CSR_misa \<equiv> 0x301"
abbreviation (input) CSR_mie :: u32 where "CSR_mie \<equiv> 0x304"
abbreviation (input) CSR_mtvec :: u32 where "CSR_mtvec \<equiv> 0x305"
abbreviation (input) CSR_uepc :: u32 where "CSR_uepc \<equiv> 0x041"
abbreviation (input) CSR_sepc :: u32 where "CSR_sepc \<equiv> 0x141"
abbreviation (input) CSR_satp :: u32 where "CSR_satp \<equiv> 0x180"
abbreviation (input) CSR_hepc :: u32 where "CSR_hepc \<equiv> 0x241"
abbreviation (input) CSR_mepc :: u32 where "CSR_mepc \<equiv> 0x341"
abbreviation (input) CSR_mcause :: u32 where "CSR_mcause \<equiv> 0x342"
abbreviation (input) CSR_mtval :: u32 where "CSR_mtval \<equiv> 0x343"
abbreviation (input) CSR_mip :: u32 where "CSR_mip \<equiv> 0x344"
abbreviation (input) CSR_pmpcfg0 :: u32 where "CSR_pmpcfg0 \<equiv> 0x3A0"
abbreviation (input) CSR_pmpcfg15 :: u32 where "CSR_pmpcfg15 \<equiv> 0x3AF"
abbreviation (input) CSR_pmpaddr0 :: u32 where "CSR_pmpaddr0 \<equiv> 0x3B0"
abbreviation (input) CSR_tselect :: u32 where "CSR_tselect \<equiv> 0x7a0"
abbreviation (input) CSR_tdata1 :: u32 where "CSR_tdata1 \<equiv> 0x7a1"
abbreviation (input) CSR_tdata2 :: u32 where "CSR_tdata2 \<equiv> 0x7a2"
abbreviation (input) CSR_textra :: u32 where "CSR_textra \<equiv> 0x7a3"
abbreviation (input) CSR_tinfo :: u32 where "CSR_tinfo \<equiv> 0x7a4"
abbreviation (input) CSR_dcsr :: u32 where "CSR_dcsr \<equiv> 0x7b0"
abbreviation (input) CSR_dpc :: u32 where "CSR_dpc \<equiv> 0x7b1"
abbreviation (input) CSR_mcycle :: u32 where "CSR_mcycle \<equiv> 0xB00"
abbreviation (input) CSR_minsret :: u32 where "CSR_minsret \<equiv> 0xB02"
abbreviation (input) CSR_mstackovr :: u32 where "CSR_mstackovr \<equiv> 0xBC0"
abbreviation (input) CSR_mstackund :: u32 where "CSR_mstackund \<equiv> 0xBC1"
abbreviation (input) CSR_cycle :: u32 where "CSR_cycle \<equiv> 0xC00"
abbreviation (input) CSR_time :: u32 where "CSR_time \<equiv> 0xC01"
abbreviation (input) CSR_insret :: u32 where "CSR_insret \<equiv> 0xC02"
abbreviation (input) CSR_mvendorid :: u32 where "CSR_mvendorid \<equiv> 0xf11"
abbreviation (input) CSR_marchid :: u32 where "CSR_marchid \<equiv> 0xf12"
abbreviation (input) CSR_mimplementationid :: u32 where "CSR_mimplementationid \<equiv> 0xf13"
abbreviation (input) CSR_mhartid :: u32 where "CSR_mhartid \<equiv> 0xf14"

abbreviation (input) TriggerType_AddrDataMatch :: u64 where "TriggerType_AddrDataMatch \<equiv> 2"
abbreviation (input) TriggerType_InstrCountMatch :: u64 where "TriggerType_InstrCountMatch \<equiv> 3"

abbreviation (input) HALT_CAUSE_EBREAK :: u64 where "HALT_CAUSE_EBREAK \<equiv> 1"
abbreviation (input) HALT_CAUSE_TRIGGER :: u64 where "HALT_CAUSE_TRIGGER \<equiv> 2"
abbreviation (input) HALT_CAUSE_HALTREQ :: u64 where "HALT_CAUSE_HALTREQ \<equiv> 3"
abbreviation (input) HALT_CAUSE_STEP :: u64 where "HALT_CAUSE_STEP \<equiv> 4"

subsection \<open>Records\<close>

datatype ECoreState = CORE_OFF | CORE_Halted | CORE_Normal | CORE_ProgbufExec
datatype EContextTypes = Ctx_Normal | Ctx_ProgbufExec

record TriggerStorageType =
  data1 :: u64
  data2 :: u64
  extra :: u64

record PmpEntryType =
  pmp_ena :: u64
  startadr :: "nat \<Rightarrow> u64"
  endadr :: "nat \<Rightarrow> u64"
  pmp_R :: u64
  pmp_W :: u64
  pmp_X :: u64
  pmp_L :: u64

text \<open>
  \<open>isysbus\<close> is the state of everything behind the system bus.  \<open>PC_\<close> and \<open>NPC_\<close> point into
  \<open>ctxregs_\<close>: the record keeps the selected context.  \<open>progbuf\<close> is read by byte offset.
\<close>

record 'm cpu =
  R :: "nat \<Rightarrow> u64"
  portCSR :: "u32 \<Rightarrow> u64"
  ctx_pc :: "EContextTypes \<Rightarrow> u64"
  ctx_npc :: "EContextTypes \<Rightarrow> u64"
  cur_ctx :: EContextTypes
  cur_prv_level :: u64
  exceptions :: u64
  estate :: ECoreState
  step_cnt :: u64
  branch :: bool
  oplen :: u32
  resumereq :: bool
  resumeack :: bool
  haltreq :: bool
  procbufexecreq :: bool
  progbuf :: "u64 \<Rightarrow> u8"
  cacheline :: u64
  fetch_addr :: u64
  fetch_trans :: trans
  pc_z :: u64
  do_not_cache :: bool
  stackTraceCnt :: u64
  stackTraceBuf :: "nat \<Rightarrow> u64"
  ptriggers :: "nat \<Rightarrow> TriggerStorageType"
  mmuReservatedAddr :: u64
  mmuReservedAddrWatchdog :: nat
  pmpTable :: PmpEntryType
  resetHalted :: bool
  oob :: bool
  isysbus :: 'm

text \<open>
  The services: the bus, the pending queries of CLINT (context, step counter) and PLIC
  (context), the step callbacks that are due (\<open>queue_\<close>).  A pending query is read-only:
  the CLINT brings its \<open>mtime\<close> up to the step counter first, a value any later read
  recomputes.  \<open>stack_garbage\<close> is the value of a payload that was never assigned.
\<close>

record 'm platform =
  b_transport :: "trans \<Rightarrow> 'm \<Rightarrow> ETransStatus \<times> trans \<times> 'm"
  iirqloc :: "u32 \<Rightarrow> u64 \<Rightarrow> 'm \<Rightarrow> u64"
  iirqext :: "u32 \<Rightarrow> 'm \<Rightarrow> u64"
  stepCallbacks :: "u64 \<Rightarrow> 'm \<Rightarrow> 'm"
  hartid :: u32
  vendorid :: u64
  implementationid :: u64
  resetVector :: u64
  pmpTotal :: nat
  triggersTotal :: nat
  mcontrolMaskmax :: nat
  stackTraceSize :: nat
  sysBusWidthBytes :: u32
  sysBusMasterID :: int
  stack_garbage :: u64

type_synonym 'm exec = "'m platform \<Rightarrow> u64 \<Rightarrow> 'm cpu \<Rightarrow> 'm cpu \<times> u32"

subsection \<open>Program counters, registers, stack trace\<close>

definition getPC :: "'m cpu \<Rightarrow> u64" where
  "getPC c = ctx_pc c (cur_ctx c)"

definition setPC :: "u64 \<Rightarrow> 'm cpu \<Rightarrow> 'm cpu" where
  "setPC v c = c\<lparr>ctx_pc := (ctx_pc c)(cur_ctx c := v)\<rparr>"

definition getNPC :: "'m cpu \<Rightarrow> u64" where
  "getNPC c = ctx_npc c (cur_ctx c)"

definition setNPC :: "u64 \<Rightarrow> 'm cpu \<Rightarrow> 'm cpu" where
  "setNPC v c = c\<lparr>ctx_npc := (ctx_npc c)(cur_ctx c := v)\<rparr>"

text \<open>\<open>CpuRiver_Functional::setReg\<close> drops writes to register 0.\<close>

definition setReg :: "nat \<Rightarrow> u64 \<Rightarrow> 'm cpu \<Rightarrow> 'm cpu" where
  "setReg idx val c = (if idx \<noteq> 0 then c\<lparr>R := (R c)(idx := val)\<rparr> else c)"

definition readGPR :: "nat \<Rightarrow> 'm cpu \<Rightarrow> u64" where
  "readGPR regno c = R c regno"

definition writeGPR :: "nat \<Rightarrow> u64 \<Rightarrow> 'm cpu \<Rightarrow> 'm cpu" where
  "writeGPR regno val c = c\<lparr>R := (R c)(regno := val)\<rparr>"

definition setBranch :: "u64 \<Rightarrow> 'm cpu \<Rightarrow> 'm cpu" where
  "setBranch npc c = setNPC npc (c\<lparr>branch := True\<rparr>)"

definition pushStackTrace :: "'m platform \<Rightarrow> 'm cpu \<Rightarrow> 'm cpu" where
  "pushStackTrace P c =
     (let cnt = unat (stackTraceCnt c)
      in if cnt \<ge> stackTraceSize P then c
         else c\<lparr>stackTraceBuf := (stackTraceBuf c)(2 * cnt := getPC c, 2 * cnt + 1 := getNPC c),
                stackTraceCnt := of_nat (cnt + 1)\<rparr>)"

definition popStackTrace :: "'m cpu \<Rightarrow> 'm cpu" where
  "popStackTrace c =
     (let cnt = stackTraceCnt c
      in if cnt \<noteq> 0 then c\<lparr>stackTraceCnt := cnt - 1\<rparr> else c)"

definition mmuAddrReserve :: "u64 \<Rightarrow> 'm cpu \<Rightarrow> 'm cpu" where
  "mmuAddrReserve a c = c\<lparr>mmuReservatedAddr := a, mmuReservedAddrWatchdog := 64\<rparr>"

definition mmuAddrRelease :: "u64 \<Rightarrow> 'm cpu \<Rightarrow> bool \<times> 'm cpu" where
  "mmuAddrRelease a c =
     (if mmuReservedAddrWatchdog c \<noteq> 0 \<and> mmuReservatedAddr c = a
      then (True, c\<lparr>mmuReservedAddrWatchdog := 0\<rparr>) else (False, c))"

definition isHalted :: "'m cpu \<Rightarrow> bool" where
  "isHalted c \<longleftrightarrow> estate c = CORE_OFF \<or> estate c = CORE_Halted"

subsection \<open>Physical memory protection table\<close>

text \<open>
  The table has 64 entries.  A shift by 64 or more and a store past \<open>startadr[63]\<close> are
  undefined: the model sets \<open>oob\<close> and leaves the table.
\<close>

abbreviation (input) PMP_ENTRIES_MAX :: nat where "PMP_ENTRIES_MAX \<equiv> 64"

definition bit1 :: "nat \<Rightarrow> u64" where
  "bit1 i = push_bit i 1"

definition disablePmp :: "nat \<Rightarrow> 'm cpu \<Rightarrow> 'm cpu" where
  "disablePmp i c =
     (if i \<ge> PMP_ENTRIES_MAX then c\<lparr>oob := True\<rparr>
      else c\<lparr>pmpTable := (pmpTable c)\<lparr>pmp_ena := pmp_ena (pmpTable c) AND NOT (bit1 i)\<rparr>\<rparr>)"

definition put_flag :: "nat \<Rightarrow> bool \<Rightarrow> u64 \<Rightarrow> u64" where
  "put_flag i on w = (let w = w AND NOT (bit1 i) in if on then w OR bit1 i else w)"

definition enablePmp :: "nat \<Rightarrow> u64 \<Rightarrow> u64 \<Rightarrow> u64 \<Rightarrow> u64 \<Rightarrow> 'm cpu \<Rightarrow> 'm cpu" where
  "enablePmp i startadr' endadr' rwx lock c =
     (if i \<ge> PMP_ENTRIES_MAX then c\<lparr>oob := True\<rparr>
      else let t = pmpTable c
        in c\<lparr>pmpTable := t\<lparr>pmp_ena := pmp_ena t OR bit1 i,
              startadr := (startadr t)(i := startadr'),
              endadr := (endadr t)(i := endadr'),
              pmp_R := put_flag i (truth (rwx AND 1)) (pmp_R t),
              pmp_W := put_flag i (truth (rwx AND 2)) (pmp_W t),
              pmp_X := put_flag i (truth (rwx AND 4)) (pmp_X t),
              pmp_L := put_flag i (truth lock) (pmp_L t)\<rparr>\<rparr>)"

datatype access = Acc_x | Acc_r | Acc_w

text \<open>\<open>checkMpu\<close>: the lowest enabled entry that holds the address decides.\<close>

fun checkMpu_from :: "PmpEntryType \<Rightarrow> u64 \<Rightarrow> access \<Rightarrow> nat list \<Rightarrow> bool" where
  "checkMpu_from t adr rwx [] = False"
| "checkMpu_from t adr rwx (i # is) =
     (if pmp_ena t AND bit1 i = 0 then checkMpu_from t adr rwx is
      else if adr < startadr t i \<or> adr > endadr t i then checkMpu_from t adr rwx is
      else case rwx of
             Acc_x \<Rightarrow> truth (pmp_X t AND bit1 i)
           | Acc_r \<Rightarrow> truth (pmp_R t AND bit1 i)
           | Acc_w \<Rightarrow> truth (pmp_W t AND bit1 i))"

definition checkMpu :: "'m platform \<Rightarrow> u64 \<Rightarrow> u32 \<Rightarrow> access \<Rightarrow> 'm cpu \<Rightarrow> bool" where
  "checkMpu P adr sz rwx c = checkMpu_from (pmpTable c) adr rwx [0..<pmpTotal P]"

text \<open>The NAPOT loop of \<open>writeCSR\<close>: the trailing ones of the address give the size.\<close>

function napot_loop :: "u64 \<Rightarrow> u64 \<Rightarrow> u64 \<times> u64" where
  "napot_loop a bitidx =
     (if a AND bitidx \<noteq> 0 \<and> bitidx \<noteq> 0
      then napot_loop (a AND NOT bitidx) (push_bit 1 bitidx) else (a, bitidx))"
  by auto

lemma and_not_less:
  fixes a b :: "'a::len word"
  assumes "a AND b \<noteq> 0"
  shows "unat (a AND NOT b) < unat a"
proof -
  have "(a AND NOT b) AND b = 0"
    by (simp add: and.assoc)
  then have "a AND NOT b \<noteq> a"
    using assms by metis
  moreover have "a AND NOT b \<le> a"
    by (rule word_and_le2)
  ultimately show ?thesis
    by (metis order.not_eq_order_implies_strict word_less_nat_alt)
qed

termination napot_loop
  by (relation "measure (\<lambda>(a, b). unat a)") (auto simp: and_not_less)

declare napot_loop.simps [simp del]

subsection \<open>Control and status registers\<close>

definition mip_value :: "'m platform \<Rightarrow> 'm cpu \<Rightarrow> u64" where
  "mip_value P c =
     (let mip = 0;
          mip = set_MSIP (iirqloc P (2 * hartid P) (step_cnt c) (isysbus c)) mip;
          mip = set_MTIP (iirqloc P (2 * hartid P + 1) (step_cnt c) (isysbus c)) mip;
          mip = set_MEIP (of_bool (iirqext P (hartid P) (isysbus c) \<noteq> 0)) mip
      in mip)"

definition readCSR :: "'m platform \<Rightarrow> u32 \<Rightarrow> 'm cpu \<Rightarrow> u64" where
  "readCSR P regno c =
     (if regno = CSR_mcycle then step_cnt c
      else if regno = CSR_minsret then step_cnt c
      else if regno = CSR_cycle then step_cnt c
      else if regno = CSR_time then step_cnt c
      else if regno = CSR_insret then step_cnt c
      else if regno = CSR_dpc then (if \<not> isHalted c then getNPC c else portCSR c regno)
      else if regno = CSR_tdata1 then data1 (ptriggers c (unat (portCSR c CSR_tselect)))
      else if regno = CSR_tdata2 then data2 (ptriggers c (unat (portCSR c CSR_tselect)))
      else if regno = CSR_textra then extra (ptriggers c (unat (portCSR c CSR_tselect)))
      else if regno = CSR_tinfo then bit1 2 OR bit1 3 OR bit1 4 OR bit1 5
      else if regno = CSR_mip then mip_value P c
      else portCSR c regno)"

text \<open>\<open>pmpcfg\<close>: entry \<open>i\<close> of a configuration register whose first entry is \<open>pmpidx\<close>.\<close>

definition pmp_write_entry :: "u64 \<Rightarrow> nat \<Rightarrow> nat \<Rightarrow> 'm cpu \<Rightarrow> 'm cpu" where
  "pmp_write_entry val pmpidx i c =
     (let mask54 = push_bit 54 1 - 1;
          pmpcfg = drop_bit (8 * i) val AND 0xFF;
          RWX = pmpcfg AND 7;
          A = drop_bit 3 pmpcfg AND 3;
          L = drop_bit 7 pmpcfg AND 1;
          pmpaddr = (\<lambda>n. portCSR c (CSR_pmpaddr0 + of_nat n) AND mask54)
      in if A = 0 then disablePmp (pmpidx + i) c
         else if A = 1 then
           let endaddr = pmpaddr (pmpidx + i) - 1;
               startaddr = (if pmpidx \<noteq> 0 then pmpaddr (pmpidx + i - 1) else 0)
           in enablePmp (pmpidx + i) startaddr endaddr RWX L c
         else if A = 2 then
           let startaddr = push_bit 2 (pmpaddr (pmpidx + i))
           in enablePmp (pmpidx + i) startaddr (startaddr + 3) RWX L c
         else
           let startaddr = pmpaddr (pmpidx + i)
           in if startaddr = mask54 then enablePmp (pmpidx + i) 0 (NOT 0) RWX L c
              else case napot_loop startaddr 1 of (startaddr, bitidx) \<Rightarrow>
                let startaddr = push_bit 2 startaddr
                in enablePmp (pmpidx + i) startaddr (startaddr + 8 * bitidx - 1) RWX L c)"

definition write_pmpcfg :: "u32 \<Rightarrow> u64 \<Rightarrow> 'm cpu \<Rightarrow> 'm cpu" where
  "write_pmpcfg regno val c =
     (let pmpidx = unat (8 * (regno - (CSR_pmpcfg0 AND NOT 1)));
          (pmptot, pmpidx) = (if CSR_pmpcfg0 AND 1 \<noteq> 0 then (4, pmpidx + 4) else (8::nat, pmpidx))
      in fold (pmp_write_entry val pmpidx) [0..<pmptot] c)"

definition read_only_CSRs :: "u32 set" where
  "read_only_CSRs = {CSR_misa, CSR_mvendorid, CSR_marchid, CSR_mimplementationid, CSR_mhartid,
     CSR_mcycle, CSR_minsret, CSR_cycle, CSR_time, CSR_insret}"

definition write_trigger ::
  "'m platform \<Rightarrow> (TriggerStorageType \<Rightarrow> TriggerStorageType) \<Rightarrow> 'm cpu \<Rightarrow> 'm cpu" where
  "write_trigger P f c =
     (let trigidx = unat (portCSR c CSR_tselect)
      in if trigidx \<ge> triggersTotal P then c\<lparr>oob := True\<rparr>
         else c\<lparr>ptriggers := (ptriggers c)(trigidx := f (ptriggers c trigidx))\<rparr>)"

definition portCSR_write :: "u32 \<Rightarrow> u64 \<Rightarrow> 'm cpu \<Rightarrow> 'm cpu" where
  "portCSR_write regno val c = c\<lparr>portCSR := (portCSR c)(regno := val)\<rparr>"

definition writeCSR :: "'m platform \<Rightarrow> u32 \<Rightarrow> u64 \<Rightarrow> 'm cpu \<Rightarrow> 'm cpu" where
  "writeCSR P regno val c =
     (if regno \<in> read_only_CSRs then c
      else if regno = CSR_tselect then
        portCSR_write regno (if val > of_nat (triggersTotal P) then of_nat (triggersTotal P) else val) c
      else if regno = CSR_tdata1 then
        portCSR_write regno
          (if tdata1_type val = TriggerType_AddrDataMatch
           then set_mcontrol_maskmax (of_nat (mcontrolMaskmax P)) val else val)
          (write_trigger P (\<lambda>t. t\<lparr>data1 := val\<rparr>) c)
      else if regno = CSR_tdata2 then
        portCSR_write regno val (write_trigger P (\<lambda>t. t\<lparr>data2 := val\<rparr>) c)
      else if regno = CSR_textra then
        portCSR_write regno val (write_trigger P (\<lambda>t. t\<lparr>extra := val\<rparr>) c)
      else if CSR_pmpcfg0 \<le> regno \<and> regno \<le> CSR_pmpcfg15 then
        portCSR_write regno val (write_pmpcfg regno val c)
      else portCSR_write regno val c)"

subsection \<open>Exceptions and the access to the system bus\<close>

text \<open>
  \<open>CpuRiver_Functional::generateException\<close> writes \<open>mtval\<close> and marks the exception pending.
\<close>

definition generateException :: "'m platform \<Rightarrow> nat \<Rightarrow> u64 \<Rightarrow> 'm cpu \<Rightarrow> 'm cpu" where
  "generateException P e arg c =
     (let c = writeCSR P CSR_mtval arg c in c\<lparr>exceptions := exceptions c OR bit1 e\<rparr>)"

definition isMpuEnabled :: "'m platform \<Rightarrow> 'm cpu \<Rightarrow> bool" where
  "isMpuEnabled P c =
     (if cur_prv_level c \<noteq> PRV_M then True
      else let mstatus = readCSR P CSR_mstatus c
        in truth (mstatus_MPRV mstatus) \<and> mstatus_MPP mstatus \<noteq> PRV_M)"

definition isMmuEnabled :: "'m platform \<Rightarrow> 'm cpu \<Rightarrow> bool" where
  "isMmuEnabled P c =
     (let prv = cur_prv_level c; satp = readCSR P CSR_satp c
      in if prv \<noteq> PRV_M \<and> truth (satp_mode satp) then True
         else let mstatus = readCSR P CSR_mstatus c
           in truth (mstatus_MPRV mstatus) \<and> mstatus_MPP mstatus \<noteq> PRV_M \<and> truth (satp_mode satp))"

definition translateMmu :: "u64 \<Rightarrow> u64" where
  "translateMmu va = (if drop_bit 48 va \<noteq> 0xFFFF then va else va)"

text \<open>
  A transaction wider than the bus goes out in pieces of the bus width.  The bus width of
  a platform is positive (with a zero width the loop of the source does not end).
\<close>

definition dma_piece ::
  "'m platform \<Rightarrow> nat \<Rightarrow> nat \<Rightarrow> ETransStatus \<times> trans \<times> trans \<times> 'm
     \<Rightarrow> ETransStatus \<times> trans \<times> trans \<times> 'm" where
  "dma_piece P minsz i = (\<lambda>(ret, tr, tr1, m).
     let tr1 = tr1\<lparr>addr := addr tr + of_nat i\<rparr>;
         tr1 = (if action tr = MemAction_Write
                then tr1\<lparr>wpayload :=
                   payload_load (\<lambda>k. byte_of (wpayload tr) (i + k)) minsz (wpayload tr1)\<rparr>
                else tr1)
     in case b_transport P tr1 m of (ret, tr1, m) \<Rightarrow>
          (ret,
           if action tr = MemAction_Read
           then tr\<lparr>rpayload := fold (\<lambda>k. set_byte (i + k) (byte_of (rpayload tr1) k))
                                [0..<minsz] (rpayload tr)\<rparr>
           else tr,
           tr1, m))"

definition dma_split :: "'m platform \<Rightarrow> trans \<Rightarrow> 'm \<Rightarrow> ETransStatus \<times> trans \<times> 'm" where
  "dma_split P tr m =
     (let minsz = unat (sysBusWidthBytes P);
          tr1 = tr\<lparr>xsize := sysBusWidthBytes P, wstrb := full_wstrb (sysBusWidthBytes P)\<rparr>;
          pieces = (unat (xsize tr) + minsz - 1) div minsz
      in case fold (\<lambda>k. dma_piece P minsz (k * minsz)) [0..<pieces] (TRANS_OK, tr, tr1, m) of
           (ret, tr, tr1, m) \<Rightarrow> (ret, tr, m))"

definition dma_allowed :: "'m platform \<Rightarrow> trans \<Rightarrow> bool \<Rightarrow> 'm cpu \<Rightarrow> bool" where
  "dma_allowed P tr xflag c =
     (isMpuEnabled P c \<longrightarrow>
       (if xflag then checkMpu P (addr tr) (xsize tr) Acc_x c
        else if action tr = MemAction_Write then checkMpu P (addr tr) (xsize tr) Acc_w c
        else checkMpu P (addr tr) (xsize tr) Acc_r c))"

definition dma_memop ::
  "'m platform \<Rightarrow> trans \<Rightarrow> bool \<Rightarrow> 'm cpu \<Rightarrow> ETransStatus \<times> trans \<times> 'm cpu" where
  "dma_memop P tr xflag c =
     (let tr = tr\<lparr>source_idx := sysBusMasterID P\<rparr>;
          tr = (if isMmuEnabled P c then tr\<lparr>addr := translateMmu (addr tr)\<rparr> else tr)
      in if \<not> dma_allowed P tr xflag c then (TRANS_ERROR, tr, c)
         else if xsize tr \<le> sysBusWidthBytes P
           then case b_transport P tr (isysbus c) of (ret, tr, m) \<Rightarrow> (ret, tr, c\<lparr>isysbus := m\<rparr>)
           else case dma_split P tr (isysbus c) of (ret, tr, m) \<Rightarrow> (ret, tr, c\<lparr>isysbus := m\<rparr>))"

subsection \<open>Accesses of the load and store instructions\<close>

text \<open>
  What the load instructions share: the transaction is read unless the address is
  misaligned (\<open>amask\<close>; 0 where the source does not check), an error raises the fault with
  the address of the transaction.  The result is the payload left in the transaction,
  \<open>init\<close> being its content before the access.
\<close>

definition new_trans :: "'m platform \<Rightarrow> EAxi4Action \<Rightarrow> u64 \<Rightarrow> u32 \<Rightarrow> trans" where
  "new_trans P act a sz = \<lparr>action = act, response = MemResp_Valid, xsize = sz,
     wstrb = (case act of MemAction_Write \<Rightarrow> full_wstrb sz | MemAction_Read \<Rightarrow> 0),
     addr = a, rpayload = stack_garbage P, wpayload = stack_garbage P, source_idx = 0\<rparr>"

definition load_access ::
  "'m platform \<Rightarrow> u64 \<Rightarrow> u32 \<Rightarrow> u64 \<Rightarrow> u64 \<Rightarrow> 'm cpu \<Rightarrow> u64 \<times> 'm cpu" where
  "load_access P a sz amask init c =
     (let trans = (new_trans P MemAction_Read a sz)\<lparr>rpayload := init\<rparr>
      in if a AND amask \<noteq> 0 then (0, generateException P EXCEPTION_LoadMisalign (getPC c) c)
         else case dma_memop P trans False c of (ret, trans, c) \<Rightarrow>
           (rpayload trans,
            if ret = TRANS_ERROR then generateException P EXCEPTION_LoadFault (addr trans) c else c))"

definition store_access ::
  "'m platform \<Rightarrow> u64 \<Rightarrow> u32 \<Rightarrow> u64 \<Rightarrow> u64 \<Rightarrow> 'm cpu \<Rightarrow> 'm cpu" where
  "store_access P a sz amask val c =
     (let trans = (new_trans P MemAction_Write a sz)\<lparr>wpayload := val\<rparr>
      in if a AND amask \<noteq> 0 then generateException P EXCEPTION_StoreMisalign (getPC c) c
         else case dma_memop P trans False c of (ret, trans, c) \<Rightarrow>
           if ret = TRANS_ERROR then generateException P EXCEPTION_StoreFault (addr trans) c else c)"

end
