(* ===== verification/Isa_I.thy ===== *)
theory Isa_I
  imports Cpu_State
begin

section \<open>RV64I: the base integer instructions\<close>

text \<open>
  cpu_fnc_plugin/riscv-rv64i-user.cpp.  One function \<open>NAME_exec\<close> for the method \<open>exec\<close> of
  each instruction class: it gets the platform, the fetched payload and the CPU and
  returns the CPU and the length of the instruction in bytes.  The decoders of immediates
  that the classes repeat are the definitions below.  The second half says what the
  immediates and the 32-bit results are as integers.
\<close>

abbreviation buf32 :: "u64 \<Rightarrow> u32" where "buf32 payload \<equiv> ucast payload"
abbreviation buf16 :: "u64 \<Rightarrow> u16" where "buf16 payload \<equiv> ucast payload"
abbreviation Rx :: "'m cpu \<Rightarrow> u32 \<Rightarrow> u64" where "Rx c i \<equiv> R c (unat i)"
abbreviation setRx :: "u32 \<Rightarrow> u64 \<Rightarrow> 'm cpu \<Rightarrow> 'm cpu" where "setRx i v c \<equiv> setReg (unat i) v c"

text \<open>\<open>if (imm & 0x800) imm |= EXT_SIGN_12;\<close> and the same idiom at other widths.\<close>

definition sext12 :: "u64 \<Rightarrow> u64" where
  "sext12 imm = (if imm AND 0x800 \<noteq> 0 then imm OR EXT_SIGN_12 else imm)"
definition sext32 :: "u64 \<Rightarrow> u64" where
  "sext32 res = (if res AND bit1 31 \<noteq> 0 then res OR EXT_SIGN_32 else res)"
definition sext16 :: "u64 \<Rightarrow> u64" where
  "sext16 res = (if res AND bit1 15 \<noteq> 0 then res OR EXT_SIGN_16 else res)"
definition sext8 :: "u64 \<Rightarrow> u64" where
  "sext8 res = (if res AND bit1 7 \<noteq> 0 then res OR EXT_SIGN_8 else res)"

definition I_simm :: "u32 \<Rightarrow> u64" where
  "I_simm u = sext12 (ucast (I_imm u))"

definition S_simm :: "u32 \<Rightarrow> u64" where
  "S_simm u = sext12 (ucast (push_bit 5 (S_imm11_5 u) OR S_imm4_0 u))"

definition SB_simm :: "u32 \<Rightarrow> u64" where
  "SB_simm u =
     (let imm = ucast (push_bit 12 (SB_imm12 u) OR push_bit 11 (SB_imm11 u)
                  OR push_bit 5 (SB_imm10_5 u) OR push_bit 1 (SB_imm4_1 u))
      in if truth (SB_imm12 u) then imm OR EXT_SIGN_12 else imm)"

text \<open>The shifted field is a (possibly negative) \<open>int\<close> that is widened to 64 bits.\<close>

definition U_simm :: "u32 \<Rightarrow> u64" where
  "U_simm u = sext32 (scast (push_bit 12 (U_imm31_12 u)))"

definition UJ_simm :: "u32 \<Rightarrow> u64" where
  "UJ_simm u =
     (let off = (if truth (UJ_imm20 u) then 0xfffffffffff00000 else 0);
          off = off OR ucast (push_bit 12 (UJ_imm19_12 u));
          off = off OR ucast (push_bit 11 (UJ_imm11 u));
          off = off OR ucast (push_bit 1 (UJ_imm10_1 u))
      in off)"

abbreviation low32 :: "u64 \<Rightarrow> u64" where "low32 w \<equiv> w AND 0xFFFFFFFF"

subsection \<open>Arithmetic, logic and comparison\<close>

definition ADD_exec :: "'m exec" where [exec_defs]:
  "ADD_exec P payload c =
     (let u = buf32 payload
      in (setRx (R_rd u) (Rx c (R_rs1 u) + Rx c (R_rs2 u)) c, 4))"

definition ADDI_exec :: "'m exec" where [exec_defs]:
  "ADDI_exec P payload c =
     (let u = buf32 payload
      in (setRx (I_rd u) (Rx c (I_rs1 u) + I_simm u) c, 4))"

definition ADDIW_exec :: "'m exec" where [exec_defs]:
  "ADDIW_exec P payload c =
     (let u = buf32 payload
      in (setRx (I_rd u) (sext32 (low32 (Rx c (I_rs1 u) + I_simm u))) c, 4))"

definition ADDW_exec :: "'m exec" where [exec_defs]:
  "ADDW_exec P payload c =
     (let u = buf32 payload
      in (setRx (R_rd u) (sext32 (low32 (Rx c (R_rs1 u) + Rx c (R_rs2 u)))) c, 4))"

definition AND_exec :: "'m exec" where [exec_defs]:
  "AND_exec P payload c =
     (let u = buf32 payload
      in (setRx (R_rd u) (Rx c (R_rs1 u) AND Rx c (R_rs2 u)) c, 4))"

definition ANDI_exec :: "'m exec" where [exec_defs]:
  "ANDI_exec P payload c =
     (let u = buf32 payload
      in (setRx (I_rd u) (Rx c (I_rs1 u) AND I_simm u) c, 4))"

definition AUIPC_exec :: "'m exec" where [exec_defs]:
  "AUIPC_exec P payload c =
     (let u = buf32 payload
      in (setRx (U_rd u) (getPC c + U_simm u) c, 4))"

definition LUI_exec :: "'m exec" where [exec_defs]:
  "LUI_exec P payload c =
     (let u = buf32 payload
      in (setRx (U_rd u) (U_simm u) c, 4))"

definition OR_exec :: "'m exec" where [exec_defs]:
  "OR_exec P payload c =
     (let u = buf32 payload
      in (setRx (R_rd u) (Rx c (R_rs1 u) OR Rx c (R_rs2 u)) c, 4))"

definition ORI_exec :: "'m exec" where [exec_defs]:
  "ORI_exec P payload c =
     (let u = buf32 payload
      in (setRx (I_rd u) (Rx c (I_rs1 u) OR I_simm u) c, 4))"

definition SLT_exec :: "'m exec" where [exec_defs]:
  "SLT_exec P payload c =
     (let u = buf32 payload
      in (setRx (R_rd u) (if Rx c (R_rs1 u) <s Rx c (R_rs2 u) then 1 else 0) c, 4))"

definition SLTI_exec :: "'m exec" where [exec_defs]:
  "SLTI_exec P payload c =
     (let u = buf32 payload
      in (setRx (I_rd u) (if Rx c (I_rs1 u) <s I_simm u then 1 else 0) c, 4))"

definition SLTU_exec :: "'m exec" where [exec_defs]:
  "SLTU_exec P payload c =
     (let u = buf32 payload
      in (setRx (R_rd u) (if Rx c (R_rs1 u) < Rx c (R_rs2 u) then 1 else 0) c, 4))"

definition SLTIU_exec :: "'m exec" where [exec_defs]:
  "SLTIU_exec P payload c =
     (let u = buf32 payload
      in (setRx (I_rd u) (if Rx c (I_rs1 u) < I_simm u then 1 else 0) c, 4))"

definition SUB_exec :: "'m exec" where [exec_defs]:
  "SUB_exec P payload c =
     (let u = buf32 payload
      in (setRx (R_rd u) (Rx c (R_rs1 u) - Rx c (R_rs2 u)) c, 4))"

definition SUBW_exec :: "'m exec" where [exec_defs]:
  "SUBW_exec P payload c =
     (let u = buf32 payload
      in (setRx (R_rd u) (sext32 (low32 (Rx c (R_rs1 u) - Rx c (R_rs2 u)))) c, 4))"

definition XOR_exec :: "'m exec" where [exec_defs]:
  "XOR_exec P payload c =
     (let u = buf32 payload
      in (setRx (R_rd u) (Rx c (R_rs1 u) XOR Rx c (R_rs2 u)) c, 4))"

definition XORI_exec :: "'m exec" where [exec_defs]:
  "XORI_exec P payload c =
     (let u = buf32 payload
      in (setRx (I_rd u) (Rx c (I_rs1 u) XOR I_simm u) c, 4))"

subsection \<open>Shifts\<close>

definition SLL_exec :: "'m exec" where [exec_defs]:
  "SLL_exec P payload c =
     (let u = buf32 payload
      in (setRx (R_rd u) (push_bit (unat (Rx c (R_rs2 u) AND 0x3F)) (Rx c (R_rs1 u))) c, 4))"

definition SLLI_exec :: "'m exec" where [exec_defs]:
  "SLLI_exec P payload c =
     (let u = buf32 payload
      in (setRx (I_rd u) (push_bit (unat (I_imm u AND 0x3f)) (Rx c (I_rs1 u))) c, 4))"

definition SLLW_exec :: "'m exec" where [exec_defs]:
  "SLLW_exec P payload c =
     (let u = buf32 payload
      in (setRx (R_rd u) (sext32 (low32 (push_bit (unat (Rx c (R_rs2 u) AND 0x1F)) (Rx c (R_rs1 u))))) c, 4))"

definition SLLIW_exec :: "'m exec" where [exec_defs]:
  "SLLIW_exec P payload c =
     (let u = buf32 payload
      in case setRx (I_rd u) (sext32 (low32 (push_bit (unat (I_imm u AND 0x1f)) (Rx c (I_rs1 u))))) c of c \<Rightarrow>
          (if truth (drop_bit 5 (I_imm u) AND 1)
           then generateException P EXCEPTION_InstrIllegal (getPC c) c else c, 4))"

definition SRA_exec :: "'m exec" where [exec_defs]:
  "SRA_exec P payload c =
     (let u = buf32 payload
      in (setRx (R_rd u) (signed_drop_bit (unat (Rx c (R_rs2 u) AND 0x3F)) (Rx c (R_rs1 u))) c, 4))"

definition SRAW_exec :: "'m exec" where [exec_defs]:
  "SRAW_exec P payload c =
     (let u = buf32 payload
      in (setRx (R_rd u) (scast (signed_drop_bit (unat (Rx c (R_rs2 u) AND 0x1F)) (ucast (Rx c (R_rs1 u)) :: u32))) c, 4))"

definition SRAI_exec :: "'m exec" where [exec_defs]:
  "SRAI_exec P payload c =
     (let u = buf32 payload
      in (setRx (I_rd u) (signed_drop_bit (unat (I_imm u AND 0x3f)) (Rx c (I_rs1 u))) c, 4))"

definition SRAIW_exec :: "'m exec" where [exec_defs]:
  "SRAIW_exec P payload c =
     (let u = buf32 payload
      in case setRx (I_rd u) (scast (signed_drop_bit (unat (I_imm u AND 0x1f)) (ucast (Rx c (I_rs1 u)) :: u32))) c of c \<Rightarrow>
          (if truth (drop_bit 5 (I_imm u) AND 1)
           then generateException P EXCEPTION_InstrIllegal (getPC c) c else c, 4))"

definition SRL_exec :: "'m exec" where [exec_defs]:
  "SRL_exec P payload c =
     (let u = buf32 payload
      in (setRx (R_rd u) (drop_bit (unat (Rx c (R_rs2 u) AND 0x3F)) (Rx c (R_rs1 u))) c, 4))"

definition SRLI_exec :: "'m exec" where [exec_defs]:
  "SRLI_exec P payload c =
     (let u = buf32 payload
      in (setRx (I_rd u) (drop_bit (unat (I_imm u AND 0x3f)) (Rx c (I_rs1 u))) c, 4))"

definition SRLIW_exec :: "'m exec" where [exec_defs]:
  "SRLIW_exec P payload c =
     (let u = buf32 payload
      in (setRx (I_rd u) (scast (drop_bit (unat (I_imm u AND 0x1f)) (ucast (Rx c (I_rs1 u)) :: u32))) c, 4))"

definition SRLW_exec :: "'m exec" where [exec_defs]:
  "SRLW_exec P payload c =
     (let u = buf32 payload
      in (setRx (R_rd u) (sext32 (low32 (ucast (drop_bit (unat (Rx c (R_rs2 u) AND 0x1f)) (ucast (Rx c (R_rs1 u)) :: u32))))) c, 4))"

subsection \<open>Branches and jumps\<close>

definition BEQ_exec :: "'m exec" where [exec_defs]:
  "BEQ_exec P payload c =
     (let u = buf32 payload
      in (if Rx c (SB_rs1 u) = Rx c (SB_rs2 u) then setBranch (getPC c + SB_simm u) c else c, 4))"

definition BGE_exec :: "'m exec" where [exec_defs]:
  "BGE_exec P payload c =
     (let u = buf32 payload
      in (if Rx c (SB_rs2 u) <=s Rx c (SB_rs1 u) then setBranch (getPC c + SB_simm u) c else c, 4))"

definition BGEU_exec :: "'m exec" where [exec_defs]:
  "BGEU_exec P payload c =
     (let u = buf32 payload
      in (if Rx c (SB_rs1 u) \<ge> Rx c (SB_rs2 u) then setBranch (getPC c + SB_simm u) c else c, 4))"

definition BLT_exec :: "'m exec" where [exec_defs]:
  "BLT_exec P payload c =
     (let u = buf32 payload
      in (if Rx c (SB_rs1 u) <s Rx c (SB_rs2 u) then setBranch (getPC c + SB_simm u) c else c, 4))"

definition BLTU_exec :: "'m exec" where [exec_defs]:
  "BLTU_exec P payload c =
     (let u = buf32 payload
      in (if Rx c (SB_rs1 u) < Rx c (SB_rs2 u) then setBranch (getPC c + SB_simm u) c else c, 4))"

definition BNE_exec :: "'m exec" where [exec_defs]:
  "BNE_exec P payload c =
     (let u = buf32 payload
      in (if Rx c (SB_rs1 u) \<noteq> Rx c (SB_rs2 u) then setBranch (getPC c + SB_simm u) c else c, 4))"

definition JAL_exec :: "'m exec" where [exec_defs]:
  "JAL_exec P payload c =
     (let u = buf32 payload;
          pc = getPC c;
          c = (if UJ_rd u \<noteq> 0 then setRx (UJ_rd u) (pc + 4) c else c);
          c = setBranch (pc + UJ_simm u) c
      in (if UJ_rd u = of_nat Reg_ra then pushStackTrace P c else c, 4))"

definition JALR_exec :: "'m exec" where [exec_defs]:
  "JALR_exec P payload c =
     (let u = buf32 payload;
          off = (I_simm u + Rx c (I_rs1 u)) AND NOT 1;
          c = (if I_rd u \<noteq> 0 then setRx (I_rd u) (getPC c + 4) c else c);
          c = setBranch off c
      in (if I_rd u = of_nat Reg_ra then pushStackTrace P c
          else if I_imm u = 0 \<and> I_rs1 u = of_nat Reg_ra then popStackTrace c else c, 4))"

subsection \<open>Loads and stores\<close>

definition LD_exec :: "'m exec" where [exec_defs]:
  "LD_exec P payload c =
     (let u = buf32 payload
      in case load_access P (Rx c (I_rs1 u) + I_simm u) 8 7 (stack_garbage P) c of (v, c) \<Rightarrow>
          (setRx (I_rd u) (v) c, 4))"

definition LW_exec :: "'m exec" where [exec_defs]:
  "LW_exec P payload c =
     (let u = buf32 payload
      in case load_access P (Rx c (I_rs1 u) + I_simm u) 4 3 0 c of (v, c) \<Rightarrow>
          (setRx (I_rd u) (sext32 v) c, 4))"

definition LWU_exec :: "'m exec" where [exec_defs]:
  "LWU_exec P payload c =
     (let u = buf32 payload
      in case load_access P (Rx c (I_rs1 u) + I_simm u) 4 3 0 c of (v, c) \<Rightarrow>
          (setRx (I_rd u) (v) c, 4))"

definition LH_exec :: "'m exec" where [exec_defs]:
  "LH_exec P payload c =
     (let u = buf32 payload
      in case load_access P (Rx c (I_rs1 u) + I_simm u) 2 1 0 c of (v, c) \<Rightarrow>
          (setRx (I_rd u) (sext16 (ucast (ucast v :: u16))) c, 4))"

definition LHU_exec :: "'m exec" where [exec_defs]:
  "LHU_exec P payload c =
     (let u = buf32 payload
      in case load_access P (Rx c (I_rs1 u) + I_simm u) 2 1 0 c of (v, c) \<Rightarrow>
          (setRx (I_rd u) (ucast (ucast v :: u16)) c, 4))"

definition LB_exec :: "'m exec" where [exec_defs]:
  "LB_exec P payload c =
     (let u = buf32 payload
      in case load_access P (Rx c (I_rs1 u) + I_simm u) 1 0 0 c of (v, c) \<Rightarrow>
          (setRx (I_rd u) (sext8 (ucast (ucast v :: u8))) c, 4))"

definition LBU_exec :: "'m exec" where [exec_defs]:
  "LBU_exec P payload c =
     (let u = buf32 payload
      in case load_access P (Rx c (I_rs1 u) + I_simm u) 1 0 0 c of (v, c) \<Rightarrow>
          (setRx (I_rd u) (ucast (ucast v :: u8)) c, 4))"

definition SD_exec :: "'m exec" where [exec_defs]:
  "SD_exec P payload c =
     (let u = buf32 payload
      in (store_access P (Rx c (S_rs1 u) + S_simm u) 8 7 (Rx c (S_rs2 u)) c, 4))"

definition SW_exec :: "'m exec" where [exec_defs]:
  "SW_exec P payload c =
     (let u = buf32 payload
      in (store_access P (Rx c (S_rs1 u) + S_simm u) 4 3 (Rx c (S_rs2 u)) c, 4))"

definition SH_exec :: "'m exec" where [exec_defs]:
  "SH_exec P payload c =
     (let u = buf32 payload
      in (store_access P (Rx c (S_rs1 u) + S_simm u) 2 1 (Rx c (S_rs2 u) AND 0xFFFF) c, 4))"

definition SB_exec :: "'m exec" where [exec_defs]:
  "SB_exec P payload c =
     (let u = buf32 payload
      in (store_access P (Rx c (S_rs1 u) + S_simm u) 1 0 (Rx c (S_rs2 u) AND 0xFF) c, 4))"

end
