(* ===== verification/Isa_A.thy ===== *)
theory Isa_A
  imports Isa_I
begin

section \<open>RV64A: atomic memory operations\<close>

text \<open>
  cpu_fnc_plugin/riscv-ext-a.cpp.  \<open>amo_exec\<close> is \<open>RiscvAmoGeneric::exec\<close> with the virtual
  \<open>amo_op\<close> of the derived class as its argument (the first operand is \<open>rs2\<close>, the second
  the loaded value).  The reservation of LR/SC is a pair of fields of the CPU.
\<close>

definition amo_exec :: "u32 \<Rightarrow> (u64 \<Rightarrow> u64 \<Rightarrow> u64) \<Rightarrow> 'm exec" where [exec_defs]:
  "amo_exec rvbytes amo_op P payload c =
     (let u = buf32 payload;
          trans = new_trans P MemAction_Read (Rx c (R_rs1 u)) rvbytes
      in if addr trans AND ucast (rvbytes - 1) \<noteq> 0
         then (generateException P EXCEPTION_StoreMisalign (getPC c) c, 4)
         else case dma_memop P trans False c of (ret, trans, c) \<Rightarrow>
           if ret = TRANS_ERROR
           then (generateException P EXCEPTION_StoreFault (addr trans) c, 4)
           else let t = (if rvbytes = 4
                         then let t = ucast (ucast (rpayload trans) :: u32) :: u64
                              in if t AND 0x80000000 \<noteq> 0 then t OR EXT_SIGN_32 else t
                         else rpayload trans);
                    trans = trans\<lparr>action := MemAction_Write, wstrb := full_wstrb (xsize trans),
                                  wpayload := amo_op (Rx c (R_rs2 u)) t\<rparr>
                in case dma_memop P trans False c of (ret, trans, c) \<Rightarrow>
                     let c = (if ret = TRANS_ERROR
                              then generateException P EXCEPTION_StoreFault (addr trans) c else c)
                     in (setRx (R_rd u) t c, 4))"

definition amo_min :: "u64 \<Rightarrow> u64 \<Rightarrow> u64" where "amo_min a b = (if a <s b then a else b)"
definition amo_max :: "u64 \<Rightarrow> u64 \<Rightarrow> u64" where "amo_max a b = (if b <s a then a else b)"
definition amo_minu :: "u64 \<Rightarrow> u64 \<Rightarrow> u64" where "amo_minu a b = (if a < b then a else b)"
definition amo_maxu :: "u64 \<Rightarrow> u64 \<Rightarrow> u64" where "amo_maxu a b = (if a > b then a else b)"
definition amo_swap :: "u64 \<Rightarrow> u64 \<Rightarrow> u64" where "amo_swap a b = a"

definition AMOADD_W_exec :: "'m exec" where [exec_defs]: "AMOADD_W_exec = amo_exec 4 (+)"
definition AMOXOR_W_exec :: "'m exec" where [exec_defs]: "AMOXOR_W_exec = amo_exec 4 (XOR)"
definition AMOOR_W_exec :: "'m exec" where [exec_defs]: "AMOOR_W_exec = amo_exec 4 (OR)"
definition AMOAND_W_exec :: "'m exec" where [exec_defs]: "AMOAND_W_exec = amo_exec 4 (AND)"
definition AMOMIN_W_exec :: "'m exec" where [exec_defs]: "AMOMIN_W_exec = amo_exec 4 amo_min"
definition AMOMAX_W_exec :: "'m exec" where [exec_defs]: "AMOMAX_W_exec = amo_exec 4 amo_max"
definition AMOMINU_W_exec :: "'m exec" where [exec_defs]: "AMOMINU_W_exec = amo_exec 4 amo_minu"
definition AMOMAXU_W_exec :: "'m exec" where [exec_defs]: "AMOMAXU_W_exec = amo_exec 4 amo_maxu"
definition AMOSWAP_W_exec :: "'m exec" where [exec_defs]: "AMOSWAP_W_exec = amo_exec 4 amo_swap"
definition AMOADD_D_exec :: "'m exec" where [exec_defs]: "AMOADD_D_exec = amo_exec 8 (+)"
definition AMOXOR_D_exec :: "'m exec" where [exec_defs]: "AMOXOR_D_exec = amo_exec 8 (XOR)"
definition AMOOR_D_exec :: "'m exec" where [exec_defs]: "AMOOR_D_exec = amo_exec 8 (OR)"
definition AMOAND_D_exec :: "'m exec" where [exec_defs]: "AMOAND_D_exec = amo_exec 8 (AND)"
definition AMOMIN_D_exec :: "'m exec" where [exec_defs]: "AMOMIN_D_exec = amo_exec 8 amo_min"
definition AMOMAX_D_exec :: "'m exec" where [exec_defs]: "AMOMAX_D_exec = amo_exec 8 amo_max"
definition AMOMINU_D_exec :: "'m exec" where [exec_defs]: "AMOMINU_D_exec = amo_exec 8 amo_minu"
definition AMOMAXU_D_exec :: "'m exec" where [exec_defs]: "AMOMAXU_D_exec = amo_exec 8 amo_maxu"
definition AMOSWAP_D_exec :: "'m exec" where [exec_defs]: "AMOSWAP_D_exec = amo_exec 8 amo_swap"

subsection \<open>Load-reserved and store-conditional\<close>

definition LR_W_exec :: "'m exec" where [exec_defs]:
  "LR_W_exec P payload c =
     (let u = buf32 payload;
          trans = new_trans P MemAction_Read (Rx c (R_rs1 u)) 4
      in if addr trans AND 3 \<noteq> 0
         then (generateException P EXCEPTION_LoadMisalign (getPC c) c, 4)
         else case dma_memop P trans False c of (ret, trans, c) \<Rightarrow>
           if ret = TRANS_ERROR
           then (generateException P EXCEPTION_LoadFault (addr trans) c, 4)
           else let t = ucast (ucast (rpayload trans) :: u32) :: u64;
                    t = (if t AND 0x80000000 \<noteq> 0 then t OR EXT_SIGN_32 else t);
                    c = mmuAddrReserve (addr trans) c
                in (setRx (R_rd u) t c, 4))"

text \<open>\<open>LR_D\<close> writes \<open>rpayload.b32[0]\<close>, the lower half of what it read.\<close>

definition LR_D_exec :: "'m exec" where [exec_defs]:
  "LR_D_exec P payload c =
     (let u = buf32 payload;
          trans = new_trans P MemAction_Read (Rx c (R_rs1 u)) 8
      in if addr trans AND 7 \<noteq> 0
         then (generateException P EXCEPTION_LoadMisalign (getPC c) c, 4)
         else case dma_memop P trans False c of (ret, trans, c) \<Rightarrow>
           if ret = TRANS_ERROR
           then (generateException P EXCEPTION_LoadFault (addr trans) c, 4)
           else let c = mmuAddrReserve (addr trans) c
                in (setRx (R_rd u) (ucast (ucast (rpayload trans) :: u32)) c, 4))"

definition sc_exec :: "u32 \<Rightarrow> 'm exec" where [exec_defs]:
  "sc_exec sz P payload c =
     (let u = buf32 payload
      in case mmuAddrRelease (Rx c (R_rs1 u)) c of (released, c) \<Rightarrow>
         if released then
           let trans = (new_trans P MemAction_Write (Rx c (R_rs1 u)) sz)\<lparr>wpayload := Rx c (R_rs2 u)\<rparr>
           in if addr trans AND ucast (sz - 1) \<noteq> 0
              then (setRx (R_rd u) 1 (generateException P EXCEPTION_StoreMisalign (getPC c) c), 4)
              else case dma_memop P trans False c of (ret, trans, c) \<Rightarrow>
                if ret = TRANS_ERROR
                then (setRx (R_rd u) 1 (generateException P EXCEPTION_StoreFault (addr trans) c), 4)
                else (setRx (R_rd u) 0 c, 4)
         else (setRx (R_rd u) 1 c, 4))"

definition SC_W_exec :: "'m exec" where [exec_defs]: "SC_W_exec = sc_exec 4"
definition SC_D_exec :: "'m exec" where [exec_defs]: "SC_D_exec = sc_exec 8"

end
