(* ===== verification/Isa_C.thy ===== *)
theory Isa_C
  imports Isa_I
begin

section \<open>RV64C: the compressed instructions\<close>

text \<open>
  cpu_fnc_plugin/riscv-ext-c.cpp, in the order of the file.  \<open>C_JAL\<close> is compiled for RV32
  only and is left out.  Registers of the three-bit fields are 8 to 15.
\<close>

definition sext6 :: "u32 \<Rightarrow> u64 \<Rightarrow> u64" where
  "sext6 sign imm = (if truth sign then imm OR EXT_SIGN_6 else imm)"

definition CI_simm :: "u16 \<Rightarrow> u64" where
  "CI_simm u = sext6 (CI_imm6 u) (ucast (CI_imm u))"

definition CB_off :: "u16 \<Rightarrow> u64" where
  "CB_off u =
     (let imm = ucast (push_bit 5 (CB_off7_6 u) OR push_bit 4 (CB_off5 u)
                  OR push_bit 2 (CB_off4_3 u) OR CB_off2_1 u);
          imm = push_bit 1 imm
      in if truth (CB_off8 u) then imm OR EXT_SIGN_9 else imm)"

definition CJ_off :: "u16 \<Rightarrow> u64" where
  "CJ_off u =
     (let off = ucast (push_bit 9 (CJ_off10 u) OR push_bit 7 (CJ_off9_8 u)
                  OR push_bit 6 (CJ_off7 u) OR push_bit 5 (CJ_off6 u)
                  OR push_bit 4 (CJ_off5 u) OR push_bit 3 (CJ_off4 u) OR CJ_off3_1 u);
          off = push_bit 1 off
      in if truth (CJ_off11 u) then off OR EXT_SIGN_11 else off)"

definition CB_shamt6 :: "u16 \<Rightarrow> u32" where
  "CB_shamt6 u = push_bit 5 (CB_sh_shamt5 u) OR CB_sh_shamt u"

subsection \<open>Arithmetic, logic and control flow\<close>

definition C_ADD_exec :: "'m exec" where [exec_defs]:
  "C_ADD_exec P payload c =
     (let u = buf16 payload
      in if truth (CR_rdrs1 u)
         then (setRx (CR_rdrs1 u) (Rx c (CR_rdrs1 u) + Rx c (CR_rs2 u)) c, 2) else (c, 2))"

definition C_ADDI_exec :: "'m exec" where [exec_defs]:
  "C_ADDI_exec P payload c =
     (let u = buf16 payload
      in (setRx (CI_rdrs u) (Rx c (CI_rdrs u) + CI_simm u) c, 2))"

definition C_ADDI16SP_exec :: "'m exec" where [exec_defs]:
  "C_ADDI16SP_exec P payload c =
     (let u = buf16 payload;
          imm = sext6 (CI_sp_imm9 u) (ucast (push_bit 3 (CI_sp_imm8_7 u)
                  OR push_bit 2 (CI_sp_imm6 u) OR push_bit 1 (CI_sp_imm5 u) OR CI_sp_imm4 u))
      in (setReg Reg_sp (R c Reg_sp + push_bit 4 imm) c, 2))"

definition C_ADDI4SPN_exec :: "'m exec" where [exec_defs]:
  "C_ADDI4SPN_exec P payload c =
     (let u = buf16 payload;
          imm = ucast (push_bit 4 (CIW_imm9_6 u) OR push_bit 2 (CIW_imm5_4 u)
                  OR push_bit 1 (CIW_imm3 u) OR CIW_imm2 u)
      in (setRx (8 + CIW_rd u) (R c Reg_sp + push_bit 2 imm) c, 2))"

definition C_ADDIW_exec :: "'m exec" where [exec_defs]:
  "C_ADDIW_exec P payload c =
     (let u = buf16 payload
      in (setRx (CI_rdrs u) (sext32 (low32 (Rx c (CI_rdrs u) + CI_simm u))) c, 2))"

definition C_ADDW_exec :: "'m exec" where [exec_defs]:
  "C_ADDW_exec P payload c =
     (let u = buf16 payload
      in (setRx (8 + CS_rs1 u) (sext32 (low32 (Rx c (8 + CS_rs1 u) + Rx c (8 + CS_rs2 u)))) c, 2))"

definition C_AND_exec :: "'m exec" where [exec_defs]:
  "C_AND_exec P payload c =
     (let u = buf16 payload
      in (setRx (8 + CS_rs1 u) (Rx c (8 + CS_rs1 u) AND Rx c (8 + CS_rs2 u)) c, 2))"

definition C_ANDI_exec :: "'m exec" where [exec_defs]:
  "C_ANDI_exec P payload c =
     (let u = buf16 payload
      in (setRx (8 + CB_rs1 u) (Rx c (8 + CB_rs1 u) AND sext6 (CB_sh_shamt5 u) (ucast (CB_sh_shamt u))) c, 2))"

definition C_BEQZ_exec :: "'m exec" where [exec_defs]:
  "C_BEQZ_exec P payload c =
     (let u = buf16 payload
      in (if Rx c (8 + CB_rs1 u) = 0 then setBranch (getPC c + CB_off u) c else c, 2))"

definition C_BNEZ_exec :: "'m exec" where [exec_defs]:
  "C_BNEZ_exec P payload c =
     (let u = buf16 payload
      in (if truth (Rx c (8 + CB_rs1 u)) then setBranch (getPC c + CB_off u) c else c, 2))"

definition C_EBREAK_exec :: "'m exec" where [exec_defs]:
  "C_EBREAK_exec P payload c =
     ((generateException P EXCEPTION_Breakpoint (getPC c) c)\<lparr>do_not_cache := True\<rparr>, 2)"

definition C_J_exec :: "'m exec" where [exec_defs]:
  "C_J_exec P payload c =
     (let u = buf16 payload
      in (setBranch (getPC c + CJ_off u) c, 2))"

definition C_JALR_exec :: "'m exec" where [exec_defs]:
  "C_JALR_exec P payload c =
     (let u = buf16 payload;
          c = setReg Reg_ra (getPC c + 2) c;
          c = setBranch (Rx c (CR_rdrs1 u)) c
      in (pushStackTrace P c, 2))"

definition C_JR_exec :: "'m exec" where [exec_defs]:
  "C_JR_exec P payload c =
     (let u = buf16 payload;
          c = setBranch (Rx c (CR_rdrs1 u)) c
      in (if CR_rdrs1 u = of_nat Reg_ra then popStackTrace c else c, 2))"

definition C_LI_exec :: "'m exec" where [exec_defs]:
  "C_LI_exec P payload c =
     (let u = buf16 payload
      in (setRx (CI_rdrs u) (CI_simm u) c, 2))"

definition C_LUI_exec :: "'m exec" where [exec_defs]:
  "C_LUI_exec P payload c =
     (let u = buf16 payload
      in (setRx (CI_rdrs u) (push_bit 12 (CI_simm u)) c, 2))"

definition C_MV_exec :: "'m exec" where [exec_defs]:
  "C_MV_exec P payload c =
     (let u = buf16 payload
      in (setRx (CR_rdrs1 u) (Rx c (CR_rs2 u)) c, 2))"

definition C_NOP_exec :: "'m exec" where [exec_defs]:
  "C_NOP_exec P payload c = (c, 2)"

definition C_OR_exec :: "'m exec" where [exec_defs]:
  "C_OR_exec P payload c =
     (let u = buf16 payload
      in (setRx (8 + CS_rs1 u) (Rx c (8 + CS_rs1 u) OR Rx c (8 + CS_rs2 u)) c, 2))"

definition C_SLLI_exec :: "'m exec" where [exec_defs]:
  "C_SLLI_exec P payload c =
     (let u = buf16 payload;
          idx = push_bit 3 (CB_sh_funct2 u) OR CB_sh_rd u
      in (setRx idx (push_bit (unat (CB_shamt6 u)) (Rx c idx)) c, 2))"

definition C_SRAI_exec :: "'m exec" where [exec_defs]:
  "C_SRAI_exec P payload c =
     (let u = buf16 payload
      in (setRx (8 + CB_sh_rd u) (signed_drop_bit (unat (CB_shamt6 u)) (Rx c (8 + CB_sh_rd u))) c, 2))"

definition C_SRLI_exec :: "'m exec" where [exec_defs]:
  "C_SRLI_exec P payload c =
     (let u = buf16 payload
      in (setRx (8 + CB_sh_rd u) (drop_bit (unat (CB_shamt6 u)) (Rx c (8 + CB_sh_rd u))) c, 2))"

definition C_SUB_exec :: "'m exec" where [exec_defs]:
  "C_SUB_exec P payload c =
     (let u = buf16 payload
      in (setRx (8 + CS_rs1 u) (Rx c (8 + CS_rs1 u) - Rx c (8 + CS_rs2 u)) c, 2))"

definition C_SUBW_exec :: "'m exec" where [exec_defs]:
  "C_SUBW_exec P payload c =
     (let u = buf16 payload
      in (setRx (8 + CS_rs1 u) (sext32 (low32 (Rx c (8 + CS_rs1 u) - Rx c (8 + CS_rs2 u)))) c, 2))"

definition C_XOR_exec :: "'m exec" where [exec_defs]:
  "C_XOR_exec P payload c =
     (let u = buf16 payload
      in (setRx (8 + CS_rs1 u) (Rx c (8 + CS_rs1 u) XOR Rx c (8 + CS_rs2 u)) c, 2))"

subsection \<open>Loads and stores\<close>

definition C_LD_exec :: "'m exec" where [exec_defs]:
  "C_LD_exec P payload c =
     (let u = buf16 payload;
          off = push_bit 3 (ucast (push_bit 4 (CL_imm27 u) OR push_bit 3 (CL_imm6 u) OR CL_imm5_3 u))
      in case load_access P (Rx c (8 + CL_rs1 u) + off) 8 7 (stack_garbage P) c of (v, c) \<Rightarrow>
          (setRx (8 + CL_rd u) (v) c, 2))"

definition C_LDSP_exec :: "'m exec" where [exec_defs]:
  "C_LDSP_exec P payload c =
     (let u = buf16 payload;
          off = push_bit 3 (ucast (push_bit 3 (CI_ldsp_off8_6 u) OR push_bit 2 (CI_ldsp_off5 u) OR CI_ldsp_off4_3 u))
      in case load_access P (R c Reg_sp + off) 8 7 (stack_garbage P) c of (v, c) \<Rightarrow>
          (setRx (CI_ldsp_rd u) (v) c, 2))"

definition C_LW_exec :: "'m exec" where [exec_defs]:
  "C_LW_exec P payload c =
     (let u = buf16 payload;
          off = push_bit 2 (ucast (push_bit 4 (CL_imm6 u) OR push_bit 1 (CL_imm5_3 u) OR CL_imm27 u))
      in case load_access P (Rx c (8 + CL_rs1 u) + off) 4 3 0 c of (v, c) \<Rightarrow>
          (setRx (8 + CL_rd u) (sext32 (ucast (ucast v :: u32))) c, 2))"

definition C_LWSP_exec :: "'m exec" where [exec_defs]:
  "C_LWSP_exec P payload c =
     (let u = buf16 payload;
          off = push_bit 2 (ucast (push_bit 4 (CI_lwsp_off7_6 u) OR push_bit 3 (CI_lwsp_off5 u) OR CI_lwsp_off4_2 u))
      in case load_access P (R c Reg_sp + off) 4 3 (stack_garbage P) c of (v, c) \<Rightarrow>
          (setRx (CI_lwsp_rd u) (sext32 (ucast (ucast v :: u32))) c, 2))"

definition C_SD_exec :: "'m exec" where [exec_defs]:
  "C_SD_exec P payload c =
     (let u = buf16 payload;
          off = push_bit 3 (ucast (push_bit 4 (CS_imm27 u) OR push_bit 3 (CS_imm6 u) OR CS_imm5_3 u))
      in (store_access P (Rx c (8 + CS_rs1 u) + off) 8 7 (Rx c (8 + CS_rs2 u)) c, 2))"

definition C_SDSP_exec :: "'m exec" where [exec_defs]:
  "C_SDSP_exec P payload c =
     (let u = buf16 payload;
          off = push_bit 3 (ucast (push_bit 3 (CSS_d_imm8_6 u) OR CSS_d_imm5_3 u))
      in (store_access P (R c Reg_sp + off) 8 7 (Rx c (CSS_d_rs2 u)) c, 2))"

definition C_SW_exec :: "'m exec" where [exec_defs]:
  "C_SW_exec P payload c =
     (let u = buf16 payload;
          off = push_bit 2 (ucast (push_bit 4 (CS_imm6 u) OR push_bit 1 (CS_imm5_3 u) OR CS_imm27 u))
      in (store_access P (Rx c (8 + CS_rs1 u) + off) 4 3 (Rx c (8 + CS_rs2 u)) c, 2))"

definition C_SWSP_exec :: "'m exec" where [exec_defs]:
  "C_SWSP_exec P payload c =
     (let u = buf16 payload;
          off = push_bit 2 (ucast (push_bit 4 (CSS_w_imm7_6 u) OR CSS_w_imm5_2 u))
      in (store_access P (R c Reg_sp + off) 4 3 (Rx c (CSS_w_rs2 u)) c, 2))"

end
