(* ===== verification/Isa_Priv.thy ===== *)
theory Isa_Priv
  imports Isa_I
begin

section \<open>The privileged and system instructions\<close>

text \<open>
  cpu_fnc_plugin/riscv-rv64i-priv.cpp.  \<open>flushMmu\<close> is empty in the functional model, so the
  fences leave the state alone.  \<open>do_not_cache\<close> concerns the instruction cache only.
\<close>

subsection \<open>CSR access\<close>

definition CSRRC_exec :: "'m exec" where [exec_defs]:
  "CSRRC_exec P payload c =
     (let u = buf32 payload;
          clr_mask = NOT (Rx c (I_rs1 u));
          csr = readCSR P (I_imm u) c;
          c = (if truth (I_rd u) then setRx (I_rd u) csr c else c)
      in (writeCSR P (I_imm u) (csr AND clr_mask) c, 4))"

definition CSRRCI_exec :: "'m exec" where [exec_defs]:
  "CSRRCI_exec P payload c =
     (let u = buf32 payload;
          clr_mask = NOT (ucast (I_rs1 u));
          csr = readCSR P (I_imm u) c;
          c = (if truth (I_rd u) then setRx (I_rd u) csr c else c)
      in (writeCSR P (I_imm u) (csr AND clr_mask) c, 4))"

definition CSRRS_exec :: "'m exec" where [exec_defs]:
  "CSRRS_exec P payload c =
     (let u = buf32 payload;
          set_mask = Rx c (I_rs1 u);
          csr = readCSR P (I_imm u) c;
          c = (if truth (I_rd u) then setRx (I_rd u) csr c else c)
      in (writeCSR P (I_imm u) (csr OR set_mask) c, 4))"

definition CSRRSI_exec :: "'m exec" where [exec_defs]:
  "CSRRSI_exec P payload c =
     (let u = buf32 payload;
          set_mask = ucast (I_rs1 u);
          csr = readCSR P (I_imm u) c;
          c = (if truth (I_rd u) then setRx (I_rd u) csr c else c)
      in (writeCSR P (I_imm u) (csr OR set_mask) c, 4))"

definition CSRRW_exec :: "'m exec" where [exec_defs]:
  "CSRRW_exec P payload c =
     (let u = buf32 payload;
          wr_value = Rx c (I_rs1 u);
          c = (if truth (I_rd u) then setRx (I_rd u) (readCSR P (I_imm u) c) c else c)
      in (writeCSR P (I_imm u) wr_value c, 4))"

definition CSRRWI_exec :: "'m exec" where [exec_defs]:
  "CSRRWI_exec P payload c =
     (let u = buf32 payload;
          wr_value = ucast (I_rs1 u);
          c = (if truth (I_rd u) then setRx (I_rd u) (readCSR P (I_imm u) c) c else c)
      in (writeCSR P (I_imm u) wr_value c, 4))"

subsection \<open>Returns from traps\<close>

definition URET_exec :: "'m exec" where [exec_defs]:
  "URET_exec P payload c =
     (if cur_prv_level c \<noteq> PRV_U then (generateException P EXCEPTION_InstrIllegal (getPC c) c, 4)
      else let mstatus = readCSR P CSR_mstatus c;
               xepc = push_bit 8 PRV_U + 0x41;
               c = setBranch (readCSR P (ucast xepc) c) c;
               c = c\<lparr>cur_prv_level := PRV_U\<rparr>
        in (writeCSR P CSR_mstatus mstatus c, 4))"

definition SRET_exec :: "'m exec" where [exec_defs]:
  "SRET_exec P payload c =
     (if cur_prv_level c \<noteq> PRV_S then (generateException P EXCEPTION_InstrIllegal (getPC c) c, 4)
      else let mstatus = readCSR P CSR_mstatus c;
               xepc = push_bit 8 PRV_S + 0x41;
               c = setBranch (readCSR P (ucast xepc) c) c;
               mstatus = set_SIE (mstatus_SPIE mstatus) mstatus;
               mstatus = set_SPIE 1 mstatus;
               c = c\<lparr>cur_prv_level := mstatus_SPP mstatus\<rparr>;
               mstatus = set_SPP PRV_U mstatus
        in (writeCSR P CSR_mstatus mstatus c, 4))"

definition HRET_exec :: "'m exec" where [exec_defs]:
  "HRET_exec P payload c = (generateException P EXCEPTION_InstrIllegal (getPC c) c, 4)"

definition MRET_exec :: "'m exec" where [exec_defs]:
  "MRET_exec P payload c =
     (if cur_prv_level c \<noteq> PRV_M then (generateException P EXCEPTION_InstrIllegal (getPC c) c, 4)
      else let mstatus = readCSR P CSR_mstatus c;
               xepc = push_bit 8 PRV_M + 0x41;
               c = setBranch (readCSR P (ucast xepc) c) c;
               mstatus = set_MIE (mstatus_MPIE mstatus) mstatus;
               mstatus = set_MPIE 1 mstatus;
               c = c\<lparr>cur_prv_level := mstatus_MPP mstatus\<rparr>;
               mstatus = set_MPP PRV_U mstatus
        in (writeCSR P CSR_mstatus mstatus c, 4))"

subsection \<open>Fences, breakpoint, environment call\<close>

definition FENCE_exec :: "'m exec" where [exec_defs]:
  "FENCE_exec P payload c = (c, 4)"

definition FENCE_I_exec :: "'m exec" where [exec_defs]:
  "FENCE_I_exec P payload c = (c, 4)"

definition SFENCE_VMA_exec :: "'m exec" where [exec_defs]:
  "SFENCE_VMA_exec P payload c = (c, 4)"

definition EBREAK_exec :: "'m exec" where [exec_defs]:
  "EBREAK_exec P payload c =
     ((generateException P EXCEPTION_Breakpoint (getPC c) c)\<lparr>do_not_cache := True\<rparr>, 4)"

definition ECALL_exec :: "'m exec" where [exec_defs]:
  "ECALL_exec P payload c =
     (if cur_prv_level c = PRV_M
      then (generateException P EXCEPTION_CallFromMmode (getPC c) c, 4)
      else if cur_prv_level c = PRV_U
      then (generateException P EXCEPTION_CallFromUmode (getPC c) c, 4)
      else (c, 4))"

end
