(* ===== verification/Decode.thy ===== *)
theory Decode
  imports Isa_M Isa_A Isa_C Isa_Priv
begin

section \<open>The instruction objects, the decoder's hash table and the decoder\<close>

text \<open>
  cpu_fnc_plugin/instructions.h and instructions.cpp (\<open>RiscvInstruction\<close>), the
  \<open>addIsa...\<close> methods and \<open>decodeInstruction\<close> of cpu_riscv_func.cpp.  An instruction object is a
  record of what its class gives it: the pattern, the length class, the extra condition
  of an overridden \<open>parse\<close> and the method \<open>exec\<close>.  \<open>listExtISA\<close> ranges over A, C and M (the
  extensions D and F are not modelled).  The theory shows that the patterns are disjoint,
  so that decoding finds exactly the instruction that parses the word.
\<close>

subsection \<open>RiscvInstruction\<close>

record 'm instruction =
  iname :: string
  imask :: u32
  iopcode :: u32
  is16 :: bool
  icond :: "u16 \<Rightarrow> bool"
  iexec :: "'m exec"

text \<open>The constructor: a character of the pattern per bit, the highest bit first.\<close>

definition pattern_step :: "string \<Rightarrow> nat \<Rightarrow> u32 \<times> u32 \<Rightarrow> u32 \<times> u32" where
  "pattern_step bits i = (\<lambda>(msk, opcode).
     if bits ! i = CHR ''1'' then (msk, opcode OR push_bit (31 - i) 1)
     else if bits ! i = CHR ''?'' then (msk OR push_bit (31 - i) 1, opcode)
     else (msk, opcode))"

definition pattern :: "string \<Rightarrow> u32 \<times> u32" where
  "pattern bits =
     (case fold (pattern_step bits) [0..<32] (0, 0) of (msk, opcode) \<Rightarrow> (msk XOR NOT 0, opcode))"

definition RiscvInstruction :: "string \<Rightarrow> string \<Rightarrow> 'm exec \<Rightarrow> 'm instruction" where
  "RiscvInstruction name bits ex =
     \<lparr>iname = name, imask = fst (pattern bits), iopcode = snd (pattern bits), is16 = False,
      icond = (\<lambda>_. True), iexec = ex\<rparr>"

definition RiscvInstruction16 ::
  "string \<Rightarrow> string \<Rightarrow> (u16 \<Rightarrow> bool) \<Rightarrow> 'm exec \<Rightarrow> 'm instruction" where
  "RiscvInstruction16 name bits cond ex =
     (RiscvInstruction name bits ex)\<lparr>is16 := True, icond := cond\<rparr>"

definition parse :: "'m instruction \<Rightarrow> u32 \<Rightarrow> bool" where
  "parse i w \<longleftrightarrow> w AND imask i = iopcode i \<and> icond i (ucast w)"

definition hash32 :: "u32 \<Rightarrow> nat" where
  "hash32 val = unat (drop_bit 2 val AND 0x1f)"

definition hash16 :: "u16 \<Rightarrow> nat" where
  "hash16 val = unat (0x20 OR push_bit 2 (drop_bit 13 (ucast val :: u32)) OR (ucast val AND 3))"

definition ihash :: "'m instruction \<Rightarrow> nat" where
  "ihash i = (if is16 i then hash16 (ucast (iopcode i)) else hash32 (iopcode i))"

subsection \<open>The supported instructions\<close>

text \<open>The extra conditions of the compressed instructions that override \<open>parse\<close>.\<close>

definition cond_rd :: "u16 \<Rightarrow> bool" where "cond_rd u \<longleftrightarrow> truth (CR_rdrs1 u)"
definition cond_rd_rs2 :: "u16 \<Rightarrow> bool" where
  "cond_rd_rs2 u \<longleftrightarrow> truth (CR_rdrs1 u) \<and> truth (CR_rs2 u)"
definition cond_lui :: "u16 \<Rightarrow> bool" where
  "cond_lui u \<longleftrightarrow> truth (CR_rdrs1 u) \<and> CR_rdrs1 u \<noteq> of_nat Reg_sp"

definition addIsaUserRV64I :: "'m instruction list" where
  "addIsaUserRV64I =
    [RiscvInstruction ''ADD'' ''0000000??????????000?????0110011'' ADD_exec,
     RiscvInstruction ''ADDI'' ''?????????????????000?????0010011'' ADDI_exec,
     RiscvInstruction ''ADDIW'' ''?????????????????000?????0011011'' ADDIW_exec,
     RiscvInstruction ''ADDW'' ''0000000??????????000?????0111011'' ADDW_exec,
     RiscvInstruction ''AND'' ''0000000??????????111?????0110011'' AND_exec,
     RiscvInstruction ''ANDI'' ''?????????????????111?????0010011'' ANDI_exec,
     RiscvInstruction ''AUIPC'' ''?????????????????????????0010111'' AUIPC_exec,
     RiscvInstruction ''BEQ'' ''?????????????????000?????1100011'' BEQ_exec,
     RiscvInstruction ''BGE'' ''?????????????????101?????1100011'' BGE_exec,
     RiscvInstruction ''BGEU'' ''?????????????????111?????1100011'' BGEU_exec,
     RiscvInstruction ''BLT'' ''?????????????????100?????1100011'' BLT_exec,
     RiscvInstruction ''BLTU'' ''?????????????????110?????1100011'' BLTU_exec,
     RiscvInstruction ''BNE'' ''?????????????????001?????1100011'' BNE_exec,
     RiscvInstruction ''JAL'' ''?????????????????????????1101111'' JAL_exec,
     RiscvInstruction ''JALR'' ''?????????????????000?????1100111'' JALR_exec,
     RiscvInstruction ''LD'' ''?????????????????011?????0000011'' LD_exec,
     RiscvInstruction ''LW'' ''?????????????????010?????0000011'' LW_exec,
     RiscvInstruction ''LWU'' ''?????????????????110?????0000011'' LWU_exec,
     RiscvInstruction ''LH'' ''?????????????????001?????0000011'' LH_exec,
     RiscvInstruction ''LHU'' ''?????????????????101?????0000011'' LHU_exec,
     RiscvInstruction ''LB'' ''?????????????????000?????0000011'' LB_exec,
     RiscvInstruction ''LBU'' ''?????????????????100?????0000011'' LBU_exec,
     RiscvInstruction ''LUI'' ''?????????????????????????0110111'' LUI_exec,
     RiscvInstruction ''OR'' ''0000000??????????110?????0110011'' OR_exec,
     RiscvInstruction ''ORI'' ''?????????????????110?????0010011'' ORI_exec,
     RiscvInstruction ''SLL'' ''0000000??????????001?????0110011'' SLL_exec,
     RiscvInstruction ''SLLI'' ''000000???????????001?????0010011'' SLLI_exec,
     RiscvInstruction ''SLLIW'' ''0000000??????????001?????0011011'' SLLIW_exec,
     RiscvInstruction ''SLLW'' ''0000000??????????001?????0111011'' SLLW_exec,
     RiscvInstruction ''SLT'' ''0000000??????????010?????0110011'' SLT_exec,
     RiscvInstruction ''SLTI'' ''?????????????????010?????0010011'' SLTI_exec,
     RiscvInstruction ''SLTU'' ''0000000??????????011?????0110011'' SLTU_exec,
     RiscvInstruction ''SLTIU'' ''?????????????????011?????0010011'' SLTIU_exec,
     RiscvInstruction ''SRA'' ''0100000??????????101?????0110011'' SRA_exec,
     RiscvInstruction ''SRAI'' ''010000???????????101?????0010011'' SRAI_exec,
     RiscvInstruction ''SRAIW'' ''0100000??????????101?????0011011'' SRAIW_exec,
     RiscvInstruction ''SRAW'' ''0100000??????????101?????0111011'' SRAW_exec,
     RiscvInstruction ''SRL'' ''0000000??????????101?????0110011'' SRL_exec,
     RiscvInstruction ''SRLI'' ''000000???????????101?????0010011'' SRLI_exec,
     RiscvInstruction ''SRLIW'' ''0000000??????????101?????0011011'' SRLIW_exec,
     RiscvInstruction ''SRLW'' ''0000000??????????101?????0111011'' SRLW_exec,
     RiscvInstruction ''SUB'' ''0100000??????????000?????0110011'' SUB_exec,
     RiscvInstruction ''SUBW'' ''0100000??????????000?????0111011'' SUBW_exec,
     RiscvInstruction ''SD'' ''?????????????????011?????0100011'' SD_exec,
     RiscvInstruction ''SW'' ''?????????????????010?????0100011'' SW_exec,
     RiscvInstruction ''SH'' ''?????????????????001?????0100011'' SH_exec,
     RiscvInstruction ''SB'' ''?????????????????000?????0100011'' SB_exec,
     RiscvInstruction ''XOR'' ''0000000??????????100?????0110011'' XOR_exec,
     RiscvInstruction ''XORI'' ''?????????????????100?????0010011'' XORI_exec]"

definition addIsaPrivilegedRV64I :: "'m instruction list" where
  "addIsaPrivilegedRV64I =
    [RiscvInstruction ''CSRRC'' ''?????????????????011?????1110011'' CSRRC_exec,
     RiscvInstruction ''CSRRCI'' ''?????????????????111?????1110011'' CSRRCI_exec,
     RiscvInstruction ''CSRRS'' ''?????????????????010?????1110011'' CSRRS_exec,
     RiscvInstruction ''CSRRSI'' ''?????????????????110?????1110011'' CSRRSI_exec,
     RiscvInstruction ''CSRRW'' ''?????????????????001?????1110011'' CSRRW_exec,
     RiscvInstruction ''CSRRWI'' ''?????????????????101?????1110011'' CSRRWI_exec,
     RiscvInstruction ''URET'' ''00000000001000000000000001110011'' URET_exec,
     RiscvInstruction ''SRET'' ''00010000001000000000000001110011'' SRET_exec,
     RiscvInstruction ''HRET'' ''00100000001000000000000001110011'' HRET_exec,
     RiscvInstruction ''MRET'' ''00110000001000000000000001110011'' MRET_exec,
     RiscvInstruction ''FENCE'' ''?????????????????000?????0001111'' FENCE_exec,
     RiscvInstruction ''FENCE_I'' ''?????????????????001?????0001111'' FENCE_I_exec,
     RiscvInstruction ''SFENCE_VMA'' ''0001001??????????000000001110011'' SFENCE_VMA_exec,
     RiscvInstruction ''ECALL'' ''00000000000000000000000001110011'' ECALL_exec,
     RiscvInstruction ''EBREAK'' ''00000000000100000000000001110011'' EBREAK_exec]"

definition addIsaExtensionA :: "'m instruction list" where
  "addIsaExtensionA =
    [RiscvInstruction ''AMOADD_W'' ''00000????????????010?????0101111'' AMOADD_W_exec,
     RiscvInstruction ''AMOXOR_W'' ''00100????????????010?????0101111'' AMOXOR_W_exec,
     RiscvInstruction ''AMOOR_W'' ''01000????????????010?????0101111'' AMOOR_W_exec,
     RiscvInstruction ''AMOAND_W'' ''01100????????????010?????0101111'' AMOAND_W_exec,
     RiscvInstruction ''AMOMIN_W'' ''10000????????????010?????0101111'' AMOMIN_W_exec,
     RiscvInstruction ''AMOMAX_W'' ''10100????????????010?????0101111'' AMOMAX_W_exec,
     RiscvInstruction ''AMOMINU_W'' ''11000????????????010?????0101111'' AMOMINU_W_exec,
     RiscvInstruction ''AMOMAXU_W'' ''11100????????????010?????0101111'' AMOMAXU_W_exec,
     RiscvInstruction ''AMOSWAP_W'' ''00001????????????010?????0101111'' AMOSWAP_W_exec,
     RiscvInstruction ''LR_W'' ''00010??00000?????010?????0101111'' LR_W_exec,
     RiscvInstruction ''SC_W'' ''00011????????????010?????0101111'' SC_W_exec,
     RiscvInstruction ''AMOADD_D'' ''00000????????????011?????0101111'' AMOADD_D_exec,
     RiscvInstruction ''AMOXOR_D'' ''00100????????????011?????0101111'' AMOXOR_D_exec,
     RiscvInstruction ''AMOOR_D'' ''01000????????????011?????0101111'' AMOOR_D_exec,
     RiscvInstruction ''AMOAND_D'' ''01100????????????011?????0101111'' AMOAND_D_exec,
     RiscvInstruction ''AMOMIN_D'' ''10000????????????011?????0101111'' AMOMIN_D_exec,
     RiscvInstruction ''AMOMAX_D'' ''10100????????????011?????0101111'' AMOMAX_D_exec,
     RiscvInstruction ''AMOMINU_D'' ''11000????????????011?????0101111'' AMOMINU_D_exec,
     RiscvInstruction ''AMOMAXU_D'' ''11100????????????011?????0101111'' AMOMAXU_D_exec,
     RiscvInstruction ''AMOSWAP_D'' ''00001????????????011?????0101111'' AMOSWAP_D_exec,
     RiscvInstruction ''LR_D'' ''00010??00000?????011?????0101111'' LR_D_exec,
     RiscvInstruction ''SC_D'' ''00011????????????011?????0101111'' SC_D_exec]"

definition addIsaExtensionC :: "'m instruction list" where
  "addIsaExtensionC =
    [RiscvInstruction16 ''C_ADD'' ''????????????????1001??????????10'' cond_rd_rs2 C_ADD_exec,
     RiscvInstruction16 ''C_ADDI'' ''????????????????000???????????01'' cond_rd C_ADDI_exec,
     RiscvInstruction16 ''C_ADDI16SP'' ''????????????????011?00010?????01'' (\<lambda>_. True) C_ADDI16SP_exec,
     RiscvInstruction16 ''C_ADDI4SPN'' ''????????????????000???????????00'' (\<lambda>_. True) C_ADDI4SPN_exec,
     RiscvInstruction16 ''C_ADDIW'' ''????????????????001???????????01'' cond_rd C_ADDIW_exec,
     RiscvInstruction16 ''C_ADDW'' ''????????????????100111???01???01'' (\<lambda>_. True) C_ADDW_exec,
     RiscvInstruction16 ''C_AND'' ''????????????????100011???11???01'' (\<lambda>_. True) C_AND_exec,
     RiscvInstruction16 ''C_ANDI'' ''????????????????100?10????????01'' (\<lambda>_. True) C_ANDI_exec,
     RiscvInstruction16 ''C_BEQZ'' ''????????????????110???????????01'' (\<lambda>_. True) C_BEQZ_exec,
     RiscvInstruction16 ''C_BNEZ'' ''????????????????111???????????01'' (\<lambda>_. True) C_BNEZ_exec,
     RiscvInstruction16 ''C_EBREAK'' ''????????????????1001000000000010'' (\<lambda>_. True) C_EBREAK_exec,
     RiscvInstruction16 ''C_J'' ''????????????????101???????????01'' (\<lambda>_. True) C_J_exec,
     RiscvInstruction16 ''C_JALR'' ''????????????????1001?????0000010'' cond_rd C_JALR_exec,
     RiscvInstruction16 ''C_JR'' ''????????????????1000?????0000010'' cond_rd C_JR_exec,
     RiscvInstruction16 ''C_LD'' ''????????????????011???????????00'' (\<lambda>_. True) C_LD_exec,
     RiscvInstruction16 ''C_LDSP'' ''????????????????011???????????10'' cond_rd C_LDSP_exec,
     RiscvInstruction16 ''C_LWSP'' ''????????????????010???????????10'' cond_rd C_LWSP_exec,
     RiscvInstruction16 ''C_LI'' ''????????????????010???????????01'' cond_rd C_LI_exec,
     RiscvInstruction16 ''C_LUI'' ''????????????????011???????????01'' cond_lui C_LUI_exec,
     RiscvInstruction16 ''C_LW'' ''????????????????010???????????00'' (\<lambda>_. True) C_LW_exec,
     RiscvInstruction16 ''C_MV'' ''????????????????1000??????????10'' cond_rd_rs2 C_MV_exec,
     RiscvInstruction16 ''C_NOP'' ''????????????????0000000000000001'' (\<lambda>_. True) C_NOP_exec,
     RiscvInstruction16 ''C_OR'' ''????????????????100011???10???01'' (\<lambda>_. True) C_OR_exec,
     RiscvInstruction16 ''C_SD'' ''????????????????111???????????00'' (\<lambda>_. True) C_SD_exec,
     RiscvInstruction16 ''C_SDSP'' ''????????????????111???????????10'' (\<lambda>_. True) C_SDSP_exec,
     RiscvInstruction16 ''C_SLLI'' ''????????????????000???????????10'' cond_rd C_SLLI_exec,
     RiscvInstruction16 ''C_SRAI'' ''????????????????100?01????????01'' (\<lambda>_. True) C_SRAI_exec,
     RiscvInstruction16 ''C_SRLI'' ''????????????????100?00????????01'' (\<lambda>_. True) C_SRLI_exec,
     RiscvInstruction16 ''C_SUB'' ''????????????????100011???00???01'' (\<lambda>_. True) C_SUB_exec,
     RiscvInstruction16 ''C_SUBW'' ''????????????????100111???00???01'' (\<lambda>_. True) C_SUBW_exec,
     RiscvInstruction16 ''C_SW'' ''????????????????110???????????00'' (\<lambda>_. True) C_SW_exec,
     RiscvInstruction16 ''C_SWSP'' ''????????????????110???????????10'' (\<lambda>_. True) C_SWSP_exec,
     RiscvInstruction16 ''C_XOR'' ''????????????????100011???01???01'' (\<lambda>_. True) C_XOR_exec]"

definition addIsaExtensionM :: "'m instruction list" where
  "addIsaExtensionM =
    [RiscvInstruction ''DIV'' ''0000001??????????100?????0110011'' DIV_exec,
     RiscvInstruction ''DIVU'' ''0000001??????????101?????0110011'' DIVU_exec,
     RiscvInstruction ''DIVUW'' ''0000001??????????101?????0111011'' DIVUW_exec,
     RiscvInstruction ''DIVW'' ''0000001??????????100?????0111011'' DIVW_exec,
     RiscvInstruction ''MUL'' ''0000001??????????000?????0110011'' MUL_exec,
     RiscvInstruction ''MULH'' ''0000001??????????001?????0110011'' MULH_exec,
     RiscvInstruction ''MULHSU'' ''0000001??????????010?????0110011'' MULHSU_exec,
     RiscvInstruction ''MULHU'' ''0000001??????????011?????0110011'' MULHU_exec,
     RiscvInstruction ''MULW'' ''0000001??????????000?????0111011'' MULW_exec,
     RiscvInstruction ''REM'' ''0000001??????????110?????0110011'' REM_exec,
     RiscvInstruction ''REMU'' ''0000001??????????111?????0110011'' REMU_exec,
     RiscvInstruction ''REMW'' ''0000001??????????110?????0111011'' REMW_exec,
     RiscvInstruction ''REMUW'' ''0000001??????????111?????0111011'' REMUW_exec]"

subsection \<open>The table and the decoder\<close>

definition addIsa :: "char \<Rightarrow> 'm instruction list" where
  "addIsa ext =
     (if ext = CHR ''A'' then addIsaExtensionA
      else if ext = CHR ''C'' then addIsaExtensionC
      else if ext = CHR ''M'' then addIsaExtensionM
      else [])"

definition supported :: "char list \<Rightarrow> 'm instruction list" where
  "supported listExtISA =
     addIsaUserRV64I @ addIsaPrivilegedRV64I @ concat (map addIsa listExtISA)"

definition addSupportedInstruction ::
  "'m instruction \<Rightarrow> (nat \<Rightarrow> 'm instruction list) \<Rightarrow> (nat \<Rightarrow> 'm instruction list)" where
  "addSupportedInstruction i tbl = tbl(ihash i := tbl (ihash i) @ [i])"

definition listInstr :: "char list \<Rightarrow> nat \<Rightarrow> 'm instruction list" where
  "listInstr listExtISA = fold addSupportedInstruction (supported listExtISA) (\<lambda>_. [])"

text \<open>
  \<open>decodeInstruction\<close> reads \<open>cacheline_[0]\<close>: first the bucket of the 32-bit word, then that
  of its lower half; each decoding also counts the LR/SC watchdog down.
\<close>

definition lookup_instr :: "(nat \<Rightarrow> 'm instruction list) \<Rightarrow> u32 \<Rightarrow> 'm instruction option" where
  "lookup_instr tbl w =
     (case List.find (\<lambda>i. parse i w) (tbl (hash32 w)) of
        Some i \<Rightarrow> Some i
      | None \<Rightarrow> List.find (\<lambda>i. parse i w) (tbl (hash16 (ucast w))))"

definition decodeInstruction ::
  "(nat \<Rightarrow> 'm instruction list) \<Rightarrow> 'm cpu \<Rightarrow> 'm instruction option \<times> 'm cpu" where
  "decodeInstruction tbl c =
     (lookup_instr tbl (buf32 (cacheline c)),
      if mmuReservedAddrWatchdog c \<noteq> 0
      then c\<lparr>mmuReservedAddrWatchdog := mmuReservedAddrWatchdog c - 1\<rparr> else c)"

subsection \<open>What a pattern string means\<close>

text \<open>Mask and opcode as binary numbers read off the pattern.\<close>

definition horner :: "(char \<Rightarrow> bool) \<Rightarrow> string \<Rightarrow> nat" where
  "horner f bits = foldl (\<lambda>a ch. 2 * a + of_bool (f ch)) 0 bits"

lemma or_push_one: "push_bit n (2 * a) OR 2 ^ n = push_bit n (2 * a + 1 :: u32)"
proof -
  have "2 * a OR 1 = 2 * a + (1 :: u32)"
    by (simp add: or_one_eq)
  then show ?thesis
    by (metis push_bit_of_1 push_bit_or)
qed

lemma horner_snoc: "horner f (xs @ [x]) = 2 * horner f xs + of_bool (f x)"
  by (simp add: horner_def)

lemma pattern_scan:
  assumes "length bits = 32" and "k \<le> 32"
  shows "fold (pattern_step bits) [0..<k] (0, 0)
    = (push_bit (32 - k) (of_nat (horner (\<lambda>ch. ch = CHR ''?'') (take k bits))),
       push_bit (32 - k) (of_nat (horner (\<lambda>ch. ch = CHR ''1'') (take k bits))))"
  using assms(2)
proof (induction k)
  case 0
  show ?case by (simp add: horner_def)
next
  case (Suc k)
  have t: "take (Suc k) bits = take k bits @ [bits ! k]"
    using assms(1) Suc.prems by (simp add: take_Suc_conv_app_nth)
  have e: "32 - k = Suc (31 - k)" using Suc.prems by simp
  have p: "push_bit (32 - k) a = push_bit (31 - k) (2 * a)" for a :: u32
    unfolding e by (simp add: mult.commute)
  have s: "32 - Suc k = 31 - k" by simp
  show ?case
    unfolding t horner_snoc s using Suc
    by (simp add: pattern_step_def p or_push_one)
qed

lemma horner_le: "horner f bits < 2 ^ length bits"
proof (induction bits rule: rev_induct)
  case (snoc x xs)
  then show ?case by (simp add: horner_snoc)
qed (simp add: horner_def)

lemma horner_compl: "horner f bits + horner (\<lambda>c. \<not> f c) bits + 1 = 2 ^ length bits"
proof (induction bits rule: rev_induct)
  case (snoc x xs)
  then show ?case by (auto simp: horner_snoc)
qed (simp add: horner_def)

lemma pattern_horner:
  assumes "length bits = 32"
  shows "pattern bits = (of_nat (horner (\<lambda>ch. ch \<noteq> CHR ''?'') bits), of_nat (horner (\<lambda>ch. ch = CHR ''1'') bits))"
proof -
  let ?q = "horner (\<lambda>ch. ch = CHR ''?'') bits"
  let ?m = "horner (\<lambda>ch. ch \<noteq> CHR ''?'') bits"
  have "(of_nat (?q + ?m + 1) :: u32) = of_nat (2 ^ 32)"
    unfolding horner_compl assms ..
  also have "\<dots> = 0"
    by (simp only: of_nat_power of_nat_numeral exp_eq_zero_iff) simp
  finally have "(of_nat ?q :: u32) + (of_nat ?m + 1) = 0"
    by (simp only: of_nat_add of_nat_1 add.assoc)
  then have "of_nat ?m = (NOT (of_nat ?q) :: u32)"
    by (simp only: not_eq_complement minus_unique [of "of_nat ?q"] add_diff_cancel_right')
  then show ?thesis
    using pattern_scan [OF assms, of 32] assms by (simp add: pattern_def xor.commute)
qed

subsection \<open>Keys: the patterns as masks, for checking them against each other\<close>

text \<open>
  A key is the mask, the opcode, the bucket and the field values (mask, value) that an
  overridden \<open>parse\<close> excludes.
\<close>

type_synonym key = "u32 \<times> u32 \<times> nat \<times> (u32 \<times> u32) list"

fun key_match :: "key \<Rightarrow> u32 \<Rightarrow> bool" where
  "key_match (m, oc, h, ex) w \<longleftrightarrow> w AND m = oc \<and> list_all (\<lambda>(em, ev). w AND em \<noteq> ev) ex"

fun key_hash :: "key \<Rightarrow> nat" where
  "key_hash (m, oc, h, ex) = h"

definition keyed :: "'m instruction \<Rightarrow> key \<Rightarrow> bool" where
  "keyed i k \<longleftrightarrow> (\<forall>w. parse i w \<longleftrightarrow> key_match k w) \<and> ihash i = key_hash k"

lemma getf_u16_field:
  fixes w :: u32
  assumes "lo + n \<le> 16"
  shows "(getf lo n (ucast w :: u16) :: u32) = drop_bit lo (w AND push_bit lo (mask n))"
  by (rule bit_word_eqI) (use assms in \<open>auto simp: bit_getf bit_simps\<close>)

lemma getf_u16_eq_iff:
  fixes w x :: u32
  assumes "lo + n \<le> 16" and "take_bit n x = x"
  shows "(getf lo n (ucast w :: u16) :: u32) = x \<longleftrightarrow> w AND push_bit lo (mask n) = push_bit lo x"
proof
  assume "getf lo n (ucast w :: u16) = x"
  then show "w AND push_bit lo (mask n) = push_bit lo x"
    unfolding getf_u16_field [OF assms(1)]
    by (intro bit_word_eqI) (auto simp: bit_simps)
next
  assume *: "w AND push_bit lo (mask n) = push_bit lo x"
  show "getf lo n (ucast w :: u16) = x"
    unfolding getf_u16_field [OF assms(1)] *
  proof (rule bit_word_eqI)
    fix i
    have "bit x i \<Longrightarrow> i < n"
      using assms(2) by (metis bit_take_bit_iff)
    then show "bit (drop_bit lo (push_bit lo x)) i = bit x i"
      using assms(1) by (auto simp: bit_simps dest: bit_imp_le_length)
  qed
qed

lemma cond_excl:
  fixes w :: u32
  shows "cond_rd (ucast w) \<longleftrightarrow> w AND 0xF80 \<noteq> 0"
    and "cond_rd_rs2 (ucast w) \<longleftrightarrow> w AND 0xF80 \<noteq> 0 \<and> w AND 0x7C \<noteq> 0"
    and "cond_lui (ucast w) \<longleftrightarrow> w AND 0xF80 \<noteq> 0 \<and> w AND 0xF80 \<noteq> 0x100"
proof -
  have rd: "CR_rdrs1 (ucast w) = x \<longleftrightarrow> w AND 0xF80 = push_bit 7 x" if "take_bit 5 x = x" for x :: u32
    using getf_u16_eq_iff [of 7 5 x w, OF _ that] by (simp add: CR_rdrs1_def mask_eq_exp_minus_1)
  have rs2: "CR_rs2 (ucast w) = 0 \<longleftrightarrow> w AND 0x7C = 0"
    using getf_u16_eq_iff [of 2 5 0 w] by (simp add: CR_rs2_def mask_eq_exp_minus_1)
  show "cond_rd (ucast w) \<longleftrightarrow> w AND 0xF80 \<noteq> 0"
    and "cond_rd_rs2 (ucast w) \<longleftrightarrow> w AND 0xF80 \<noteq> 0 \<and> w AND 0x7C \<noteq> 0"
    and "cond_lui (ucast w) \<longleftrightarrow> w AND 0xF80 \<noteq> 0 \<and> w AND 0xF80 \<noteq> 0x100"
    using rd [of 0] rd [of 2] rs2 by (simp_all add: cond_rd_def cond_rd_rs2_def cond_lui_def)
qed

lemma keyed_RiscvInstruction:
  assumes "length bits = 32"
    and "of_nat (horner (\<lambda>ch. ch \<noteq> CHR ''?'') bits) = m"
    and "of_nat (horner (\<lambda>ch. ch = CHR ''1'') bits) = oc" and "hash32 oc = h"
  shows "keyed (RiscvInstruction name bits ex) (m, oc, h, [])"
  using assms by (simp add: keyed_def parse_def ihash_def RiscvInstruction_def pattern_horner)

lemma keyed_RiscvInstruction16:
  assumes "length bits = 32"
    and "of_nat (horner (\<lambda>ch. ch \<noteq> CHR ''?'') bits) = m"
    and "of_nat (horner (\<lambda>ch. ch = CHR ''1'') bits) = oc" and "hash16 (ucast oc) = h"
    and "\<And>w :: u32. cond (ucast w) \<longleftrightarrow> list_all (\<lambda>(em, ev). w AND em \<noteq> ev) excl"
  shows "keyed (RiscvInstruction16 name bits cond ex) (m, oc, h, excl)"
  using assms
  by (simp add: keyed_def parse_def ihash_def RiscvInstruction16_def RiscvInstruction_def pattern_horner)

definition keys_I :: "key list" where
  "keys_I =
    [(0xfe00707f, 0x33, 12, []),
     (0x707f, 0x13, 4, []),
     (0x707f, 0x1b, 6, []),
     (0xfe00707f, 0x3b, 14, []),
     (0xfe00707f, 0x7033, 12, []),
     (0x707f, 0x7013, 4, []),
     (0x7f, 0x17, 5, []),
     (0x707f, 0x63, 24, []),
     (0x707f, 0x5063, 24, []),
     (0x707f, 0x7063, 24, []),
     (0x707f, 0x4063, 24, []),
     (0x707f, 0x6063, 24, []),
     (0x707f, 0x1063, 24, []),
     (0x7f, 0x6f, 27, []),
     (0x707f, 0x67, 25, []),
     (0x707f, 0x3003, 0, []),
     (0x707f, 0x2003, 0, []),
     (0x707f, 0x6003, 0, []),
     (0x707f, 0x1003, 0, []),
     (0x707f, 0x5003, 0, []),
     (0x707f, 0x3, 0, []),
     (0x707f, 0x4003, 0, []),
     (0x7f, 0x37, 13, []),
     (0xfe00707f, 0x6033, 12, []),
     (0x707f, 0x6013, 4, []),
     (0xfe00707f, 0x1033, 12, []),
     (0xfc00707f, 0x1013, 4, []),
     (0xfe00707f, 0x101b, 6, []),
     (0xfe00707f, 0x103b, 14, []),
     (0xfe00707f, 0x2033, 12, []),
     (0x707f, 0x2013, 4, []),
     (0xfe00707f, 0x3033, 12, []),
     (0x707f, 0x3013, 4, []),
     (0xfe00707f, 0x40005033, 12, []),
     (0xfc00707f, 0x40005013, 4, []),
     (0xfe00707f, 0x4000501b, 6, []),
     (0xfe00707f, 0x4000503b, 14, []),
     (0xfe00707f, 0x5033, 12, []),
     (0xfc00707f, 0x5013, 4, []),
     (0xfe00707f, 0x501b, 6, []),
     (0xfe00707f, 0x503b, 14, []),
     (0xfe00707f, 0x40000033, 12, []),
     (0xfe00707f, 0x4000003b, 14, []),
     (0x707f, 0x3023, 8, []),
     (0x707f, 0x2023, 8, []),
     (0x707f, 0x1023, 8, []),
     (0x707f, 0x23, 8, []),
     (0xfe00707f, 0x4033, 12, []),
     (0x707f, 0x4013, 4, [])]"

definition keys_Priv :: "key list" where
  "keys_Priv =
    [(0x707f, 0x3073, 28, []),
     (0x707f, 0x7073, 28, []),
     (0x707f, 0x2073, 28, []),
     (0x707f, 0x6073, 28, []),
     (0x707f, 0x1073, 28, []),
     (0x707f, 0x5073, 28, []),
     (0xffffffff, 0x200073, 28, []),
     (0xffffffff, 0x10200073, 28, []),
     (0xffffffff, 0x20200073, 28, []),
     (0xffffffff, 0x30200073, 28, []),
     (0x707f, 0xf, 3, []),
     (0x707f, 0x100f, 3, []),
     (0xfe007fff, 0x12000073, 28, []),
     (0xffffffff, 0x73, 28, []),
     (0xffffffff, 0x100073, 28, [])]"

definition keys_A :: "key list" where
  "keys_A =
    [(0xf800707f, 0x202f, 11, []),
     (0xf800707f, 0x2000202f, 11, []),
     (0xf800707f, 0x4000202f, 11, []),
     (0xf800707f, 0x6000202f, 11, []),
     (0xf800707f, 0x8000202f, 11, []),
     (0xf800707f, 0xa000202f, 11, []),
     (0xf800707f, 0xc000202f, 11, []),
     (0xf800707f, 0xe000202f, 11, []),
     (0xf800707f, 0x800202f, 11, []),
     (0xf9f0707f, 0x1000202f, 11, []),
     (0xf800707f, 0x1800202f, 11, []),
     (0xf800707f, 0x302f, 11, []),
     (0xf800707f, 0x2000302f, 11, []),
     (0xf800707f, 0x4000302f, 11, []),
     (0xf800707f, 0x6000302f, 11, []),
     (0xf800707f, 0x8000302f, 11, []),
     (0xf800707f, 0xa000302f, 11, []),
     (0xf800707f, 0xc000302f, 11, []),
     (0xf800707f, 0xe000302f, 11, []),
     (0xf800707f, 0x800302f, 11, []),
     (0xf9f0707f, 0x1000302f, 11, []),
     (0xf800707f, 0x1800302f, 11, [])]"

definition keys_C :: "key list" where
  "keys_C =
    [(0xf003, 0x9002, 50, [(0xF80, 0), (0x7C, 0)]),
     (0xe003, 0x1, 33, [(0xF80, 0)]),
     (0xef83, 0x6101, 45, []),
     (0xe003, 0x0, 32, []),
     (0xe003, 0x2001, 37, [(0xF80, 0)]),
     (0xfc63, 0x9c21, 49, []),
     (0xfc63, 0x8c61, 49, []),
     (0xec03, 0x8801, 49, []),
     (0xe003, 0xc001, 57, []),
     (0xe003, 0xe001, 61, []),
     (0xffff, 0x9002, 50, []),
     (0xe003, 0xa001, 53, []),
     (0xf07f, 0x9002, 50, [(0xF80, 0)]),
     (0xf07f, 0x8002, 50, [(0xF80, 0)]),
     (0xe003, 0x6000, 44, []),
     (0xe003, 0x6002, 46, [(0xF80, 0)]),
     (0xe003, 0x4002, 42, [(0xF80, 0)]),
     (0xe003, 0x4001, 41, [(0xF80, 0)]),
     (0xe003, 0x6001, 45, [(0xF80, 0), (0xF80, 0x100)]),
     (0xe003, 0x4000, 40, []),
     (0xf003, 0x8002, 50, [(0xF80, 0), (0x7C, 0)]),
     (0xffff, 0x1, 33, []),
     (0xfc63, 0x8c41, 49, []),
     (0xe003, 0xe000, 60, []),
     (0xe003, 0xe002, 62, []),
     (0xe003, 0x2, 34, [(0xF80, 0)]),
     (0xec03, 0x8401, 49, []),
     (0xec03, 0x8001, 49, []),
     (0xfc63, 0x8c01, 49, []),
     (0xfc63, 0x9c01, 49, []),
     (0xe003, 0xc000, 56, []),
     (0xe003, 0xc002, 58, []),
     (0xfc63, 0x8c21, 49, [])]"

definition keys_M :: "key list" where
  "keys_M =
    [(0xfe00707f, 0x2004033, 12, []),
     (0xfe00707f, 0x2005033, 12, []),
     (0xfe00707f, 0x200503b, 14, []),
     (0xfe00707f, 0x200403b, 14, []),
     (0xfe00707f, 0x2000033, 12, []),
     (0xfe00707f, 0x2001033, 12, []),
     (0xfe00707f, 0x2002033, 12, []),
     (0xfe00707f, 0x2003033, 12, []),
     (0xfe00707f, 0x200003b, 14, []),
     (0xfe00707f, 0x2006033, 12, []),
     (0xfe00707f, 0x2007033, 12, []),
     (0xfe00707f, 0x200603b, 14, []),
     (0xfe00707f, 0x200703b, 14, [])]"

lemma keyed_I: "list_all2 keyed (addIsaUserRV64I :: 'm instruction list) keys_I"
  unfolding addIsaUserRV64I_def keys_I_def
  by (intro list_all2_Nil [THEN iffD2] list_all2_Cons [THEN iffD2] conjI TrueI keyed_RiscvInstruction keyed_RiscvInstruction16)
    (simp_all add: horner_def hash32_def hash16_def cond_excl)

lemma keyed_Priv: "list_all2 keyed (addIsaPrivilegedRV64I :: 'm instruction list) keys_Priv"
  unfolding addIsaPrivilegedRV64I_def keys_Priv_def
  by (intro list_all2_Nil [THEN iffD2] list_all2_Cons [THEN iffD2] conjI TrueI keyed_RiscvInstruction keyed_RiscvInstruction16)
    (simp_all add: horner_def hash32_def hash16_def cond_excl)

lemma keyed_A: "list_all2 keyed (addIsaExtensionA :: 'm instruction list) keys_A"
  unfolding addIsaExtensionA_def keys_A_def
  by (intro list_all2_Nil [THEN iffD2] list_all2_Cons [THEN iffD2] conjI TrueI keyed_RiscvInstruction keyed_RiscvInstruction16)
    (simp_all add: horner_def hash32_def hash16_def cond_excl)

lemma keyed_C: "list_all2 keyed (addIsaExtensionC :: 'm instruction list) keys_C"
  unfolding addIsaExtensionC_def keys_C_def
  by (intro list_all2_Nil [THEN iffD2] list_all2_Cons [THEN iffD2] conjI TrueI keyed_RiscvInstruction keyed_RiscvInstruction16)
    (simp_all add: horner_def hash32_def hash16_def cond_excl)

lemma keyed_M: "list_all2 keyed (addIsaExtensionM :: 'm instruction list) keys_M"
  unfolding addIsaExtensionM_def keys_M_def
  by (intro list_all2_Nil [THEN iffD2] list_all2_Cons [THEN iffD2] conjI TrueI keyed_RiscvInstruction keyed_RiscvInstruction16)
    (simp_all add: horner_def hash32_def hash16_def cond_excl)

subsection \<open>Disjoint patterns\<close>

fun key_disj :: "key \<Rightarrow> key \<Rightarrow> bool" where
  "key_disj (m, oc, h, ex) (m', oc', h', ex') \<longleftrightarrow>
     (oc XOR oc') AND (m AND m') \<noteq> 0
     \<or> list_ex (\<lambda>(em, ev). em AND m' = em \<and> oc' AND em = ev) ex
     \<or> list_ex (\<lambda>(em, ev). em AND m = em \<and> oc AND em = ev) ex'"

lemma key_disj_sym: "key_disj k k' \<Longrightarrow> key_disj k' k"
  by (cases k; cases k') (auto simp: xor.commute and.commute)

lemma and_sub_mask: "em AND m = em \<Longrightarrow> w AND m = oc \<Longrightarrow> w AND em = oc AND em" for w :: "'a::len word"
  by (metis and.assoc and.commute)

lemma key_disj_match:
  assumes "key_disj k k'" and "key_match k w" and "key_match k' w"
  shows False
proof -
  obtain m oc h ex m' oc' h' ex' where k: "k = (m, oc, h, ex)" "k' = (m', oc', h', ex')"
    by (cases k; cases k') auto
  have w: "w AND m = oc" "w AND m' = oc'"
    and ex: "list_all (\<lambda>(em, ev). w AND em \<noteq> ev) ex" "list_all (\<lambda>(em, ev). w AND em \<noteq> ev) ex'"
    using assms(2,3) by (auto simp: k)
  have "(oc XOR oc') AND (m AND m') = 0"
    by (rule bit_word_eqI) (auto simp: bit_simps simp flip: w)
  moreover have "\<not> (em AND m' = em \<and> oc' AND em = ev)" if "(em, ev) \<in> set ex" for em ev
    using ex(1) and_sub_mask [OF _ w(2), of em] that by (auto simp: list_all_iff)
  moreover have "\<not> (em AND m = em \<and> oc AND em = ev)" if "(em, ev) \<in> set ex'" for em ev
    using ex(2) and_sub_mask [OF _ w(1), of em] that by (auto simp: list_all_iff)
  ultimately show False
    using assms(1) by (auto simp: k list_ex_iff)
qed

definition key_sep :: "key \<Rightarrow> key \<Rightarrow> bool" where
  "key_sep k k' \<longleftrightarrow> (if key_hash k = key_hash k' then key_disj k k' else True)"

abbreviation keys_sep :: "key list \<Rightarrow> key list \<Rightarrow> bool" where
  "keys_sep ks ks' \<equiv> list_all (\<lambda>k. list_all (key_sep k) ks') ks"

fun sep_all :: "key list \<Rightarrow> bool" where
  "sep_all [] = True"
| "sep_all (k # ks) = (list_all (key_sep k) ks \<and> sep_all ks)"

lemma keys_sep_sym: "keys_sep ks ks' \<Longrightarrow> keys_sep ks' ks"
  using key_disj_sym by (force simp: list_all_iff key_sep_def)

lemma sep_all_append: "sep_all (ks @ ks') \<longleftrightarrow> sep_all ks \<and> sep_all ks' \<and> keys_sep ks ks'"
  by (induction ks) auto

lemma sep_I: "sep_all keys_I" by (simp add: keys_I_def key_sep_def)
lemma sep_Priv: "sep_all keys_Priv" by (simp add: keys_Priv_def key_sep_def)
lemma sep_A: "sep_all keys_A" by (simp add: keys_A_def key_sep_def)
lemma sep_C: "sep_all keys_C" by (simp add: keys_C_def key_sep_def)
lemma sep_M: "sep_all keys_M" by (simp add: keys_M_def key_sep_def)
lemma sep_I_Priv: "keys_sep keys_I keys_Priv" by (simp add: keys_I_def keys_Priv_def key_sep_def)
lemma sep_I_A: "keys_sep keys_I keys_A" by (simp add: keys_I_def keys_A_def key_sep_def)
lemma sep_I_C: "keys_sep keys_I keys_C" by (simp add: keys_I_def keys_C_def key_sep_def)
lemma sep_I_M: "keys_sep keys_I keys_M" by (simp add: keys_I_def keys_M_def key_sep_def)
lemma sep_Priv_A: "keys_sep keys_Priv keys_A" by (simp add: keys_Priv_def keys_A_def key_sep_def)
lemma sep_Priv_C: "keys_sep keys_Priv keys_C" by (simp add: keys_Priv_def keys_C_def key_sep_def)
lemma sep_Priv_M: "keys_sep keys_Priv keys_M" by (simp add: keys_Priv_def keys_M_def key_sep_def)
lemma sep_A_C: "keys_sep keys_A keys_C" by (simp add: keys_A_def keys_C_def key_sep_def)
lemma sep_A_M: "keys_sep keys_A keys_M" by (simp add: keys_A_def keys_M_def key_sep_def)
lemma sep_C_M: "keys_sep keys_C keys_M" by (simp add: keys_C_def keys_M_def key_sep_def)

definition addKeys :: "char \<Rightarrow> key list" where
  "addKeys ext = (if ext = CHR ''A'' then keys_A else if ext = CHR ''C'' then keys_C
     else if ext = CHR ''M'' then keys_M else [])"

definition supported_keys :: "char list \<Rightarrow> key list" where
  "supported_keys exts = keys_I @ keys_Priv @ concat (map addKeys exts)"

lemma sep_exts:
  "sep_all (addKeys e)" "e \<noteq> e' \<Longrightarrow> keys_sep (addKeys e) (addKeys e')"
  "keys_sep keys_I (addKeys e)" "keys_sep keys_Priv (addKeys e)"
  by (auto simp: list.pred_True addKeys_def sep_A sep_C sep_M sep_A_C sep_A_M sep_C_M sep_I_A sep_I_C sep_I_M
      sep_Priv_A sep_Priv_C sep_Priv_M keys_sep_sym [OF sep_A_C] keys_sep_sym [OF sep_A_M]
      keys_sep_sym [OF sep_C_M])

lemma keys_sep_concat: "(\<And>e. e \<in> set es \<Longrightarrow> keys_sep ks (f e)) \<Longrightarrow> keys_sep ks (concat (map f es))"
  by (induction es) (auto simp: list_all_iff)

lemma sep_concat: "distinct exts \<Longrightarrow> sep_all (concat (map addKeys exts))"
proof (induction exts)
  case (Cons e exts)
  then have "keys_sep (addKeys e) (concat (map addKeys exts))"
    by (intro keys_sep_concat sep_exts(2)) auto
  with Cons show ?case by (simp add: sep_all_append sep_exts(1))
qed simp

lemma supported_keys_sep: "distinct exts \<Longrightarrow> sep_all (supported_keys exts)"
  unfolding supported_keys_def sep_all_append
  using sep_I sep_Priv sep_I_Priv sep_concat keys_sep_concat [where ks = keys_I and f = addKeys and es = exts]
    keys_sep_concat [where ks = keys_Priv and f = addKeys and es = exts] sep_exts
  by (auto simp: list_all_iff)

lemma supported_keyed: "list_all2 keyed (supported exts) (supported_keys exts)"
proof -
  have "list_all2 keyed (concat (map addIsa exts)) (concat (map addKeys exts))"
    by (induction exts)
      (auto intro!: list_all2_appendI simp: addIsa_def addKeys_def keyed_A keyed_C keyed_M)
  then show ?thesis
    unfolding supported_def supported_keys_def
    by (intro list_all2_appendI keyed_I keyed_Priv)
qed

fun key_bucket :: "key \<Rightarrow> bool" where
  "key_bucket (m, oc, h, ex) \<longleftrightarrow>
     m AND 0x7F = 0x7F \<and> oc AND 3 = 3 \<and> h = hash32 oc
     \<or> m AND 0xE003 = 0xE003 \<and> oc AND 3 \<noteq> 3 \<and> h = hash16 (ucast oc)"

lemma keys_bucket:
  "list_all key_bucket keys_I" "list_all key_bucket keys_Priv" "list_all key_bucket keys_A"
  "list_all key_bucket keys_C" "list_all key_bucket keys_M"
  unfolding keys_I_def keys_Priv_def keys_A_def keys_C_def keys_M_def
  by (simp_all add: hash32_def hash16_def)

lemma supported_keys_bucket: "list_all key_bucket (supported_keys exts)"
  unfolding supported_keys_def
  by (induction exts) (auto simp: addKeys_def keys_bucket)

lemma hash32_field: "hash32 w = hash32 (w AND 0x7F)"
proof -
  have "drop_bit 2 w AND mask 5 = drop_bit 2 (w AND mask 7) AND mask 5"
    by (rule bit_word_eqI) (auto simp: bit_simps)
  then show ?thesis by (simp add: hash32_def mask_eq_exp_minus_1)
qed

lemma hash16_field: "hash16 (ucast w) = hash16 (ucast (w AND 0xE003))" for w :: u32
proof -
  have "drop_bit 13 (ucast (ucast w :: u16) :: u32)
      = drop_bit 13 (ucast (ucast (w AND (push_bit 13 (mask 3) OR mask 2)) :: u16))"
    "(ucast (ucast w :: u16) :: u32) AND mask 2
      = ucast (ucast (w AND (push_bit 13 (mask 3) OR mask 2)) :: u16) AND mask 2"
    by (rule bit_word_eqI, auto simp: bit_simps)+
  then show ?thesis by (simp add: hash16_def mask_eq_exp_minus_1)
qed

subsection \<open>Decoding is exact\<close>

lemma key_match_hash:
  assumes "key_bucket k" and "key_match k w"
  shows "if w AND 3 = 3 then key_hash k = hash32 w else key_hash k = hash16 (ucast w)"
proof -
  obtain m oc h ex where k: "k = (m, oc, h, ex)" by (cases k) auto
  have w: "w AND m = oc" using assms(2) by (simp add: k)
  show ?thesis
  proof (cases "m AND 0x7F = 0x7F \<and> oc AND 3 = 3 \<and> h = hash32 oc")
    case True
    have "w AND 0x7F = oc AND 0x7F"
      using True w by (metis and.assoc and.commute)
    moreover from this have "(w AND 0x7F) AND 3 = (oc AND 0x7F) AND 3" by simp
    then have "w AND 3 = 3"
      using True by (simp add: and.assoc)
    ultimately show ?thesis
      using True hash32_field [of w] hash32_field [of oc] by (simp add: k)
  next
    case False
    with assms(1) have h: "m AND 0xE003 = 0xE003" "oc AND 3 \<noteq> 3" "h = hash16 (ucast oc)"
      by (auto simp: k)
    have "w AND 0xE003 = oc AND 0xE003"
      using h(1) w by (metis and.assoc and.commute)
    moreover from this have "(w AND 0xE003) AND 3 = (oc AND 0xE003) AND 3" by simp
    then have "w AND 3 = oc AND 3"
      by (simp add: and.assoc)
    ultimately show ?thesis
      using h hash16_field [of w] hash16_field [of oc] by (simp add: k)
  qed
qed

lemma list_all2_in_set: "list_all2 Q xs ys \<Longrightarrow> x \<in> set xs \<Longrightarrow> \<exists>y\<in>set ys. Q x y"
  by (induction rule: list_all2_induct) auto

lemma keyed_unique:
  assumes "list_all2 keyed ins ks" and "sep_all ks" and "list_all key_bucket ks"
    and "i \<in> set ins" and "j \<in> set ins" and "parse i w" and "parse j w"
  shows "i = j"
  using assms(1-5)
proof (induction rule: list_all2_induct)
  case (Cons i' ins k ks)
  have no: False if i: "i'' \<in> set ins" and p: "parse i' w" "parse i'' w" for i''
  proof -
    obtain k'' where k'': "k'' \<in> set ks" "keyed i'' k''"
      using list_all2_in_set [OF Cons.hyps(2) i] by blast
    have m: "key_match k w" "key_match k'' w"
      using Cons.hyps(1) k''(2) p by (simp_all add: keyed_def)
    moreover have "key_bucket k" "key_bucket k''"
      using Cons.prems(2) k''(1) by (auto simp: list_all_iff)
    ultimately have "key_hash k = key_hash k''"
      using key_match_hash [of k w] key_match_hash [of k'' w] by (simp split: if_splits)
    then have "key_disj k k''"
      using Cons.prems(1) k''(1) by (auto simp: list_all_iff key_sep_def)
    then show False using key_disj_match m by blast
  qed
  have IH: "i = j" if "i \<in> set ins" "j \<in> set ins"
    by (rule Cons.IH) (use Cons.prems(1,2) that in simp_all)
  have "i = i' \<or> i \<in> set ins" "j = i' \<or> j \<in> set ins"
    using Cons.prems(3,4) by auto
  then show ?case
    using no [of i] no [of j] IH assms(6,7) by blast
qed simp

lemma parse_unique:
  assumes "distinct exts" and "i \<in> set (supported exts)" and "j \<in> set (supported exts)"
    and "parse i w" and "parse j w"
  shows "i = j"
  by (rule keyed_unique [OF supported_keyed supported_keys_sep [OF assms(1)]
        supported_keys_bucket assms(2-5)])

lemma parse_hash:
  assumes "i \<in> set (supported exts)" and "parse i w"
  shows "ihash i = hash32 w \<or> ihash i = hash16 (ucast w)"
proof -
  obtain k where k: "k \<in> set (supported_keys exts)" "keyed i k"
    using list_all2_in_set [OF supported_keyed assms(1)] by blast
  then have "key_bucket k" and "key_match k w"
    using supported_keys_bucket [of exts] assms(2) by (simp_all add: list_all_iff keyed_def)
  then show ?thesis
    using key_match_hash [of k w] k(2) by (auto simp: keyed_def split: if_splits)
qed

lemma fold_addSupportedInstruction:
  "fold addSupportedInstruction ins tbl h = tbl h @ filter (\<lambda>i. ihash i = h) ins"
  by (induction ins arbitrary: tbl) (auto simp: addSupportedInstruction_def)

lemma listInstr_bucket: "listInstr exts h = filter (\<lambda>i. ihash i = h) (supported exts)"
  by (simp add: listInstr_def fold_addSupportedInstruction)

lemma find_Some_in: "List.find Q xs = Some x \<Longrightarrow> x \<in> set xs \<and> Q x"
  by (auto simp: find_Some_iff)

lemma find_bucket_Some:
  "List.find (\<lambda>i. parse i w) (listInstr exts h) = Some i
     \<Longrightarrow> i \<in> set (supported exts) \<and> parse i w"
  by (drule find_Some_in) (simp add: listInstr_bucket)

lemma lookup_instr_iff:
  fixes i :: "'m instruction"
  assumes "distinct exts"
  shows "lookup_instr (listInstr exts) w = Some i \<longleftrightarrow> i \<in> set (supported exts) \<and> parse i w"
proof
  assume "lookup_instr (listInstr exts) w = Some i"
  then show "i \<in> set (supported exts) \<and> parse i w"
    using find_bucket_Some by (auto simp: lookup_instr_def split: option.splits)
next
  let ?tbl = "listInstr exts :: nat \<Rightarrow> 'm instruction list"
  assume i: "i \<in> set (supported exts) \<and> parse i w"
  have some: "j = i" if "List.find (\<lambda>i. parse i w) (?tbl h) = Some j" for h j
    using find_bucket_Some [OF that] i parse_unique [OF assms] by blast
  have none: "List.find (\<lambda>i. parse i w) (?tbl (ihash i)) \<noteq> None"
  proof
    assume "List.find (\<lambda>i. parse i w) (?tbl (ihash i)) = None"
    moreover have "i \<in> set (?tbl (ihash i))"
      using i by (simp add: listInstr_bucket)
    ultimately show False
      using i by (simp add: find_None_iff)
  qed
  show "lookup_instr (listInstr exts) w = Some i"
  proof (cases "List.find (\<lambda>i. parse i w) (?tbl (hash32 w))")
    case (Some j)
    then show ?thesis using some by (simp add: lookup_instr_def)
  next
    case None
    then have "ihash i = hash16 (ucast w)"
      using none parse_hash [of i exts w] i by auto
    then obtain j where "List.find (\<lambda>i. parse i w) (?tbl (hash16 (ucast w))) = Some j"
      using none by auto
    with None show ?thesis using some by (simp add: lookup_instr_def)
  qed
qed

lemma lookup_instr_None:
  "distinct exts \<Longrightarrow>
     lookup_instr (listInstr exts) w = (None :: 'm instruction option)
       \<longleftrightarrow> (\<forall>i\<in>set (supported exts :: 'm instruction list). \<not> parse i w)"
  using lookup_instr_iff [of exts w, where 'm = 'm]
  by (cases "lookup_instr (listInstr exts) w :: 'm instruction option") auto


end
