(* ===== verification/Pipeline.thy ===== *)
theory Pipeline
  imports Decode
begin

section \<open>Traps, debug state machine and the instruction cycle\<close>

text \<open>
  \<open>CpuGeneric\<close> (common/generic/cpu_generic.cpp) and the trap and debug parts of
  \<open>CpuRiver_Functional\<close> (cpu_fnc_plugin/cpu_riscv_func.cpp).  A fetch that faults takes the
  trap and fetches again at the trap vector, recursively and without a bound: the model
  counts the fetches, and \<open>None\<close> says that the given number was not enough.  The trace file,
  the coverage tracker, messages and locks are left out.
\<close>

subsection \<open>Entering and leaving debug states\<close>

definition enterDebugMode :: "'m platform \<Rightarrow> u64 \<Rightarrow> u64 \<Rightarrow> 'm cpu \<Rightarrow> 'm cpu" where
  "enterDebugMode P v cause c =
     (let dcsr = ucast (ucast (readCSR P CSR_dcsr c) :: u32);
          dcsr = set_dcsr_cause cause dcsr;
          c = writeCSR P CSR_dcsr dcsr c
      in writeCSR P CSR_dpc v c)"

definition resume :: "'m cpu \<Rightarrow> 'm cpu" where
  "resume c = c\<lparr>estate := CORE_Normal\<rparr>"

definition halt :: "'m platform \<Rightarrow> u64 \<Rightarrow> 'm cpu \<Rightarrow> 'm cpu" where
  "halt P cause c =
     (if estate c = CORE_OFF then c
      else let c = (if cause = HALT_CAUSE_TRIGGER \<or> cause = HALT_CAUSE_EBREAK
                    then enterDebugMode P (getPC c) cause c
                    else enterDebugMode P (getNPC c) cause c)
        in c\<lparr>estate := CORE_Halted\<rparr>)"

definition enterProgbufExec :: "'m cpu \<Rightarrow> 'm cpu" where
  "enterProgbufExec c = setNPC 0 (c\<lparr>estate := CORE_ProgbufExec, cur_ctx := Ctx_ProgbufExec\<rparr>)"

definition exitProgbufExec :: "'m cpu \<Rightarrow> 'm cpu" where
  "exitProgbufExec c = c\<lparr>estate := CORE_Halted, cur_ctx := Ctx_Normal\<rparr>"

subsection \<open>Traps\<close>

definition checkStackProtection :: "'m platform \<Rightarrow> 'm cpu \<Rightarrow> 'm cpu" where
  "checkStackProtection P c =
     (let mstackovr = readCSR P CSR_mstackovr c;
          mstackund = readCSR P CSR_mstackund c;
          sp = R c Reg_sp
      in if mstackovr \<noteq> 0 \<and> sp < mstackovr
         then writeCSR P CSR_mstackovr 0 (generateException P EXCEPTION_StackOverflow (getPC c) c)
         else if mstackund \<noteq> 0 \<and> sp > mstackund
         then writeCSR P CSR_mstackund 0 (generateException P EXCEPTION_StackUnderflow (getPC c) c)
         else c)"

definition switchContext :: "'m platform \<Rightarrow> u64 \<Rightarrow> 'm cpu \<Rightarrow> 'm cpu" where
  "switchContext P prvnxt c =
     (let mstatus = readCSR P CSR_mstatus c;
          mstatus = set_MPP (cur_prv_level c) mstatus;
          mstatus = set_MPIE (drop_bit (unat (cur_prv_level c)) mstatus AND 1) mstatus;
          mstatus = set_MIE 0 mstatus;
          c = c\<lparr>cur_prv_level := prvnxt\<rparr>;
          c = writeCSR P CSR_mstatus mstatus c;
          xepc = ucast (push_bit 8 (cur_prv_level c) + 0x41)
      in writeCSR P xepc (getNPC c) c)"

definition handleException :: "'m platform \<Rightarrow> nat \<Rightarrow> 'm cpu \<Rightarrow> 'm cpu" where
  "handleException P e c =
     (if e = EXCEPTION_Breakpoint \<and> estate c = CORE_ProgbufExec then exitProgbufExec c
      else
        let c = (if estate c \<noteq> CORE_ProgbufExec
                 then writeCSR P CSR_mcause (set_mcause_code (of_nat e) 0) c else c);
            dcsr = ucast (ucast (readCSR P CSR_dcsr c) :: u32)
        in if e = EXCEPTION_Breakpoint \<and> dcsr_ebreakm dcsr = 1
           then halt P HALT_CAUSE_EBREAK (setNPC (getPC c) c)
           else let c = switchContext P PRV_M c;
                    mtvec = readCSR P CSR_mtvec c AND NOT 3
                in setNPC mtvec c)"

definition pending_irq :: "'m platform \<Rightarrow> u64 \<Rightarrow> 'm cpu \<Rightarrow> u64" where
  "pending_irq P mie c =
     (let mcause = 0;
          mcause = (if mie_MSIE mie = 1 \<and> truth (iirqloc P (2 * hartid P) (step_cnt c) (isysbus c))
                    then set_mcause_code 3 (set_mcause_irq 1 mcause) else mcause);
          mcause = (if mcause_irq mcause = 0 \<and> mie_MTIE mie = 1
                       \<and> truth (iirqloc P (2 * hartid P + 1) (step_cnt c) (isysbus c))
                    then set_mcause_code 7 (set_mcause_irq 1 mcause) else mcause);
          mcause = (if mcause_irq mcause = 0 \<and> mie_MEIE mie = 1 \<and> iirqext P 0 (isysbus c) \<noteq> 0
                    then set_mcause_code 11 (set_mcause_irq 1 mcause) else mcause)
      in mcause)"

definition handleInterrupts :: "'m platform \<Rightarrow> 'm cpu \<Rightarrow> 'm cpu" where
  "handleInterrupts P c =
     (let mstatus = readCSR P CSR_mstatus c
      in if mstatus_MIE mstatus = 0 then c
         else let mcause = pending_irq P (readCSR P CSR_mie c) c
           in if mcause_irq mcause = 0 then c
              else let c = writeCSR P CSR_mcause mcause c;
                       c = switchContext P PRV_M c;
                       mtvec = readCSR P CSR_mtvec c;
                       mtvecmode = mtvec AND 3;
                       mtvec = mtvec AND NOT 3
                in if mtvecmode = 1 then setNPC (mtvec + 4 * mcause_code mcause) c
                   else setNPC mtvec c)"

text \<open>
  The loop of \<open>handleTrap\<close> that finds the lowest pending exception; it is entered with a
  non-zero \<open>t\<close> only (the guard \<open>t \<noteq> 0\<close> stands for that).
\<close>

function lowest_exception :: "u64 \<Rightarrow> nat \<Rightarrow> nat" where
  "lowest_exception t e =
     (if t AND 1 = 0 \<and> t \<noteq> 0 then lowest_exception (drop_bit 1 t) (e + 1) else e)"
  by auto

termination
proof (relation "measure (\<lambda>(t, e). unat t)", simp, clarsimp)
  fix t :: u64
  assume "t \<noteq> 0"
  then have "0 < unat t" by (simp add: unat_gt_0)
  then show "unat (drop_bit (Suc 0) t) < unat t"
    by (simp add: drop_bit_Suc unat_div)
qed

declare lowest_exception.simps [simp del]

definition handleTrap :: "'m platform \<Rightarrow> 'm cpu \<Rightarrow> 'm cpu" where
  "handleTrap P c =
     (let c = checkStackProtection P c
      in if exceptions c \<noteq> 0
         then let e = lowest_exception (exceptions c) 0;
                  c = c\<lparr>exceptions := exceptions c AND NOT (bit1 e)\<rparr>
              in handleException P e c
         else handleInterrupts P c)"

definition updateQueue :: "'m platform \<Rightarrow> 'm cpu \<Rightarrow> 'm cpu" where
  "updateQueue P c = c\<lparr>isysbus := stepCallbacks P (step_cnt c) (isysbus c)\<rparr>"

subsection \<open>Triggers\<close>

definition icount_step :: "'m platform \<Rightarrow> nat \<Rightarrow> bool \<times> 'm cpu \<Rightarrow> bool \<times> 'm cpu" where
  "icount_step P i = (\<lambda>(ret, c).
     let pt = ptriggers c i
     in if tdata1_type (data1 pt) = TriggerType_InstrCountMatch
        then let d = data1 pt;
                 ret = (if icount_count d - 1 = 0 then True else ret);
                 d = (if icount_count d > 1 \<and> (truth (icount_m d) \<or> truth (icount_s d) \<or> truth (icount_u d))
                      then set_icount_count (icount_count d - 1) d else d);
                 d = set_icount_hit 1 d
             in (ret, c\<lparr>ptriggers := (ptriggers c)(i := pt\<lparr>data1 := d\<rparr>)\<rparr>)
        else (ret, c))"

definition isTriggerICount :: "'m platform \<Rightarrow> 'm cpu \<Rightarrow> bool \<times> 'm cpu" where
  "isTriggerICount P c = fold (icount_step P) [0..<triggersTotal P] (False, c)"

fun napot_mask :: "nat \<Rightarrow> u64 \<Rightarrow> u64 \<Rightarrow> u64" where
  "napot_mask 0 d msk = msk"
| "napot_mask (Suc n) d msk = (if d AND msk = 0 then napot_mask n d (push_bit 1 msk) else msk)"

definition trigger_match :: "'m platform \<Rightarrow> u64 \<Rightarrow> TriggerStorageType \<Rightarrow> bool" where
  "trigger_match P pc pt =
     (let m = mcontrol_match (data1 pt); d2 = data2 pt
      in if m = 0 then pc = d2
         else if m = 1 then
           let msk = napot_mask (mcontrolMaskmax P) d2 1; msk = NOT (msk - 1)
           in pc AND msk = d2 AND msk
         else if m = 2 then pc \<ge> d2
         else if m = 3 then pc < d2
         else if m = 4 then (pc AND 0xFFFFFFFF) AND drop_bit 32 d2 = d2 AND 0xFFFFFFFF
         else if m = 5 then drop_bit 32 pc AND drop_bit 32 d2 = d2 AND 0xFFFFFFFF
         else False)"

text \<open>State of the loop: whether a trigger fired, its action, the CPU with the hit bits.\<close>

definition itrigger_step ::
  "'m platform \<Rightarrow> u64 \<Rightarrow> nat \<Rightarrow> bool \<times> u64 \<times> 'm cpu \<Rightarrow> bool \<times> u64 \<times> 'm cpu" where
  "itrigger_step P pc i = (\<lambda>(fire, act, c).
     let pt = ptriggers c i; d = data1 pt
     in if tdata1_type d \<noteq> TriggerType_AddrDataMatch then (fire, act, c)
        else if (mcontrol_m d OR mcontrol_s d OR mcontrol_u d) = 0 then (fire, act, c)
        else if mcontrol_execute d = 0 then (fire, act, c)
        else let d = (if trigger_match P pc pt then set_mcontrol_hit 1 d else d);
                 c = c\<lparr>ptriggers := (ptriggers c)(i := pt\<lparr>data1 := d\<rparr>)\<rparr>
             in if mcontrol_hit d = 1 then (True, mcontrol_action d, c) else (fire, act, c))"

text \<open>\<open>raiseSoftwareIrq\<close> of the functional CPU is empty.\<close>

definition isTriggerInstruction :: "'m platform \<Rightarrow> 'm cpu \<Rightarrow> bool \<times> 'm cpu" where
  "isTriggerInstruction P c =
     (case fold (itrigger_step P (getPC c)) [0..<triggersTotal P] (False, 0, c) of
        (fire, act, c) \<Rightarrow>
          (fire, if fire \<and> act = 1 then halt P HALT_CAUSE_TRIGGER c else c))"

subsection \<open>The instruction cycle\<close>

definition isStepEnabled :: "'m platform \<Rightarrow> 'm cpu \<Rightarrow> bool" where
  "isStepEnabled P c = truth (dcsr_step (ucast (ucast (readCSR P CSR_dcsr c) :: u32)))"

definition updateState :: "'m platform \<Rightarrow> 'm cpu \<Rightarrow> bool \<times> 'm cpu" where
  "updateState P c =
     (let (upd, c) =
        (case estate c of
           CORE_Normal \<Rightarrow>
             if haltreq c then (False, halt P HALT_CAUSE_HALTREQ (c\<lparr>haltreq := False\<rparr>))
             else (case isTriggerICount P c of (icount, c) \<Rightarrow>
               if icount then (False, halt P HALT_CAUSE_TRIGGER c)
               else if isStepEnabled P c then (False, halt P HALT_CAUSE_STEP c)
               else (True, c))
         | CORE_ProgbufExec \<Rightarrow> (True, c)
         | _ \<Rightarrow>
             if procbufexecreq c then (False, (enterProgbufExec c)\<lparr>procbufexecreq := False\<rparr>)
             else if resumereq c then (True, resume (c\<lparr>resumereq := False, resumeack := True\<rparr>))
             else (False, updateQueue P c))
      in (upd, if upd \<and> estate c \<noteq> CORE_ProgbufExec then c\<lparr>step_cnt := step_cnt c + 1\<rparr> else c))"

definition fetch_progbuf :: "'m cpu \<Rightarrow> 'm cpu" where
  "fetch_progbuf c =
     c\<lparr>cacheline := payload_load (\<lambda>i. progbuf c (fetch_addr c + of_nat i)) 4 (cacheline c)\<rparr>"

definition fetch_word :: "'m platform \<Rightarrow> 'm cpu \<Rightarrow> ETransStatus \<times> 'm cpu" where
  "fetch_word P c =
     (let tr = (fetch_trans c)\<lparr>action := MemAction_Read, addr := fetch_addr c, xsize := 4, wstrb := 0\<rparr>
      in case dma_memop P tr True c of (ret, tr, c) \<Rightarrow>
           (ret, if ret = TRANS_ERROR then c\<lparr>fetch_trans := tr\<rparr>
                 else c\<lparr>fetch_trans := tr, cacheline := rpayload tr\<rparr>))"

definition fetch_fault :: "'m platform \<Rightarrow> 'm cpu \<Rightarrow> 'm cpu" where
  "fetch_fault P c =
     (let c = generateException P EXCEPTION_InstrFault (addr (fetch_trans c)) c;
          c = handleTrap P c
      in setPC (getNPC c) c)"

fun fetchILine :: "nat \<Rightarrow> 'm platform \<Rightarrow> 'm cpu \<Rightarrow> 'm cpu option" where
  "fetchILine 0 P c = None"
| "fetchILine (Suc n) P c =
     (let c = c\<lparr>fetch_addr := getPC c\<rparr>
      in if estate c = CORE_ProgbufExec then Some (fetch_progbuf c)
         else case fetch_word P c of (ret, c) \<Rightarrow>
           if ret = TRANS_ERROR then fetchILine n P (fetch_fault P c) else Some c)"

text \<open>Decode and execute the fetched word; an unknown word raises the illegal exception.\<close>

definition executeLine ::
  "(nat \<Rightarrow> 'm instruction list) \<Rightarrow> 'm platform \<Rightarrow> 'm cpu \<Rightarrow> 'm cpu" where
  "executeLine tbl P c =
     (case decodeInstruction tbl c of (instr, c) \<Rightarrow>
        let c = (case instr of
                   Some i \<Rightarrow> (case iexec i P (cacheline c) c of (c, len) \<Rightarrow> c\<lparr>oplen := len\<rparr>)
                 | None \<Rightarrow> generateException P EXCEPTION_InstrIllegal (getPC c) c);
            c = c\<lparr>do_not_cache := False\<rparr>
        in c\<lparr>pc_z := getPC c\<rparr>)"

definition finishCycle :: "'m platform \<Rightarrow> 'm cpu \<Rightarrow> 'm cpu" where
  "finishCycle P c =
     (let c = (if \<not> branch c then setNPC (getPC c + ucast (oplen c)) c else c)
      in handleTrap P (updateQueue P c))"

definition updatePipeline ::
  "nat \<Rightarrow> (nat \<Rightarrow> 'm instruction list) \<Rightarrow> 'm platform \<Rightarrow> 'm cpu \<Rightarrow> 'm cpu option" where
  "updatePipeline n tbl P c =
     (case updateState P c of (upd, c) \<Rightarrow>
        if \<not> upd then Some c
        else let c = (setPC (getNPC c) c)\<lparr>branch := False, oplen := 0\<rparr>
          in case isTriggerInstruction P c of (fire, c) \<Rightarrow>
             if fire then Some (finishCycle P c)
             else map_option (\<lambda>c. finishCycle P (executeLine tbl P c)) (fetchILine n P c))"

subsection \<open>Requests of the debugger, reset and power\<close>

definition resumereq_req :: "'m cpu \<Rightarrow> int \<times> 'm cpu" where
  "resumereq_req c =
     (if \<not> isHalted c then (1, c) else (0, c\<lparr>resumereq := True, resumeack := False\<rparr>))"

definition haltreq_req :: "'m cpu \<Rightarrow> int \<times> 'm cpu" where
  "haltreq_req c = (if isHalted c then (1, c) else (0, c\<lparr>haltreq := True\<rparr>))"

definition executeProgbuf :: "(u64 \<Rightarrow> u8) \<Rightarrow> 'm cpu \<Rightarrow> bool \<times> 'm cpu" where
  "executeProgbuf buf c =
     (if \<not> isHalted c then (True, c) else (False, c\<lparr>progbuf := buf, procbufexecreq := True\<rparr>))"

definition dportReadReg :: "'m platform \<Rightarrow> u32 \<Rightarrow> 'm cpu \<Rightarrow> int \<times> u64" where
  "dportReadReg P regno c =
     (let region = drop_bit 12 regno
      in if region = 0 then (0, readCSR P regno c)
         else if region = 1 then (0, readGPR (unat (regno AND 0x3F)) c)
         else if region = 0xc then (0, 0)
         else (-1, 0))"

definition dportWriteReg :: "'m platform \<Rightarrow> u32 \<Rightarrow> u64 \<Rightarrow> 'm cpu \<Rightarrow> int \<times> 'm cpu" where
  "dportWriteReg P regno val c =
     (let region = drop_bit 12 regno
      in if region = 0 then (0, writeCSR P regno val c)
         else if region = 1 then (0, writeGPR (unat (regno AND 0x3F)) val c)
         else if region = 0xc then (0, c)
         else (-1, c))"

definition dportReadMem ::
  "'m platform \<Rightarrow> u64 \<Rightarrow> u32 \<Rightarrow> u64 \<Rightarrow> 'm cpu \<Rightarrow> int \<times> u64 \<times> 'm cpu" where
  "dportReadMem P a sz payload c =
     (case dma_memop P (new_trans P MemAction_Read a sz) False c of (ret, tr, c) \<Rightarrow>
        if ret \<noteq> TRANS_OK then (-1, payload, c)
        else (0, payload_load (byte_of (rpayload tr)) (unat sz) payload, c))"

definition dportWriteMem ::
  "'m platform \<Rightarrow> u64 \<Rightarrow> u32 \<Rightarrow> u64 \<Rightarrow> 'm cpu \<Rightarrow> int \<times> 'm cpu" where
  "dportWriteMem P a sz payload c =
     (case dma_memop P ((new_trans P MemAction_Write a sz)\<lparr>wpayload := payload\<rparr>) False c of
        (ret, tr, c) \<Rightarrow> (if ret \<noteq> TRANS_OK then -1 else 0, c))"

datatype EPowerAction = POWER_OFF | POWER_ON

definition power :: "EPowerAction \<Rightarrow> 'm cpu \<Rightarrow> 'm cpu" where
  "power onoff c =
     (if onoff = POWER_OFF \<and> estate c \<noteq> CORE_OFF
      then c\<lparr>estate := (if resetHalted c then CORE_Halted else CORE_OFF)\<rparr>
      else if onoff = POWER_ON \<and> estate c = CORE_OFF then c\<lparr>estate := CORE_Normal\<rparr>
      else c)"

definition generic_reset :: "'m platform \<Rightarrow> 'm cpu \<Rightarrow> 'm cpu" where
  "generic_reset P c =
     (let c = c\<lparr>R := (\<lambda>_. 0)\<rparr>;
          c = setPC (resetVector P) c;
          c = setNPC (resetVector P) c
      in c\<lparr>ptriggers := (\<lambda>i. if i < triggersTotal P then \<lparr>data1 = 0, data2 = 0, extra = 0\<rparr>
                             else ptriggers c i),
           stackTraceCnt := 0, do_not_cache := False,
           estate := (if resetHalted c then CORE_Halted else CORE_Normal)\<rparr>)"

definition reset :: "'m platform \<Rightarrow> 'm cpu \<Rightarrow> 'm cpu" where
  "reset P c =
     (let c = generic_reset P c;
          c = c\<lparr>R := (\<lambda>_. 0)\<rparr>;
          c = writeCSR P CSR_mvendorid (vendorid P) c;
          c = writeCSR P CSR_mimplementationid (implementationid P) c;
          c = writeCSR P CSR_mhartid (ucast (hartid P)) c;
          c = writeCSR P CSR_mtvec 0 c;
          c = writeCSR P CSR_dpc (resetVector P) c
      in c\<lparr>cur_prv_level := PRV_M, mmuReservedAddrWatchdog := 0\<rparr>)"

subsection \<open>Construction and start-up\<close>

text \<open>
  The constructors clear the register banks and leave the CPU off; \<open>postinitService\<close> sets
  \<open>misa\<close> from the extensions, resets the CPU and turns it off (or halts it).
\<close>

definition init_cpu :: "bool \<Rightarrow> 'm \<Rightarrow> 'm cpu" where
  "init_cpu halted m =
     \<lparr>R = (\<lambda>_. 0), portCSR = (\<lambda>_. 0), ctx_pc = (\<lambda>_. 0), ctx_npc = (\<lambda>_. 0), cur_ctx = Ctx_Normal,
      cur_prv_level = 0, exceptions = 0, estate = CORE_OFF, step_cnt = 0, branch = False, oplen = 0,
      resumereq = False, resumeack = False, haltreq = False, procbufexecreq = False,
      progbuf = (\<lambda>_. 0), cacheline = 0, fetch_addr = 0,
      fetch_trans = \<lparr>action = MemAction_Read, response = MemResp_Valid, xsize = 0, wstrb = 0,
        addr = 0, rpayload = 0, wpayload = 0, source_idx = 0\<rparr>,
      pc_z = 0, do_not_cache = False, stackTraceCnt = 0, stackTraceBuf = (\<lambda>_. 0),
      ptriggers = (\<lambda>_. \<lparr>data1 = 0, data2 = 0, extra = 0\<rparr>),
      mmuReservatedAddr = 0, mmuReservedAddrWatchdog = 0,
      pmpTable = \<lparr>pmp_ena = 0, startadr = (\<lambda>_. 0), endadr = (\<lambda>_. 0), pmp_R = 0, pmp_W = 0,
        pmp_X = 0, pmp_L = 0\<rparr>,
      resetHalted = halted, oob = False, isysbus = m\<rparr>"

definition misa_bit :: "char \<Rightarrow> u64" where
  "misa_bit ext = bit1 (of_char ext - 65)"

definition misa_value :: "char list \<Rightarrow> u64" where
  "misa_value exts =
     fold (\<lambda>ext v. if ext \<in> {CHR ''A'', CHR ''C'', CHR ''M''} then v OR misa_bit ext else v) exts
       (0x8000000000000000 OR misa_bit (CHR ''I'') OR misa_bit (CHR ''U'') OR misa_bit (CHR ''S''))"

definition postinit :: "'m platform \<Rightarrow> char list \<Rightarrow> 'm cpu \<Rightarrow> 'm cpu" where
  "postinit P exts c =
     (let c = c\<lparr>portCSR := (portCSR c)(CSR_misa := portCSR c CSR_misa OR misa_value exts)\<rparr>;
          c = reset P c;
          c = c\<lparr>estate := (if resetHalted c then CORE_Halted else CORE_OFF),
                ptriggers := (\<lambda>i. if i < triggersTotal P then \<lparr>data1 = 0, data2 = 0, extra = 0\<rparr>
                                  else ptriggers c i)\<rparr>
      in setNPC (resetVector P) (setPC (resetVector P) c))"

end
