(* ===== verification/Cpu_Facts.thy ===== *)
theory Cpu_Facts
  imports Cpu_State
begin

section \<open>Frames of the CPU's operations, and the invariant interface\<close>

text \<open>
  Which fields the shared operations of \<open>Cpu_State\<close> can change (collection
  \<open>frame_simps\<close>), what a CSR reads after a write, and the interface \<open>cpu_invariant\<close>: a
  predicate kept by the elementary operations is kept by everything composed of them.
\<close>

subsection \<open>Shapes\<close>

lemma enablePmp_shape: "\<exists>t o'. enablePmp i s e rwx l c = c\<lparr>pmpTable := t, oob := o'\<rparr>"
proof (cases "i \<ge> PMP_ENTRIES_MAX")
  case True
  then have "enablePmp i s e rwx l c = c\<lparr>pmpTable := pmpTable c, oob := True\<rparr>"
    by (simp add: enablePmp_def)
  then show ?thesis by blast
next
  case False
  then have "enablePmp i s e rwx l c
      = c\<lparr>pmpTable := pmpTable (enablePmp i s e rwx l c), oob := oob c\<rparr>"
    by (simp add: enablePmp_def Let_def)
  then show ?thesis by blast
qed

lemma disablePmp_shape: "\<exists>t o'. disablePmp i c = c\<lparr>pmpTable := t, oob := o'\<rparr>"
proof (cases "i \<ge> PMP_ENTRIES_MAX")
  case True
  then have "disablePmp i c = c\<lparr>pmpTable := pmpTable c, oob := True\<rparr>"
    by (simp add: disablePmp_def)
  then show ?thesis by blast
next
  case False
  then have "disablePmp i c = c\<lparr>pmpTable := pmpTable (disablePmp i c), oob := oob c\<rparr>"
    by (simp add: disablePmp_def)
  then show ?thesis by blast
qed

lemma pmp_write_entry_shape:
  "\<exists>t o'. pmp_write_entry val pmpidx i c = c\<lparr>pmpTable := t, oob := o'\<rparr>"
  unfolding pmp_write_entry_def
  by (simp add: Let_def enablePmp_shape disablePmp_shape split: prod.split)

lemma fold_pmp_write_entry_shape:
  "\<exists>t o'. fold (pmp_write_entry val pmpidx) is' c = c\<lparr>pmpTable := t, oob := o'\<rparr>"
proof (induction is' arbitrary: c)
  case Nil
  have "c = c\<lparr>pmpTable := pmpTable c, oob := oob c\<rparr>" by simp
  then show ?case by (simp only: fold_Nil id_apply) blast
next
  case (Cons i is')
  obtain t o' where "pmp_write_entry val pmpidx i c = c\<lparr>pmpTable := t, oob := o'\<rparr>"
    using pmp_write_entry_shape by blast
  moreover obtain t' o'' where "fold (pmp_write_entry val pmpidx) is' (c\<lparr>pmpTable := t, oob := o'\<rparr>)
      = c\<lparr>pmpTable := t, oob := o'\<rparr>\<lparr>pmpTable := t', oob := o''\<rparr>"
    using Cons.IH by blast
  ultimately show ?case by auto
qed

lemma write_pmpcfg_shape: "\<exists>t o'. write_pmpcfg regno val c = c\<lparr>pmpTable := t, oob := o'\<rparr>"
  unfolding write_pmpcfg_def using fold_pmp_write_entry_shape by (simp add: Let_def)

lemma write_trigger_shape: "\<exists>g o'. write_trigger P f c = c\<lparr>ptriggers := g, oob := o'\<rparr>"
proof (cases "unat (portCSR c CSR_tselect) \<ge> triggersTotal P")
  case True
  then have "write_trigger P f c = c\<lparr>ptriggers := ptriggers c, oob := True\<rparr>"
    by (simp add: write_trigger_def)
  then show ?thesis by blast
next
  case False
  then have "write_trigger P f c = c\<lparr>ptriggers := ptriggers (write_trigger P f c), oob := oob c\<rparr>"
    by (simp add: write_trigger_def Let_def)
  then show ?thesis by blast
qed

text \<open>A CSR write touches the CSR bank, the triggers, the protection table and nothing else.\<close>

lemma writeCSR_shape:
  "\<exists>a g t o'. writeCSR P regno val c = c\<lparr>portCSR := a, ptriggers := g, pmpTable := t, oob := o'\<rparr>"
proof -
  have plain: "\<exists>a g t o'. portCSR_write r v (c\<lparr>ptriggers := g', pmpTable := t', oob := o''\<rparr>)
      = c\<lparr>portCSR := a, ptriggers := g, pmpTable := t, oob := o'\<rparr>" for r v g' t' o''
  proof -
    have "portCSR_write r v (c\<lparr>ptriggers := g', pmpTable := t', oob := o''\<rparr>)
        = c\<lparr>portCSR := (portCSR c)(r := v), ptriggers := g', pmpTable := t', oob := o''\<rparr>"
      by (simp add: portCSR_write_def)
    then show ?thesis by blast
  qed
  have self: "c\<lparr>ptriggers := ptriggers c, pmpTable := pmpTable c, oob := oob c\<rparr> = c" by simp
  have trig: "\<exists>a g t o'. portCSR_write r v (write_trigger P f c)
      = c\<lparr>portCSR := a, ptriggers := g, pmpTable := t, oob := o'\<rparr>" for r v f
  proof -
    obtain g o' where "write_trigger P f c = c\<lparr>ptriggers := g, oob := o'\<rparr>"
      using write_trigger_shape by blast
    then have "write_trigger P f c = c\<lparr>ptriggers := g, pmpTable := pmpTable c, oob := o'\<rparr>" by simp
    then show ?thesis using plain by metis
  qed
  have pmp: "\<exists>a g t o'. portCSR_write r v (write_pmpcfg r' v' c)
      = c\<lparr>portCSR := a, ptriggers := g, pmpTable := t, oob := o'\<rparr>" for r v r' v'
  proof -
    obtain t o' where "write_pmpcfg r' v' c = c\<lparr>pmpTable := t, oob := o'\<rparr>"
      using write_pmpcfg_shape by blast
    then have "write_pmpcfg r' v' c = c\<lparr>ptriggers := ptriggers c, pmpTable := t, oob := o'\<rparr>" by simp
    then show ?thesis using plain by metis
  qed
  have "c = c\<lparr>portCSR := portCSR c, ptriggers := ptriggers c, pmpTable := pmpTable c, oob := oob c\<rparr>"
    by simp
  then have ro: "\<exists>a g t o'. c = c\<lparr>portCSR := a, ptriggers := g, pmpTable := t, oob := o'\<rparr>" by blast
  have plain': "\<exists>a g t o'. portCSR_write r v c
      = c\<lparr>portCSR := a, ptriggers := g, pmpTable := t, oob := o'\<rparr>" for r v
    using plain [where r = r and v = v and g' = "ptriggers c" and t' = "pmpTable c" and o'' = "oob c"]
    unfolding self .
  show ?thesis
    unfolding writeCSR_def
    by (simp only: if_split [where P = "\<lambda>x. \<exists>a g t o'. x = c\<lparr>portCSR := a, ptriggers := g, pmpTable := t, oob := o'\<rparr>"]
        plain' trig pmp ro simp_thms)
qed

lemma writeCSR_frame [frame_simps]:
  "R (writeCSR P r v c) = R c" "ctx_pc (writeCSR P r v c) = ctx_pc c"
  "ctx_npc (writeCSR P r v c) = ctx_npc c" "cur_ctx (writeCSR P r v c) = cur_ctx c"
  "cur_prv_level (writeCSR P r v c) = cur_prv_level c"
  "exceptions (writeCSR P r v c) = exceptions c" "estate (writeCSR P r v c) = estate c"
  "step_cnt (writeCSR P r v c) = step_cnt c" "branch (writeCSR P r v c) = branch c"
  "oplen (writeCSR P r v c) = oplen c" "resumereq (writeCSR P r v c) = resumereq c"
  "resumeack (writeCSR P r v c) = resumeack c" "haltreq (writeCSR P r v c) = haltreq c"
  "procbufexecreq (writeCSR P r v c) = procbufexecreq c" "progbuf (writeCSR P r v c) = progbuf c"
  "cacheline (writeCSR P r v c) = cacheline c" "fetch_addr (writeCSR P r v c) = fetch_addr c"
  "fetch_trans (writeCSR P r v c) = fetch_trans c" "pc_z (writeCSR P r v c) = pc_z c"
  "do_not_cache (writeCSR P r v c) = do_not_cache c"
  "stackTraceCnt (writeCSR P r v c) = stackTraceCnt c"
  "stackTraceBuf (writeCSR P r v c) = stackTraceBuf c"
  "mmuReservatedAddr (writeCSR P r v c) = mmuReservatedAddr c"
  "mmuReservedAddrWatchdog (writeCSR P r v c) = mmuReservedAddrWatchdog c"
  "resetHalted (writeCSR P r v c) = resetHalted c" "isysbus (writeCSR P r v c) = isysbus c"
proof -
  obtain a g t o' where s:
    "writeCSR P r v c = c\<lparr>portCSR := a, ptriggers := g, pmpTable := t, oob := o'\<rparr>"
    using writeCSR_shape by blast
  show "R (writeCSR P r v c) = R c" "ctx_pc (writeCSR P r v c) = ctx_pc c"
    "ctx_npc (writeCSR P r v c) = ctx_npc c" "cur_ctx (writeCSR P r v c) = cur_ctx c"
    "cur_prv_level (writeCSR P r v c) = cur_prv_level c"
    "exceptions (writeCSR P r v c) = exceptions c" "estate (writeCSR P r v c) = estate c"
    "step_cnt (writeCSR P r v c) = step_cnt c" "branch (writeCSR P r v c) = branch c"
    "oplen (writeCSR P r v c) = oplen c" "resumereq (writeCSR P r v c) = resumereq c"
    "resumeack (writeCSR P r v c) = resumeack c" "haltreq (writeCSR P r v c) = haltreq c"
    "procbufexecreq (writeCSR P r v c) = procbufexecreq c" "progbuf (writeCSR P r v c) = progbuf c"
    "cacheline (writeCSR P r v c) = cacheline c" "fetch_addr (writeCSR P r v c) = fetch_addr c"
    "fetch_trans (writeCSR P r v c) = fetch_trans c" "pc_z (writeCSR P r v c) = pc_z c"
    "do_not_cache (writeCSR P r v c) = do_not_cache c"
    "stackTraceCnt (writeCSR P r v c) = stackTraceCnt c"
    "stackTraceBuf (writeCSR P r v c) = stackTraceBuf c"
    "mmuReservatedAddr (writeCSR P r v c) = mmuReservatedAddr c"
    "mmuReservedAddrWatchdog (writeCSR P r v c) = mmuReservedAddrWatchdog c"
    "resetHalted (writeCSR P r v c) = resetHalted c" "isysbus (writeCSR P r v c) = isysbus c"
    by (simp_all add: s)
qed

subsection \<open>What a CSR reads after a write\<close>

definition stored_value :: "'m platform \<Rightarrow> u32 \<Rightarrow> u64 \<Rightarrow> u64" where
  "stored_value P r v =
     (if r = CSR_tselect then (if v > of_nat (triggersTotal P) then of_nat (triggersTotal P) else v)
      else if r = CSR_tdata1 \<and> tdata1_type v = TriggerType_AddrDataMatch
        then set_mcontrol_maskmax (of_nat (mcontrolMaskmax P)) v
      else v)"

lemma portCSR_write_trigger [simp]: "portCSR (write_trigger P f c) = portCSR c"
  using write_trigger_shape [of P f c] by auto

lemma portCSR_write_pmpcfg [simp]: "portCSR (write_pmpcfg r v c) = portCSR c"
  using write_pmpcfg_shape [of r v c] by auto

lemma portCSR_writeCSR:
  "portCSR (writeCSR P r v c)
     = (if r \<in> read_only_CSRs then portCSR c else (portCSR c)(r := stored_value P r v))"
  by (simp add: writeCSR_def portCSR_write_def stored_value_def)

text \<open>The registers that \<open>readCSR\<close> computes instead of reading the bank.\<close>

definition computed_CSRs :: "u32 set" where
  "computed_CSRs = {CSR_mcycle, CSR_minsret, CSR_cycle, CSR_time, CSR_insret, CSR_dpc,
     CSR_tdata1, CSR_tdata2, CSR_textra, CSR_tinfo, CSR_mip}"

lemma readCSR_plain: "r \<notin> computed_CSRs \<Longrightarrow> readCSR P r c = portCSR c r"
  by (simp add: readCSR_def computed_CSRs_def)

lemma readCSR_consts [simp]:
  "readCSR P CSR_mstatus c = portCSR c CSR_mstatus" "readCSR P CSR_mie c = portCSR c CSR_mie"
  "readCSR P CSR_mtvec c = portCSR c CSR_mtvec" "readCSR P CSR_satp c = portCSR c CSR_satp"
  "readCSR P CSR_mepc c = portCSR c CSR_mepc" "readCSR P CSR_sepc c = portCSR c CSR_sepc"
  "readCSR P CSR_uepc c = portCSR c CSR_uepc" "readCSR P CSR_mcause c = portCSR c CSR_mcause"
  "readCSR P CSR_mtval c = portCSR c CSR_mtval" "readCSR P CSR_dcsr c = portCSR c CSR_dcsr"
  "readCSR P CSR_mstackovr c = portCSR c CSR_mstackovr"
  "readCSR P CSR_mstackund c = portCSR c CSR_mstackund"
  by (simp_all add: readCSR_def)

lemma portCSR_writeCSR_consts [simp]:
  "portCSR (writeCSR P CSR_mstatus v c) = (portCSR c)(CSR_mstatus := v)"
  "portCSR (writeCSR P CSR_mepc v c) = (portCSR c)(CSR_mepc := v)"
  "portCSR (writeCSR P CSR_mcause v c) = (portCSR c)(CSR_mcause := v)"
  "portCSR (writeCSR P CSR_mtval v c) = (portCSR c)(CSR_mtval := v)"
  "portCSR (writeCSR P CSR_mtvec v c) = (portCSR c)(CSR_mtvec := v)"
  "portCSR (writeCSR P CSR_dcsr v c) = (portCSR c)(CSR_dcsr := v)"
  "portCSR (writeCSR P CSR_dpc v c) = (portCSR c)(CSR_dpc := v)"
  "portCSR (writeCSR P CSR_mstackovr v c) = (portCSR c)(CSR_mstackovr := v)"
  "portCSR (writeCSR P CSR_mstackund v c) = (portCSR c)(CSR_mstackund := v)"
  by (simp_all add: portCSR_writeCSR read_only_CSRs_def stored_value_def)

text \<open>Writes of the plain registers leave the triggers, the protection table and \<open>oob\<close>.\<close>

definition plain_CSR :: "u32 \<Rightarrow> bool" where
  "plain_CSR r \<longleftrightarrow> r \<notin> read_only_CSRs \<union> {CSR_tselect, CSR_tdata1, CSR_tdata2, CSR_textra}
     \<and> \<not> (CSR_pmpcfg0 \<le> r \<and> r \<le> CSR_pmpcfg15)"

lemma writeCSR_plain: "plain_CSR r \<Longrightarrow> writeCSR P r v c = portCSR_write r v c"
  by (auto simp: writeCSR_def plain_CSR_def)

lemma plain_CSR_consts [simp]:
  "plain_CSR CSR_mstatus" "plain_CSR CSR_mepc" "plain_CSR CSR_mcause" "plain_CSR CSR_mtval"
  "plain_CSR CSR_mtvec" "plain_CSR CSR_dcsr" "plain_CSR CSR_dpc" "plain_CSR CSR_mstackovr"
  "plain_CSR CSR_mstackund"
  by (simp_all add: plain_CSR_def read_only_CSRs_def)

lemma generateException_alt:
  "generateException P e a c
     = c\<lparr>portCSR := (portCSR c)(CSR_mtval := a), exceptions := exceptions c OR bit1 e\<rparr>"
  by (simp add: generateException_def writeCSR_plain portCSR_write_def)

subsection \<open>Memory access changes the bus only\<close>

lemma dma_memop_bus:
  "snd (snd (dma_memop P tr x c)) = c\<lparr>isysbus := isysbus (snd (snd (dma_memop P tr x c)))\<rparr>"
  by (simp add: dma_memop_def Let_def case_prod_beta)

lemma dma_memop_frame [frame_simps]:
  "R (snd (snd (dma_memop P tr x c))) = R c" "portCSR (snd (snd (dma_memop P tr x c))) = portCSR c"
  "ctx_pc (snd (snd (dma_memop P tr x c))) = ctx_pc c"
  "ctx_npc (snd (snd (dma_memop P tr x c))) = ctx_npc c"
  "cur_ctx (snd (snd (dma_memop P tr x c))) = cur_ctx c"
  "exceptions (snd (snd (dma_memop P tr x c))) = exceptions c"
  "estate (snd (snd (dma_memop P tr x c))) = estate c"
  by (simp_all add: dma_memop_def Let_def case_prod_beta)

subsection \<open>The invariant interface\<close>

locale cpu_invariant =
  fixes I :: "'m platform \<Rightarrow> 'm cpu \<Rightarrow> bool"
  assumes I_setReg: "I P c \<Longrightarrow> I P (setReg i v c)"
    and I_writeCSR: "I P c \<Longrightarrow> I P (writeCSR P r v c)"
    and I_exceptions: "I P c \<Longrightarrow> I P (c\<lparr>exceptions := e\<rparr>)"
    and I_setNPC: "I P c \<Longrightarrow> I P (setNPC v c)"
    and I_branch: "I P c \<Longrightarrow> I P (c\<lparr>branch := b\<rparr>)"
    and I_push: "I P c \<Longrightarrow> I P (pushStackTrace P c)"
    and I_pop: "I P c \<Longrightarrow> I P (popStackTrace c)"
    and I_reserve: "I P c \<Longrightarrow> I P (mmuAddrReserve a c)"
    and I_release: "I P c \<Longrightarrow> I P (snd (mmuAddrRelease a c))"
    and I_bus: "I P c \<Longrightarrow> I P (c\<lparr>isysbus := m\<rparr>)"
    and I_prv: "I P c \<Longrightarrow> l \<le> 3 \<Longrightarrow> I P (c\<lparr>cur_prv_level := l\<rparr>)"
    and I_do_not_cache: "I P c \<Longrightarrow> I P (c\<lparr>do_not_cache := b\<rparr>)"
begin

lemma I_setBranch: "I P c \<Longrightarrow> I P (setBranch v c)"
  by (simp add: setBranch_def I_setNPC I_branch)

lemma I_generateException: "I P c \<Longrightarrow> I P (generateException P e a c)"
  by (simp add: generateException_def Let_def I_writeCSR I_exceptions)

lemma I_dma_memop: "I P c \<Longrightarrow> I P (snd (snd (dma_memop P tr x c)))"
  by (subst dma_memop_bus) (rule I_bus)

lemma I_load_access: "I P c \<Longrightarrow> I P (snd (load_access P a sz msk init c))"
  by (simp add: load_access_def Let_def case_prod_beta I_generateException I_dma_memop)

lemma I_store_access: "I P c \<Longrightarrow> I P (store_access P a sz msk v c)"
  by (simp add: store_access_def Let_def case_prod_beta I_generateException I_dma_memop)

lemmas I_rules = I_setReg I_writeCSR I_exceptions I_setNPC I_branch I_push I_pop I_reserve
  I_release I_bus I_do_not_cache I_setBranch I_generateException I_dma_memop I_load_access
  I_store_access

end

end
