(* ===== verification/Machine.thy ===== *)
theory Machine
  imports Pipeline Cpu_Facts
begin

section \<open>The machine: CPU cycles interleaved with the debugger, and its invariants\<close>

text \<open>
  The thread of the CPU (\<open>busyLoop\<close> calls \<open>updatePipeline\<close>) and the debug port act on the same
  CPU object.  An event is one cycle or one call of the debug port; \<open>run\<close> is a sequence of
  events in any order.  The locale \<open>machine_invariant\<close> extends \<open>cpu_invariant\<close> by the fields
  the pipeline assigns; inside it every event is shown to keep the invariant, once.
\<close>

subsection \<open>Events\<close>

datatype event =
    Cycle nat
  | ResumeReq
  | HaltReq
  | ExecuteProgbuf "u64 \<Rightarrow> u8"
  | DportReadMem u64 u32 u64
  | DportWriteMem u64 u32 u64
  | DportWriteReg u32 u64
  | Power EPowerAction
  | Reset

inductive machine_step ::
  "'m platform \<Rightarrow> (nat \<Rightarrow> 'm instruction list) \<Rightarrow> 'm cpu \<Rightarrow> event \<Rightarrow> 'm cpu \<Rightarrow> bool"
  for P :: "'m platform" and tbl :: "nat \<Rightarrow> 'm instruction list" where
  step_cycle: "updatePipeline n tbl P c = Some c' \<Longrightarrow> machine_step P tbl c (Cycle n) c'"
| step_resume: "machine_step P tbl c ResumeReq (snd (resumereq_req c))"
| step_halt: "machine_step P tbl c HaltReq (snd (haltreq_req c))"
| step_progbuf: "machine_step P tbl c (ExecuteProgbuf buf) (snd (executeProgbuf buf c))"
| step_read_mem:
    "machine_step P tbl c (DportReadMem a sz payload) (snd (snd (dportReadMem P a sz payload c)))"
| step_write_mem:
    "machine_step P tbl c (DportWriteMem a sz payload) (snd (dportWriteMem P a sz payload c))"
| step_write_reg: "machine_step P tbl c (DportWriteReg r v) (snd (dportWriteReg P r v c))"
| step_power: "machine_step P tbl c (Power onoff) (power onoff c)"
| step_reset: "machine_step P tbl c Reset (reset P c)"

inductive_cases machine_stepE: "machine_step P tbl c e c'"

inductive run ::
  "'m platform \<Rightarrow> (nat \<Rightarrow> 'm instruction list) \<Rightarrow> 'm cpu \<Rightarrow> event list \<Rightarrow> 'm cpu \<Rightarrow> bool"
  for P :: "'m platform" and tbl :: "nat \<Rightarrow> 'm instruction list" where
  run_Nil: "run P tbl c [] c"
| run_snoc: "run P tbl c es c' \<Longrightarrow> machine_step P tbl c' e c'' \<Longrightarrow> run P tbl c (es @ [e]) c''"

text \<open>The debugger does not address x0 (number 0x1000 of the debug port, or an alias of it).\<close>

definition spares_x0 :: "event \<Rightarrow> bool" where
  "spares_x0 e \<longleftrightarrow> (case e of DportWriteReg r v \<Rightarrow> drop_bit 12 r \<noteq> 1 \<or> r AND 0x3F \<noteq> 0 | _ \<Rightarrow> True)"

subsection \<open>Every instruction keeps an invariant of the elementary operations\<close>

definition instr_keeps :: "('m platform \<Rightarrow> 'm cpu \<Rightarrow> bool) \<Rightarrow> 'm instruction \<Rightarrow> bool" where
  "instr_keeps I i \<longleftrightarrow> (\<forall>P w c. I P c \<longrightarrow> I P (fst (iexec i P w c)))"

lemma instr_keeps_RiscvInstruction:
  "instr_keeps I (RiscvInstruction n b ex) \<longleftrightarrow> (\<forall>P w c. I P c \<longrightarrow> I P (fst (ex P w c)))"
  "instr_keeps I (RiscvInstruction16 n b cd ex) \<longleftrightarrow> (\<forall>P w c. I P c \<longrightarrow> I P (fst (ex P w c)))"
  by (simp_all add: instr_keeps_def RiscvInstruction_def RiscvInstruction16_def)

lemma getf_le_3: "n \<le> 2 \<Longrightarrow> (getf lo n w :: u64) \<le> 3"
  using unat_getf_less [where 'b = 64 and n = n and w = w and lo = lo] power_increasing [of n 2 "2::nat"]
  by (simp add: word_le_nat_alt)

lemma mstatus_prv_le: "mstatus_MPP w \<le> 3" "mstatus_SPP w \<le> 3"
  by (simp_all add: mstatus_MPP_def mstatus_SPP_def getf_le_3)

context cpu_invariant
begin

lemma keeps_user: "list_all (instr_keeps I) addIsaUserRV64I"
  unfolding addIsaUserRV64I_def list.pred_inject instr_keeps_RiscvInstruction exec_defs Let_def
  by (simp add: case_prod_beta I_rules)

lemma keeps_priv: "list_all (instr_keeps I) addIsaPrivilegedRV64I"
  unfolding addIsaPrivilegedRV64I_def list.pred_inject instr_keeps_RiscvInstruction exec_defs Let_def
  by (simp add: case_prod_beta I_rules I_prv mstatus_prv_le)

lemma keeps_M: "list_all (instr_keeps I) addIsaExtensionM"
  unfolding addIsaExtensionM_def list.pred_inject instr_keeps_RiscvInstruction exec_defs Let_def
  by (simp add: case_prod_beta I_rules)

lemma keeps_A: "list_all (instr_keeps I) addIsaExtensionA"
  unfolding addIsaExtensionA_def list.pred_inject instr_keeps_RiscvInstruction exec_defs Let_def
  by (simp add: case_prod_beta I_rules)

lemma keeps_C: "list_all (instr_keeps I) addIsaExtensionC"
  unfolding addIsaExtensionC_def list.pred_inject instr_keeps_RiscvInstruction exec_defs Let_def
  by (simp add: case_prod_beta I_rules)

lemma keeps_supported: "i \<in> set (supported exts) \<Longrightarrow> instr_keeps I i"
  using keeps_user keeps_priv keeps_A keeps_C keeps_M
  by (auto simp: supported_def addIsa_def list_all_iff split: if_splits)

end

subsection \<open>Every event keeps an invariant of the pipeline's operations\<close>

text \<open>
  Three interfaces, each extending the one before: the execution of one instruction
  (\<open>exec_invariant\<close>), a cycle with its traps and halts (\<open>trap_invariant\<close>), every event
  (\<open>machine_invariant\<close>).
\<close>

locale exec_invariant = cpu_invariant I for I :: "'m platform \<Rightarrow> 'm cpu \<Rightarrow> bool" +
  assumes I_setPC: "I P c \<Longrightarrow> I P (setPC v c)"
    and I_oplen: "I P c \<Longrightarrow> I P (c\<lparr>oplen := l\<rparr>)"
    and I_cacheline: "I P c \<Longrightarrow> I P (c\<lparr>cacheline := v\<rparr>)"
    and I_fetch_addr: "I P c \<Longrightarrow> I P (c\<lparr>fetch_addr := v\<rparr>)"
    and I_fetch_trans: "I P c \<Longrightarrow> I P (c\<lparr>fetch_trans := tr\<rparr>)"
    and I_pc_z: "I P c \<Longrightarrow> I P (c\<lparr>pc_z := v\<rparr>)"
    and I_ptriggers: "I P c \<Longrightarrow> I P (c\<lparr>ptriggers := g\<rparr>)"
    and I_watchdog: "I P c \<Longrightarrow> n \<le> mmuReservedAddrWatchdog c
           \<Longrightarrow> I P (c\<lparr>mmuReservedAddrWatchdog := n\<rparr>)"
begin

lemmas I_exec_rules = I_rules I_setPC I_oplen I_cacheline I_fetch_addr I_fetch_trans I_pc_z
  I_ptriggers I_watchdog

lemma I_enterDebugMode: "I P c \<Longrightarrow> I P (enterDebugMode P v cause c)"
  by (simp add: enterDebugMode_def Let_def I_rules)

lemma I_checkStackProtection: "I P c \<Longrightarrow> I P (checkStackProtection P c)"
  by (simp add: checkStackProtection_def Let_def I_rules)

lemma I_switchContext: "I P c \<Longrightarrow> l \<le> 3 \<Longrightarrow> I P (switchContext P l c)"
  by (simp add: switchContext_def Let_def I_rules I_prv)

lemma I_handleInterrupts: "I P c \<Longrightarrow> I P (handleInterrupts P c)"
  by (simp add: handleInterrupts_def Let_def I_rules I_switchContext)

lemma I_updateQueue: "I P c \<Longrightarrow> I P (updateQueue P c)"
  by (simp add: updateQueue_def I_bus)

lemma I_fold_icount: "I P (snd rc) \<Longrightarrow> I P (snd (fold (icount_step P) is' rc))"
proof (induction is' arbitrary: rc)
  case (Cons i is')
  have "I P (snd (icount_step P i rc))"
    using Cons.prems by (cases rc) (simp add: icount_step_def Let_def I_ptriggers)
  then show ?case by (simp add: Cons.IH)
qed simp

lemma I_isTriggerICount: "I P c \<Longrightarrow> I P (snd (isTriggerICount P c))"
  by (simp add: isTriggerICount_def I_fold_icount)

lemma I_fold_itrigger:
  "I P (snd (snd fc)) \<Longrightarrow> I P (snd (snd (fold (itrigger_step P pc) is' fc)))"
proof (induction is' arbitrary: fc)
  case (Cons i is')
  have "I P (snd (snd (itrigger_step P pc i fc)))"
    using Cons.prems by (cases fc) (simp add: itrigger_step_def Let_def I_ptriggers)
  then show ?case by (simp add: Cons.IH)
qed simp

lemma I_fetch_word: "I P c \<Longrightarrow> I P (snd (fetch_word P c))"
  by (simp add: fetch_word_def Let_def case_prod_beta I_exec_rules)

lemma I_fetch_progbuf: "I P c \<Longrightarrow> I P (fetch_progbuf c)"
  by (simp add: fetch_progbuf_def I_cacheline)

lemma lookup_keeps: "lookup_instr (listInstr exts) w = Some i \<Longrightarrow> instr_keeps I i"
  by (auto simp: lookup_instr_def split: option.splits dest!: find_bucket_Some
      intro: keeps_supported)

lemma I_executeLine: "I P c \<Longrightarrow> I P (executeLine (listInstr exts) P c)"
  by (auto simp: executeLine_def decodeInstruction_def Let_def case_prod_beta I_exec_rules
      split: option.split dest!: lookup_keeps intro!: I_exec_rules)
    (auto simp: instr_keeps_def I_watchdog)

end

locale trap_invariant = exec_invariant I for I :: "'m platform \<Rightarrow> 'm cpu \<Rightarrow> bool" +
  assumes I_estate: "I P c \<Longrightarrow> I P (c\<lparr>estate := s\<rparr>)"
    and I_cur_ctx: "I P c \<Longrightarrow> I P (c\<lparr>cur_ctx := x\<rparr>)"
begin

lemmas I_trap_rules = I_exec_rules I_estate I_cur_ctx

lemma I_halt: "I P c \<Longrightarrow> I P (halt P cause c)"
  by (simp add: halt_def Let_def I_enterDebugMode I_trap_rules)

lemma I_handleException: "I P c \<Longrightarrow> I P (handleException P e c)"
  by (simp add: handleException_def exitProgbufExec_def Let_def I_trap_rules I_halt I_switchContext)

lemma I_handleTrap: "I P c \<Longrightarrow> I P (handleTrap P c)"
  by (simp add: handleTrap_def Let_def I_checkStackProtection I_handleException I_handleInterrupts
      I_exceptions)

lemma I_isTriggerInstruction: "I P c \<Longrightarrow> I P (snd (isTriggerInstruction P c))"
  using I_fold_itrigger [of P "(False, 0, c)"]
  by (simp add: isTriggerInstruction_def case_prod_beta I_halt)

lemma I_fetch_fault: "I P c \<Longrightarrow> I P (fetch_fault P c)"
  by (simp add: fetch_fault_def Let_def I_trap_rules I_handleTrap)

lemma I_fetchILine: "fetchILine n P c = Some c' \<Longrightarrow> I P c \<Longrightarrow> I P c'"
proof (induction n P c rule: fetchILine.induct)
  case (2 n P c)
  let ?c = "c\<lparr>fetch_addr := getPC c\<rparr>"
  have c: "I P ?c" "I P (fetch_progbuf ?c)" "I P (snd (fetch_word P ?c))"
    using "2.prems"(2) by (simp_all add: I_fetch_progbuf I_trap_rules I_fetch_word)
  show ?case
  proof (cases "estate ?c = CORE_ProgbufExec \<or> fst (fetch_word P ?c) \<noteq> TRANS_ERROR")
    case True
    with "2.prems"(1) c show ?thesis by (auto simp: Let_def case_prod_beta split: if_splits)
  next
    case False
    then have "fetchILine n P (fetch_fault P (snd (fetch_word P ?c))) = Some c'"
      using "2.prems"(1) by (simp add: Let_def case_prod_beta)
    then show ?thesis
      using "2.IH" [OF refl _ prod.collapse] False c(3) I_fetch_fault by simp
  qed
qed simp

lemma I_finishCycle: "I P c \<Longrightarrow> I P (finishCycle P c)"
  by (simp add: finishCycle_def Let_def I_handleTrap I_updateQueue I_setNPC)

end

locale machine_invariant = trap_invariant I for I :: "'m platform \<Rightarrow> 'm cpu \<Rightarrow> bool" +
  assumes I_step_cnt: "I P c \<Longrightarrow> I P (c\<lparr>step_cnt := v\<rparr>)"
    and I_resumereq: "I P c \<Longrightarrow> I P (c\<lparr>resumereq := b\<rparr>)"
    and I_resumeack: "I P c \<Longrightarrow> I P (c\<lparr>resumeack := b\<rparr>)"
    and I_haltreq: "I P c \<Longrightarrow> I P (c\<lparr>haltreq := b\<rparr>)"
    and I_procbufexecreq: "I P c \<Longrightarrow> I P (c\<lparr>procbufexecreq := b\<rparr>)"
    and I_progbuf: "I P c \<Longrightarrow> I P (c\<lparr>progbuf := buf\<rparr>)"
    and I_writeGPR: "I P c \<Longrightarrow> i \<noteq> 0 \<Longrightarrow> I P (writeGPR i v c)"
    and I_clear_regs: "I P c \<Longrightarrow> I P (c\<lparr>R := (\<lambda>_. 0)\<rparr>)"
    and I_clear_stack: "I P c \<Longrightarrow> I P (c\<lparr>stackTraceCnt := 0\<rparr>)"
begin

lemmas I_pipe_rules = I_trap_rules I_step_cnt I_resumereq I_resumeack I_haltreq
  I_procbufexecreq I_progbuf I_clear_regs I_clear_stack

lemma I_updateState: "I P c \<Longrightarrow> I P (snd (updateState P c))"
  by (simp add: updateState_def enterProgbufExec_def resume_def case_prod_beta I_pipe_rules I_halt
      I_updateQueue I_isTriggerICount split: ECoreState.split)

lemma I_updatePipeline:
  assumes "updatePipeline n (listInstr exts) P c = Some c'" and "I P c"
  shows "I P c'"
proof -
  obtain upd c1 where u: "updateState P c = (upd, c1)" by fastforce
  have c1: "I P c1" using I_updateState [OF assms(2)] by (simp add: u)
  let ?c = "(setPC (getNPC c1) c1)\<lparr>branch := False, oplen := 0\<rparr>"
  obtain fire c2 where f: "isTriggerInstruction P ?c = (fire, c2)" by fastforce
  have "I P ?c" using c1 by (simp add: I_pipe_rules)
  then have c2: "I P c2" using I_isTriggerInstruction [of P ?c] by (simp add: f)
  show ?thesis
    using assms(1) c1 c2
    by (auto simp: updatePipeline_def u f Let_def I_finishCycle I_executeLine
        split: if_splits dest: I_fetchILine)
qed

lemma I_dportWriteReg:
  "I P c \<Longrightarrow> spares_x0 (DportWriteReg r v) \<Longrightarrow> I P (snd (dportWriteReg P r v c))"
  by (auto simp: dportWriteReg_def Let_def spares_x0_def I_writeCSR unat_eq_zero I_writeGPR)

lemma I_reset: "I P c \<Longrightarrow> I P (reset P c)"
  by (simp add: reset_def generic_reset_def Let_def I_pipe_rules I_prv
      I_watchdog [of P "c\<lparr>cur_prv_level := PRV_M\<rparr>" for c])

lemma I_machine_step:
  assumes "machine_step P (listInstr exts) c e c'" and "spares_x0 e" and "I P c"
  shows "I P c'"
  using assms
proof (cases rule: machine_step.cases)
  case step_write_reg
  then show ?thesis using assms(2,3) I_dportWriteReg by simp
qed (auto simp: I_updatePipeline resumereq_req_def haltreq_req_def executeProgbuf_def
    dportReadMem_def dportWriteMem_def power_def case_prod_beta assms(3) I_reset I_pipe_rules)

theorem I_run:
  assumes "run P (listInstr exts) c es c'" and "list_all spares_x0 es" and "I P c"
  shows "I P c'"
  using assms by (induction rule: run.induct) (auto intro: I_machine_step)

end

subsection \<open>Two invariants\<close>

lemmas elementary_defs = setReg_def setNPC_def setPC_def writeGPR_def pushStackTrace_def
  popStackTrace_def mmuAddrReserve_def mmuAddrRelease_def

interpretation x0: machine_invariant "\<lambda>P c. R c 0 = 0"
  by unfold_locales (auto simp: elementary_defs Let_def frame_simps)

text \<open>
  Privilege level, watchdog and stack trace counter stay in range, and the registers that
  are read-only in \<open>writeCSR\<close> keep the values \<open>rom\<close> they had.
\<close>

definition cpu_wf :: "(u32 \<Rightarrow> u64) \<Rightarrow> 'm platform \<Rightarrow> 'm cpu \<Rightarrow> bool" where
  "cpu_wf rom P c \<longleftrightarrow>
     cur_prv_level c \<le> 3 \<and> mmuReservedAddrWatchdog c \<le> 64
     \<and> unat (stackTraceCnt c) \<le> stackTraceSize P
     \<and> (\<forall>r\<in>read_only_CSRs. portCSR c r = rom r)"

lemma unat_of_nat_le: "unat (of_nat n :: 'a::len word) \<le> n"
  by (simp add: unat_of_nat)

lemma unat_minus_one_le: "x \<noteq> 0 \<Longrightarrow> unat (x - 1) \<le> unat x" for x :: "'a::len word"
  by (metis diff_le_self unat_minus_one)

interpretation wf: machine_invariant "cpu_wf rom" for rom :: "u32 \<Rightarrow> u64"
proof unfold_locales
  fix P c
  assume wf: "cpu_wf rom P c"
  show "cpu_wf rom P (pushStackTrace P c)"
    using wf by (auto simp: cpu_wf_def pushStackTrace_def Let_def
        intro: order_trans [OF unat_of_nat_le] simp del: of_nat_Suc of_nat_add)
  show "cpu_wf rom P (popStackTrace c)"
    using wf unat_minus_one_le [of "stackTraceCnt c"]
    by (auto simp: cpu_wf_def popStackTrace_def Let_def)
  fix r v
  show "cpu_wf rom P (writeCSR P r v c)"
    using wf by (auto simp: cpu_wf_def frame_simps portCSR_writeCSR)
qed (auto simp: cpu_wf_def elementary_defs)

subsection \<open>The invariants hold in every run\<close>

lemma postinit_start:
  "R (postinit P exts (init_cpu halted m)) 0 = 0"
  "cpu_wf ((\<lambda>_. 0)(CSR_misa := misa_value exts)) P (postinit P exts (init_cpu halted m))"
  by (simp_all add: postinit_def reset_def generic_reset_def init_cpu_def cpu_wf_def setPC_def
      setNPC_def frame_simps portCSR_writeCSR Let_def read_only_CSRs_def)

end
