(* ===== verification/Soc.thy ===== *)
theory Soc
  imports Cpu_Facts Isa_M Isa_A Isa_C
begin

section \<open>The interface between the CPU and the memory behind the bus\<close>

text \<open>
  \<open>read_bus\<close> states what fetches and loads rely on: inside a region of addresses a read
  returns the bytes of a memory \<open>view\<close> and leaves it alone; \<open>memory_bus\<close> adds that a write with
  full strobes replaces those bytes and no others.  Fetches, loads, stores and atomics are
  proved against these interfaces.  \<open>rom\<close> and \<open>soc\<close> are the interpretations on the code's own
  bus and memories: \<open>MemoryGeneric\<close> devices mapped on a \<open>BusGeneric\<close>.
\<close>

subsection \<open>The contract\<close>

locale read_bus =
  fixes bt :: "trans \<Rightarrow> 'm \<Rightarrow> ETransStatus \<times> trans \<times> 'm"
    and view :: "'m \<Rightarrow> u64 \<Rightarrow> u8"
    and ram :: "u64 \<Rightarrow> nat \<Rightarrow> bool"
  assumes read_law:
    "ram (addr t) (unat (xsize t)) \<Longrightarrow> action t = MemAction_Read \<Longrightarrow>
       bt t m = (TRANS_OK, t\<lparr>response := MemResp_Valid,
         rpayload := payload_load (\<lambda>i. view m (addr t + of_nat i)) (unat (xsize t)) 0\<rparr>, m)"

locale memory_bus = read_bus bt view ram
  for bt :: "trans \<Rightarrow> 'm \<Rightarrow> ETransStatus \<times> trans \<times> 'm"
    and view :: "'m \<Rightarrow> u64 \<Rightarrow> u8"
    and ram :: "u64 \<Rightarrow> nat \<Rightarrow> bool" +
  assumes write_status:
    "ram (addr t) (unat (xsize t)) \<Longrightarrow> action t = MemAction_Write \<Longrightarrow>
       fst (bt t m) = TRANS_OK \<and> addr (fst (snd (bt t m))) = addr t"
    and write_view:
    "ram (addr t) (unat (xsize t)) \<Longrightarrow> action t = MemAction_Write
       \<Longrightarrow> wstrb t = full_wstrb (xsize t) \<Longrightarrow>
       view (snd (snd (bt t m))) a
         = (if unat (a - addr t) < unat (xsize t) then byte_of (wpayload t) (unat (a - addr t))
            else view m a)"

text \<open>Neither protection nor translation applies: machine mode without MPRV.\<close>

definition bare_access :: "'m platform \<Rightarrow> 'm cpu \<Rightarrow> bool" where
  "bare_access P c \<longleftrightarrow> cur_prv_level c = PRV_M \<and> mstatus_MPRV (portCSR c CSR_mstatus) = 0"

lemma bare_access_checks:
  "bare_access P c \<Longrightarrow> \<not> isMpuEnabled P c" "bare_access P c \<Longrightarrow> \<not> isMmuEnabled P c"
  by (simp_all add: bare_access_def isMpuEnabled_def isMmuEnabled_def Let_def)

lemma dma_memop_bare:
  assumes "bare_access P c" and "xsize tr \<le> sysBusWidthBytes P"
  shows "dma_memop P tr x c =
    (case b_transport P (tr\<lparr>source_idx := sysBusMasterID P\<rparr>) (isysbus c) of
       (ret, tr, m) \<Rightarrow> (ret, tr, c\<lparr>isysbus := m\<rparr>))"
  using assms(2) bare_access_checks [OF assms(1)]
  by (simp add: dma_memop_def Let_def dma_allowed_def)

lemma payload_load_bytes:
  "n \<le> 8 \<Longrightarrow> payload_load (byte_of w) n 0 = take_bit (8 * n) w"
proof (rule u64_eq_bytesI)
  fix i :: nat
  assume n: "n \<le> 8" and i: "i < 8"
  have "byte_of (take_bit (8 * n) w) i = (if i < n then byte_of w i else 0)"
    by (rule bit_word_eqI) (auto simp: byte_of_def bit_getf bit_simps)
  moreover have "byte_of (0 :: u64) i = 0"
    by (rule bit_word_eqI) (simp add: byte_of_def bit_getf)
  ultimately show "byte_of (payload_load (byte_of w) n 0) i = byte_of (take_bit (8 * n) w) i"
    using n by (simp add: byte_of_payload_load)
qed

text \<open>The value of \<open>n\<close> bytes of the memory, little-endian.\<close>

definition value_of :: "('m \<Rightarrow> u64 \<Rightarrow> u8) \<Rightarrow> 'm \<Rightarrow> u64 \<Rightarrow> nat \<Rightarrow> u64" where
  "value_of view m a n = payload_load (\<lambda>i. view m (a + of_nat i)) n 0"

context read_bus
begin

lemma load_access_ram:
  assumes P: "b_transport P = bt" and c: "bare_access P c" and sz: "sz \<le> sysBusWidthBytes P"
    and ram: "ram a (unat sz)" and al: "a AND amask = 0"
  shows "load_access P a sz amask init c = (value_of view (isysbus c) a (unat sz), c)"
proof -
  have "bt (new_trans P MemAction_Read a sz\<lparr>rpayload := init, source_idx := sysBusMasterID P\<rparr>) (isysbus c)
      = (TRANS_OK, new_trans P MemAction_Read a sz\<lparr>source_idx := sysBusMasterID P, response := MemResp_Valid,
           rpayload := value_of view (isysbus c) a (unat sz)\<rparr>, isysbus c)"
    using ram by (subst read_law) (simp_all add: new_trans_def value_of_def)
  then show ?thesis
    using al sz by (simp add: load_access_def Let_def dma_memop_bare [OF c] P new_trans_def)
qed

lemma dma_read_ram:
  assumes P: "b_transport P = bt" and c: "bare_access P c" and sz: "xsize tr \<le> sysBusWidthBytes P"
    and ram: "ram (addr tr) (unat (xsize tr))" and rd: "action tr = MemAction_Read"
  shows "dma_memop P tr x c = (TRANS_OK, tr\<lparr>source_idx := sysBusMasterID P, response := MemResp_Valid,
    rpayload := value_of view (isysbus c) (addr tr) (unat (xsize tr))\<rparr>, c)"
  using read_law [of "tr\<lparr>source_idx := sysBusMasterID P\<rparr>" "isysbus c"] ram rd
  by (simp add: dma_memop_bare [OF c sz] P value_of_def)

end

context memory_bus
begin

lemma store_access_ram:
  assumes P: "b_transport P = bt" and c: "bare_access P c" and sz: "sz \<le> sysBusWidthBytes P"
    and ram: "ram a (unat sz)" and al: "a AND amask = 0"
  shows "\<exists>m. store_access P a sz amask v c = c\<lparr>isysbus := m\<rparr>
    \<and> (\<forall>x. view m x = (if unat (x - a) < unat sz then byte_of v (unat (x - a)) else view (isysbus c) x))"
proof -
  let ?t = "new_trans P MemAction_Write a sz\<lparr>wpayload := v, source_idx := sysBusMasterID P\<rparr>"
  have t: "addr ?t = a" "action ?t = MemAction_Write" "xsize ?t = sz" "wstrb ?t = full_wstrb sz"
    "wpayload ?t = v"
    by (simp_all add: new_trans_def)
  obtain t' m where bt: "bt ?t (isysbus c) = (TRANS_OK, t', m)"
    using write_status [of ?t "isysbus c"] ram t by (metis prod.collapse)
  have "view m x = (if unat (x - a) < unat sz then byte_of v (unat (x - a)) else view (isysbus c) x)" for x
    using write_view [of ?t "isysbus c" x] ram t bt by simp
  moreover have "store_access P a sz amask v c = c\<lparr>isysbus := m\<rparr>"
    using al sz bt by (simp add: store_access_def Let_def dma_memop_bare [OF c] P new_trans_def)
  ultimately show ?thesis by blast
qed

lemma value_of_written:
  assumes "n \<le> 8" and "\<forall>x. view m x = (if unat (x - a) < n then byte_of v (unat (x - a)) else view m0 x)"
  shows "value_of view m a n = take_bit (8 * n) v"
proof -
  have "view m (a + of_nat i) = byte_of v i" if "i < n" for i
    using assms that by (simp add: unat_of_nat take_bit_nat_eq_self)
  then have "value_of view m a n = payload_load (byte_of v) n 0"
    unfolding value_of_def by (rule payload_load_cong)
  then show ?thesis using payload_load_bytes assms(1) by simp
qed

text \<open>A value that was stored is loaded again; a store elsewhere does not disturb it.\<close>

lemma store_then_load:
  assumes P: "b_transport P = bt" and c: "bare_access P c"
    and sz: "sz \<le> sysBusWidthBytes P" "unat sz \<le> 8"
    and ram: "ram a (unat sz)" and al: "a AND amask = 0"
  shows "fst (load_access P a sz amask init (store_access P a sz amask v c))
    = take_bit (8 * unat sz) v"
proof -
  obtain m where m: "store_access P a sz amask v c = c\<lparr>isysbus := m\<rparr>"
    "\<forall>x. view m x = (if unat (x - a) < unat sz then byte_of v (unat (x - a)) else view (isysbus c) x)"
    using store_access_ram [OF P c sz(1) ram al] by blast
  have c': "bare_access P (c\<lparr>isysbus := m\<rparr>)" using c by (simp add: bare_access_def)
  show ?thesis
    using load_access_ram [OF P c' sz(1) ram al, of init] value_of_written [OF sz(2) m(2)]
    by (simp add: m(1))
qed

end

subsection \<open>The platform of memories on the system bus\<close>

text \<open>
  A list of memories with their priorities, mapped in order on a bus of \<open>w\<close> address bits.
  The state behind the bus is the state of every memory.
\<close>

definition soc_bus :: "nat \<Rightarrow> (memcfg \<times> int) list \<Rightarrow> busmap" where
  "soc_bus w Ks = \<lparr>addrWidth = w,
     imap = map (\<lambda>(K, p). \<lparr>baseAddress = m_base K, dlength = of_nat (m_length K), priority = p\<rparr>) Ks\<rparr>"

definition soc_dev ::
  "(memcfg \<times> int) list \<Rightarrow> nat \<Rightarrow> trans \<Rightarrow> (nat \<Rightarrow> memdev) \<Rightarrow> trans \<times> (nat \<Rightarrow> memdev)" where
  "soc_dev Ks i t m =
     (case mem_b_transport (fst (Ks ! i)) t (m i) of (_, t, d) \<Rightarrow> (t, m(i := d)))"

definition soc_b_transport ::
  "nat \<Rightarrow> (memcfg \<times> int) list \<Rightarrow> trans \<Rightarrow> (nat \<Rightarrow> memdev)
     \<Rightarrow> ETransStatus \<times> trans \<times> (nat \<Rightarrow> memdev)" where
  "soc_b_transport w Ks =
     bus_b_transport (soc_bus w Ks) (maphash (soc_bus w Ks) (\<lambda>_. empty_item)) (soc_dev Ks)"

definition soc_view :: "nat \<Rightarrow> (memcfg \<times> int) list \<Rightarrow> (nat \<Rightarrow> memdev) \<Rightarrow> u64 \<Rightarrow> u8" where
  "soc_view w Ks m x = (case scan_devices (soc_bus w Ks) x of
       Some i \<Rightarrow> mem (m i) (unat (x - m_base (fst (Ks ! i)))) | None \<Rightarrow> 0)"

definition soc_mem :: "nat \<Rightarrow> (memcfg \<times> int) list \<Rightarrow> u64 \<Rightarrow> nat \<Rightarrow> bool" where
  "soc_mem w Ks a n \<longleftrightarrow>
     busmap_wf (soc_bus w Ks) \<and> list_all (\<lambda>(K, p). m_length K < 2 ^ 64) Ks \<and> 0 < n \<and> n \<le> 8
     \<and> (case scan_devices (soc_bus w Ks) a of
          None \<Rightarrow> False
        | Some i \<Rightarrow> unat (a - m_base (fst (Ks ! i))) + n \<le> m_length (fst (Ks ! i))
            \<and> list_all (\<lambda>k. scan_devices (soc_bus w Ks) (a + of_nat k) = Some i) [0..<n])"

definition soc_ram :: "nat \<Rightarrow> (memcfg \<times> int) list \<Rightarrow> u64 \<Rightarrow> nat \<Rightarrow> bool" where
  "soc_ram w Ks a n \<longleftrightarrow> soc_mem w Ks a n
     \<and> (case scan_devices (soc_bus w Ks) a of None \<Rightarrow> False | Some i \<Rightarrow> \<not> m_readOnly (fst (Ks ! i)))"

lemma fold_pick_covers:
  "fold (pick b a) is' p = Some i \<Longrightarrow> p = Some i \<or> (i \<in> set is' \<and> covers (imap b ! i) a)"
  by (induction is' arbitrary: p) (fastforce simp: pick_def split: if_splits)+

lemma scan_devices_covers:
  "scan_devices b a = Some i \<Longrightarrow> i < length (imap b) \<and> covers (imap b ! i) a"
  unfolding scan_devices_def by (drule fold_pick_covers) auto

lemma soc_getMapedDevice:
  assumes "busmap_wf (soc_bus w Ks)" and "scan_devices (soc_bus w Ks) a = Some i"
  shows "getMapedDevice (soc_bus w Ks) (maphash (soc_bus w Ks) (\<lambda>_. empty_item)) a = Some i"
proof -
  have "\<exists>i<length (imap (soc_bus w Ks)). covers (imap (soc_bus w Ks) ! i) a"
    using scan_devices_covers [OF assms(2)] by blast
  then show ?thesis
    using getMapedDevice_scan [OF assms(1)] assms(2) by simp
qed

lemma soc_scan_offset:
  assumes wf: "busmap_wf (soc_bus w Ks)" and len: "list_all (\<lambda>(K, p). m_length K < 2 ^ 64) Ks"
    and scan: "scan_devices (soc_bus w Ks) a = Some i"
  shows "i < length Ks" and "unat (a - m_base (fst (Ks ! i))) < m_length (fst (Ks ! i))"
    and "m_length (fst (Ks ! i)) < 2 ^ 64"
proof -
  obtain K p where K: "Ks ! i = (K, p)" by fastforce
  show i: "i < length Ks"
    using scan_devices_covers [OF scan] by (simp add: soc_bus_def)
  have "m_length (fst (Ks ! i)) < 2 ^ 64"
    using len i K by (auto simp: list_all_length)
  then show l: "m_length (fst (Ks ! i)) < 2 ^ 64" .
  have "device_wf (soc_bus w Ks) (imap (soc_bus w Ks) ! i)" "w < 64"
    using wf i by (simp_all add: busmap_wf_def list_all_length soc_bus_def)
  then have "unat (m_base K) \<le> unat a \<and> unat a < unat (m_base K) + unat (of_nat (m_length K) :: u64)"
    using scan_devices_covers [OF scan] covers_unat [of "soc_bus w Ks" "imap (soc_bus w Ks) ! i" a] i
    by (simp add: soc_bus_def K)
  then show "unat (a - m_base (fst (Ks ! i))) < m_length (fst (Ks ! i))"
    using l by (auto simp: K unat_sub word_le_nat_alt unat_of_nat take_bit_nat_eq_self)
qed

lemma soc_step:
  assumes ram: "soc_mem w Ks (addr t) (unat (xsize t))"
    and i: "scan_devices (soc_bus w Ks) (addr t) = Some i"
  shows "soc_b_transport w Ks t m =
    (case mem_b_transport (fst (Ks ! i)) t (m i) of (_, t, d) \<Rightarrow> (TRANS_OK, t, m(i := d)))"
  using ram soc_getMapedDevice [OF _ i]
  by (simp add: soc_mem_def soc_b_transport_def bus_b_transport_def soc_dev_def case_prod_beta)

lemma soc_view_region:
  assumes ram: "soc_mem w Ks a n" and scan: "scan_devices (soc_bus w Ks) a = Some i" and "k < n"
  shows "soc_view w Ks m (a + of_nat k) = mem (m i) (unat (a - m_base (fst (Ks ! i))) + k)"
proof -
  let ?B = "m_base (fst (Ks ! i))"
  have s: "scan_devices (soc_bus w Ks) (a + of_nat k) = Some i"
    and b: "unat (a - ?B) + n \<le> m_length (fst (Ks ! i))" and n: "n \<le> 8"
    using ram scan assms(3) by (auto simp: soc_mem_def list_all_iff)
  have "m_length (fst (Ks ! i)) < 2 ^ 64"
    using ram scan soc_scan_offset(3) by (auto simp: soc_mem_def)
  with b assms(3) n have "unat (a - ?B + of_nat k) = unat (a - ?B) + k"
    by (simp add: unat_word_ariths unat_of_nat take_bit_nat_eq_self)
  then show ?thesis
    by (simp add: soc_view_def s algebra_simps)
qed

lemma soc_mem_off:
  assumes "soc_mem w Ks a n" and "scan_devices (soc_bus w Ks) a = Some i"
  shows "mem_off (fst (Ks ! i)) a = unat (a - m_base (fst (Ks ! i)))"
    and "in_bounds (fst (Ks ! i)) (mem_off (fst (Ks ! i)) a) n"
  using assms soc_scan_offset(2) [of w Ks a i]
  by (auto simp: mem_off_def in_bounds_def soc_mem_def)

interpretation rom: read_bus "soc_b_transport w Ks" "soc_view w Ks" "soc_mem w Ks" for w Ks
proof unfold_locales
  fix t :: trans and m :: "nat \<Rightarrow> memdev"
  assume ram: "soc_mem w Ks (addr t) (unat (xsize t))"
  obtain i where i: "scan_devices (soc_bus w Ks) (addr t) = Some i"
    using ram by (auto simp: soc_mem_def split: option.splits)
  note off = soc_mem_off [OF ram i]
  let ?K = "fst (Ks ! i)"
  let ?o = "unat (addr t - m_base ?K)"
  show "soc_b_transport w Ks t m = (TRANS_OK, t\<lparr>response := MemResp_Valid,
      rpayload := payload_load (\<lambda>i. soc_view w Ks m (addr t + of_nat i)) (unat (xsize t)) 0\<rparr>, m)"
    if rd: "action t = MemAction_Read"
  proof -
    have "payload_load (\<lambda>k. mem (m i) (?o + k)) (unat (xsize t)) 0
        = payload_load (\<lambda>k. soc_view w Ks m (addr t + of_nat k)) (unat (xsize t)) 0"
      by (rule payload_load_cong) (simp add: soc_view_region [OF ram i])
    then show ?thesis
      using rd off by (simp add: soc_step [OF ram i] mem_b_transport_def Let_def)
  qed
qed

interpretation soc: memory_bus "soc_b_transport w Ks" "soc_view w Ks" "soc_ram w Ks" for w Ks
proof unfold_locales
  fix t :: trans and m :: "nat \<Rightarrow> memdev"
  assume rw: "soc_ram w Ks (addr t) (unat (xsize t))"
  then have ram: "soc_mem w Ks (addr t) (unat (xsize t))" by (simp add: soc_ram_def)
  then show "action t = MemAction_Read \<Longrightarrow> soc_b_transport w Ks t m = (TRANS_OK, t\<lparr>response := MemResp_Valid,
      rpayload := payload_load (\<lambda>i. soc_view w Ks m (addr t + of_nat i)) (unat (xsize t)) 0\<rparr>, m)"
    by (rule rom.read_law)
  obtain i where i: "scan_devices (soc_bus w Ks) (addr t) = Some i"
    using ram by (auto simp: soc_mem_def split: option.splits)
  have "\<not> m_readOnly (fst (Ks ! i))" using rw i by (simp add: soc_ram_def)
  note off = soc_mem_off [OF ram i] this
  let ?K = "fst (Ks ! i)"
  let ?o = "unat (addr t - m_base ?K)"
  assume wr: "action t = MemAction_Write"
  then show "fst (soc_b_transport w Ks t m) = TRANS_OK
      \<and> addr (fst (snd (soc_b_transport w Ks t m))) = addr t"
    using off by (simp add: soc_step [OF ram i] mem_b_transport_def Let_def)
  assume st: "wstrb t = full_wstrb (xsize t)"
  fix a
  have new: "snd (snd (soc_b_transport w Ks t m))
      = m(i := (m i)\<lparr>mem := mem_put ?o (wpayload t) (\<lambda>_. True) (unat (xsize t)) (mem (m i))\<rparr>)"
    using wr off st by (simp add: soc_step [OF ram i] mem_b_transport_def Let_def)
  show "soc_view w Ks (snd (snd (soc_b_transport w Ks t m))) a
      = (if unat (a - addr t) < unat (xsize t) then byte_of (wpayload t) (unat (a - addr t))
         else soc_view w Ks m a)"
  proof (cases "unat (a - addr t) < unat (xsize t)")
    case True
    define k where "k = unat (a - addr t)"
    have a: "a = addr t + of_nat k" by (simp add: k_def)
    show ?thesis
      using True soc_view_region [OF ram i, of k] by (simp add: new a[symmetric] mem_put_apply flip: k_def)
  next
    case False
    show ?thesis
    proof (cases "scan_devices (soc_bus w Ks) a = Some i")
      case same: True
      have "unat (a - m_base ?K) < ?o \<or> ?o + unat (xsize t) \<le> unat (a - m_base ?K)"
      proof (rule ccontr)
        assume "\<not> ?thesis"
        then have "unat (a - addr t) = unat (a - m_base ?K) - ?o"
          using unat_sub [of "addr t - m_base ?K" "a - m_base ?K"] by (simp add: word_le_nat_alt)
        with \<open>\<not> ?thesis\<close> False show False by linarith
      qed
      then show ?thesis
        using False same by (auto simp: new soc_view_def mem_put_apply)
    next
      case other: False
      then show ?thesis
        using False by (auto simp: new soc_view_def split: option.split)
    qed
  qed
qed

end
