(* ===== verification/River.thy ===== *)
theory River
  imports Soc Pipeline
begin

section \<open>A concrete platform and CPU\<close>

text \<open>
  The memories and the core of debugger/targets/func_river_x1_gui.json (with
  common_riscv.json), and the CPU after \<open>postinitService\<close> and power-on.  The concrete
  instances of the theorems are stated on it.
\<close>

subsection \<open>The configuration of targets/func_river_x1_gui.json\<close>

text \<open>
  The memories of the bus's map in its order and the attributes of \<open>core0\<close>; the other
  devices are left out and no interrupt is pending.  The first memory stands for \<open>ddr0\<close>, whose
  block list is the subject of theory \<open>Ddr\<close>, as the flat memory that the list represents.
\<close>

definition river_mems :: "(memcfg \<times> int) list" where
  "river_mems =
     [(\<lparr>m_base = 0x80000000, m_length = 0x80000000, m_readOnly = False\<rparr>, 0),
      (\<lparr>m_base = 0x10000, m_length = 0x10000, m_readOnly = True\<rparr>, 0),
      (\<lparr>m_base = 0x08000000, m_length = 0x200000, m_readOnly = False\<rparr>, 0)]"

definition soc_platform ::
  "nat \<Rightarrow> (memcfg \<times> int) list \<Rightarrow> (nat \<Rightarrow> memdev) platform" where
  "soc_platform w Ks =
     \<lparr>b_transport = soc_b_transport w Ks, iirqloc = (\<lambda>_ _ _. 0), iirqext = (\<lambda>_ _. 0),
      stepCallbacks = (\<lambda>_ m. m), hartid = 0, vendorid = 0xF1, implementationid = 0x20211219,
      resetVector = 0x10000, pmpTotal = 8, triggersTotal = 2, mcontrolMaskmax = 63,
      stackTraceSize = 64, sysBusWidthBytes = 8, sysBusMasterID = 0, stack_garbage = 0\<rparr>"

lemma soc_platform_simps [simp]:
  "b_transport (soc_platform w Ks) = soc_b_transport w Ks"
  "iirqloc (soc_platform w Ks) = (\<lambda>_ _ _. 0)" "iirqext (soc_platform w Ks) = (\<lambda>_ _. 0)"
  "stepCallbacks (soc_platform w Ks) = (\<lambda>_ m. m)" "resetVector (soc_platform w Ks) = 0x10000"
  "pmpTotal (soc_platform w Ks) = 8" "triggersTotal (soc_platform w Ks) = 2"
  "stackTraceSize (soc_platform w Ks) = 64" "sysBusWidthBytes (soc_platform w Ks) = 8"
  "stack_garbage (soc_platform w Ks) = 0" "hartid (soc_platform w Ks) = 0"
  "mcontrolMaskmax (soc_platform w Ks) = 63"
  by (simp_all add: soc_platform_def)

text \<open>The static RAM at \<open>0x08000000\<close> is RAM in the sense of the contract.\<close>

lemma river_ram: "soc_ram 39 river_mems 0x08000100 8" "soc_ram 39 river_mems 0x08000100 4"
  "soc_ram 39 river_mems 0x08000100 2" "soc_ram 39 river_mems 0x08000100 1"
  by (simp_all add: soc_ram_def soc_mem_def river_mems_def soc_bus_def busmap_wf_def device_wf_def
      scan_devices_def pick_def covers_def upt_consts)

text \<open>So is the boot ROM, for reading.\<close>

lemma river_rom: "soc_mem 39 river_mems 0x10000 4" "soc_mem 39 river_mems 0x08000100 4"
  by (simp_all add: soc_mem_def river_mems_def soc_bus_def busmap_wf_def device_wf_def
      scan_devices_def pick_def covers_def upt_consts)

text \<open>The CPU after start-up and power-on, with the register bank given.\<close>

definition zero_mem :: "nat \<Rightarrow> memdev" where
  "zero_mem = (\<lambda>_. \<lparr>mem = (\<lambda>_. 0), m_oob = False\<rparr>)"

definition river :: "(nat \<Rightarrow> memdev) platform" where
  "river = soc_platform 39 river_mems"

definition river_cpu :: "(nat \<Rightarrow> u64) \<Rightarrow> (nat \<Rightarrow> memdev) cpu" where
  "river_cpu r = (power POWER_ON (postinit river ''IMAC'' (init_cpu False zero_mem)))\<lparr>R := r\<rparr>"

lemma river_cpu_fields [simp]:
  "R (river_cpu r) = r" "cur_prv_level (river_cpu r) = PRV_M" "exceptions (river_cpu r) = 0"
  "estate (river_cpu r) = CORE_Normal" "cur_ctx (river_cpu r) = Ctx_Normal"
  "getPC (river_cpu r) = 0x10000" "getNPC (river_cpu r) = 0x10000" "branch (river_cpu r) = False"
  "stackTraceCnt (river_cpu r) = 0" "mmuReservedAddrWatchdog (river_cpu r) = 0"
  "haltreq (river_cpu r) = False" "resumereq (river_cpu r) = False" "step_cnt (river_cpu r) = 0"
  "isysbus (river_cpu r) = zero_mem" "ctx_pc (river_cpu r) Ctx_Normal = 0x10000"
  "ctx_npc (river_cpu r) Ctx_Normal = 0x10000"
  by (simp_all add: river_cpu_def river_def power_def postinit_def reset_def generic_reset_def init_cpu_def
      getPC_def getNPC_def setPC_def setNPC_def frame_simps Let_def)

lemma river_cpu_CSR:
  "portCSR (river_cpu r) x = (if x = CSR_misa then misa_value ''IMAC''
     else if x = CSR_dpc then 0x10000 else 0)"
  by (simp add: river_cpu_def river_def power_def postinit_def reset_def generic_reset_def init_cpu_def
      setPC_def setNPC_def frame_simps portCSR_writeCSR read_only_CSRs_def stored_value_def Let_def)

lemma start_writes:
  "writeCSR P CSR_mtvec v c = portCSR_write CSR_mtvec v c"
  "writeCSR P CSR_dpc v c = portCSR_write CSR_dpc v c"
  "writeCSR P CSR_mvendorid v c = c" "writeCSR P CSR_mimplementationid v c = c"
  "writeCSR P CSR_mhartid v c = c"
  by (simp_all add: writeCSR_def read_only_CSRs_def)

lemma river_cpu_triggers: "ptriggers (river_cpu r) i = \<lparr>data1 = 0, data2 = 0, extra = 0\<rparr>"
  by (simp add: river_cpu_def river_def power_def postinit_def reset_def generic_reset_def init_cpu_def
      setPC_def setNPC_def start_writes portCSR_write_def Let_def)

lemma river_bare [simp]: "bare_access P (river_cpu r)"
  by (simp add: bare_access_def river_cpu_CSR mstatus_MPRV_def getf_def)

lemma river_simps [simp]:
  "b_transport river = soc_b_transport 39 river_mems" "iirqloc river = (\<lambda>_ _ _. 0)"
  "iirqext river = (\<lambda>_ _. 0)" "stepCallbacks river = (\<lambda>_ m. m)" "pmpTotal river = 8"
  "triggersTotal river = 2" "sysBusWidthBytes river = 8" "stackTraceSize river = 64"
  "hartid river = 0" "resetVector river = 0x10000" "stack_garbage river = 0"
  by (simp_all add: river_def)

end
