(* ===== verification/Traps.thy ===== *)
theory Traps
  imports River
begin

section \<open>Exceptions, interrupts and the return from traps\<close>

text \<open>
  What \<open>handleTrap\<close>, \<open>handleInterrupts\<close> and MRET of cpu_riscv_func.cpp and
  riscv-rv64i-priv.cpp do to the machine registers: which exception is taken, what is saved,
  where control goes and how MRET undoes it.
\<close>

subsection \<open>Fields of mstatus and mcause\<close>

lemma mstatus_fields [bitfield_simps]:
  "mstatus_MPP (set_MIE x w) = mstatus_MPP w" "mstatus_MPP (set_MPIE x w) = mstatus_MPP w"
  "mstatus_MPP (set_MPP x w) = take_bit 2 x"
  "mstatus_MPIE (set_MIE x w) = mstatus_MPIE w" "mstatus_MPIE (set_MPIE x w) = take_bit 1 x"
  "mstatus_MPIE (set_MPP x w) = mstatus_MPIE w"
  "mstatus_MIE (set_MIE x w) = take_bit 1 x" "mstatus_MIE (set_MPIE x w) = mstatus_MIE w"
  "mstatus_MIE (set_MPP x w) = mstatus_MIE w"
  by (simp_all add: mstatus_MPP_def mstatus_MPIE_def mstatus_MIE_def set_MPP_def set_MPIE_def
      set_MIE_def getf_setf_same getf_setf_other del: One_nat_def)

lemma mcause_fields [bitfield_simps]:
  "mcause_irq (set_mcause_code x w) = mcause_irq w" "mcause_irq (set_mcause_irq x w) = take_bit 1 x"
  "mcause_code (set_mcause_code x w) = take_bit 63 x" "mcause_code (set_mcause_irq x w) = mcause_code w"
  by (simp_all add: mcause_irq_def mcause_code_def set_mcause_code_def set_mcause_irq_def
      getf_setf_same getf_setf_other del: One_nat_def)

lemma mcause_exception: "e < 64 \<Longrightarrow> set_mcause_code (of_nat e) 0 = of_nat e"
proof -
  assume "e < 64"
  then have "e div 2 ^ n = 0" if "63 \<le> n" for n
    using that power_increasing [of 63 n "2::nat"] by simp
  then have "\<not> bit e n" if "63 \<le> n" for n
    using that by (simp add: bit_iff_odd)
  then show ?thesis
    by (intro bit_word_eqI) (auto simp: set_mcause_code_def bit_setf bit_simps not_less)
qed

subsection \<open>The context switch\<close>

definition trap_mstatus :: "u64 \<Rightarrow> u64 \<Rightarrow> u64" where
  "trap_mstatus prv m =
     (let m = set_MPP prv m in set_MIE 0 (set_MPIE (drop_bit (unat prv) m AND 1) m))"

lemma switchContext_alt:
  "switchContext P PRV_M c
     = c\<lparr>cur_prv_level := PRV_M,
         portCSR := (portCSR c)(CSR_mstatus := trap_mstatus (cur_prv_level c) (portCSR c CSR_mstatus),
                                CSR_mepc := getNPC c)\<rparr>"
  by (simp add: switchContext_def Let_def writeCSR_plain portCSR_write_def trap_mstatus_def
      getNPC_def)

subsection \<open>Which exception is taken\<close>

lemma lowest_exception_spec:
  "t \<noteq> 0 \<Longrightarrow> e \<le> lowest_exception t e \<and> bit t (lowest_exception t e - e)
     \<and> (\<forall>j < lowest_exception t e - e. \<not> bit t j)"
proof (induction t e rule: lowest_exception.induct)
  case (1 t e)
  show ?case
  proof (cases "t AND 1 = 0")
    case False
    have "lowest_exception t e = e"
      by (subst lowest_exception.simps) (simp add: False)
    moreover have "bit t 0"
      using False by (simp add: and_one_eq bit_0 odd_iff_mod_2_eq_one)
    ultimately show ?thesis by simp
  next
    case True
    define t' where "t' = drop_bit 1 t"
    define n where "n = lowest_exception t' (e + 1)"
    have b: "bit t' k \<longleftrightarrow> bit t (Suc k)" for k
      unfolding t'_def bit_drop_bit_eq by simp
    have low: "lowest_exception t e = n"
      unfolding n_def t'_def by (subst lowest_exception.simps) (simp only: True "1.prems" simp_thms if_True)
    have z: "\<not> bit t 0"
      using True by (simp add: and_one_eq bit_0 even_iff_mod_2_eq_zero)
    have "t' \<noteq> 0"
    proof
      assume "t' = 0"
      then have "\<not> bit t (Suc k)" for k using b [of k] by simp
      then have "\<not> bit t k" for k using z by (cases k) auto
      then have "t = 0" by (intro bit_word_eqI) simp
      then show False using "1.prems" by contradiction
    qed
    with "1.IH" True "1.prems" have ih: "e + 1 \<le> n" "bit t' (n - (e + 1))" "\<forall>j < n - (e + 1). \<not> bit t' j"
      unfolding n_def t'_def by blast+
    have n: "n - e = Suc (n - (e + 1))" using ih(1) by linarith
    have "\<not> bit t j" if "j < n - e" for j
      using ih(3) that z b n by (cases j) auto
    then show ?thesis
      unfolding low using ih(1,2) b n by simp
  qed
qed

text \<open>
  \<open>handleTrap\<close> takes the lowest-numbered pending exception: its loop stops at the least
  bit that is set.
\<close>

theorem lowest_exception_least:
  assumes "exceptions c \<noteq> 0"
  shows "lowest_exception (exceptions c) 0 = (LEAST n. bit (exceptions c) n)"
  by (rule Least_equality [symmetric])
    (use lowest_exception_spec [OF assms, of 0] not_le in auto)

theorem lowest_exception_least_witness:
  "lowest_exception (exceptions ((river_cpu (\<lambda>_. 0))\<lparr>exceptions := 0xA0\<rparr>)) 0
     = (LEAST n. bit (0xA0 :: u64) n)"
  using lowest_exception_least [of "(river_cpu (\<lambda>_. 0))\<lparr>exceptions := 0xA0\<rparr>"] by simp

subsection \<open>Taking an exception\<close>

text \<open>No stack limit is exceeded (a limit of zero is off).\<close>

definition stack_ok :: "'m cpu \<Rightarrow> bool" where
  "stack_ok c \<longleftrightarrow> (portCSR c CSR_mstackovr = 0 \<or> portCSR c CSR_mstackovr \<le> R c Reg_sp)
     \<and> (portCSR c CSR_mstackund = 0 \<or> R c Reg_sp \<le> portCSR c CSR_mstackund)"

lemma checkStackProtection_ok: "stack_ok c \<Longrightarrow> checkStackProtection P c = c"
  by (auto simp: stack_ok_def checkStackProtection_def Let_def not_less)

lemma dcsr_ebreakm_low: "dcsr_ebreakm (ucast (ucast w :: u32)) = dcsr_ebreakm w"
  by (rule bit_word_eqI) (auto simp: dcsr_ebreakm_def bit_getf bit_simps)

definition exception_entry :: "nat \<Rightarrow> 'm cpu \<Rightarrow> 'm cpu" where
  "exception_entry e c =
     setNPC (portCSR c CSR_mtvec AND NOT 3)
       (c\<lparr>cur_prv_level := PRV_M,
          portCSR := (portCSR c)(CSR_mcause := of_nat e,
            CSR_mstatus := trap_mstatus (cur_prv_level c) (portCSR c CSR_mstatus),
            CSR_mepc := getNPC c)\<rparr>)"

lemma handleException_entry:
  assumes "estate c \<noteq> CORE_ProgbufExec" and "e < 64"
    and "e = EXCEPTION_Breakpoint \<Longrightarrow> dcsr_ebreakm (portCSR c CSR_dcsr) \<noteq> 1"
  shows "handleException P e c = exception_entry e c"
  using assms
  by (auto simp: handleException_def Let_def writeCSR_plain portCSR_write_def switchContext_alt
      mcause_exception exception_entry_def dcsr_ebreakm_low getNPC_def fun_upd_twist)

lemma lowest_exception_less:
  assumes "t \<noteq> 0"
  shows "lowest_exception t 0 < 64"
  using lowest_exception_spec [OF assms, of 0] bit_imp_le_length [of t "lowest_exception t 0"] by simp

text \<open>
  C4: Exception entry.  With an exception pending in normal execution, \<open>handleTrap\<close> enters
  machine mode at the base of \<open>mtvec\<close> and records the cause; \<open>mepc\<close> gets the next program
  counter, \<open>MPP\<close> the old level, interrupts are disabled, the exception is no longer pending,
  and the registers, the program counter and the bus are untouched.
\<close>

theorem exception_taken:
  assumes "exceptions c \<noteq> 0" and "stack_ok c" and "estate c \<noteq> CORE_ProgbufExec"
    and e: "e = lowest_exception (exceptions c) 0"
    and "e = EXCEPTION_Breakpoint \<longrightarrow> dcsr_ebreakm (portCSR c CSR_dcsr) \<noteq> 1"
  shows "let c' = handleTrap P c in
      portCSR c' CSR_mcause = of_nat e \<and> portCSR c' CSR_mepc = getNPC c
      \<and> cur_prv_level c' = PRV_M \<and> getNPC c' = portCSR c CSR_mtvec AND NOT 3
      \<and> mstatus_MPP (portCSR c' CSR_mstatus) = take_bit 2 (cur_prv_level c)
      \<and> mstatus_MIE (portCSR c' CSR_mstatus) = 0
      \<and> exceptions c' = exceptions c AND NOT (bit1 e)
      \<and> R c' = R c \<and> getPC c' = getPC c \<and> isysbus c' = isysbus c"
proof -
  let ?c = "c\<lparr>exceptions := exceptions c AND NOT (bit1 e)\<rparr>"
  have "handleTrap P c = exception_entry e ?c"
    using assms lowest_exception_less
    by (simp add: handleTrap_def checkStackProtection_ok Let_def handleException_entry)
  then show ?thesis
    by (simp add: exception_entry_def setNPC_def getNPC_def getPC_def trap_mstatus_def Let_def
        bitfield_simps)
qed

theorem exception_taken_witness:
  "let c' = handleTrap river ((river_cpu (\<lambda>_. 0))\<lparr>exceptions := 4, cur_prv_level := PRV_U\<rparr>) in
     portCSR c' CSR_mcause = of_nat 2 \<and> portCSR c' CSR_mepc = 0x10000 \<and> cur_prv_level c' = PRV_M"
proof -
  let ?c = "(river_cpu (\<lambda>_. 0))\<lparr>exceptions := 4, cur_prv_level := PRV_U\<rparr>"
  have st: "exceptions ?c \<noteq> 0" "stack_ok ?c" "estate ?c \<noteq> CORE_ProgbufExec" and npc: "getNPC ?c = 0x10000"
    by (simp_all add: stack_ok_def river_cpu_CSR getNPC_def)
  have e: "2 = lowest_exception (exceptions ?c) 0"
    by (simp, code_simp)
  have "(2::nat) = EXCEPTION_Breakpoint \<longrightarrow> dcsr_ebreakm (portCSR ?c CSR_dcsr) \<noteq> 1"
    by simp
  from exception_taken [OF st e this, where P = river] show ?thesis
    unfolding Let_def npc by blast
qed

subsection \<open>Trap and return\<close>

lemma mstatus_MPIE_trap: "mstatus_MPIE (trap_mstatus prv m) = drop_bit (unat prv) (set_MPP prv m) AND 1"
proof -
  have "take_bit 1 (w AND 1) = w AND 1" for w :: u64
    by (rule bit_word_eqI) (auto simp: bit_simps bit_0)
  then show ?thesis by (simp add: trap_mstatus_def Let_def bitfield_simps)
qed

lemma MPIE_machine: "mstatus_MPIE (trap_mstatus PRV_M m) = mstatus_MIE m"
  by (rule bit_word_eqI)
    (auto simp: mstatus_MPIE_trap mstatus_MIE_def set_MPP_def bit_getf bit_setf bit_simps bit_1_iff)

lemma MRET_machine:
  assumes "cur_prv_level c = PRV_M"
  shows "fst (MRET_exec P w c) =
    (let m = portCSR c CSR_mstatus in
     setBranch (portCSR c CSR_mepc)
       (c\<lparr>cur_prv_level := mstatus_MPP m,
          portCSR := (portCSR c)(CSR_mstatus :=
            set_MPP PRV_U (set_MPIE 1 (set_MIE (mstatus_MPIE m) m)))\<rparr>))"
  using assms
  by (simp add: MRET_exec_def Let_def writeCSR_plain portCSR_write_def setBranch_def setNPC_def
      bitfield_simps)

text \<open>
  C5: Trap and return.  An MRET at the end of a handler that left mstatus and mepc alone
  undoes the exception entry: control continues at the saved address, at the privilege
  level of the trap, and (for a trap from machine mode) with the interrupt enable restored.
\<close>

theorem trap_mret_roundtrip:
  assumes "exceptions c \<noteq> 0" and "stack_ok c" and "estate c \<noteq> CORE_ProgbufExec"
    and "lowest_exception (exceptions c) 0 = EXCEPTION_Breakpoint
      \<longrightarrow> dcsr_ebreakm (portCSR c CSR_dcsr) \<noteq> 1"
    and prv: "cur_prv_level c \<le> 3"
    and handler: "portCSR h CSR_mstatus = portCSR (handleTrap P c) CSR_mstatus"
      "portCSR h CSR_mepc = portCSR (handleTrap P c) CSR_mepc" "cur_prv_level h = PRV_M"
  shows "let r = fst (MRET_exec P w h) in
      getNPC r = getNPC c \<and> cur_prv_level r = cur_prv_level c \<and> branch r
      \<and> (cur_prv_level c = PRV_M
           \<longrightarrow> mstatus_MIE (portCSR r CSR_mstatus) = mstatus_MIE (portCSR c CSR_mstatus))"
proof -
  let ?c = "c\<lparr>exceptions := exceptions c AND NOT (bit1 (lowest_exception (exceptions c) 0))\<rparr>"
  have "handleTrap P c = exception_entry (lowest_exception (exceptions c) 0) ?c"
    using assms(1-4) lowest_exception_less
    by (simp add: handleTrap_def checkStackProtection_ok Let_def handleException_entry)
  then have h: "portCSR h CSR_mstatus = trap_mstatus (cur_prv_level c) (portCSR c CSR_mstatus)"
    "portCSR h CSR_mepc = getNPC c"
    using handler by (simp_all add: exception_entry_def setNPC_def getNPC_def)
  have "take_bit 2 (cur_prv_level c) = cur_prv_level c"
    using prv by (simp add: word_unat_eq_iff unsigned_take_bit_eq take_bit_nat_eq_self word_le_nat_alt)
  moreover have "take_bit 1 (mstatus_MIE m) = mstatus_MIE m" for m
    by (rule bit_word_eqI) (auto simp only: mstatus_MIE_def bit_getf bit_take_bit_iff)
  ultimately show ?thesis
    using MPIE_machine [of "portCSR c CSR_mstatus"]
    by (auto simp: MRET_machine [OF handler(3)] Let_def h setBranch_def setNPC_def getNPC_def
        trap_mstatus_def bitfield_simps)
qed

theorem trap_mret_roundtrip_witness:
  "let c = (river_cpu (\<lambda>_. 0))\<lparr>exceptions := 4, cur_prv_level := PRV_U\<rparr>;
       r = fst (MRET_exec river 0 (handleTrap river c)) in
     getNPC r = 0x10000 \<and> cur_prv_level r = PRV_U"
proof -
  let ?c = "(river_cpu (\<lambda>_. 0))\<lparr>exceptions := 4, cur_prv_level := PRV_U\<rparr>"
  have st: "exceptions ?c \<noteq> 0" "stack_ok ?c" "estate ?c \<noteq> CORE_ProgbufExec" and npc: "getNPC ?c = 0x10000"
    and p: "cur_prv_level ?c = PRV_U"
    by (simp_all add: stack_ok_def river_cpu_CSR getNPC_def)
  have e: "lowest_exception (exceptions ?c) 0 = 2"
    by (simp, code_simp)
  have b: "lowest_exception (exceptions ?c) 0 = EXCEPTION_Breakpoint
      \<longrightarrow> dcsr_ebreakm (portCSR ?c CSR_dcsr) \<noteq> 1"
    unfolding e by simp
  have prv: "cur_prv_level ?c \<le> 3" by simp
  have "cur_prv_level (handleTrap river ?c) = PRV_M"
    unfolding handleTrap_def Let_def checkStackProtection_ok [OF st(2)] e
    by (simp add: handleException_entry exception_entry_def setNPC_def)
  from trap_mret_roundtrip [OF st b prv refl refl this, where w = 0] show ?thesis
    unfolding Let_def npc p by blast
qed

subsection \<open>Interrupts\<close>

text \<open>The interrupt that is taken: software before timer before external.\<close>

definition irq_code :: "'m platform \<Rightarrow> 'm cpu \<Rightarrow> u64 option" where
  "irq_code P c =
     (let mie = portCSR c CSR_mie
      in if mie_MSIE mie = 1 \<and> truth (iirqloc P (2 * hartid P) (step_cnt c) (isysbus c)) then Some 3
         else if mie_MTIE mie = 1 \<and> truth (iirqloc P (2 * hartid P + 1) (step_cnt c) (isysbus c)) then Some 7
         else if mie_MEIE mie = 1 \<and> iirqext P 0 (isysbus c) \<noteq> 0 then Some 11
         else None)"

lemma mcause_values:
  "set_mcause_code 3 (set_mcause_irq 1 0) = 0x8000000000000003"
  "set_mcause_code 7 (set_mcause_irq 1 0) = 0x8000000000000007"
  "set_mcause_code 11 (set_mcause_irq 1 0) = 0x800000000000000B"
  "mcause_irq 0 = 0" "mcause_irq 0x8000000000000003 = 1" "mcause_irq 0x8000000000000007 = 1"
  "mcause_irq 0x800000000000000B = 1" "mcause_code 0x8000000000000003 = 3"
  "mcause_code 0x8000000000000007 = 7" "mcause_code 0x800000000000000B = 11"
  by code_simp+

lemma pending_irq_alt:
  "pending_irq P (portCSR c CSR_mie) c
     = (case irq_code P c of None \<Rightarrow> 0 | Some k \<Rightarrow> 0x8000000000000000 + k)"
  by (simp add: pending_irq_def irq_code_def Let_def mcause_values)

lemma irq_code_values: "irq_code P c = Some k \<Longrightarrow> k = 3 \<or> k = 7 \<or> k = 11"
  by (auto simp: irq_code_def Let_def split: if_splits)

text \<open>
  C6: Interrupts.  \<open>handleInterrupts\<close> does nothing unless interrupts are globally enabled
  and an enabled one is pending; otherwise it takes the software before the timer before
  the external interrupt, saves the next program counter, the level and the cause, disables
  interrupts, and continues in machine mode at the vector of the cause (mode 1 of mtvec) or
  at the base.
\<close>

theorem interrupt_taken:
  "handleInterrupts P c =
    (if mstatus_MIE (portCSR c CSR_mstatus) = 0 then c
     else case irq_code P c of
       None \<Rightarrow> c
     | Some k \<Rightarrow>
         let mtvec = portCSR c CSR_mtvec; base = mtvec AND NOT 3 in
         setNPC (if mtvec AND 3 = 1 then base + 4 * k else base)
           (c\<lparr>cur_prv_level := PRV_M,
              portCSR := (portCSR c)(CSR_mcause := 0x8000000000000000 + k,
                CSR_mstatus := trap_mstatus (cur_prv_level c) (portCSR c CSR_mstatus),
                CSR_mepc := getNPC c)\<rparr>))"
proof (cases "irq_code P c")
  case None
  then show ?thesis
    by (simp add: handleInterrupts_def Let_def pending_irq_alt mcause_values)
next
  case (Some k)
  then have "mcause_irq (0x8000000000000000 + k) = 1" "mcause_code (0x8000000000000000 + k) = k"
    using irq_code_values [OF Some] by (auto simp: mcause_values)
  with Some show ?thesis
    by (simp add: handleInterrupts_def Let_def pending_irq_alt writeCSR_plain portCSR_write_def
        switchContext_alt getNPC_def fun_upd_twist)
qed

end
