(* ===== verification/Debug.thy ===== *)
theory Debug
  imports Machine Traps
begin

section \<open>Halting, single-stepping and resuming\<close>

text \<open>
  The debug state machine of cpu_generic.cpp (\<open>updateState\<close>, \<open>halt\<close>, \<open>resume\<close>, \<open>haltreq\<close>,
  \<open>resumereq\<close>): requests are served at the next cycle, the cause and the address are
  recorded, a single step executes one instruction.
\<close>

subsection \<open>dcsr\<close>

lemma dcsr_fields [bitfield_simps]:
  "dcsr_cause (set_dcsr_cause x w) = take_bit 3 x" "dcsr_step (set_dcsr_cause x w) = dcsr_step w"
  "dcsr_ebreakm (set_dcsr_cause x w) = dcsr_ebreakm w"
  by (simp_all add: dcsr_cause_def dcsr_step_def dcsr_ebreakm_def set_dcsr_cause_def
      getf_setf_same getf_setf_other del: One_nat_def)

lemma dcsr_step_low: "dcsr_step (ucast (ucast w :: u32)) = dcsr_step w"
  by (rule bit_word_eqI) (auto simp: dcsr_step_def bit_getf bit_simps)

lemma isStepEnabled_alt: "isStepEnabled P c \<longleftrightarrow> dcsr_step (portCSR c CSR_dcsr) \<noteq> 0"
  by (simp add: isStepEnabled_def dcsr_step_low)

lemma enterDebugMode_alt:
  "enterDebugMode P v cause c
     = c\<lparr>portCSR := (portCSR c)(CSR_dcsr := set_dcsr_cause cause (ucast (ucast (portCSR c CSR_dcsr) :: u32)),
                              CSR_dpc := v)\<rparr>"
  by (simp add: enterDebugMode_def Let_def writeCSR_plain portCSR_write_def)

subsection \<open>No trigger is configured\<close>

text \<open>Neither an instruction count nor an instruction address trigger.\<close>

definition no_triggers :: "'m platform \<Rightarrow> 'm cpu \<Rightarrow> bool" where
  "no_triggers P c \<longleftrightarrow> (\<forall>i<triggersTotal P. tdata1_type (data1 (ptriggers c i)) \<notin> {2, 3})"

lemma isTriggerICount_none:
  assumes "no_triggers P c"
  shows "isTriggerICount P c = (False, c)"
proof -
  have "fold (icount_step P) is' (False, c) = (False, c)" if "\<forall>i\<in>set is'. i < triggersTotal P" for is'
    using that assms by (induction is') (auto simp: icount_step_def no_triggers_def Let_def)
  then show ?thesis by (simp add: isTriggerICount_def)
qed

lemma isTriggerInstruction_none:
  assumes "no_triggers P c"
  shows "isTriggerInstruction P c = (False, c)"
proof -
  have "fold (itrigger_step P pc) is' (False, 0, c) = (False, 0, c)"
    if "\<forall>i\<in>set is'. i < triggersTotal P" for is' pc
    using that assms by (induction is') (auto simp: itrigger_step_def no_triggers_def Let_def)
  then show ?thesis by (simp add: isTriggerInstruction_def)
qed

subsection \<open>Halting\<close>

text \<open>What a halted CPU shows the debugger: the cause and the address of the next instruction.\<close>

definition halted_at :: "'m platform \<Rightarrow> u64 \<Rightarrow> u64 \<Rightarrow> 'm cpu \<Rightarrow> bool" where
  "halted_at P cause a c \<longleftrightarrow> isHalted c \<and> dcsr_cause (readCSR P CSR_dcsr c) = cause \<and> readCSR P CSR_dpc c = a"

lemma readCSR_dpc_halted: "isHalted c \<Longrightarrow> readCSR P CSR_dpc c = portCSR c CSR_dpc"
  by (simp add: readCSR_def)

text \<open>
  A halt request stops a running CPU at the next cycle, before any instruction: cause
  3, dpc at the instruction that would have been next; registers, program counters, step
  counter and memory are untouched and the request is consumed.
\<close>

theorem halt_request_served:
  assumes "estate c = CORE_Normal" and "fst (haltreq_req c) = 0"
  shows "\<exists>c'. updatePipeline n tbl P (snd (haltreq_req c)) = Some c'
    \<and> halted_at P HALT_CAUSE_HALTREQ (getNPC c) c' \<and> \<not> haltreq c'
    \<and> R c' = R c \<and> getPC c' = getPC c \<and> getNPC c' = getNPC c \<and> step_cnt c' = step_cnt c
    \<and> isysbus c' = isysbus c"
  using assms
  by (simp add: haltreq_req_def isHalted_def updatePipeline_def updateState_def halt_def
      enterDebugMode_alt halted_at_def readCSR_dpc_halted bitfield_simps Let_def getPC_def getNPC_def)

theorem halt_request_served_witness:
  "\<exists>c'. updatePipeline 0 (listInstr ''IMAC'') river (snd (haltreq_req (river_cpu (\<lambda>_. 7)))) = Some c'
    \<and> halted_at river HALT_CAUSE_HALTREQ 0x10000 c' \<and> R c' = (\<lambda>_. 7)"
  using halt_request_served [of "river_cpu (\<lambda>_. 7)" 0 "listInstr ''IMAC''" river]
  by (auto simp: haltreq_req_def isHalted_def)

text \<open>
  Single-stepping.  With \<open>dcsr.step\<close> set, the cycle after an executed instruction halts
  with cause 4 at the next instruction and changes neither the registers nor the memory.
\<close>

theorem single_step_halts:
  assumes "estate c = CORE_Normal" and "\<not> haltreq c" and "no_triggers P c"
    and "dcsr_step (portCSR c CSR_dcsr) \<noteq> 0"
  shows "\<exists>c'. updatePipeline n tbl P c = Some c' \<and> halted_at P HALT_CAUSE_STEP (getNPC c) c'
    \<and> R c' = R c \<and> getNPC c' = getNPC c \<and> step_cnt c' = step_cnt c \<and> isysbus c' = isysbus c"
  using assms
  by (simp add: updatePipeline_def updateState_def isTriggerICount_none isStepEnabled_alt halt_def
      enterDebugMode_alt halted_at_def readCSR_dpc_halted isHalted_def bitfield_simps Let_def getNPC_def)

theorem single_step_halts_witness:
  "\<exists>c'. updatePipeline 0 (listInstr ''IMAC'') river (writeCSR river CSR_dcsr 4 (river_cpu (\<lambda>_. 7))) = Some c'
    \<and> halted_at river HALT_CAUSE_STEP 0x10000 c' \<and> R c' = (\<lambda>_. 7)"
proof -
  let ?c = "writeCSR river CSR_dcsr 4 (river_cpu (\<lambda>_. 7))"
  have "no_triggers river ?c"
    by (simp add: no_triggers_def river_cpu_triggers writeCSR_plain portCSR_write_def tdata1_type_def getf_def)
  then show ?thesis
    using single_step_halts [of ?c river 0 "listInstr ''IMAC''"]
    by (auto simp: frame_simps dcsr_step_def getf_def getNPC_def)
qed

subsection \<open>The program buffer\<close>

text \<open>The normal context and the step counter, while the program buffer is being executed.\<close>

definition in_progbuf :: "u64 \<Rightarrow> u64 \<Rightarrow> u64 \<Rightarrow> 'm platform \<Rightarrow> 'm cpu \<Rightarrow> bool" where
  "in_progbuf a b k P c \<longleftrightarrow> estate c = CORE_ProgbufExec \<and> cur_ctx c = Ctx_ProgbufExec
     \<and> ctx_pc c Ctx_Normal = a \<and> ctx_npc c Ctx_Normal = b \<and> step_cnt c = k"

interpretation progbuf: exec_invariant "in_progbuf a b k" for a b k
  by unfold_locales
    (auto simp: in_progbuf_def setReg_def setNPC_def setPC_def pushStackTrace_def popStackTrace_def
      mmuAddrReserve_def mmuAddrRelease_def frame_simps Let_def)

lemma handleTrap_progbuf:
  assumes c: "in_progbuf a b k P c"
  shows "in_progbuf a b k P (handleTrap P c)
    \<or> (\<exists>c1. in_progbuf a b k P c1 \<and> handleTrap P c = exitProgbufExec c1)"
proof -
  let ?s = "checkStackProtection P c"
  let ?c = "?s\<lparr>exceptions := exceptions ?s AND NOT (bit1 (lowest_exception (exceptions ?s) 0))\<rparr>"
  have s: "in_progbuf a b k P ?s" using progbuf.I_checkStackProtection [OF c] .
  then have i: "in_progbuf a b k P ?c" by (rule progbuf.I_exceptions)
  then have e: "estate ?c = CORE_ProgbufExec" by (simp add: in_progbuf_def)
  show ?thesis
  proof (cases "exceptions ?s = 0")
    case True
    then show ?thesis using progbuf.I_handleInterrupts [OF s] by (simp add: handleTrap_def Let_def)
  next
    case False
    then have "handleTrap P c = handleException P (lowest_exception (exceptions ?s) 0) ?c"
      by (simp add: handleTrap_def Let_def)
    moreover have "handleException P x ?c
        = (if x = EXCEPTION_Breakpoint then exitProgbufExec ?c
           else setNPC (readCSR P CSR_mtvec (switchContext P PRV_M ?c) AND NOT 3) (switchContext P PRV_M ?c))" for x
      using e by (simp add: handleException_def Let_def)
    ultimately show ?thesis
      using i progbuf.I_setNPC [OF progbuf.I_switchContext [OF i, of PRV_M]] by auto
  qed
qed

text \<open>
  C10: Program buffer isolation.  A cycle that executes the debugger's program buffer leaves
  the program counters of the interrupted program and the step counter alone, whatever the
  instruction does; it stays in the program buffer or (ebreak) ends halted in the normal
  context.
\<close>

theorem progbuf_isolated:
  assumes "updatePipeline n (listInstr exts) P c = Some c'"
    and c: "estate c = CORE_ProgbufExec" "cur_ctx c = Ctx_ProgbufExec" and "no_triggers P c"
  shows "ctx_pc c' Ctx_Normal = ctx_pc c Ctx_Normal \<and> ctx_npc c' Ctx_Normal = ctx_npc c Ctx_Normal
    \<and> step_cnt c' = step_cnt c
    \<and> (estate c' = CORE_ProgbufExec \<and> cur_ctx c' = Ctx_ProgbufExec
       \<or> estate c' = CORE_Halted \<and> cur_ctx c' = Ctx_Normal)"
proof -
  let ?I = "in_progbuf (ctx_pc c Ctx_Normal) (ctx_npc c Ctx_Normal) (step_cnt c) P"
  let ?c = "(setPC (getNPC c) c)\<lparr>branch := False, oplen := 0\<rparr>"
  have "?I c" using c by (simp add: in_progbuf_def)
  then have i: "?I ?c" by (intro progbuf.I_exec_rules)
  have "no_triggers P ?c" using assms(4) by (simp add: no_triggers_def setPC_def)
  moreover have "updateState P c = (True, c)" using c by (simp add: updateState_def)
  ultimately obtain c1 where f: "fetchILine n P ?c = Some c1"
    and c': "c' = finishCycle P (executeLine (listInstr exts) P c1)"
    using assms(1) by (auto simp: updatePipeline_def isTriggerInstruction_none Let_def)
  have "?I c1"
    using f i progbuf.I_fetch_progbuf [OF progbuf.I_fetch_addr [OF i]]
    by (cases n) (auto simp: Let_def in_progbuf_def)
  then have e: "?I (executeLine (listInstr exts) P c1)" by (rule progbuf.I_executeLine)
  obtain d where d: "?I d" and h: "c' = handleTrap P d"
  proof
    let ?e = "executeLine (listInstr exts) P c1"
    let ?d = "if \<not> branch ?e then setNPC (getPC ?e + ucast (oplen ?e)) ?e else ?e"
    show "c' = handleTrap P (updateQueue P ?d)" unfolding c' finishCycle_def Let_def ..
    have "?I ?d" using e progbuf.I_setNPC [OF e] by simp
    then show "?I (updateQueue P ?d)" by (rule progbuf.I_updateQueue)
  qed
  consider "?I c'" | c2 where "?I c2" "c' = exitProgbufExec c2"
    using handleTrap_progbuf [OF d] unfolding h by blast
  then show ?thesis
    by cases (auto simp: in_progbuf_def exitProgbufExec_def)
qed

theorem progbuf_isolated_witness:
  "\<exists>c'. updatePipeline 1 (listInstr ''IMAC'') river (enterProgbufExec (river_cpu (\<lambda>_. 7))) = Some c'
    \<and> ctx_npc c' Ctx_Normal = 0x10000 \<and> step_cnt c' = 0"
proof -
  let ?c = "enterProgbufExec (river_cpu (\<lambda>_. 7))"
  have c: "estate ?c = CORE_ProgbufExec" "cur_ctx ?c = Ctx_ProgbufExec" "ctx_npc ?c Ctx_Normal = 0x10000"
    "step_cnt ?c = 0"
    by (simp_all add: enterProgbufExec_def setNPC_def)
  have t: "no_triggers river (setPC v ?c)" "no_triggers river ?c" "estate (setPC v ?c) = CORE_ProgbufExec" for v
    by (simp_all add: no_triggers_def enterProgbufExec_def setNPC_def setPC_def river_cpu_triggers
        tdata1_type_def getf_def)
  then have "no_triggers river ((setPC v ?c)\<lparr>branch := False, oplen := 0\<rparr>)" for v
    by (simp add: no_triggers_def)
  then obtain c' where u: "updatePipeline 1 (listInstr ''IMAC'') river ?c = Some c'"
    using c t by (auto simp: updatePipeline_def updateState_def isTriggerInstruction_none Let_def)
  show ?thesis
    using progbuf_isolated [OF u c(1,2) t(2)] u c(3,4) by auto
qed

end
