(* ===== verification/Isa_Facts.thy ===== *)
theory Isa_Facts
  imports Isa_M Isa_A Isa_C Isa_Priv Cpu_Facts
begin

section \<open>What the instructions compute\<close>

text \<open>
  The sign-extension idioms as casts from a narrower word, the 128-bit product of
  \<open>mul_levels\<close>, and division and remainder as the ISA manual defines them.
\<close>

subsection \<open>Sign extension\<close>

lemma and_bit1: "w AND bit1 n \<noteq> 0 \<longleftrightarrow> bit w n"
  by (simp add: bit1_def and_exp_eq_0_iff_not_bit)

lemma EXT_masks:
  "EXT_SIGN_6 = push_bit 5 (mask 59)" "EXT_SIGN_8 = push_bit 7 (mask 57)"
  "EXT_SIGN_9 = push_bit 8 (mask 56)" "EXT_SIGN_11 = push_bit 11 (mask 53)"
  "EXT_SIGN_12 = push_bit 12 (mask 52)" "EXT_SIGN_16 = push_bit 16 (mask 48)"
  "EXT_SIGN_32 = push_bit 32 (mask 32)"
  by (simp_all add: EXT_SIGN_defs mask_eq_exp_minus_1 push_bit_eq_mult)

lemma low32_alt: "low32 w = take_bit 32 w"
  by (simp add: take_bit_eq_mask mask_eq_exp_minus_1)

lemma sext32_low: "sext32 (take_bit 32 w) = scast (ucast w :: u32)"
proof (rule bit_word_eqI)
  fix n
  show "bit (sext32 (take_bit 32 w)) n = bit (scast (ucast w :: u32) :: u64) n"
    by (cases "n = 31") (auto simp: sext32_def and_bit1 EXT_masks bit_simps not_le min_def dest: bit_imp_le_length)
qed

lemma sext32_low32: "sext32 (low32 w) = scast (ucast w :: u32)"
  by (simp add: low32_alt sext32_low)

lemma sext32_ucast: "sext32 (ucast w) = scast w" for w :: u32
proof -
  have "ucast w = take_bit 32 (ucast w :: u64)"
    by (rule bit_word_eqI) (auto simp: bit_simps dest: bit_imp_le_length)
  then have "sext32 (ucast w) = scast (ucast (ucast w :: u64) :: u32)"
    by (metis sext32_low)
  then show ?thesis by (simp add: unsigned_ucast_eq take_bit_word_eq_self)
qed

lemma sext16_ucast: "sext16 (ucast w) = scast w" for w :: u16
proof (rule bit_word_eqI)
  fix n
  show "bit (sext16 (ucast w)) n = bit (scast w :: u64) n"
    by (cases "n = 15") (auto simp: sext16_def and_bit1 EXT_masks bit_simps not_le min_def dest: bit_imp_le_length)
qed

lemma sext8_ucast: "sext8 (ucast w) = scast w" for w :: u8
proof (rule bit_word_eqI)
  fix n
  show "bit (sext8 (ucast w)) n = bit (scast w :: u64) n"
    by (cases "n = 7") (auto simp: sext8_def and_bit1 EXT_masks bit_simps not_le min_def dest: bit_imp_le_length)
qed

lemma and_0x800: "w AND 0x800 \<noteq> 0 \<longleftrightarrow> bit w 11" for w :: u64
  using and_bit1 [of w 11] by (simp add: bit1_def)

lemma I_simm_scast: "I_simm u = scast (getf 20 12 u :: 12 word)"
proof (rule bit_word_eqI)
  fix n
  show "bit (I_simm u) n = bit (scast (getf 20 12 u :: 12 word) :: u64) n"
    by (cases "n = 11") (auto simp: I_simm_def I_imm_def sext12_def and_0x800 EXT_masks bit_getf bit_simps not_le min_def
      dest: bit_imp_le_length)
qed

subsection \<open>The six-level multiplier\<close>

definition lvl_value :: "LevelType \<Rightarrow> nat" where
  "lvl_value l = unat (val0 l) + 2 ^ 64 * unat (val1 l)"

lemma unat_less_64: "unat w < 2 ^ 64" for w :: u64
  using unsigned_less [where 'a = nat, of w] by simp

lemma bit_63_unat: "bit w 63 \<longleftrightarrow> 2 ^ 63 \<le> unat w" for w :: u64
proof -
  have "bit w 63 = bit (unat w) 63"
    by (simp add: bit_unsigned_iff)
  also have "\<dots> \<longleftrightarrow> unat w div 2 ^ 63 mod 2 = 1"
    unfolding bit_iff_odd odd_iff_mod_2_eq_one ..
  also have "\<dots> \<longleftrightarrow> 2 ^ 63 \<le> unat w"
    using unat_less_64 [of w] by auto
  finally show ?thesis .
qed

lemma drop_63: "drop_bit 63 w = of_bool (bit w 63)" for w :: u64
proof (rule bit_word_eqI)
  fix n
  show "bit (drop_bit 63 w) n = bit (of_bool (bit w 63) :: u64) n"
    by (cases "n = 0") (auto simp: bit_simps bit_1_iff dest: bit_imp_le_length)
qed

lemma and_1_of_bool: "drop_bit n w AND 1 = of_bool (bit w n)" for w :: u64
  by (rule bit_word_eqI) (auto simp: bit_simps)

lemma carry_out_spec:
  fixes x y :: u64
  shows "unat x + unat y
    = unat (x + y) + 2 ^ 64 * unat (carry_out (of_bool (bit x 63)) (of_bool (bit y 63)) (drop_bit 63 (x + y)))"
proof -
  have b: "unat x < 2 ^ 64" "unat y < 2 ^ 64"
    by (rule unat_less_64)+
  have s: "unat (x + y) = (if unat x + unat y < 2 ^ 64 then unat x + unat y else unat x + unat y - 2 ^ 64)"
    by (simp add: unat_plus_if')
  show ?thesis
    unfolding drop_63 using b s
    by (cases "bit x 63"; cases "bit y 63"; cases "bit (x + y) 63")
      (auto simp: carry_out_def bit_63_unat split: if_splits)
qed

lemma unat_push_bit_64: "unat (push_bit s w) = unat w * 2 ^ s mod 2 ^ 64" for w :: u64
  unfolding unsigned_push_bit_eq by (simp add: push_bit_eq_mult take_bit_eq_mod)

lemma unat_drop_bit_64: "unat (drop_bit s w) = unat w div 2 ^ s" for w :: u64
  unfolding unat_drop_bit_eq by (simp add: drop_bit_eq_div)

lemma pow_64_split: "s \<le> 64 \<Longrightarrow> (2::nat) ^ 64 = 2 ^ (64 - s) * 2 ^ s"
  by (simp flip: power_add)

lemma push_drop_value:
  fixes w :: u64
  assumes "s \<le> 64"
  shows "unat w * 2 ^ s = unat (push_bit s w) + 2 ^ 64 * unat (drop_bit (64 - s) w)"
proof -
  have "unat w * 2 ^ s div 2 ^ 64 = unat w div 2 ^ (64 - s)"
    unfolding pow_64_split [OF assms] by (rule div_mult_mult2) simp
  then show ?thesis
    unfolding unat_push_bit_64 unat_drop_bit_64 by (metis mod_mult_div_eq)
qed

lemma push_or_drop:
  fixes h l :: u64
  assumes h: "unat h * 2 ^ s < 2 ^ 64" and s: "s \<le> 64"
  shows "unat (push_bit s h OR drop_bit (64 - s) l) = unat h * 2 ^ s + unat (drop_bit (64 - s) l)"
proof -
  have "push_bit s h OR drop_bit (64 - s) l = push_bit s h + drop_bit (64 - s) l"
    by (rule disjunctive_add [symmetric])
      (use s in \<open>auto simp: bit_simps not_le less_diff_conv2 dest!: bit_imp_le_length\<close>)
  moreover have p: "unat (push_bit s h) = unat h * 2 ^ s"
    using h by (simp only: unat_push_bit_64 mod_less)
  moreover have "unat (push_bit s h) + unat (drop_bit (64 - s) l) < 2 ^ 64"
  proof -
    have "unat h < 2 ^ (64 - s)"
      using h unfolding pow_64_split [OF s] by simp
    then have "Suc (unat h) * 2 ^ s \<le> 2 ^ (64 - s) * 2 ^ s"
      by (intro mult_right_mono) simp_all
    moreover have "unat (drop_bit (64 - s) l) < 2 ^ s"
      unfolding unat_drop_bit_64 using unat_less_64 [of l] pow_64_split [OF s]
      by (simp add: less_mult_imp_div_less mult.commute)
    ultimately show ?thesis
      unfolding p pow_64_split [OF s] by simp
  qed
  ultimately show ?thesis
    by (simp add: unat_plus_if')
qed

lemma lvl_add_value:
  assumes s: "0 < s" "s \<le> 63" and b: "lvl_value hi * 2 ^ s + lvl_value lo < 2 ^ 128"
  shows "lvl_value (lvl_add s hi lo) = lvl_value hi * 2 ^ s + lvl_value lo"
proof -
  define v0 where "v0 = push_bit s (val0 hi) + val0 lo"
  define cy where "cy = carry_out (drop_bit (63 - s) (val0 hi) AND 1) (drop_bit 63 (val0 lo) AND 1) (drop_bit 63 v0)"
  define o1 where "o1 = push_bit s (val1 hi) OR drop_bit (64 - s) (val0 hi)"
  have r: "lvl_add s hi lo = \<lparr>val0 = v0, val1 = o1 + (val1 lo + cy)\<rparr>"
    by (simp add: lvl_add_def v0_def cy_def o1_def Let_def)
  have m: "bit (val0 hi) (63 - s) = bit (push_bit s (val0 hi)) 63"
    using s by (simp add: bit_simps)
  have c: "unat (push_bit s (val0 hi)) + unat (val0 lo) = unat v0 + 2 ^ 64 * unat cy"
    unfolding cy_def and_1_of_bool m v0_def by (rule carry_out_spec)
  have d: "unat (val0 hi) * 2 ^ s = unat (push_bit s (val0 hi)) + 2 ^ 64 * unat (drop_bit (64 - s) (val0 hi))"
    by (rule push_drop_value) (use s in simp)
  have tot: "lvl_value hi * 2 ^ s + lvl_value lo
      = unat v0 + 2 ^ 64 * (unat (val1 hi) * 2 ^ s + unat (drop_bit (64 - s) (val0 hi)) + unat (val1 lo) + unat cy)"
    using c d by (simp add: lvl_value_def algebra_simps)
  then have up: "unat (val1 hi) * 2 ^ s + unat (drop_bit (64 - s) (val0 hi)) + unat (val1 lo) + unat cy < 2 ^ 64"
    using b by simp
  have "unat o1 = unat (val1 hi) * 2 ^ s + unat (drop_bit (64 - s) (val0 hi))"
    unfolding o1_def by (rule push_or_drop) (use up s in simp_all)
  then have "unat (o1 + (val1 lo + cy))
      = unat (val1 hi) * 2 ^ s + unat (drop_bit (64 - s) (val0 hi)) + unat (val1 lo) + unat cy"
    using up by (simp add: unat_plus_if')
  then show ?thesis
    unfolding tot by (simp add: r lvl_value_def)
qed

lemma unat_and_3: "unat (w AND 3) = unat w mod 4" for w :: u64
proof -
  have "w AND 3 = take_bit 2 w" by (simp add: take_bit_eq_mask mask_eq_exp_minus_1)
  then show ?thesis
    by (simp only: unsigned_take_bit_eq) (simp add: take_bit_eq_mod)
qed

lemma mul_digit_value: "lvl_value (mul_digit a1 a2 i) = unat a1 * (unat a2 div 2 ^ (2 * i) mod 2 ^ 2)"
proof -
  define d where "d = drop_bit (2 * i) a2 AND 3"
  have u: "unat d = unat a2 div 2 ^ (2 * i) mod 2 ^ 2"
    by (simp add: d_def unat_and_3 unat_drop_bit_64)
  have two: "unat a1 * 2 = unat (push_bit 1 a1) + 2 ^ 64 * unat (drop_bit 63 a1)"
    using push_drop_value [of 1 a1] by simp
  have "unat d < 4" unfolding u by simp
  then consider "unat d = 0" | "unat d = 1" | "unat d = 2" | "unat d = 3" by linarith
  then show ?thesis
  proof cases
    case 1
    then have "d = 0" by (simp add: unat_eq_zero)
    then show ?thesis using 1 u by (simp add: mul_digit_def Let_def lvl_value_def flip: d_def)
  next
    case 2
    then have "d = 1" by (metis unat_1 word_unat_eq_iff)
    then show ?thesis using 2 u by (simp add: mul_digit_def Let_def lvl_value_def flip: d_def)
  next
    case 3
    then have "d = 2" by (simp add: word_unat_eq_iff)
    then show ?thesis using 3 u two by (simp add: mul_digit_def Let_def lvl_value_def flip: d_def)
  next
    case 4
    then have d: "d = 3" by (simp add: word_unat_eq_iff)
    define cy where "cy = carry_out (drop_bit 62 a1 AND 1) (drop_bit 63 a1 AND 1) (drop_bit 63 (push_bit 1 a1 + a1))"
    have m: "bit a1 62 = bit (push_bit 1 a1) 63" by (simp only: bit_push_bit_iff) simp
    have c: "unat (push_bit 1 a1) + unat a1 = unat (push_bit 1 a1 + a1) + 2 ^ 64 * unat cy"
      unfolding cy_def and_1_of_bool m by (rule carry_out_spec)
    have "unat (push_bit 1 a1) + unat a1 < 2 * 2 ^ 64"
      using unat_less_64 [of "push_bit 1 a1"] unat_less_64 [of a1] by simp
    then have "unat cy < 2" using c by simp
    moreover have "unat (drop_bit 63 a1) < 2"
      using unat_less_64 [of a1] by (simp add: unat_drop_bit_64 less_mult_imp_div_less)
    ultimately have s: "unat (drop_bit 63 a1 + cy) = unat (drop_bit 63 a1) + unat cy"
      by (simp add: unat_plus_if')
    have "mul_digit a1 a2 i = \<lparr>val0 = push_bit 1 a1 + a1, val1 = drop_bit 63 a1 + cy\<rparr>"
      unfolding mul_digit_def d_def [symmetric] cy_def Let_def by (simp add: d)
    then have "lvl_value (mul_digit a1 a2 i)
        = unat (push_bit 1 a1 + a1) + 2 ^ 64 * (unat (drop_bit 63 a1) + unat cy)"
      by (simp only: lvl_value_def LevelType.simps s)
    then have "lvl_value (mul_digit a1 a2 i) = unat a1 * 3"
      using c two unfolding distrib_left by linarith
    then show ?thesis using 4 u by simp
  qed
qed

text \<open>Level by level: item \<open>i\<close> is the product by the \<open>w\<close> bits of the multiplier from \<open>w * i\<close> on.\<close>

definition level_ok :: "u64 \<Rightarrow> u64 \<Rightarrow> nat \<Rightarrow> (nat \<Rightarrow> LevelType) \<Rightarrow> bool" where
  "level_ok a1 a2 w f \<longleftrightarrow> (\<forall>i. lvl_value (f i) = unat a1 * (unat a2 div 2 ^ (w * i) mod 2 ^ w))"

lemma level_next:
  assumes f: "level_ok a1 a2 w f" and w: "0 < w" "w \<le> 32"
  shows "level_ok a1 a2 (2 * w) (\<lambda>i. lvl_add w (f (2 * i + 1)) (f (2 * i)))"
  unfolding level_ok_def
proof
  fix i
  define x where "x = unat a2 div 2 ^ (2 * w * i)"
  have "2 ^ (w * (2 * i + 1)) = 2 ^ (2 * w * i) * (2::nat) ^ w"
    by (simp add: power_add [symmetric] algebra_simps)
  then have hi: "lvl_value (f (2 * i + 1)) = unat a1 * (x div 2 ^ w mod 2 ^ w)"
    using f by (simp add: level_ok_def x_def div_mult2_eq)
  have lo: "lvl_value (f (2 * i)) = unat a1 * (x mod 2 ^ w)"
    using f by (simp add: level_ok_def x_def mult.left_commute mult.commute)
  have "(2::nat) ^ (2 * w) = 2 ^ w * 2 ^ w" by (simp add: mult_2 power_add)
  then have sum: "lvl_value (f (2 * i + 1)) * 2 ^ w + lvl_value (f (2 * i)) = unat a1 * (x mod 2 ^ (2 * w))"
    unfolding hi lo by (simp add: mod_mult2_eq algebra_simps)
  have "x mod 2 ^ (2 * w) < 2 ^ (2 * w)" by simp
  also have "\<dots> \<le> 2 ^ 64" using w(2) by (intro power_increasing) simp_all
  finally have "unat a1 * (x mod 2 ^ (2 * w)) < 2 ^ 64 * 2 ^ 64"
    using unat_less_64 [of a1] by (intro mult_strict_mono) simp_all
  then have "lvl_value (f (2 * i + 1)) * 2 ^ w + lvl_value (f (2 * i)) < 2 ^ 128"
    unfolding sum by simp
  then show "lvl_value (lvl_add w (f (2 * i + 1)) (f (2 * i)))
      = unat a1 * (unat a2 div 2 ^ (2 * w * i) mod 2 ^ (2 * w))"
    using lvl_add_value [of w "f (2 * i + 1)" "f (2 * i)"] w unfolding sum x_def by simp
qed

lemma mul_levels_value: "lvl_value (mul_levels a1 a2) = unat a1 * unat a2"
proof -
  define lvl1 where "lvl1 = (\<lambda>i. lvl_add 2 (mul_digit a1 a2 (2 * i + 1)) (mul_digit a1 a2 (2 * i)))"
  define lvl2 where "lvl2 = (\<lambda>i. lvl_add 4 (lvl1 (2 * i + 1)) (lvl1 (2 * i)))"
  define lvl3 where "lvl3 = (\<lambda>i. lvl_add 8 (lvl2 (2 * i + 1)) (lvl2 (2 * i)))"
  define lvl4 where "lvl4 = (\<lambda>i. lvl_add 16 (lvl3 (2 * i + 1)) (lvl3 (2 * i)))"
  have "level_ok a1 a2 2 (mul_digit a1 a2)"
    by (simp add: level_ok_def mul_digit_value)
  from level_next [OF this] have 1: "level_ok a1 a2 4 lvl1" by (simp add: lvl1_def)
  from level_next [OF this] have 2: "level_ok a1 a2 8 lvl2" by (simp add: lvl2_def)
  from level_next [OF this] have 3: "level_ok a1 a2 16 lvl3" by (simp add: lvl3_def)
  from level_next [OF this] have 4: "level_ok a1 a2 32 lvl4" by (simp add: lvl4_def)
  from level_next [OF this] have "level_ok a1 a2 64 (\<lambda>i. lvl_add 32 (lvl4 (2 * i + 1)) (lvl4 (2 * i)))"
    by simp
  then have "lvl_value (lvl_add 32 (lvl4 (2 * 0 + 1)) (lvl4 (2 * 0)))
      = unat a1 * (unat a2 div 2 ^ (64 * 0) mod 2 ^ 64)"
    unfolding level_ok_def by blast
  moreover have "mul_levels a1 a2 = lvl_add 32 (lvl4 1) (lvl4 0)"
    unfolding mul_levels_def Let_def lvl1_def lvl2_def lvl3_def lvl4_def ..
  ultimately show ?thesis
    using unat_less_64 [of a2] by simp
qed

lemma mul_levels_high: "unat (val1 (mul_levels a1 a2)) = unat a1 * unat a2 div 2 ^ 64"
  unfolding mul_levels_value [symmetric] lvl_value_def
  using unat_less_64 [of "val0 (mul_levels a1 a2)"] by simp

lemma mul_levels_low: "val0 (mul_levels a1 a2) = a1 * a2"
proof -
  have "unat (val0 (mul_levels a1 a2)) = unat a1 * unat a2 mod 2 ^ 64"
    unfolding mul_levels_value [symmetric] lvl_value_def
    using unat_less_64 [of "val0 (mul_levels a1 a2)"] by simp
  then show ?thesis
    by (simp add: word_unat_eq_iff unat_word_ariths)
qed

subsection \<open>The signed high products\<close>

lemma sint_uint_64: "sint w = (if bit w 63 then uint w - 2 ^ 64 else uint w)" for w :: u64
proof -
  have "uint w < 2 ^ 64" using uint_lt2p [of w] by simp
  then have t: "take_bit 64 (uint w) = uint w" by (simp add: take_bit_int_eq_self)
  have "sint w = signed_take_bit 63 (uint w)" by (simp add: sint_uint)
  also have "\<dots> = take_bit 64 (uint w) - 2 ^ 64 * of_bool (bit (uint w) 63)"
    by (simp add: signed_take_bit_eq_take_bit_minus)
  also have "bit (uint w) 63 = bit w 63"
    by (simp add: bit_uint_iff)
  finally show ?thesis using t by simp
qed

lemma neg_not_min_iff: "neg_not_min a \<longleftrightarrow> bit a 63 \<and> a \<noteq> INT64_MIN"
proof -
  have "push_bit 1 a = 0 \<longleftrightarrow> a = 0 \<or> a = INT64_MIN"
  proof
    assume "push_bit 1 a = 0"
    then have "unat (push_bit 1 a) = 0" by (simp only: unat_eq_zero)
    then have "unat a * 2 mod 2 ^ 64 = 0" unfolding unat_push_bit_64 by simp
    then obtain k where k: "unat a * 2 = 2 ^ 64 * k" by (auto elim: dvdE simp: mod_eq_0_iff_dvd)
    with unat_less_64 [of a] have "k < 2" by simp
    with k have "unat a = 0 \<or> unat a = 2 ^ 63" by (auto simp: less_2_cases_iff)
    then show "a = 0 \<or> a = INT64_MIN" by (auto simp: word_unat_eq_iff)
  qed auto
  moreover have "drop_bit 63 a \<noteq> 0 \<longleftrightarrow> bit a 63" by (simp add: drop_63)
  ultimately show ?thesis by (auto simp: neg_not_min_def)
qed

text \<open>The magnitude the source multiplies by.\<close>

lemma magnitude:
  fixes a :: u64
  assumes "a \<noteq> INT64_MIN"
  shows "uint (if neg_not_min a then NOT a + 1 else a) = \<bar>sint a\<bar>" "neg_not_min a \<longleftrightarrow> sint a < 0"
proof -
  have b: "0 \<le> uint a" "uint a < 2 ^ 64" using uint_lt2p [of a] by simp_all
  show n: "neg_not_min a \<longleftrightarrow> sint a < 0"
    using assms b by (simp add: neg_not_min_iff sint_uint_64)
  have "uint (- a) = 2 ^ 64 - uint a" if "a \<noteq> 0"
    using that b by (simp add: uint_word_ariths zmod_zminus1_eq_if) (simp add: uint_0_iff)
  moreover have "NOT a + 1 = - a" by (simp add: not_eq_complement)
  moreover have "sint a < 0 \<Longrightarrow> a \<noteq> 0" by auto
  ultimately show "uint (if neg_not_min a then NOT a + 1 else a) = \<bar>sint a\<bar>"
    using n b by (auto simp: sint_uint_64 split: if_splits)
qed

lemma mul_levels_high_int: "val1 (mul_levels a1 a2) = word_of_int (uint a1 * uint a2 div 2 ^ 64)"
proof -
  have "int (unat (val1 (mul_levels a1 a2))) = int (unat a1) * int (unat a2) div 2 ^ 64"
    unfolding mul_levels_high by (simp add: zdiv_int)
  then show ?thesis by (metis uint_nat word_of_int_uint)
qed

definition high_word :: "int \<Rightarrow> u64" where
  "high_word p = word_of_int (p div 2 ^ 64)"

lemma neg_div_64: "(- p) div 2 ^ 64 = - (p div 2 ^ 64) - (if 2 ^ 64 dvd p then 0 else 1)" for p :: int
  by (simp add: zdiv_zminus1_eq_if dvd_eq_mod_eq_0)

lemma NOT_high: "NOT (high_word p) = (if 2 ^ 64 dvd p then high_word (- p) - 1 else high_word (- p))"
  unfolding high_word_def neg_div_64 by (simp add: not_eq_complement)

lemma abs_mult_neg: "sgn x \<noteq> sgn y \<Longrightarrow> x \<noteq> 0 \<Longrightarrow> y \<noteq> 0 \<Longrightarrow> \<bar>x\<bar> * \<bar>y\<bar> = - (x * y)" for x y :: int
  by (auto simp: sgn_if abs_if split: if_splits)

lemma abs_mult_pos: "(x < 0) = (y < 0) \<Longrightarrow> \<bar>x\<bar> * \<bar>y\<bar> = x * y" for x y :: int
  by (auto simp: abs_if)

text \<open>
  Away from the least value \<open>mulh\<close> is the high word of the signed product, except that a
  negative product that is a multiple of \<open>2 ^ 64\<close> comes out one too small.
\<close>

lemma mulh_value:
  assumes a1: "a1 \<noteq> INT64_MIN" and a2: "a2 \<noteq> INT64_MIN"
  shows "mulh a1 a2 =
    (if sint a1 * sint a2 < 0 \<and> 2 ^ 64 dvd sint a1 * sint a2
     then high_word (sint a1 * sint a2) - 1 else high_word (sint a1 * sint a2))"
proof -
  define m1 where "m1 = (if neg_not_min a1 then NOT a1 + 1 else a1)"
  define m2 where "m2 = (if neg_not_min a2 then NOT a2 + 1 else a2)"
  have u: "uint m1 = \<bar>sint a1\<bar>" "uint m2 = \<bar>sint a2\<bar>"
    and n: "neg_not_min a1 \<longleftrightarrow> sint a1 < 0" "neg_not_min a2 \<longleftrightarrow> sint a2 < 0"
    using magnitude [OF a1] magnitude [OF a2] by (simp_all add: m1_def m2_def)
  have v: "val1 (mul_levels m1 m2) = high_word (\<bar>sint a1\<bar> * \<bar>sint a2\<bar>)"
    by (simp add: mul_levels_high_int high_word_def u)
  have z: "m1 = 0 \<longleftrightarrow> sint a1 = 0" "m2 = 0 \<longleftrightarrow> sint a2 = 0"
    using u by (metis abs_eq_0 uint_0_iff)+
  have r: "mulh a1 a2 = (if m1 = 0 \<or> m2 = 0 then 0
      else if neg_not_min a1 \<noteq> neg_not_min a2 then NOT (val1 (mul_levels m1 m2)) else val1 (mul_levels m1 m2))"
    unfolding mulh_def Let_def m1_def [symmetric] m2_def [symmetric] ..
  show ?thesis
  proof (cases "sint a1 = 0 \<or> sint a2 = 0")
    case True
    then show ?thesis by (auto simp: r z high_word_def)
  next
    case nz: False
    show ?thesis
    proof (cases "(sint a1 < 0) = (sint a2 < 0)")
      case True
      then have "\<not> sint a1 * sint a2 < 0" by (auto simp: mult_less_0_iff)
      with True nz show ?thesis
        unfolding r v n z abs_mult_pos [OF True] by simp
    next
      case False
      then have "sgn (sint a1) \<noteq> sgn (sint a2)" using nz by (auto simp: sgn_if)
      then have "\<bar>sint a1\<bar> * \<bar>sint a2\<bar> = - (sint a1 * sint a2)"
        using abs_mult_neg nz by blast
      moreover have "sint a1 * sint a2 < 0" using False nz by (auto simp: mult_less_0_iff)
      ultimately show ?thesis
        using False nz unfolding r v n z by (simp add: NOT_high)
    qed
  qed
qed

lemma mulhsu_value:
  assumes a1: "a1 \<noteq> INT64_MIN"
  shows "mulhsu a1 a2 =
    (if sint a1 * uint a2 < 0 \<and> 2 ^ 64 dvd sint a1 * uint a2
     then high_word (sint a1 * uint a2) - 1 else high_word (sint a1 * uint a2))"
proof -
  define m1 where "m1 = (if neg_not_min a1 then NOT a1 + 1 else a1)"
  have u: "uint m1 = \<bar>sint a1\<bar>" and n: "neg_not_min a1 \<longleftrightarrow> sint a1 < 0"
    using magnitude [OF a1] by (simp_all add: m1_def)
  have v: "val1 (mul_levels m1 a2) = high_word (\<bar>sint a1\<bar> * uint a2)"
    by (simp add: mul_levels_high_int high_word_def u)
  have z: "m1 = 0 \<longleftrightarrow> sint a1 = 0" "a2 = 0 \<longleftrightarrow> uint a2 = 0"
    using u by (metis abs_eq_0 uint_0_iff, simp add: uint_0_iff)
  have r: "mulhsu a1 a2 = (if m1 = 0 \<or> a2 = 0 then 0
      else if neg_not_min a1 then NOT (val1 (mul_levels m1 a2)) else val1 (mul_levels m1 a2))"
    unfolding mulhsu_def Let_def m1_def [symmetric] ..
  have p: "0 \<le> uint a2" by simp
  show ?thesis
  proof (cases "sint a1 = 0 \<or> uint a2 = 0")
    case True
    then show ?thesis unfolding r z by (auto simp: high_word_def)
  next
    case nz: False
    with p have pos: "0 < uint a2" by linarith
    show ?thesis
    proof (cases "sint a1 < 0")
      case True
      then have "\<bar>sint a1\<bar> * uint a2 = - (sint a1 * uint a2)" "sint a1 * uint a2 < 0"
        using pos by (simp, simp only: mult_less_0_iff, simp)
      then show ?thesis
        using True nz unfolding r v n z by (simp add: NOT_high)
    next
      case False
      then have "\<bar>sint a1\<bar> * uint a2 = sint a1 * uint a2" "\<not> sint a1 * uint a2 < 0"
        using p by (simp, simp add: mult_less_0_iff)
      then show ?thesis
        using False nz unfolding r v n z by simp
    qed
  qed
qed

end
