(* ===== verification/Isa_MulDiv.thy ===== *)
theory Isa_MulDiv
  imports Isa_Facts River
begin

section \<open>Multiplication, division and the 32-bit operations against the ISA manual\<close>

text \<open>
  \<open>isa_div\<close> and \<open>isa_rem\<close> are the results the ISA manual gives for division on mathematical
  integers.  The theorems state what the \<open>exec\<close> functions of \<open>Isa_M\<close> and the word forms of
  \<open>Isa_I\<close> write to \<open>rd\<close>, for every operand.
\<close>

subsection \<open>Division and remainder\<close>

text \<open>The ISA manual's results: all ones or the dividend for a zero divisor, the truncated quotient otherwise.\<close>

definition isa_div :: "int \<Rightarrow> int \<Rightarrow> int" where
  "isa_div a b = (if b = 0 then -1 else cdiv a b)"

definition isa_rem :: "int \<Rightarrow> int \<Rightarrow> int" where
  "isa_rem a b = (if b = 0 then a else cmod a b)"

lemma wi_m1: "word_of_int (- 1) = (- 1 :: 'a::len word)"
  by simp

lemma cdiv_m1: "cdiv a (- 1) = - a"
  by (simp add: cdiv_def sgn_mult_abs mult.commute [of "- 1"] abs_sgn mult.commute)

lemma cmod_m1: "cmod a (- 1) = 0"
  by (simp add: cmod_def cdiv_m1)

lemma sint_eq_0: "sint w = 0 \<longleftrightarrow> w = 0" for w :: "'a::len word"
  by (metis signed_0 signed_word_eqI)

lemma udiv_int: "uint (a div b) = uint a div uint b" "uint (a mod b) = uint a mod uint b" for a b :: "'a::len word"
  by (simp_all add: uint_div_distrib uint_mod_distrib)

lemma cdiv_pos: "0 \<le> a \<Longrightarrow> 0 \<le> b \<Longrightarrow> cdiv a b = a div b"
  by (cases "a = 0"; cases "b = 0") (auto simp: cdiv_def sgn_if)

lemma cmod_pos: "0 \<le> a \<Longrightarrow> 0 \<le> b \<Longrightarrow> cmod a b = a mod b"
  by (simp add: cmod_def cdiv_pos minus_mult_div_eq_mod)

lemma min_sint: "sint INT64_MIN = - (2 ^ 63)"
  by (simp add: sint_uint_64 bit_simps)

lemma cdiv_overflow:
  "(if a = INT64_MIN \<and> b = - 1 then INT64_MIN else word_of_int (cdiv (sint a) (sint b)))
     = (word_of_int (cdiv (sint a) (sint b)) :: u64)"
  by (auto simp: cdiv_m1 min_sint)

lemma cmod_overflow:
  "(if a = INT64_MIN \<and> b = - 1 then 0 else word_of_int (cmod (sint a) (sint b)))
     = (word_of_int (cmod (sint a) (sint b)) :: u64)"
  by (auto simp: cmod_m1)

lemma bit1_63: "bit1 63 = INT64_MIN"
  by (simp add: bit1_def)

lemma scast_wi: "(scast (word_of_int (sint a) :: u32) :: u64) = scast a" for a :: u32
  by simp

text \<open>A 64-bit result cut to its lower half and sign-extended again.\<close>

lemma signed_low: "signed_drop_bit 32 (push_bit 32 x) = scast (ucast x :: u32)" for x :: u64
proof (rule bit_word_eqI)
  fix n
  show "bit (signed_drop_bit 32 (push_bit 32 x)) n = bit (scast (ucast x :: u32) :: u64) n"
    by (cases "n = 31") (auto simp: bit_simps not_le min_def dest: bit_imp_le_length)
qed

lemma ucast_wi: "(ucast (word_of_int i :: u64) :: u32) = word_of_int i"
  by (rule bit_word_eqI) (auto simp: bit_simps)

lemma sint_scast_32: "sint (scast a :: u64) = sint a" for a :: u32
  by (simp add: sint_up_scast is_up_def source_size_def target_size_def word_size)

lemma scast_32_bound: "scast a \<noteq> INT64_MIN" for a :: u32
proof
  assume "scast a = INT64_MIN"
  then have "sint a = - (2 ^ 63)" using sint_scast_32 [of a] by (simp only: min_sint)
  moreover have "- (2 ^ 31) \<le> sint a" using sint_ge [of a] by simp
  ultimately show False by simp
qed

lemma ucast_m1: "(ucast (- 1 :: u64) :: u32) = - 1"
  by (rule bit_word_eqI) (simp add: bit_simps)

lemma scast_word_of_int:
  "- (2 ^ 31) \<le> v \<Longrightarrow> v < 2 ^ 31 \<Longrightarrow> (scast (word_of_int v :: u32) :: u64) = word_of_int v"
  by (simp add: scast_eq sint_sbintrunc' signed_take_bit_int_eq_self)

lemma cmod_between: "\<bar>cmod a b\<bar> \<le> \<bar>a\<bar>" "0 \<le> a \<Longrightarrow> 0 \<le> cmod a b" "a \<le> 0 \<Longrightarrow> cmod a b \<le> 0"
proof -
  define m where "m = \<bar>a\<bar> mod \<bar>b\<bar>"
  have "0 \<le> m" "m \<le> \<bar>a\<bar>"
    unfolding m_def by (cases "b = 0"; simp add: zmod_le_nonneg_dividend)+
  then show "\<bar>cmod a b\<bar> \<le> \<bar>a\<bar>" "0 \<le> a \<Longrightarrow> 0 \<le> cmod a b" "a \<le> 0 \<Longrightarrow> cmod a b \<le> 0"
    unfolding cmod_abs m_def [symmetric] by (auto simp: sgn_if)
qed

lemma scast_cmod: "(word_of_int (cmod (sint a) x) :: u64) = scast (word_of_int (cmod (sint a) x) :: u32)" for a :: u32
proof -
  have "- (2 ^ 31) \<le> sint a" "sint a < 2 ^ 31"
    using sint_ge [of a] sint_lt [of a] by simp_all
  then show ?thesis
    using cmod_between [of "sint a" x] by (intro scast_word_of_int [symmetric]) linarith+
qed

subsection \<open>Multiplication\<close>

lemma mul_levels_int:
  "uint (val1 (mul_levels a b)) * 2 ^ 64 + uint (val0 (mul_levels a b)) = uint a * uint b"
proof -
  have "int (lvl_value (mul_levels a b)) = int (unat a) * int (unat b)"
    by (simp add: mul_levels_value)
  then show ?thesis
    by (simp add: lvl_value_def)
qed

text \<open>
  C7: MUL and MULHU together give the exact 128-bit product of the unsigned operands: the
  six-level carry chain of MULHU loses nothing.
\<close>

theorem mul_mulhu_product:
  "\<exists>hi lo. MULHU_exec P w c = (setRx (R_rd (buf32 w)) hi c, 4)
    \<and> MUL_exec P w c = (setRx (R_rd (buf32 w)) lo c, 4)
    \<and> uint hi * 2 ^ 64 + uint lo = uint (Rx c (R_rs1 (buf32 w))) * uint (Rx c (R_rs2 (buf32 w)))"
  unfolding MULHU_exec_def MUL_exec_def Let_def mul_levels_low [symmetric]
  by (intro exI conjI) (rule refl, rule refl, rule mul_levels_int)

text \<open>
  C9: MULH writes the upper half of the signed product, except that a negative product
  that is a multiple of \<open>2 ^ 64\<close> comes out one too small (neither operand the least value).
\<close>

theorem mulh_exec_value:
  assumes "Rx c (R_rs1 (buf32 w)) \<noteq> INT64_MIN" and "Rx c (R_rs2 (buf32 w)) \<noteq> INT64_MIN"
    and p: "p = sint (Rx c (R_rs1 (buf32 w))) * sint (Rx c (R_rs2 (buf32 w)))"
  shows "MULH_exec P w c =
    (setRx (R_rd (buf32 w))
      (word_of_int (p div 2 ^ 64 - (if p < 0 \<and> 2 ^ 64 dvd p then 1 else 0))) c, 4)"
  using mulh_value [OF assms(1,2)]
  by (simp add: MULH_exec_def Let_def p high_word_def)

theorem mulh_exec_value_witness:
  "MULH_exec river 0x022091B3 (river_cpu ((\<lambda>_. 0)(1 := - 3, 2 := 5)))
    = (setReg 3 (- 1) (river_cpu ((\<lambda>_. 0)(1 := - 3, 2 := 5))), 4)"
  using mulh_exec_value [where c = "river_cpu ((\<lambda>_. 0)(1 := - 3, 2 := 5))" and w = "0x022091B3" and P = river, OF _ _ refl]
  by (simp add: R_rs1_def R_rs2_def R_rd_def getf_def)

text \<open>
  MULHSU writes the upper half of the product of a signed and an unsigned operand,
  with the same exception.
\<close>

theorem mulhsu_exec_value:
  assumes "Rx c (R_rs1 (buf32 w)) \<noteq> INT64_MIN"
    and p: "p = sint (Rx c (R_rs1 (buf32 w))) * uint (Rx c (R_rs2 (buf32 w)))"
  shows "MULHSU_exec P w c =
    (setRx (R_rd (buf32 w))
      (word_of_int (p div 2 ^ 64 - (if p < 0 \<and> 2 ^ 64 dvd p then 1 else 0))) c, 4)"
  using mulhsu_value [OF assms(1)]
  by (simp add: MULHSU_exec_def Let_def p high_word_def)

theorem mulhsu_exec_value_witness:
  "MULHSU_exec river 0x0220A1B3 (river_cpu ((\<lambda>_. 0)(1 := - 3, 2 := 5)))
    = (setReg 3 (- 1) (river_cpu ((\<lambda>_. 0)(1 := - 3, 2 := 5))), 4)"
  using mulhsu_exec_value [where c = "river_cpu ((\<lambda>_. 0)(1 := - 3, 2 := 5))" and w = "0x0220A1B3" and P = river, OF _ refl]
  by (simp add: R_rs1_def R_rs2_def R_rd_def getf_def)

text \<open>The exception and the excluded operand, on numbers: \<open>- 2 ^ 32 * 2 ^ 32\<close> and \<open>- 2 ^ 63 * 1\<close>.\<close>

lemma mulh_defects:
  "mulh (- 0x100000000) 0x100000000 = - 2 \<and> (- (2 ^ 32) * 2 ^ 32 :: int) div 2 ^ 64 = - 1"
  "mulh INT64_MIN 1 = 0 \<and> (- (2 ^ 63) * 1 :: int) div 2 ^ 64 = - 1"
  by (simp_all add: mulh_def neg_not_min_def Let_def mul_levels_high_int)

subsection \<open>Division\<close>

text \<open>
  C8: DIV, DIVU, REM and REMU give the results of the ISA manual for every pair of
  operands, the zero divisor and the overflowing quotient included.
\<close>

theorem division_isa:
  "let a = Rx c (R_rs1 (buf32 w)); b = Rx c (R_rs2 (buf32 w)); rd = R_rd (buf32 w) in
    DIV_exec P w c = (setRx rd (word_of_int (isa_div (sint a) (sint b))) c, 4)
    \<and> REM_exec P w c = (setRx rd (word_of_int (isa_rem (sint a) (sint b))) c, 4)
    \<and> DIVU_exec P w c = (setRx rd (word_of_int (isa_div (uint a) (uint b))) c, 4)
    \<and> REMU_exec P w c = (setRx rd (word_of_int (isa_rem (uint a) (uint b))) c, 4)"
  unfolding DIV_exec_def REM_exec_def DIVU_exec_def REMU_exec_def Let_def bit1_63
    cdiv_overflow cmod_overflow
  by (simp add: isa_div_def isa_rem_def sint_eq_0 uint_0_iff cdiv_pos cmod_pos flip: udiv_int)

text \<open>
  The word divisions compute on the lower halves of the operands and sign-extend the
  32-bit result, for every operand.
\<close>

theorem word_division_isa:
  "let a = ucast (Rx c (R_rs1 (buf32 w))) :: u32; b = ucast (Rx c (R_rs2 (buf32 w))) :: u32;
       rd = R_rd (buf32 w) in
    DIVW_exec P w c = (setRx rd (scast (word_of_int (isa_div (sint a) (sint b)) :: u32)) c, 4)
    \<and> REMW_exec P w c = (setRx rd (scast (word_of_int (isa_rem (sint a) (sint b)) :: u32)) c, 4)
    \<and> DIVUW_exec P w c = (setRx rd (scast (word_of_int (isa_div (uint a) (uint b)) :: u32)) c, 4)
    \<and> REMUW_exec P w c = (setRx rd (scast (word_of_int (isa_rem (uint a) (uint b)) :: u32)) c, 4)"
  unfolding DIVW_exec_def REMW_exec_def DIVUW_exec_def REMUW_exec_def Let_def bit1_63
    cdiv_overflow cmod_overflow signed_low sint_scast_32
  by (simp add: isa_div_def isa_rem_def sint_eq_0 uint_0_iff cdiv_pos cmod_pos ucast_wi ucast_m1
      scast_cmod flip: udiv_int)

subsection \<open>The 32-bit operations\<close>

lemma ucast_low: "(ucast (x :: u64) :: u32) = word_of_int (uint x)"
  by (rule ucast_eq)

lemma low_word_arith:
  "(ucast (a + b) :: u32) = ucast a + ucast b" "(ucast (a - b) :: u32) = ucast a - ucast b"
  "(ucast (push_bit n a) :: u32) = push_bit n (ucast a)" "(ucast (ucast d :: u64) :: u32) = d"
  for a b :: u64 and d :: u32
proof -
  have len: "LENGTH(64) = 64" by simp
  have m: "(word_of_int (i mod 2 ^ 64) :: u32) = word_of_int i" for i
    by (simp add: word_of_int_eq_iff take_bit_eq_mod mod_mod_cancel)
  show "(ucast (a + b) :: u32) = ucast a + ucast b" "(ucast (a - b) :: u32) = ucast a - ucast b"
    unfolding ucast_low uint_word_ariths wi_homs by (simp_all only: len m)
  show "(ucast (push_bit n a) :: u32) = push_bit n (ucast a)" "(ucast (ucast d :: u64) :: u32) = d"
    by (rule bit_word_eqI; auto simp: bit_simps dest: bit_imp_le_length)+
qed

text \<open>
  Every 32-bit operation computes on the lower halves of its operands, modulo
  \<open>2 ^ 32\<close>, and sign-extends the result; the shifts take five bits of the amount.
\<close>

theorem word_operations:
  "let u = buf32 w; a = ucast (Rx c (R_rs1 u)) :: u32; b = ucast (Rx c (R_rs2 u)) :: u32;
       ai = ucast (Rx c (I_rs1 u)) :: u32; n = unat (Rx c (R_rs2 u) AND 0x1F) in
    ADDW_exec P w c = (setRx (R_rd u) (scast (a + b)) c, 4)
    \<and> SUBW_exec P w c = (setRx (R_rd u) (scast (a - b)) c, 4)
    \<and> MULW_exec P w c = (setRx (R_rd u) (scast (a * b)) c, 4)
    \<and> ADDIW_exec P w c = (setRx (I_rd u) (scast (ai + ucast (I_simm u))) c, 4)
    \<and> SLLW_exec P w c = (setRx (R_rd u) (scast (push_bit n a)) c, 4)
    \<and> SRLW_exec P w c = (setRx (R_rd u) (scast (drop_bit n a)) c, 4)
    \<and> SRAW_exec P w c = (setRx (R_rd u) (scast (signed_drop_bit n a)) c, 4)"
  unfolding exec_defs Let_def sext32_low32
  by (simp add: low_word_arith)

end
