(* ===== verification/LoadStore.thy ===== *)
theory LoadStore
  imports River Isa_Facts
begin

section \<open>Loads, stores and atomics on the memories of the bus\<close>

text \<open>
  The memory instructions of \<open>Isa_I\<close> and \<open>Isa_A\<close> on the interface \<open>memory_bus\<close>, and through
  its interpretation on \<open>BusGeneric\<close> with \<open>MemoryGeneric\<close> devices: what is stored is loaded
  again at every width, stores and atomics write exactly their bytes, LR/SC pairs.
\<close>

subsection \<open>Widths\<close>

lemma payload_load_take: "n \<le> 8 \<Longrightarrow> take_bit (8 * n) (payload_load f n 0) = payload_load f n 0"
proof (rule u64_eq_bytesI)
  fix i :: nat
  assume n: "n \<le> 8" and "i < 8"
  have "byte_of (take_bit (8 * n) w) i = (if i < n then byte_of w i else 0)" for w
    by (rule bit_word_eqI) (auto simp: byte_of_def bit_getf bit_simps)
  moreover have "byte_of (0 :: u64) i = 0"
    by (rule bit_word_eqI) (simp add: byte_of_def bit_getf)
  ultimately show "byte_of (take_bit (8 * n) (payload_load f n 0)) i = byte_of (payload_load f n 0) i"
    using n by (simp add: byte_of_payload_load)
qed

lemma value_of_take: "n \<le> 8 \<Longrightarrow> take_bit (8 * n) (value_of view m a n) = value_of view m a n"
  unfolding value_of_def by (rule payload_load_take)

lemma narrow_casts:
  "sext32 (take_bit 32 v) = scast (ucast v :: u32)" "take_bit 32 v = ucast (ucast v :: u32)"
  "sext16 (ucast (ucast (take_bit 16 (v AND 0xFFFF)) :: u16)) = scast (ucast v :: u16)"
  "ucast (ucast (take_bit 16 (v AND 0xFFFF)) :: u16) = (ucast (ucast v :: u16) :: u64)"
  "sext8 (ucast (ucast (take_bit 8 (v AND 0xFF)) :: u8)) = scast (ucast v :: u8)"
  "ucast (ucast (take_bit 8 (v AND 0xFF)) :: u8) = (ucast (ucast v :: u8) :: u64)"
  for v :: u64
proof -
  have m: "(0xFFFF :: u64) = mask 16" "(0xFF :: u64) = mask 8"
    by (simp_all add: mask_eq_exp_minus_1)
  have low: "(ucast (take_bit 16 (v AND 0xFFFF)) :: u16) = ucast v"
    "(ucast (take_bit 8 (v AND 0xFF)) :: u8) = ucast v"
    unfolding m by (rule bit_word_eqI; auto simp: bit_simps)+
  show "sext32 (take_bit 32 v) = scast (ucast v :: u32)"
    by (rule sext32_low)
  show "take_bit 32 v = ucast (ucast v :: u32)"
    by (rule bit_word_eqI) (auto simp: bit_simps dest: bit_imp_le_length)
  show "sext16 (ucast (ucast (take_bit 16 (v AND 0xFFFF)) :: u16)) = scast (ucast v :: u16)"
    "ucast (ucast (take_bit 16 (v AND 0xFFFF)) :: u16) = (ucast (ucast v :: u16) :: u64)"
    "sext8 (ucast (ucast (take_bit 8 (v AND 0xFF)) :: u8)) = scast (ucast v :: u8)"
    "ucast (ucast (take_bit 8 (v AND 0xFF)) :: u8) = (ucast (ucast v :: u8) :: u64)"
    unfolding low by (simp_all add: sext16_ucast sext8_ucast)
qed

subsection \<open>Store and load\<close>

text \<open>The effect of a store to RAM, as a change of the bus state only.\<close>

context memory_bus
begin

lemma store_load_ram:
  assumes P: "b_transport P = bt" and c: "bare_access P c" and sz: "sz \<le> sysBusWidthBytes P" "unat sz \<le> 8"
    and ram: "ram a (unat sz)" and al: "a AND amask = 0"
  shows "\<exists>m. store_access P a sz amask v c = c\<lparr>isysbus := m\<rparr>
    \<and> (\<forall>init. load_access P a sz amask init (c\<lparr>isysbus := m\<rparr>) = (take_bit (8 * unat sz) v, c\<lparr>isysbus := m\<rparr>))
    \<and> (\<forall>x. view m x = (if unat (x - a) < unat sz then byte_of v (unat (x - a)) else view (isysbus c) x))"
proof -
  obtain m where m: "store_access P a sz amask v c = c\<lparr>isysbus := m\<rparr>"
    "\<forall>x. view m x = (if unat (x - a) < unat sz then byte_of v (unat (x - a)) else view (isysbus c) x)"
    using store_access_ram [OF P c sz(1) ram al] by blast
  have c': "bare_access P (c\<lparr>isysbus := m\<rparr>)" using c by (simp add: bare_access_def)
  have "load_access P a sz amask init (c\<lparr>isysbus := m\<rparr>) = (take_bit (8 * unat sz) v, c\<lparr>isysbus := m\<rparr>)" for init
    using load_access_ram [OF P c' sz(1) ram al, of init] value_of_written [OF sz(2) m(2)] by simp
  with m show ?thesis by blast
qed

end

lemma setRx_read: "i \<noteq> 0 \<Longrightarrow> Rx (setRx i v c) i = v"
  by (simp add: setReg_def unat_eq_zero)

lemma bus_update_regs: "Rx (c\<lparr>isysbus := m\<rparr>) i = Rx c i"
  by simp

text \<open>
  A doubleword stored by SD is loaded again by LD: into any register but x0, from
  whatever base register and offset give the same address.
\<close>

theorem sd_ld_roundtrip:
  assumes "b_transport P = soc_b_transport w Ks" and "bare_access P c" and "8 \<le> sysBusWidthBytes P"
    and "soc_ram w Ks a 8" and "a AND 7 = 0"
    and st: "Rx c (S_rs1 (buf32 ws)) + S_simm (buf32 ws) = a"
    and ld: "Rx c (I_rs1 (buf32 wl)) + I_simm (buf32 wl) = a" and "I_rd (buf32 wl) \<noteq> 0"
  shows "Rx (fst (LD_exec P wl (fst (SD_exec P ws c)))) (I_rd (buf32 wl)) = Rx c (S_rs2 (buf32 ws))"
proof -
  obtain m where "store_access P a 8 7 (Rx c (S_rs2 (buf32 ws))) c = c\<lparr>isysbus := m\<rparr>"
    "\<And>init. load_access P a 8 7 init (c\<lparr>isysbus := m\<rparr>) = (Rx c (S_rs2 (buf32 ws)), c\<lparr>isysbus := m\<rparr>)"
    using soc.store_load_ram [OF assms(1-3), of a 7 "Rx c (S_rs2 (buf32 ws))"] assms(4,5)
    by (auto simp: take_bit_word_eq_self)
  then show ?thesis
    using assms(8) by (simp add: SD_exec_def LD_exec_def Let_def st ld setRx_read)
qed

theorem sd_ld_roundtrip_witness:
  "Rx (fst (LD_exec river 0x0000B183 (fst (SD_exec river 0x0020B023
      (river_cpu ((\<lambda>_. 0)(1 := 0x08000100, 2 := 0x1122334455667788))))))) 3 = 0x1122334455667788"
proof -
  let ?c = "river_cpu ((\<lambda>_. 0)(1 := 0x08000100, 2 := 0x1122334455667788))"
  have "soc_ram 39 river_mems 0x08000100 8" by (rule river_ram)
  then show ?thesis
    using sd_ld_roundtrip [where P = river and w = "39" and Ks = river_mems and c = "?c" and a = "0x08000100"
        and ws = "0x0020B023" and wl = "0x0000B183"]
    by (simp add: S_rs1_def S_rs2_def S_simm_def S_imm11_5_def S_imm4_0_def I_rs1_def I_rd_def I_simm_def
        I_imm_def sext12_def getf_def)
qed

text \<open>
  C12: SW, SH and SB store the low bytes of the register; LW, LH and LB bring them back
  sign-extended, LWU, LHU and LBU zero-extended.
\<close>

theorem narrow_store_load:
  assumes P: "b_transport P = soc_b_transport w Ks" "bare_access P c" "4 \<le> sysBusWidthBytes P"
    and ram: "soc_ram w Ks a 4" "soc_ram w Ks a 2" "soc_ram w Ks a 1" and al: "a AND 3 = 0" "a AND 1 = 0"
    and st: "Rx c (S_rs1 (buf32 ws)) + S_simm (buf32 ws) = a"
    and ld: "Rx c (I_rs1 (buf32 wl)) + I_simm (buf32 wl) = a" and rd: "I_rd (buf32 wl) \<noteq> 0"
  shows "let v = Rx c (S_rs2 (buf32 ws)); rd = I_rd (buf32 wl);
      cw = fst (SW_exec P ws c); ch = fst (SH_exec P ws c); cb = fst (SB_exec P ws c) in
    Rx (fst (LW_exec P wl cw)) rd = scast (ucast v :: u32) \<and> Rx (fst (LWU_exec P wl cw)) rd = ucast (ucast v :: u32)
    \<and> Rx (fst (LH_exec P wl ch)) rd = scast (ucast v :: u16) \<and> Rx (fst (LHU_exec P wl ch)) rd = ucast (ucast v :: u16)
    \<and> Rx (fst (LB_exec P wl cb)) rd = scast (ucast v :: u8) \<and> Rx (fst (LBU_exec P wl cb)) rd = ucast (ucast v :: u8)"
proof -
  let ?v = "Rx c (S_rs2 (buf32 ws))"
  have bus: "2 \<le> sysBusWidthBytes P" "1 \<le> sysBusWidthBytes P"
    using P(3) by (simp_all add: word_le_nat_alt)
  note store = soc.store_load_ram [OF P(1,2)]
  obtain mw where w: "store_access P a 4 3 ?v c = c\<lparr>isysbus := mw\<rparr>"
    "\<And>init. load_access P a 4 3 init (c\<lparr>isysbus := mw\<rparr>) = (take_bit 32 ?v, c\<lparr>isysbus := mw\<rparr>)"
    using store [OF P(3), of a 3 ?v] ram(1) al(1) by auto
  obtain mh where h: "store_access P a 2 1 (?v AND 0xFFFF) c = c\<lparr>isysbus := mh\<rparr>"
    "\<And>init. load_access P a 2 1 init (c\<lparr>isysbus := mh\<rparr>) = (take_bit 16 (?v AND 0xFFFF), c\<lparr>isysbus := mh\<rparr>)"
    using store [OF bus(1), of a 1 "?v AND 0xFFFF"] ram(2) al(2) by auto
  obtain mb where b: "store_access P a 1 0 (?v AND 0xFF) c = c\<lparr>isysbus := mb\<rparr>"
    "\<And>init. load_access P a 1 0 init (c\<lparr>isysbus := mb\<rparr>) = (take_bit 8 (?v AND 0xFF), c\<lparr>isysbus := mb\<rparr>)"
    using store [OF bus(2), of a 0 "?v AND 0xFF"] ram(3) by auto
  show ?thesis
    unfolding Let_def SW_exec_def SH_exec_def SB_exec_def LW_exec_def LWU_exec_def LH_exec_def LHU_exec_def
      LB_exec_def LBU_exec_def st w(1) h(1) b(1) fst_conv bus_update_regs ld w(2) h(2) b(2) prod.case
      setRx_read [OF rd]
    using narrow_casts [of ?v] by simp
qed

theorem narrow_store_load_witness:
  "let c = river_cpu ((\<lambda>_. 0)(1 := 0x08000100, 2 := 0x11223344F5667788)) in
    Rx (fst (LW_exec river 0x0000A183 (fst (SW_exec river 0x0020A023 c)))) 3 = 0xFFFFFFFFF5667788"
proof -
  let ?c = "river_cpu ((\<lambda>_. 0)(1 := 0x08000100, 2 := 0x11223344F5667788))"
  show ?thesis
    using narrow_store_load [where P = river and w = "39" and Ks = river_mems and c = "?c" and a = "0x08000100"
        and ws = "0x0020A023" and wl = "0x0000A183"] river_ram
    by (simp add: S_rs1_def S_rs2_def S_simm_def S_imm11_5_def S_imm4_0_def I_rs1_def I_rd_def I_simm_def
        I_imm_def sext12_def getf_def Let_def)
qed

text \<open>The stores with their widths.\<close>

definition store_table :: "(u32 \<times> 'm exec) list" where
  "store_table = [(8, SD_exec), (4, SW_exec), (2, SH_exec), (1, SB_exec)]"

lemma byte_of_low:
  "i < 2 \<Longrightarrow> byte_of (v AND 0xFFFF) i = byte_of v i" "byte_of (v AND 0xFF) 0 = byte_of v 0"
proof -
  have m: "(0xFFFF :: u64) = mask 16" "(0xFF :: u64) = mask 8"
    by (simp_all add: mask_eq_exp_minus_1)
  show "i < 2 \<Longrightarrow> byte_of (v AND 0xFFFF) i = byte_of v i" "byte_of (v AND 0xFF) 0 = byte_of v 0"
    unfolding m by (rule bit_word_eqI; auto simp: byte_of_def bit_getf bit_simps)+
qed

text \<open>Each of them is a store access whose value has the bytes of the register.\<close>

lemma store_table_exec:
  assumes "(sz, ex) \<in> set store_table"
  shows "unat sz \<in> {1, 2, 4, 8} \<and> (\<forall>P p c. \<exists>v. (\<forall>i<unat sz. byte_of v i = byte_of (Rx c (S_rs2 (buf32 p))) i)
    \<and> ex P p c = (store_access P (Rx c (S_rs1 (buf32 p)) + S_simm (buf32 p)) sz (ucast (sz - 1)) v c, 4))"
proof -
  have "\<exists>v. (\<forall>i<unat sz. byte_of v i = byte_of (Rx c (S_rs2 (buf32 p))) i)
      \<and> ex P p c = (store_access P (Rx c (S_rs1 (buf32 p)) + S_simm (buf32 p)) sz (ucast (sz - 1)) v c, 4)" for P p c
  proof -
    let ?v = "Rx c (S_rs2 (buf32 p))"
    consider "sz = 8" "ex = SD_exec" | "sz = 4" "ex = SW_exec" | "sz = 2" "ex = SH_exec" | "sz = 1" "ex = SB_exec"
      using assms unfolding store_table_def by auto
    then show ?thesis
    proof cases
      case 1
      then show ?thesis by (intro exI [of _ ?v]) (simp add: SD_exec_def Let_def)
    next
      case 2
      then show ?thesis by (intro exI [of _ ?v]) (simp add: SW_exec_def Let_def)
    next
      case 3
      then show ?thesis by (intro exI [of _ "?v AND 0xFFFF"]) (simp add: SH_exec_def Let_def byte_of_low)
    next
      case 4
      then show ?thesis by (intro exI [of _ "?v AND 0xFF"]) (simp add: SB_exec_def Let_def byte_of_low)
    qed
  qed
  moreover have "unat sz \<in> {1, 2, 4, 8}" using assms unfolding store_table_def by auto
  ultimately show ?thesis by blast
qed

text \<open>
  C13: Each of the stores SD, SW, SH and SB to RAM writes the low bytes of its register to its own
  8, 4, 2 or 1 addresses, and changes no other byte of the memory and nothing else of the CPU.
\<close>

theorem store_writes_its_bytes:
  assumes "(sz, ex) \<in> set store_table"
    and P: "b_transport P = soc_b_transport w Ks" "bare_access P c" "sz \<le> sysBusWidthBytes P"
    and ram: "soc_ram w Ks a (unat sz)" and al: "a AND ucast (sz - 1) = 0"
    and st: "Rx c (S_rs1 (buf32 ws)) + S_simm (buf32 ws) = a"
  shows "\<exists>m. ex P ws c = (c\<lparr>isysbus := m\<rparr>, 4)
    \<and> (\<forall>x. soc_view w Ks m x =
          (if unat (x - a) < unat sz then byte_of (Rx c (S_rs2 (buf32 ws))) (unat (x - a))
           else soc_view w Ks (isysbus c) x))"
proof -
  obtain v where v: "\<forall>i<unat sz. byte_of v i = byte_of (Rx c (S_rs2 (buf32 ws))) i"
    "ex P ws c = (store_access P a sz (ucast (sz - 1)) v c, 4)"
    using store_table_exec [OF assms(1)] unfolding st [symmetric] by blast
  obtain m where "store_access P a sz (ucast (sz - 1)) v c = c\<lparr>isysbus := m\<rparr>"
    "\<forall>x. soc_view w Ks m x = (if unat (x - a) < unat sz then byte_of v (unat (x - a)) else soc_view w Ks (isysbus c) x)"
    using soc.store_access_ram [OF P ram al] by blast
  with v show ?thesis by auto
qed

theorem store_writes_its_bytes_witness:
  "\<exists>m. SH_exec river 0x00209023 (river_cpu ((\<lambda>_. 0)(1 := 0x08000100, 2 := 0xABCDEF)))
      = ((river_cpu ((\<lambda>_. 0)(1 := 0x08000100, 2 := 0xABCDEF)))\<lparr>isysbus := m\<rparr>, 4)
    \<and> soc_view 39 river_mems m 0x08000101 = byte_of 0xABCDEF 1
    \<and> soc_view 39 river_mems m 0x08000102
      = soc_view 39 river_mems (isysbus (river_cpu ((\<lambda>_. 0)(1 := 0x08000100, 2 := 0xABCDEF)))) 0x08000102"
proof -
  let ?c = "river_cpu ((\<lambda>_. 0)(1 := 0x08000100, 2 := 0xABCDEF))"
  have "(2, SH_exec) \<in> set store_table"
    by (simp add: store_table_def)
  moreover have st: "Rx ?c (S_rs1 (buf32 0x00209023)) + S_simm (buf32 0x00209023) = 0x08000100"
    "Rx ?c (S_rs2 (buf32 0x00209023)) = 0xABCDEF"
    by (simp_all add: S_rs1_def S_rs2_def S_simm_def S_imm11_5_def S_imm4_0_def sext12_def getf_def)
  moreover have "soc_ram 39 river_mems 0x08000100 (unat (2 :: u32))" using river_ram by simp
  ultimately obtain m where "SH_exec river 0x00209023 ?c = (?c\<lparr>isysbus := m\<rparr>, 4)"
    "\<forall>x. soc_view 39 river_mems m x = (if unat (x - 0x08000100) < unat (2 :: u32) then byte_of 0xABCDEF (unat (x - 0x08000100))
       else soc_view 39 river_mems (isysbus ?c) x)"
    using store_writes_its_bytes [where sz = "2" and ex = SH_exec and P = river and w = "39" and Ks = river_mems
        and c = "?c" and a = "0x08000100" and ws = "0x00209023"] by (simp only: st(2)) auto
  then show ?thesis by fastforce
qed

subsection \<open>Atomics\<close>

definition amo_old :: "u32 \<Rightarrow> u64 \<Rightarrow> u64" where
  "amo_old sz v = (if sz = 4 then scast (ucast v :: u32) else v)"

lemma amo_sext: "(let t = ucast (ucast v :: u32) :: u64 in if t AND 0x80000000 \<noteq> 0 then t OR EXT_SIGN_32 else t)
    = scast (ucast v :: u32)"
proof -
  have "bit1 31 = 0x80000000" by (simp add: bit1_def)
  then show ?thesis
    using sext32_ucast [of "ucast v"] by (simp add: sext32_def Let_def)
qed

lemma amo_exec_steps:
  assumes al: "Rx c (R_rs1 (buf32 w)) AND ucast (sz - 1) = 0"
    and rd: "dma_memop P (new_trans P MemAction_Read (Rx c (R_rs1 (buf32 w))) sz) False c = (TRANS_OK, r, c1)"
    and t: "amo_old sz (rpayload r) = t"
    and wr: "dma_memop P (r\<lparr>action := MemAction_Write, wstrb := full_wstrb (xsize r),
        wpayload := f (Rx c1 (R_rs2 (buf32 w))) t\<rparr>) False c1 = (TRANS_OK, r', c2)"
  shows "amo_exec sz f P w c = (setRx (R_rd (buf32 w)) t c2, 4)"
proof -
  have "(if sz = 4 then let t = ucast (ucast (rpayload r) :: u32) :: u64
          in if t AND 0x80000000 \<noteq> 0 then t OR EXT_SIGN_32 else t else rpayload r) = t"
    using t unfolding amo_sext amo_old_def .
  moreover have "addr (new_trans P MemAction_Read (Rx c (R_rs1 (buf32 w))) sz) = Rx c (R_rs1 (buf32 w))"
    by (simp add: new_trans_def)
  ultimately show ?thesis
    unfolding amo_exec_def using al rd wr
    by (simp only: Let_def prod.case if_False if_True simp_thms ETransStatus.distinct)
qed

context memory_bus
begin

lemma amo_ram:
  assumes P: "b_transport P = bt" and c: "bare_access P c" and sz: "sz \<le> sysBusWidthBytes P" "unat sz \<le> 8"
    and a: "Rx c (R_rs1 (buf32 w)) = a" and ram: "ram a (unat sz)" and al: "a AND ucast (sz - 1) = 0"
    and t: "t = amo_old sz (value_of view (isysbus c) a (unat sz))"
  shows "\<exists>m. amo_exec sz f P w c = (setRx (R_rd (buf32 w)) t (c\<lparr>isysbus := m\<rparr>), 4)
    \<and> value_of view m a (unat sz) = take_bit (8 * unat sz) (f (Rx c (R_rs2 (buf32 w))) t)
    \<and> (\<forall>x. unat sz \<le> unat (x - a) \<longrightarrow> view m x = view (isysbus c) x)"
proof -
  let ?r = "new_trans P MemAction_Read a sz\<lparr>source_idx := sysBusMasterID P, response := MemResp_Valid,
           rpayload := value_of view (isysbus c) a (unat sz)\<rparr>"
  have "bt (new_trans P MemAction_Read a sz\<lparr>source_idx := sysBusMasterID P\<rparr>) (isysbus c) = (TRANS_OK, ?r, isysbus c)"
    using ram by (subst read_law) (simp_all add: new_trans_def value_of_def)
  then have rd: "dma_memop P (new_trans P MemAction_Read a sz) False c = (TRANS_OK, ?r, c)"
    using sz by (simp add: dma_memop_bare [OF c] P new_trans_def)
  let ?v = "f (Rx c (R_rs2 (buf32 w))) t"
  let ?w = "?r\<lparr>action := MemAction_Write, wstrb := full_wstrb sz, wpayload := ?v\<rparr>"
  have wt: "addr ?w = a" "action ?w = MemAction_Write" "xsize ?w = sz" "wstrb ?w = full_wstrb sz"
    "wpayload ?w = ?v" "?w\<lparr>source_idx := sysBusMasterID P\<rparr> = ?w"
    by (simp_all add: new_trans_def)
  obtain t' m where bt: "bt ?w (isysbus c) = (TRANS_OK, t', m)"
    using write_status [of ?w "isysbus c"] ram wt by (metis prod.collapse)
  have v: "view m x = (if unat (x - a) < unat sz then byte_of ?v (unat (x - a)) else view (isysbus c) x)" for x
    using write_view [of ?w "isysbus c" x] ram wt bt by simp
  have wr: "dma_memop P ?w False c = (TRANS_OK, t', c\<lparr>isysbus := m\<rparr>)"
    using sz bt by (simp add: dma_memop_bare [OF c] P wt)
  have "amo_exec sz f P w c = (setRx (R_rd (buf32 w)) t (c\<lparr>isysbus := m\<rparr>), 4)"
  proof (rule amo_exec_steps [where r = "?r" and c = c and ?c1.0 = c])
    show "amo_old sz (rpayload ?r) = t" by (simp add: t)
    show "dma_memop P (?r\<lparr>action := MemAction_Write, wstrb := full_wstrb (xsize ?r),
        wpayload := ?v\<rparr>) False c = (TRANS_OK, t', c\<lparr>isysbus := m\<rparr>)"
      using wr by (simp add: new_trans_def)
  qed (use al rd a in simp_all)
  moreover have "value_of view m a (unat sz) = take_bit (8 * unat sz) ?v"
    using value_of_written [OF sz(2)] v by blast
  ultimately show ?thesis using v by auto
qed

lemma dma_write_ram:
  assumes P: "b_transport P = bt" and c: "bare_access P c" and sz: "sz \<le> sysBusWidthBytes P"
    and ram: "ram a (unat sz)" "unat sz \<le> 8"
  shows "\<exists>t' m. dma_memop P (new_trans P MemAction_Write a sz\<lparr>wpayload := v\<rparr>) x c = (TRANS_OK, t', c\<lparr>isysbus := m\<rparr>)
    \<and> value_of view m a (unat sz) = take_bit (8 * unat sz) v"
proof -
  let ?t = "new_trans P MemAction_Write a sz\<lparr>wpayload := v, source_idx := sysBusMasterID P\<rparr>"
  have t: "addr ?t = a" "action ?t = MemAction_Write" "xsize ?t = sz" "wstrb ?t = full_wstrb sz"
    "wpayload ?t = v"
    by (simp_all add: new_trans_def)
  obtain t' m where bt: "bt ?t (isysbus c) = (TRANS_OK, t', m)"
    using write_status [of ?t "isysbus c"] ram t by (metis prod.collapse)
  have "value_of view m a (unat sz) = take_bit (8 * unat sz) v"
    using value_of_written [OF ram(2), of m a v "isysbus c"] write_view [of ?t "isysbus c"] ram t bt by simp
  then show ?thesis
    using sz bt by (auto simp: dma_memop_bare [OF c] P new_trans_def)
qed

end

definition amo_table :: "(u32 \<times> 'm exec \<times> (u64 \<Rightarrow> u64 \<Rightarrow> u64)) list" where
  "amo_table =
     [(4, AMOADD_W_exec, (+)), (4, AMOXOR_W_exec, (XOR)), (4, AMOOR_W_exec, (OR)), (4, AMOAND_W_exec, (AND)),
      (4, AMOMIN_W_exec, \<lambda>a b. if a <s b then a else b), (4, AMOMAX_W_exec, \<lambda>a b. if b <s a then a else b),
      (4, AMOMINU_W_exec, min), (4, AMOMAXU_W_exec, max), (4, AMOSWAP_W_exec, \<lambda>a b. a),
      (8, AMOADD_D_exec, (+)), (8, AMOXOR_D_exec, (XOR)), (8, AMOOR_D_exec, (OR)), (8, AMOAND_D_exec, (AND)),
      (8, AMOMIN_D_exec, \<lambda>a b. if a <s b then a else b), (8, AMOMAX_D_exec, \<lambda>a b. if b <s a then a else b),
      (8, AMOMINU_D_exec, min), (8, AMOMAXU_D_exec, max), (8, AMOSWAP_D_exec, \<lambda>a b. a)]"

lemma amo_ops:
  "amo_min = (\<lambda>a b. if a <s b then a else b)" "amo_max = (\<lambda>a b. if b <s a then a else b)"
  "amo_minu = min" "amo_maxu = max" "amo_swap = (\<lambda>a b. a)"
  by (auto simp: amo_min_def amo_max_def amo_minu_def amo_maxu_def amo_swap_def min_def max_def fun_eq_iff)

lemma amo_table_exec: "(sz, ex, f) \<in> set amo_table \<Longrightarrow> ex = amo_exec sz f \<and> (sz = 4 \<or> sz = 8)"
  unfolding amo_table_def amo_ops [symmetric] AMOADD_W_exec_def AMOXOR_W_exec_def AMOOR_W_exec_def AMOAND_W_exec_def
    AMOMIN_W_exec_def AMOMAX_W_exec_def AMOMINU_W_exec_def AMOMAXU_W_exec_def AMOSWAP_W_exec_def AMOADD_D_exec_def
    AMOXOR_D_exec_def AMOOR_D_exec_def AMOAND_D_exec_def AMOMIN_D_exec_def AMOMAX_D_exec_def AMOMINU_D_exec_def
    AMOMAXU_D_exec_def AMOSWAP_D_exec_def
  by auto

text \<open>
  C14: Each of the 18 AMO instructions returns the old value of memory (sign-extended for the
  word forms) in \<open>rd\<close> and leaves in memory, at its width, the operation of \<open>rs2\<close> and that
  value; no other byte changes.  (The word forms of min and max compare the whole of
  \<open>rs2\<close>.)
\<close>

theorem amo_semantics:
  assumes "(sz, ex, f) \<in> set amo_table"
    and P: "b_transport P = soc_b_transport w Ks" "bare_access P c" "8 \<le> sysBusWidthBytes P"
    and ram: "soc_ram w Ks (Rx c (R_rs1 (buf32 p))) (unat sz)" and al: "Rx c (R_rs1 (buf32 p)) AND ucast (sz - 1) = 0"
  shows "let a = Rx c (R_rs1 (buf32 p)); b = Rx c (R_rs2 (buf32 p));
      t = amo_old sz (value_of (soc_view w Ks) (isysbus c) a (unat sz)) in
    \<exists>m. ex P p c = (setRx (R_rd (buf32 p)) t (c\<lparr>isysbus := m\<rparr>), 4)
      \<and> value_of (soc_view w Ks) m a (unat sz) = take_bit (8 * unat sz) (f b t)
      \<and> (\<forall>x. unat sz \<le> unat (x - a) \<longrightarrow> soc_view w Ks m x = soc_view w Ks (isysbus c) x)"
proof -
  note ex = amo_table_exec [OF assms(1)]
  then have sz: "sz \<le> sysBusWidthBytes P" "unat sz \<le> 8"
    using P(3) by (auto simp: word_le_nat_alt)
  show ?thesis
    unfolding Let_def conjunct1 [OF ex] by (rule soc.amo_ram [OF P(1,2) sz refl ram al refl])
qed

theorem amo_semantics_witness:
  "let c = river_cpu ((\<lambda>_. 0)(1 := 0x08000100, 2 := 5));
      t = amo_old 4 (value_of (soc_view 39 river_mems) (isysbus c) 0x08000100 4) in
    \<exists>m. AMOADD_W_exec river 0x0020A1AF c = (setReg 3 t (c\<lparr>isysbus := m\<rparr>), 4)
      \<and> value_of (soc_view 39 river_mems) m 0x08000100 4 = take_bit 32 (5 + t)"
proof -
  let ?c = "river_cpu ((\<lambda>_. 0)(1 := 0x08000100, 2 := 5))"
  have "(4, AMOADD_W_exec, (+)) \<in> set amo_table"
    by (simp add: amo_table_def)
  then show ?thesis
    using amo_semantics [where sz = "4" and ex = AMOADD_W_exec and f = "(+)" and P = river and w = "39"
        and Ks = river_mems and c = "?c" and p = "0x0020A1AF"] river_ram
    by (fastforce simp: R_rs1_def R_rs2_def R_rd_def getf_def Let_def)
qed

subsection \<open>Load-reserved and store-conditional\<close>

lemma mmuAddrRelease_fails:
  "mmuReservedAddrWatchdog c = 0 \<or> mmuReservatedAddr c \<noteq> a \<Longrightarrow> mmuAddrRelease a c = (False, c)"
  by (auto simp: mmuAddrRelease_def)

text \<open>
  A store-conditional without a live reservation of its address (none was made, its 64
  instructions are over, it was used up, or it is for another address) fails: \<open>rd\<close> gets 1
  and neither the memory nor anything else changes.
\<close>

theorem sc_without_reservation:
  assumes "mmuReservedAddrWatchdog c = 0 \<or> mmuReservatedAddr c \<noteq> Rx c (R_rs1 (buf32 p))"
  shows "SC_W_exec P p c = (setRx (R_rd (buf32 p)) 1 c, 4) \<and> SC_D_exec P p c = (setRx (R_rd (buf32 p)) 1 c, 4)"
  by (simp add: SC_W_exec_def SC_D_exec_def sc_exec_def mmuAddrRelease_fails [OF assms])

theorem sc_without_reservation_witness:
  "SC_W_exec river 0x1820A1AF (river_cpu (\<lambda>_. 9)) = (setReg 3 1 (river_cpu (\<lambda>_. 9)), 4)"
  using sc_without_reservation [where c = "river_cpu (\<lambda>_. 9)" and P = river and p = "0x1820A1AF"]
  by (simp add: R_rd_def getf_def)

text \<open>
  LR/SC.  After LR.W from an address, an SC.W to the same address succeeds (\<open>rd\<close> gets 0),
  leaves the word of its second operand in memory, and consumes the reservation, so that
  a second SC fails.
\<close>

theorem lr_sc_pair:
  assumes P: "b_transport P = soc_b_transport w Ks" "bare_access P c" "8 \<le> sysBusWidthBytes P"
    and a: "Rx c (R_rs1 (buf32 pl)) = a" and ram: "soc_ram w Ks a 4" and al: "a AND 3 = 0"
    and c1: "c1 = fst (LR_W_exec P pl c)" and a1: "Rx c1 (R_rs1 (buf32 ps)) = a"
  shows "\<exists>m. SC_W_exec P ps c1 = (setRx (R_rd (buf32 ps)) 0 (c1\<lparr>mmuReservedAddrWatchdog := 0, isysbus := m\<rparr>), 4)
    \<and> value_of (soc_view w Ks) m a 4 = take_bit 32 (Rx c1 (R_rs2 (buf32 ps)))"
proof -
  let ?r = "new_trans P MemAction_Read a 4\<lparr>source_idx := sysBusMasterID P, response := MemResp_Valid,
           rpayload := value_of (soc_view w Ks) (isysbus c) a 4\<rparr>"
  have "soc_b_transport w Ks (new_trans P MemAction_Read a 4\<lparr>source_idx := sysBusMasterID P\<rparr>) (isysbus c)
      = (TRANS_OK, ?r, isysbus c)"
    using ram by (subst soc.read_law) (simp_all add: new_trans_def value_of_def)
  moreover have w4: "4 \<le> sysBusWidthBytes P" using P(3) by (simp add: word_le_nat_alt)
  ultimately have "dma_memop P (new_trans P MemAction_Read a 4) False c = (TRANS_OK, ?r, c)"
    by (simp add: dma_memop_bare [OF P(2)] P(1) new_trans_def)
  then obtain t where t: "c1 = setRx (R_rd (buf32 pl)) t (mmuAddrReserve a c)"
    using c1 al a by (simp add: LR_W_exec_def Let_def new_trans_def)
  have rel: "mmuAddrRelease a c1 = (True, c1\<lparr>mmuReservedAddrWatchdog := 0\<rparr>)"
    by (simp add: t mmuAddrRelease_def mmuAddrReserve_def setReg_def)
  have "bare_access P (c1\<lparr>mmuReservedAddrWatchdog := 0\<rparr>)"
    using P(2) by (simp add: t mmuAddrReserve_def setReg_def bare_access_def)
  from soc.dma_write_ram [OF P(1) this w4, of a] ram obtain t' m where
    "dma_memop P (new_trans P MemAction_Write a 4\<lparr>wpayload := Rx c1 (R_rs2 (buf32 ps))\<rparr>) False
        (c1\<lparr>mmuReservedAddrWatchdog := 0\<rparr>) = (TRANS_OK, t', c1\<lparr>mmuReservedAddrWatchdog := 0, isysbus := m\<rparr>)"
    "value_of (soc_view w Ks) m a 4 = take_bit 32 (Rx c1 (R_rs2 (buf32 ps)))"
    by fastforce
  then show ?thesis
    using al by (auto simp: SC_W_exec_def sc_exec_def a1 rel Let_def new_trans_def)
qed

theorem lr_sc_pair_witness:
  "let c = river_cpu ((\<lambda>_. 0)(1 := 0x08000100, 2 := 5)); c1 = fst (LR_W_exec river 0x1000A22F c) in
    \<exists>m. SC_W_exec river 0x1820A1AF c1 = (setReg 3 0 (c1\<lparr>mmuReservedAddrWatchdog := 0, isysbus := m\<rparr>), 4)"
proof -
  let ?c = "river_cpu ((\<lambda>_. 0)(1 := 0x08000100, 2 := 5))"
  let ?c1 = "fst (LR_W_exec river 0x1000A22F ?c)"
  have "R ?c1 1 = 0x08000100"
    by (simp add: LR_W_exec_def Let_def case_prod_beta R_rd_def R_rs1_def getf_def setReg_def
        mmuAddrReserve_def frame_simps generateException_alt)
  then show ?thesis
    using lr_sc_pair [where P = river and w = "39" and Ks = river_mems and c = "?c" and pl = "0x1000A22F"
        and ps = "0x1820A1AF" and a = "0x08000100" and ?c1.0 = "?c1"] river_ram
    by (fastforce simp: R_rs1_def R_rs2_def R_rd_def getf_def Let_def)
qed

end
