(* ===== verification/Fetch.thy ===== *)
theory Fetch
  imports LoadStore Debug
begin

section \<open>Fetching and executing an instruction from memory\<close>

text \<open>
  \<open>fetchILine\<close> and a whole \<open>updatePipeline\<close> of cpu_generic.cpp over the memories of the bus:
  the instruction that is executed is the one whose encoding is in memory at the next
  program counter; a fetch that faults goes to the trap vector, once or for ever.
\<close>

subsection \<open>A fetch that succeeds\<close>

context read_bus
begin

lemma fetchILine_ram:
  assumes P: "b_transport P = bt" and c: "bare_access P c" and sz: "4 \<le> sysBusWidthBytes P"
    and ram: "ram (getPC c) 4" and st: "estate c \<noteq> CORE_ProgbufExec"
  shows "\<exists>tr. fetchILine (Suc n) P c =
    Some (c\<lparr>fetch_addr := getPC c, fetch_trans := tr, cacheline := value_of view (isysbus c) (getPC c) 4\<rparr>)"
proof -
  let ?c = "c\<lparr>fetch_addr := getPC c\<rparr>"
  let ?tr = "(fetch_trans ?c)\<lparr>action := MemAction_Read, addr := fetch_addr ?c, xsize := 4, wstrb := 0\<rparr>"
  have "bare_access P ?c" using c by (simp add: bare_access_def)
  from dma_read_ram [OF P this, of ?tr True] sz ram
  have "fetch_word P ?c = (TRANS_OK, ?c\<lparr>fetch_trans := ?tr\<lparr>source_idx := sysBusMasterID P,
      response := MemResp_Valid, rpayload := value_of view (isysbus c) (getPC c) 4\<rparr>,
      cacheline := value_of view (isysbus c) (getPC c) 4\<rparr>)"
    by (simp add: fetch_word_def Let_def)
  then show ?thesis
    using st by (auto simp: Let_def)
qed

end

text \<open>Nothing keeps the CPU from executing the next instruction.\<close>

definition ready :: "'m platform \<Rightarrow> 'm cpu \<Rightarrow> bool" where
  "ready P c \<longleftrightarrow> estate c = CORE_Normal \<and> \<not> haltreq c \<and> no_triggers P c
     \<and> dcsr_step (portCSR c CSR_dcsr) = 0 \<and> bare_access P c \<and> 4 \<le> sysBusWidthBytes P"

lemma updateState_ready: "ready P c \<Longrightarrow> updateState P c = (True, c\<lparr>step_cnt := step_cnt c + 1\<rparr>)"
  by (simp add: ready_def updateState_def isTriggerICount_none isStepEnabled_alt)

lemma pc_updates:
  "getNPC (c\<lparr>step_cnt := k\<rparr>) = getNPC c" "getPC (c\<lparr>oplen := l, do_not_cache := b\<rparr>) = getPC c"
  by (simp_all add: getNPC_def getPC_def)

context read_bus
begin

text \<open>One cycle from any memory behind the interface.\<close>

lemma cycle_ram:
  assumes "distinct exts" and c: "ready P c" and P: "b_transport P = bt"
    and mem: "ram (getNPC c) 4"
    and line: "line = value_of view (isysbus c) (getNPC c) 4"
    and i: "i \<in> set (supported exts)" "parse i (buf32 line)"
  shows "\<exists>tr. updatePipeline (Suc n) (listInstr exts) P c =
    (let c0 = (setPC (getNPC c) c)\<lparr>step_cnt := step_cnt c + 1, branch := False, oplen := 0,
           fetch_addr := getNPC c, fetch_trans := tr, cacheline := line,
           mmuReservedAddrWatchdog := mmuReservedAddrWatchdog c - 1\<rparr>;
         (c1, len) = iexec i P line c0
     in Some (finishCycle P (c1\<lparr>oplen := len, do_not_cache := False, pc_z := getPC c1\<rparr>)))"
proof -
  let ?c = "(setPC (getNPC c) (c\<lparr>step_cnt := step_cnt c + 1\<rparr>))\<lparr>branch := False, oplen := 0\<rparr>"
  have pc: "getPC ?c = getNPC c" by (simp add: getPC_def setPC_def)
  have "no_triggers P ?c" "bare_access P ?c" "4 \<le> sysBusWidthBytes P" "estate ?c \<noteq> CORE_ProgbufExec"
    using c by (simp_all add: ready_def no_triggers_def bare_access_def setPC_def)
  with fetchILine_ram [OF P, of ?c n] mem pc obtain tr where
    f: "isTriggerInstruction P ?c = (False, ?c)" "fetchILine (Suc n) P ?c =
      Some (?c\<lparr>fetch_addr := getNPC c, fetch_trans := tr, cacheline := line\<rparr>)"
    by (auto simp: isTriggerInstruction_none line setPC_def)
  let ?d = "(setPC (getNPC c) c)\<lparr>step_cnt := step_cnt c + 1, branch := False, oplen := 0,
      fetch_addr := getNPC c, fetch_trans := tr, cacheline := line,
      mmuReservedAddrWatchdog := mmuReservedAddrWatchdog c - 1\<rparr>"
  have "decodeInstruction (listInstr exts) (?c\<lparr>fetch_addr := getNPC c, fetch_trans := tr, cacheline := line\<rparr>)
      = (Some i, ?d)"
    using lookup_instr_iff [OF assms(1), of "buf32 line" i] i
    by (simp add: decodeInstruction_def setPC_def getNPC_def)
  then show ?thesis
    by (intro exI [of _ tr])
      (simp add: updatePipeline_def updateState_ready [OF c] f executeLine_def Let_def case_prod_beta
        pc_updates del: fetchILine.simps)
qed

end

text \<open>
  C11: One cycle of a CPU that is ready to run, from the bus to the trap check: the
  instruction executed is the supported one whose pattern matches the word in memory at the
  next program counter, it runs with that address as its program counter, the step counter
  and the LR/SC watchdog advance, and the cycle ends with \<open>finishCycle\<close>.
\<close>

theorem cycle_executes:
  assumes "distinct exts" and c: "ready P c" and P: "b_transport P = soc_b_transport w Ks"
    and mem: "soc_mem w Ks (getNPC c) 4"
    and line: "line = value_of (soc_view w Ks) (isysbus c) (getNPC c) 4"
    and i: "i \<in> set (supported exts)" "parse i (buf32 line)"
  shows "\<exists>tr. updatePipeline (Suc n) (listInstr exts) P c =
    (let c0 = (setPC (getNPC c) c)\<lparr>step_cnt := step_cnt c + 1, branch := False, oplen := 0,
           fetch_addr := getNPC c, fetch_trans := tr, cacheline := line,
           mmuReservedAddrWatchdog := mmuReservedAddrWatchdog c - 1\<rparr>;
         (c1, len) = iexec i P line c0
     in Some (finishCycle P (c1\<lparr>oplen := len, do_not_cache := False, pc_z := getPC c1\<rparr>)))"
  using assms by (rule rom.cycle_ram)

subsection \<open>A fetch that faults\<close>

text \<open>The bus answers a read of \<open>a\<close> with an error.\<close>

definition faulty :: "'m platform \<Rightarrow> u64 \<Rightarrow> bool" where
  "faulty P a \<longleftrightarrow> (\<forall>t m. addr t = a \<longrightarrow> action t = MemAction_Read \<longrightarrow>
     fst (b_transport P t m) = TRANS_ERROR \<and> addr (fst (snd (b_transport P t m))) = a)"

definition fetching :: "'m platform \<Rightarrow> 'm cpu \<Rightarrow> bool" where
  "fetching P c \<longleftrightarrow> bare_access P c \<and> 4 \<le> sysBusWidthBytes P \<and> estate c = CORE_Normal
     \<and> exceptions c = 0 \<and> stack_ok c"

abbreviation (input) trap_vector :: "'m cpu \<Rightarrow> u64" where
  "trap_vector c \<equiv> portCSR c CSR_mtvec AND NOT 3"

lemma MPRV_trap: "mstatus_MPRV (trap_mstatus prv m) = mstatus_MPRV m"
  by (simp add: trap_mstatus_def Let_def mstatus_MPRV_def set_MPP_def set_MPIE_def set_MIE_def
      getf_setf_other del: One_nat_def)

lemma lowest_exception_1: "lowest_exception 2 0 = 1"
  by code_simp

lemma fetch_fault_step:
  assumes c: "fetching P c" and f: "faulty P (getPC c)"
  shows "\<exists>tr m. fetchILine (Suc n) P c = fetchILine n P
    (setPC (trap_vector c) (setNPC (trap_vector c)
      (c\<lparr>fetch_addr := getPC c, fetch_trans := tr, isysbus := m, cur_prv_level := PRV_M,
         portCSR := (portCSR c)(CSR_mtval := getPC c, CSR_mcause := 1,
            CSR_mstatus := trap_mstatus PRV_M (portCSR c CSR_mstatus), CSR_mepc := getNPC c)\<rparr>)))"
proof -
  let ?c = "c\<lparr>fetch_addr := getPC c\<rparr>"
  let ?t = "(fetch_trans ?c)\<lparr>action := MemAction_Read, addr := fetch_addr ?c, xsize := 4, wstrb := 0\<rparr>"
  let ?t1 = "?t\<lparr>source_idx := sysBusMasterID P\<rparr>"
  have bare: "bare_access P ?c" using c by (simp add: fetching_def bare_access_def)
  have "fst (b_transport P ?t1 (isysbus c)) = TRANS_ERROR \<and> addr (fst (snd (b_transport P ?t1 (isysbus c)))) = getPC c"
    using f unfolding faulty_def by simp
  then obtain tr m where b: "b_transport P ?t1 (isysbus c) = (TRANS_ERROR, tr, m)" "addr tr = getPC c"
    by (metis prod.collapse)
  then have w: "fetch_word P ?c = (TRANS_ERROR, ?c\<lparr>isysbus := m, fetch_trans := tr\<rparr>)"
    using c dma_memop_bare [OF bare, of ?t True] by (simp add: fetch_word_def Let_def fetching_def)
  let ?e = "c\<lparr>fetch_addr := getPC c, isysbus := m, fetch_trans := tr, exceptions := 2,
      portCSR := (portCSR c)(CSR_mtval := getPC c)\<rparr>"
  have e: "generateException P EXCEPTION_InstrFault
      (addr (fetch_trans (?c\<lparr>isysbus := m, fetch_trans := tr\<rparr>))) (?c\<lparr>isysbus := m, fetch_trans := tr\<rparr>) = ?e"
    using c b(2) by (simp add: generateException_alt fetching_def bit1_def)
  have st: "stack_ok ?e" using c by (simp add: fetching_def stack_ok_def)
  have two: "(2 :: u64) AND NOT (bit1 (Suc 0)) = 0" by (simp add: bit1_def)
  have "handleTrap P ?e = exception_entry 1 (?e\<lparr>exceptions := 0\<rparr>)"
    using c unfolding handleTrap_def Let_def checkStackProtection_ok [OF st]
    by (simp add: lowest_exception_1 two fetching_def handleException_entry)
  moreover have "exceptions c = 0" "cur_prv_level c = PRV_M"
    using c by (simp_all add: fetching_def bare_access_def)
  ultimately have "fetch_fault P (?c\<lparr>isysbus := m, fetch_trans := tr\<rparr>)
    = setPC (trap_vector c) (setNPC (trap_vector c)
      (c\<lparr>fetch_addr := getPC c, fetch_trans := tr, isysbus := m, cur_prv_level := PRV_M,
         portCSR := (portCSR c)(CSR_mtval := getPC c, CSR_mcause := 1,
            CSR_mstatus := trap_mstatus PRV_M (portCSR c CSR_mstatus), CSR_mepc := getNPC c)\<rparr>))"
    unfolding fetch_fault_def Let_def e
    by (cases c) (simp add: exception_entry_def setNPC_def setPC_def getNPC_def)
  then show ?thesis
    using c w by (intro exI [of _ tr] exI [of _ m]) (simp add: Let_def fetching_def)
qed

definition after_fault :: "u64 \<Rightarrow> 'm cpu \<Rightarrow> 'm cpu \<Rightarrow> bool" where
  "after_fault pc c c' \<longleftrightarrow> getPC c' = trap_vector c \<and> portCSR c' CSR_mcause = 1 \<and> portCSR c' CSR_mtval = pc
     \<and> portCSR c' CSR_mepc = getNPC c \<and> portCSR c' CSR_mtvec = portCSR c CSR_mtvec \<and> R c' = R c"

lemma fetch_fault_next:
  assumes c: "fetching P c" and f: "faulty P (getPC c)"
  shows "\<exists>c'. fetchILine (Suc n) P c = fetchILine n P c' \<and> fetching P c' \<and> after_fault (getPC c) c c'"
proof -
  obtain tr m where s: "fetchILine (Suc n) P c = fetchILine n P
    (setPC (trap_vector c) (setNPC (trap_vector c)
      (c\<lparr>fetch_addr := getPC c, fetch_trans := tr, isysbus := m, cur_prv_level := PRV_M,
         portCSR := (portCSR c)(CSR_mtval := getPC c, CSR_mcause := 1,
            CSR_mstatus := trap_mstatus PRV_M (portCSR c CSR_mstatus), CSR_mepc := getNPC c)\<rparr>)))"
    using fetch_fault_step [OF assms] by blast
  show ?thesis
    by (rule exI, rule conjI, rule s)
      (use c in \<open>auto simp: fetching_def bare_access_def stack_ok_def after_fault_def setPC_def setNPC_def
        getPC_def MPRV_trap\<close>)
qed

text \<open>
  C15: A fetch that faults raises the instruction access fault with the address in mtval and
  goes on at the trap vector: two fetches are enough when the vector is in memory, and the
  word executed is the one at the vector.
\<close>

theorem fetch_fault_recovers:
  assumes c: "fetching P c" "faulty P (getPC c)"
    and P: "b_transport P = soc_b_transport w Ks" and "soc_mem w Ks (trap_vector c) 4"
  shows "\<exists>c'. fetchILine (Suc (Suc n)) P c = Some c' \<and> after_fault (getPC c) c c'
    \<and> cacheline c' = value_of (soc_view w Ks) (isysbus c') (trap_vector c) 4"
proof -
  obtain c1 where c1: "fetchILine (Suc (Suc n)) P c = fetchILine (Suc n) P c1" "fetching P c1"
    "after_fault (getPC c) c c1"
    using fetch_fault_next [OF c] by blast
  then obtain tr where "fetchILine (Suc n) P c1 = Some (c1\<lparr>fetch_addr := getPC c1, fetch_trans := tr,
      cacheline := value_of (soc_view w Ks) (isysbus c1) (getPC c1) 4\<rparr>)"
    using rom.fetchILine_ram [OF P, of c1] assms(4) by (auto simp: fetching_def after_fault_def)
  with c1 show ?thesis
    by (auto simp: after_fault_def getPC_def)
qed

text \<open>
  C16: Livelock.  When neither the program counter nor the trap vector can be fetched, no
  number of fetches is enough: \<open>updatePipeline\<close> of the source never returns.
\<close>

theorem fetch_livelock:
  assumes "fetching P c" "faulty P (getPC c)" "faulty P (trap_vector c)"
  shows "fetchILine n P c = None"
  using assms
proof (induction n arbitrary: c)
  case (Suc n)
  obtain c' where c': "fetchILine (Suc n) P c = fetchILine n P c'" "fetching P c'" "after_fault (getPC c) c c'"
    using fetch_fault_next [OF Suc.prems(1,2)] by blast
  have "fetchILine n P c' = None"
    using Suc.IH [of c'] c' Suc.prems(3) by (simp add: after_fault_def)
  with c'(1) show ?case by (simp only:)
qed simp

subsection \<open>Instances\<close>

lemma river_faulty: "faulty river 0x04000000"
proof -
  have "getMapedDevice (soc_bus 39 river_mems) (maphash (soc_bus 39 river_mems) (\<lambda>_. empty_item)) 0x04000000 = None"
    unfolding getMapedDevice_bucket
    by (simp add: soc_bus_def river_mems_def in_bucket_def first_bucket_def last_bucket_def hash_index_def
        HASH_LVL1_OFFSET_def HASH_MASK_def ADDR_MASK_def)
  then show ?thesis
    by (simp add: faulty_def soc_b_transport_def bus_b_transport_def)
qed

lemma river_fetching:
  "fetching river (setPC a (writeCSR river CSR_mtvec v (river_cpu (\<lambda>_. 0))))"
  by (simp add: fetching_def bare_access_def stack_ok_def setPC_def writeCSR_plain portCSR_write_def
      river_cpu_CSR mstatus_MPRV_def getf_def)

text \<open>A cycle that ends without a trap.\<close>

lemma finishCycle_quiet:
  assumes "stack_ok c" "exceptions c = 0" "mstatus_MIE (portCSR c CSR_mstatus) = 0" "\<not> branch c"
    "stepCallbacks P = (\<lambda>_ m. m)"
  shows "finishCycle P c = setNPC (getPC c + ucast (oplen c)) c"
proof -
  let ?c = "setNPC (getPC c + ucast (oplen c)) c"
  have "stack_ok ?c" using assms(1) by (simp add: stack_ok_def setNPC_def)
  from checkStackProtection_ok [OF this, of P] assms show ?thesis
    by (simp add: finishCycle_def updateQueue_def handleTrap_def handleInterrupts_def readCSR_def setNPC_def)
qed

text \<open>The boot ROM with \<open>addi x1, x0, 5\<close> at its start.\<close>

definition addi_rom :: "nat \<Rightarrow> memdev" where
  "addi_rom = zero_mem(1 := \<lparr>mem = (\<lambda>_. 0)(0 := 0x93, 2 := 0x50), m_oob = False\<rparr>)"

lemma addi_rom_word: "value_of (soc_view 39 river_mems) addi_rom 0x10000 4 = 0x00500093"
  by (simp add: value_of_def payload_load_def upt_consts soc_view_def scan_devices_def pick_def covers_def
      soc_bus_def river_mems_def addi_rom_def zero_mem_def set_byte_def setf_def mask_eq_exp_minus_1
      push_bit_eq_mult)

lemma river_ready: "ready river ((river_cpu r)\<lparr>isysbus := m\<rparr>)"
  by (simp add: ready_def no_triggers_def bare_access_def river_cpu_CSR river_cpu_triggers
      dcsr_step_def tdata1_type_def mstatus_MPRV_def getf_def)

theorem cycle_executes_witness:
  "\<exists>c. updatePipeline 1 (listInstr ''MAC'') river ((river_cpu (\<lambda>_. 0))\<lparr>isysbus := addi_rom\<rparr>) = Some c
    \<and> R c 1 = 5 \<and> getNPC c = 0x10004"
proof -
  let ?i = "RiscvInstruction ''ADDI'' ''?????????????????000?????0010011'' ADDI_exec
    :: (nat \<Rightarrow> memdev) instruction"
  let ?c = "(river_cpu (\<lambda>_. 0))\<lparr>isysbus := addi_rom\<rparr>"
  have npc: "getNPC ?c = 0x10000" by (simp add: getNPC_def)
  have "?i \<in> set (supported ''MAC'')"
    by (simp add: supported_def addIsaUserRV64I_def)
  moreover have "parse ?i (buf32 0x00500093)"
    by (simp add: parse_def RiscvInstruction_def pattern_horner horner_def)
  moreover have "soc_mem 39 river_mems (getNPC ?c) 4"
    unfolding npc by (rule river_rom)
  moreover have "0x00500093 = value_of (soc_view 39 river_mems) (isysbus ?c) (getNPC ?c) 4"
    unfolding npc by (simp add: addi_rom_word)
  ultimately obtain tr where "updatePipeline (Suc 0) (listInstr ''MAC'') river ?c =
    (let c0 = (setPC (getNPC ?c) ?c)\<lparr>step_cnt := step_cnt ?c + 1, branch := False, oplen := 0,
           fetch_addr := getNPC ?c, fetch_trans := tr, cacheline := 0x00500093,
           mmuReservedAddrWatchdog := mmuReservedAddrWatchdog ?c - 1\<rparr>;
         (c1, len) = iexec ?i river 0x00500093 c0
     in Some (finishCycle river (c1\<lparr>oplen := len, do_not_cache := False, pc_z := getPC c1\<rparr>)))"
    using cycle_executes [where exts = "''MAC''" and P = river and c = "?c" and w = "39" and Ks = river_mems
        and line = "0x00500093" and i = "?i" and n = "0", OF _ river_ready river_simps(1)]
    by auto
  then obtain d where d: "updatePipeline (Suc 0) (listInstr ''MAC'') river ?c = Some (finishCycle river d)"
    "R d = (\<lambda>_. 0)(1 := 5)" "portCSR d = portCSR ?c" "exceptions d = 0" "\<not> branch d" "getPC d = 0x10000"
    "oplen d = 4" "cur_ctx d = Ctx_Normal"
    unfolding npc RiscvInstruction_def ADDI_exec_def Let_def
    by (auto simp: setReg_def setPC_def getPC_def I_rd_def I_rs1_def I_simm_def I_imm_def sext12_def getf_def)
  have "finishCycle river d = setNPC (getPC d + ucast (oplen d)) d"
    by (rule finishCycle_quiet) (simp_all add: d stack_ok_def river_cpu_CSR mstatus_MIE_def getf_def)
  then show ?thesis
    by (simp add: d getNPC_def setNPC_def)
qed

theorem fetch_fault_recovers_witness:
  "\<exists>c'. fetchILine 2 river (setPC 0x04000000 (writeCSR river CSR_mtvec 0x10000 (river_cpu (\<lambda>_. 0)))) = Some c'
    \<and> portCSR c' CSR_mtval = 0x04000000"
proof -
  let ?c = "setPC 0x04000000 (writeCSR river CSR_mtvec 0x10000 (river_cpu (\<lambda>_. 0)))"
  have pc: "getPC ?c = 0x04000000" "trap_vector ?c = 0x10000"
    by (simp_all add: getPC_def setPC_def)
  have "faulty river (getPC ?c)" "soc_mem 39 river_mems (trap_vector ?c) 4"
    unfolding pc by (rule river_faulty, rule river_rom)
  from fetch_fault_recovers [OF river_fetching this(1) river_simps(1) this(2), of 0] pc
  show ?thesis by (auto simp: after_fault_def numeral_2_eq_2 simp del: fetchILine.simps)
qed

theorem fetch_livelock_witness:
  "fetchILine 1000 river (setPC 0x04000000 (writeCSR river CSR_mtvec 0x04000000 (river_cpu (\<lambda>_. 0)))) = None"
proof -
  let ?c = "setPC 0x04000000 (writeCSR river CSR_mtvec 0x04000000 (river_cpu (\<lambda>_. 0)))"
  have pc: "getPC ?c = 0x04000000" "trap_vector ?c = 0x04000000"
    by (simp_all add: getPC_def setPC_def)
  have "faulty river (getPC ?c)" "faulty river (trap_vector ?c)"
    unfolding pc by (rule river_faulty)+
  from fetch_livelock [OF river_fetching this] show ?thesis .
qed

end
