(* ===== verification/Rtl_Types.thy ===== *)
theory Rtl_Types
  imports Prelude
begin

section \<open>Constants and signal types of the RTL core\<close>

text \<open>
  sc/rtl/riverlib/river_cfg.h and what the SystemC sources use of the language: part
  selection \<open>x(hi, lo)\<close> is \<open>rng x hi lo\<close>, assignment to a part is \<open>setf\<close>, a concatenation
  \<open>(a, b, c)\<close> is \<open>concat_bits\<close> of the widths and values.  A vector with one bit per
  enumerator (\<open>instr_vec\<close>, \<open>isa_type\<close>) is a function from the bit's index.
\<close>

type_synonym u6 = "6 word"

abbreviation (input) rng :: "'a::len word \<Rightarrow> nat \<Rightarrow> nat \<Rightarrow> 'b::len word" where
  "rng w hi lo \<equiv> getf lo (Suc hi - lo) w"

fun concat_bits :: "(nat \<times> 'a::len word) list \<Rightarrow> 'a word" where
  "concat_bits [] = 0"
| "concat_bits ((n, v) # vs) = push_bit (sum_list (map fst vs)) (take_bit n v) OR concat_bits vs"

text \<open>A sign bit copied into the bits from \<open>n\<close> on: \<open>vb_imm((RISCV_ARCH - 1), n) = ~0ull\<close>.\<close>

definition fill_sign :: "bool \<Rightarrow> nat \<Rightarrow> u64 \<Rightarrow> u64" where
  "fill_sign s n imm = (if s then setf n (64 - n) (NOT 0) imm else imm)"

text \<open>
  Every unit has a synchronous reset in its process \<open>comb\<close> and an asynchronous one in its
  process \<open>registers\<close>; a parameter of the unit chooses between them.
\<close>

definition sync_reset :: "bool \<Rightarrow> bool \<Rightarrow> 'r \<Rightarrow> 'r \<Rightarrow> 'r" where
  "sync_reset async_reset nrst rst v = (if \<not> async_reset \<and> \<not> nrst then rst else v)"

definition clock_edge :: "bool \<Rightarrow> bool \<Rightarrow> 'r \<Rightarrow> 'r \<Rightarrow> 'r" where
  "clock_edge async_reset nrst rst v = (if async_reset \<and> \<not> nrst then rst else v)"

lemma no_reset [simp]: "sync_reset ar True rst v = v" "clock_edge ar True rst v = v"
  by (simp_all add: sync_reset_def clock_edge_def)

lemma in_reset: "clock_edge ar False rst (sync_reset ar False rst v) = rst"
  by (simp add: sync_reset_def clock_edge_def)

subsection \<open>river_cfg.h: instruction formats and instructions\<close>

abbreviation (input) ISA_R_type :: u8 where "ISA_R_type \<equiv> 0"
abbreviation (input) ISA_I_type :: u8 where "ISA_I_type \<equiv> 1"
abbreviation (input) ISA_S_type :: u8 where "ISA_S_type \<equiv> 2"
abbreviation (input) ISA_SB_type :: u8 where "ISA_SB_type \<equiv> 3"
abbreviation (input) ISA_U_type :: u8 where "ISA_U_type \<equiv> 4"
abbreviation (input) ISA_UJ_type :: u8 where "ISA_UJ_type \<equiv> 5"

abbreviation (input) Instr_ADD :: u8 where "Instr_ADD \<equiv> 0"
abbreviation (input) Instr_ADDI :: u8 where "Instr_ADDI \<equiv> 1"
abbreviation (input) Instr_ADDIW :: u8 where "Instr_ADDIW \<equiv> 2"
abbreviation (input) Instr_ADDW :: u8 where "Instr_ADDW \<equiv> 3"
abbreviation (input) Instr_AND :: u8 where "Instr_AND \<equiv> 4"
abbreviation (input) Instr_ANDI :: u8 where "Instr_ANDI \<equiv> 5"
abbreviation (input) Instr_AUIPC :: u8 where "Instr_AUIPC \<equiv> 6"
abbreviation (input) Instr_BEQ :: u8 where "Instr_BEQ \<equiv> 7"
abbreviation (input) Instr_BGE :: u8 where "Instr_BGE \<equiv> 8"
abbreviation (input) Instr_BGEU :: u8 where "Instr_BGEU \<equiv> 9"
abbreviation (input) Instr_BLT :: u8 where "Instr_BLT \<equiv> 10"
abbreviation (input) Instr_BLTU :: u8 where "Instr_BLTU \<equiv> 11"
abbreviation (input) Instr_BNE :: u8 where "Instr_BNE \<equiv> 12"
abbreviation (input) Instr_JAL :: u8 where "Instr_JAL \<equiv> 13"
abbreviation (input) Instr_JALR :: u8 where "Instr_JALR \<equiv> 14"
abbreviation (input) Instr_LB :: u8 where "Instr_LB \<equiv> 15"
abbreviation (input) Instr_LH :: u8 where "Instr_LH \<equiv> 16"
abbreviation (input) Instr_LW :: u8 where "Instr_LW \<equiv> 17"
abbreviation (input) Instr_LD :: u8 where "Instr_LD \<equiv> 18"
abbreviation (input) Instr_LBU :: u8 where "Instr_LBU \<equiv> 19"
abbreviation (input) Instr_LHU :: u8 where "Instr_LHU \<equiv> 20"
abbreviation (input) Instr_LWU :: u8 where "Instr_LWU \<equiv> 21"
abbreviation (input) Instr_LUI :: u8 where "Instr_LUI \<equiv> 22"
abbreviation (input) Instr_OR :: u8 where "Instr_OR \<equiv> 23"
abbreviation (input) Instr_ORI :: u8 where "Instr_ORI \<equiv> 24"
abbreviation (input) Instr_SLLI :: u8 where "Instr_SLLI \<equiv> 25"
abbreviation (input) Instr_SLT :: u8 where "Instr_SLT \<equiv> 26"
abbreviation (input) Instr_SLTI :: u8 where "Instr_SLTI \<equiv> 27"
abbreviation (input) Instr_SLTU :: u8 where "Instr_SLTU \<equiv> 28"
abbreviation (input) Instr_SLTIU :: u8 where "Instr_SLTIU \<equiv> 29"
abbreviation (input) Instr_SLL :: u8 where "Instr_SLL \<equiv> 30"
abbreviation (input) Instr_SLLW :: u8 where "Instr_SLLW \<equiv> 31"
abbreviation (input) Instr_SLLIW :: u8 where "Instr_SLLIW \<equiv> 32"
abbreviation (input) Instr_SRA :: u8 where "Instr_SRA \<equiv> 33"
abbreviation (input) Instr_SRAW :: u8 where "Instr_SRAW \<equiv> 34"
abbreviation (input) Instr_SRAI :: u8 where "Instr_SRAI \<equiv> 35"
abbreviation (input) Instr_SRAIW :: u8 where "Instr_SRAIW \<equiv> 36"
abbreviation (input) Instr_SRL :: u8 where "Instr_SRL \<equiv> 37"
abbreviation (input) Instr_SRLI :: u8 where "Instr_SRLI \<equiv> 38"
abbreviation (input) Instr_SRLIW :: u8 where "Instr_SRLIW \<equiv> 39"
abbreviation (input) Instr_SRLW :: u8 where "Instr_SRLW \<equiv> 40"
abbreviation (input) Instr_SB :: u8 where "Instr_SB \<equiv> 41"
abbreviation (input) Instr_SH :: u8 where "Instr_SH \<equiv> 42"
abbreviation (input) Instr_SW :: u8 where "Instr_SW \<equiv> 43"
abbreviation (input) Instr_SD :: u8 where "Instr_SD \<equiv> 44"
abbreviation (input) Instr_SUB :: u8 where "Instr_SUB \<equiv> 45"
abbreviation (input) Instr_SUBW :: u8 where "Instr_SUBW \<equiv> 46"
abbreviation (input) Instr_XOR :: u8 where "Instr_XOR \<equiv> 47"
abbreviation (input) Instr_XORI :: u8 where "Instr_XORI \<equiv> 48"
abbreviation (input) Instr_CSRRW :: u8 where "Instr_CSRRW \<equiv> 49"
abbreviation (input) Instr_CSRRS :: u8 where "Instr_CSRRS \<equiv> 50"
abbreviation (input) Instr_CSRRC :: u8 where "Instr_CSRRC \<equiv> 51"
abbreviation (input) Instr_CSRRWI :: u8 where "Instr_CSRRWI \<equiv> 52"
abbreviation (input) Instr_CSRRCI :: u8 where "Instr_CSRRCI \<equiv> 53"
abbreviation (input) Instr_CSRRSI :: u8 where "Instr_CSRRSI \<equiv> 54"
abbreviation (input) Instr_URET :: u8 where "Instr_URET \<equiv> 55"
abbreviation (input) Instr_SRET :: u8 where "Instr_SRET \<equiv> 56"
abbreviation (input) Instr_HRET :: u8 where "Instr_HRET \<equiv> 57"
abbreviation (input) Instr_MRET :: u8 where "Instr_MRET \<equiv> 58"
abbreviation (input) Instr_FENCE :: u8 where "Instr_FENCE \<equiv> 59"
abbreviation (input) Instr_FENCE_I :: u8 where "Instr_FENCE_I \<equiv> 60"
abbreviation (input) Instr_WFI :: u8 where "Instr_WFI \<equiv> 61"
abbreviation (input) Instr_SFENCE_VMA :: u8 where "Instr_SFENCE_VMA \<equiv> 62"
abbreviation (input) Instr_DIV :: u8 where "Instr_DIV \<equiv> 63"
abbreviation (input) Instr_DIVU :: u8 where "Instr_DIVU \<equiv> 64"
abbreviation (input) Instr_DIVW :: u8 where "Instr_DIVW \<equiv> 65"
abbreviation (input) Instr_DIVUW :: u8 where "Instr_DIVUW \<equiv> 66"
abbreviation (input) Instr_MUL :: u8 where "Instr_MUL \<equiv> 67"
abbreviation (input) Instr_MULW :: u8 where "Instr_MULW \<equiv> 68"
abbreviation (input) Instr_MULH :: u8 where "Instr_MULH \<equiv> 69"
abbreviation (input) Instr_MULHSU :: u8 where "Instr_MULHSU \<equiv> 70"
abbreviation (input) Instr_MULHU :: u8 where "Instr_MULHU \<equiv> 71"
abbreviation (input) Instr_REM :: u8 where "Instr_REM \<equiv> 72"
abbreviation (input) Instr_REMU :: u8 where "Instr_REMU \<equiv> 73"
abbreviation (input) Instr_REMW :: u8 where "Instr_REMW \<equiv> 74"
abbreviation (input) Instr_REMUW :: u8 where "Instr_REMUW \<equiv> 75"
abbreviation (input) Instr_AMOADD_W :: u8 where "Instr_AMOADD_W \<equiv> 76"
abbreviation (input) Instr_AMOXOR_W :: u8 where "Instr_AMOXOR_W \<equiv> 77"
abbreviation (input) Instr_AMOOR_W :: u8 where "Instr_AMOOR_W \<equiv> 78"
abbreviation (input) Instr_AMOAND_W :: u8 where "Instr_AMOAND_W \<equiv> 79"
abbreviation (input) Instr_AMOMIN_W :: u8 where "Instr_AMOMIN_W \<equiv> 80"
abbreviation (input) Instr_AMOMAX_W :: u8 where "Instr_AMOMAX_W \<equiv> 81"
abbreviation (input) Instr_AMOMINU_W :: u8 where "Instr_AMOMINU_W \<equiv> 82"
abbreviation (input) Instr_AMOMAXU_W :: u8 where "Instr_AMOMAXU_W \<equiv> 83"
abbreviation (input) Instr_AMOSWAP_W :: u8 where "Instr_AMOSWAP_W \<equiv> 84"
abbreviation (input) Instr_LR_W :: u8 where "Instr_LR_W \<equiv> 85"
abbreviation (input) Instr_SC_W :: u8 where "Instr_SC_W \<equiv> 86"
abbreviation (input) Instr_AMOADD_D :: u8 where "Instr_AMOADD_D \<equiv> 87"
abbreviation (input) Instr_AMOXOR_D :: u8 where "Instr_AMOXOR_D \<equiv> 88"
abbreviation (input) Instr_AMOOR_D :: u8 where "Instr_AMOOR_D \<equiv> 89"
abbreviation (input) Instr_AMOAND_D :: u8 where "Instr_AMOAND_D \<equiv> 90"
abbreviation (input) Instr_AMOMIN_D :: u8 where "Instr_AMOMIN_D \<equiv> 91"
abbreviation (input) Instr_AMOMAX_D :: u8 where "Instr_AMOMAX_D \<equiv> 92"
abbreviation (input) Instr_AMOMINU_D :: u8 where "Instr_AMOMINU_D \<equiv> 93"
abbreviation (input) Instr_AMOMAXU_D :: u8 where "Instr_AMOMAXU_D \<equiv> 94"
abbreviation (input) Instr_AMOSWAP_D :: u8 where "Instr_AMOSWAP_D \<equiv> 95"
abbreviation (input) Instr_LR_D :: u8 where "Instr_LR_D \<equiv> 96"
abbreviation (input) Instr_SC_D :: u8 where "Instr_SC_D \<equiv> 97"
abbreviation (input) Instr_ECALL :: u8 where "Instr_ECALL \<equiv> 98"
abbreviation (input) Instr_EBREAK :: u8 where "Instr_EBREAK \<equiv> 99"
abbreviation (input) Instr_FADD_D :: u8 where "Instr_FADD_D \<equiv> 100"
abbreviation (input) Instr_FCVT_D_W :: u8 where "Instr_FCVT_D_W \<equiv> 101"
abbreviation (input) Instr_FCVT_D_WU :: u8 where "Instr_FCVT_D_WU \<equiv> 102"
abbreviation (input) Instr_FCVT_D_L :: u8 where "Instr_FCVT_D_L \<equiv> 103"
abbreviation (input) Instr_FCVT_D_LU :: u8 where "Instr_FCVT_D_LU \<equiv> 104"
abbreviation (input) Instr_FCVT_W_D :: u8 where "Instr_FCVT_W_D \<equiv> 105"
abbreviation (input) Instr_FCVT_WU_D :: u8 where "Instr_FCVT_WU_D \<equiv> 106"
abbreviation (input) Instr_FCVT_L_D :: u8 where "Instr_FCVT_L_D \<equiv> 107"
abbreviation (input) Instr_FCVT_LU_D :: u8 where "Instr_FCVT_LU_D \<equiv> 108"
abbreviation (input) Instr_FDIV_D :: u8 where "Instr_FDIV_D \<equiv> 109"
abbreviation (input) Instr_FEQ_D :: u8 where "Instr_FEQ_D \<equiv> 110"
abbreviation (input) Instr_FLD :: u8 where "Instr_FLD \<equiv> 111"
abbreviation (input) Instr_FLE_D :: u8 where "Instr_FLE_D \<equiv> 112"
abbreviation (input) Instr_FLT_D :: u8 where "Instr_FLT_D \<equiv> 113"
abbreviation (input) Instr_FMAX_D :: u8 where "Instr_FMAX_D \<equiv> 114"
abbreviation (input) Instr_FMIN_D :: u8 where "Instr_FMIN_D \<equiv> 115"
abbreviation (input) Instr_FMOV_D_X :: u8 where "Instr_FMOV_D_X \<equiv> 116"
abbreviation (input) Instr_FMOV_X_D :: u8 where "Instr_FMOV_X_D \<equiv> 117"
abbreviation (input) Instr_FMUL_D :: u8 where "Instr_FMUL_D \<equiv> 118"
abbreviation (input) Instr_FSD :: u8 where "Instr_FSD \<equiv> 119"
abbreviation (input) Instr_FSUB_D :: u8 where "Instr_FSUB_D \<equiv> 120"

abbreviation (input) MEMOP_8B :: "2 word" where "MEMOP_8B \<equiv> 3"
abbreviation (input) MEMOP_4B :: "2 word" where "MEMOP_4B \<equiv> 2"
abbreviation (input) MEMOP_2B :: "2 word" where "MEMOP_2B \<equiv> 1"
abbreviation (input) MEMOP_1B :: "2 word" where "MEMOP_1B \<equiv> 0"

subsection \<open>Bits and casts\<close>

text \<open>Two words are equal when their 64 bits are; the simplifier decides each bit.\<close>

lemma u64_eq_bits: "list_all (\<lambda>n. bit a n = bit b n) [0..<64] \<Longrightarrow> a = b" for a b :: u64
  by (rule bit_word_eqI) (simp add: list_all_iff)

lemma upt_64: "[0..<64] = [0, 1, 2, 3, 4, 5, 6, 7, 8, 9, 10, 11, 12, 13, 14, 15, 16, 17, 18, 19, 20,
  21, 22, 23, 24, 25, 26, 27, 28, 29, 30, 31, 32, 33, 34, 35, 36, 37, 38, 39, 40, 41, 42, 43, 44, 45,
  46, 47, 48, 49, 50, 51, 52, 53, 54, 55, 56, 57, 58, 59, 60, 61, 62, 63::nat]"
  by (simp add: upt_conv_Cons)

lemma truth_flag: "(getf n (Suc 0) u :: 'b::len word) \<noteq> 0 \<longleftrightarrow> bit u n" for u :: "'a::len word"
proof
  assume "(getf n (Suc 0) u :: 'b word) \<noteq> 0"
  then obtain k where "bit (getf n (Suc 0) u :: 'b word) k"
    by (metis bit_eqI bit_0_eq bot_apply bot_bool_def)
  then show "bit u n" by (auto simp: bit_getf)
next
  assume "bit u n"
  then have "bit (getf n (Suc 0) u :: 'b word) 0" by (auto simp: bit_getf dest: bit_imp_le_length)
  then show "(getf n (Suc 0) u :: 'b word) \<noteq> 0" by auto
qed

lemma unat_widen: "LENGTH('a::len) \<le> LENGTH('b::len) \<Longrightarrow> unat (ucast (w :: 'a word) :: 'b word) = unat w"
  by (simp add: unsigned_ucast_eq take_bit_nat_eq_self_iff)
    (metis unsigned_less order.strict_trans2 power_increasing one_le_numeral)

lemma unat_getf_low:
  assumes "n \<le> LENGTH('b::len)" "n \<le> LENGTH('c::len)"
  shows "unat (getf lo n (u :: 'a::len word) :: 'b word) = unat (getf lo n u :: 'c word)"
proof -
  have "unat (getf lo n u :: 'd::len word) = unat (take_bit n (drop_bit lo u))" if "n \<le> LENGTH('d)"
    using that by (simp add: getf_def unsigned_ucast_eq unsigned_take_bit_eq min_def)
  from this [OF assms(1)] this [OF assms(2)] show ?thesis by simp
qed

end
