(* ===== verification/Rtl_Decoder.thy ===== *)
theory Rtl_Decoder
  imports Rtl_Types
begin

section \<open>The instruction decoders of the RTL core\<close>

text \<open>
  sc/rtl/riverlib/core/dec_rv.cpp and dec_rvc.cpp.  The process \<open>comb\<close> fills local variables
  (record \<open>dec_vars\<close>) by cases on the opcode, derives the control signals and hands them to
  the registers; \<open>registers\<close> is the clock edge.
\<close>

subsection \<open>The variables of comb\<close>

record dec_vars =
  v_error :: bool
  vb_dec :: "u8 \<Rightarrow> bool"
  vb_isa_type :: "u8 \<Rightarrow> bool"
  vb_radr1 :: u6
  vb_radr2 :: u6
  vb_waddr :: u6
  vb_csr_addr :: "12 word"
  vb_imm :: u64

definition dec_init :: dec_vars where
  "dec_init = \<lparr>v_error = False, vb_dec = (\<lambda>_. False), vb_isa_type = (\<lambda>_. False), vb_radr1 = 0,
     vb_radr2 = 0, vb_waddr = 0, vb_csr_addr = 0, vb_imm = 0\<rparr>"

definition dec :: "u8 \<Rightarrow> dec_vars \<Rightarrow> dec_vars" where
  "dec n d = d\<lparr>vb_dec := (vb_dec d)(n := True)\<rparr>"

definition isa :: "u8 \<Rightarrow> dec_vars \<Rightarrow> dec_vars" where
  "isa n d = d\<lparr>vb_isa_type := (vb_isa_type d)(n := True)\<rparr>"

definition err :: "dec_vars \<Rightarrow> dec_vars" where
  "err d = d\<lparr>v_error := True\<rparr>"

text \<open>The operands that the cases of the 32-bit decoder have in common.\<close>

definition R_ops :: "u32 \<Rightarrow> dec_vars \<Rightarrow> dec_vars" where
  "R_ops w d = (isa ISA_R_type d)\<lparr>vb_radr1 := rng w 19 15, vb_radr2 := rng w 24 20, vb_waddr := rng w 11 7\<rparr>"

definition I_ops :: "u32 \<Rightarrow> dec_vars \<Rightarrow> dec_vars" where
  "I_ops w d = (isa ISA_I_type d)\<lparr>vb_radr1 := rng w 19 15, vb_waddr := rng w 11 7,
     vb_imm := fill_sign (bit w 31) 12 (rng w 31 20)\<rparr>"

subsection \<open>dec_rv.cpp: the cases of the opcode\<close>

definition rv_AMO :: "u32 \<Rightarrow> dec_vars \<Rightarrow> dec_vars" where
  "rv_AMO w d =
     (let op2 = rng w 14 12 :: u32; funct5 = rng w 31 27 :: u32; d = R_ops w d;
          width = (\<lambda>iw id. if op2 = 2 then dec iw d else if op2 = 3 then dec id d else err d)
      in if funct5 = 0x00 then width Instr_AMOADD_W Instr_AMOADD_D
         else if funct5 = 0x01 then width Instr_AMOSWAP_W Instr_AMOSWAP_D
         else if funct5 = 0x02 then
           (if op2 = 2 \<and> (rng w 24 20 :: u32) = 0 then dec Instr_LR_W d
            else if op2 = 3 \<and> (rng w 24 20 :: u32) = 0 then dec Instr_LR_D d else err d)
         else if funct5 = 0x03 then width Instr_SC_W Instr_SC_D
         else if funct5 = 0x04 then width Instr_AMOXOR_W Instr_AMOXOR_D
         else if funct5 = 0x08 then width Instr_AMOOR_W Instr_AMOOR_D
         else if funct5 = 0x0C then width Instr_AMOAND_W Instr_AMOAND_D
         else if funct5 = 0x10 then width Instr_AMOMIN_W Instr_AMOMIN_D
         else if funct5 = 0x14 then width Instr_AMOMAX_W Instr_AMOMAX_D
         else if funct5 = 0x18 then width Instr_AMOMINU_W Instr_AMOMINU_D
         else if funct5 = 0x1C then width Instr_AMOMAXU_W Instr_AMOMAXU_D
         else err d)"

definition rv_ADD :: "u32 \<Rightarrow> dec_vars \<Rightarrow> dec_vars" where
  "rv_ADD w d =
     (let op2 = rng w 14 12 :: u32; funct7 = rng w 31 25 :: u32; d = R_ops w d;
          two = (\<lambda>i0 i1. if funct7 = 0x00 then dec i0 d else if funct7 = 0x01 then dec i1 d else err d);
          three = (\<lambda>i0 i1 i20. if funct7 = 0x00 then dec i0 d else if funct7 = 0x01 then dec i1 d
                     else if funct7 = 0x20 then dec i20 d else err d)
      in if op2 = 0 then three Instr_ADD Instr_MUL Instr_SUB
         else if op2 = 1 then two Instr_SLL Instr_MULH
         else if op2 = 2 then two Instr_SLT Instr_MULHSU
         else if op2 = 3 then two Instr_SLTU Instr_MULHU
         else if op2 = 4 then two Instr_XOR Instr_DIV
         else if op2 = 5 then three Instr_SRL Instr_DIVU Instr_SRA
         else if op2 = 6 then two Instr_OR Instr_REM
         else if op2 = 7 then two Instr_AND Instr_REMU
         else err d)"

definition rv_ADDI :: "u32 \<Rightarrow> dec_vars \<Rightarrow> dec_vars" where
  "rv_ADDI w d =
     (let op2 = rng w 14 12 :: u32; funct6 = rng w 31 26 :: u32; d = I_ops w d
      in if op2 = 0 then dec Instr_ADDI d
         else if op2 = 1 then dec Instr_SLLI d
         else if op2 = 2 then dec Instr_SLTI d
         else if op2 = 3 then dec Instr_SLTIU d
         else if op2 = 4 then dec Instr_XORI d
         else if op2 = 5 then
           (if funct6 = 0x00 then dec Instr_SRLI d
            else if funct6 = 0x10 then dec Instr_SRAI d else err d)
         else if op2 = 6 then dec Instr_ORI d
         else if op2 = 7 then dec Instr_ANDI d
         else err d)"

definition rv_ADDIW :: "u32 \<Rightarrow> dec_vars \<Rightarrow> dec_vars" where
  "rv_ADDIW w d =
     (let op2 = rng w 14 12 :: u32; funct7 = rng w 31 25 :: u32; d = I_ops w d
      in if op2 = 0 then dec Instr_ADDIW d
         else if op2 = 1 then dec Instr_SLLIW d
         else if op2 = 5 then
           (if funct7 = 0x00 then dec Instr_SRLIW d
            else if funct7 = 0x20 then dec Instr_SRAIW d else err d)
         else err d)"

definition rv_ADDW :: "u32 \<Rightarrow> dec_vars \<Rightarrow> dec_vars" where
  "rv_ADDW w d =
     (let op2 = rng w 14 12 :: u32; funct7 = rng w 31 25 :: u32; d = R_ops w d;
          one = (\<lambda>i1. if funct7 = 0x01 then dec i1 d else err d);
          three = (\<lambda>i0 i1 i20. if funct7 = 0x00 then dec i0 d else if funct7 = 0x01 then dec i1 d
                     else if funct7 = 0x20 then dec i20 d else err d)
      in if op2 = 0 then three Instr_ADDW Instr_MULW Instr_SUBW
         else if op2 = 1 then dec Instr_SLLW d
         else if op2 = 4 then one Instr_DIVW
         else if op2 = 5 then three Instr_SRLW Instr_DIVUW Instr_SRAW
         else if op2 = 6 then one Instr_REMW
         else if op2 = 7 then one Instr_REMUW
         else err d)"

definition U_ops :: "u32 \<Rightarrow> dec_vars \<Rightarrow> dec_vars" where
  "U_ops w d = (isa ISA_U_type d)\<lparr>vb_waddr := rng w 11 7,
     vb_imm := fill_sign (bit w 31) 32 (setf 12 20 (rng w 31 12) 0)\<rparr>"

definition rv_BEQ :: "u32 \<Rightarrow> dec_vars \<Rightarrow> dec_vars" where
  "rv_BEQ w d =
     (let op2 = rng w 14 12 :: u32;
          d = (isa ISA_SB_type d)\<lparr>vb_radr1 := rng w 19 15, vb_radr2 := rng w 24 20,
            vb_imm := fill_sign (bit w 31) 12
              (setf 1 11 (concat_bits [(1, rng w 7 7), (6, rng w 30 25), (4, rng w 11 8)]) 0)\<rparr>
      in if op2 = 0 then dec Instr_BEQ d
         else if op2 = 1 then dec Instr_BNE d
         else if op2 = 4 then dec Instr_BLT d
         else if op2 = 5 then dec Instr_BGE d
         else if op2 = 6 then dec Instr_BLTU d
         else if op2 = 7 then dec Instr_BGEU d
         else err d)"

definition rv_JAL :: "u32 \<Rightarrow> dec_vars \<Rightarrow> dec_vars" where
  "rv_JAL w d =
     dec Instr_JAL ((isa ISA_UJ_type d)\<lparr>vb_waddr := rng w 11 7,
       vb_imm := fill_sign (bit w 31) 20
         (setf 1 19 (concat_bits [(8, rng w 19 12), (1, rng w 20 20), (10, rng w 30 21)]) 0)\<rparr>)"

definition rv_JALR :: "u32 \<Rightarrow> dec_vars \<Rightarrow> dec_vars" where
  "rv_JALR w d =
     (let op2 = rng w 14 12 :: u32; d = I_ops w d
      in if op2 = 0 then dec Instr_JALR d else err d)"

definition rv_LB :: "u32 \<Rightarrow> dec_vars \<Rightarrow> dec_vars" where
  "rv_LB w d =
     (let op2 = rng w 14 12 :: u32; d = I_ops w d
      in if op2 = 0 then dec Instr_LB d
         else if op2 = 1 then dec Instr_LH d
         else if op2 = 2 then dec Instr_LW d
         else if op2 = 3 then dec Instr_LD d
         else if op2 = 4 then dec Instr_LBU d
         else if op2 = 5 then dec Instr_LHU d
         else if op2 = 6 then dec Instr_LWU d
         else err d)"

definition S_ops :: "u32 \<Rightarrow> dec_vars \<Rightarrow> dec_vars" where
  "S_ops w d = (isa ISA_S_type d)\<lparr>vb_radr1 := rng w 19 15, vb_radr2 := rng w 24 20,
     vb_imm := fill_sign (bit w 31) 12
       (setf 0 12 (concat_bits [(7, rng w 31 25), (5, rng w 11 7)]) 0)\<rparr>"

definition rv_SB :: "u32 \<Rightarrow> dec_vars \<Rightarrow> dec_vars" where
  "rv_SB w d =
     (let op2 = rng w 14 12 :: u32; d = S_ops w d
      in if op2 = 0 then dec Instr_SB d
         else if op2 = 1 then dec Instr_SH d
         else if op2 = 2 then dec Instr_SW d
         else if op2 = 3 then dec Instr_SD d
         else err d)"

definition rv_CSRR :: "u32 \<Rightarrow> dec_vars \<Rightarrow> dec_vars" where
  "rv_CSRR w d =
     (let op2 = rng w 14 12 :: u32; d = (I_ops w d)\<lparr>vb_csr_addr := rng w 31 20\<rparr>
      in if op2 = 0 then
           (if w = 0x00000073 then dec Instr_ECALL d
            else if w = 0x00100073 then dec Instr_EBREAK d
            else if w = 0x00200073 then dec Instr_URET d
            else if w = 0x10200073 then dec Instr_SRET d
            else if w = 0x10500073 then dec Instr_WFI d
            else if w = 0x20200073 then dec Instr_HRET d
            else if w = 0x30200073 then dec Instr_MRET d
            else if (rng w 31 25 :: u32) = 0x09 \<and> vb_waddr d = 0 then dec Instr_SFENCE_VMA d
            else err d)
         else if op2 = 1 then dec Instr_CSRRW d
         else if op2 = 2 then dec Instr_CSRRS d
         else if op2 = 3 then dec Instr_CSRRC d
         else if op2 = 5 then dec Instr_CSRRWI d
         else if op2 = 6 then dec Instr_CSRRSI d
         else if op2 = 7 then dec Instr_CSRRCI d
         else err d)"

definition rv_FENCE :: "u32 \<Rightarrow> dec_vars \<Rightarrow> dec_vars" where
  "rv_FENCE w d =
     (let op2 = rng w 14 12 :: u32
      in if op2 = 0 then dec Instr_FENCE d else if op2 = 1 then dec Instr_FENCE_I d else err d)"


subsubsection \<open>Loads, stores and operations of the FPU\<close>

definition rv_FPU_LD :: "u32 \<Rightarrow> dec_vars \<Rightarrow> dec_vars" where
  "rv_FPU_LD w d =
     (let d = (I_ops w d)\<lparr>vb_waddr := 32 OR rng w 11 7\<rparr>
      in if (rng w 14 12 :: u32) = 3 then dec Instr_FLD d else err d)"

definition rv_FPU_SD :: "u32 \<Rightarrow> dec_vars \<Rightarrow> dec_vars" where
  "rv_FPU_SD w d =
     (let d = (S_ops w d)\<lparr>vb_radr2 := 32 OR rng w 24 20\<rparr>
      in if (rng w 14 12 :: u32) = 3 then dec Instr_FSD d else err d)"

definition rv_FPU_OP :: "u32 \<Rightarrow> dec_vars \<Rightarrow> dec_vars" where
  "rv_FPU_OP w d =
     (let op2 = rng w 14 12 :: u32; funct7 = rng w 31 25 :: u32; rs2 = rng w 24 20 :: u32;
          d = (isa ISA_R_type d)\<lparr>vb_radr1 := 32 OR rng w 19 15, vb_radr2 := 32 OR rng w 24 20,
                vb_waddr := 32 OR rng w 11 7\<rparr>;
          int_rd = d\<lparr>vb_waddr := setf 5 1 0 (vb_waddr d)\<rparr>;
          int_rs = d\<lparr>vb_radr1 := setf 5 1 0 (vb_radr1 d)\<rparr>
      in if funct7 = 0x01 then dec Instr_FADD_D d
         else if funct7 = 0x05 then dec Instr_FSUB_D d
         else if funct7 = 0x09 then dec Instr_FMUL_D d
         else if funct7 = 0x0D then dec Instr_FDIV_D d
         else if funct7 = 0x15 then
           (if op2 = 0 then dec Instr_FMIN_D d
            else if op2 = 1 then dec Instr_FMAX_D d else err d)
         else if funct7 = 0x51 then
           (if op2 = 0 then dec Instr_FLE_D int_rd
            else if op2 = 1 then dec Instr_FLT_D int_rd
            else if op2 = 2 then dec Instr_FEQ_D int_rd else err int_rd)
         else if funct7 = 0x61 then
           (if rs2 = 0 then dec Instr_FCVT_W_D int_rd
            else if rs2 = 1 then dec Instr_FCVT_WU_D int_rd
            else if rs2 = 2 then dec Instr_FCVT_L_D int_rd
            else if rs2 = 3 then dec Instr_FCVT_LU_D int_rd else err int_rd)
         else if funct7 = 0x69 then
           (if rs2 = 0 then dec Instr_FCVT_D_W int_rs
            else if rs2 = 1 then dec Instr_FCVT_D_WU int_rs
            else if rs2 = 2 then dec Instr_FCVT_D_L int_rs
            else if rs2 = 3 then dec Instr_FCVT_D_LU int_rs else err int_rs)
         else if funct7 = 0x71 then
           (if rs2 = 0 \<and> op2 = 0 then dec Instr_FMOV_X_D int_rd else err int_rd)
         else if funct7 = 0x79 then
           (if rs2 = 0 \<and> op2 = 0 then dec Instr_FMOV_D_X int_rs else err int_rs)
         else err d)"

subsection \<open>dec_rv.cpp: the process comb\<close>

definition rv_cases :: "bool \<Rightarrow> u32 \<Rightarrow> dec_vars" where
  "rv_cases fpu_ena w =
     (let op1 = rng w 6 2 :: u32; d = dec_init
      in if op1 = 0x0B then rv_AMO w d
         else if op1 = 0x0C then rv_ADD w d
         else if op1 = 0x04 then rv_ADDI w d
         else if op1 = 0x06 then rv_ADDIW w d
         else if op1 = 0x0E then rv_ADDW w d
         else if op1 = 0x05 then dec Instr_AUIPC (U_ops w d)
         else if op1 = 0x18 then rv_BEQ w d
         else if op1 = 0x1B then rv_JAL w d
         else if op1 = 0x19 then rv_JALR w d
         else if op1 = 0x00 then rv_LB w d
         else if op1 = 0x0D then dec Instr_LUI (U_ops w d)
         else if op1 = 0x08 then rv_SB w d
         else if op1 = 0x1C then rv_CSRR w d
         else if op1 = 0x03 then rv_FENCE w d
         else if fpu_ena then
           (if op1 = 0x01 then rv_FPU_LD w d
            else if op1 = 0x09 then rv_FPU_SD w d
            else if op1 = 0x14 then rv_FPU_OP w d
            else err d)
         else err d)"

text \<open>The control signals that are disjunctions of bits of \<open>vb_dec\<close>.\<close>

definition amo_of :: "(u8 \<Rightarrow> bool) \<Rightarrow> bool" where
  "amo_of i \<longleftrightarrow>
     i Instr_AMOADD_W \<or> i Instr_AMOXOR_W \<or> i Instr_AMOOR_W \<or> i Instr_AMOAND_W
     \<or> i Instr_AMOMIN_W \<or> i Instr_AMOMAX_W \<or> i Instr_AMOMINU_W \<or>
     i Instr_AMOMAXU_W \<or> i Instr_AMOSWAP_W \<or> i Instr_AMOADD_D \<or> i Instr_AMOXOR_D
     \<or> i Instr_AMOOR_D \<or> i Instr_AMOAND_D \<or> i Instr_AMOMIN_D \<or>
     i Instr_AMOMAX_D \<or> i Instr_AMOMINU_D \<or> i Instr_AMOMAXU_D \<or>
     i Instr_AMOSWAP_D"

definition memop_store_of :: "(u8 \<Rightarrow> bool) \<Rightarrow> bool" where
  "memop_store_of i \<longleftrightarrow>
     i Instr_SD \<or> i Instr_SW \<or> i Instr_SH \<or> i Instr_SB \<or> i Instr_FSD \<or>
     i Instr_SC_W \<or> i Instr_SC_D"

definition memop_load_of :: "(u8 \<Rightarrow> bool) \<Rightarrow> bool" where
  "memop_load_of i \<longleftrightarrow>
     i Instr_LD \<or> i Instr_LW \<or> i Instr_LH \<or> i Instr_LB \<or> i Instr_LWU \<or>
     i Instr_LHU \<or> i Instr_LBU \<or> i Instr_FLD \<or> i Instr_AMOADD_W \<or>
     i Instr_AMOXOR_W \<or> i Instr_AMOOR_W \<or> i Instr_AMOAND_W \<or> i Instr_AMOMIN_W
     \<or> i Instr_AMOMAX_W \<or> i Instr_AMOMINU_W \<or> i Instr_AMOMAXU_W \<or>
     i Instr_AMOSWAP_W \<or> i Instr_LR_W \<or> i Instr_AMOADD_D \<or> i Instr_AMOXOR_D
     \<or> i Instr_AMOOR_D \<or> i Instr_AMOAND_D \<or> i Instr_AMOMIN_D \<or>
     i Instr_AMOMAX_D \<or> i Instr_AMOMINU_D \<or> i Instr_AMOMAXU_D \<or>
     i Instr_AMOSWAP_D \<or> i Instr_LR_D"

definition memop_sign_ext_of :: "(u8 \<Rightarrow> bool) \<Rightarrow> bool" where
  "memop_sign_ext_of i \<longleftrightarrow>
     i Instr_LD \<or> i Instr_LW \<or> i Instr_LH \<or> i Instr_LB \<or> i Instr_AMOADD_W
     \<or> i Instr_AMOXOR_W \<or> i Instr_AMOOR_W \<or> i Instr_AMOAND_W \<or>
     i Instr_AMOMIN_W \<or> i Instr_AMOMAX_W \<or> i Instr_AMOMINU_W \<or> i Instr_AMOMAXU_W
     \<or> i Instr_AMOSWAP_W \<or> i Instr_LR_W"

definition f64_of :: "(u8 \<Rightarrow> bool) \<Rightarrow> bool" where
  "f64_of i \<longleftrightarrow>
     i Instr_FADD_D \<or> i Instr_FSUB_D \<or> i Instr_FMUL_D \<or> i Instr_FDIV_D \<or>
     i Instr_FMIN_D \<or> i Instr_FMAX_D \<or> i Instr_FLE_D \<or> i Instr_FLT_D \<or>
     i Instr_FEQ_D \<or> i Instr_FCVT_W_D \<or> i Instr_FCVT_WU_D \<or> i Instr_FCVT_L_D
     \<or> i Instr_FCVT_LU_D \<or> i Instr_FMOV_X_D \<or> i Instr_FCVT_D_W \<or>
     i Instr_FCVT_D_WU \<or> i Instr_FCVT_D_L \<or> i Instr_FCVT_D_LU \<or> i Instr_FMOV_D_X
     \<or> i Instr_FLD \<or> i Instr_FSD"

definition memop_size_of :: "(u8 \<Rightarrow> bool) \<Rightarrow> 2 word" where
  "memop_size_of i =
     (if
        i Instr_LD \<or> i Instr_SD \<or> i Instr_FLD \<or> i Instr_FSD \<or>
        i Instr_AMOADD_D \<or> i Instr_AMOXOR_D \<or> i Instr_AMOOR_D \<or> i Instr_AMOAND_D
        \<or> i Instr_AMOMIN_D \<or> i Instr_AMOMAX_D \<or> i Instr_AMOMINU_D \<or>
        i Instr_AMOMAXU_D \<or> i Instr_AMOSWAP_D \<or> i Instr_LR_D \<or> i Instr_SC_D
      then MEMOP_8B
      else if
        i Instr_LW \<or> i Instr_LWU \<or> i Instr_SW \<or> i Instr_AMOADD_W \<or>
        i Instr_AMOXOR_W \<or> i Instr_AMOOR_W \<or> i Instr_AMOAND_W \<or> i Instr_AMOMIN_W
        \<or> i Instr_AMOMAX_W \<or> i Instr_AMOMINU_W \<or> i Instr_AMOMAXU_W \<or>
        i Instr_AMOSWAP_W \<or> i Instr_LR_W \<or> i Instr_SC_W
      then MEMOP_4B
      else if i Instr_LH \<or> i Instr_LHU \<or> i Instr_SH then MEMOP_2B
      else MEMOP_1B)"

definition unsigned_op_of :: "(u8 \<Rightarrow> bool) \<Rightarrow> bool" where
  "unsigned_op_of i \<longleftrightarrow>
     i Instr_DIVU \<or> i Instr_REMU \<or> i Instr_DIVUW \<or> i Instr_REMUW \<or>
     i Instr_MULHU \<or> i Instr_FCVT_WU_D \<or> i Instr_FCVT_LU_D \<or> i Instr_AMOMINU_W
     \<or> i Instr_AMOMAXU_W \<or> i Instr_AMOMINU_D \<or> i Instr_AMOMAXU_D"

definition rv32_of :: "(u8 \<Rightarrow> bool) \<Rightarrow> bool" where
  "rv32_of i \<longleftrightarrow>
     i Instr_ADDW \<or> i Instr_ADDIW \<or> i Instr_SLLW \<or> i Instr_SLLIW \<or>
     i Instr_SRAW \<or> i Instr_SRAIW \<or> i Instr_SRLW \<or> i Instr_SRLIW \<or>
     i Instr_SUBW \<or> i Instr_DIVW \<or> i Instr_DIVUW \<or> i Instr_MULW \<or>
     i Instr_REMW \<or> i Instr_REMUW \<or> i Instr_AMOADD_W \<or> i Instr_AMOXOR_W \<or>
     i Instr_AMOOR_W \<or> i Instr_AMOAND_W \<or> i Instr_AMOMIN_W \<or> i Instr_AMOMAX_W
     \<or> i Instr_AMOMINU_W \<or> i Instr_AMOMAXU_W \<or> i Instr_AMOSWAP_W \<or>
     i Instr_LR_W \<or> i Instr_SC_W"

text \<open>The inputs of a decoder, its registers (\<open>DecoderRv_registers\<close>), the reset value.\<close>

record dec_in =
  i_nrst :: bool
  i_flush_pipeline :: bool
  i_progbuf_ena :: bool
  i_f_pc :: u64
  i_f_instr :: u32
  i_instr_load_fault :: bool
  i_instr_page_fault_x :: bool

record dec_regs =
  d_pc :: u64
  d_isa_type :: "u8 \<Rightarrow> bool"
  d_instr_vec :: "u8 \<Rightarrow> bool"
  d_instr :: u32
  d_memop_store :: bool
  d_memop_load :: bool
  d_memop_sign_ext :: bool
  d_memop_size :: "2 word"
  d_unsigned_op :: bool
  d_rv32 :: bool
  d_f64 :: bool
  d_compressed :: bool
  d_amo :: bool
  d_instr_load_fault :: bool
  d_instr_page_fault_x :: bool
  d_instr_unimplemented :: bool
  d_radr1 :: u6
  d_radr2 :: u6
  d_waddr :: u6
  d_csr_addr :: "12 word"
  d_imm :: u64
  d_progbuf_ena :: bool

definition DecoderRv_r_reset :: dec_regs where
  "DecoderRv_r_reset =
     \<lparr>d_pc = NOT 0, d_isa_type = (\<lambda>_. False), d_instr_vec = (\<lambda>_. False), d_instr = NOT 0,
      d_memop_store = False, d_memop_load = False, d_memop_sign_ext = False,
      d_memop_size = MEMOP_1B, d_unsigned_op = False, d_rv32 = False, d_f64 = False,
      d_compressed = False, d_amo = False, d_instr_load_fault = False,
      d_instr_page_fault_x = False, d_instr_unimplemented = False, d_radr1 = 0, d_radr2 = 0,
      d_waddr = 0, d_csr_addr = 0, d_imm = 0, d_progbuf_ena = False\<rparr>"

definition DecoderRv_comb :: "bool \<Rightarrow> bool \<Rightarrow> dec_in \<Rightarrow> dec_regs" where
  "DecoderRv_comb async_reset fpu_ena x =
     (let w = i_f_instr x; d = rv_cases fpu_ena w; i = vb_dec d
      in if (\<not> async_reset \<and> \<not> i_nrst x) \<or> i_flush_pipeline x then DecoderRv_r_reset
         else \<lparr>d_pc = i_f_pc x, d_isa_type = vb_isa_type d, d_instr_vec = i, d_instr = w,
           d_memop_store = memop_store_of i, d_memop_load = memop_load_of i,
           d_memop_sign_ext = memop_sign_ext_of i, d_memop_size = memop_size_of i,
           d_unsigned_op = unsigned_op_of i, d_rv32 = rv32_of i, d_f64 = f64_of i,
           d_compressed = (rng w 1 0 \<noteq> (3 :: u32)), d_amo = amo_of i,
           d_instr_load_fault = i_instr_load_fault x,
           d_instr_page_fault_x = i_instr_page_fault_x x, d_instr_unimplemented = v_error d,
           d_radr1 = vb_radr1 d, d_radr2 = vb_radr2 d, d_waddr = vb_waddr d,
           d_csr_addr = vb_csr_addr d, d_imm = vb_imm d, d_progbuf_ena = i_progbuf_ena x\<rparr>)"

text \<open>The clock edge: the next contents of the registers.\<close>

definition DecoderRv_registers :: "bool \<Rightarrow> bool \<Rightarrow> dec_in \<Rightarrow> dec_regs" where
  "DecoderRv_registers async_reset fpu_ena x =
     (if async_reset \<and> \<not> i_nrst x then DecoderRv_r_reset else DecoderRv_comb async_reset fpu_ena x)"

text \<open>The decoded instruction that the registers hold.\<close>

definition signals :: "dec_regs \<Rightarrow> dec_vars" where
  "signals r = \<lparr>v_error = d_instr_unimplemented r, vb_dec = d_instr_vec r, vb_isa_type = d_isa_type r,
     vb_radr1 = d_radr1 r, vb_radr2 = d_radr2 r, vb_waddr = d_waddr r, vb_csr_addr = d_csr_addr r,
     vb_imm = d_imm r\<rparr>"

definition running :: "dec_in \<Rightarrow> bool" where
  "running x \<longleftrightarrow> i_nrst x \<and> \<not> i_flush_pipeline x"

lemma signals_rv:
  "running x \<Longrightarrow> signals (DecoderRv_registers ar fpu x) = rv_cases fpu (i_f_instr x)"
  by (simp add: running_def signals_def DecoderRv_registers_def DecoderRv_comb_def Let_def)

end
