(* ===== verification/Rtl_Mul.thy ===== *)
theory Rtl_Mul
  imports Rtl_Types Isa_Facts
begin

section \<open>The pipelined multiplier of the RTL core\<close>

text \<open>
  sc/rtl/riverlib/core/arith/int_mul.cpp: a tree of adders over the 32 base-4 digits of the
  second operand, cut into three stages by the shift register \<open>ena\<close>.  The signals keep the
  widths of the source (66, 69, 74, 83, 100 and 128 bits); the proofs show that no level
  overflows.
\<close>

record mul_in =
  mi_ena :: bool
  mi_unsigned :: bool
  mi_hsu :: bool
  mi_high :: bool
  mi_rv32 :: bool
  mi_a1 :: u64
  mi_a2 :: u64

record mul_regs =
  m_busy :: bool
  m_ena :: "4 word"
  m_a1 :: u64
  m_a2 :: u64
  m_unsign :: bool
  m_high :: bool
  m_rv32 :: bool
  m_zero :: bool
  m_inv :: bool
  m_result :: "128 word"
  m_a1_dbg :: u64
  m_a2_dbg :: u64
  m_reference_mul :: u64
  m_lvl1 :: "nat \<Rightarrow> 69 word"
  m_lvl3 :: "nat \<Rightarrow> 83 word"

definition IntMul_r_reset :: mul_regs where
  "IntMul_r_reset = \<lparr>m_busy = False, m_ena = 0, m_a1 = 0, m_a2 = 0, m_unsign = False, m_high = False,
     m_rv32 = False, m_zero = False, m_inv = False, m_result = 0, m_a1_dbg = 0, m_a2_dbg = 0,
     m_reference_mul = 0, m_lvl1 = (\<lambda>_. 0), m_lvl3 = (\<lambda>_. 0)\<rparr>"

subsection \<open>The process comb\<close>

text \<open>\<open>vb_a1s\<close>, \<open>vb_a2s\<close>: the absolute value, but for the least value, which stays.\<close>

definition mul_nzero :: "u64 \<Rightarrow> bool" where
  "mul_nzero a \<longleftrightarrow> (rng a 62 0 :: u64) \<noteq> 0"

definition mul_abs :: "u64 \<Rightarrow> u64" where
  "mul_abs a = (if mul_nzero a \<and> bit a 63 then NOT a + 1 else a)"

definition mul_sext :: "bool \<Rightarrow> u64 \<Rightarrow> u64" where
  "mul_sext uns a =
     (let x = rng a 31 0 in if \<not> uns \<and> bit a 31 then setf 32 32 (NOT 0) x else x)"

definition IntMul_start :: "mul_in \<Rightarrow> mul_regs \<Rightarrow> mul_regs" where
  "IntMul_start x v =
     (let v = v\<lparr>m_busy := True, m_inv := False, m_zero := False\<rparr>;
          (v, vb_a1, vb_a2) =
            (if mi_rv32 x then (v, mul_sext (mi_unsigned x) (mi_a1 x), mul_sext (mi_unsigned x) (mi_a2 x))
             else if mi_high x then
               (if mi_hsu x then
                  ((if \<not> mul_nzero (mi_a1 x) \<or> mi_a2 x = 0 then v\<lparr>m_zero := True\<rparr> else v)
                     \<lparr>m_inv := bit (mi_a1 x) 63\<rparr>, mul_abs (mi_a1 x), mi_a2 x)
                else if mi_unsigned x then (v, mi_a1 x, mi_a2 x)
                else (v\<lparr>m_zero := \<not> mul_nzero (mi_a1 x) \<or> \<not> mul_nzero (mi_a2 x),
                        m_inv := bit (mi_a1 x) 63 \<noteq> bit (mi_a2 x) 63\<rparr>,
                      mul_abs (mi_a1 x), mul_abs (mi_a2 x)))
             else (v, mi_a1 x, mi_a2 x))
      in v\<lparr>m_a1 := vb_a1, m_a2 := vb_a2, m_rv32 := mi_rv32 x, m_unsign := mi_unsigned x,
           m_high := mi_high x, m_a1_dbg := mi_a1 x, m_a2_dbg := mi_a2 x\<rparr>)"

definition mul_lvl0 :: "u64 \<Rightarrow> u64 \<Rightarrow> nat \<Rightarrow> 66 word" where
  "mul_lvl0 a1 a2 i =
     (let wb_mux_lvl0 = rng a2 (2 * i + 1) (2 * i) :: 2 word
      in if wb_mux_lvl0 = 0 then 0
         else if wb_mux_lvl0 = 1 then ucast a1
         else if wb_mux_lvl0 = 2 then push_bit 1 (ucast a1)
         else ucast a1 + push_bit 1 (ucast a1))"

definition mul_lvl1 :: "(nat \<Rightarrow> 66 word) \<Rightarrow> nat \<Rightarrow> 69 word" where
  "mul_lvl1 wb_lvl0 i = push_bit 2 (ucast (wb_lvl0 (2 * i + 1))) + ucast (wb_lvl0 (2 * i))"

definition mul_lvl2 :: "(nat \<Rightarrow> 69 word) \<Rightarrow> nat \<Rightarrow> 74 word" where
  "mul_lvl2 lvl1 i = push_bit 4 (ucast (lvl1 (2 * i + 1))) + ucast (lvl1 (2 * i))"

definition mul_lvl3 :: "(nat \<Rightarrow> 74 word) \<Rightarrow> nat \<Rightarrow> 83 word" where
  "mul_lvl3 wb_lvl2 i = push_bit 8 (ucast (wb_lvl2 (2 * i + 1))) + ucast (wb_lvl2 (2 * i))"

definition mul_lvl4 :: "(nat \<Rightarrow> 83 word) \<Rightarrow> nat \<Rightarrow> 100 word" where
  "mul_lvl4 lvl3 i = push_bit 16 (ucast (lvl3 (2 * i + 1))) + ucast (lvl3 (2 * i))"

definition mul_lvl5 :: "(nat \<Rightarrow> 100 word) \<Rightarrow> 128 word" where
  "mul_lvl5 wb_lvl4 = push_bit 32 (ucast (wb_lvl4 1)) + ucast (wb_lvl4 0)"

text \<open>The last stage; \<open>~0ull\<close> fills 64 of the 96 bits above a negative 32-bit result.\<close>

definition mul_result :: "mul_regs \<Rightarrow> 128 word" where
  "mul_result r =
     (let wb_lvl5 = mul_lvl5 (mul_lvl4 (m_lvl3 r))
      in if m_rv32 r then
           (let wb_res32 = setf 0 32 wb_lvl5 0
            in if m_unsign r \<or> \<not> bit wb_lvl5 31 then setf 32 96 0 wb_res32
               else setf 32 96 (ucast (NOT 0 :: u64)) wb_res32)
         else if m_high r then
           (if m_zero r then 0 else if m_inv r then NOT wb_lvl5 else wb_lvl5)
         else wb_lvl5)"

definition IntMul_comb :: "bool \<Rightarrow> bool \<Rightarrow> mul_in \<Rightarrow> mul_regs \<Rightarrow> mul_regs" where
  "IntMul_comb ar nrst x r =
     (let v = r\<lparr>m_ena := concat_bits [(3, rng (m_ena r) 2 0), (1, of_bool (mi_ena x \<and> \<not> m_busy r))]\<rparr>;
          v = (if mi_ena x then IntMul_start x v else v);
          v = (if bit (m_ena r) 0 then v\<lparr>m_lvl1 := mul_lvl1 (mul_lvl0 (m_a1 r) (m_a2 r))\<rparr> else v);
          v = (if bit (m_ena r) 1 then v\<lparr>m_lvl3 := mul_lvl3 (mul_lvl2 (m_lvl1 r))\<rparr> else v);
          v = (if bit (m_ena r) 2 then v\<lparr>m_busy := False, m_result := mul_result r\<rparr> else v)
      in sync_reset ar nrst IntMul_r_reset v)"

definition IntMul_registers :: "bool \<Rightarrow> bool \<Rightarrow> mul_in \<Rightarrow> mul_regs \<Rightarrow> mul_regs" where
  "IntMul_registers ar nrst x r = clock_edge ar nrst IntMul_r_reset (IntMul_comb ar nrst x r)"

definition IntMul_o_res :: "mul_regs \<Rightarrow> u64" where
  "IntMul_o_res r = (if m_high r then rng (m_result r) 127 64 else rng (m_result r) 63 0)"

definition IntMul_o_valid :: "mul_regs \<Rightarrow> bool" where
  "IntMul_o_valid r = bit (m_ena r) 3"

subsection \<open>The tree of adders\<close>

lemma unat_sum_shift:
  fixes h :: "'a::len word" and l :: "'a word"
  assumes "unat h * 2 ^ s + unat l < 2 ^ LENGTH('b)" and "LENGTH('a) \<le> LENGTH('b)"
  shows "unat (push_bit s (ucast h) + ucast l :: 'b::len word) = unat h * 2 ^ s + unat l"
proof -
  have "unat h < 2 ^ LENGTH('b)" "unat l < 2 ^ LENGTH('b)"
    using assms(2) unsigned_less [of h, where 'a = nat] unsigned_less [of l, where 'a = nat]
    by (metis less_le_trans one_le_numeral power_increasing)+
  then have u: "unat (ucast h :: 'b word) = unat h" "unat (ucast l :: 'b word) = unat l"
    by (simp_all add: unsigned_ucast_eq take_bit_nat_eq_self)
  have "unat (push_bit s (ucast h :: 'b word)) = take_bit LENGTH('b) (push_bit s (unat h))"
    by (simp only: unsigned_push_bit_eq u)
  also have "\<dots> = unat h * 2 ^ s"
    unfolding push_bit_eq_mult using assms(1) by (intro take_bit_nat_eq_self) linarith
  finally have "unat (push_bit s (ucast h :: 'b word)) = unat h * 2 ^ s" .
  then show ?thesis
    using assms(1) u by (subst unat_plus_if') simp
qed

lemma mul_digit:
  "unat (mul_lvl0 a1 a2 i) = unat a1 * (unat a2 div 4 ^ i mod 4)"
proof -
  define d where "d = (getf (2 * i) 2 a2 :: 2 word)"
  have d: "unat d = unat a2 div 4 ^ i mod 4"
  proof -
    have "unat d = unat (take_bit 2 (drop_bit (2 * i) a2))"
      unfolding d_def getf_def
      by (simp add: unsigned_ucast_eq unsigned_take_bit_eq numeral_2_eq_2 [symmetric])
    also have "\<dots> = take_bit 2 (drop_bit (2 * i) (unat a2))"
      by (simp only: unsigned_take_bit_eq unat_drop_bit_eq)
    also have "\<dots> = unat a2 div 4 ^ i mod 4"
      by (simp add: take_bit_eq_mod drop_bit_eq_div power_mult)
    finally show ?thesis .
  qed
  have "unat a1 < 2 ^ 64" using unsigned_less [of a1, where 'a = nat] by simp
  then have a: "unat (ucast a1 :: 66 word) = unat a1"
    by (simp add: unsigned_ucast_eq take_bit_nat_eq_self)
  have "d = 0 \<or> d = 1 \<or> d = 2 \<or> d = 3"
  proof -
    have "unat d < 2 ^ LENGTH(2)" by (rule unsigned_less)
    then have "unat d = 0 \<or> unat d = 1 \<or> unat d = 2 \<or> unat d = 3" by auto
    then show ?thesis by (simp add: word_eq_iff_unsigned [where 'a = nat])
  qed
  then show ?thesis
    using \<open>unat a1 < 2 ^ 64\<close> d
    by (auto simp: mul_lvl0_def Let_def d_def [symmetric] a unat_word_ariths)
qed

text \<open>
  What \<open>k\<close> consecutive base-4 digits from digit \<open>i\<close> on contribute; each level joins two
  neighbours.
\<close>

definition digits :: "u64 \<Rightarrow> nat \<Rightarrow> nat \<Rightarrow> nat" where
  "digits b k i = unat b div 4 ^ i mod 4 ^ k"

lemma digits_less: "digits b k i < 4 ^ k"
  by (simp add: digits_def)

lemma digits_join: "digits b k (i + k) * 4 ^ k + digits b k i = digits b (2 * k) i"
proof -
  have "unat b div 4 ^ i mod (4 ^ k * 4 ^ k)
      = 4 ^ k * (unat b div 4 ^ i div 4 ^ k mod 4 ^ k) + unat b div 4 ^ i mod 4 ^ k"
    by (rule mod_mult2_eq)
  moreover have "(4::nat) ^ (2 * k) = 4 ^ k * 4 ^ k" by (simp only: mult_2 power_add)
  ultimately show ?thesis
    by (simp add: digits_def power_add div_mult2_eq mult.commute)
qed

lemma level:
  fixes h :: "'a::len word" and l :: "'a word"
  assumes "unat h = unat a * digits b k (i + k)" and "unat l = unat a * digits b k i"
    and "64 + 4 * k \<le> LENGTH('b)" and "LENGTH('a) \<le> LENGTH('b)"
  shows "unat (push_bit (2 * k) (ucast h) + ucast l :: 'b::len word) = unat (a :: u64) * digits b (2 * k) i"
proof -
  have four: "(2 :: nat) ^ (2 * k) = 4 ^ k" by (simp add: power_mult)
  have eq: "unat h * 2 ^ (2 * k) + unat l = unat a * digits b (2 * k) i"
    unfolding digits_join [symmetric] assms(1,2) four by (simp add: algebra_simps)
  have "unat a * digits b (2 * k) i < 2 ^ 64 * 4 ^ (2 * k)"
    using unsigned_less [of a, where 'a = nat] digits_less [of b "2 * k" i]
    by (intro mult_strict_mono) auto
  also have "\<dots> = 2 ^ (64 + 4 * k)"
    by (simp add: power_add power_mult)
  also have "\<dots> \<le> 2 ^ LENGTH('b)"
    using assms(3) by (intro power_increasing) auto
  finally show ?thesis
    using unat_sum_shift [of h "2 * k" l, where 'b = 'b] assms(4) eq by simp
qed

lemma mul_tree_1: "i < 16 \<Longrightarrow> unat (mul_lvl1 (mul_lvl0 a1 a2) i) = unat a1 * digits a2 2 (2 * i)"
  using level [where 'a = 66 and 'b = 69 and k = 1 and a = a1 and b = a2 and i = "2 * i"
      and h = "mul_lvl0 a1 a2 (2 * i + 1)" and l = "mul_lvl0 a1 a2 (2 * i)"]
  by (simp add: mul_lvl1_def mul_digit digits_def numeral_2_eq_2)

lemma mul_tree_2: "i < 8 \<Longrightarrow> unat (mul_lvl2 (mul_lvl1 (mul_lvl0 a1 a2)) i) = unat a1 * digits a2 4 (4 * i)"
  using level [where 'a = 69 and 'b = 74 and k = 2 and a = a1 and b = a2 and i = "4 * i"
      and h = "mul_lvl1 (mul_lvl0 a1 a2) (2 * i + 1)" and l = "mul_lvl1 (mul_lvl0 a1 a2) (2 * i)"]
  by (simp add: mul_lvl2_def mul_tree_1)

lemma mul_tree_3:
  "i < 4 \<Longrightarrow> unat (mul_lvl3 (mul_lvl2 (mul_lvl1 (mul_lvl0 a1 a2))) i) = unat a1 * digits a2 8 (8 * i)"
  using level [where 'a = 74 and 'b = 83 and k = 4 and a = a1 and b = a2 and i = "8 * i"
      and h = "mul_lvl2 (mul_lvl1 (mul_lvl0 a1 a2)) (2 * i + 1)" and l = "mul_lvl2 (mul_lvl1 (mul_lvl0 a1 a2)) (2 * i)"]
  by (simp add: mul_lvl3_def mul_tree_2 add.commute)

text \<open>The registers between the stages hold the first and third level.\<close>

lemma mul_tree:
  "unat (mul_lvl5 (mul_lvl4 (mul_lvl3 (mul_lvl2 (mul_lvl1 (mul_lvl0 a1 a2)))))) = unat a1 * unat a2"
proof -
  let ?l3 = "mul_lvl3 (mul_lvl2 (mul_lvl1 (mul_lvl0 a1 a2)))"
  have l4: "i < 2 \<Longrightarrow> unat (mul_lvl4 ?l3 i) = unat a1 * digits a2 16 (16 * i)" for i
    using level [where 'a = 83 and 'b = 100 and k = 8 and a = a1 and b = a2 and i = "16 * i"
        and h = "?l3 (2 * i + 1)" and l = "?l3 (2 * i)"]
    by (simp add: mul_lvl4_def mul_tree_3 add.commute)
  have "digits a2 32 0 = unat a2"
    using unsigned_less [of a2, where 'a = nat] by (simp add: digits_def)
  then show ?thesis
    using level [where 'a = 100 and 'b = 128 and k = 16 and a = a1 and b = a2 and i = 0
        and h = "mul_lvl4 ?l3 1" and l = "mul_lvl4 ?l3 0"]
    by (simp add: mul_lvl5_def l4)
qed

subsection \<open>A multiplication in four clock cycles\<close>

text \<open>No operation is under way; the last result may still be flagged.\<close>

definition mul_idle :: "mul_regs \<Rightarrow> bool" where
  "mul_idle r \<longleftrightarrow> \<not> m_busy r \<and> \<not> bit (m_ena r) 0 \<and> \<not> bit (m_ena r) 1 \<and> \<not> bit (m_ena r) 2"

text \<open>A clock cycle out of reset.\<close>

definition mul_cycle :: "mul_in \<Rightarrow> mul_regs \<Rightarrow> mul_regs" where
  "mul_cycle = IntMul_registers False True"

lemma registers_cycle: "IntMul_registers ar True x r = mul_cycle x r"
  by (simp add: mul_cycle_def IntMul_registers_def IntMul_comb_def Let_def)

lemma shift_in:
  fixes e e' :: "4 word"
  assumes "e' = concat_bits [(3, rng e 2 0), (1, of_bool b)]"
  shows "bit e' n \<longleftrightarrow> n < 4 \<and> (if n = 0 then b else bit e (n - 1))"
  unfolding assms by (auto simp: bit_simps bit_getf simp del: push_bit_Suc)

lemma mul_cycle_ena:
  "bit (m_ena (mul_cycle x r)) n \<longleftrightarrow>
     n < 4 \<and> (if n = 0 then mi_ena x \<and> \<not> m_busy r else bit (m_ena r) (n - 1))"
  by (rule shift_in)
    (simp add: mul_cycle_def IntMul_registers_def IntMul_comb_def IntMul_start_def Let_def case_prod_beta
      del: concat_bits.simps)

lemma mul_cycle_fields:
  "m_busy (mul_cycle x r) = (if bit (m_ena r) 2 then False else mi_ena x \<or> m_busy r)"
  "m_lvl1 (mul_cycle x r) = (if bit (m_ena r) 0 then mul_lvl1 (mul_lvl0 (m_a1 r) (m_a2 r)) else m_lvl1 r)"
  "m_lvl3 (mul_cycle x r) = (if bit (m_ena r) 1 then mul_lvl3 (mul_lvl2 (m_lvl1 r)) else m_lvl3 r)"
  "m_result (mul_cycle x r) = (if bit (m_ena r) 2 then mul_result r else m_result r)"
  by (simp_all add: mul_cycle_def IntMul_registers_def IntMul_comb_def IntMul_start_def Let_def case_prod_beta
      del: concat_bits.simps)

lemma mul_cycle_latched:
  "m_a1 (mul_cycle x r) = (if mi_ena x then m_a1 (IntMul_start x r) else m_a1 r)"
  "m_a2 (mul_cycle x r) = (if mi_ena x then m_a2 (IntMul_start x r) else m_a2 r)"
  "m_unsign (mul_cycle x r) = (if mi_ena x then m_unsign (IntMul_start x r) else m_unsign r)"
  "m_high (mul_cycle x r) = (if mi_ena x then m_high (IntMul_start x r) else m_high r)"
  "m_rv32 (mul_cycle x r) = (if mi_ena x then m_rv32 (IntMul_start x r) else m_rv32 r)"
  "m_zero (mul_cycle x r) = (if mi_ena x then m_zero (IntMul_start x r) else m_zero r)"
  "m_inv (mul_cycle x r) = (if mi_ena x then m_inv (IntMul_start x r) else m_inv r)"
  by (simp_all add: mul_cycle_def IntMul_registers_def IntMul_comb_def IntMul_start_def Let_def case_prod_beta
      del: concat_bits.simps)

lemma mul_run:
  assumes "mul_idle r" and "mi_ena x" and "\<not> mi_ena x1" "\<not> mi_ena x2" "\<not> mi_ena x3"
  defines "s \<equiv> IntMul_start x r"
  shows "let r' = mul_cycle x3 (mul_cycle x2 (mul_cycle x1 (mul_cycle x r)))
    in IntMul_o_valid r' \<and> mul_idle r' \<and> m_high r' = m_high s
      \<and> m_result r' = mul_result (s\<lparr>m_lvl3 := mul_lvl3 (mul_lvl2 (mul_lvl1 (mul_lvl0 (m_a1 s) (m_a2 s))))\<rparr>)"
  using assms
  by (simp add: mul_idle_def Let_def IntMul_o_valid_def mul_cycle_ena mul_cycle_fields mul_cycle_latched mul_result_def)

subsection \<open>The results\<close>

lemma mul_nzero_iff: "mul_nzero a \<longleftrightarrow> a \<noteq> 0 \<and> a \<noteq> INT64_MIN"
proof -
  have "(rng a 62 0 :: u64) = take_bit 63 a"
    by (rule bit_word_eqI) (auto simp: bit_getf bit_simps)
  moreover have "take_bit 63 a = 0 \<longleftrightarrow> a = 0 \<or> a = INT64_MIN"
  proof
    assume t: "take_bit 63 a = 0"
    have "unat a mod 2 ^ 63 = 0"
      using t [THEN arg_cong, of unat] by (simp only: unsigned_take_bit_eq) (simp add: take_bit_eq_mod)
    then obtain k where k: "unat a = 2 ^ 63 * k" by (metis mod_0_imp_dvd dvdE)
    with unat_less_64 [of a] have "k < 2" by simp
    with k have "unat a = 0 \<or> unat a = 2 ^ 63" by (auto simp: less_2_cases_iff)
    then show "a = 0 \<or> a = INT64_MIN" by (auto simp: word_unat_eq_iff)
  qed auto
  ultimately show ?thesis by (simp add: mul_nzero_def)
qed

lemma mul_abs_alt: "mul_abs a = (if neg_not_min a then NOT a + 1 else a)"
  by (auto simp: mul_abs_def mul_nzero_iff neg_not_min_iff)

lemma mul_halves:
  fixes L :: "128 word"
  assumes "unat L = unat a * unat b"
  shows "(rng L 127 64 :: u64) = val1 (mul_levels a b)" "(rng L 63 0 :: u64) = a * b"
proof -
  have "unat (rng L 127 64 :: u64) = unat L div 2 ^ 64"
  proof -
    have "(rng L 127 64 :: u64) = ucast (drop_bit 64 L)"
      by (rule bit_word_eqI) (auto simp: bit_getf bit_simps)
    moreover have "unat L div 2 ^ 64 < 2 ^ 64"
      using unsigned_less [of L, where 'a = nat] by (simp add: less_mult_imp_div_less)
    ultimately show ?thesis
      by (simp add: unsigned_ucast_eq drop_bit_eq_div unat_div take_bit_nat_eq_self)
  qed
  then show "(rng L 127 64 :: u64) = val1 (mul_levels a b)"
    by (simp add: word_unat_eq_iff assms mul_levels_high)
  have "(rng L 63 0 :: u64) = ucast L"
    by (rule bit_word_eqI) (auto simp: bit_getf bit_simps)
  then show "(rng L 63 0 :: u64) = a * b"
    by (simp add: word_unat_eq_iff unsigned_ucast_eq assms unat_word_ariths take_bit_eq_mod)
qed

lemma rng_NOT: "(getf 64 64 (NOT L) :: u64) = NOT (getf 64 64 L)" for L :: "128 word"
  by (rule bit_word_eqI) (auto simp: bit_getf bit_simps)

text \<open>The result of an operation, by the functions of the simulator.\<close>

definition mul_value :: "mul_in \<Rightarrow> u64" where
  "mul_value x =
     (if mi_rv32 x then
        (if mi_unsigned x then ucast (ucast (mi_a1 x * mi_a2 x) :: u32)
         else scast (ucast (mi_a1 x * mi_a2 x) :: u32))
      else if \<not> mi_high x then mi_a1 x * mi_a2 x
      else if mi_hsu x then mulhsu (mi_a1 x) (mi_a2 x)
      else if mi_unsigned x then val1 (mul_levels (mi_a1 x) (mi_a2 x))
      else mulh (mi_a1 x) (mi_a2 x))"

definition mul_defined :: "mul_in \<Rightarrow> bool" where
  "mul_defined x \<longleftrightarrow> \<not> (mi_rv32 x \<and> mi_high x)
     \<and> (mi_high x \<longrightarrow> (mi_hsu x \<longrightarrow> mi_a1 x \<noteq> INT64_MIN)
         \<and> (\<not> mi_hsu x \<and> \<not> mi_unsigned x \<longrightarrow> mi_a1 x \<noteq> INT64_MIN \<and> mi_a2 x \<noteq> INT64_MIN))"

lemma bit_scast_low: "bit (scast (ucast w :: u32) :: u64) n \<longleftrightarrow> n < 64 \<and> bit w (if n < 31 then n else 31)" for w :: u64
  by (cases n "31 :: nat" rule: linorder_cases) (auto simp: bit_simps min_def)

lemma mul_result_32:
  fixes L :: "128 word"
  shows "(getf 0 64 (setf 32 96 0 (setf 0 32 L 0)) :: u64) = ucast (ucast (getf 0 64 L :: u64) :: u32)"
    "\<not> bit L 31 \<Longrightarrow> (getf 0 64 (setf 32 96 0 (setf 0 32 L 0)) :: u64) = scast (ucast (getf 0 64 L :: u64) :: u32)"
    "bit L 31 \<Longrightarrow> (getf 0 64 (setf 32 96 (ucast (NOT 0 :: u64)) (setf 0 32 L 0)) :: u64)
      = scast (ucast (getf 0 64 L :: u64) :: u32)"
proof -
  have e: "n < 32 \<Longrightarrow> \<not> n < 31 \<Longrightarrow> n = 31" for n :: nat by simp
  show "(getf 0 64 (setf 32 96 0 (setf 0 32 L 0)) :: u64) = ucast (ucast (getf 0 64 L :: u64) :: u32)"
    by (rule bit_word_eqI) (auto simp: bit_getf bit_setf bit_simps)
  show "\<not> bit L 31 \<Longrightarrow> (getf 0 64 (setf 32 96 0 (setf 0 32 L 0)) :: u64) = scast (ucast (getf 0 64 L :: u64) :: u32)"
    "bit L 31 \<Longrightarrow> (getf 0 64 (setf 32 96 (ucast (NOT 0 :: u64)) (setf 0 32 L 0)) :: u64)
      = scast (ucast (getf 0 64 L :: u64) :: u32)"
    by (rule bit_word_eqI; auto simp: bit_getf bit_setf bit_scast_low bit_simps dest: e)+
qed

lemma mul_sext_low:
  "(ucast (mul_sext uns a * mul_sext uns b) :: u32) = ucast (a * b)"
proof -
  have "(ucast (x * y) :: u32) = ucast x * ucast y" for x y :: u64
    by (simp add: word_unat_eq_iff unsigned_ucast_eq unat_word_ariths take_bit_eq_mod mod_mod_cancel mod_mult_eq)
  moreover have "(ucast (mul_sext uns a) :: u32) = ucast a" for a
    by (rule bit_word_eqI) (auto simp: mul_sext_def Let_def bit_setf bit_getf bit_simps)
  ultimately show ?thesis by simp
qed

lemma neg_zero: "NOT a + 1 = 0 \<longleftrightarrow> a = 0" for a :: u64
  by (simp add: not_eq_complement)

lemma mul_start_value:
  assumes x: "mul_defined x" and r': "m_high r' = m_high s" "m_result r' = mul_result (s\<lparr>m_lvl3 := l\<rparr>)"
    and L: "unat (mul_lvl5 (mul_lvl4 l)) = unat (m_a1 s) * unat (m_a2 s)" and s: "s = IntMul_start x r"
  shows "IntMul_o_res r' = mul_value x"
proof -
  let ?L = "mul_lvl5 (mul_lvl4 l)"
  note h = mul_halves [OF L]
  show ?thesis
  proof (cases "mi_rv32 x")
    case True
    then have hi: "\<not> mi_high x" using x by (simp add: mul_defined_def)
    have "(rng ?L 63 0 :: u64) = mul_sext (mi_unsigned x) (mi_a1 x) * mul_sext (mi_unsigned x) (mi_a2 x)"
      using True by (simp only: h(2)) (simp add: s IntMul_start_def Let_def)
    then show ?thesis
      using True hi mul_result_32 [of ?L]
      by (auto simp: IntMul_o_res_def r' mul_result_def s IntMul_start_def Let_def mul_value_def mul_sext_low
          case_prod_beta)
  next
    case False
    show ?thesis
    proof (cases "mi_high x")
      case True
      then show ?thesis
        using False x h
        by (cases "mi_hsu x"; cases "mi_unsigned x")
          (auto simp: IntMul_o_res_def r' mul_result_def s IntMul_start_def Let_def mul_value_def mul_defined_def
            case_prod_beta rng_NOT mulhsu_def mulh_def mul_abs_alt mul_nzero_iff neg_not_min_iff neg_zero getf_def [of _ _ 0])
    next
      case low: False
      then show ?thesis
        using False h by (simp add: IntMul_o_res_def r' mul_result_def s IntMul_start_def Let_def mul_value_def)
    qed
  qed
qed

text \<open>
  C20: The pipelined multiplier of the RTL core returns, four clock edges after an operation
  is started, the value that the simulator's multiplication computes, flags it as valid and
  is idle again, whatever is on its inputs meanwhile.  (MULH and MULHSU with the least value
  as a signed operand are excepted.)
\<close>

theorem rtl_mul_correct:
  assumes "mul_idle r" and "mi_ena x" and "mul_defined x" and "\<not> mi_ena x1" "\<not> mi_ena x2" "\<not> mi_ena x3"
  shows "let step = IntMul_registers ar True; r' = step x3 (step x2 (step x1 (step x r)))
    in IntMul_o_valid r' \<and> IntMul_o_res r' = mul_value x \<and> mul_idle r'"
  using mul_run [OF assms(1,2,4-6)]
    mul_start_value [OF assms(3) _ _ mul_tree refl, where r = r]
  by (simp add: registers_cycle Let_def)

lemma reset_idle: "mul_idle IntMul_r_reset"
  by (simp add: mul_idle_def IntMul_r_reset_def)

theorem rtl_mul_correct_witness:
  "let x = \<lparr>mi_ena = True, mi_unsigned = False, mi_hsu = False, mi_high = True, mi_rv32 = False,
           mi_a1 = - 3, mi_a2 = 5\<rparr>;
       y = x\<lparr>mi_ena := False\<rparr>; step = IntMul_registers False True;
       r' = step y (step y (step y (step x IntMul_r_reset)))
   in IntMul_o_valid r' \<and> IntMul_o_res r' = - 1"
proof -
  let ?x = "\<lparr>mi_ena = True, mi_unsigned = False, mi_hsu = False, mi_high = True, mi_rv32 = False,
    mi_a1 = - 3, mi_a2 = 5\<rparr>"
  have "mul_defined ?x" by (simp add: mul_defined_def)
  moreover have "mul_value ?x = - 1"
    by (simp add: mul_value_def mulh_value high_word_def)
  ultimately show ?thesis
    using rtl_mul_correct [where r = IntMul_r_reset and x = ?x and ?x1.0 = "?x\<lparr>mi_ena := False\<rparr>"
        and ?x2.0 = "?x\<lparr>mi_ena := False\<rparr>" and ?x3.0 = "?x\<lparr>mi_ena := False\<rparr>" and ar = False] reset_idle
    by (simp add: Let_def)
qed

text \<open>The excepted operand: the product of the least value with itself is \<open>2 ^ 126\<close>, the RTL core returns 0.\<close>

lemma rtl_mulh_least:
  assumes "mul_idle r" and "mi_ena x" and "mi_high x" "\<not> mi_rv32 x" "\<not> mi_unsigned x" "mi_a1 x = INT64_MIN"
    and "\<not> mi_ena x1" "\<not> mi_ena x2" "\<not> mi_ena x3"
  shows "IntMul_o_res (mul_cycle x3 (mul_cycle x2 (mul_cycle x1 (mul_cycle x r)))) = 0"
  using mul_run [OF assms(1,2,7-9)] assms(3-6)
  by (simp add: Let_def IntMul_o_res_def mul_result_def IntMul_start_def case_prod_beta mul_nzero_iff getf_def [of _ _ 0])

end
