(* ===== verification/Rtl_Alu.thy ===== *)
theory Rtl_Alu
  imports Rtl_Types Isa_Facts
begin

section \<open>The single-cycle arithmetic units of the RTL core\<close>

text \<open>
  sc/rtl/riverlib/core/arith: alu_logic.cpp, int_addsub.cpp and shift.cpp.  Each unit latches
  its result in one register.  The lemmas give the latched value per mode; the modes are
  driven by the execution stage.
\<close>

record res_regs =
  r_res :: u64

definition res_r_reset :: res_regs where
  "res_r_reset = \<lparr>r_res = 0\<rparr>"

subsection \<open>AluLogic\<close>

definition AluLogic_value :: "3 word \<Rightarrow> u64 \<Rightarrow> u64 \<Rightarrow> u64" where
  "AluLogic_value mode a1 a2 =
     (if bit mode 1 then a1 OR a2 else if bit mode 2 then a1 XOR a2 else a1 AND a2)"

definition AluLogic_comb :: "bool \<Rightarrow> bool \<Rightarrow> 3 word \<Rightarrow> u64 \<Rightarrow> u64 \<Rightarrow> res_regs \<Rightarrow> res_regs" where
  "AluLogic_comb ar nrst mode a1 a2 r =
     sync_reset ar nrst res_r_reset (r\<lparr>r_res := AluLogic_value mode a1 a2\<rparr>)"

definition AluLogic_registers :: "bool \<Rightarrow> bool \<Rightarrow> 3 word \<Rightarrow> u64 \<Rightarrow> u64 \<Rightarrow> res_regs \<Rightarrow> res_regs" where
  "AluLogic_registers ar nrst mode a1 a2 r =
     clock_edge ar nrst res_r_reset (AluLogic_comb ar nrst mode a1 a2 r)"

subsection \<open>IntAddSub\<close>

text \<open>32-bit operands are sign-extended first; less, minimum and maximum look at the sign of the difference.\<close>

definition IntAddSub_operand :: "7 word \<Rightarrow> u64 \<Rightarrow> u64" where
  "IntAddSub_operand mode a =
     (if bit mode 0
      then let x = setf 0 32 (rng a 31 0) 0 in if bit x 31 then setf 32 32 (NOT 0) x else x
      else a)"

definition IntAddSub_value :: "7 word \<Rightarrow> u64 \<Rightarrow> u64 \<Rightarrow> u64" where
  "IntAddSub_value mode a1 a2 =
     (let vb_rdata1 = IntAddSub_operand mode a1; vb_rdata2 = IntAddSub_operand mode a2;
          vb_add = vb_rdata1 + vb_rdata2; vb_sub = vb_rdata1 - vb_rdata2;
          less = (if bit mode 1 then vb_rdata1 < vb_rdata2 else bit vb_sub 63);
          vb_res =
            (if bit mode 2 then vb_add
             else if bit mode 3 then vb_sub
             else if bit mode 4 then (if less then 1 else 0)
             else if bit mode 5 then (if less then vb_rdata1 else vb_rdata2)
             else if bit mode 6 then (if less then vb_rdata2 else vb_rdata1)
             else 0)
      in if bit mode 0
         then (if bit vb_res 31 then setf 32 32 (NOT 0) vb_res else setf 32 32 0 vb_res)
         else vb_res)"

definition IntAddSub_comb :: "bool \<Rightarrow> bool \<Rightarrow> 7 word \<Rightarrow> u64 \<Rightarrow> u64 \<Rightarrow> res_regs \<Rightarrow> res_regs" where
  "IntAddSub_comb ar nrst mode a1 a2 r =
     sync_reset ar nrst res_r_reset (r\<lparr>r_res := IntAddSub_value mode a1 a2\<rparr>)"

definition IntAddSub_registers :: "bool \<Rightarrow> bool \<Rightarrow> 7 word \<Rightarrow> u64 \<Rightarrow> u64 \<Rightarrow> res_regs \<Rightarrow> res_regs" where
  "IntAddSub_registers ar nrst mode a1 a2 r =
     clock_edge ar nrst res_r_reset (IntAddSub_comb ar nrst mode a1 a2 r)"

subsection \<open>Shifter\<close>

text \<open>
  The two \<open>switch\<close> statements list a case per amount; case \<open>n\<close> is written here with \<open>n\<close> as a
  variable.  \<open>(msk64(63, 64 - n), v64(63, n))\<close> is a concatenation of \<open>n\<close> and \<open>64 - n\<close> bits.
\<close>

definition Shifter_value :: "4 word \<Rightarrow> u64 \<Rightarrow> u6 \<Rightarrow> u64" where
  "Shifter_value mode a1 a2 =
     (let v64 = a1; v32 = ucast (rng a1 31 0 :: u64) :: u32;
          msk64 = (if bit a1 63 then NOT 0 else 0) :: u64; msk32 = (if bit a1 31 then NOT 0 else 0) :: u64;
          n = unat a2; m = unat (rng a2 4 0 :: 5 word);
          wb_sll = push_bit n v64; wb_srl = getf n (64 - n) v64;
          wb_sra = concat_bits [(n, getf (64 - n) n msk64), (64 - n, getf n (64 - n) v64)];
          wb_sllw = push_bit m (ucast v32 :: u64); wb_srlw = getf m (32 - m) v32;
          wb_sraw = concat_bits [(32 + m, getf (32 - m) (32 + m) msk32), (32 - m, getf m (32 - m) v32)];
          wb_sllw = (if bit wb_sllw 31 then setf 32 32 (NOT 0) wb_sllw else setf 32 32 0 wb_sllw);
          wb_srlw = (if bit wb_srlw 31 then setf 32 32 (NOT 0) wb_srlw else wb_srlw)
      in if bit mode 0
         then (if bit mode 1 then wb_sllw else if bit mode 2 then wb_srlw else wb_sraw)
         else (if bit mode 1 then wb_sll else if bit mode 2 then wb_srl else wb_sra))"

definition Shifter_comb :: "bool \<Rightarrow> bool \<Rightarrow> 4 word \<Rightarrow> u64 \<Rightarrow> u6 \<Rightarrow> res_regs \<Rightarrow> res_regs" where
  "Shifter_comb ar nrst mode a1 a2 r =
     sync_reset ar nrst res_r_reset (r\<lparr>r_res := Shifter_value mode a1 a2\<rparr>)"

definition Shifter_registers :: "bool \<Rightarrow> bool \<Rightarrow> 4 word \<Rightarrow> u64 \<Rightarrow> u6 \<Rightarrow> res_regs \<Rightarrow> res_regs" where
  "Shifter_registers ar nrst mode a1 a2 r =
     clock_edge ar nrst res_r_reset (Shifter_comb ar nrst mode a1 a2 r)"

subsection \<open>What the units compute\<close>

lemma fill_upper:
  "setf 32 32 (NOT 0) x = (low32 x OR push_bit 32 (mask 32))" "setf 32 32 0 x = low32 x" for x :: u64
proof -
  have m: "(0xFFFFFFFF :: u64) = mask 32" by (simp add: mask_eq_exp_minus_1)
  show "setf 32 32 (NOT 0) x = (low32 x OR push_bit 32 (mask 32))" "setf 32 32 0 x = low32 x"
    unfolding m by (rule bit_word_eqI; auto simp: bit_setf bit_simps)+
qed

lemma bit_low32: "bit (low32 x) n \<longleftrightarrow> n < 32 \<and> bit x n" for x :: u64
proof -
  have m: "(0xFFFFFFFF :: u64) = mask 32" by (simp add: mask_eq_exp_minus_1)
  show ?thesis unfolding m by (auto simp: bit_simps)
qed

lemma bit_scast_32: "bit (scast (x :: u32) :: u64) n \<longleftrightarrow> n < 64 \<and> bit x (min n 31)"
  by (auto simp: bit_simps min_def)

lemma IntAddSub_operand_32: "bit mode 0 \<Longrightarrow> IntAddSub_operand mode a = scast (ucast a :: u32)"
  by (rule bit_word_eqI)
    (auto simp: IntAddSub_operand_def Let_def bit_setf bit_getf bit_scast_32 bit_simps min_def)

lemma IntAddSub_operand_64: "\<not> bit mode 0 \<Longrightarrow> IntAddSub_operand mode a = a"
  by (simp add: IntAddSub_operand_def)

lemma resign: "(if bit x 31 then setf 32 32 (NOT 0) x else setf 32 32 0 x) = scast (ucast x :: u32)" for x :: u64
  by (rule bit_word_eqI) (auto simp: bit_setf bit_scast_32 bit_simps min_def)

lemma Shifter_sll: "\<not> bit mode 0 \<Longrightarrow> bit mode 1 \<Longrightarrow> Shifter_value mode a n = push_bit (unat n) a"
  by (simp add: Shifter_value_def Let_def)

lemma u6_less: "unat (n :: u6) < 64"
proof -
  have "unat n < 2 ^ LENGTH(6)" by (rule unsigned_less)
  then show ?thesis by simp
qed

lemma Shifter_srl:
  assumes "\<not> bit mode 0" and "\<not> bit mode 1" and "bit mode 2"
  shows "Shifter_value mode a n = drop_bit (unat n) a"
  by (rule bit_word_eqI) (use assms u6_less [of n] in \<open>auto simp: Shifter_value_def Let_def bit_getf bit_simps dest: bit_imp_le_length\<close>)

lemma Shifter_sra:
  assumes "\<not> bit mode 0" and "\<not> bit mode 1" and "\<not> bit mode 2"
  shows "Shifter_value mode a n = signed_drop_bit (unat n) a"
  by (rule bit_word_eqI)
    (use assms u6_less [of n] in \<open>auto simp: Shifter_value_def Let_def bit_getf bit_simps min_def\<close>)

text \<open>The forms for 32-bit operands look at five bits of the amount.\<close>

definition amount32 :: "u6 \<Rightarrow> nat" where
  "amount32 n = unat n mod 32"

lemma amount32_rng: "unat (rng n 4 0 :: 5 word) = amount32 n" "amount32 n < 32" for n :: u6
proof -
  have "unat (rng n 4 0 :: 5 word) = unat (take_bit 5 n)"
    by (simp add: getf_def unsigned_ucast_eq unsigned_take_bit_eq)
  then show "unat (rng n 4 0 :: 5 word) = amount32 n"
    by (simp add: amount32_def unsigned_take_bit_eq take_bit_eq_mod unat_mod)
  show "amount32 n < 32" by (simp add: amount32_def)
qed

lemma Shifter_sllw:
  assumes "bit mode 0" and "bit mode 1"
  shows "Shifter_value mode a n = scast (ucast (push_bit (amount32 n) a) :: u32)"
  by (rule bit_word_eqI)
    (use assms amount32_rng [of n] in \<open>auto simp: Shifter_value_def Let_def bit_getf bit_setf bit_scast_32 bit_simps min_def\<close>)

lemma Shifter_srlw:
  assumes "bit mode 0" and "\<not> bit mode 1" and "bit mode 2"
  shows "Shifter_value mode a n = scast (drop_bit (amount32 n) (ucast a :: u32))"
  by (rule bit_word_eqI)
    (use assms amount32_rng [of n] in \<open>auto simp: Shifter_value_def Let_def bit_getf bit_setf bit_scast_32 bit_simps min_def\<close>)

lemma Shifter_sraw:
  assumes "bit mode 0" and "\<not> bit mode 1" and "\<not> bit mode 2"
  shows "Shifter_value mode a n = scast (signed_drop_bit (amount32 n) (ucast a :: u32))"
  by (rule bit_word_eqI, cases "amount32 n = 0")
    (use assms amount32_rng [of n] in \<open>auto simp: Shifter_value_def Let_def bit_getf bit_setf bit_scast_32 bit_simps min_def\<close>)

subsection \<open>Comparisons\<close>

lemma bit_63_uint: "bit w 63 \<longleftrightarrow> 2 ^ 63 \<le> uint w" for w :: u64
proof -
  have "uint w < 2 ^ 64" "0 \<le> uint w" using uint_lt2p [of w] by simp_all
  moreover have "sint w < 2 ^ 63" "- (2 ^ 63) \<le> sint w" using sint_lt [of w] sint_ge [of w] by simp_all
  ultimately show ?thesis using sint_uint_64 [of w] by (auto split: if_splits)
qed

lemma difference_sign:
  fixes x y :: int
  assumes "0 \<le> x" "x < 2 ^ 64" "0 \<le> y" "y < 2 ^ 64"
    and "d = (if y \<le> x then x - y else x - y + 2 ^ 64)"
    and "s = (if 2 ^ 63 \<le> x then x - 2 ^ 64 else x)" "t = (if 2 ^ 63 \<le> y then y - 2 ^ 64 else y)"
  shows "2 ^ 63 \<le> d \<longleftrightarrow> (if - (2 ^ 63) \<le> s - t \<and> s - t < 2 ^ 63 then s < t else \<not> s < t)"
  using assms by (auto split: if_splits)

text \<open>The sign of the 64-bit difference is that of the difference unless the difference leaves the width.\<close>

lemma sign_of_difference:
  "bit (a - b) 63 \<longleftrightarrow>
     (if - (2 ^ 63) \<le> sint a - sint b \<and> sint a - sint b < 2 ^ 63 then sint a < sint b else \<not> sint a < sint b)"
  for a b :: u64
proof -
  have r: "uint a < 2 ^ 64" "0 \<le> uint a" "uint b < 2 ^ 64" "0 \<le> uint b"
    using uint_lt2p [of a] uint_lt2p [of b] by simp_all
  have "uint (a - b) = (if uint b \<le> uint a then uint a - uint b else uint a - uint b + 2 ^ 64)"
    by (simp add: uint_sub_if')
  moreover have "sint a = (if 2 ^ 63 \<le> uint a then uint a - 2 ^ 64 else uint a)"
    "sint b = (if 2 ^ 63 \<le> uint b then uint b - 2 ^ 64 else uint b)"
    by (simp_all add: sint_uint_64 bit_63_uint)
  ultimately show ?thesis
    unfolding bit_63_uint using r by (intro difference_sign) simp_all
qed

text \<open>
  The comparisons of the RTL core: SLTU (mode 18) is the unsigned comparison; SLT and SLTI
  (mode 16) take the sign of the 64-bit difference for the answer, so they give the signed
  comparison exactly when the difference fits into 64 bits and its opposite otherwise.
\<close>

theorem rtl_set_less:
  "let d = sint a - sint b in
     IntAddSub_value 18 a b = (if uint a < uint b then 1 else 0)
     \<and> IntAddSub_value 16 a b =
         (if (sint a < sint b) = (- (2 ^ 63) \<le> d \<and> d < 2 ^ 63) then 1 else 0)"
  using sign_of_difference [of a b]
  by (auto simp: IntAddSub_value_def IntAddSub_operand_def Let_def bit_numeral_rec word_less_def)

text \<open>
  The shifter of the RTL core, for the six modes that the execution stage drives: SLL, SRL,
  SRA shift by the 6-bit amount; SLLW, SRLW, SRAW shift the lower half by its low five bits
  and sign-extend.
\<close>

lemma rtl_shifts:
  "Shifter_value 2 a n = push_bit (unat n) a \<and> Shifter_value 4 a n = drop_bit (unat n) a
   \<and> Shifter_value 8 a n = signed_drop_bit (unat n) a
   \<and> Shifter_value 3 a n = scast (ucast (push_bit (amount32 n) a) :: u32)
   \<and> Shifter_value 5 a n = scast (drop_bit (amount32 n) (ucast a :: u32))
   \<and> Shifter_value 9 a n = scast (signed_drop_bit (amount32 n) (ucast a :: u32))"
  by (simp add: Shifter_sll Shifter_srl Shifter_sra Shifter_sllw Shifter_srlw Shifter_sraw bit_numeral_rec)

end
