(* ===== verification/Rtl_Div.thy ===== *)
theory Rtl_Div
  imports Rtl_Alu Isa_MulDiv
begin

section \<open>The iterative divider of the RTL core\<close>

text \<open>
  sc/rtl/riverlib/core/arith: divstage64.cpp compares the dividend with the first 15 multiples
  of the divisor and gives four bits of the quotient; int_div.cpp chains two stages per clock
  cycle and needs eight cycles.  The multiples are built from shifts, sums and differences
  with 65 bits, of which the uppermost says that the multiple does not fit into 64.
\<close>

subsection \<open>divstage64\<close>

definition with_top :: "bool \<Rightarrow> 65 word \<Rightarrow> 65 word" where
  "with_top b x = setf 64 1 (of_bool b) x"

text \<open>The multiples 1, 2, 4, 8 and 16: the divisor shifted; \<open>or_reduce\<close> of the bits shifted out.\<close>

definition or_above :: "nat \<Rightarrow> 124 word \<Rightarrow> bool" where
  "or_above lo d \<longleftrightarrow> (rng d 123 lo :: 124 word) \<noteq> 0"

definition divx_shift :: "nat \<Rightarrow> 124 word \<Rightarrow> 65 word" where
  "divx_shift s d = with_top (or_above (64 - s) d) (setf s (64 - s) (getf 0 (64 - s) d) 0)"

text \<open>\<open>(0, x(63, 0)) + (0, y(63, 0))\<close> and the difference, doubling and quadrupling of a multiple.\<close>

definition divx_add :: "65 word \<Rightarrow> 65 word \<Rightarrow> 65 word" where
  "divx_add x y = getf 0 64 x + getf 0 64 y"

definition divx_sub :: "65 word \<Rightarrow> 65 word \<Rightarrow> 65 word" where
  "divx_sub x y = x - getf 0 64 y"

definition divx_double :: "65 word \<Rightarrow> 65 word" where
  "divx_double x = with_top (bit x 64 \<or> bit x 63) (setf 1 63 (getf 0 63 x) 0)"

definition divx_quad :: "65 word \<Rightarrow> 65 word" where
  "divx_quad x = with_top (bit x 64 \<or> bit x 63 \<or> bit x 62) (setf 2 62 (getf 0 62 x) 0)"

definition topped :: "bool \<Rightarrow> 65 word \<Rightarrow> 65 word" where
  "topped b x = with_top (bit x 64 \<or> b) x"

definition wb_divx :: "124 word \<Rightarrow> 65 word list" where
  "wb_divx d =
     (let x1 = divx_shift 0 d; x2 = divx_shift 1 d;
          x3 = topped (bit x2 64) (divx_add x2 x1);
          x4 = divx_shift 2 d;
          x5 = topped (bit x4 64) (divx_add x4 x1);
          x6 = divx_double x3;
          x8 = divx_shift 3 d;
          x7 = topped (or_above 62 d) (divx_sub x8 x1);
          x9 = topped (or_above 61 d) (divx_add x8 x1);
          x10 = topped (or_above 61 d) (divx_add x8 x2);
          x11 = topped (or_above 61 d) (divx_add x8 x3);
          x12 = divx_quad x3;
          x16 = divx_shift 4 d;
          x13 = topped (or_above 61 d) (divx_sub x16 x3);
          x14 = divx_double x7;
          x15 = topped (or_above 61 d) (divx_sub x16 x1)
      in [0, x1, x2, x3, x4, x5, x6, x7, x8, x9, x10, x11, x12, x13, x14, x15])"

definition wb_thresh :: "u64 \<Rightarrow> 124 word \<Rightarrow> nat \<Rightarrow> 66 word" where
  "wb_thresh dv d k = ucast dv - ucast (wb_divx d ! k)"

definition divstage64_comb :: "u64 \<Rightarrow> 124 word \<Rightarrow> u64 \<times> 4 word" where
  "divstage64_comb dv d =
     (let bits = (case List.find (\<lambda>k. \<not> bit (wb_thresh dv d k) 65) [15, 14, 13, 12, 11, 10, 9, 8, 7, 6, 5, 4, 3, 2, 1] of
                    Some k \<Rightarrow> k | None \<Rightarrow> 0)
      in (ucast (wb_thresh dv d bits), of_nat bits))"

subsection \<open>The multiples\<close>

text \<open>\<open>x\<close> is the number \<open>n\<close>, or says that \<open>n\<close> needs more than 64 bits.\<close>

definition rep :: "65 word \<Rightarrow> nat \<Rightarrow> bool" where
  "rep x n \<longleftrightarrow> (if n < 2 ^ 64 then unat x = n else 2 ^ 64 \<le> unat x)"

lemma unat_65: "unat x < 2 ^ 65" for x :: "65 word"
  using unsigned_less [of x, where 'a = nat] by simp

lemma bit_iff_mod: "bit m n \<longleftrightarrow> 2 ^ n \<le> m mod 2 ^ Suc n" for m n :: nat
proof -
  have "m mod 2 ^ Suc n = 2 ^ n * (m div 2 ^ n mod 2) + m mod 2 ^ n"
    unfolding power_Suc2 by (rule mod_mult2_eq)
  moreover have "m mod 2 ^ n < 2 ^ n" by simp
  ultimately show ?thesis
    by (cases "odd (m div 2 ^ n)") (simp_all add: bit_iff_odd odd_iff_mod_2_eq_one not_le)
qed

lemma bit_top: "n < 2 ^ Suc k \<Longrightarrow> bit n k \<longleftrightarrow> 2 ^ k \<le> n" for n k :: nat
  unfolding bit_iff_mod by simp

lemma bit_unat: "n < LENGTH('a) \<Longrightarrow> bit x n \<longleftrightarrow> bit (unat x) n" for x :: "'a::len word"
  by (simp add: bit_unsigned_iff)

lemma bit_64: "bit x 64 \<longleftrightarrow> 2 ^ 64 \<le> unat x" for x :: "65 word"
  using bit_top [of "unat x" 64] unat_65 [of x] by (simp add: bit_unat)

lemma unat_with_top: "unat (with_top b x) = unat x mod 2 ^ 64 + (if b then 2 ^ 64 else 0)"
proof -
  have "with_top b x = take_bit 64 x OR push_bit 64 (of_bool b)"
    by (rule bit_word_eqI) (auto simp: with_top_def bit_setf bit_simps)
  also have "\<dots> = take_bit 64 x + push_bit 64 (of_bool b)"
    by (rule disjunctive_add [symmetric]) (auto simp: bit_simps)
  finally have w: "with_top b x = take_bit 64 x + push_bit 64 (of_bool b)" .
  have "unat (take_bit 64 x) = unat x mod 2 ^ 64"
    by (simp only: unsigned_take_bit_eq) (simp only: take_bit_eq_mod)
  moreover have "unat (push_bit 64 (of_bool b) :: 65 word) = (if b then 2 ^ 64 else 0)"
    by simp
  ultimately show ?thesis
    unfolding w by (subst unat_plus_if') (auto simp: mod_less_divisor)
qed

lemma unat_getf:
  fixes w :: "'a::len word"
  assumes "n \<le> LENGTH('b)"
  shows "unat (getf lo n w :: 'b::len word) = unat w div 2 ^ lo mod 2 ^ n"
proof -
  have "unat (getf lo n w :: 'b word) = take_bit LENGTH('b) (unat (take_bit n (drop_bit lo w)))"
    unfolding getf_def by (rule unsigned_ucast_eq)
  also have "unat (take_bit n (drop_bit lo w)) = take_bit n (drop_bit lo (unat w))"
    by (simp only: unsigned_take_bit_eq unat_drop_bit_eq)
  finally show ?thesis
    using assms by (simp add: take_bit_take_bit min_absorb2) (simp add: take_bit_eq_mod drop_bit_eq_div)
qed

lemma unat_setf_0:
  fixes x :: "'a::len word"
  assumes "s + n \<le> LENGTH('a)"
  shows "unat (setf s n x 0) = 2 ^ s * (unat x mod 2 ^ n)"
proof -
  have "setf s n x 0 = push_bit s (take_bit n x)"
    by (rule bit_word_eqI) (auto simp: bit_setf bit_simps)
  then have "unat (setf s n x 0) = take_bit LENGTH('a) (push_bit s (take_bit n (unat x)))"
    by (simp only: unsigned_push_bit_eq unsigned_take_bit_eq)
  also have "\<dots> = push_bit s (take_bit n (unat x))"
  proof (rule take_bit_nat_eq_self)
    have "push_bit s (take_bit n (unat x)) < 2 ^ s * 2 ^ n"
      unfolding push_bit_eq_mult by (simp add: mult.commute)
    also have "\<dots> \<le> 2 ^ LENGTH('a)"
      unfolding power_add [symmetric] using assms by (intro power_increasing) auto
    finally show "push_bit s (take_bit n (unat x)) < 2 ^ LENGTH('a)" .
  qed
  finally show ?thesis
    by (simp only: push_bit_eq_mult take_bit_eq_mod mult.commute)
qed

lemma or_above_iff:
  assumes "lo < 124"
  shows "or_above lo d \<longleftrightarrow> 2 ^ lo \<le> unat d"
proof -
  have "unat d div 2 ^ lo < 2 ^ (124 - lo)"
    using unsigned_less [of d, where 'a = nat] assms
    by (intro less_mult_imp_div_less) (simp flip: power_add)
  then have "unat (rng d 123 lo :: 124 word) = unat d div 2 ^ lo"
    using assms by (subst unat_getf) (simp_all add: Suc_diff_le)
  then have "(rng d 123 lo :: 124 word) = 0 \<longleftrightarrow> unat d div 2 ^ lo = 0"
    by (metis unat_eq_zero)
  then show ?thesis
    by (auto simp: or_above_def div_eq_0_iff not_less)
qed

lemma unat_divx_shift:
  assumes "s \<le> 4"
  shows "unat (divx_shift s d) = 2 ^ s * unat d mod 2 ^ 64 + (if 2 ^ 64 \<le> 2 ^ s * unat d then 2 ^ 64 else 0)"
proof -
  have e: "(2::nat) ^ 64 = 2 ^ s * 2 ^ (64 - s)" using assms by (simp flip: power_add)
  have "unat (setf s (64 - s) (getf 0 (64 - s) d) 0 :: 65 word) = 2 ^ s * (unat d mod 2 ^ (64 - s))"
    using assms by (subst unat_setf_0) (simp_all add: unat_getf)
  also have "\<dots> = 2 ^ s * unat d mod 2 ^ 64"
    by (simp only: e mult_mod_right)
  finally have "unat (setf s (64 - s) (getf 0 (64 - s) d) 0 :: 65 word) = 2 ^ s * unat d mod 2 ^ 64" .
  moreover have "or_above (64 - s) d \<longleftrightarrow> 2 ^ 64 \<le> 2 ^ s * unat d"
    using or_above_iff [of "64 - s" d] unfolding e by simp
  ultimately show ?thesis
    by (simp add: divx_shift_def unat_with_top)
qed

lemma rep_shift: "s \<le> 4 \<Longrightarrow> rep (divx_shift s d) (2 ^ s * unat d)"
  by (simp add: rep_def unat_divx_shift)

lemma exact_shift:
  assumes "s \<le> 4" and "2 ^ s * unat d < 2 ^ 65"
  shows "unat (divx_shift s d) = 2 ^ s * unat d"
proof -
  have "2 ^ s * unat d mod 2 ^ 64 = 2 ^ s * unat d - 2 ^ 64" if "2 ^ 64 \<le> 2 ^ s * unat d"
    using that assms(2) by (simp add: mod_if)
  then show ?thesis by (simp add: unat_divx_shift [OF assms(1)])
qed

lemma rep_topped:
  assumes "unat x = n \<and> \<not> b \<or> 2 ^ 64 \<le> n \<and> b"
  shows "rep (topped b x) n"
  using assms unat_65 [of x]
  by (auto simp: rep_def topped_def unat_with_top bit_64 mod_if not_le split: if_splits)

lemma low_rep: "rep x n \<Longrightarrow> n < 2 ^ 64 \<Longrightarrow> unat (getf 0 64 x :: 65 word) = n"
  by (simp add: rep_def unat_getf)

lemma rep_add:
  assumes "rep x m" and "rep y n" and "n \<le> m" and "b \<longleftrightarrow> 2 ^ 64 \<le> m"
  shows "rep (topped b (divx_add x y)) (m + n)"
proof (rule rep_topped)
  show "unat (divx_add x y) = m + n \<and> \<not> b \<or> 2 ^ 64 \<le> m + n \<and> b"
    using assms low_rep [OF assms(1)] low_rep [OF assms(2)]
    by (cases "m < 2 ^ 64") (auto simp: divx_add_def unat_plus_if')
qed

lemma rep_sub:
  assumes "unat x = m" and "rep y n" and "n \<le> m" and "n < 2 ^ 64" and "\<not> b"
  shows "rep (topped b (divx_sub x y)) (m - n)"
proof (rule rep_topped)
  have "unat (getf 0 64 y :: 65 word) = n"
    using assms by (intro low_rep)
  then show "unat (divx_sub x y) = m - n \<and> \<not> b \<or> 2 ^ 64 \<le> m - n \<and> b"
    using assms by (simp add: divx_sub_def unat_sub_if')
qed

lemma rep_flag: "2 ^ 64 \<le> n \<Longrightarrow> rep (topped True x) n"
  by (simp add: rep_def topped_def unat_with_top)

lemma bit_63_65: "bit x 63 \<longleftrightarrow> 2 ^ 63 \<le> unat x mod 2 ^ 64" "bit x 62 \<longleftrightarrow> 2 ^ 62 \<le> unat x mod 2 ^ 63"
  for x :: "65 word"
  by (simp_all add: bit_unat bit_iff_mod)

lemma rep_double: "rep x n \<Longrightarrow> rep (divx_double x) (2 * n)"
proof -
  assume r: "rep x n"
  have u: "unat (setf 1 63 (getf 0 63 x) 0 :: 65 word) = 2 * (unat x mod 2 ^ 63)"
    by (simp add: unat_setf_0 unat_getf)
  show ?thesis
  proof (cases "n < 2 ^ 63")
    case True
    then show ?thesis
      using r by (simp add: rep_def divx_double_def unat_with_top u [unfolded One_nat_def] bit_64 bit_63_65)
  next
    case False
    then have "bit x 64 \<or> bit x 63"
      using r by (auto simp: rep_def bit_64 bit_63_65 split: if_splits)
    then show ?thesis
      using False by (simp add: rep_def divx_double_def unat_with_top)
  qed
qed

lemma rep_quad: "rep x n \<Longrightarrow> rep (divx_quad x) (4 * n)"
proof -
  assume r: "rep x n"
  have u: "unat (setf 2 62 (getf 0 62 x) 0 :: 65 word) = 4 * (unat x mod 2 ^ 62)"
    by (simp add: unat_setf_0 unat_getf)
  show ?thesis
  proof (cases "n < 2 ^ 62")
    case True
    then show ?thesis
      using r by (simp add: rep_def divx_quad_def unat_with_top u bit_64 bit_63_65)
  next
    case False
    then have "bit x 64 \<or> bit x 63 \<or> bit x 62"
      using r by (cases "unat x < 2 ^ 63") (auto simp: rep_def bit_64 bit_63_65 split: if_splits)
    then show ?thesis
      using False by (simp add: rep_def divx_quad_def unat_with_top)
  qed
qed

lemma upt_16: "[0..<16] = [0, 1, 2, 3, 4, 5, 6, 7, 8, 9, 10, 11, 12, 13, 14, 15 :: nat]"
  by (simp add: upt_conv_Cons)

lemma rep_0: "rep 0 0"
  by (simp add: rep_def)

text \<open>Entry \<open>k\<close> of the table is the \<open>k\<close>-fold divisor.\<close>

lemma multiples: "list_all2 (\<lambda>x k. rep x (k * unat d)) (wb_divx d) [0..<16]"
proof -
  define D where "D = unat d"
  have s: "rep (divx_shift 0 d) D" "rep (divx_shift 1 d) (2 * D)" "rep (divx_shift 2 d) (4 * D)"
    "rep (divx_shift 3 d) (8 * D)" "rep (divx_shift 4 d) (16 * D)"
    using rep_shift [of 0 d] rep_shift [of 1 d] rep_shift [of 2 d] rep_shift [of 3 d] rep_shift [of 4 d]
    by (simp_all add: D_def)
  have o: "or_above 61 d \<longleftrightarrow> 2 ^ 64 \<le> 8 * D" "or_above 62 d \<longleftrightarrow> 2 ^ 64 \<le> 4 * D"
    by (simp_all add: or_above_iff D_def)
  have top: "bit x 64 \<longleftrightarrow> 2 ^ 64 \<le> n" if "rep x n" for x n
    using that by (auto simp: rep_def bit_64 split: if_splits)
  have x3: "rep (topped (bit (divx_shift 1 d) 64) (divx_add (divx_shift 1 d) (divx_shift 0 d))) (3 * D)"
    using rep_add [OF s(2,1) _ top [OF s(2)]] by simp
  have x5: "rep (topped (bit (divx_shift 2 d) 64) (divx_add (divx_shift 2 d) (divx_shift 0 d))) (5 * D)"
    using rep_add [OF s(3,1) _ top [OF s(3)]] by simp
  have sub8: "rep (topped (or_above 62 d) (divx_sub (divx_shift 3 d) (divx_shift 0 d))) (7 * D)"
  proof (cases "or_above 62 d")
    case True
    then show ?thesis using o(2) rep_flag [of "7 * D"] by simp
  next
    case False
    then have "unat (divx_shift 3 d) = 8 * D" using o(2) exact_shift [of 3 d] by (simp add: D_def)
    then show ?thesis using rep_sub [OF _ s(1), where m = "8 * D" and b = False] False o(2) by simp
  qed
  have sub16: "rep (topped (or_above 61 d) (divx_sub (divx_shift 4 d) y)) (16 * D - n)"
    if y: "rep y n" and n: "n \<le> 3 * D" for y n
  proof (cases "or_above 61 d")
    case True
    then show ?thesis using o(1) n rep_flag [of "16 * D - n"] by simp
  next
    case False
    then have "unat (divx_shift 4 d) = 16 * D" using o(1) exact_shift [of 4 d] by (simp add: D_def)
    then show ?thesis using rep_sub [OF _ y, where m = "16 * D" and b = False] n False o(1) by simp
  qed
  show ?thesis
    using rep_0 s x3 x5 rep_double [OF x3] sub8 rep_add [OF s(4,1) _ o(1)] rep_add [OF s(4,2) _ o(1)]
      rep_add [OF s(4) x3 _ o(1)] rep_quad [OF x3] sub16 [OF x3] rep_double [OF sub8] sub16 [OF s(1)]
    unfolding D_def [symmetric] wb_divx_def Let_def
    by (simp add: D_def [symmetric] upt_16)
qed

subsection \<open>One stage: four bits of the quotient\<close>

lemma len64: "LENGTH(64) = 64" by simp

lemma thresh:
  assumes "k < 16"
  shows "bit (wb_thresh dv d k) 65 \<longleftrightarrow> unat dv < k * unat d"
    "k * unat d \<le> unat dv \<Longrightarrow> unat (ucast (wb_thresh dv d k) :: u64) = unat dv - k * unat d"
proof -
  let ?x = "wb_divx d ! k"
  have r: "rep ?x (k * unat d)"
    using list_all2_nthD2 [OF multiples, of k d] assms by simp
  have a: "unat (ucast dv :: 66 word) = unat dv" "unat dv < 2 ^ 64"
    using unat_less_64 [of dv] by (simp_all add: unsigned_ucast_eq take_bit_nat_eq_self)
  have x: "unat (ucast ?x :: 66 word) = unat ?x"
    using unat_65 [of ?x] by (simp add: unsigned_ucast_eq take_bit_nat_eq_self)
  have le: "unat ?x \<le> unat dv \<longleftrightarrow> k * unat d \<le> unat dv" "unat ?x \<le> unat dv \<Longrightarrow> unat ?x = k * unat d"
    using r a(2) by (auto simp: rep_def split: if_splits)
  have t: "unat (wb_thresh dv d k) = (if unat ?x \<le> unat dv then unat dv - unat ?x else unat dv + 2 ^ 66 - unat ?x)"
    by (simp add: wb_thresh_def unat_sub_if' a x)
  have top: "bit (wb_thresh dv d k) 65 \<longleftrightarrow> 2 ^ 65 \<le> unat (wb_thresh dv d k)"
  proof -
    have "unat (wb_thresh dv d k) < 2 ^ 66"
      using unsigned_less [of "wb_thresh dv d k", where 'a = nat] by simp
    then show ?thesis
      using bit_top [of "unat (wb_thresh dv d k)" 65] by (simp add: bit_unat)
  qed
  show "bit (wb_thresh dv d k) 65 \<longleftrightarrow> unat dv < k * unat d"
  proof (cases "unat ?x \<le> unat dv")
    case True
    then have "unat (wb_thresh dv d k) \<le> unat dv" using t by simp
    then have "\<not> 2 ^ 65 \<le> unat (wb_thresh dv d k)" using a(2) by simp
    then show ?thesis using top le(1) True by (metis not_less)
  next
    case False
    then have "unat (wb_thresh dv d k) = unat dv + 2 ^ 66 - unat ?x" using t by simp
    then have "2 ^ 65 \<le> unat (wb_thresh dv d k)" using unat_65 [of ?x] by simp
    then show ?thesis using top le(1) False by (metis not_less)
  qed
  show "unat (ucast (wb_thresh dv d k) :: u64) = unat dv - k * unat d" if "k * unat d \<le> unat dv"
  proof -
    have "unat ?x \<le> unat dv" using le(1) that by blast
    with le(2) have v: "unat (wb_thresh dv d k) = unat dv - k * unat d" by (simp only: t if_True)
    have "unat dv - k * unat d < 2 ^ 64" using a(2) by (rule le_less_trans [OF diff_le_self])
    then have "take_bit LENGTH(64) (unat (wb_thresh dv d k)) = unat dv - k * unat d"
      unfolding v len64 by (rule take_bit_nat_eq_self)
    then show ?thesis by (simp only: unsigned_ucast_eq)
  qed
qed

definition stage_quotient :: "nat \<Rightarrow> nat \<Rightarrow> nat" where
  "stage_quotient a b = (if b = 0 then 15 else min 15 (a div b))"

lemma stage_quotient_le: "k \<le> 15 \<Longrightarrow> k * b \<le> a \<longleftrightarrow> k \<le> stage_quotient a b"
  by (auto simp: stage_quotient_def less_eq_div_iff_mult_less_eq)

lemma divstage:
  "divstage64_comb dv d = (resid, bits) \<Longrightarrow>
     unat bits = stage_quotient (unat dv) (unat d) \<and> unat resid = unat dv - unat bits * unat d"
proof -
  assume e: "divstage64_comb dv d = (resid, bits)"
  define q where "q = stage_quotient (unat dv) (unat d)"
  have q: "q \<le> 15" by (simp add: q_def stage_quotient_def)
  have P: "\<not> bit (wb_thresh dv d k) 65 \<longleftrightarrow> k \<le> q" if "k \<le> 15" for k
    using that thresh(1) [of k dv d] stage_quotient_le [of k "unat d" "unat dv"] by (auto simp: q_def not_less)
  have "q \<in> set [0..<16]" using q by simp
  then have "q = 0 \<or> q = 1 \<or> q = 2 \<or> q = 3 \<or> q = 4 \<or> q = 5 \<or> q = 6 \<or> q = 7 \<or> q = 8 \<or> q = 9 \<or> q = 10
      \<or> q = 11 \<or> q = 12 \<or> q = 13 \<or> q = 14 \<or> q = 15"
    unfolding upt_16 by simp
  then have "(case List.find (\<lambda>k. \<not> bit (wb_thresh dv d k) 65) [15, 14, 13, 12, 11, 10, 9, 8, 7, 6, 5, 4, 3, 2, 1] of
      Some k \<Rightarrow> k | None \<Rightarrow> 0) = q"
    by (elim disjE) (simp_all add: P)
  then have e': "resid = ucast (wb_thresh dv d q)" "bits = of_nat q"
    using e by (simp_all add: divstage64_comb_def)
  have "q * unat d \<le> unat dv"
    using stage_quotient_le [OF q, where a = "unat dv" and b = "unat d"] by (simp add: q_def)
  moreover have "unat (of_nat q :: 4 word) = q"
    using q by (simp add: unat_of_nat)
  ultimately show ?thesis
    using thresh(2) [where k = q and dv = dv and d = d] q by (simp add: e' q_def [symmetric])
qed

subsection \<open>IntDiv\<close>

record div_in =
  di_ena :: bool
  di_unsigned :: bool
  di_rv32 :: bool
  di_residual :: bool
  di_a1 :: u64
  di_a2 :: u64

record div_regs =
  q_rv32 :: bool
  q_resid :: bool
  q_invert :: bool
  q_div_on_zero :: bool
  q_overflow :: bool
  q_busy :: bool
  q_ena :: "10 word"
  q_divident_i :: u64
  q_divisor_i :: "120 word"
  q_bits_i :: u64
  q_result :: u64
  q_reference_div :: u64
  q_a1_dbg :: u64
  q_a2_dbg :: u64

definition IntDiv_r_reset :: div_regs where
  "IntDiv_r_reset = \<lparr>q_rv32 = False, q_resid = False, q_invert = False, q_div_on_zero = False,
     q_overflow = False, q_busy = False, q_ena = 0, q_divident_i = 0, q_divisor_i = 0, q_bits_i = 0,
     q_result = 0, q_reference_div = 0, q_a1_dbg = 0, q_a2_dbg = 0\<rparr>"

text \<open>\<open>vb_a1\<close>, \<open>vb_a2\<close>: the magnitude of an operand; \<open>vb_rem\<close>, \<open>vb_div\<close>: the signed result.\<close>

definition div_operand :: "div_in \<Rightarrow> u64 \<Rightarrow> u64" where
  "div_operand x a =
     (if di_rv32 x
      then setf 0 32 (if di_unsigned x \<or> \<not> bit a 31 then rng a 31 0 else NOT (rng a 31 0) + 1) 0
      else (if di_unsigned x \<or> \<not> bit a 63 then a else NOT a + 1))"

definition div_signed :: "div_regs \<Rightarrow> u64 \<Rightarrow> u64" where
  "div_signed r a =
     (let v = (if q_invert r then NOT a + 1 else a)
      in if q_rv32 r then (let v = setf 32 32 0 v in if bit v 31 then setf 32 32 (NOT 0) v else v) else v)"

definition IntDiv_start :: "div_in \<Rightarrow> div_regs \<Rightarrow> div_regs" where
  "IntDiv_start x v =
     (let a1 = di_a1 x; a2 = di_a2 x; vb_a1 = div_operand x a1; vb_a2 = div_operand x a2;
          v_a1_m0 = (bit vb_a1 63 \<and> (rng vb_a1 62 0 :: u64) = 0); v_a2_m1 = (vb_a2 = NOT 0);
          invert = (\<lambda>i. \<not> di_unsigned x \<and> (\<not> di_residual x \<and> bit a1 i \<noteq> bit a2 i \<or> di_residual x \<and> bit a1 i))
      in v\<lparr>q_busy := True, q_rv32 := di_rv32 x, q_resid := di_residual x, q_divident_i := vb_a1,
           q_divisor_i := setf 56 64 (ucast vb_a2) 0,
           q_invert := (if di_rv32 x then invert 31 else invert 63),
           q_div_on_zero :=
             (rng a2 (if di_rv32 x then if di_unsigned x then 31 else 30
                      else if di_unsigned x then 63 else 62) 0 :: u64) = 0,
           q_overflow := \<not> di_unsigned x \<and> v_a1_m0 \<and> v_a2_m1,
           q_a1_dbg := a1, q_a2_dbg := a2\<rparr>)"

definition IntDiv_finish :: "div_regs \<Rightarrow> div_regs \<Rightarrow> div_regs" where
  "IntDiv_finish r v =
     v\<lparr>q_busy := False,
       q_result := (if q_resid r then (if q_overflow r then 0 else div_signed r (q_divident_i r))
                    else if q_div_on_zero r then NOT 0
                    else if q_overflow r then 0x8000000000000000
                    else div_signed r (q_bits_i r))\<rparr>"

text \<open>The two stages: the divisor shifted by four, then the divisor itself.\<close>

definition IntDiv_step :: "div_regs \<Rightarrow> div_regs \<Rightarrow> div_regs" where
  "IntDiv_step r v =
     (let (wb_resid0, wb_bits0) = divstage64_comb (q_divident_i r) (push_bit 4 (ucast (q_divisor_i r)));
          (wb_resid1, wb_bits1) = divstage64_comb wb_resid0 (ucast (q_divisor_i r))
      in v\<lparr>q_divident_i := wb_resid1, q_divisor_i := rng (q_divisor_i r) 119 8,
           q_bits_i := concat_bits [(64, q_bits_i r), (4, ucast wb_bits0), (4, ucast wb_bits1)]\<rparr>)"

definition IntDiv_comb :: "bool \<Rightarrow> bool \<Rightarrow> div_in \<Rightarrow> div_regs \<Rightarrow> div_regs" where
  "IntDiv_comb ar nrst x r =
     (let v = r\<lparr>q_ena := concat_bits [(9, rng (q_ena r) 8 0), (1, of_bool (di_ena x \<and> \<not> q_busy r))]\<rparr>;
          v = (if di_ena x then IntDiv_start x v
               else if bit (q_ena r) 8 then IntDiv_finish r v
               else if q_busy r then IntDiv_step r v else v)
      in sync_reset ar nrst IntDiv_r_reset v)"

definition IntDiv_registers :: "bool \<Rightarrow> bool \<Rightarrow> div_in \<Rightarrow> div_regs \<Rightarrow> div_regs" where
  "IntDiv_registers ar nrst x r = clock_edge ar nrst IntDiv_r_reset (IntDiv_comb ar nrst x r)"

definition IntDiv_o_valid :: "div_regs \<Rightarrow> bool" where
  "IntDiv_o_valid r = bit (q_ena r) 9"

subsection \<open>One clock cycle of the quotient\<close>

lemma stage_quotient_exact:
  assumes "0 < b" and "a < 16 * b"
  shows "stage_quotient a b = a div b" "a - stage_quotient a b * b = a mod b"
proof -
  have "a div b < 16" using assms by (simp add: less_mult_imp_div_less)
  then show q: "stage_quotient a b = a div b" using assms(1) by (simp add: stage_quotient_def)
  show "a - stage_quotient a b * b = a mod b" by (simp add: q minus_div_mult_eq_mod)
qed

lemma append_bits:
  "unat (concat_bits [(64, q), (4, ucast h), (4, ucast l)] :: u64) = (unat q * 256 + unat h * 16 + unat l) mod 2 ^ 64"
  for q :: u64 and h l :: "4 word"
proof -
  have hl: "unat h < 16" "unat l < 16"
    using unsigned_less [of h, where 'a = nat] unsigned_less [of l, where 'a = nat] by simp_all
  have u: "unat (ucast h :: u64) = unat h" "unat (ucast l :: u64) = unat l"
    by (simp_all add: unat_widen)
  have "(concat_bits [(64, q), (4, ucast h), (4, ucast l)] :: u64)
      = (push_bit 8 q OR push_bit 4 (ucast h)) OR ucast l"
    by (rule bit_word_eqI) (auto simp: bit_simps dest: bit_imp_le_length)
  also have "\<dots> = (push_bit 8 q OR push_bit 4 (ucast h)) + ucast l"
    by (rule disjunctive_add [symmetric]) (auto simp: bit_simps dest: bit_imp_le_length)
  also have "push_bit 8 q OR push_bit 4 (ucast h) = push_bit 8 q + push_bit 4 (ucast h :: u64)"
    by (rule disjunctive_add [symmetric]) (auto simp: bit_simps dest: bit_imp_le_length)
  finally have "(concat_bits [(64, q), (4, ucast h), (4, ucast l)] :: u64) = q * 256 + ucast h * 16 + ucast l"
    by (simp only: push_bit_eq_mult) simp
  then show ?thesis
    by (simp only: unat_word_ariths u) (simp add: mod_simps)
qed

lemma two_digits:
  fixes a b :: nat
  shows "a div (16 * b) * 16 + a mod (16 * b) div b = a div b" "a mod (16 * b) mod b = a mod b"
proof -
  have "a mod (b * 16) = b * (a div b mod 16) + a mod b"
    by (rule mod_mult2_eq)
  then have m: "a mod (16 * b) div b = a div b mod 16"
    by (cases "b = 0") (simp_all add: mult.commute [of 16])
  have "a div (16 * b) = a div b div 16"
    by (simp add: div_mult2_eq mult.commute [of 16])
  then show "a div (16 * b) * 16 + a mod (16 * b) div b = a div b"
    unfolding m by simp
  show "a mod (16 * b) mod b = a mod b"
    by (simp add: mod_mod_cancel)
qed

lemma unat_divisors:
  "unat (ucast d :: 124 word) = unat d" "unat (push_bit 4 (ucast d :: 124 word)) = 16 * unat d"
  "unat (rng d 119 8 :: 120 word) = unat d div 256" for d :: "120 word"
proof -
  have d: "unat d < 2 ^ 120" using unsigned_less [of d, where 'a = nat] by simp
  show u: "unat (ucast d :: 124 word) = unat d"
    by (rule unat_widen) simp
  have "unat (push_bit 4 (ucast d :: 124 word)) = take_bit LENGTH(124) (push_bit 4 (unat d))"
    by (simp only: unsigned_push_bit_eq u)
  also have "\<dots> = push_bit 4 (unat d)"
    by (rule take_bit_nat_eq_self) (use d in \<open>simp add: push_bit_eq_mult\<close>)
  finally show "unat (push_bit 4 (ucast d :: 124 word)) = 16 * unat d"
    by (simp add: push_bit_eq_mult mult.commute)
  show "unat (rng d 119 8 :: 120 word) = unat d div 256"
    using d by (subst unat_getf) simp_all
qed

lemma IntDiv_step_value:
  fixes r :: div_regs
  defines "a \<equiv> unat (q_divident_i r)" and "b \<equiv> unat (q_divisor_i r)" and "q \<equiv> unat (q_bits_i r)"
  assumes "0 < b \<Longrightarrow> a < 256 * b"
  shows "unat (q_divisor_i (IntDiv_step r v)) = b div 256"
    "0 < b \<Longrightarrow> unat (q_divident_i (IntDiv_step r v)) = a mod b"
    "0 < b \<Longrightarrow> unat (q_bits_i (IntDiv_step r v)) = (q * 256 + a div b) mod 2 ^ 64"
    "b = 0 \<Longrightarrow> unat (q_divident_i (IntDiv_step r v)) = a"
    "b = 0 \<Longrightarrow> unat (q_bits_i (IntDiv_step r v)) = (q * 256 + 255) mod 2 ^ 64"
proof -
  obtain r0 b0 where s0: "divstage64_comb (q_divident_i r) (push_bit 4 (ucast (q_divisor_i r))) = (r0, b0)"
    by fastforce
  obtain r1 b1 where s1: "divstage64_comb r0 (ucast (q_divisor_i r)) = (r1, b1)"
    by fastforce
  note d = divstage [OF s0] divstage [OF s1]
  have st: "q_divident_i (IntDiv_step r v) = r1" "q_divisor_i (IntDiv_step r v) = rng (q_divisor_i r) 119 8"
    "q_bits_i (IntDiv_step r v) = concat_bits [(64, q_bits_i r), (4, ucast b0), (4, ucast b1)]"
    by (simp_all add: IntDiv_step_def s0 s1 del: concat_bits.simps)
  show "unat (q_divisor_i (IntDiv_step r v)) = b div 256"
    unfolding st b_def by (rule unat_divisors)
  have bits: "unat (q_bits_i (IntDiv_step r v)) = (q * 256 + unat b0 * 16 + unat b1) mod 2 ^ 64"
    unfolding st q_def by (rule append_bits)
  have z: "unat b0 = 15 \<and> unat b1 = 15 \<and> unat r1 = a" if "b = 0"
    using d that by (simp add: unat_divisors a_def b_def stage_quotient_def)
  show "b = 0 \<Longrightarrow> unat (q_divident_i (IntDiv_step r v)) = a"
    using z unfolding st by blast
  show "b = 0 \<Longrightarrow> unat (q_bits_i (IntDiv_step r v)) = (q * 256 + 255) mod 2 ^ 64"
    using z unfolding bits by (simp add: add.commute)
  assume b: "0 < b"
  have v0: "unat b0 = a div (16 * b)" "unat r0 = a mod (16 * b)"
    using d(1) stage_quotient_exact [of "16 * b" a] assms(4) b
    by (simp_all add: unat_divisors flip: a_def b_def)
  have v1: "unat b1 = unat r0 div b" "unat r1 = unat r0 mod b"
    using d(2) stage_quotient_exact [of b "unat r0"] b by (simp_all add: unat_divisors v0 flip: b_def)
  show "unat (q_divident_i (IntDiv_step r v)) = a mod b"
    by (simp add: st v1 v0 two_digits)
  show "unat (q_bits_i (IntDiv_step r v)) = (q * 256 + a div b) mod 2 ^ 64"
    unfolding bits v1 v0 two_digits(1) [symmetric, of a b] by (simp add: add.assoc)
qed

subsection \<open>The quotient after eight cycles\<close>

definition div_cycle :: "div_in \<Rightarrow> div_regs \<Rightarrow> div_regs" where
  "div_cycle = IntDiv_registers False True"

lemma div_registers_cycle: "IntDiv_registers ar True x r = div_cycle x r"
  by (simp add: div_cycle_def IntDiv_registers_def IntDiv_comb_def Let_def)

definition div_idle :: "div_regs \<Rightarrow> bool" where
  "div_idle r \<longleftrightarrow> \<not> q_busy r \<and> (\<forall>n<9. \<not> bit (q_ena r) n)"

lemma div_shift_in:
  fixes e e' :: "10 word"
  assumes "e' = concat_bits [(9, rng e 8 0), (1, of_bool b)]"
  shows "bit e' n \<longleftrightarrow> n < 10 \<and> (if n = 0 then b else bit e (n - 1))"
  unfolding assms by (auto simp: bit_simps bit_getf simp del: push_bit_Suc)

lemma div_cycle_ena:
  "bit (q_ena (div_cycle x r)) n \<longleftrightarrow>
     n < 10 \<and> (if n = 0 then di_ena x \<and> \<not> q_busy r else bit (q_ena r) (n - 1))"
  by (rule div_shift_in)
    (simp add: div_cycle_def IntDiv_registers_def IntDiv_comb_def IntDiv_start_def IntDiv_finish_def
      IntDiv_step_def Let_def case_prod_beta del: concat_bits.simps)

lemma div_cycle_fields:
  "q_busy (div_cycle x r) \<longleftrightarrow> di_ena x \<or> q_busy r \<and> \<not> bit (q_ena r) 8"
  "\<not> di_ena x \<Longrightarrow> q_rv32 (div_cycle x r) = q_rv32 r \<and> q_resid (div_cycle x r) = q_resid r
     \<and> q_invert (div_cycle x r) = q_invert r \<and> q_div_on_zero (div_cycle x r) = q_div_on_zero r
     \<and> q_overflow (div_cycle x r) = q_overflow r"
  by (simp_all add: div_cycle_def IntDiv_registers_def IntDiv_comb_def IntDiv_start_def IntDiv_finish_def
      IntDiv_step_def Let_def case_prod_beta del: concat_bits.simps)

lemma div_cycle_step:
  assumes "\<not> di_ena x" and "q_busy r" and "\<not> bit (q_ena r) 8"
  shows "q_divident_i (div_cycle x r) = q_divident_i (IntDiv_step r v)"
    "q_divisor_i (div_cycle x r) = q_divisor_i (IntDiv_step r v)"
    "q_bits_i (div_cycle x r) = q_bits_i (IntDiv_step r v)"
  using assms by (simp_all add: div_cycle_def IntDiv_registers_def IntDiv_comb_def
      IntDiv_step_def Let_def case_prod_beta del: concat_bits.simps)

text \<open>
  After \<open>n\<close> cycles the dividend is \<open>A\<close> reduced by the divisor shifted by \<open>64 - 8 n\<close> bits, and the
  quotient digits stand behind the bits the register held before.
\<close>

definition div_progress :: "nat \<Rightarrow> nat \<Rightarrow> nat \<Rightarrow> nat \<Rightarrow> div_regs \<Rightarrow> bool" where
  "div_progress A B Q n r \<longleftrightarrow> q_busy r \<and> (\<forall>k<9. bit (q_ena r) k \<longleftrightarrow> k = n)
     \<and> (n < 8 \<longrightarrow> unat (q_divisor_i r) = B * 256 ^ (7 - n))
     \<and> unat (q_divident_i r) = (if B = 0 then A else A mod (B * 256 ^ (8 - n)))
     \<and> unat (q_bits_i r) = (Q * 256 ^ n + (if B = 0 then 256 ^ n - 1 else A div (B * 256 ^ (8 - n)))) mod 2 ^ 64"

lemma next_digits: "(A div (256 * C)) * 256 + A mod (256 * C) div C = A div C" "A mod (256 * C) mod C = A mod C"
  for A C :: nat
proof -
  have "A mod (C * 256) = C * (A div C mod 256) + A mod C"
    by (rule mod_mult2_eq)
  then have m: "A mod (256 * C) div C = A div C mod 256"
    by (cases "C = 0") (simp_all add: mult.commute [of 256])
  have "A div (256 * C) = A div C div 256"
    by (simp add: div_mult2_eq mult.commute [of 256])
  then show "(A div (256 * C)) * 256 + A mod (256 * C) div C = A div C"
    unfolding m by simp
  show "A mod (256 * C) mod C = A mod C"
    by (simp add: mod_mod_cancel)
qed

lemma div_progress_step:
  assumes p: "div_progress A B Q n r" and n: "n < 8" and x: "\<not> di_ena x"
  shows "div_progress A B Q (Suc n) (div_cycle x r)"
proof -
  define C where "C = B * 256 ^ (7 - n)"
  define D where "D = A div (256 * C)"
  have e: "256 ^ (8 - n) = 256 * (256::nat) ^ (7 - n)" "8 - Suc n = 7 - n"
    using n by (simp_all add: Suc_diff_le flip: power_Suc)
  have c: "q_busy r" "\<not> bit (q_ena r) 8" "unat (q_divisor_i r) = C"
    "\<And>k. k < 9 \<Longrightarrow> bit (q_ena r) k \<longleftrightarrow> k = n"
    using p n by (auto simp: div_progress_def C_def)
  note st = div_cycle_step [OF x c(1,2)]
  have busy: "q_busy (div_cycle x r)"
    using c by (simp add: div_cycle_fields)
  have ena: "\<forall>k<9. bit (q_ena (div_cycle x r)) k \<longleftrightarrow> k = Suc n"
    using c(4) x by (auto simp: div_cycle_ena less_Suc_eq_0_disj)
  have lt: "0 < unat (q_divisor_i r) \<Longrightarrow> unat (q_divident_i r) < 256 * unat (q_divisor_i r)"
  proof -
    assume "0 < unat (q_divisor_i r)"
    then have "0 < 256 * C" using c(3) by simp
    moreover have "unat (q_divident_i r) = A mod (256 * C)"
      using p \<open>0 < 256 * C\<close> by (simp add: div_progress_def C_def e mult.left_commute)
    ultimately show "unat (q_divident_i r) < 256 * unat (q_divisor_i r)"
      unfolding c(3) by simp
  qed
  have dv: "Suc n < 8 \<longrightarrow> unat (q_divisor_i (div_cycle x r)) = B * 256 ^ (7 - Suc n)"
  proof
    assume "Suc n < 8"
    then have "256 ^ (7 - n) = 256 * (256::nat) ^ (7 - Suc n)"
      by (simp add: Suc_diff_Suc flip: power_Suc)
    moreover have "unat (q_divisor_i (div_cycle x r)) = C div 256"
      unfolding st(2) [where v = r] c(3) [symmetric]
      by (rule IntDiv_step_value(1)) (rule lt)
    ultimately show "unat (q_divisor_i (div_cycle x r)) = B * 256 ^ (7 - Suc n)"
      by (simp add: C_def)
  qed
  show ?thesis
  proof (cases "B = 0")
    case True
    have z: "unat (q_divisor_i r) = 0" "unat (q_divident_i r) = A"
        "unat (q_bits_i r) = (Q * 256 ^ n + (256 ^ n - 1)) mod 2 ^ 64"
      using p True c by (simp_all add: div_progress_def C_def)
    have "unat (q_divident_i (div_cycle x r)) = A"
      unfolding st(1) [where v = r] using IntDiv_step_value(4) [of r r] z by simp
    moreover have "unat (q_bits_i (div_cycle x r)) = (unat (q_bits_i r) * 256 + 255) mod 2 ^ 64"
      unfolding st(3) [where v = r] using IntDiv_step_value(5) [of r r] z(1) by simp
    moreover have "((Q * 256 ^ n + (256 ^ n - 1)) mod 2 ^ 64 * 256 + 255) mod 2 ^ 64
        = (Q * 256 ^ Suc n + (256 ^ Suc n - 1)) mod (2 ^ 64 :: nat)"
    proof -
      have "((Q * 256 ^ n + (256 ^ n - 1)) mod 2 ^ 64 * 256 + 255) mod 2 ^ 64
        = ((Q * 256 ^ n + (256 ^ n - 1)) * 256 + 255) mod (2 ^ 64 :: nat)"
        by (rule mod_add_cong [OF _ refl]) (simp only: mod_mult_left_eq)
      also have "(Q * 256 ^ n + (256 ^ n - 1)) * 256 + 255 = Q * 256 ^ Suc n + (256 ^ Suc n - (1::nat))"
      proof -
        have "(1::nat) \<le> 256 ^ n" by simp
        then obtain m where "256 ^ n = Suc m" by (metis Suc_le_D One_nat_def)
        then show ?thesis by (simp add: algebra_simps)
      qed
      finally show ?thesis .
    qed
    ultimately show ?thesis
      unfolding div_progress_def z(3) using busy ena dv True by simp
  next
    case False
    then have C: "0 < C" by (simp add: C_def)
    have h: "unat (q_divident_i r) = A mod (256 * C)" "unat (q_bits_i r) = (Q * 256 ^ n + D) mod 2 ^ 64"
      using p False by (simp_all add: div_progress_def C_def D_def e mult.left_commute)
    have "unat (q_divident_i (div_cycle x r)) = A mod C"
      unfolding st(1) [where v = r] using IntDiv_step_value(2) [of r r, OF lt] C
      by (simp add: c(3) h(1) next_digits)
    moreover have "unat (q_bits_i (div_cycle x r)) = (Q * 256 ^ Suc n + A div C) mod 2 ^ 64"
    proof -
      have "unat (q_bits_i (div_cycle x r)) = ((Q * 256 ^ n + D) mod 2 ^ 64 * 256 + A mod (256 * C) div C) mod 2 ^ 64"
        unfolding st(3) [where v = r] using IntDiv_step_value(3) [of r r, OF lt] C by (simp add: c(3) h)
      also have "\<dots> = ((Q * 256 ^ n + D) * 256 + A mod (256 * C) div C) mod 2 ^ 64"
        by (rule mod_add_cong [OF _ refl]) (simp only: mod_mult_left_eq)
      also have "(Q * 256 ^ n + D) * 256 + A mod (256 * C) div C = Q * 256 ^ Suc n + A div C"
        using next_digits(1) [of A C] by (simp add: D_def distrib_right)
      finally show ?thesis .
    qed
    ultimately show ?thesis
      unfolding div_progress_def e(2) using busy ena dv False by (simp add: C_def)
  qed
qed

subsection \<open>Operands and results as numbers\<close>

text \<open>The operands as the instruction reads them, and the result of the ISA manual.\<close>

definition div_num :: "div_in \<Rightarrow> u64 \<Rightarrow> int" where
  "div_num x a =
     (if di_rv32 x then (if di_unsigned x then uint (ucast a :: u32) else sint (ucast a :: u32))
      else (if di_unsigned x then uint a else sint a))"

definition div_isa :: "div_in \<Rightarrow> int" where
  "div_isa x =
     (if di_residual x then isa_rem (div_num x (di_a1 x)) (div_num x (di_a2 x))
      else isa_div (div_num x (di_a1 x)) (div_num x (di_a2 x)))"

definition div_value :: "div_in \<Rightarrow> u64" where
  "div_value x = (if di_rv32 x then scast (word_of_int (div_isa x) :: u32) else word_of_int (div_isa x))"

text \<open>The zero test leaves the sign bit out: the least divisor passes for zero.\<close>

definition div_least :: "div_in \<Rightarrow> bool" where
  "div_least x \<longleftrightarrow> \<not> di_unsigned x \<and> \<not> di_residual x
     \<and> (if di_rv32 x then (ucast (di_a2 x) :: u32) = 0x80000000 else di_a2 x = 0x8000000000000000)"

lemma sint_sign:
  fixes a :: "'a::len word"
  assumes "LENGTH('a) = Suc n"
  shows "sint a = (if bit a n then uint a - 2 ^ Suc n else uint a)"
proof -
  have t: "take_bit (Suc n) (uint a) = uint a"
    unfolding assms [symmetric] by (rule take_bit_int_eq_self) (simp_all add: uint_lt2p)
  have "sint a = signed_take_bit n (uint a)" by (simp add: sint_uint assms)
  also have "\<dots> = take_bit (Suc n) (uint a) - 2 ^ Suc n * of_bool (bit (uint a) n)"
    by (rule signed_take_bit_eq_take_bit_minus)
  also have "bit (uint a) n = bit a n"
    by (simp add: bit_uint_iff assms)
  finally show ?thesis using t by simp
qed

lemma div_operand_32: "di_rv32 x \<Longrightarrow>
    div_operand x a = ucast (if di_unsigned x \<or> \<not> bit a 31 then ucast a else - ucast a :: u32)"
proof -
  assume x: "di_rv32 x"
  have low: "setf 0 32 y 0 = (ucast (ucast y :: u32) :: u64)" for y :: u64
    by (rule bit_word_eqI) (auto simp: bit_setf bit_simps)
  have r: "(ucast (rng a 31 0 :: u64) :: u32) = ucast a"
    by (rule bit_word_eqI) (auto simp: bit_getf bit_simps dest: bit_imp_le_length)
  have "(ucast (NOT (rng a 31 0 :: u64) + 1) :: u32) = - ucast a"
    unfolding minus_eq_not_plus_1 [symmetric]
    using low_word_arith(2) [of 0 "rng a 31 0"] r by simp
  then show ?thesis
    using x r by (simp only: div_operand_def low if_True) simp
qed

lemma unat_neg: "a \<noteq> 0 \<Longrightarrow> int (unat (- a)) = 2 ^ LENGTH('a) - uint a" for a :: "'a::len word"
proof -
  assume "a \<noteq> 0"
  then have "uint (- a) = 2 ^ LENGTH('a) - uint a"
    by (simp add: uint_word_ariths zmod_zminus1_eq_if) (simp add: uint_0_iff)
  then show ?thesis by simp
qed

lemma abs_sint:
  fixes a :: "'a::len word"
  assumes "LENGTH('a) = Suc n"
  shows "int (unat (if \<not> bit a n then a else - a)) = \<bar>sint a\<bar>" "bit a n \<longleftrightarrow> sint a < 0"
proof -
  have u: "0 \<le> uint a" "uint a < 2 ^ Suc n" using uint_lt2p [of a] assms by simp_all
  show "bit a n \<longleftrightarrow> sint a < 0"
    unfolding sint_sign [OF assms] using u by auto
  have "int (unat (- a)) = 2 ^ Suc n - uint a" if "bit a n"
    using that unat_neg [of a] assms by force
  then show "int (unat (if \<not> bit a n then a else - a)) = \<bar>sint a\<bar>"
    unfolding sint_sign [OF assms] using u by (cases "bit a n") simp_all
qed

lemma div_operand_num: "int (unat (div_operand x a)) = \<bar>div_num x a\<bar>"
proof (cases "di_rv32 x")
  case True
  have "bit a 31 \<longleftrightarrow> bit (ucast a :: u32) 31" by (simp add: bit_simps)
  then show ?thesis
    using True abs_sint(1) [where n = 31 and a = "ucast a :: u32"]
    by (auto simp: div_operand_32 div_num_def unat_widen)
next
  case False
  then show ?thesis
    using abs_sint(1) [where n = 63 and a = a]
    by (auto simp: div_operand_def div_num_def simp flip: minus_eq_not_plus_1)
qed

lemma div_num_sign: "di_rv32 x \<Longrightarrow> \<not> di_unsigned x \<Longrightarrow> bit a 31 \<longleftrightarrow> div_num x a < 0"
  "\<not> di_rv32 x \<Longrightarrow> \<not> di_unsigned x \<Longrightarrow> bit a 63 \<longleftrightarrow> div_num x a < 0"
  "di_unsigned x \<Longrightarrow> \<not> div_num x a < 0"
  using abs_sint(2) [where n = 31 and a = "ucast a :: u32"] abs_sint(2) [where n = 63 and a = a]
  by (auto simp: div_num_def bit_simps not_less)

lemma signed_results:
  "b \<noteq> 0 \<Longrightarrow> isa_div a b = (if (a < 0) \<noteq> (b < 0) then - (\<bar>a\<bar> div \<bar>b\<bar>) else \<bar>a\<bar> div \<bar>b\<bar>)"
  "isa_rem a b = (if a < 0 then - (\<bar>a\<bar> mod \<bar>b\<bar>) else \<bar>a\<bar> mod \<bar>b\<bar>)"
  by (auto simp: isa_div_def isa_rem_def cdiv_def cmod_abs sgn_if)

subsection \<open>A whole division\<close>

definition div_latched :: "div_in \<Rightarrow> div_regs \<Rightarrow> bool" where
  "div_latched x r \<longleftrightarrow> q_rv32 r = di_rv32 x \<and> q_resid r = di_residual x \<and> \<not> q_overflow r
     \<and> (q_invert r \<longleftrightarrow> (if di_residual x then div_num x (di_a1 x) < 0
                     else (div_num x (di_a1 x) < 0) \<noteq> (div_num x (di_a2 x) < 0)))
     \<and> (\<not> di_residual x \<longrightarrow> (q_div_on_zero r \<longleftrightarrow> div_num x (di_a2 x) = 0 \<or> div_least x))"

lemma word_0_iff: "w = 0 \<longleftrightarrow> (\<forall>k<LENGTH('a). \<not> bit w k)" for w :: "'a::len word"
  by (auto intro: bit_word_eqI)

lemma zero_test:
  "(getf 0 64 a :: u64) = 0 \<longleftrightarrow> a = 0" "(getf 0 32 a :: u64) = 0 \<longleftrightarrow> (ucast a :: u32) = 0"
  "(getf 0 63 a :: u64) = 0 \<longleftrightarrow> a = 0 \<or> a = 0x8000000000000000"
  "(getf 0 31 a :: u64) = 0 \<longleftrightarrow> (ucast a :: u32) = 0 \<or> (ucast a :: u32) = 0x80000000" for a :: u64
proof -
  have z: "(getf 0 n w :: u64) = 0 \<longleftrightarrow> (\<forall>k<n. \<not> bit w k)" if "n \<le> 64" for w :: u64 and n
    unfolding word_0_iff using that by (auto simp: bit_getf)
  show "(getf 0 64 a :: u64) = 0 \<longleftrightarrow> a = 0" "(getf 0 32 a :: u64) = 0 \<longleftrightarrow> (ucast a :: u32) = 0"
    using z [of 64 a] z [of 32 a] by (auto simp: word_0_iff [of a] word_0_iff [of "ucast a :: u32"] bit_simps)
  have b: "(\<forall>k<n. \<not> bit w k) \<longleftrightarrow> w = 0 \<or> w = push_bit n 1" if "LENGTH('b) = Suc n"
    for w :: "'b::len word" and n
  proof
    assume l: "\<forall>k<n. \<not> bit w k"
    show "w = 0 \<or> w = push_bit n 1"
    proof (cases "bit w n")
      case True
      then have "w = push_bit n 1"
        using l that by (intro bit_word_eqI) (auto simp: bit_simps less_Suc_eq)
      then show ?thesis ..
    next
      case False
      then have "w = 0"
        using l that by (intro bit_word_eqI) (auto simp: less_Suc_eq)
      then show ?thesis ..
    qed
  qed (auto simp: bit_simps)
  show "(getf 0 63 a :: u64) = 0 \<longleftrightarrow> a = 0 \<or> a = 0x8000000000000000"
    using b [of 63 a] z [of 63 a] by simp
  have "(\<forall>k<31. \<not> bit a k) \<longleftrightarrow> (\<forall>k<31. \<not> bit (ucast a :: u32) k)"
    by (auto simp: bit_simps)
  then show "(getf 0 31 a :: u64) = 0 \<longleftrightarrow> (ucast a :: u32) = 0 \<or> (ucast a :: u32) = 0x80000000"
    using b [of 31 "ucast a :: u32"] z [of 31 a] by simp
qed

lemma not_all_ones: "\<not> di_unsigned x \<Longrightarrow> div_operand x a \<noteq> NOT 0"
proof
  assume x: "\<not> di_unsigned x" and e: "div_operand x a = NOT 0"
  have "int (unat (NOT 0 :: u64)) = 2 ^ 64 - 1"
    by (simp add: unsigned_minus_1_eq_mask mask_eq_exp_minus_1)
  with div_operand_num [of x a] have "\<bar>div_num x a\<bar> = 2 ^ 64 - 1"
    unfolding e by simp
  moreover have "\<bar>div_num x a\<bar> \<le> 2 ^ 63"
    using x sint_ge [of a] sint_lt [of a] sint_ge [of "ucast a :: u32"] sint_lt [of "ucast a :: u32"]
    by (auto simp: div_num_def)
  ultimately show False by simp
qed

lemma div_num_0: "div_num x a = 0 \<longleftrightarrow> (if di_rv32 x then (ucast a :: u32) = 0 else a = 0)"
  by (simp add: div_num_def sint_eq_0 uint_0_iff)

lemma div_start:
  assumes "di_ena x" and "div_idle r"
  shows "div_progress (unat (div_operand x (di_a1 x))) (unat (div_operand x (di_a2 x))) (unat (q_bits_i r)) 0
      (div_cycle x r)"
    "div_latched x (div_cycle x r)"
proof -
  let ?s = "div_cycle x r"
  have st: "q_divident_i ?s = div_operand x (di_a1 x)" "q_bits_i ?s = q_bits_i r"
    "q_divisor_i ?s = setf 56 64 (ucast (div_operand x (di_a2 x))) 0" "q_rv32 ?s = di_rv32 x"
    "q_resid ?s = di_residual x"
    using assms(1) by (simp_all add: div_cycle_def IntDiv_registers_def IntDiv_comb_def IntDiv_start_def Let_def)
  have dv: "unat (q_divisor_i ?s) = unat (div_operand x (di_a2 x)) * 256 ^ 7"
    unfolding st using unat_less_64 [of "div_operand x (di_a2 x)"]
    by (subst unat_setf_0) (simp_all add: unat_widen)
  have A: "unat (div_operand x (di_a1 x)) < 2 ^ 64" by (rule unat_less_64)
  have q: "unat (q_bits_i r) < 2 ^ 64" by (rule unat_less_64)
  have e: "(256::nat) ^ 8 = 2 ^ 64" by simp
  have z: "a mod (b * 2 ^ 64) = a" "a div (b * 2 ^ 64) = 0" if "0 < b" "a < 2 ^ 64" for a b :: nat
  proof -
    have "2 ^ 64 \<le> b * 2 ^ 64" using that(1) by simp
    with that(2) have "a < b * 2 ^ 64" by (rule less_le_trans)
    then show "a mod (b * 2 ^ 64) = a" "a div (b * 2 ^ 64) = 0" by simp_all
  qed
  have busy: "q_busy ?s" "\<forall>k<9. bit (q_ena ?s) k \<longleftrightarrow> k = 0"
    using assms by (auto simp: div_cycle_fields div_cycle_ena div_idle_def)
  show "div_progress (unat (div_operand x (di_a1 x))) (unat (div_operand x (di_a2 x))) (unat (q_bits_i r)) 0 ?s"
    unfolding div_progress_def dv st using busy z [OF _ A] q dv [unfolded st] by (simp add: e)
  have fl: "q_invert ?s \<longleftrightarrow> \<not> di_unsigned x \<and>
      (let i = if di_rv32 x then 31 else 63 in if di_residual x then bit (di_a1 x) i else bit (di_a1 x) i \<noteq> bit (di_a2 x) i)"
    "q_div_on_zero ?s \<longleftrightarrow> (rng (di_a2 x) (if di_rv32 x then if di_unsigned x then 31 else 30
                      else if di_unsigned x then 63 else 62) 0 :: u64) = 0"
    "q_overflow ?s \<longrightarrow> \<not> di_unsigned x \<and> div_operand x (di_a2 x) = NOT 0"
    using assms(1) by (auto simp: div_cycle_def IntDiv_registers_def IntDiv_comb_def IntDiv_start_def Let_def)
  have "\<not> q_overflow ?s"
    using fl(3) not_all_ones by blast
  moreover have "q_invert ?s \<longleftrightarrow> (if di_residual x then div_num x (di_a1 x) < 0
      else (div_num x (di_a1 x) < 0) \<noteq> (div_num x (di_a2 x) < 0))"
    unfolding fl(1) Let_def by (cases "di_unsigned x"; cases "di_rv32 x") (simp_all add: div_num_sign)
  moreover have "q_div_on_zero ?s \<longleftrightarrow> div_num x (di_a2 x) = 0 \<or> div_least x" if "\<not> di_residual x"
    unfolding fl(2) div_num_0 using that by (cases "di_unsigned x"; cases "di_rv32 x") (simp_all add: zero_test div_least_def)
  ultimately show "div_latched x ?s"
    unfolding div_latched_def st(4,5) by blast
qed

lemma div_run:
  "div_progress A B Q n r \<Longrightarrow> n + length xs \<le> 8 \<Longrightarrow> list_all (\<lambda>x. \<not> di_ena x) xs \<Longrightarrow> div_latched x r \<Longrightarrow>
     div_progress A B Q (n + length xs) (fold div_cycle xs r) \<and> div_latched x (fold div_cycle xs r)"
proof (induction xs arbitrary: n r)
  case (Cons y ys)
  have "div_progress A B Q (Suc n) (div_cycle y r)"
    using Cons.prems by (intro div_progress_step) auto
  moreover have "div_latched x (div_cycle y r)"
    using Cons.prems div_cycle_fields(2) [of y r] by (simp add: div_latched_def)
  ultimately show ?case
    using Cons.IH [of "Suc n" "div_cycle y r"] Cons.prems by simp
qed simp

lemma div_finish:
  assumes "\<not> di_ena x" and "q_busy r" and "bit (q_ena r) 8"
  shows "q_result (div_cycle x r) =
      (if q_resid r then (if q_overflow r then 0 else div_signed r (q_divident_i r))
       else if q_div_on_zero r then NOT 0 else if q_overflow r then 0x8000000000000000
       else div_signed r (q_bits_i r))"
    "IntDiv_o_valid (div_cycle x r)"
  using assms by (simp_all add: IntDiv_o_valid_def div_cycle_ena)
    (simp add: div_cycle_def IntDiv_registers_def IntDiv_comb_def IntDiv_finish_def Let_def)

lemma div_signed_value:
  "div_signed r a = (if q_rv32 r then scast (word_of_int (if q_invert r then - int (unat a) else int (unat a)) :: u32)
     else word_of_int (if q_invert r then - int (unat a) else int (unat a)))"
proof -
  have w: "(if q_invert r then NOT a + 1 else a) = word_of_int (if q_invert r then - int (unat a) else int (unat a))"
    by (simp flip: minus_eq_not_plus_1)
  have s: "(let v = setf 32 32 0 y in if bit v 31 then setf 32 32 (NOT 0) v else v) = scast (ucast y :: u32)" for y :: u64
    by (rule bit_word_eqI) (auto simp: Let_def bit_setf bit_scast_32 bit_simps min_def)
  show ?thesis
    unfolding div_signed_def w by (simp add: s ucast_wi)
qed

lemma word_of_all_ones: "(scast (word_of_int (- 1) :: u32) :: u64) = NOT 0" "(word_of_int (- 1) :: u64) = NOT 0"
  by (simp_all add: scast_eq)

text \<open>What the last cycle selects is the signed quotient or remainder.\<close>

lemma div_select:
  assumes p: "div_progress (unat (div_operand x (di_a1 x))) (unat (div_operand x (di_a2 x))) Q 8 r"
    and l: "div_latched x r"
  shows "(if q_resid r then (if q_overflow r then 0 else div_signed r (q_divident_i r))
       else if q_div_on_zero r then NOT 0 else if q_overflow r then 0x8000000000000000
       else div_signed r (q_bits_i r)) = (if div_least x then NOT 0 else div_value x)"
proof -
  define a where "a = div_num x (di_a1 x)"
  define b where "b = div_num x (di_a2 x)"
  let ?A = "unat (div_operand x (di_a1 x))" and ?B = "unat (div_operand x (di_a2 x))"
  have AB: "int ?A = \<bar>a\<bar>" "int ?B = \<bar>b\<bar>"
    unfolding a_def b_def by (rule div_operand_num)+
  have ctl: "q_rv32 r = di_rv32 x" "q_resid r = di_residual x" "\<not> q_overflow r"
    "q_invert r \<longleftrightarrow> (if di_residual x then a < 0 else (a < 0) \<noteq> (b < 0))"
    "\<not> di_residual x \<Longrightarrow> q_div_on_zero r \<longleftrightarrow> b = 0 \<or> div_least x"
    using l by (simp_all add: div_latched_def a_def b_def)
  have "unat (q_divident_i r) = ?A mod ?B"
    using p by (simp add: div_progress_def)
  then have rem: "int (unat (q_divident_i r)) = \<bar>a\<bar> mod \<bar>b\<bar>"
    by (simp only: zmod_int AB)
  have quo: "int (unat (q_bits_i r)) = \<bar>a\<bar> div \<bar>b\<bar>" if "b \<noteq> 0"
  proof -
    have "?B \<noteq> 0" using that AB(2) by linarith
    moreover have "?A div ?B < 2 ^ 64"
      using unat_less_64 [of "div_operand x (di_a1 x)"] div_le_dividend [of ?A ?B] by linarith
    moreover have "(256::nat) ^ 8 = 2 ^ 64" by simp
    ultimately have "unat (q_bits_i r) = ?A div ?B"
      using p by (simp add: div_progress_def)
    then show ?thesis by (simp only: zdiv_int AB)
  qed
  show ?thesis
  proof (cases "di_residual x")
    case True
    then show ?thesis
      using ctl rem by (simp add: div_least_def div_signed_value div_value_def div_isa_def signed_results flip: a_def b_def)
  next
    case False
    show ?thesis
    proof (cases "b = 0")
      case True
      with False show ?thesis
        using ctl by (simp add: div_value_def div_isa_def isa_div_def word_of_all_ones flip: a_def b_def)
    next
      case b: False
      show ?thesis
        using ctl quo [OF b] b False
        by (simp add: div_signed_value div_value_def div_isa_def signed_results flip: a_def b_def)
    qed
  qed
qed

lemma div_whole:
  assumes "div_idle r" and "di_ena x" and "length xs = 9" and "list_all (\<lambda>y. \<not> di_ena y) xs"
  shows "let r' = fold div_cycle (x # xs) r
    in IntDiv_o_valid r' \<and> q_result r' = (if div_least x then NOT 0 else div_value x) \<and> div_idle r'"
proof -
  let ?A = "unat (div_operand x (di_a1 x))" and ?B = "unat (div_operand x (di_a2 x))" and ?Q = "unat (q_bits_i r)"
  obtain ys y where xs: "xs = ys @ [y]" "length ys = 8"
    using assms(3) by (metis length_Suc_conv_rev eval_nat_numeral(3))
  have y: "\<not> di_ena y" "list_all (\<lambda>y. \<not> di_ena y) ys" using assms(4) by (simp_all add: xs)
  define s where "s = fold div_cycle ys (div_cycle x r)"
  have s: "div_progress ?A ?B ?Q 8 s" "div_latched x s"
    using div_run [OF div_start(1) [OF assms(2,1)] _ y(2) div_start(2) [OF assms(2,1)]] xs(2)
    by (simp_all add: s_def)
  then have b: "q_busy s" "bit (q_ena s) 8" by (simp_all add: div_progress_def)
  have "div_idle (div_cycle y s)"
    using s(1) y(1) by (auto simp: div_idle_def div_cycle_fields div_cycle_ena div_progress_def)
  then show ?thesis
    using div_finish [OF y(1) b] div_select [OF s] by (simp add: xs flip: s_def)
qed

text \<open>
  C19: The divider of the RTL core computes DIV, DIVU, REM, REMU and their word forms as the ISA
  manual (and the simulator) does.  From any idle state an operation that starts in one
  cycle and is followed by nine cycles without a new one ends with \<open>o_valid\<close>, the unit idle
  again and the result in \<open>o_res\<close>, for every dividend, for zero divisors and for the
  overflow case; the one exception is a quotient by the least value of its width.
\<close>

theorem rtl_div_correct:
  assumes "div_idle r" and "di_ena x" and "\<not> div_least x"
    and "length xs = 9" and "list_all (\<lambda>y. \<not> di_ena y) xs"
  shows "let r' = fold div_cycle (x # xs) r
    in IntDiv_o_valid r' \<and> q_result r' = div_value x \<and> div_idle r'"
  using div_whole [OF assms(1,2,4,5)] assms(3) by simp

lemma quotient_by_least:
  assumes "b = - (2 ^ n)" and "b \<le> a" and "a < 2 ^ n"
  shows "isa_div a b = (if a = b then 1 else 0)"
proof (cases "a = b")
  case True
  then show ?thesis using assms by (simp add: signed_results)
next
  case False
  then have "\<bar>a\<bar> < \<bar>b\<bar>" using assms by auto
  then show ?thesis using False assms(1) by (simp add: signed_results)
qed

lemma least_quotient:
  assumes "div_least x"
  shows "isa_div (div_num x a) (div_num x (di_a2 x)) = (if div_num x a = div_num x (di_a2 x) then 1 else 0)"
proof (rule quotient_by_least)
  let ?n = "if di_rv32 x then 31 else 63 :: nat"
  have m: "sint (0x80000000 :: u32) = - (2 ^ 31)" "sint (0x8000000000000000 :: u64) = - (2 ^ 63)"
    by (simp_all add: sint_sign [where n = 31] sint_sign [where n = 63] bit_simps)
  show b: "div_num x (di_a2 x) = - (2 ^ ?n)"
    using assms m by (simp add: div_num_def div_least_def)
  show "div_num x (di_a2 x) \<le> div_num x a" "div_num x a < 2 ^ ?n"
    using assms sint_ge [of a] sint_lt [of a] sint_ge [of "ucast a :: u32"] sint_lt [of "ucast a :: u32"]
    unfolding b by (auto simp: div_num_def div_least_def)
qed

lemma div_reset_idle: "div_idle IntDiv_r_reset"
  by (simp add: div_idle_def IntDiv_r_reset_def)

theorem rtl_div_correct_witness:
  "let x = \<lparr>di_ena = True, di_unsigned = False, di_rv32 = False, di_residual = True, di_a1 = - 7, di_a2 = 2\<rparr>;
       r' = fold div_cycle (x # replicate 9 (x\<lparr>di_ena := False\<rparr>)) IntDiv_r_reset
   in IntDiv_o_valid r' \<and> q_result r' = - 1"
proof -
  let ?x = "\<lparr>di_ena = True, di_unsigned = False, di_rv32 = False, di_residual = True, di_a1 = - 7, di_a2 = 2\<rparr>"
  have "div_value ?x = - 1"
    by (simp add: div_value_def div_isa_def div_num_def isa_rem_def cmod_def cdiv_def)
  then show ?thesis
    using rtl_div_correct [OF div_reset_idle, of ?x "replicate 9 (?x\<lparr>di_ena := False\<rparr>)"]
    by (simp add: div_least_def Let_def list_all_iff)
qed

text \<open>
  The exception.  A signed DIV or DIVW by the least value of its width is taken for a
  division by zero: the divider answers all ones, where the manual asks for 1 (least
  value by itself) or 0.
\<close>

theorem rtl_div_least:
  assumes "div_idle r" and "di_ena x" and "div_least x"
    and "length xs = 9" and "list_all (\<lambda>y. \<not> di_ena y) xs"
  shows "q_result (fold div_cycle (x # xs) r) = - 1
    \<and> div_isa x = (if div_num x (di_a1 x) = div_num x (di_a2 x) then 1 else 0)"
proof
  show "q_result (fold div_cycle (x # xs) r) = - 1"
    using div_whole [OF assms(1,2,4,5)] assms(3) by (simp add: Let_def)
  show "div_isa x = (if div_num x (di_a1 x) = div_num x (di_a2 x) then 1 else 0)"
    using least_quotient [OF assms(3)] assms(3) by (simp add: div_isa_def div_least_def)
qed

theorem rtl_div_least_witness:
  "let x = \<lparr>di_ena = True, di_unsigned = False, di_rv32 = False, di_residual = False, di_a1 = 5, di_a2 = 0x8000000000000000\<rparr>
   in q_result (fold div_cycle (x # replicate 9 (x\<lparr>di_ena := False\<rparr>)) IntDiv_r_reset) = - 1"
proof -
  let ?x = "\<lparr>di_ena = True, di_unsigned = False, di_rv32 = False, di_residual = False, di_a1 = 5, di_a2 = 0x8000000000000000\<rparr> :: div_in"
  show ?thesis
    using rtl_div_least [OF div_reset_idle, of ?x "replicate 9 (?x\<lparr>di_ena := False\<rparr>)"]
    by (simp add: div_least_def Let_def list_all_iff)
qed

end
