(* ===== verification/Rtl_Execute.thy ===== *)
theory Rtl_Execute
  imports Rtl_Decoder Rtl_Mul Rtl_Div
begin

section \<open>The execution stage of the RTL core\<close>

text \<open>
  sc/rtl/riverlib/core/execute.cpp: \<open>InstrExecute\<close> takes a decoded instruction, checks the tags
  of its source registers, drives the arithmetic units and runs a state machine for what
  takes more than one cycle: requests to the CSR module, atomics, multiplication and
  division, halting.  The floating point unit stands outside: its result and its valid bit
  are inputs.
\<close>

subsection \<open>river_cfg.h and execute.h: constants\<close>

abbreviation (input) Res_Zero :: u8 where "Res_Zero \<equiv> 0"
abbreviation (input) Res_Reg2 :: u8 where "Res_Reg2 \<equiv> 1"
abbreviation (input) Res_Npc :: u8 where "Res_Npc \<equiv> 2"
abbreviation (input) Res_Ra :: u8 where "Res_Ra \<equiv> 3"
abbreviation (input) Res_Csr :: u8 where "Res_Csr \<equiv> 4"
abbreviation (input) Res_Alu :: u8 where "Res_Alu \<equiv> 5"
abbreviation (input) Res_AddSub :: u8 where "Res_AddSub \<equiv> 6"
abbreviation (input) Res_Shifter :: u8 where "Res_Shifter \<equiv> 7"
abbreviation (input) Res_IMul :: u8 where "Res_IMul \<equiv> 8"
abbreviation (input) Res_IDiv :: u8 where "Res_IDiv \<equiv> 9"
abbreviation (input) Res_FPU :: u8 where "Res_FPU \<equiv> 10"

abbreviation (input) State_Idle :: "4 word" where "State_Idle \<equiv> 0"
abbreviation (input) State_WaitMemAcces :: "4 word" where "State_WaitMemAcces \<equiv> 1"
abbreviation (input) State_WaitMulti :: "4 word" where "State_WaitMulti \<equiv> 2"
abbreviation (input) State_Amo :: "4 word" where "State_Amo \<equiv> 5"
abbreviation (input) State_Csr :: "4 word" where "State_Csr \<equiv> 6"
abbreviation (input) State_Halted :: "4 word" where "State_Halted \<equiv> 7"
abbreviation (input) State_DebugMemRequest :: "4 word" where "State_DebugMemRequest \<equiv> 8"
abbreviation (input) State_DebugMemError :: "4 word" where "State_DebugMemError \<equiv> 9"
abbreviation (input) State_Wfi :: "4 word" where "State_Wfi \<equiv> 15"

abbreviation (input) CsrState_Idle :: "2 word" where "CsrState_Idle \<equiv> 0"
abbreviation (input) CsrState_Req :: "2 word" where "CsrState_Req \<equiv> 1"
abbreviation (input) CsrState_Resp :: "2 word" where "CsrState_Resp \<equiv> 2"

abbreviation (input) AmoState_WaitMemAccess :: "2 word" where "AmoState_WaitMemAccess \<equiv> 0"
abbreviation (input) AmoState_Read :: "2 word" where "AmoState_Read \<equiv> 1"
abbreviation (input) AmoState_Modify :: "2 word" where "AmoState_Modify \<equiv> 2"
abbreviation (input) AmoState_Write :: "2 word" where "AmoState_Write \<equiv> 3"

text \<open>Bit numbers of a CSR request and of a memory operation; the commands have one bit set.\<close>

abbreviation (input) CsrReq_ReadBit :: nat where "CsrReq_ReadBit \<equiv> 0"
abbreviation (input) CsrReq_TrapReturnBit :: nat where "CsrReq_TrapReturnBit \<equiv> 2"
abbreviation (input) CsrReq_ExceptionBit :: nat where "CsrReq_ExceptionBit \<equiv> 3"
abbreviation (input) CsrReq_InterruptBit :: nat where "CsrReq_InterruptBit \<equiv> 4"
abbreviation (input) CsrReq_BreakpointBit :: nat where "CsrReq_BreakpointBit \<equiv> 5"
abbreviation (input) CsrReq_HaltBit :: nat where "CsrReq_HaltBit \<equiv> 6"
abbreviation (input) CsrReq_ResumeBit :: nat where "CsrReq_ResumeBit \<equiv> 7"
abbreviation (input) CsrReq_WfiBit :: nat where "CsrReq_WfiBit \<equiv> 8"

abbreviation (input) CsrReq_ReadCmd :: "10 word" where "CsrReq_ReadCmd \<equiv> 1"
abbreviation (input) CsrReq_WriteCmd :: "10 word" where "CsrReq_WriteCmd \<equiv> 2"
abbreviation (input) CsrReq_TrapReturnCmd :: "10 word" where "CsrReq_TrapReturnCmd \<equiv> 4"
abbreviation (input) CsrReq_ExceptionCmd :: "10 word" where "CsrReq_ExceptionCmd \<equiv> 8"
abbreviation (input) CsrReq_InterruptCmd :: "10 word" where "CsrReq_InterruptCmd \<equiv> 16"
abbreviation (input) CsrReq_BreakpointCmd :: "10 word" where "CsrReq_BreakpointCmd \<equiv> 32"
abbreviation (input) CsrReq_HaltCmd :: "10 word" where "CsrReq_HaltCmd \<equiv> 64"
abbreviation (input) CsrReq_ResumeCmd :: "10 word" where "CsrReq_ResumeCmd \<equiv> 128"
abbreviation (input) CsrReq_WfiCmd :: "10 word" where "CsrReq_WfiCmd \<equiv> 256"
abbreviation (input) CsrReq_FenceCmd :: "10 word" where "CsrReq_FenceCmd \<equiv> 512"

abbreviation (input) MemopType_Store :: nat where "MemopType_Store \<equiv> 0"
abbreviation (input) MemopType_Locked :: nat where "MemopType_Locked \<equiv> 1"
abbreviation (input) MemopType_Reserve :: nat where "MemopType_Reserve \<equiv> 2"
abbreviation (input) MemopType_Release :: nat where "MemopType_Release \<equiv> 3"

abbreviation (input) HALT_CAUSE_HALTREQ :: "12 word" where "HALT_CAUSE_HALTREQ \<equiv> 3"
abbreviation (input) HALT_CAUSE_STEP :: "12 word" where "HALT_CAUSE_STEP \<equiv> 4"
abbreviation (input) EXCEPTION_InstrMisalign :: "12 word" where "EXCEPTION_InstrMisalign \<equiv> 0"
abbreviation (input) EXCEPTION_InstrFault :: "12 word" where "EXCEPTION_InstrFault \<equiv> 1"
abbreviation (input) EXCEPTION_InstrIllegal :: "12 word" where "EXCEPTION_InstrIllegal \<equiv> 2"
abbreviation (input) EXCEPTION_Breakpoint :: "12 word" where "EXCEPTION_Breakpoint \<equiv> 3"
abbreviation (input) EXCEPTION_LoadMisalign :: "12 word" where "EXCEPTION_LoadMisalign \<equiv> 4"
abbreviation (input) EXCEPTION_LoadFault :: "12 word" where "EXCEPTION_LoadFault \<equiv> 5"
abbreviation (input) EXCEPTION_StoreMisalign :: "12 word" where "EXCEPTION_StoreMisalign \<equiv> 6"
abbreviation (input) EXCEPTION_StoreFault :: "12 word" where "EXCEPTION_StoreFault \<equiv> 7"
abbreviation (input) EXCEPTION_CallFromXMode :: "12 word" where "EXCEPTION_CallFromXMode \<equiv> 8"
abbreviation (input) EXCEPTION_InstrPageFault :: "12 word" where "EXCEPTION_InstrPageFault \<equiv> 12"
abbreviation (input) EXCEPTION_LoadPageFault :: "12 word" where "EXCEPTION_LoadPageFault \<equiv> 13"
abbreviation (input) EXCEPTION_StorePageFault :: "12 word" where "EXCEPTION_StorePageFault \<equiv> 15"
abbreviation (input) EXCEPTION_StackOverflow :: "12 word" where "EXCEPTION_StackOverflow \<equiv> 16"
abbreviation (input) EXCEPTION_StackUnderflow :: "12 word" where "EXCEPTION_StackUnderflow \<equiv> 17"

abbreviation (input) REG_RA :: u6 where "REG_RA \<equiv> 1"
abbreviation (input) CFG_RESET_VECTOR :: u64 where "CFG_RESET_VECTOR \<equiv> 0x10000"

subsection \<open>Inputs and registers\<close>

record exec_in =
  x_d_radr1 :: u6
  x_d_radr2 :: u6
  x_d_waddr :: u6
  x_d_csr_addr :: "12 word"
  x_d_imm :: u64
  x_d_pc :: u64
  x_d_instr :: u32
  x_d_progbuf_ena :: bool
  x_memop_store :: bool
  x_memop_load :: bool
  x_memop_sign_ext :: bool
  x_memop_size :: "2 word"
  x_unsigned_op :: bool
  x_rv32 :: bool
  x_compressed :: bool
  x_amo :: bool
  x_f64 :: bool
  x_isa_type :: "u8 \<Rightarrow> bool"
  x_ivec :: "u8 \<Rightarrow> bool"
  x_stack_overflow :: bool
  x_stack_underflow :: bool
  x_unsup_exception :: bool
  x_instr_load_fault :: bool
  x_mem_valid :: bool
  x_mem_rdata :: u64
  x_mem_ex_debug :: bool
  x_mem_ex_load_fault :: bool
  x_mem_ex_store_fault :: bool
  x_page_fault_x :: bool
  x_page_fault_r :: bool
  x_page_fault_w :: bool
  x_mem_ex_addr :: u64
  x_irq_pending :: "16 word"
  x_wakeup :: bool
  x_haltreq :: bool
  x_resumereq :: bool
  x_step :: bool
  x_dbg_progbuf_ena :: bool
  x_rdata1 :: u64
  x_rtag1 :: "3 word"
  x_rdata2 :: u64
  x_rtag2 :: "3 word"
  x_csr_req_ready :: bool
  x_csr_resp_valid :: bool
  x_csr_resp_data :: u64
  x_csr_resp_exception :: bool
  x_memop_ready :: bool
  x_memop_idle :: bool
  x_dbg_mem_req_valid :: bool
  x_dbg_mem_req_write :: bool
  x_dbg_mem_req_size :: "2 word"
  x_dbg_mem_req_addr :: u64
  x_dbg_mem_req_wdata :: u64
  x_fpu_res :: u64
  x_fpu_valid :: bool

record exec_regs =
  e_state :: "4 word"
  e_csrstate :: "2 word"
  e_amostate :: "2 word"
  e_pc :: u64
  e_npc :: u64
  e_dnpc :: u64
  e_radr1 :: u6
  e_radr2 :: u6
  e_waddr :: u6
  e_rdata1 :: u64
  e_rdata2 :: u64
  e_rdata1_amo :: u64
  e_rdata2_amo :: u64
  e_ivec :: "u8 \<Rightarrow> bool"
  e_isa_type :: "u8 \<Rightarrow> bool"
  e_imm :: u64
  e_instr :: u32
  e_tagcnt :: "192 word"
  e_reg_write :: bool
  e_reg_waddr :: u6
  e_reg_wtag :: "3 word"
  e_csr_req_rmw :: bool
  e_csr_req_type :: "10 word"
  e_csr_req_addr :: "12 word"
  e_csr_req_data :: u64
  e_memop_valid :: bool
  e_memop_debug :: bool
  e_memop_halted :: bool
  e_memop_type :: "4 word"
  e_memop_sign_ext :: bool
  e_memop_size :: "2 word"
  e_memop_memaddr :: u64
  e_memop_wdata :: u64
  e_unsigned_op :: bool
  e_rv32 :: bool
  e_compressed :: bool
  e_f64 :: bool
  e_stack_overflow :: bool
  e_stack_underflow :: bool
  e_mem_ex_load_fault :: bool
  e_mem_ex_store_fault :: bool
  e_page_fault_r :: bool
  e_page_fault_w :: bool
  e_mem_ex_addr :: u64
  e_res_npc :: u64
  e_res_ra :: u64
  e_res_csr :: u64
  e_select :: "u8 \<Rightarrow> bool"
  e_valid :: bool
  e_call :: bool
  e_ret :: bool
  e_jmp :: bool
  e_stepdone :: bool

definition InstrExecute_r_reset :: exec_regs where
  "InstrExecute_r_reset = \<lparr>
     e_state = State_Idle, e_csrstate = CsrState_Idle, e_amostate = AmoState_WaitMemAccess,
     e_pc = 0, e_npc = CFG_RESET_VECTOR, e_dnpc = 0, e_radr1 = 0, e_radr2 = 0, e_waddr = 0,
     e_rdata1 = 0, e_rdata2 = 0, e_rdata1_amo = 0, e_rdata2_amo = 0, e_ivec = (\<lambda>_. False),
     e_isa_type = (\<lambda>_. False), e_imm = 0, e_instr = 0, e_tagcnt = 0, e_reg_write = False,
     e_reg_waddr = 0, e_reg_wtag = 0, e_csr_req_rmw = False, e_csr_req_type = 0,
     e_csr_req_addr = 0, e_csr_req_data = 0, e_memop_valid = False, e_memop_debug = False,
     e_memop_halted = False, e_memop_type = 0, e_memop_sign_ext = False, e_memop_size = 0,
     e_memop_memaddr = 0, e_memop_wdata = 0, e_unsigned_op = False, e_rv32 = False,
     e_compressed = False, e_f64 = False, e_stack_overflow = False, e_stack_underflow = False,
     e_mem_ex_load_fault = False, e_mem_ex_store_fault = False, e_page_fault_r = False,
     e_page_fault_w = False, e_mem_ex_addr = 0, e_res_npc = 0, e_res_ra = 0, e_res_csr = 0,
     e_select = (\<lambda>_. False), e_valid = False, e_call = False, e_ret = False, e_jmp = False,
     e_stepdone = False\<rparr>"

text \<open>The stage with the registers of its arithmetic units.\<close>

record exec_stage =
  st_ex :: exec_regs
  st_alu :: res_regs
  st_addsub :: res_regs
  st_shifter :: res_regs
  st_mul :: mul_regs
  st_div :: div_regs

subsection \<open>The instruction at work\<close>

text \<open>In the state Idle the decoder's outputs, in every other state the latched ones.\<close>

record exec_mux =
  mx_radr1 :: u6
  mx_radr2 :: u6
  mx_waddr :: u6
  mx_imm :: u64
  mx_pc :: u64
  mx_instr :: u32
  mx_memop_type :: "4 word"
  mx_memop_sign_ext :: bool
  mx_memop_size :: "2 word"
  mx_unsigned_op :: bool
  mx_rv32 :: bool
  mx_compressed :: bool
  mx_f64 :: bool
  mx_ivec :: "u8 \<Rightarrow> bool"
  mx_isa_type :: "u8 \<Rightarrow> bool"

definition any :: "(u8 \<Rightarrow> bool) \<Rightarrow> u8 list \<Rightarrow> bool" where
  "any wv is = list_ex wv is"

definition bits_of :: "bool list \<Rightarrow> 'a::len word" where
  "bits_of bs = horner_sum of_bool 2 bs"

definition input_mux :: "exec_in \<Rightarrow> exec_regs \<Rightarrow> exec_mux" where
  "input_mux x r =
     (if e_state r = State_Idle
      then \<lparr>mx_radr1 = x_d_radr1 x, mx_radr2 = x_d_radr2 x, mx_waddr = x_d_waddr x, mx_imm = x_d_imm x,
        mx_pc = x_d_pc x, mx_instr = x_d_instr x,
        mx_memop_type = bits_of [x_memop_store x, x_amo x \<and> x_memop_load x,
          x_ivec x Instr_LR_D \<or> x_ivec x Instr_LR_W, x_ivec x Instr_SC_D \<or> x_ivec x Instr_SC_W],
        mx_memop_sign_ext = x_memop_sign_ext x, mx_memop_size = x_memop_size x,
        mx_unsigned_op = x_unsigned_op x, mx_rv32 = x_rv32 x, mx_compressed = x_compressed x,
        mx_f64 = x_f64 x, mx_ivec = x_ivec x, mx_isa_type = x_isa_type x\<rparr>
      else \<lparr>mx_radr1 = e_radr1 r, mx_radr2 = e_radr2 r, mx_waddr = e_waddr r, mx_imm = e_imm r,
        mx_pc = e_pc r, mx_instr = e_instr r, mx_memop_type = e_memop_type r,
        mx_memop_sign_ext = e_memop_sign_ext r, mx_memop_size = e_memop_size r,
        mx_unsigned_op = e_unsigned_op r, mx_rv32 = e_rv32 r, mx_compressed = e_compressed r,
        mx_f64 = e_f64 r, mx_ivec = e_ivec r, mx_isa_type = e_isa_type r\<rparr>)"

record exec_ops =
  vb_rdata1 :: u64
  vb_rdata2 :: u64
  vb_off :: u64
  v_check_tag1 :: bool
  v_check_tag2 :: bool

definition operands :: "exec_in \<Rightarrow> exec_regs \<Rightarrow> exec_mux \<Rightarrow> exec_ops" where
  "operands x r m =
     (let t = mx_isa_type m; ops = (\<lambda>a b off c1 c2.
            \<lparr>vb_rdata1 = a, vb_rdata2 = b, vb_off = off, v_check_tag1 = c1, v_check_tag2 = c2\<rparr>)
      in if e_state r = State_Amo then ops (e_rdata1_amo r) (e_rdata2_amo r) 0 True True
         else if t ISA_R_type then ops (x_rdata1 x) (x_rdata2 x) 0 True True
         else if t ISA_I_type then ops (x_rdata1 x) (mx_imm m) 0 True False
         else if t ISA_SB_type then ops (x_rdata1 x) (x_rdata2 x) (mx_imm m) True True
         else if t ISA_UJ_type then ops (mx_pc m) 0 (mx_imm m) True False
         else if t ISA_U_type then ops (mx_pc m) (mx_imm m) 0 False False
         else if t ISA_S_type then ops (x_rdata1 x) (x_rdata2 x) (mx_imm m) True True
         else ops 0 0 0 False False)"

definition amo_operand :: "exec_in \<Rightarrow> exec_regs \<Rightarrow> exec_mux \<Rightarrow> u64" where
  "amo_operand x r m =
     (let sext = (\<lambda>lo. if mx_memop_sign_ext m \<and> bit lo 31 then setf 32 32 (NOT 0) lo else lo)
      in if any (mx_ivec m) [Instr_AMOSWAP_D, Instr_AMOSWAP_W] then 0
         else if x_mem_valid x then
           (if mx_rv32 m
            then (if bit (e_memop_memaddr r) 2 then sext (rng (x_mem_rdata x) 63 32) else sext (rng (x_mem_rdata x) 31 0))
            else x_mem_rdata x)
         else 0)"

definition memaddr_load :: "exec_ops \<Rightarrow> u64" where
  "memaddr_load p = vb_rdata1 p + vb_rdata2 p"

definition memaddr_store :: "exec_ops \<Rightarrow> u64" where
  "memaddr_store p = vb_rdata1 p + vb_off p"

text \<open>A source register is free when its expected tag is the one the register bank returns.\<close>

definition tag_of :: "192 word \<Rightarrow> u6 \<Rightarrow> 3 word" where
  "tag_of tags a = getf (3 * unat a) 3 tags"

definition hazard :: "exec_in \<Rightarrow> exec_regs \<Rightarrow> exec_mux \<Rightarrow> exec_ops \<Rightarrow> bool" where
  "hazard x r m p \<longleftrightarrow>
     v_check_tag1 p \<and> tag_of (e_tagcnt r) (mx_radr1 m) \<noteq> x_rtag1 x
     \<or> v_check_tag2 p \<and> tag_of (e_tagcnt r) (mx_radr2 m) \<noteq> x_rtag2 x"

text \<open>The branch conditions; signed ones look at the sign of the difference.\<close>

definition pc_branch :: "(u8 \<Rightarrow> bool) \<Rightarrow> u64 \<Rightarrow> u64 \<Rightarrow> bool" where
  "pc_branch wv a b =
     (let vb_sub64 = a - b
      in wv Instr_BEQ \<and> vb_sub64 = 0 \<or> wv Instr_BGE \<and> \<not> bit vb_sub64 63 \<or> wv Instr_BGEU \<and> b \<le> a
         \<or> wv Instr_BLT \<and> bit vb_sub64 63 \<or> wv Instr_BLTU \<and> a < b \<or> wv Instr_BNE \<and> vb_sub64 \<noteq> 0)"

definition opcode_len :: "exec_mux \<Rightarrow> u64" where
  "opcode_len m = (if mx_compressed m then 2 else 4)"

definition prog_npc :: "exec_mux \<Rightarrow> exec_ops \<Rightarrow> u64" where
  "prog_npc m p =
     (let wv = mx_ivec m
      in if pc_branch wv (vb_rdata1 p) (vb_rdata2 p) then mx_pc m + vb_off p
         else if wv Instr_JAL then vb_rdata1 p + vb_off p
         else if wv Instr_JALR then setf 0 1 0 (vb_rdata1 p + vb_rdata2 p)
         else mx_pc m + opcode_len m)"

definition load_misaligned :: "(u8 \<Rightarrow> bool) \<Rightarrow> u64 \<Rightarrow> bool" where
  "load_misaligned wv a \<longleftrightarrow>
     wv Instr_LD \<and> (rng a 2 0 :: u64) \<noteq> 0 \<or> any wv [Instr_LW, Instr_LWU] \<and> (rng a 1 0 :: u64) \<noteq> 0
     \<or> any wv [Instr_LH, Instr_LHU] \<and> bit a 0"

definition store_misaligned :: "(u8 \<Rightarrow> bool) \<Rightarrow> u64 \<Rightarrow> bool" where
  "store_misaligned wv a \<longleftrightarrow>
     wv Instr_SD \<and> (rng a 2 0 :: u64) \<noteq> 0 \<or> wv Instr_SW \<and> (rng a 1 0 :: u64) \<noteq> 0 \<or> wv Instr_SH \<and> bit a 0"

definition debug_misaligned :: "exec_in \<Rightarrow> bool" where
  "debug_misaligned x \<longleftrightarrow>
     (let a = x_dbg_mem_req_addr x; n = x_dbg_mem_req_size x
      in n = 3 \<and> (rng a 2 0 :: u64) \<noteq> 0 \<or> n = 2 \<and> (rng a 1 0 :: u64) \<noteq> 0 \<or> n = 1 \<and> bit a 0)"

text \<open>Which unit gives the result.\<close>

definition returns :: "u8 list" where
  "returns = [Instr_MRET, Instr_HRET, Instr_SRET, Instr_URET]"

definition csr_instrs :: "u8 list" where
  "csr_instrs = [Instr_CSRRC, Instr_CSRRCI, Instr_CSRRS, Instr_CSRRSI, Instr_CSRRW, Instr_CSRRWI]"

definition select_units :: "bool \<Rightarrow> exec_mux \<Rightarrow> bool \<Rightarrow> u8 \<Rightarrow> bool" where
  "select_units fpu_ena m v_pc_branch =
     (let wv = mx_ivec m;
          s = (\<lambda>_. False)
            (Res_Reg2 := bit (mx_memop_type m) MemopType_Store \<or> wv Instr_LUI,
             Res_Ra := v_pc_branch \<or> any wv ([Instr_JAL, Instr_JALR] @ returns),
             Res_Csr := any wv csr_instrs,
             Res_Alu := any wv [Instr_AND, Instr_ANDI, Instr_OR, Instr_ORI, Instr_XOR, Instr_XORI,
               Instr_AMOOR_D, Instr_AMOOR_W, Instr_AMOAND_D, Instr_AMOAND_W, Instr_AMOXOR_D, Instr_AMOXOR_W],
             Res_AddSub := any wv [Instr_ADD, Instr_ADDI, Instr_AUIPC, Instr_ADDW, Instr_ADDIW, Instr_SUB,
               Instr_SUBW, Instr_SLT, Instr_SLTI, Instr_SLTU, Instr_SLTIU, Instr_AMOADD_D, Instr_AMOADD_W,
               Instr_AMOMIN_D, Instr_AMOMIN_W, Instr_AMOMAX_D, Instr_AMOMAX_W, Instr_AMOMINU_D,
               Instr_AMOMINU_W, Instr_AMOMAXU_D, Instr_AMOMAXU_W, Instr_AMOSWAP_D, Instr_AMOSWAP_W],
             Res_Shifter := any wv [Instr_SLL, Instr_SLLI, Instr_SLLW, Instr_SLLIW, Instr_SRL, Instr_SRLI,
               Instr_SRLW, Instr_SRLIW, Instr_SRA, Instr_SRAI, Instr_SRAW, Instr_SRAIW],
             Res_IMul := any wv [Instr_MUL, Instr_MULW, Instr_MULH, Instr_MULHSU, Instr_MULHU],
             Res_IDiv := any wv [Instr_DIV, Instr_DIVU, Instr_DIVW, Instr_DIVUW, Instr_REM, Instr_REMU,
               Instr_REMW, Instr_REMUW],
             Res_FPU := fpu_ena \<and> mx_f64 m \<and> \<not> any wv [Instr_FSD, Instr_FLD])
      in s(Res_Zero := \<not> any s [Res_Reg2, Res_Npc, Res_Ra, Res_Csr, Res_Alu, Res_AddSub, Res_Shifter,
                              Res_IMul, Res_IDiv, Res_FPU]))"

subsection \<open>Requests to the CSR module\<close>

definition irq2idx :: "16 word \<Rightarrow> 4 word" where
  "irq2idx irqbus =
     (if bit irqbus 11 then 11 else if bit irqbus 3 then 3 else if bit irqbus 7 then 7
      else if bit irqbus 9 then 9 else if bit irqbus 1 then 1 else if bit irqbus 5 then 5 else 0)"

definition mem_ex :: "exec_in \<Rightarrow> exec_regs \<Rightarrow> bool" where
  "mem_ex x r \<longleftrightarrow> e_mem_ex_load_fault r \<or> e_mem_ex_store_fault r \<or> x_page_fault_x x \<or> e_page_fault_r r \<or> e_page_fault_w r"

definition csr_cmd_ena :: "exec_in \<Rightarrow> exec_regs \<Rightarrow> exec_mux \<Rightarrow> exec_ops \<Rightarrow> bool" where
  "csr_cmd_ena x r m p \<longleftrightarrow>
     x_haltreq x \<or> x_step x \<and> e_stepdone r \<or> x_unsup_exception x \<or> x_instr_load_fault x \<or> mem_ex x r
     \<or> e_stack_overflow r \<or> e_stack_underflow r \<or> bit (mx_pc m) 0
     \<or> load_misaligned (mx_ivec m) (memaddr_load p) \<or> store_misaligned (mx_ivec m) (memaddr_store p)
     \<or> x_irq_pending x \<noteq> 0
     \<or> any (mx_ivec m) ([Instr_WFI, Instr_EBREAK, Instr_ECALL] @ returns @ csr_instrs
         @ [Instr_FENCE, Instr_FENCE_I, Instr_SFENCE_VMA])"

text \<open>The value a CSR instruction writes back, from the value that was read.\<close>

definition csr_wdata :: "exec_in \<Rightarrow> exec_regs \<Rightarrow> (u8 \<Rightarrow> bool) \<Rightarrow> u64" where
  "csr_wdata x r wv =
     (let old = x_csr_resp_data x; z = ucast (rng (e_radr1 r) 4 0 :: 5 word) :: u64
      in if wv Instr_CSRRC then old AND NOT (e_rdata1 r)
         else if wv Instr_CSRRCI then setf 0 5 (rng old 4 0 AND NOT z) (setf 5 59 (rng old 63 5) 0)
         else if wv Instr_CSRRS then old OR e_rdata1 r
         else if wv Instr_CSRRSI then setf 0 5 (rng old 4 0 OR z) (setf 5 59 (rng old 63 5) 0)
         else if wv Instr_CSRRW then e_rdata1 r
         else if wv Instr_CSRRWI then z
         else 0)"

text \<open>Type, address and data of the request; the higher priorities come first.\<close>

definition csr_command :: "exec_in \<Rightarrow> exec_regs \<Rightarrow> exec_mux \<Rightarrow> exec_ops \<Rightarrow> 10 word \<times> 12 word \<times> u64" where
  "csr_command x r m p =
     (let wv = mx_ivec m; wdata = csr_wdata x r wv;
          plain = (if any wv csr_instrs then (CsrReq_ReadCmd, x_d_csr_addr x, wdata) else (0, 0, wdata))
      in if e_state r \<noteq> State_Idle then plain
         else if x_haltreq x then (CsrReq_HaltCmd, HALT_CAUSE_HALTREQ, wdata)
         else if x_step x \<and> e_stepdone r then (CsrReq_HaltCmd, HALT_CAUSE_STEP, wdata)
         else if bit (mx_pc m) 0 then (CsrReq_ExceptionCmd, EXCEPTION_InstrMisalign, mx_pc m)
         else if x_instr_load_fault x then (CsrReq_ExceptionCmd, EXCEPTION_InstrFault, mx_pc m)
         else if x_unsup_exception x then (CsrReq_ExceptionCmd, EXCEPTION_InstrIllegal, ucast (mx_instr m))
         else if wv Instr_EBREAK then (CsrReq_BreakpointCmd, EXCEPTION_Breakpoint, wdata)
         else if load_misaligned wv (memaddr_load p) then (CsrReq_ExceptionCmd, EXCEPTION_LoadMisalign, memaddr_load p)
         else if e_mem_ex_load_fault r then (CsrReq_ExceptionCmd, EXCEPTION_LoadFault, e_mem_ex_addr r)
         else if store_misaligned wv (memaddr_store p) then (CsrReq_ExceptionCmd, EXCEPTION_StoreMisalign, memaddr_store p)
         else if e_mem_ex_store_fault r then (CsrReq_ExceptionCmd, EXCEPTION_StoreFault, e_mem_ex_addr r)
         else if x_page_fault_x x then (CsrReq_ExceptionCmd, EXCEPTION_InstrPageFault, mx_pc m)
         else if e_page_fault_r r then (CsrReq_ExceptionCmd, EXCEPTION_LoadPageFault, e_mem_ex_addr r)
         else if e_page_fault_w r then (CsrReq_ExceptionCmd, EXCEPTION_StorePageFault, e_mem_ex_addr r)
         else if e_stack_overflow r then (CsrReq_ExceptionCmd, EXCEPTION_StackOverflow, wdata)
         else if e_stack_underflow r then (CsrReq_ExceptionCmd, EXCEPTION_StackUnderflow, wdata)
         else if wv Instr_ECALL then (CsrReq_ExceptionCmd, EXCEPTION_CallFromXMode, wdata)
         else if x_irq_pending x \<noteq> 0 then (CsrReq_InterruptCmd, ucast (irq2idx (x_irq_pending x)), wdata)
         else if wv Instr_WFI then (CsrReq_WfiCmd, rng (mx_instr m) 14 12, wdata)
         else if wv Instr_MRET then (CsrReq_TrapReturnCmd, 3, wdata)
         else if wv Instr_HRET then (CsrReq_TrapReturnCmd, 2, wdata)
         else if wv Instr_SRET then (CsrReq_TrapReturnCmd, 1, wdata)
         else if wv Instr_URET then (CsrReq_TrapReturnCmd, 0, wdata)
         else if wv Instr_FENCE then (CsrReq_FenceCmd, 1, wdata)
         else if wv Instr_FENCE_I then (CsrReq_FenceCmd, 2, NOT 0)
         else if wv Instr_SFENCE_VMA then
           (CsrReq_FenceCmd, 4, if mx_radr1 m = 0 then NOT 0 else x_rdata1 x)
         else plain)"

subsection \<open>The selected result\<close>

definition exec_res :: "bool \<Rightarrow> exec_in \<Rightarrow> exec_stage \<Rightarrow> u64" where
  "exec_res fpu_ena x s =
     (let r = st_ex s; sel = e_select r
      in if sel Res_Reg2 then e_rdata2 r
         else if sel Res_Npc then e_res_npc r
         else if sel Res_Ra then e_res_ra r
         else if sel Res_Csr then e_res_csr r
         else if sel Res_Alu then r_res (st_alu s)
         else if sel Res_AddSub then r_res (st_addsub s)
         else if sel Res_Shifter then r_res (st_shifter s)
         else if sel Res_IMul then IntMul_o_res (st_mul s)
         else if sel Res_IDiv then q_result (st_div s)
         else if sel Res_FPU then (if fpu_ena then x_fpu_res x else 0)
         else 0)"

subsection \<open>The state machine\<close>

text \<open>
  What one evaluation of the \<open>switch\<close> decides: the registers so far, the flags that the end of
  the process looks at, and the outputs that are not registered.
\<close>

record exec_act =
  ac_v :: exec_regs
  ac_latch_input :: bool
  ac_memop_ena :: bool
  ac_memop_debug :: bool
  ac_reg_ena :: bool
  ac_reg_waddr :: u6
  ac_memop_memaddr :: u64
  ac_memop_wdata :: u64
  ac_memop_type :: "4 word"
  ac_csr_req_valid :: bool
  ac_csr_resp_ready :: bool
  ac_dbg_mem_req_ready :: bool
  ac_dbg_mem_req_error :: bool

definition d_valid :: "exec_in \<Rightarrow> exec_regs \<Rightarrow> bool" where
  "d_valid x r \<longleftrightarrow>
     x_d_pc x = e_npc r \<and> \<not> x_d_progbuf_ena x \<and> \<not> x_dbg_progbuf_ena x
     \<or> x_d_pc x = e_dnpc r \<and> x_d_progbuf_ena x \<and> x_dbg_progbuf_ena x"

text \<open>A memory request of the debugger, from the states Idle and Halted.\<close>

definition exec_dbg_mem :: "exec_in \<Rightarrow> bool \<Rightarrow> exec_act \<Rightarrow> exec_act" where
  "exec_dbg_mem x halted a =
     a\<lparr>ac_dbg_mem_req_ready := True, ac_dbg_mem_req_error := debug_misaligned x,
       ac_v := (ac_v a)\<lparr>e_state := (if debug_misaligned x then State_DebugMemError else State_DebugMemRequest),
         e_memop_halted := halted, e_memop_sign_ext := False,
         e_memop_type := bits_of [x_dbg_mem_req_write x], e_memop_size := x_dbg_mem_req_size x\<rparr>\<rparr>"

definition exec_Idle :: "bool \<Rightarrow> exec_in \<Rightarrow> exec_regs \<Rightarrow> exec_mux \<Rightarrow> exec_ops \<Rightarrow> exec_act \<Rightarrow> exec_act" where
  "exec_Idle fpu_ena x r m p a =
     (let sel = select_units fpu_ena m (pc_branch (mx_ivec m) (vb_rdata1 p) (vb_rdata2 p))
      in if e_memop_valid r \<and> \<not> x_memop_ready x then a
         else if d_valid x r \<and> \<not> hazard x r m p then
           (let a = a\<lparr>ac_latch_input := True,
                  ac_v := (ac_v a)\<lparr>e_stepdone := x_step x \<and> \<not> x_dbg_progbuf_ena x\<rparr>\<rparr>;
                v = ac_v a
            in if x_dbg_mem_req_valid x then exec_dbg_mem x False a
               else if csr_cmd_ena x r m p then
                 (case csr_command x r m p of (ty, adr, wdata) \<Rightarrow>
                   a\<lparr>ac_v := v\<lparr>e_state := State_Csr, e_csrstate := CsrState_Req, e_csr_req_type := ty,
                     e_csr_req_addr := adr, e_csr_req_data := wdata, e_csr_req_rmw := bit ty CsrReq_ReadBit,
                     e_mem_ex_load_fault := False, e_mem_ex_store_fault := False, e_page_fault_r := False,
                     e_page_fault_w := False, e_stack_overflow := False, e_stack_underflow := False\<rparr>\<rparr>)
               else if sel Res_IMul \<or> sel Res_IDiv \<or> sel Res_FPU then a\<lparr>ac_v := v\<lparr>e_state := State_WaitMulti\<rparr>\<rparr>
               else if x_amo x then
                 a\<lparr>ac_memop_ena := True, ac_memop_memaddr := vb_rdata1 p, ac_memop_wdata := vb_rdata2 p,
                   ac_v := v\<lparr>e_state := State_Amo,
                     e_amostate := (if x_memop_ready x then AmoState_Read else AmoState_WaitMemAccess)\<rparr>\<rparr>
               else if x_memop_load x \<or> x_memop_store x then
                 a\<lparr>ac_memop_ena := True, ac_memop_wdata := vb_rdata2 p,
                   ac_v := (if x_memop_ready x then v\<lparr>e_valid := True\<rparr> else v\<lparr>e_state := State_WaitMemAcces\<rparr>)\<rparr>
               else a\<lparr>ac_v := v\<lparr>e_valid := True\<rparr>, ac_reg_ena := x_d_waddr x \<noteq> 0 \<and> \<not> x_memop_load x\<rparr>)
         else a)"

definition exec_WaitMemAcces :: "exec_in \<Rightarrow> exec_regs \<Rightarrow> exec_act \<Rightarrow> exec_act" where
  "exec_WaitMemAcces x r a =
     (let a = a\<lparr>ac_memop_memaddr := e_memop_memaddr r\<rparr>
      in if x_memop_ready x then a\<lparr>ac_v := (ac_v a)\<lparr>e_state := State_Idle, e_valid := True\<rparr>\<rparr> else a)"

text \<open>The response of the CSR module.  An exception repeats the request as an illegal instruction.\<close>

definition csr_illegal :: "exec_mux \<Rightarrow> exec_regs \<Rightarrow> exec_regs" where
  "csr_illegal m v = v\<lparr>e_csrstate := CsrState_Req, e_csr_req_type := CsrReq_ExceptionCmd,
     e_csr_req_addr := EXCEPTION_InstrIllegal, e_csr_req_data := ucast (mx_instr m), e_csr_req_rmw := False\<rparr>"

definition new_npc :: "exec_in \<Rightarrow> exec_regs \<Rightarrow> exec_regs" where
  "new_npc x v = (if x_dbg_progbuf_ena x then v else v\<lparr>e_npc := x_csr_resp_data x\<rparr>)"

definition exec_csr_resp :: "exec_in \<Rightarrow> exec_regs \<Rightarrow> exec_mux \<Rightarrow> exec_ops \<Rightarrow> exec_act \<Rightarrow> exec_act" where
  "exec_csr_resp x r m p a =
     (let v = (ac_v a)\<lparr>e_csrstate := CsrState_Idle\<rparr>; ty = e_csr_req_type r; data0 = bit (x_csr_resp_data x) 0
      in if x_csr_resp_exception x then
           a\<lparr>ac_v := (if x_dbg_progbuf_ena x then v\<lparr>e_valid := False, e_state := State_Halted\<rparr> else csr_illegal m v)\<rparr>
         else if bit ty CsrReq_HaltBit then a\<lparr>ac_v := v\<lparr>e_valid := False, e_state := State_Halted\<rparr>\<rparr>
         else if bit ty CsrReq_BreakpointBit then
           a\<lparr>ac_v := (if data0 then v\<lparr>e_valid := False, e_state := State_Halted\<rparr>
                     else new_npc x (v\<lparr>e_valid := False, e_state := State_Idle\<rparr>))\<rparr>
         else if bit ty CsrReq_ExceptionBit \<or> bit ty CsrReq_InterruptBit \<or> bit ty CsrReq_ResumeBit then
           a\<lparr>ac_v := new_npc x (v\<lparr>e_valid := mx_ivec m Instr_ECALL, e_state := State_Idle\<rparr>)\<rparr>
         else if bit ty CsrReq_WfiBit then
           a\<lparr>ac_v := (if data0 then csr_illegal m v else v\<lparr>e_valid := True, e_state := State_Wfi\<rparr>)\<rparr>
         else if bit ty CsrReq_TrapReturnBit then
           a\<lparr>ac_v := new_npc x (v\<lparr>e_valid := True, e_state := State_Idle\<rparr>)\<rparr>
         else if e_csr_req_rmw r then
           a\<lparr>ac_v := v\<lparr>e_csrstate := CsrState_Req, e_csr_req_type := CsrReq_WriteCmd,
                e_csr_req_data := snd (snd (csr_command x r m p)), e_csr_req_rmw := False,
                e_res_csr := x_csr_resp_data x\<rparr>,
              ac_reg_ena := e_waddr r \<noteq> 0, ac_reg_waddr := e_waddr r\<rparr>
         else a\<lparr>ac_v := v\<lparr>e_state := State_Idle, e_valid := True\<rparr>\<rparr>)"

definition exec_Csr :: "exec_in \<Rightarrow> exec_regs \<Rightarrow> exec_mux \<Rightarrow> exec_ops \<Rightarrow> exec_act \<Rightarrow> exec_act" where
  "exec_Csr x r m p a =
     (if e_csrstate r = CsrState_Req then
        (let a = a\<lparr>ac_csr_req_valid := True\<rparr>
         in if x_csr_req_ready x then a\<lparr>ac_v := (ac_v a)\<lparr>e_csrstate := CsrState_Resp\<rparr>\<rparr> else a)
      else if e_csrstate r = CsrState_Resp then
        (let a = a\<lparr>ac_csr_resp_ready := True\<rparr>
         in if x_csr_resp_valid x then exec_csr_resp x r m p a else a)
      else a)"

definition exec_Amo :: "exec_in \<Rightarrow> exec_regs \<Rightarrow> u64 \<Rightarrow> exec_act \<Rightarrow> exec_act" where
  "exec_Amo x r vb_res a =
     (if e_amostate r = AmoState_WaitMemAccess then
        (if x_memop_ready x then a\<lparr>ac_v := (ac_v a)\<lparr>e_amostate := AmoState_Read\<rparr>\<rparr> else a)
      else if e_amostate r = AmoState_Read then
        a\<lparr>ac_v := (ac_v a)\<lparr>e_rdata2_amo := x_rdata2 x, e_amostate := AmoState_Modify\<rparr>\<rparr>
      else if e_amostate r = AmoState_Modify then
        (if x_memop_idle x
         then (let ty = setf MemopType_Store 1 1 (ac_memop_type a)
               in a\<lparr>ac_memop_type := ty, ac_v := (ac_v a)\<lparr>e_amostate := AmoState_Write, e_memop_type := ty\<rparr>\<rparr>)
         else a)
      else (let a = a\<lparr>ac_memop_ena := True, ac_memop_memaddr := e_memop_memaddr r, ac_memop_wdata := vb_res\<rparr>
            in if x_memop_ready x
               then a\<lparr>ac_v := (ac_v a)\<lparr>e_state := State_Idle, e_amostate := AmoState_WaitMemAccess, e_valid := True\<rparr>\<rparr>
               else a))"

definition exec_WaitMulti :: "exec_regs \<Rightarrow> bool \<Rightarrow> exec_act \<Rightarrow> exec_act" where
  "exec_WaitMulti r valid a =
     (if valid
      then a\<lparr>ac_v := (ac_v a)\<lparr>e_state := State_Idle, e_valid := True\<rparr>, ac_reg_ena := e_waddr r \<noteq> 0, ac_reg_waddr := e_waddr r\<rparr>
      else a)"

definition exec_Halted :: "exec_in \<Rightarrow> exec_act \<Rightarrow> exec_act" where
  "exec_Halted x a =
     (let a = a\<lparr>ac_v := (ac_v a)\<lparr>e_stepdone := False\<rparr>\<rparr>
      in if x_resumereq x \<or> x_dbg_progbuf_ena x then
           a\<lparr>ac_v := (ac_v a)\<lparr>e_state := State_Csr, e_csrstate := CsrState_Req, e_csr_req_type := CsrReq_ResumeCmd,
               e_csr_req_addr := 0, e_csr_req_data := 0\<rparr>\<rparr>
         else if x_dbg_mem_req_valid x then exec_dbg_mem x True a
         else a)"

definition after_debug :: "exec_regs \<Rightarrow> 4 word" where
  "after_debug r = (if e_memop_halted r then State_Halted else State_Idle)"

definition exec_DebugMemRequest :: "exec_in \<Rightarrow> exec_regs \<Rightarrow> exec_act \<Rightarrow> exec_act" where
  "exec_DebugMemRequest x r a =
     (let a = a\<lparr>ac_memop_ena := True, ac_memop_debug := True, ac_memop_memaddr := x_dbg_mem_req_addr x,
            ac_memop_wdata := x_dbg_mem_req_wdata x\<rparr>
      in if x_memop_ready x then a\<lparr>ac_v := (ac_v a)\<lparr>e_state := after_debug r\<rparr>\<rparr> else a)"

definition exec_DebugMemError :: "exec_regs \<Rightarrow> exec_act \<Rightarrow> exec_act" where
  "exec_DebugMemError r a = a\<lparr>ac_v := (ac_v a)\<lparr>e_state := after_debug r\<rparr>\<rparr>"

definition exec_Wfi :: "exec_in \<Rightarrow> exec_act \<Rightarrow> exec_act" where
  "exec_Wfi x a = (if x_haltreq x \<or> x_wakeup x then a\<lparr>ac_v := (ac_v a)\<lparr>e_state := State_Idle\<rparr>\<rparr> else a)"

text \<open>The faults that the memory access stage reports are latched first.\<close>

definition exec_faults :: "exec_in \<Rightarrow> exec_regs \<Rightarrow> exec_regs" where
  "exec_faults x v =
     (let put = (\<lambda>b f v. if b \<and> \<not> x_mem_ex_debug x then f (v\<lparr>e_mem_ex_addr := x_mem_ex_addr x\<rparr>) else v);
          v = (if x_stack_overflow x then v\<lparr>e_stack_overflow := True\<rparr> else v);
          v = (if x_stack_underflow x then v\<lparr>e_stack_underflow := True\<rparr> else v);
          v = put (x_mem_ex_load_fault x) (\<lambda>v. v\<lparr>e_mem_ex_load_fault := True\<rparr>) v;
          v = put (x_mem_ex_store_fault x) (\<lambda>v. v\<lparr>e_mem_ex_store_fault := True\<rparr>) v;
          v = put (x_page_fault_r x) (\<lambda>v. v\<lparr>e_page_fault_r := True\<rparr>) v
      in put (x_page_fault_w x) (\<lambda>v. v\<lparr>e_page_fault_w := True\<rparr>) v)"

definition exec_start :: "exec_in \<Rightarrow> exec_regs \<Rightarrow> exec_mux \<Rightarrow> exec_ops \<Rightarrow> exec_act" where
  "exec_start x r m p =
     \<lparr>ac_v = exec_faults x (r\<lparr>e_valid := False, e_call := False, e_ret := False, e_reg_write := False,
         e_rdata1_amo := amo_operand x r m\<rparr>),
      ac_latch_input = False, ac_memop_ena = False, ac_memop_debug = False, ac_reg_ena = False,
      ac_reg_waddr = x_d_waddr x,
      ac_memop_memaddr = (if bit (mx_memop_type m) MemopType_Store then memaddr_store p else memaddr_load p),
      ac_memop_wdata = 0, ac_memop_type = mx_memop_type m, ac_csr_req_valid = False,
      ac_csr_resp_ready = False, ac_dbg_mem_req_ready = False, ac_dbg_mem_req_error = False\<rparr>"

definition multi_valid :: "bool \<Rightarrow> exec_in \<Rightarrow> exec_stage \<Rightarrow> bool" where
  "multi_valid fpu_ena x s \<longleftrightarrow> IntMul_o_valid (st_mul s) \<or> IntDiv_o_valid (st_div s) \<or> fpu_ena \<and> x_fpu_valid x"

definition exec_switch :: "bool \<Rightarrow> exec_in \<Rightarrow> exec_stage \<Rightarrow> exec_mux \<Rightarrow> exec_ops \<Rightarrow> exec_act" where
  "exec_switch fpu_ena x s m p =
     (let r = st_ex s; a = exec_start x r m p; st = e_state r
      in if st = State_Idle then exec_Idle fpu_ena x r m p a
         else if st = State_WaitMemAcces then exec_WaitMemAcces x r a
         else if st = State_Csr then exec_Csr x r m p a
         else if st = State_Amo then exec_Amo x r (exec_res fpu_ena x s) a
         else if st = State_WaitMulti then exec_WaitMulti r (multi_valid fpu_ena x s) a
         else if st = State_Halted then exec_Halted x a
         else if st = State_DebugMemRequest then exec_DebugMemRequest x r a
         else if st = State_DebugMemError then exec_DebugMemError r a
         else if st = State_Wfi then exec_Wfi x a
         else a)"

subsection \<open>The end of the process\<close>

definition tagcnt_wr :: "exec_regs \<Rightarrow> u6 \<Rightarrow> 3 word" where
  "tagcnt_wr r a = tag_of (e_tagcnt r) a + 1"

definition tagcnt_next :: "exec_regs \<Rightarrow> u6 \<Rightarrow> 192 word" where
  "tagcnt_next r a = setf 0 3 0 (setf (3 * unat a) 3 (ucast (tagcnt_wr r a)) (e_tagcnt r))"

definition exec_latch :: "bool \<Rightarrow> exec_in \<Rightarrow> exec_regs \<Rightarrow> exec_mux \<Rightarrow> exec_ops \<Rightarrow> exec_regs \<Rightarrow> exec_regs" where
  "exec_latch fpu_ena x r m p v =
     (let wv = mx_ivec m; branch = pc_branch wv (vb_rdata1 p) (vb_rdata2 p);
          v = (if x_dbg_progbuf_ena x then v\<lparr>e_dnpc := e_dnpc r + opcode_len m\<rparr>
               else v\<lparr>e_dnpc := 0, e_pc := x_d_pc x, e_npc := prog_npc m p\<rparr>)
      in v\<lparr>e_radr1 := x_d_radr1 x, e_radr2 := x_d_radr2 x, e_waddr := x_d_waddr x,
           e_rdata1 := vb_rdata1 p, e_rdata2 := vb_rdata2 p, e_imm := x_d_imm x, e_ivec := x_ivec x,
           e_isa_type := x_isa_type x, e_unsigned_op := x_unsigned_op x, e_rv32 := x_rv32 x,
           e_compressed := x_compressed x, e_f64 := x_f64 x, e_instr := x_d_instr x,
           e_call := any wv [Instr_JAL, Instr_JALR] \<and> mx_waddr m = REG_RA,
           e_ret := wv Instr_JALR \<and> vb_rdata2 p = 0 \<and> mx_waddr m \<noteq> REG_RA \<and> mx_radr1 m = REG_RA,
           e_jmp := branch \<or> any wv ([Instr_JAL, Instr_JALR] @ returns),
           e_res_npc := prog_npc m p, e_res_ra := mx_pc m + opcode_len m,
           e_select := select_units fpu_ena m branch\<rparr>)"

definition exec_write_tag :: "exec_regs \<Rightarrow> u6 \<Rightarrow> exec_regs \<Rightarrow> exec_regs" where
  "exec_write_tag r waddr v = v\<lparr>e_tagcnt := tagcnt_next r waddr, e_reg_waddr := waddr, e_reg_wtag := tagcnt_wr r waddr\<rparr>"

definition exec_memop :: "exec_in \<Rightarrow> exec_regs \<Rightarrow> exec_mux \<Rightarrow> exec_act \<Rightarrow> exec_regs \<Rightarrow> exec_regs" where
  "exec_memop x r m a v =
     (if ac_memop_ena a then
        (let ty = ac_memop_type a;
             v = v\<lparr>e_memop_valid := True, e_memop_debug := ac_memop_debug a, e_memop_type := ty,
               e_memop_sign_ext := mx_memop_sign_ext m, e_memop_size := mx_memop_size m,
               e_memop_memaddr := ac_memop_memaddr a, e_memop_wdata := ac_memop_wdata a\<rparr>
         in if \<not> ac_memop_debug a \<and> (\<not> bit ty MemopType_Store \<or> bit ty MemopType_Release)
            then exec_write_tag r (ac_reg_waddr a) v else v)
      else if x_memop_ready x then v\<lparr>e_memop_valid := False, e_memop_debug := False\<rparr>
      else v)"

definition exec_regs_next :: "bool \<Rightarrow> exec_in \<Rightarrow> exec_stage \<Rightarrow> exec_regs" where
  "exec_regs_next fpu_ena x s =
     (let r = st_ex s; m = input_mux x r; p = operands x r m; a = exec_switch fpu_ena x s m p; v = ac_v a;
          v = (if x_dbg_progbuf_ena x then v else v\<lparr>e_dnpc := 0\<rparr>);
          v = (if ac_latch_input a then exec_latch fpu_ena x r m p v else v);
          v = (if ac_reg_ena a then exec_write_tag r (ac_reg_waddr a) (v\<lparr>e_reg_write := True\<rparr>) else v)
      in exec_memop x r m a v)"

text \<open>The modes of the arithmetic units and the inputs of multiplier and divider.\<close>

definition alu_mode :: "(u8 \<Rightarrow> bool) \<Rightarrow> 3 word" where
  "alu_mode wv = bits_of
     [any wv [Instr_AND, Instr_ANDI, Instr_AMOAND_D, Instr_AMOAND_W],
      any wv [Instr_OR, Instr_ORI, Instr_AMOOR_D, Instr_AMOOR_W],
      any wv [Instr_XOR, Instr_XORI, Instr_AMOXOR_D, Instr_AMOXOR_W]]"

definition addsub_mode :: "bool \<Rightarrow> (u8 \<Rightarrow> bool) \<Rightarrow> 7 word" where
  "addsub_mode rv32 wv = bits_of
     [rv32,
      any wv [Instr_SLTU, Instr_SLTIU, Instr_AMOMINU_D, Instr_AMOMINU_W, Instr_AMOMAXU_D, Instr_AMOMAXU_W],
      any wv [Instr_ADD, Instr_ADDI, Instr_ADDW, Instr_ADDIW, Instr_AUIPC, Instr_AMOADD_D, Instr_AMOADD_W,
        Instr_AMOSWAP_D, Instr_AMOSWAP_W],
      any wv [Instr_SUB, Instr_SUBW],
      any wv [Instr_SLT, Instr_SLTI, Instr_SLTU, Instr_SLTIU],
      any wv [Instr_AMOMIN_D, Instr_AMOMIN_W, Instr_AMOMINU_D, Instr_AMOMINU_W],
      any wv [Instr_AMOMAX_D, Instr_AMOMAX_W, Instr_AMOMAXU_D, Instr_AMOMAXU_W]]"

definition shifter_mode :: "bool \<Rightarrow> (u8 \<Rightarrow> bool) \<Rightarrow> 4 word" where
  "shifter_mode rv32 wv = bits_of
     [rv32,
      any wv [Instr_SLL, Instr_SLLI, Instr_SLLW, Instr_SLLIW],
      any wv [Instr_SRL, Instr_SRLI, Instr_SRLW, Instr_SRLIW],
      any wv [Instr_SRA, Instr_SRAI, Instr_SRAW, Instr_SRAIW]]"

definition residual_high :: "(u8 \<Rightarrow> bool) \<Rightarrow> bool" where
  "residual_high wv = any wv [Instr_REM, Instr_REMU, Instr_REMW, Instr_REMUW, Instr_MULH, Instr_MULHSU, Instr_MULHU]"

definition mul_inputs :: "exec_in \<Rightarrow> exec_mux \<Rightarrow> exec_ops \<Rightarrow> bool \<Rightarrow> mul_in" where
  "mul_inputs x m p ena =
     \<lparr>mi_ena = ena, mi_unsigned = x_unsigned_op x, mi_hsu = mx_ivec m Instr_MULHSU,
      mi_high = residual_high (mx_ivec m), mi_rv32 = x_rv32 x, mi_a1 = vb_rdata1 p, mi_a2 = vb_rdata2 p\<rparr>"

definition div_inputs :: "exec_in \<Rightarrow> exec_mux \<Rightarrow> exec_ops \<Rightarrow> bool \<Rightarrow> div_in" where
  "div_inputs x m p ena =
     \<lparr>di_ena = ena, di_unsigned = x_unsigned_op x, di_rv32 = x_rv32 x,
      di_residual = residual_high (mx_ivec m), di_a1 = vb_rdata1 p, di_a2 = vb_rdata2 p\<rparr>"

definition InstrExecute_registers :: "bool \<Rightarrow> bool \<Rightarrow> bool \<Rightarrow> exec_in \<Rightarrow> exec_stage \<Rightarrow> exec_stage" where
  "InstrExecute_registers ar fpu_ena nrst x s =
     (let r = st_ex s; m = input_mux x r; p = operands x r m; wv = mx_ivec m; a = vb_rdata1 p; b = vb_rdata2 p;
          latch = ac_latch_input (exec_switch fpu_ena x s m p);
          sel = select_units fpu_ena m (pc_branch wv a b)
      in \<lparr>st_ex = clock_edge ar nrst InstrExecute_r_reset
            (sync_reset ar nrst InstrExecute_r_reset (exec_regs_next fpu_ena x s)),
          st_alu = AluLogic_registers ar nrst (alu_mode wv) a b (st_alu s),
          st_addsub = IntAddSub_registers ar nrst (addsub_mode (mx_rv32 m) wv) a b (st_addsub s),
          st_shifter = Shifter_registers ar nrst (shifter_mode (mx_rv32 m) wv) a (rng b 5 0) (st_shifter s),
          st_mul = IntMul_registers ar nrst (mul_inputs x m p (latch \<and> sel Res_IMul)) (st_mul s),
          st_div = IntDiv_registers ar nrst (div_inputs x m p (latch \<and> sel Res_IDiv)) (st_div s)\<rparr>)"

end
