(* ===== verification/Rtl_DecodeEq.thy ===== *)
theory Rtl_DecodeEq
  imports Rtl_Decoder Decode
begin

section \<open>The 32-bit instructions: the functional CPU against the RTL decoder\<close>

subsection \<open>Patterns as conditions on fields\<close>

text \<open>A list of fields (first bit, width) as a mask, and the comparison field by field.\<close>

fun mask_of :: "(nat \<times> nat) list \<Rightarrow> u32" where
  "mask_of [] = 0"
| "mask_of ((lo, n) # fs) = push_bit lo (mask n) OR mask_of fs"

lemma and_field:
  fixes w c :: u32
  assumes "lo + n \<le> 32"
  shows "w AND push_bit lo (mask n) = c AND push_bit lo (mask n) \<longleftrightarrow> (getf lo n w :: u32) = getf lo n c"
proof
  assume e: "w AND push_bit lo (mask n) = c AND push_bit lo (mask n)"
  have "bit w (lo + k) = bit c (lo + k)" if "k < n" "lo + k < 32" for k
    using e [THEN arg_cong, of "\<lambda>x. bit x (lo + k)"] that by (simp add: bit_simps)
  then show "(getf lo n w :: u32) = getf lo n c"
    using assms by (intro bit_word_eqI) (auto simp: bit_getf)
next
  assume e: "(getf lo n w :: u32) = getf lo n c"
  have "bit w k = bit c k" if "lo \<le> k" "k < lo + n" for k
    using e [THEN arg_cong, of "\<lambda>x. bit x (k - lo)"] that assms by (auto simp: bit_getf)
  then show "w AND push_bit lo (mask n) = c AND push_bit lo (mask n)"
    by (intro bit_word_eqI) (auto simp: bit_simps)
qed

lemma and_or_same:
  fixes w c :: u32
  shows "w AND (m1 OR m2) = c AND (m1 OR m2) \<longleftrightarrow> w AND m1 = c AND m1 \<and> w AND m2 = c AND m2"
proof
  assume e: "w AND (m1 OR m2) = c AND (m1 OR m2)"
  have "w AND m = c AND m" if m: "(m1 OR m2) AND m = m" for m
  proof -
    have "(w AND (m1 OR m2)) AND m = (c AND (m1 OR m2)) AND m" by (simp only: e)
    then show ?thesis by (simp only: and.assoc m)
  qed
  moreover have "(m1 OR m2) AND m1 = m1" "(m1 OR m2) AND m2 = m2"
    by (rule bit_word_eqI, auto simp: bit_simps)+
  ultimately show "w AND m1 = c AND m1 \<and> w AND m2 = c AND m2" by blast
qed (simp add: bit.conj_disj_distrib)

lemma and_mask_fields:
  fixes w c :: u32
  assumes "list_all (\<lambda>(lo, n). lo + n \<le> 32) fs"
  shows "w AND mask_of fs = c AND mask_of fs \<longleftrightarrow> list_all (\<lambda>(lo, n). (getf lo n w :: u32) = getf lo n c) fs"
  using assms by (induction fs) (auto simp: and_or_same and_field)

lemma mask_of_fields:
  fixes w c :: u32
  assumes "list_all (\<lambda>(lo, n). lo + n \<le> 32) fs"
  shows "w AND mask_of fs = c \<longleftrightarrow> c AND mask_of fs = c
    \<and> list_all (\<lambda>(lo, n). (getf lo n w :: u32) = getf lo n c) fs"
proof -
  have "w AND mask_of fs = c \<longleftrightarrow> c AND mask_of fs = c \<and> w AND mask_of fs = c AND mask_of fs"
    by (auto simp: and.assoc)
  then show ?thesis using and_mask_fields [OF assms, of w c] by blast
qed

text \<open>The masks of the patterns of the table.\<close>

lemma mask_fields:
  fixes w c :: u32
  shows "w AND 0x7f = c \<longleftrightarrow> c AND 0x7f = c
      \<and> list_all (\<lambda>(lo, n). (getf lo n w :: u32) = take_bit n (drop_bit lo c)) [(0, 2), (2, 5)]"
    "w AND 0x707f = c \<longleftrightarrow> c AND 0x707f = c
      \<and> list_all (\<lambda>(lo, n). (getf lo n w :: u32) = take_bit n (drop_bit lo c)) [(0, 2), (2, 5), (12, 3)]"
    "w AND 0xfe00707f = c \<longleftrightarrow> c AND 0xfe00707f = c
      \<and> list_all (\<lambda>(lo, n). (getf lo n w :: u32) = take_bit n (drop_bit lo c)) [(0, 2), (2, 5), (12, 3), (25, 7)]"
    "w AND 0xfc00707f = c \<longleftrightarrow> c AND 0xfc00707f = c
      \<and> list_all (\<lambda>(lo, n). (getf lo n w :: u32) = take_bit n (drop_bit lo c)) [(0, 2), (2, 5), (12, 3), (26, 6)]"
    "w AND 0xf800707f = c \<longleftrightarrow> c AND 0xf800707f = c
      \<and> list_all (\<lambda>(lo, n). (getf lo n w :: u32) = take_bit n (drop_bit lo c)) [(0, 2), (2, 5), (12, 3), (27, 5)]"
    "w AND 0xf9f0707f = c \<longleftrightarrow> c AND 0xf9f0707f = c
      \<and> list_all (\<lambda>(lo, n). (getf lo n w :: u32) = take_bit n (drop_bit lo c)) [(0, 2), (2, 5), (12, 3), (20, 5), (27, 5)]"
    "w AND 0xfe007fff = c \<longleftrightarrow> c AND 0xfe007fff = c
      \<and> list_all (\<lambda>(lo, n). (getf lo n w :: u32) = take_bit n (drop_bit lo c)) [(0, 2), (2, 5), (7, 5), (12, 3), (25, 7)]"
  using mask_of_fields [of "[(0, 2), (2, 5)]" w c] mask_of_fields [of "[(0, 2), (2, 5), (12, 3)]" w c]
    mask_of_fields [of "[(0, 2), (2, 5), (12, 3), (25, 7)]" w c]
    mask_of_fields [of "[(0, 2), (2, 5), (12, 3), (26, 6)]" w c]
    mask_of_fields [of "[(0, 2), (2, 5), (12, 3), (27, 5)]" w c]
    mask_of_fields [of "[(0, 2), (2, 5), (12, 3), (20, 5), (27, 5)]" w c]
    mask_of_fields [of "[(0, 2), (2, 5), (7, 5), (12, 3), (25, 7)]" w c]
  by (simp_all add: mask_eq_exp_minus_1 push_bit_eq_mult getf_def [where w = c])

subsection \<open>The instructions by name\<close>

text \<open>
  Name in the functional CPU, index in \<open>instr_vec\<close>, format (the fences have none), in the
  order of the \<open>addIsa\<close> lists.
\<close>

type_synonym rtl_row = "string \<times> u8 \<times> u8 option"

definition rtl_I :: "rtl_row list" where
  "rtl_I =
    [(''ADD'', Instr_ADD, Some ISA_R_type), (''ADDI'', Instr_ADDI, Some ISA_I_type),
     (''ADDIW'', Instr_ADDIW, Some ISA_I_type), (''ADDW'', Instr_ADDW, Some ISA_R_type),
     (''AND'', Instr_AND, Some ISA_R_type), (''ANDI'', Instr_ANDI, Some ISA_I_type),
     (''AUIPC'', Instr_AUIPC, Some ISA_U_type), (''BEQ'', Instr_BEQ, Some ISA_SB_type),
     (''BGE'', Instr_BGE, Some ISA_SB_type), (''BGEU'', Instr_BGEU, Some ISA_SB_type),
     (''BLT'', Instr_BLT, Some ISA_SB_type), (''BLTU'', Instr_BLTU, Some ISA_SB_type),
     (''BNE'', Instr_BNE, Some ISA_SB_type), (''JAL'', Instr_JAL, Some ISA_UJ_type),
     (''JALR'', Instr_JALR, Some ISA_I_type), (''LD'', Instr_LD, Some ISA_I_type),
     (''LW'', Instr_LW, Some ISA_I_type), (''LWU'', Instr_LWU, Some ISA_I_type),
     (''LH'', Instr_LH, Some ISA_I_type), (''LHU'', Instr_LHU, Some ISA_I_type),
     (''LB'', Instr_LB, Some ISA_I_type), (''LBU'', Instr_LBU, Some ISA_I_type),
     (''LUI'', Instr_LUI, Some ISA_U_type), (''OR'', Instr_OR, Some ISA_R_type),
     (''ORI'', Instr_ORI, Some ISA_I_type), (''SLL'', Instr_SLL, Some ISA_R_type),
     (''SLLI'', Instr_SLLI, Some ISA_I_type), (''SLLIW'', Instr_SLLIW, Some ISA_I_type),
     (''SLLW'', Instr_SLLW, Some ISA_R_type), (''SLT'', Instr_SLT, Some ISA_R_type),
     (''SLTI'', Instr_SLTI, Some ISA_I_type), (''SLTU'', Instr_SLTU, Some ISA_R_type),
     (''SLTIU'', Instr_SLTIU, Some ISA_I_type), (''SRA'', Instr_SRA, Some ISA_R_type),
     (''SRAI'', Instr_SRAI, Some ISA_I_type), (''SRAIW'', Instr_SRAIW, Some ISA_I_type),
     (''SRAW'', Instr_SRAW, Some ISA_R_type), (''SRL'', Instr_SRL, Some ISA_R_type),
     (''SRLI'', Instr_SRLI, Some ISA_I_type), (''SRLIW'', Instr_SRLIW, Some ISA_I_type),
     (''SRLW'', Instr_SRLW, Some ISA_R_type), (''SUB'', Instr_SUB, Some ISA_R_type),
     (''SUBW'', Instr_SUBW, Some ISA_R_type), (''SD'', Instr_SD, Some ISA_S_type),
     (''SW'', Instr_SW, Some ISA_S_type), (''SH'', Instr_SH, Some ISA_S_type),
     (''SB'', Instr_SB, Some ISA_S_type), (''XOR'', Instr_XOR, Some ISA_R_type),
     (''XORI'', Instr_XORI, Some ISA_I_type)]"

definition rtl_Priv :: "rtl_row list" where
  "rtl_Priv =
    [(''CSRRC'', Instr_CSRRC, Some ISA_I_type), (''CSRRCI'', Instr_CSRRCI, Some ISA_I_type),
     (''CSRRS'', Instr_CSRRS, Some ISA_I_type), (''CSRRSI'', Instr_CSRRSI, Some ISA_I_type),
     (''CSRRW'', Instr_CSRRW, Some ISA_I_type), (''CSRRWI'', Instr_CSRRWI, Some ISA_I_type),
     (''URET'', Instr_URET, Some ISA_I_type), (''SRET'', Instr_SRET, Some ISA_I_type),
     (''HRET'', Instr_HRET, Some ISA_I_type), (''MRET'', Instr_MRET, Some ISA_I_type),
     (''FENCE'', Instr_FENCE, None), (''FENCE_I'', Instr_FENCE_I, None),
     (''SFENCE_VMA'', Instr_SFENCE_VMA, Some ISA_I_type), (''ECALL'', Instr_ECALL, Some ISA_I_type),
     (''EBREAK'', Instr_EBREAK, Some ISA_I_type)]"

definition rtl_A :: "rtl_row list" where
  "rtl_A =
    [(''AMOADD_W'', Instr_AMOADD_W, Some ISA_R_type),
     (''AMOXOR_W'', Instr_AMOXOR_W, Some ISA_R_type), (''AMOOR_W'', Instr_AMOOR_W, Some ISA_R_type),
     (''AMOAND_W'', Instr_AMOAND_W, Some ISA_R_type),
     (''AMOMIN_W'', Instr_AMOMIN_W, Some ISA_R_type),
     (''AMOMAX_W'', Instr_AMOMAX_W, Some ISA_R_type),
     (''AMOMINU_W'', Instr_AMOMINU_W, Some ISA_R_type),
     (''AMOMAXU_W'', Instr_AMOMAXU_W, Some ISA_R_type),
     (''AMOSWAP_W'', Instr_AMOSWAP_W, Some ISA_R_type), (''LR_W'', Instr_LR_W, Some ISA_R_type),
     (''SC_W'', Instr_SC_W, Some ISA_R_type), (''AMOADD_D'', Instr_AMOADD_D, Some ISA_R_type),
     (''AMOXOR_D'', Instr_AMOXOR_D, Some ISA_R_type), (''AMOOR_D'', Instr_AMOOR_D, Some ISA_R_type),
     (''AMOAND_D'', Instr_AMOAND_D, Some ISA_R_type),
     (''AMOMIN_D'', Instr_AMOMIN_D, Some ISA_R_type),
     (''AMOMAX_D'', Instr_AMOMAX_D, Some ISA_R_type),
     (''AMOMINU_D'', Instr_AMOMINU_D, Some ISA_R_type),
     (''AMOMAXU_D'', Instr_AMOMAXU_D, Some ISA_R_type),
     (''AMOSWAP_D'', Instr_AMOSWAP_D, Some ISA_R_type), (''LR_D'', Instr_LR_D, Some ISA_R_type),
     (''SC_D'', Instr_SC_D, Some ISA_R_type)]"

definition rtl_M :: "rtl_row list" where
  "rtl_M =
    [(''DIV'', Instr_DIV, Some ISA_R_type), (''DIVU'', Instr_DIVU, Some ISA_R_type),
     (''DIVUW'', Instr_DIVUW, Some ISA_R_type), (''DIVW'', Instr_DIVW, Some ISA_R_type),
     (''MUL'', Instr_MUL, Some ISA_R_type), (''MULH'', Instr_MULH, Some ISA_R_type),
     (''MULHSU'', Instr_MULHSU, Some ISA_R_type), (''MULHU'', Instr_MULHU, Some ISA_R_type),
     (''MULW'', Instr_MULW, Some ISA_R_type), (''REM'', Instr_REM, Some ISA_R_type),
     (''REMU'', Instr_REMU, Some ISA_R_type), (''REMW'', Instr_REMW, Some ISA_R_type),
     (''REMUW'', Instr_REMUW, Some ISA_R_type)]"

definition rtl_table :: "rtl_row list" where
  "rtl_table = rtl_I @ rtl_Priv @ rtl_A @ rtl_M"

subsection \<open>The operands\<close>

definition operands_agree :: "dec_vars \<Rightarrow> u8 option \<Rightarrow> u32 \<Rightarrow> bool" where
  "operands_agree d t w \<longleftrightarrow>
     (if t = Some ISA_R_type then
        unat (vb_radr1 d) = unat (R_rs1 w) \<and> unat (vb_radr2 d) = unat (R_rs2 w)
        \<and> unat (vb_waddr d) = unat (R_rd w)
      else if t = Some ISA_I_type then
        unat (vb_radr1 d) = unat (I_rs1 w) \<and> unat (vb_waddr d) = unat (I_rd w) \<and> vb_imm d = I_simm w
      else if t = Some ISA_S_type then
        unat (vb_radr1 d) = unat (S_rs1 w) \<and> unat (vb_radr2 d) = unat (S_rs2 w) \<and> vb_imm d = S_simm w
      else if t = Some ISA_SB_type then
        unat (vb_radr1 d) = unat (SB_rs1 w) \<and> unat (vb_radr2 d) = unat (SB_rs2 w) \<and> vb_imm d = SB_simm w
      else if t = Some ISA_U_type then
        unat (vb_waddr d) = unat (U_rd w) \<and> vb_imm d = U_simm w
      else if t = Some ISA_UJ_type then
        unat (vb_waddr d) = unat (UJ_rd w) \<and> vb_imm d = UJ_simm w
      else t = None)"

definition one_hot :: "u8 \<Rightarrow> u8 \<Rightarrow> bool" where
  "one_hot n = (\<lambda>_. False)(n := True)"

definition decodes_as :: "dec_vars \<Rightarrow> u8 \<Rightarrow> u8 option \<Rightarrow> u32 \<Rightarrow> bool" where
  "decodes_as d n t w \<longleftrightarrow> \<not> v_error d \<and> vb_dec d = one_hot n \<and> operands_agree d t w
     \<and> vb_isa_type d = (case t of None \<Rightarrow> (\<lambda>_. False) | Some t \<Rightarrow> one_hot t)"

lemma sign_tests: "x AND 0x800 = 0 \<longleftrightarrow> \<not> bit x 11" "x AND bit1 31 = 0 \<longleftrightarrow> \<not> bit x 31" for x :: u64
  using and_exp_eq_0_iff_not_bit [of x 11] and_exp_eq_0_iff_not_bit [of x 31] by (simp_all add: bit1_def)

lemma rv_immediates:
  "I_simm w = fill_sign (bit w 31) 12 (rng w 31 20)"
  "S_simm w = fill_sign (bit w 31) 12 (setf 0 12 (concat_bits [(7, rng w 31 25), (5, rng w 11 7)]) 0)"
  "SB_simm w = fill_sign (bit w 31) 12
     (setf 1 11 (concat_bits [(1, rng w 7 7), (6, rng w 30 25), (4, rng w 11 8)]) 0)"
  "U_simm w = fill_sign (bit w 31) 32 (setf 12 20 (rng w 31 12) 0)"
  "UJ_simm w = fill_sign (bit w 31) 20
     (setf 1 19 (concat_bits [(8, rng w 19 12), (1, rng w 20 20), (10, rng w 30 21)]) 0)"
  by (rule u64_eq_bits, cases "bit w 31";
      simp add: I_simm_def S_simm_def SB_simm_def U_simm_def UJ_simm_def Let_def upt_64 fill_sign_def
        sext12_def sext32_def I_imm_def S_imm11_5_def S_imm4_0_def SB_imm12_def SB_imm11_def SB_imm10_5_def
        SB_imm4_1_def U_imm31_12_def UJ_imm20_def UJ_imm19_12_def UJ_imm11_def UJ_imm10_1_def
        EXT_SIGN_defs truth_flag sign_tests bit_getf bit_setf bit_simps numeral_2_eq_2 [symmetric]
        del: bit_0 push_bit_Suc take_bit_Suc_0)+


definition rv_row :: "rtl_row \<Rightarrow> key \<Rightarrow> bool" where
  "rv_row = (\<lambda>(s, n, t) k. \<forall>w fpu. key_match k w \<longrightarrow> decodes_as (rv_cases fpu w) n t w)"

lemma rv_rowI:
  assumes "\<And>w fpu. w AND m = oc \<Longrightarrow> decodes_as (rv_cases fpu w) n t w"
  shows "rv_row (s, n, t) (m, oc, h, [])"
  using assms by (simp add: rv_row_def)

lemmas rv_case_defs = rv_cases_def rv_AMO_def rv_ADD_def rv_ADDI_def rv_ADDIW_def rv_ADDW_def rv_BEQ_def
  rv_JAL_def rv_JALR_def rv_LB_def rv_SB_def rv_CSRR_def rv_FENCE_def
lemmas rv_ops_defs = R_ops_def I_ops_def S_ops_def U_ops_def dec_def isa_def err_def dec_init_def

lemmas rv_fields = R_rs1_def R_rs2_def R_rd_def I_rs1_def I_rd_def S_rs1_def S_rs2_def SB_rs1_def SB_rs2_def
  U_rd_def UJ_rd_def unat_getf_low [of 5, where 'b = 6 and 'c = 32] rv_immediates

lemma waddr_zero: "(getf 7 5 w :: u6) = 0 \<longleftrightarrow> (getf 7 5 w :: u32) = 0" for w :: u32
  by (simp add: word_eq_iff_unsigned [where 'a = nat] unat_getf_low [of 5, where 'b = 6 and 'c = 32])

lemmas rv_row_intros = list.rel_intros rv_rowI
lemmas rv_row_simps = decodes_as_def operands_agree_def one_hot_def rv_ops_defs rv_fields waddr_zero

lemma rv_rows_I: "list_all2 rv_row rtl_I keys_I"
  unfolding rtl_I_def keys_I_def
  by (intro rv_row_intros; (simp add: mask_fields rv_case_defs Let_def, simp add: rv_row_simps))

text \<open>Patterns without a free bit.\<close>

lemma full_mask: "w AND 0xffffffff = w" for w :: u32
proof -
  have "(0xffffffff :: u32) = - 1" by simp
  then show ?thesis by (simp only: and.right_neutral)
qed

lemma getf_numeral: "getf lo n (numeral c :: u32) = ucast (take_bit n (drop_bit lo (numeral c :: u32)))"
  by (simp add: getf_def)

lemma rv_rows_Priv: "list_all2 rv_row rtl_Priv keys_Priv"
  unfolding rtl_Priv_def keys_Priv_def
  by (intro rv_row_intros;
      (simp add: mask_fields full_mask rv_case_defs Let_def rv_ops_defs waddr_zero getf_numeral,
       simp add: rv_row_simps getf_numeral, (auto simp: getf_numeral)?))

lemma rv_rows_A: "list_all2 rv_row rtl_A keys_A"
  unfolding rtl_A_def keys_A_def
  by (intro rv_row_intros; (simp add: mask_fields rv_case_defs Let_def, simp add: rv_row_simps))

lemma rv_rows_M: "list_all2 rv_row rtl_M keys_M"
  unfolding rtl_M_def keys_M_def
  by (intro rv_row_intros; (simp add: mask_fields rv_case_defs Let_def, simp add: rv_row_simps))

lemma rtl_names:
  "map iname addIsaUserRV64I = map fst rtl_I" "map iname addIsaPrivilegedRV64I = map fst rtl_Priv"
  "map iname addIsaExtensionA = map fst rtl_A" "map iname addIsaExtensionM = map fst rtl_M"
  by (simp_all add: addIsaUserRV64I_def rtl_I_def addIsaPrivilegedRV64I_def rtl_Priv_def
      addIsaExtensionA_def rtl_A_def addIsaExtensionM_def rtl_M_def RiscvInstruction_def)

subsection \<open>What the RTL decoder accepts\<close>

text \<open>
  The RTL decoder does not look at the upper bits of three shifts and knows WFI; everything
  else that it accepts matches a pattern of the functional CPU.
\<close>

definition rtl_only :: "dec_vars \<Rightarrow> bool" where
  "rtl_only d \<longleftrightarrow> vb_dec d Instr_SLLI \<or> vb_dec d Instr_SLLIW \<or> vb_dec d Instr_SLLW \<or> vb_dec d Instr_WFI"

definition keys_32 :: "key list" where
  "keys_32 = keys_I @ keys_Priv @ keys_A @ keys_M"

lemmas accepts_simps = keys_32_def keys_I_def keys_Priv_def keys_A_def keys_M_def mask_fields full_mask
  rtl_only_def rv_ops_defs Let_def waddr_zero

abbreviation hits :: "u32 \<Rightarrow> bool" where
  "hits w \<equiv> list_ex (\<lambda>k. key_match k w) keys_32"

lemma accepts_cases:
  fixes w :: u32
  assumes "(getf 0 2 w :: u32) = 3"
  shows "(getf 2 5 w :: u32) = 0x0B \<Longrightarrow> \<not> v_error (rv_AMO w dec_init) \<Longrightarrow> hits w"
    "(getf 2 5 w :: u32) = 0x0C \<Longrightarrow> \<not> v_error (rv_ADD w dec_init) \<Longrightarrow> hits w"
    "(getf 2 5 w :: u32) = 0x04 \<Longrightarrow> \<not> v_error (rv_ADDI w dec_init)
      \<Longrightarrow> \<not> rtl_only (rv_ADDI w dec_init) \<Longrightarrow> hits w"
    "(getf 2 5 w :: u32) = 0x06 \<Longrightarrow> \<not> v_error (rv_ADDIW w dec_init)
      \<Longrightarrow> \<not> rtl_only (rv_ADDIW w dec_init) \<Longrightarrow> hits w"
    "(getf 2 5 w :: u32) = 0x0E \<Longrightarrow> \<not> v_error (rv_ADDW w dec_init)
      \<Longrightarrow> \<not> rtl_only (rv_ADDW w dec_init) \<Longrightarrow> hits w"
    "(getf 2 5 w :: u32) = 0x05 \<Longrightarrow> hits w" "(getf 2 5 w :: u32) = 0x0D \<Longrightarrow> hits w"
    "(getf 2 5 w :: u32) = 0x18 \<Longrightarrow> \<not> v_error (rv_BEQ w dec_init) \<Longrightarrow> hits w"
    "(getf 2 5 w :: u32) = 0x1B \<Longrightarrow> hits w"
    "(getf 2 5 w :: u32) = 0x19 \<Longrightarrow> \<not> v_error (rv_JALR w dec_init) \<Longrightarrow> hits w"
    "(getf 2 5 w :: u32) = 0x00 \<Longrightarrow> \<not> v_error (rv_LB w dec_init) \<Longrightarrow> hits w"
    "(getf 2 5 w :: u32) = 0x08 \<Longrightarrow> \<not> v_error (rv_SB w dec_init) \<Longrightarrow> hits w"
    "(getf 2 5 w :: u32) = 0x1C \<Longrightarrow> \<not> v_error (rv_CSRR w dec_init)
      \<Longrightarrow> \<not> rtl_only (rv_CSRR w dec_init) \<Longrightarrow> hits w"
    "(getf 2 5 w :: u32) = 0x03 \<Longrightarrow> \<not> v_error (rv_FENCE w dec_init) \<Longrightarrow> hits w"
  by (use assms in \<open>auto simp: accepts_simps rv_case_defs split: if_splits\<close>)+

lemma accepts:
  assumes low: "(getf 0 2 w :: u32) = 3" and ok: "\<not> v_error (rv_cases False w)"
    and only: "\<not> rtl_only (rv_cases False w)"
  shows "hits w"
proof -
  note c = accepts_cases [OF low]
  show ?thesis
    using ok only unfolding rv_cases_def Let_def
    by (auto simp: err_def intro: c split: if_splits)
qed

end
