(* ===== verification/Rtl_DecoderC.thy ===== *)
theory Rtl_DecoderC
  imports Rtl_Decoder
begin

section \<open>The decoder of compressed instructions of the RTL core\<close>

text \<open>
  sc/rtl/riverlib/core/dec_rvc.cpp: a compressed instruction is decoded into the signals of
  the 32-bit instruction it stands for.  The variables are those of the 32-bit decoder;
  \<open>u\<close> is \<open>vb_instr\<close>, the lower half of the fetched word.
\<close>

text \<open>Register numbers: five bits, or three bits that name x8 to x15.\<close>

abbreviation (input) creg :: "u16 \<Rightarrow> nat \<Rightarrow> nat \<Rightarrow> u6" where
  "creg u hi lo \<equiv> 8 OR rng u hi lo"

text \<open>A six-bit signed immediate: bit 12 and bits 6 to 2.\<close>

definition c_imm6 :: "u16 \<Rightarrow> u64" where
  "c_imm6 u = fill_sign (bit u 12) 5 (setf 0 5 (rng u 6 2) 0)"

definition rvc_ALU_I :: "u8 \<Rightarrow> u6 \<Rightarrow> u6 \<Rightarrow> u64 \<Rightarrow> dec_vars \<Rightarrow> dec_vars" where
  "rvc_ALU_I i rs1 rd imm d =
     (dec i (isa ISA_I_type d))\<lparr>vb_radr1 := rs1, vb_waddr := rd, vb_imm := imm\<rparr>"

definition rvc_R :: "u16 \<Rightarrow> dec_vars \<Rightarrow> dec_vars" where
  "rvc_R u d = (isa ISA_R_type d)\<lparr>vb_radr1 := creg u 9 7, vb_radr2 := creg u 4 2, vb_waddr := creg u 9 7\<rparr>"

subsection \<open>The cases of the opcode\<close>

definition rvc_ADDI16SP_LUI :: "u16 \<Rightarrow> dec_vars \<Rightarrow> dec_vars" where
  "rvc_ADDI16SP_LUI u d =
     (if (rng u 11 7 :: u16) = 2
      then rvc_ALU_I Instr_ADDI 2 2
             (fill_sign (bit u 12) 9
                (setf 4 5 (concat_bits [(2, rng u 4 3), (1, rng u 5 5), (1, rng u 2 2), (1, rng u 6 6)]) 0)) d
      else (dec Instr_LUI (isa ISA_U_type d))\<lparr>vb_waddr := rng u 11 7,
             vb_imm := fill_sign (bit u 12) 17 (setf 12 5 (rng u 6 2) 0)\<rparr>)"

definition rvc_MATH :: "u16 \<Rightarrow> dec_vars \<Rightarrow> dec_vars" where
  "rvc_MATH u d =
     (let f2 = rng u 11 10 :: u16; g2 = rng u 6 5 :: u16;
          sh = setf 0 6 (concat_bits [(1, rng u 12 12), (5, rng u 6 2)]) 0
      in if f2 = 0 then rvc_ALU_I Instr_SRLI (creg u 9 7) (creg u 9 7) sh d
         else if f2 = 1 then rvc_ALU_I Instr_SRAI (creg u 9 7) (creg u 9 7) sh d
         else if f2 = 2 then rvc_ALU_I Instr_ANDI (creg u 9 7) (creg u 9 7) (c_imm6 u) d
         else if \<not> bit u 12 then
           (let d = rvc_R u d
            in if g2 = 0 then dec Instr_SUB d
               else if g2 = 1 then dec Instr_XOR d
               else if g2 = 2 then dec Instr_OR d
               else dec Instr_AND d)
         else
           (let d = rvc_R u d
            in if g2 = 0 then dec Instr_SUBW d
               else if g2 = 1 then dec Instr_ADDW d
               else err d))"

definition rvc_JR_MV_EBREAK_JALR_ADD :: "u16 \<Rightarrow> dec_vars \<Rightarrow> dec_vars" where
  "rvc_JR_MV_EBREAK_JALR_ADD u d =
     (let d = isa ISA_I_type d; hi = rng u 11 7 :: u16; lo = rng u 6 2 :: u16
      in if \<not> bit u 12 then
           (if lo = 0 then (dec Instr_JALR d)\<lparr>vb_radr1 := rng u 11 7\<rparr>
            else (dec Instr_ADDI d)\<lparr>vb_radr1 := rng u 6 2, vb_waddr := rng u 11 7\<rparr>)
         else if hi = 0 \<and> lo = 0 then dec Instr_EBREAK d
         else if lo = 0 then (dec Instr_JALR d)\<lparr>vb_radr1 := rng u 11 7, vb_waddr := 1\<rparr>
         else (dec Instr_ADD (isa ISA_R_type d))\<lparr>vb_radr1 := rng u 11 7, vb_radr2 := rng u 6 2,
                vb_waddr := rng u 11 7\<rparr>)"

definition rvc_J :: "u16 \<Rightarrow> dec_vars \<Rightarrow> dec_vars" where
  "rvc_J u d =
     (dec Instr_JAL (isa ISA_UJ_type d))\<lparr>vb_imm := fill_sign (bit u 12) 11
       (setf 1 10 (concat_bits [(1, rng u 8 8), (2, rng u 10 9), (1, rng u 6 6), (1, rng u 7 7),
          (1, rng u 2 2), (1, rng u 11 11), (3, rng u 5 3)]) 0)\<rparr>"

definition rvc_BZ :: "u8 \<Rightarrow> u16 \<Rightarrow> dec_vars \<Rightarrow> dec_vars" where
  "rvc_BZ i u d =
     (dec i (isa ISA_SB_type d))\<lparr>vb_radr1 := creg u 9 7,
       vb_imm := fill_sign (bit u 12) 8
         (setf 1 7 (concat_bits [(2, rng u 6 5), (1, rng u 2 2), (2, rng u 11 10), (2, rng u 4 3)]) 0)\<rparr>"

definition rvc_S :: "u8 \<Rightarrow> u6 \<Rightarrow> u6 \<Rightarrow> u64 \<Rightarrow> dec_vars \<Rightarrow> dec_vars" where
  "rvc_S i rs1 rs2 imm d =
     (dec i (isa ISA_S_type d))\<lparr>vb_radr1 := rs1, vb_radr2 := rs2, vb_imm := imm\<rparr>"

definition rvc_opcode1 :: "u16 \<Rightarrow> u16" where
  "rvc_opcode1 u = concat_bits [(3, rng u 15 13), (2, rng u 1 0)]"

definition rvc_cases :: "u16 \<Rightarrow> dec_vars" where
  "rvc_cases u =
     (let op1 = rvc_opcode1 u; d = dec_init
      in if op1 = 0x00 then rvc_ALU_I Instr_ADDI 2 (creg u 4 2)
             (setf 2 8 (concat_bits [(4, rng u 10 7), (2, rng u 12 11), (1, rng u 5 5), (1, rng u 6 6)]) 0) d
         else if op1 = 0x01 then rvc_ALU_I Instr_ADDI (rng u 11 7) (rng u 11 7) (c_imm6 u) d
         else if op1 = 0x02 then rvc_ALU_I Instr_SLLI (rng u 11 7) (rng u 11 7)
             (setf 0 6 (concat_bits [(1, rng u 12 12), (5, rng u 6 2)]) 0) d
         else if op1 = 0x05 then rvc_ALU_I Instr_ADDIW (rng u 11 7) (rng u 11 7) (c_imm6 u) d
         else if op1 = 0x08 then rvc_ALU_I Instr_LW (creg u 9 7) (creg u 4 2)
             (setf 2 5 (concat_bits [(1, rng u 5 5), (3, rng u 12 10), (1, rng u 6 6)]) 0) d
         else if op1 = 0x09 then rvc_ALU_I Instr_ADDI 0 (rng u 11 7) (c_imm6 u) d
         else if op1 = 0x0A then rvc_ALU_I Instr_LW 2 (rng u 11 7)
             (setf 2 6 (concat_bits [(2, rng u 3 2), (1, rng u 12 12), (3, rng u 6 4)]) 0) d
         else if op1 = 0x0C then rvc_ALU_I Instr_LD (creg u 9 7) (creg u 4 2)
             (setf 3 5 (concat_bits [(1, rng u 6 6), (1, rng u 5 5), (3, rng u 12 10)]) 0) d
         else if op1 = 0x0D then rvc_ADDI16SP_LUI u d
         else if op1 = 0x0E then rvc_ALU_I Instr_LD 2 (rng u 11 7)
             (setf 3 6 (concat_bits [(3, rng u 4 2), (1, rng u 12 12), (2, rng u 6 5)]) 0) d
         else if op1 = 0x11 then rvc_MATH u d
         else if op1 = 0x12 then rvc_JR_MV_EBREAK_JALR_ADD u d
         else if op1 = 0x15 then rvc_J u d
         else if op1 = 0x18 then rvc_S Instr_SW (creg u 9 7) (creg u 4 2)
             (setf 2 5 (concat_bits [(1, rng u 5 5), (1, rng u 12 12), (2, rng u 11 10), (1, rng u 6 6)]) 0) d
         else if op1 = 0x19 then rvc_BZ Instr_BEQ u d
         else if op1 = 0x1A then rvc_S Instr_SW 2 (rng u 6 2)
             (setf 2 6 (concat_bits [(2, rng u 8 7), (1, rng u 12 12), (3, rng u 11 9)]) 0) d
         else if op1 = 0x1C then rvc_S Instr_SD (creg u 9 7) (creg u 4 2)
             (setf 3 5 (concat_bits [(2, rng u 6 5), (1, rng u 12 12), (2, rng u 11 10)]) 0) d
         else if op1 = 0x1D then rvc_BZ Instr_BNE u d
         else if op1 = 0x1E then rvc_S Instr_SD 2 (rng u 6 2)
             (setf 3 6 (concat_bits [(3, rng u 9 7), (1, rng u 12 12), (2, rng u 11 10)]) 0) d
         else err d)"

subsection \<open>The process comb and the registers\<close>

text \<open>The outputs that the 32-bit decoder registers and this one ties are given as constants.\<close>

definition rvc_memop_size_of :: "(u8 \<Rightarrow> bool) \<Rightarrow> 2 word" where
  "rvc_memop_size_of i =
     (if i Instr_LD \<or> i Instr_SD then MEMOP_8B else if i Instr_LW \<or> i Instr_SW then MEMOP_4B else MEMOP_8B)"

definition DecoderRvc_r_reset :: dec_regs where
  "DecoderRvc_r_reset = DecoderRv_r_reset\<lparr>d_instr := ucast (NOT 0 :: u16), d_compressed := True\<rparr>"

definition DecoderRvc_comb :: "bool \<Rightarrow> dec_in \<Rightarrow> dec_regs" where
  "DecoderRvc_comb async_reset x =
     (let u = ucast (i_f_instr x) :: u16; d = rvc_cases u; i = vb_dec d
      in if (\<not> async_reset \<and> \<not> i_nrst x) \<or> i_flush_pipeline x then DecoderRvc_r_reset
         else \<lparr>d_pc = i_f_pc x, d_isa_type = vb_isa_type d, d_instr_vec = i, d_instr = ucast u,
           d_memop_store = (i Instr_SD \<or> i Instr_SW), d_memop_load = (i Instr_LD \<or> i Instr_LW),
           d_memop_sign_ext = (i Instr_LD \<or> i Instr_LW), d_memop_size = rvc_memop_size_of i,
           d_unsigned_op = False, d_rv32 = (i Instr_ADDW \<or> i Instr_ADDIW \<or> i Instr_SUBW),
           d_f64 = False, d_compressed = True, d_amo = False,
           d_instr_load_fault = i_instr_load_fault x,
           d_instr_page_fault_x = i_instr_page_fault_x x, d_instr_unimplemented = v_error d,
           d_radr1 = vb_radr1 d, d_radr2 = vb_radr2 d, d_waddr = vb_waddr d,
           d_csr_addr = 0, d_imm = vb_imm d, d_progbuf_ena = i_progbuf_ena x\<rparr>)"

definition DecoderRvc_registers :: "bool \<Rightarrow> dec_in \<Rightarrow> dec_regs" where
  "DecoderRvc_registers async_reset x =
     (if async_reset \<and> \<not> i_nrst x then DecoderRvc_r_reset else DecoderRvc_comb async_reset x)"

lemma rvc_csr_addr: "vb_csr_addr (rvc_cases u) = 0"
  by (simp add: rvc_cases_def Let_def rvc_ALU_I_def rvc_R_def rvc_ADDI16SP_LUI_def rvc_MATH_def
      rvc_JR_MV_EBREAK_JALR_ADD_def rvc_J_def rvc_BZ_def rvc_S_def dec_def isa_def err_def dec_init_def)

lemma signals_rvc:
  "running x \<Longrightarrow> signals (DecoderRvc_registers ar x) = rvc_cases (ucast (i_f_instr x))"
  using rvc_csr_addr [of "ucast (i_f_instr x)"]
  by (simp add: running_def signals_def DecoderRvc_registers_def DecoderRvc_comb_def Let_def)

end
