(* ===== verification/Rtl_CompressedEq.thy ===== *)
theory Rtl_CompressedEq
  imports Rtl_DecoderC Decode
begin

section \<open>Compressed instructions: the functional CPU against the RTL decoder\<close>

text \<open>
  The functional CPU executes a compressed instruction by a class of its own, the RTL core
  decodes it into the signals of a 32-bit instruction.  \<open>micro_op\<close> gives the meaning of these
  signals once, with the length of the instruction as a parameter.
\<close>

subsection \<open>Fields\<close>

lemmas C_field_defs =
  CR_rs2_def CR_rdrs1_def CI_imm_def CI_rdrs_def CI_imm6_def CI_sp_imm5_def CI_sp_imm8_7_def CI_sp_imm6_def
  CI_sp_imm4_def CI_sp_imm9_def CI_ldsp_off8_6_def CI_ldsp_off4_3_def CI_ldsp_rd_def CI_ldsp_off5_def
  CI_lwsp_off7_6_def CI_lwsp_off4_2_def CI_lwsp_rd_def CI_lwsp_off5_def CSS_w_rs2_def CSS_w_imm7_6_def
  CSS_w_imm5_2_def CSS_d_rs2_def CSS_d_imm8_6_def CSS_d_imm5_3_def CIW_rd_def CIW_imm3_def CIW_imm2_def
  CIW_imm9_6_def CIW_imm5_4_def CL_rd_def CL_imm6_def CL_imm27_def CL_rs1_def CL_imm5_3_def CS_rs2_def
  CS_imm6_def CS_imm27_def CS_rs1_def CS_imm5_3_def CB_off5_def CB_off2_1_def CB_off7_6_def CB_rs1_def
  CB_off4_3_def CB_off8_def CB_sh_shamt_def CB_sh_rd_def CB_sh_funct2_def CB_sh_shamt5_def CJ_off5_def
  CJ_off3_1_def CJ_off7_def CJ_off6_def CJ_off10_def CJ_off9_8_def CJ_off4_def CJ_off11_def

lemmas C_bits = upt_64 C_field_defs c_imm6_def fill_sign_def sext6_def EXT_SIGN_defs truth_flag
  bit_getf bit_setf bit_simps numeral_2_eq_2 [symmetric]

lemma C_signed_immediates:
  "CI_simm u = c_imm6 u"
  "sext6 (CB_sh_shamt5 u) (ucast (CB_sh_shamt u)) = c_imm6 u"
  "push_bit 4 (sext6 (CI_sp_imm9 u) (ucast (push_bit 3 (CI_sp_imm8_7 u)
      OR push_bit 2 (CI_sp_imm6 u) OR push_bit 1 (CI_sp_imm5 u) OR CI_sp_imm4 u)))
    = fill_sign (bit u 12) 9
        (setf 4 5 (concat_bits [(2, rng u 4 3), (1, rng u 5 5), (1, rng u 2 2), (1, rng u 6 6)]) 0)"
  "push_bit 12 (CI_simm u) = fill_sign (bit u 12) 17 (setf 12 5 (rng u 6 2) 0)"
  "CB_off u = fill_sign (bit u 12) 8
     (setf 1 7 (concat_bits [(2, rng u 6 5), (1, rng u 2 2), (2, rng u 11 10), (2, rng u 4 3)]) 0)"
  "CJ_off u = fill_sign (bit u 12) 11
     (setf 1 10 (concat_bits [(1, rng u 8 8), (2, rng u 10 9), (1, rng u 6 6), (1, rng u 7 7),
        (1, rng u 2 2), (1, rng u 11 11), (3, rng u 5 3)]) 0)"
  by (rule u64_eq_bits, cases "bit u 12";
      simp add: CI_simm_def CB_off_def CJ_off_def Let_def C_bits del: bit_0 push_bit_Suc take_bit_Suc_0)+

lemma C_unsigned_immediates:
  "push_bit 2 (ucast (push_bit 4 (CIW_imm9_6 u) OR push_bit 2 (CIW_imm5_4 u) OR push_bit 1 (CIW_imm3 u) OR CIW_imm2 u))
    = setf 2 8 (concat_bits [(4, rng u 10 7), (2, rng u 12 11), (1, rng u 5 5), (1, rng u 6 6)]) (0 :: u64)"
  "push_bit 2 (ucast (push_bit 4 (CL_imm6 u) OR push_bit 1 (CL_imm5_3 u) OR CL_imm27 u))
    = setf 2 5 (concat_bits [(1, rng u 5 5), (3, rng u 12 10), (1, rng u 6 6)]) (0 :: u64)"
  "push_bit 2 (ucast (push_bit 4 (CI_lwsp_off7_6 u) OR push_bit 3 (CI_lwsp_off5 u) OR CI_lwsp_off4_2 u))
    = setf 2 6 (concat_bits [(2, rng u 3 2), (1, rng u 12 12), (3, rng u 6 4)]) (0 :: u64)"
  "push_bit 3 (ucast (push_bit 4 (CL_imm27 u) OR push_bit 3 (CL_imm6 u) OR CL_imm5_3 u))
    = setf 3 5 (concat_bits [(1, rng u 6 6), (1, rng u 5 5), (3, rng u 12 10)]) (0 :: u64)"
  "push_bit 3 (ucast (push_bit 3 (CI_ldsp_off8_6 u) OR push_bit 2 (CI_ldsp_off5 u) OR CI_ldsp_off4_3 u))
    = setf 3 6 (concat_bits [(3, rng u 4 2), (1, rng u 12 12), (2, rng u 6 5)]) (0 :: u64)"
  "push_bit 2 (ucast (push_bit 4 (CS_imm6 u) OR push_bit 1 (CS_imm5_3 u) OR CS_imm27 u))
    = setf 2 5 (concat_bits [(1, rng u 5 5), (1, rng u 12 12), (2, rng u 11 10), (1, rng u 6 6)]) (0 :: u64)"
  "push_bit 2 (ucast (push_bit 4 (CSS_w_imm7_6 u) OR CSS_w_imm5_2 u))
    = setf 2 6 (concat_bits [(2, rng u 8 7), (1, rng u 12 12), (3, rng u 11 9)]) (0 :: u64)"
  "push_bit 3 (ucast (push_bit 4 (CS_imm27 u) OR push_bit 3 (CS_imm6 u) OR CS_imm5_3 u))
    = setf 3 5 (concat_bits [(2, rng u 6 5), (1, rng u 12 12), (2, rng u 11 10)]) (0 :: u64)"
  "push_bit 3 (ucast (push_bit 3 (CSS_d_imm8_6 u) OR CSS_d_imm5_3 u))
    = setf 3 6 (concat_bits [(3, rng u 9 7), (1, rng u 12 12), (2, rng u 11 10)]) (0 :: u64)"
  by (rule u64_eq_bits, simp add: C_bits del: bit_0 push_bit_Suc take_bit_Suc_0)+

lemma C_shamt:
  "unat (CB_shamt6 u) = unat (setf 0 6 (concat_bits [(1, rng u 12 12), (5, rng u 6 2)]) 0 AND 0x3F :: u64)"
proof -
  have "ucast (CB_shamt6 u) = (setf 0 6 (concat_bits [(1, rng u 12 12), (5, rng u 6 2)]) 0 AND 0x3F :: u64)"
    by (rule u64_eq_bits, simp add: CB_shamt6_def C_bits del: bit_0 push_bit_Suc take_bit_Suc_0)
  moreover have "unat (ucast (CB_shamt6 u) :: u64) = unat (CB_shamt6 u)"
    by (rule unat_widen) simp
  ultimately show ?thesis by simp
qed

lemma C_LUI_imm: "push_bit 12 (c_imm6 u) = fill_sign (bit u 12) 17 (setf 12 5 (rng u 6 2) 0)"
  using C_signed_immediates(1,4) by simp

lemma setReg_0 [simp]: "setReg 0 v c = c"
  by (simp add: setReg_def)

lemma setReg_other [simp]: "i \<noteq> j \<Longrightarrow> R (setReg j v c) i = R c i"
  by (simp add: setReg_def)

lemma low32_cast: "ucast (ucast v :: u32) = low32 v"
proof -
  have m: "(0xFFFFFFFF :: u64) = mask 32"
    by (simp add: mask_eq_exp_minus_1)
  show ?thesis
    unfolding m by (rule bit_word_eqI) (auto simp: bit_simps)
qed

lemma even_target:
  fixes x :: u64
  assumes "x AND 1 = 0"
  shows "x AND - 2 = x"
proof -
  have "\<not> bit x 0"
    using assms by (simp add: and_one_eq even_iff_mod_2_eq_zero bit_0)
  moreover have m: "(- 2 :: u64) = NOT 1" by simp
  ultimately show ?thesis
    unfolding m by (intro bit_word_eqI) (auto simp: bit_simps intro: Nat.gr0I)
qed

lemma unat_is_1: "unat x = Suc 0 \<longleftrightarrow> x = 1"
  by (metis One_nat_def unsigned_1 unsigned_word_eqI)

subsection \<open>The meaning of the decoded signals\<close>

text \<open>
  What an instruction with the decoded operands does in the functional CPU: \<open>len\<close> is its
  length, which the link register needs.
\<close>

definition micro_op :: "dec_vars \<Rightarrow> u64 \<Rightarrow> 'm platform \<Rightarrow> 'm cpu \<Rightarrow> 'm cpu" where
  "micro_op d len P c =
     (let i = vb_dec d; imm = vb_imm d; rd = unat (vb_waddr d); rs1 = unat (vb_radr1 d);
          a = R c rs1; b = R c (unat (vb_radr2 d))
      in if i Instr_ADD then setReg rd (a + b) c
         else if i Instr_SUB then setReg rd (a - b) c
         else if i Instr_AND then setReg rd (a AND b) c
         else if i Instr_OR then setReg rd (a OR b) c
         else if i Instr_XOR then setReg rd (a XOR b) c
         else if i Instr_ADDW then setReg rd (sext32 (low32 (a + b))) c
         else if i Instr_SUBW then setReg rd (sext32 (low32 (a - b))) c
         else if i Instr_ADDI then setReg rd (a + imm) c
         else if i Instr_ADDIW then setReg rd (sext32 (low32 (a + imm))) c
         else if i Instr_ANDI then setReg rd (a AND imm) c
         else if i Instr_SLLI then setReg rd (push_bit (unat (imm AND 0x3F)) a) c
         else if i Instr_SRLI then setReg rd (drop_bit (unat (imm AND 0x3F)) a) c
         else if i Instr_SRAI then setReg rd (signed_drop_bit (unat (imm AND 0x3F)) a) c
         else if i Instr_LUI then setReg rd imm c
         else if i Instr_LW then (case load_access P (a + imm) 4 3 0 c of (v, c) \<Rightarrow> setReg rd (sext32 (low32 v)) c)
         else if i Instr_LD then (case load_access P (a + imm) 8 7 (stack_garbage P) c of (v, c) \<Rightarrow> setReg rd v c)
         else if i Instr_SW then store_access P (a + imm) 4 3 b c
         else if i Instr_SD then store_access P (a + imm) 8 7 b c
         else if i Instr_BEQ then (if a = b then setBranch (getPC c + imm) c else c)
         else if i Instr_BNE then (if a \<noteq> b then setBranch (getPC c + imm) c else c)
         else if i Instr_JAL then
           (let c = setBranch (getPC c + imm) (setReg rd (getPC c + len) c)
            in if rd = Reg_ra then pushStackTrace P c else c)
         else if i Instr_JALR then
           (let c = setBranch ((imm + a) AND NOT 1) (setReg rd (getPC c + len) c)
            in if rd = Reg_ra then pushStackTrace P c
               else if imm = 0 \<and> rs1 = Reg_ra then popStackTrace c else c)
         else if i Instr_EBREAK then
           (generateException P EXCEPTION_Breakpoint (getPC c) c)\<lparr>do_not_cache := True\<rparr>
         else c)"

subsection \<open>What a pattern says about the fields\<close>

lemma C_slice:
  fixes w :: u32
  assumes "w AND m = oc" and "m AND push_bit lo (mask n) = push_bit lo (mask n)" and "lo + n \<le> 16"
  shows "getf lo n (ucast w :: u16) = (getf lo n oc :: 'b::len word)"
proof (rule bit_word_eqI)
  fix k
  have "bit (m AND push_bit lo (mask n)) (lo + k) = bit (push_bit lo (mask n) :: u32) (lo + k)"
    unfolding assms(2) ..
  then have "k < n \<Longrightarrow> lo + k < 32 \<Longrightarrow> bit m (lo + k)"
    by (simp add: bit_simps)
  then show "bit (getf lo n (ucast w :: u16) :: 'b word) k = bit (getf lo n oc :: 'b word) k"
    using assms(1,3) by (auto simp: bit_getf bit_simps)
qed

lemma C_slices:
  fixes w :: u32
  assumes "w AND m = oc"
  shows "(m AND 0xE003 = 0xE003
        \<longrightarrow> rvc_opcode1 (ucast w) = ucast (push_bit 2 (take_bit 3 (drop_bit 13 oc)) OR take_bit 2 oc))
    \<and> (m AND 0xC00 = 0xC00 \<longrightarrow> (getf 10 2 (ucast w :: u16) :: u16) = ucast (take_bit 2 (drop_bit 10 oc)))
    \<and> (m AND 0x60 = 0x60 \<longrightarrow> (getf 5 2 (ucast w :: u16) :: u16) = ucast (take_bit 2 (drop_bit 5 oc)))
    \<and> (m AND 0x1000 = 0x1000 \<longrightarrow> bit (ucast w :: u16) 12 = bit oc 12)
    \<and> (m AND 0xF80 = 0xF80 \<longrightarrow> (getf 7 5 (ucast w :: u16) :: u16) = ucast (take_bit 5 (drop_bit 7 oc)))
    \<and> (m AND 0x7C = 0x7C \<longrightarrow> (getf 2 5 (ucast w :: u16) :: u16) = ucast (take_bit 5 (drop_bit 2 oc)))"
proof -
  have "m AND 0x1000 = 0x1000 \<Longrightarrow> bit (ucast w :: u16) 12 = bit oc 12"
  proof -
    assume m: "m AND 0x1000 = 0x1000"
    have "bit (m AND 0x1000) 12" unfolding m by simp
    with assms show ?thesis by (auto simp: bit_simps)
  qed
  moreover have "rvc_opcode1 (ucast w) = ucast (push_bit 2 (take_bit 3 (drop_bit 13 oc)) OR take_bit 2 oc)"
    if m: "m AND 0xE003 = 0xE003"
  proof -
    have "m AND 0xE000 = (m AND 0xE003) AND 0xE000" "m AND 3 = (m AND 0xE003) AND 3"
      by (simp_all add: and.assoc)
    then have "m AND 0xE000 = 0xE000" "m AND 3 = 3"
      by (simp_all add: m)
    then have "getf 13 3 (ucast w :: u16) = (getf 13 3 oc :: u16)" "getf 0 2 (ucast w :: u16) = (getf 0 2 oc :: u16)"
      using C_slice [where 'b = 16, OF assms, of 13 3] C_slice [where 'b = 16, OF assms, of 0 2]
      by (simp_all add: mask_eq_exp_minus_1 push_bit_eq_mult)
    moreover have "concat_bits [(3, getf 13 3 oc), (2, getf 0 2 oc)]
        = (ucast (push_bit 2 (take_bit 3 (drop_bit 13 oc)) OR take_bit 2 oc) :: u16)"
      by (rule bit_word_eqI) (auto simp: bit_getf bit_simps)
    ultimately show ?thesis
      by (simp add: rvc_opcode1_def flip: numeral_2_eq_2)
  qed
  ultimately show ?thesis
    using C_slice [where 'b = 16, OF assms, of 10 2]
      C_slice [where 'b = 16, OF assms, of 5 2] C_slice [where 'b = 16, OF assms, of 7 5]
      C_slice [where 'b = 16, OF assms, of 2 5]
    by (simp add: mask_eq_exp_minus_1 push_bit_eq_mult getf_def [where w = oc])
qed

lemma reg_tests:
  "(getf 7 5 u :: u16) = 0 \<longleftrightarrow> CR_rdrs1 u = 0" "(getf 7 5 u :: u16) = 2 \<longleftrightarrow> CR_rdrs1 u = 2"
  "(getf 2 5 u :: u16) = 0 \<longleftrightarrow> CR_rs2 u = 0"
proof -
  have "(getf lo 5 u :: u16) = x \<longleftrightarrow> (getf lo 5 u :: u32) = ucast x" for lo x
    by (simp add: word_eq_iff_unsigned [where 'a = nat] unat_getf_low [of 5, where 'b = 16 and 'c = 32] unat_widen)
  from this [of 7 0] this [of 7 2] this [of 2 0] show
    "(getf 7 5 u :: u16) = 0 \<longleftrightarrow> CR_rdrs1 u = 0" "(getf 7 5 u :: u16) = 2 \<longleftrightarrow> CR_rdrs1 u = 2"
    "(getf 2 5 u :: u16) = 0 \<longleftrightarrow> CR_rs2 u = 0"
    by (simp_all add: CR_rdrs1_def CR_rs2_def)
qed

text \<open>Register numbers: the decoder's six bits and the simulator's field.\<close>

lemma unat_creg: "unat (8 OR getf lo 3 u :: u6) = unat (8 + getf lo 3 u :: u32)" for u :: u16
proof -
  have "\<not> bit (8 :: u32) n" if "n < 3" for n
  proof -
    have "n = 0 \<or> n = 1 \<or> n = 2" using that by linarith
    then show ?thesis by auto
  qed
  then have "(8 OR getf lo 3 u :: u32) = 8 + getf lo 3 u"
    by (subst disjunctive_add) (auto simp: bit_getf)
  moreover have "unat (8 OR getf lo 3 u :: u6) = unat (8 OR getf lo 3 u :: u32)"
    using unat_getf_low [of 3 lo u, where 'b = 6 and 'c = 32] by (simp add: unsigned_or_eq)
  ultimately show ?thesis by simp
qed

lemma buf16_low: "(ucast (buf32 p) :: u16) = buf16 p"
  by (rule bit_word_eqI) (auto simp: bit_simps)

lemma excl_fields:
  "buf32 p AND 0xF80 = 0 \<longleftrightarrow> CR_rdrs1 (buf16 p) = 0" "buf32 p AND 0x7C = 0 \<longleftrightarrow> CR_rs2 (buf16 p) = 0"
  "buf32 p AND 0xF80 = 0x100 \<longleftrightarrow> CR_rdrs1 (buf16 p) = 2"
  using getf_u16_eq_iff [of 7 5 0 "buf32 p"] getf_u16_eq_iff [of 2 5 0 "buf32 p"]
    getf_u16_eq_iff [of 7 5 2 "buf32 p"]
  by (simp_all add: CR_rdrs1_def CR_rs2_def mask_eq_exp_minus_1 buf16_low)

subsection \<open>Every compressed instruction is the micro-operation it is decoded to\<close>

text \<open>Where \<open>C_JR\<close> and \<open>C_JALR\<close> agree with JALR: see \<open>C_JALR_differs\<close>.\<close>

definition C_jump_ok :: "'m instruction \<Rightarrow> u16 \<Rightarrow> 'm cpu \<Rightarrow> bool" where
  "C_jump_ok i u c \<longleftrightarrow>
     (iname i = ''C_JR'' \<or> iname i = ''C_JALR'' \<longrightarrow> Rx c (CR_rdrs1 u) AND 1 = 0)
     \<and> (iname i = ''C_JALR'' \<longrightarrow> CR_rdrs1 u \<noteq> 1)"

definition C_row :: "'m platform \<Rightarrow> 'm instruction \<Rightarrow> key \<Rightarrow> bool" where
  "C_row P i k \<longleftrightarrow> (\<forall>p c. key_match k (buf32 p) \<longrightarrow> R c 0 = 0 \<longrightarrow> C_jump_ok i (buf16 p) c
     \<longrightarrow> iexec i P p c = (micro_op (rvc_cases (buf16 p)) 2 P c, 2))"

lemma C_rowI:
  assumes "\<And>p c. buf32 p AND m = oc \<Longrightarrow> R c 0 = 0 \<Longrightarrow> list_all (\<lambda>(em, ev). buf32 p AND em \<noteq> ev) ex \<Longrightarrow>
      (if name = ''C_JR'' \<or> name = ''C_JALR'' then Rx c (CR_rdrs1 (buf16 p)) AND 1 = 0 else True) \<Longrightarrow>
      (if name = ''C_JALR'' then CR_rdrs1 (buf16 p) \<noteq> 1 else True)
      \<Longrightarrow> f P p c = (micro_op (rvc_cases (buf16 p)) 2 P c, 2)"
  shows "C_row P (RiscvInstruction16 name bits cond f) (m, oc, h, ex)"
  using assms by (simp add: C_row_def C_jump_ok_def RiscvInstruction16_def RiscvInstruction_def)

lemma C_SLLI_idx: "push_bit 3 (CB_sh_funct2 u) OR CB_sh_rd u = CI_rdrs u"
  by (rule bit_word_eqI) (auto simp: CB_sh_funct2_def CB_sh_rd_def CI_rdrs_def bit_getf bit_simps)

lemmas C_immediates = C_LUI_imm C_signed_immediates C_unsigned_immediates C_shamt C_SLLI_idx

lemmas C_fields = C_field_defs unat_creg unat_getf_low [of 5, where 'b = 6 and 'c = 32] reg_tests

lemmas rvc_defs = rvc_ALU_I_def rvc_R_def rvc_S_def rvc_BZ_def rvc_J_def dec_def isa_def err_def dec_init_def
lemmas rvc_case_defs = rvc_cases_def rvc_JR_MV_EBREAK_JALR_ADD_def rvc_MATH_def rvc_ADDI16SP_LUI_def

lemma C_rows:
  assumes "stack_garbage P = 0"
  shows "list_all2 (C_row P) addIsaExtensionC keys_C"
  unfolding addIsaExtensionC_def keys_C_def
  by (intro list.rel_intros;
      (rule C_rowI, drule C_slices, unfold exec_defs Let_def C_immediates,
       simp add: buf16_low excl_fields,
       (simp add: rvc_case_defs Let_def reg_tests)?,
       (simp add: micro_op_def Let_def rvc_defs assms)?,
       (simp add: C_fields case_prod_beta low32_cast even_target unat_is_1)?,
       (auto simp: even_target)?))

end
