(* ===== verification/Rtl_Agree.thy ===== *)
theory Rtl_Agree
  imports Rtl_DecodeEq Rtl_CompressedEq River
begin

section \<open>The RTL decoders and the functional CPU agree\<close>

text \<open>
  The properties of the two RTL decoders against the instruction classes of the functional
  CPU, over the tables of \<open>Rtl_DecodeEq\<close> and \<open>Rtl_CompressedEq\<close>.
\<close>

subsection \<open>The two decoders\<close>

lemma list_all2_zip_in:
  assumes "list_all2 Q xs ks" and "map f is' = map g xs" and "i \<in> set is'"
    and "list_all2 S is' ks"
  shows "\<exists>x k. x \<in> set xs \<and> g x = f i \<and> Q x k \<and> S i k"
proof -
  obtain n where n: "n < length is'" "i = is' ! n" using assms(3) by (auto simp: in_set_conv_nth)
  have l: "length xs = length is'" using assms(2) by (metis length_map)
  have "g (xs ! n) = f (is' ! n)" using n(1) l assms(2) by (metis nth_map)
  moreover have "Q (xs ! n) (ks ! n)" "S (is' ! n) (ks ! n)"
    using assms(1,4) n(1) l by (simp_all add: list_all2_nthD)
  ultimately show ?thesis using n l by (metis nth_mem)
qed

lemma decodes_row:
  assumes "\<exists>x k. x \<in> set xs \<and> fst x = iname i \<and> rv_row x k \<and> keyed i k" and "parse i w"
    and "set xs \<subseteq> set rtl_table"
  shows "\<exists>n t. (iname i, n, t) \<in> set rtl_table \<and> decodes_as (rv_cases fpu w) n t w"
  using assms by (fastforce simp: rv_row_def keyed_def)

lemma rv_decodes:
  assumes i: "i \<in> set (supported exts)" and "\<not> is16 i" and "parse i w"
  shows "\<exists>n t. (iname i, n, t) \<in> set rtl_table \<and> decodes_as (rv_cases fpu w) n t w"
proof -
  have "\<not> is16 j \<Longrightarrow> j \<notin> set addIsaExtensionC" for j :: "'a instruction"
    by (auto simp: addIsaExtensionC_def RiscvInstruction16_def)
  then consider "i \<in> set addIsaUserRV64I" | "i \<in> set addIsaPrivilegedRV64I" | "i \<in> set addIsaExtensionA"
    | "i \<in> set addIsaExtensionM"
    using i assms(2) by (auto simp: supported_def addIsa_def split: if_splits)
  moreover have sub: "set rtl_I \<subseteq> set rtl_table" "set rtl_Priv \<subseteq> set rtl_table" "set rtl_A \<subseteq> set rtl_table"
    "set rtl_M \<subseteq> set rtl_table"
    by (auto simp: rtl_table_def)
  ultimately show ?thesis
  proof cases
    case 1
    show ?thesis by (rule decodes_row [OF list_all2_zip_in [OF rv_rows_I rtl_names(1) 1 keyed_I] assms(3) sub(1)])
  next
    case 2
    show ?thesis by (rule decodes_row [OF list_all2_zip_in [OF rv_rows_Priv rtl_names(2) 2 keyed_Priv] assms(3) sub(2)])
  next
    case 3
    show ?thesis by (rule decodes_row [OF list_all2_zip_in [OF rv_rows_A rtl_names(3) 3 keyed_A] assms(3) sub(3)])
  next
    case 4
    show ?thesis by (rule decodes_row [OF list_all2_zip_in [OF rv_rows_M rtl_names(4) 4 keyed_M] assms(3) sub(4)])
  qed
qed

lemma keyed_in: "list_all2 keyed is' ks \<Longrightarrow> k \<in> set ks \<Longrightarrow> \<exists>i\<in>set is'. keyed i k"
  by (induction rule: list_all2_induct) auto

lemma not_is16:
  "i \<in> set addIsaUserRV64I \<union> set addIsaPrivilegedRV64I \<union> set addIsaExtensionA \<union> set addIsaExtensionM
    \<Longrightarrow> \<not> is16 i"
  by (auto simp: addIsaUserRV64I_def addIsaPrivilegedRV64I_def addIsaExtensionA_def addIsaExtensionM_def
      RiscvInstruction_def)

lemma supported_parts:
  assumes "CHR ''A'' \<in> set exts" and "CHR ''M'' \<in> set exts"
  shows "set (addIsaUserRV64I @ addIsaPrivilegedRV64I @ addIsaExtensionA @ addIsaExtensionM)
    \<subseteq> set (supported exts)"
proof -
  have "set (addIsa e) \<subseteq> set (supported exts)" if "e \<in> set exts" for e
    using that by (auto simp: supported_def)
  from this [OF assms(1)] this [OF assms(2)] show ?thesis
    by (auto simp: supported_def addIsa_def)
qed

lemma keyed_32:
  "list_all2 keyed (addIsaUserRV64I @ addIsaPrivilegedRV64I @ addIsaExtensionA @ addIsaExtensionM) keys_32"
  unfolding keys_32_def by (intro list_all2_appendI keyed_I keyed_Priv keyed_A keyed_M)

lemma hits_parse:
  assumes "hits w" and "CHR ''A'' \<in> set exts" and "CHR ''M'' \<in> set exts"
  shows "\<exists>i\<in>set (supported exts :: 'm instruction list). parse i w"
proof -
  obtain k where k: "k \<in> set keys_32" "key_match k w"
    using assms(1) by (auto simp: list_ex_iff)
  obtain i where i: "i \<in> set (addIsaUserRV64I @ addIsaPrivilegedRV64I @ addIsaExtensionA @ addIsaExtensionM
      :: 'm instruction list)" and "keyed i k"
    using keyed_in [OF keyed_32 k(1)] by blast
  then have "parse i w" using k(2) by (simp add: keyed_def)
  then show ?thesis using i supported_parts [OF assms(2,3)] by blast
qed

lemma low_bits: "(getf 0 2 w :: u32) = w AND 3"
proof -
  have m: "(3 :: u32) = mask 2" by (simp add: mask_eq_exp_minus_1)
  show ?thesis unfolding m by (rule bit_word_eqI) (auto simp: bit_getf bit_simps)
qed

lemma compressed_key: "k \<in> set keys_C \<Longrightarrow> key_match k w \<Longrightarrow> w AND 3 \<noteq> 3"
proof -
  assume k: "k \<in> set keys_C" "key_match k w"
  obtain m oc h ex where kk: "k = (m, oc, h, ex)" by (rule prod_cases4)
  have "list_all (\<lambda>(m, oc, h, ex). 3 AND m = 3 \<and> oc AND 3 \<noteq> 3) keys_C"
    by (simp add: keys_C_def)
  then have "3 AND m = 3" "oc AND 3 \<noteq> 3"
    using k(1) by (auto simp: list_all_iff kk)
  then show ?thesis
    using k(2) and_sub_mask [of 3 m w oc] by (simp add: kk)
qed

lemma compressed_low_bits:
  assumes "i \<in> set addIsaExtensionC" and "parse i w"
  shows "w AND 3 \<noteq> 3"
proof -
  obtain k where "k \<in> set keys_C" "keyed i k"
    using list_all2_in_set [OF keyed_C assms(1)] by blast
  then show ?thesis
    using compressed_key [of k w] assms(2) by (simp add: keyed_def)
qed

subsection \<open>The base instructions as micro-operations\<close>

text \<open>
  The base instructions that compressed ones expand to.  LW extends all the bits that the
  bus hands back, so it needs a bus that hands back four bytes.
\<close>

definition micro_names :: "string list" where
  "micro_names = [''ADD'', ''SUB'', ''AND'', ''OR'', ''XOR'', ''ADDW'', ''SUBW'', ''ADDI'', ''ADDIW'', ''ANDI'',
     ''SLLI'', ''SRLI'', ''SRAI'', ''LUI'', ''LW'', ''LD'', ''SW'', ''SD'', ''BEQ'', ''BNE'', ''JAL'', ''JALR'']"

definition reads_narrow :: "'m platform \<Rightarrow> 'm cpu \<Rightarrow> bool" where
  "reads_narrow P c \<longleftrightarrow> (\<forall>a. low32 (fst (load_access P a 4 3 0 c)) = fst (load_access P a 4 3 0 c))"

definition I_row :: "'m platform \<Rightarrow> 'm instruction \<Rightarrow> key \<Rightarrow> bool" where
  "I_row P i k \<longleftrightarrow> (\<forall>p c. key_match k (buf32 p) \<longrightarrow> R c 0 = 0 \<longrightarrow> iname i \<in> set micro_names
     \<longrightarrow> (iname i = ''LW'' \<longrightarrow> reads_narrow P c)
     \<longrightarrow> iexec i P p c = (micro_op (rv_cases False (buf32 p)) 4 P c, 4))"

lemma I_rowI:
  assumes "\<And>p c. buf32 p AND m = oc \<Longrightarrow> R c 0 = 0 \<Longrightarrow> name \<in> set micro_names
      \<Longrightarrow> (if name = ''LW'' then reads_narrow P c else True)
      \<Longrightarrow> f P p c = (micro_op (rv_cases False (buf32 p)) 4 P c, 4)"
  shows "I_row P (RiscvInstruction name bits f) (m, oc, h, [])"
  using assms by (simp add: I_row_def RiscvInstruction_def)

lemma I_imm_zero: "I_imm u = 0 \<longleftrightarrow> I_simm u = 0"
proof
  assume "I_imm u = 0"
  then show "I_simm u = 0" by (simp add: I_simm_def sext12_def)
next
  have "ucast (I_imm u) = take_bit 12 (I_simm u)"
    by (rule u64_eq_bits, simp add: I_simm_def I_imm_def sext12_def EXT_SIGN_defs upt_64 bit_getf bit_simps
        numeral_2_eq_2 [symmetric] Let_def del: bit_0 push_bit_Suc take_bit_Suc_0)
  moreover assume "I_simm u = 0"
  ultimately have "unat (ucast (I_imm u) :: u64) = 0" by simp
  then have "unat (I_imm u) = 0" by (simp add: unat_widen)
  then show "I_imm u = 0" by (simp add: unat_eq_0)
qed

lemma I_shamt: "unat (I_imm u AND 0x3f) = unat (I_simm u AND 0x3F)"
proof -
  have "ucast (I_imm u AND 0x3f) = (I_simm u AND 0x3F :: u64)"
    by (rule u64_eq_bits, simp add: I_simm_def I_imm_def sext12_def EXT_SIGN_defs upt_64 bit_getf bit_simps
        numeral_2_eq_2 [symmetric] Let_def del: bit_0 push_bit_Suc take_bit_Suc_0)
  moreover have "unat (ucast (I_imm u AND 0x3f) :: u64) = unat (I_imm u AND 0x3f)"
    by (rule unat_widen) simp
  ultimately show ?thesis by simp
qed

lemma reads_narrow: "reads_narrow P c \<Longrightarrow> low32 (fst (load_access P a 4 3 0 c)) = fst (load_access P a 4 3 0 c)"
  by (simp add: reads_narrow_def)

lemma I_rows:
  assumes "stack_garbage P = 0"
  shows "list_all2 (I_row P) addIsaUserRV64I keys_I"
  unfolding addIsaUserRV64I_def keys_I_def
  by (intro list.rel_intros;
      (rule I_rowI, simp add: micro_names_def)?;
      (unfold exec_defs Let_def,
       simp add: mask_fields rv_case_defs Let_def,
       simp add: micro_op_def Let_def rv_ops_defs rv_fields assms I_imm_zero I_shamt waddr_zero case_prod_beta
         reads_narrow unat_is_1)?)

subsection \<open>What the decoder of the CPU finds\<close>

lemma decoded:
  assumes "distinct exts" and "fst (decodeInstruction (listInstr exts) c) = Some i"
  shows "i \<in> set (supported exts)" "parse i (buf32 (cacheline c))"
  using assms by (simp_all add: decodeInstruction_def lookup_instr_iff)

lemma is16_ext_C: "i \<in> set (supported exts) \<Longrightarrow> is16 i \<Longrightarrow> i \<in> set addIsaExtensionC"
  using not_is16 [of i] by (auto simp: supported_def addIsa_def split: if_splits)

lemma base_has_low_bits:
  assumes "i \<in> set (supported exts)" and "parse i w" and "w AND 3 = 3"
  shows "\<not> is16 i"
  using assms compressed_low_bits [of i w] is16_ext_C by blast

lemma row_applies:
  assumes "list_all2 (Q :: 'm instruction \<Rightarrow> key \<Rightarrow> bool) is' ks" and "list_all2 keyed is' ks" and "i \<in> set is'"
    and "parse i w"
  shows "\<exists>k. key_match k w \<and> Q i k"
proof -
  have "list_all2 (\<lambda>i k. Q i k \<and> keyed i k) is' ks"
    using assms(1,2) by (simp add: list_all2_conv_all_nth)
  from list_all2_in_set [OF this assms(3)] obtain k where "Q i k" "keyed i k" by blast
  then have "key_match k w \<and> Q i k"
    using assms(4) unfolding keyed_def by blast
  then show ?thesis by blast
qed

subsection \<open>The properties\<close>

text \<open>
  C17: The decoder \<open>DecoderRv\<close> of the RTL core and the decoder of the functional simulator
  agree on every 32-bit instruction.  If the simulator finds an instruction, the RTL decoder
  sets exactly the bit of the instruction of that name in \<open>instr_vec\<close>, the format bit, and
  register numbers and immediate that the simulator reads from the word.  If the simulator
  finds none, the RTL decoder reports an unimplemented instruction, unless it takes the
  word for one of SLLI, SLLIW, SLLW or WFI.
\<close>

theorem rv_decoder_exact:
  fixes c :: "'m cpu"
  assumes "distinct exts" and "CHR ''A'' \<in> set exts" and "CHR ''M'' \<in> set exts"
    and "running x" and "i_f_instr x = buf32 (cacheline c)" and "i_f_instr x AND 3 = 3"
  shows "case fst (decodeInstruction (listInstr exts) c) of
      Some i \<Rightarrow> \<exists>n t. (iname i, n, t) \<in> set rtl_table
        \<and> decodes_as (signals (DecoderRv_registers ar False x)) n t (i_f_instr x)
    | None \<Rightarrow> d_instr_unimplemented (DecoderRv_registers ar False x)
        \<or> rtl_only (signals (DecoderRv_registers ar False x))"
proof (cases "fst (decodeInstruction (listInstr exts) c)")
  case (Some i)
  note i = decoded [OF assms(1) Some]
  then have "\<not> is16 i"
    using base_has_low_bits assms(5,6) by metis
  with rv_decodes [OF i(1) _ i(2)] assms(4,5) Some show ?thesis
    by (simp add: signals_rv)
next
  case None
  then have no: "\<not> parse i (i_f_instr x)" if "i \<in> set (supported exts)" for i :: "'m instruction"
    using that assms(1,5) by (simp add: decodeInstruction_def lookup_instr_None)
  have "v_error (rv_cases False (i_f_instr x)) \<or> rtl_only (rv_cases False (i_f_instr x))"
  proof (rule ccontr)
    assume "\<not> ?thesis"
    then have "hits (i_f_instr x)" using accepts [of "i_f_instr x"] low_bits assms(6) by metis
    then show False using hits_parse [OF _ assms(2,3)] no by blast
  qed
  moreover have "d_instr_unimplemented r = v_error (signals r)" for r
    by (simp add: signals_def)
  ultimately show ?thesis
    using None assms(4) by (simp add: signals_rv)
qed

definition stage_in :: "u32 \<Rightarrow> dec_in" where
  "stage_in w = \<lparr>i_nrst = True, i_flush_pipeline = False, i_progbuf_ena = False, i_f_pc = 0x10000,
     i_f_instr = w, i_instr_load_fault = False, i_instr_page_fault_x = False\<rparr>"

lemma running_stage_in [simp]: "running (stage_in w)" "i_f_instr (stage_in w) = w"
  by (simp_all add: running_def stage_in_def)

theorem rv_decoder_exact_witness:
  "let x = stage_in 0x00500093; d = signals (DecoderRv_registers False False x)
   in \<not> v_error d \<and> vb_dec d = one_hot Instr_ADDI \<and> vb_waddr d = 1 \<and> vb_imm d = 5"
proof -
  let ?c = "(river_cpu (\<lambda>_. 0))\<lparr>cacheline := 0x00500093\<rparr>"
  let ?d = "signals (DecoderRv_registers False False (stage_in 0x00500093))"
  let ?i = "RiscvInstruction ''ADDI'' ''?????????????????000?????0010011'' ADDI_exec
    :: (nat \<Rightarrow> memdev) instruction"
  have "?i \<in> set (supported ''MAC'')"
    by (simp add: supported_def addIsaUserRV64I_def)
  moreover have "parse ?i 0x00500093"
    by (simp add: parse_def RiscvInstruction_def pattern_horner horner_def)
  ultimately have "fst (decodeInstruction (listInstr ''MAC'') ?c) = Some ?i"
    by (simp add: decodeInstruction_def lookup_instr_iff)
  then obtain n t where nt: "(''ADDI'', n, t) \<in> set rtl_table" "decodes_as ?d n t 0x00500093"
    using rv_decoder_exact [of "''MAC''" "stage_in 0x00500093" ?c False]
    by (auto simp: RiscvInstruction_def)
  then have n: "n = Instr_ADDI" "t = Some ISA_I_type"
    by (simp_all add: rtl_table_def rtl_I_def rtl_Priv_def rtl_A_def rtl_M_def)
  then have "unat (vb_waddr ?d) = unat (I_rd 0x00500093)" "vb_imm ?d = I_simm 0x00500093"
    using nt(2) by (simp_all add: decodes_as_def operands_agree_def)
  moreover have "unat (I_rd 0x00500093) = 1" "I_simm 0x00500093 = 5"
    by (simp_all add: I_rd_def I_simm_def I_imm_def sext12_def getf_numeral)
  ultimately show ?thesis
    using nt(2) n by (simp add: decodes_as_def Let_def unat_is_1)
qed

text \<open>
  C18: A compressed instruction of the functional simulator does exactly what the signals mean
  into which the RTL decoder \<open>DecoderRvc\<close> turns its sixteen bits: the micro-operation of a
  base instruction on those registers and that immediate, with length 2, in a CPU whose x0 is
  zero.  (Excepted, by \<open>C_jump_ok\<close>, are jumps to odd addresses and C.JALR through ra, where the
  two differ; the uninitialised payload that a faulting load reads is taken as zero.)
\<close>

theorem compressed_is_micro_op:
  fixes c :: "'m cpu"
  assumes "distinct exts" and "fst (decodeInstruction (listInstr exts) c) = Some i" and "is16 i"
    and "running x" and "(ucast (i_f_instr x) :: u16) = buf16 (cacheline c)"
    and "R c 0 = 0" and "stack_garbage P = 0" and "C_jump_ok i (buf16 (cacheline c)) c"
  shows "iexec i P (cacheline c) c = (micro_op (signals (DecoderRvc_registers ar x)) 2 P c, 2)"
proof -
  note i = decoded [OF assms(1,2)]
  obtain k where "key_match k (buf32 (cacheline c))" "C_row P i k"
    using row_applies [OF C_rows [OF assms(7)] keyed_C is16_ext_C [OF i(1) assms(3)] i(2)] by blast
  then show ?thesis
    using assms(4-6,8) by (simp add: C_row_def signals_rvc)
qed

text \<open>
  So does a base instruction of the 22 kinds that compressed ones stand for, with the
  signals of the RTL decoder \<open>DecoderRv\<close> and length 4 (LW on a bus that hands back four
  bytes).  Together with the previous property: the simulator's C extension is the
  expansion that the RTL core implements.
\<close>

theorem base_is_micro_op:
  fixes c :: "'m cpu"
  assumes "i \<in> set addIsaUserRV64I" and "parse i (buf32 (cacheline c))" and "iname i \<in> set micro_names"
    and "running x" and "i_f_instr x = buf32 (cacheline c)"
    and "R c 0 = 0" and "stack_garbage P = 0" and "iname i = ''LW'' \<longrightarrow> reads_narrow P c"
  shows "iexec i P (cacheline c) c = (micro_op (signals (DecoderRv_registers ar False x)) 4 P c, 4)"
proof -
  obtain k where "key_match k (buf32 (cacheline c))" "I_row P i k"
    using row_applies [OF I_rows [OF assms(7)] keyed_I assms(1,2)] by blast
  then show ?thesis
    using assms(3-6,8) by (simp add: I_row_def signals_rv)
qed

text \<open>
  C.JALR through ra: the simulator has overwritten ra with the link address before it
  reads the target and goes to the next instruction, while the signals of the RTL decoder
  mean a jump to the old value of ra.
\<close>

theorem C_JALR_differs:
  "getNPC (fst (C_JALR_exec P 0x9082 c)) = getPC c + 2
    \<and> getNPC (micro_op (signals (DecoderRvc_registers ar (stage_in 0x9082))) 2 P c) = R c 1 AND NOT 1"
proof -
  have "CR_rdrs1 0x9082 = 1"
    by (simp add: CR_rdrs1_def getf_def)
  moreover have "getNPC (pushStackTrace P c) = getNPC c" for c :: "'a cpu"
    by (simp add: pushStackTrace_def getNPC_def Let_def)
  moreover have "getNPC (setBranch v c) = v" for v and c :: "'a cpu"
    by (simp add: setBranch_def setNPC_def getNPC_def)
  moreover have op1: "rvc_opcode1 0x9082 = 0x12"
    by code_simp
  moreover have op: "bit (0x9082 :: u16) 12"
      "(getf 2 5 (0x9082 :: u16) :: u16) = 0" "(getf 7 5 (0x9082 :: u16) :: u16) = 1"
      "(getf 7 5 (0x9082 :: u16) :: u6) = 1"
    by (simp_all add: getf_def)
  moreover have "rvc_cases 0x9082 = (dec Instr_JALR (isa ISA_I_type dec_init))\<lparr>vb_radr1 := 1, vb_waddr := 1\<rparr>"
    unfolding rvc_cases_def Let_def op1 rvc_JR_MV_EBREAK_JALR_ADD_def by (simp add: op)
  ultimately show ?thesis
    by (simp add: C_JALR_exec_def signals_rvc rvc_defs micro_op_def Let_def setReg_def)
qed

theorem compressed_is_micro_op_witness:
  "let c = (river_cpu (\<lambda>i. of_nat i))\<lparr>cacheline := 0x952e\<rparr>;
       i = RiscvInstruction16 ''C_ADD'' ''????????????????1001??????????10'' cond_rd_rs2 C_ADD_exec
   in iexec i river 0x952e c = (micro_op (signals (DecoderRvc_registers False (stage_in 0x952e))) 2 river c, 2)"
proof -
  let ?c = "(river_cpu (\<lambda>i. of_nat i))\<lparr>cacheline := 0x952e\<rparr>"
  let ?i = "RiscvInstruction16 ''C_ADD'' ''????????????????1001??????????10'' cond_rd_rs2 C_ADD_exec
    :: (nat \<Rightarrow> memdev) instruction"
  have "?i \<in> set (supported ''MAC'')"
    by (simp add: supported_def addIsa_def addIsaExtensionC_def)
  moreover have "parse ?i 0x952e"
    by (simp add: parse_def RiscvInstruction16_def RiscvInstruction_def pattern_horner horner_def cond_rd_rs2_def
        CR_rdrs1_def CR_rs2_def getf_def)
  ultimately have "fst (decodeInstruction (listInstr ''MAC'') ?c) = Some ?i"
    by (simp add: decodeInstruction_def lookup_instr_iff)
  from compressed_is_micro_op [OF _ this, of "stage_in 0x952e" river False] show ?thesis
    by (simp add: RiscvInstruction16_def RiscvInstruction_def C_jump_ok_def Let_def)
qed

theorem base_is_micro_op_witness:
  "let c = (river_cpu (\<lambda>i. of_nat i))\<lparr>cacheline := 0x00500093\<rparr>;
       i = RiscvInstruction ''ADDI'' ''?????????????????000?????0010011'' ADDI_exec
   in iexec i river 0x00500093 c
      = (micro_op (signals (DecoderRv_registers False False (stage_in 0x00500093))) 4 river c, 4)"
proof -
  let ?c = "(river_cpu (\<lambda>i. of_nat i))\<lparr>cacheline := 0x00500093\<rparr>"
  let ?i = "RiscvInstruction ''ADDI'' ''?????????????????000?????0010011'' ADDI_exec
    :: (nat \<Rightarrow> memdev) instruction"
  have "?i \<in> set addIsaUserRV64I"
    by (simp add: addIsaUserRV64I_def)
  moreover have "parse ?i (buf32 (cacheline ?c))"
    by (simp add: parse_def RiscvInstruction_def pattern_horner horner_def)
  ultimately show ?thesis
    using base_is_micro_op [of ?i ?c "stage_in 0x00500093" river False]
    by (simp add: RiscvInstruction_def micro_names_def Let_def)
qed

lemma parse_hits:
  assumes "i \<in> set (supported exts)" and "parse i w" and "w AND 3 = 3"
  shows "hits w"
proof -
  obtain k where k: "k \<in> set (supported_keys exts)" "keyed i k"
    using list_all2_in_set [OF supported_keyed assms(1)] by blast
  then have m: "key_match k w" using assms(2) by (simp add: keyed_def)
  then have "k \<notin> set keys_C" using compressed_key assms(3) by blast
  then have "k \<in> set keys_32"
    using k(1) by (auto simp: supported_keys_def addKeys_def keys_32_def split: if_splits)
  then show ?thesis using m by (auto simp: list_ex_iff)
qed

lemma no_shift:
  fixes w :: u32
  assumes "w AND 0x707f = 0x1013" and "w AND 0xfc000000 \<noteq> 0"
  shows "\<not> hits w"
proof -
  have f: "(getf 0 2 w :: u32) = 3" "(getf 2 5 w :: u32) = 4" "(getf 12 3 w :: u32) = 1"
    using assms(1) by (simp_all add: mask_fields)
  have "(getf 26 6 w :: u32) \<noteq> 0"
  proof
    assume "(getf 26 6 w :: u32) = 0"
    then have "w AND 0xfc00707f = 0x1013" using f by (simp add: mask_fields)
    then show False using and_sub_mask [of "0xfc000000" "0xfc00707f" w "0x1013"] assms(2) by simp
  qed
  moreover have "w \<notin> {0x00200073, 0x10200073, 0x20200073, 0x30200073, 0x73, 0x00100073}"
    using f(2) by (auto simp: getf_numeral)
  ultimately show ?thesis by (simp add: accepts_simps f)
qed

text \<open>
  Where the decoders differ.  The RTL decoder takes every word with the opcode and
  funct3 of SLLI for SLLI, whatever its upper six bits; the simulator finds no instruction
  unless they are zero, and raises an illegal instruction exception.
\<close>

theorem rtl_ignores_funct6:
  fixes c :: "'m cpu"
  assumes "distinct exts" and "running x" and "i_f_instr x = buf32 (cacheline c)"
    and "i_f_instr x AND 0x707f = 0x1013" and "i_f_instr x AND 0xfc000000 \<noteq> 0"
  shows "\<not> d_instr_unimplemented (DecoderRv_registers ar False x)
    \<and> d_instr_vec (DecoderRv_registers ar False x) = one_hot Instr_SLLI
    \<and> fst (decodeInstruction (listInstr exts) c) = None"
proof -
  let ?w = "i_f_instr x"
  let ?r = "DecoderRv_registers ar False x"
  have r: "d_instr_unimplemented ?r = v_error (signals ?r)" "d_instr_vec ?r = vb_dec (signals ?r)"
    by (simp_all add: signals_def)
  have rtl: "\<not> v_error (rv_cases False ?w) \<and> vb_dec (rv_cases False ?w) = one_hot Instr_SLLI"
    using assms(4) by (simp add: mask_fields rv_case_defs Let_def, simp add: rv_ops_defs one_hot_def)
  have "?w AND 3 = 3"
    using and_sub_mask [OF _ assms(4), of 3] by simp
  have "fst (decodeInstruction (listInstr exts) c) \<noteq> Some i" for i
    using \<open>?w AND 3 = 3\<close> parse_hits [of i exts ?w] decoded [OF assms(1), of c i] no_shift [OF assms(4,5)] assms(3) by auto
  then have "fst (decodeInstruction (listInstr exts) c) = None"
    by (simp add: not_Some_eq [symmetric] del: not_Some_eq)
  then show ?thesis
    using rtl assms(2) r by (simp add: signals_rv)
qed

theorem rtl_ignores_funct6_witness:
  "fst (decodeInstruction (listInstr ''MAC'') ((river_cpu (\<lambda>_. 0))\<lparr>cacheline := 0x04001013\<rparr>)) = None
    \<and> d_instr_vec (DecoderRv_registers False False (stage_in 0x04001013)) = one_hot Instr_SLLI"
  using rtl_ignores_funct6 [of "''MAC''" "stage_in 0x04001013"
      "(river_cpu (\<lambda>_. 0))\<lparr>cacheline := 0x04001013\<rparr>" False] by simp

end
