(* ===== verification/Rtl_Retire.thy ===== *)
theory Rtl_Retire
  imports Rtl_Execute Rtl_Agree
begin

section \<open>What the execution stage of the RTL core does with an instruction\<close>

text \<open>
  One clock cycle of \<open>InstrExecute\<close> per branch of its state machine; the results of the
  single-cycle instructions against the functional CPU.
\<close>

subsection \<open>Vectors of bits\<close>

lemma any_one_hot [simp]: "any (one_hot n) is \<longleftrightarrow> n \<in> set is"
  by (auto simp: any_def one_hot_def list_ex_iff)

lemma bit_bits_of:
  "bit (bits_of bs :: 'a::len word) n \<longleftrightarrow> n < LENGTH('a) \<and> n < length bs \<and> bs ! n"
  by (simp add: bits_of_def bit_horner_sum_bit_word_iff)

subsection \<open>A single-cycle instruction\<close>

definition single_cycle :: "exec_in \<Rightarrow> bool" where
  "single_cycle x \<longleftrightarrow> \<not> x_amo x \<and> \<not> x_memop_load x \<and> \<not> x_memop_store x"

text \<open>
  The stage takes the decoded instruction in this cycle: it is idle, the memory access stage
  took the last request, the decoder shows the expected address, the sources are free,
  and neither the debugger nor an exception or interrupt is in the way.
\<close>

definition accepting :: "exec_in \<Rightarrow> exec_regs \<Rightarrow> bool" where
  "accepting x r \<longleftrightarrow>
     (let m = input_mux x r; p = operands x r m
      in e_state r = State_Idle \<and> \<not> (e_memop_valid r \<and> \<not> x_memop_ready x) \<and> d_valid x r
         \<and> \<not> hazard x r m p \<and> \<not> x_dbg_mem_req_valid x \<and> \<not> csr_cmd_ena x r m p)"

text \<open>The value that the selected unit computes.\<close>

definition unit_result :: "bool \<Rightarrow> exec_mux \<Rightarrow> exec_ops \<Rightarrow> u64" where
  "unit_result fpu_ena m p =
     (let wv = mx_ivec m; a = vb_rdata1 p; b = vb_rdata2 p; sel = select_units fpu_ena m (pc_branch wv a b)
      in if sel Res_Reg2 then b else if sel Res_Npc then prog_npc m p
         else if sel Res_Ra then mx_pc m + opcode_len m
         else if sel Res_Alu then AluLogic_value (alu_mode wv) a b
         else if sel Res_AddSub then IntAddSub_value (addsub_mode (mx_rv32 m) wv) a b
         else if sel Res_Shifter then Shifter_value (shifter_mode (mx_rv32 m) wv) a (rng b 5 0)
         else 0)"

lemma exec_faults_simps [simp]:
  "e_state (exec_faults x v) = e_state v" "e_reg_write (exec_faults x v) = e_reg_write v"
  "e_npc (exec_faults x v) = e_npc v" "e_valid (exec_faults x v) = e_valid v"
  "e_tagcnt (exec_faults x v) = e_tagcnt v" "e_reg_waddr (exec_faults x v) = e_reg_waddr v"
  "e_waddr (exec_faults x v) = e_waddr v" "e_pc (exec_faults x v) = e_pc v"
  "e_select (exec_faults x v) = e_select v" "e_csrstate (exec_faults x v) = e_csrstate v"
  "e_amostate (exec_faults x v) = e_amostate v" "e_res_csr (exec_faults x v) = e_res_csr v"
  "e_memop_type (exec_faults x v) = e_memop_type v" "e_stepdone (exec_faults x v) = e_stepdone v"
  by (simp_all add: exec_faults_def Let_def)

lemma single_cycle_switch:
  assumes "accepting x (st_ex s)" and "single_cycle x"
    and "m = input_mux x (st_ex s)" and "p = operands x (st_ex s) m"
    and "sel = select_units fpu m (pc_branch (mx_ivec m) (vb_rdata1 p) (vb_rdata2 p))"
    and "\<not> sel Res_IMul" "\<not> sel Res_IDiv" "\<not> sel Res_FPU"
  shows "exec_switch fpu x s m p =
    (let a = exec_start x (st_ex s) m p
     in a\<lparr>ac_latch_input := True, ac_reg_ena := x_d_waddr x \<noteq> 0,
          ac_v := (ac_v a)\<lparr>e_stepdone := x_step x \<and> \<not> x_dbg_progbuf_ena x, e_valid := True\<rparr>\<rparr>)"
  using assms(1,2,6-) unfolding accepting_def Let_def assms(3-5) [symmetric]
  by (auto simp: exec_switch_def exec_Idle_def single_cycle_def Let_def simp flip: assms(5))

lemma exec_start_simps [simp]:
  "ac_latch_input (exec_start x r m p) = False" "ac_memop_ena (exec_start x r m p) = False"
  "ac_reg_ena (exec_start x r m p) = False" "ac_reg_waddr (exec_start x r m p) = x_d_waddr x"
  "ac_memop_type (exec_start x r m p) = mx_memop_type m"
  "ac_v (exec_start x r m p) = exec_faults x (r\<lparr>e_valid := False, e_call := False, e_ret := False,
     e_reg_write := False, e_rdata1_amo := amo_operand x r m\<rparr>)"
  by (simp_all add: exec_start_def)

text \<open>After the clock edge the result stands at the write port.\<close>

lemma single_cycle_edge:
  assumes "accepting x (st_ex s)" and "single_cycle x"
    and m: "m = input_mux x (st_ex s)" and p: "p = operands x (st_ex s) m"
    and sel: "sel = select_units fpu m (pc_branch (mx_ivec m) (vb_rdata1 p) (vb_rdata2 p))"
    and no: "\<not> sel Res_IMul" "\<not> sel Res_IDiv" "\<not> sel Res_FPU" "\<not> sel Res_Csr"
    and s': "s' = InstrExecute_registers ar fpu True x s"
  shows "e_state (st_ex s') = State_Idle" "e_valid (st_ex s')" "e_reg_write (st_ex s') \<longleftrightarrow> x_d_waddr x \<noteq> 0"
    "x_d_waddr x \<noteq> 0 \<Longrightarrow> e_reg_waddr (st_ex s') = x_d_waddr x"
    "\<not> x_dbg_progbuf_ena x \<Longrightarrow> e_npc (st_ex s') = prog_npc m p"
    "exec_res fpu x' s' = unit_result fpu m p"
proof -
  note sw = single_cycle_switch [OF assms(1,2) m p sel no(1-3)]
  have idle: "e_state (st_ex s) = State_Idle"
    using assms(1) by (simp add: accepting_def Let_def)
  have ex: "st_ex s' = exec_regs_next fpu x s"
    unfolding s' by (simp add: InstrExecute_registers_def Let_def)
  note nx = exec_regs_next_def [of fpu x s, folded m, unfolded Let_def, folded m, folded p, unfolded sw]
  show "e_state (st_ex s') = State_Idle" "e_valid (st_ex s')" "e_reg_write (st_ex s') \<longleftrightarrow> x_d_waddr x \<noteq> 0"
    "x_d_waddr x \<noteq> 0 \<Longrightarrow> e_reg_waddr (st_ex s') = x_d_waddr x"
    "\<not> x_dbg_progbuf_ena x \<Longrightarrow> e_npc (st_ex s') = prog_npc m p"
    unfolding ex nx using idle
    by (simp_all add: Let_def exec_memop_def exec_latch_def exec_write_tag_def)
  have r: "e_rdata2 (st_ex s') = vb_rdata2 p" "e_res_npc (st_ex s') = prog_npc m p"
    "e_res_ra (st_ex s') = mx_pc m + opcode_len m" "e_select (st_ex s') = sel"
    unfolding ex nx
    by (simp_all add: Let_def exec_memop_def exec_latch_def exec_write_tag_def sel)
  have u: "r_res (st_alu s') = AluLogic_value (alu_mode (mx_ivec m)) (vb_rdata1 p) (vb_rdata2 p)"
    "r_res (st_addsub s') = IntAddSub_value (addsub_mode (mx_rv32 m) (mx_ivec m)) (vb_rdata1 p) (vb_rdata2 p)"
    "r_res (st_shifter s') = Shifter_value (shifter_mode (mx_rv32 m) (mx_ivec m)) (vb_rdata1 p) (rng (vb_rdata2 p) 5 0)"
    unfolding s' InstrExecute_registers_def Let_def m [symmetric] p [symmetric]
    by (simp_all add: AluLogic_registers_def AluLogic_comb_def IntAddSub_registers_def IntAddSub_comb_def
        Shifter_registers_def Shifter_comb_def)
  show "exec_res fpu x' s' = unit_result fpu m p"
    unfolding exec_res_def Let_def unit_result_def sel [symmetric] r u using no by simp
qed

subsection \<open>The units on a vector of mode bits\<close>

lemma IntAddSub_64:
  "IntAddSub_value (bits_of [False, u, ad, su, le, mi, ma]) a b =
     (let less = (if u then a < b else bit (a - b) 63)
      in if ad then a + b else if su then a - b else if le then (if less then 1 else 0)
         else if mi then (if less then a else b) else if ma then (if less then b else a) else 0)"
  by (simp add: IntAddSub_value_def IntAddSub_operand_64 bit_bits_of Let_def nth_Cons')

lemma ucast_scast_32: "(ucast (scast x :: u64) :: u32) = x" for x :: u32
  by (rule bit_word_eqI) (auto simp: bit_scast_32 bit_simps)

lemma IntAddSub_32:
  "IntAddSub_value (bits_of [True, u, True, su, le, mi, ma]) a b = scast (ucast (a + b) :: u32)"
  "IntAddSub_value (bits_of [True, u, False, True, le, mi, ma]) a b = scast (ucast (a - b) :: u32)"
  by (simp_all add: IntAddSub_value_def IntAddSub_operand_32 bit_bits_of Let_def nth_Cons' resign low_word_arith ucast_scast_32)

lemma AluLogic_bits: "AluLogic_value (bits_of [x, y, z]) a b = (if y then a OR b else if z then a XOR b else a AND b)"
  by (simp add: AluLogic_value_def bit_bits_of nth_Cons')

lemma Shifter_bits:
  "Shifter_value (bits_of [False, True, r, s]) a n = push_bit (unat n) a"
  "Shifter_value (bits_of [False, False, True, s]) a n = drop_bit (unat n) a"
  "Shifter_value (bits_of [False, False, False, s]) a n = signed_drop_bit (unat n) a"
  "Shifter_value (bits_of [True, True, r, s]) a n = scast (ucast (push_bit (amount32 n) a) :: u32)"
  "Shifter_value (bits_of [True, False, True, s]) a n = scast (drop_bit (amount32 n) (ucast a :: u32))"
  "Shifter_value (bits_of [True, False, False, s]) a n = scast (signed_drop_bit (amount32 n) (ucast a :: u32))"
  by (simp_all add: Shifter_sll Shifter_srl Shifter_sra Shifter_sllw Shifter_srlw Shifter_sraw bit_bits_of nth_Cons')

lemma shift_amounts:
  "unat (getf 0 6 b :: u6) = unat (b AND 0x3F)" "amount32 (getf 0 6 b) = unat (b AND 0x1F)" for b :: u64
proof -
  have m: "(0x3F :: u64) = mask 6" "(0x1F :: u64) = mask 5" by (simp_all add: mask_eq_exp_minus_1)
  show u: "unat (getf 0 6 b :: u6) = unat (b AND 0x3F)"
    unfolding m by (simp add: unat_getf flip: take_bit_eq_mask) (simp add: unsigned_take_bit_eq take_bit_eq_mod unat_mod)
  have "unat b mod 64 mod 32 = unat b mod 32" by (simp add: mod_mod_cancel)
  then show "amount32 (getf 0 6 b) = unat (b AND 0x1F)"
    unfolding amount32_def u m by (simp flip: take_bit_eq_mask) (simp add: unsigned_take_bit_eq take_bit_eq_mod unat_mod)
qed

lemma I_shamt32: "unat (I_imm u AND 0x1f) = unat (I_simm u AND 0x1F)"
proof -
  have "ucast (I_imm u AND 0x1f) = (I_simm u AND 0x1F :: u64)"
    by (rule u64_eq_bits, simp add: I_simm_def I_imm_def sext12_def EXT_SIGN_defs upt_64 bit_getf bit_simps
        numeral_2_eq_2 [symmetric] Let_def del: bit_0 push_bit_Suc take_bit_Suc_0)
  moreover have "unat (ucast (I_imm u AND 0x1f) :: u64) = unat (I_imm u AND 0x1f)"
    by (rule unat_widen) simp
  ultimately show ?thesis by simp
qed

lemma shamt_bit5: "(getf 25 7 u :: u32) = n \<Longrightarrow> drop_bit 5 (I_imm u) AND 1 = 0 \<longleftrightarrow> \<not> bit n 0"
proof -
  assume n: "(getf 25 7 u :: u32) = n"
  have "truth (drop_bit 5 (I_imm u) AND 1) \<longleftrightarrow> bit (I_imm u) 5"
    by (simp add: and_one_eq bit_iff_odd_drop_bit odd_iff_mod_2_eq_one)
  also have "\<dots> \<longleftrightarrow> bit n 0"
    unfolding n [symmetric] by (simp add: I_imm_def bit_getf)
  finally show ?thesis by blast
qed

lemma clear_bit0: "setf 0 (Suc 0) 0 (a + b) = (b + a) AND NOT 1" for a b :: u64
  by (rule bit_word_eqI) (auto simp: bit_setf bit_simps add.commute)

subsection \<open>The instructions of RV64I\<close>

text \<open>What the multiplexer shows when the decoder's signals \<open>d\<close> stand at the inputs.\<close>

definition shows_signals :: "dec_vars \<Rightarrow> u64 \<Rightarrow> exec_mux \<Rightarrow> bool" where
  "shows_signals d pc m \<longleftrightarrow>
     mx_ivec m = vb_dec d \<and> mx_isa_type m = vb_isa_type d \<and> mx_imm m = vb_imm d \<and> mx_pc m = pc
     \<and> \<not> mx_compressed m \<and> mx_rv32 m = rv32_of (vb_dec d) \<and> mx_f64 m = f64_of (vb_dec d)
     \<and> bit (mx_memop_type m) MemopType_Store = memop_store_of (vb_dec d)"

definition next_pc :: "'m cpu \<Rightarrow> u64" where
  "next_pc c = (if branch c then getNPC c else getPC c + 4)"

definition single_names :: "string list" where
  "single_names = [''ADD'', ''ADDI'', ''ADDIW'', ''ADDW'', ''AND'', ''ANDI'', ''AUIPC'', ''BEQ'', ''BGE'', ''BGEU'',
     ''BLT'', ''BLTU'', ''BNE'', ''JAL'', ''JALR'', ''LUI'', ''OR'', ''ORI'', ''SLLI'', ''SLT'', ''SLTI'', ''SLTU'',
     ''SLTIU'', ''SLL'', ''SLLW'', ''SLLIW'', ''SRA'', ''SRAW'', ''SRAI'', ''SRAIW'', ''SRL'', ''SRLI'', ''SRLIW'',
     ''SRLW'', ''SUB'', ''SUBW'', ''XOR'', ''XORI'']"

text \<open>The comparisons by the sign of a difference need a difference of 64 bits.\<close>

definition signed_names :: "string list" where
  "signed_names = [''BGE'', ''BLT'', ''SLT'', ''SLTI'']"

definition fits_64 :: "u64 \<Rightarrow> u64 \<Rightarrow> bool" where
  "fits_64 a b \<longleftrightarrow> - (2 ^ 63) \<le> sint a - sint b \<and> sint a - sint b < 2 ^ 63"

lemma fits_sign: "fits_64 a b \<Longrightarrow> bit (a - b) 63 \<longleftrightarrow> a <s b"
  using sign_of_difference [of a b] by (auto simp: fits_64_def word_sless_alt)

lemma sle_not_sless: "b <=s a \<longleftrightarrow> \<not> a <s b" for a b :: u64
  by (auto simp: word_sless_alt word_sle_eq)

definition E_row :: "bool \<Rightarrow> 'm platform \<Rightarrow> 'm instruction \<Rightarrow> key \<Rightarrow> bool" where
  "E_row fpu P i k \<longleftrightarrow> (\<forall>w c x r m. key_match k (buf32 w) \<longrightarrow> iname i \<in> set single_names \<longrightarrow> \<not> branch c
     \<longrightarrow> e_state r = State_Idle \<longrightarrow> shows_signals (rv_cases False (buf32 w)) (getPC c) m
     \<longrightarrow> x_rdata1 x = R c (unat (vb_radr1 (rv_cases False (buf32 w))))
     \<longrightarrow> x_rdata2 x = R c (unat (vb_radr2 (rv_cases False (buf32 w))))
     \<longrightarrow> (iname i \<in> set signed_names \<longrightarrow> fits_64 (vb_rdata1 (operands x r m)) (vb_rdata2 (operands x r m)))
     \<longrightarrow> (let p = operands x r m; rd = unat (vb_waddr (rv_cases False (buf32 w))); c' = fst (iexec i P w c)
          in R c' = (if rd = 0 then R c else (R c)(rd := unit_result fpu m p)) \<and> next_pc c' = prog_npc m p
            \<and> (let s = select_units fpu m (pc_branch (mx_ivec m) (vb_rdata1 p) (vb_rdata2 p))
               in \<not> s Res_IMul \<and> \<not> s Res_IDiv \<and> \<not> s Res_FPU \<and> \<not> s Res_Csr)))"

lemma one_hot_fold: "(\<lambda>_. False)(n := True) = one_hot n"
  by (simp add: one_hot_def)

lemma one_hot_apply: "one_hot n k \<longleftrightarrow> k = n"
  by (simp add: one_hot_def)

lemma E_rowI:
  assumes "\<And>w c x r m. buf32 w AND msk = oc \<Longrightarrow> name \<in> set single_names \<Longrightarrow> \<not> branch c
      \<Longrightarrow> e_state r = State_Idle \<Longrightarrow> shows_signals (rv_cases False (buf32 w)) (getPC c) m
      \<Longrightarrow> x_rdata1 x = R c (unat (vb_radr1 (rv_cases False (buf32 w))))
      \<Longrightarrow> x_rdata2 x = R c (unat (vb_radr2 (rv_cases False (buf32 w))))
      \<Longrightarrow> (if name \<in> set signed_names then fits_64 (vb_rdata1 (operands x r m)) (vb_rdata2 (operands x r m)) else True)
      \<Longrightarrow> (let p = operands x r m; rd = unat (vb_waddr (rv_cases False (buf32 w))); c' = fst (f P w c)
          in R c' = (if rd = 0 then R c else (R c)(rd := unit_result fpu m p)) \<and> next_pc c' = prog_npc m p
            \<and> (let s = select_units fpu m (pc_branch (mx_ivec m) (vb_rdata1 p) (vb_rdata2 p))
               in \<not> s Res_IMul \<and> \<not> s Res_IDiv \<and> \<not> s Res_FPU \<and> \<not> s Res_Csr))"
  shows "E_row fpu P (RiscvInstruction name bits f) (msk, oc, h, [])"
  using assms by (simp add: E_row_def RiscvInstruction_def)

lemma select_units_at:
  "select_units fpu m br 1 \<longleftrightarrow> bit (mx_memop_type m) MemopType_Store \<or> mx_ivec m Instr_LUI"
  "\<not> select_units fpu m br 2"
  "select_units fpu m br 3 \<longleftrightarrow> br \<or> any (mx_ivec m) ([Instr_JAL, Instr_JALR] @ returns)"
  "select_units fpu m br 4 \<longleftrightarrow> any (mx_ivec m) csr_instrs"
  "select_units fpu m br 5 \<longleftrightarrow> any (mx_ivec m) [Instr_AND, Instr_ANDI, Instr_OR, Instr_ORI, Instr_XOR, Instr_XORI,
     Instr_AMOOR_D, Instr_AMOOR_W, Instr_AMOAND_D, Instr_AMOAND_W, Instr_AMOXOR_D, Instr_AMOXOR_W]"
  "select_units fpu m br 6 \<longleftrightarrow> any (mx_ivec m) [Instr_ADD, Instr_ADDI, Instr_AUIPC, Instr_ADDW, Instr_ADDIW,
     Instr_SUB, Instr_SUBW, Instr_SLT, Instr_SLTI, Instr_SLTU, Instr_SLTIU, Instr_AMOADD_D, Instr_AMOADD_W,
     Instr_AMOMIN_D, Instr_AMOMIN_W, Instr_AMOMAX_D, Instr_AMOMAX_W, Instr_AMOMINU_D,
     Instr_AMOMINU_W, Instr_AMOMAXU_D, Instr_AMOMAXU_W, Instr_AMOSWAP_D, Instr_AMOSWAP_W]"
  "select_units fpu m br 7 \<longleftrightarrow> any (mx_ivec m) [Instr_SLL, Instr_SLLI, Instr_SLLW, Instr_SLLIW, Instr_SRL,
     Instr_SRLI, Instr_SRLW, Instr_SRLIW, Instr_SRA, Instr_SRAI, Instr_SRAW, Instr_SRAIW]"
  "select_units fpu m br 8 \<longleftrightarrow> any (mx_ivec m) [Instr_MUL, Instr_MULW, Instr_MULH, Instr_MULHSU, Instr_MULHU]"
  "select_units fpu m br 9 \<longleftrightarrow> any (mx_ivec m) [Instr_DIV, Instr_DIVU, Instr_DIVW, Instr_DIVUW, Instr_REM, Instr_REMU,
     Instr_REMW, Instr_REMUW]"
  "select_units fpu m br 10 \<longleftrightarrow> fpu \<and> mx_f64 m \<and> \<not> any (mx_ivec m) [Instr_FSD, Instr_FLD]"
  by (simp_all add: select_units_def Let_def)

lemmas E_simps = shows_signals_def rv32_of_def f64_of_def memop_store_of_def one_hot_apply operands_def Let_def
  unit_result_def select_units_at prog_npc_def pc_branch_def returns_def csr_instrs_def opcode_len_def
  alu_mode_def addsub_mode_def shifter_mode_def AluLogic_bits IntAddSub_64 IntAddSub_32 Shifter_bits
  shift_amounts clear_bit0 sext32_low32 next_pc_def fits_sign sle_not_sless low_word_arith(4)

lemma trace_R [simp]:
  "R (pushStackTrace P c) = R c" "R (popStackTrace c) = R c" "branch (pushStackTrace P c) = branch c"
  "branch (popStackTrace c) = branch c" "getNPC (pushStackTrace P c) = getNPC c" "getNPC (popStackTrace c) = getNPC c"
  by (simp_all add: pushStackTrace_def popStackTrace_def getNPC_def Let_def)

lemma branch_R [simp]:
  "R (setBranch v c) = R c" "branch (setBranch v c)" "getNPC (setBranch v c) = v"
  "branch (setReg n v c) = branch c" "getPC (setReg n v c) = getPC c"
  by (simp_all add: setBranch_def setNPC_def getNPC_def setReg_def getPC_def)

lemma setReg_R: "R (setReg n v c) = (if n = 0 then R c else (R c)(n := v))"
  by (simp add: setReg_def)

lemma numeral_nat_24: "(24 :: nat) = Suc (Suc (Suc (Suc (Suc (Suc (Suc (Suc (Suc (Suc (Suc (Suc
    (Suc (Suc (Suc (Suc (Suc (Suc (Suc (Suc (Suc (Suc (Suc (Suc 0)))))))))))))))))))))))"
  by simp

lemma E_rows_1: "list_all2 (E_row fpu P) (take 24 addIsaUserRV64I) (take 24 keys_I)"
  unfolding addIsaUserRV64I_def keys_I_def
  by (simp only: numeral_nat_24 take_Suc_Cons take_0,
      intro list.rel_intros;
      (rule E_rowI, simp add: single_names_def)?;
      (unfold exec_defs Let_def,
       simp add: mask_fields rv_case_defs Let_def signed_names_def,
       simp add: rv_ops_defs rv_fields one_hot_fold I_shamt I_shamt32 shamt_bit5,
       simp add: E_simps waddr_zero setReg_R)?)

lemma E_rows_2: "list_all2 (E_row fpu P) (drop 24 addIsaUserRV64I) (drop 24 keys_I)"
  unfolding addIsaUserRV64I_def keys_I_def
  by (simp only: numeral_nat_24 drop_Suc_Cons drop_0,
      intro list.rel_intros;
      (rule E_rowI, simp add: single_names_def)?;
      (unfold exec_defs Let_def,
       simp add: mask_fields rv_case_defs Let_def signed_names_def,
       simp add: rv_ops_defs rv_fields one_hot_fold I_shamt I_shamt32 shamt_bit5,
       simp add: E_simps waddr_zero setReg_R)?)

lemma E_rows: "list_all2 (E_row fpu P) addIsaUserRV64I keys_I"
  using list_all2_appendI [OF E_rows_1 E_rows_2] by simp

text \<open>The wires of proc.cpp from a decoder to the stage.\<close>

definition wired :: "dec_regs \<Rightarrow> exec_in \<Rightarrow> bool" where
  "wired d x \<longleftrightarrow>
     x_d_radr1 x = d_radr1 d \<and> x_d_radr2 x = d_radr2 d \<and> x_d_waddr x = d_waddr d \<and> x_d_csr_addr x = d_csr_addr d
     \<and> x_d_imm x = d_imm d \<and> x_d_pc x = d_pc d \<and> x_d_instr x = d_instr d \<and> x_d_progbuf_ena x = d_progbuf_ena d
     \<and> x_memop_store x = d_memop_store d \<and> x_memop_load x = d_memop_load d
     \<and> x_memop_sign_ext x = d_memop_sign_ext d \<and> x_memop_size x = d_memop_size d
     \<and> x_unsigned_op x = d_unsigned_op d \<and> x_rv32 x = d_rv32 d \<and> x_compressed x = d_compressed d
     \<and> x_amo x = d_amo d \<and> x_f64 x = d_f64 d \<and> x_isa_type x = d_isa_type d \<and> x_ivec x = d_instr_vec d
     \<and> x_unsup_exception x = d_instr_unimplemented d \<and> x_instr_load_fault x = d_instr_load_fault d
     \<and> x_page_fault_x x = d_instr_page_fault_x d"

lemma rv_wires:
  assumes "running y" and "d = DecoderRv_registers ar fpu y" and "v = rv_cases fpu (i_f_instr y)"
    and "(getf 0 2 (i_f_instr y) :: u32) = 3"
  shows "d_radr1 d = vb_radr1 v \<and> d_radr2 d = vb_radr2 v \<and> d_waddr d = vb_waddr v \<and> d_imm d = vb_imm v
    \<and> d_isa_type d = vb_isa_type v \<and> d_instr_vec d = vb_dec v \<and> d_pc d = i_f_pc y \<and> \<not> d_compressed d
    \<and> d_rv32 d = rv32_of (vb_dec v) \<and> d_f64 d = f64_of (vb_dec v) \<and> d_amo d = amo_of (vb_dec v)
    \<and> d_memop_store d = memop_store_of (vb_dec v) \<and> d_memop_load d = memop_load_of (vb_dec v)"
  using assms by (simp add: running_def DecoderRv_registers_def DecoderRv_comb_def Let_def numeral_2_eq_2)

lemma wired_shows:
  assumes "wired d x" and "running y" and "d = DecoderRv_registers ar fpu y" and "e_state r = State_Idle"
    and "(getf 0 2 (i_f_instr y) :: u32) = 3"
  shows "shows_signals (rv_cases fpu (i_f_instr y)) (i_f_pc y) (input_mux x r)"
  using assms(1,4) rv_wires [OF assms(2,3) refl assms(5)]
  by (simp add: wired_def shows_signals_def input_mux_def bit_bits_of)

text \<open>Every instruction of the list has four bytes and none touches memory.\<close>

definition quiet_row :: "'m instruction \<Rightarrow> key \<Rightarrow> bool" where
  "quiet_row i k \<longleftrightarrow> (\<forall>w. key_match k w \<longrightarrow> iname i \<in> set single_names \<longrightarrow>
     (let v = vb_dec (rv_cases False w) in (getf 0 2 w :: u32) = 3 \<and> \<not> amo_of v \<and> \<not> memop_load_of v \<and> \<not> memop_store_of v))"

lemma quiet_rowI:
  assumes "\<And>w. w AND msk = oc \<Longrightarrow> name \<in> set single_names \<Longrightarrow>
     (let v = vb_dec (rv_cases False w) in (getf 0 2 w :: u32) = 3 \<and> \<not> amo_of v \<and> \<not> memop_load_of v \<and> \<not> memop_store_of v)"
  shows "quiet_row (RiscvInstruction name bits f) (msk, oc, h, [])"
  using assms by (simp add: quiet_row_def RiscvInstruction_def)

lemma quiet_rows: "list_all2 quiet_row addIsaUserRV64I keys_I"
  unfolding addIsaUserRV64I_def keys_I_def
  by (intro list.rel_intros;
      (rule quiet_rowI, simp add: single_names_def)?;
      (simp add: mask_fields rv_case_defs Let_def,
       simp add: rv_ops_defs one_hot_fold,
       simp add: amo_of_def memop_load_of_def memop_store_of_def one_hot_apply)?)

text \<open>
  C21: The RTL core executes RV64I as the functional simulator does.  Take a register, upper
  immediate, jump or branch instruction, decoded by \<open>DecoderRv\<close>, in a cycle in which the
  execution stage accepts it, with the simulator's register values at the read ports.  After
  the clock edge the stage reports a valid instruction, its write port holds the register
  and the value that the simulator writes (and is off for x0), and it expects the address
  that is next in the simulator.  The signed comparisons SLT, SLTI, BLT and BGE need a
  difference of the operands that fits into 64 bits.
\<close>

theorem rtl_executes_rv64i:
  fixes c :: "'m cpu"
  assumes i: "i \<in> set addIsaUserRV64I" "parse i (buf32 (cacheline c))" "iname i \<in> set single_names"
    and y: "running y" "i_f_instr y = buf32 (cacheline c)" "i_f_pc y = getPC c"
    and x: "wired (DecoderRv_registers ar False y) x" "accepting x (st_ex s)" "\<not> x_dbg_progbuf_ena x"
      "x_rdata1 x = R c (unat (x_d_radr1 x))" "x_rdata2 x = R c (unat (x_d_radr2 x))"
    and c: "\<not> branch c"
    and less: "iname i \<in> set signed_names \<longrightarrow>
      (let p = operands x (st_ex s) (input_mux x (st_ex s)) in fits_64 (vb_rdata1 p) (vb_rdata2 p))"
  shows "let s' = InstrExecute_registers ar fpu True x s; c' = fst (iexec i P (cacheline c) c) in
    e_valid (st_ex s') \<and> e_npc (st_ex s') = next_pc c'
    \<and> R c' = (if e_reg_write (st_ex s') then (R c)(unat (e_reg_waddr (st_ex s')) := exec_res fpu x' s') else R c)"
proof -
  let ?m = "input_mux x (st_ex s)" and ?v = "rv_cases False (i_f_instr y)"
  let ?p = "operands x (st_ex s) ?m"
  let ?s' = "InstrExecute_registers ar fpu True x s" and ?c' = "fst (iexec i P (cacheline c) c)"
  have idle: "e_state (st_ex s) = State_Idle"
    using x(2) by (simp add: accepting_def Let_def)
  obtain k' where q: "key_match k' (buf32 (cacheline c))" "quiet_row i k'"
    using row_applies [OF quiet_rows keyed_I i(1,2)] by blast
  then have low: "(getf 0 2 (i_f_instr y) :: u32) = 3"
    using i(3) by (simp add: quiet_row_def y(2) Let_def)
  note w = rv_wires [OF y(1) refl refl low, where ar = ar and fpu = False]
  have d: "x_d_radr1 x = vb_radr1 ?v" "x_d_radr2 x = vb_radr2 ?v" "x_d_waddr x = vb_waddr ?v"
    "x_amo x = amo_of (vb_dec ?v)" "x_memop_load x = memop_load_of (vb_dec ?v)"
    "x_memop_store x = memop_store_of (vb_dec ?v)"
    using x(1) w by (simp_all add: wired_def)
  obtain k where k: "key_match k (buf32 (cacheline c))" "E_row fpu P i k"
    using row_applies [OF E_rows keyed_I i(1,2)] by blast
  have single: "single_cycle x"
    using q i(3) by (simp add: quiet_row_def single_cycle_def d y(2) Let_def)
  have row: "R ?c' = (if unat (vb_waddr ?v) = 0 then R c else (R c)(unat (vb_waddr ?v) := unit_result fpu ?m ?p))"
    "next_pc ?c' = prog_npc ?m ?p"
    "let s = select_units fpu ?m (pc_branch (mx_ivec ?m) (vb_rdata1 ?p) (vb_rdata2 ?p))
     in \<not> s Res_IMul \<and> \<not> s Res_IDiv \<and> \<not> s Res_FPU \<and> \<not> s Res_Csr"
    using k(2) k(1) i(3) c idle wired_shows [OF x(1) y(1) refl idle low] x(4,5) less
    unfolding E_row_def d y(2,3) Let_def by blast+
  note edge = single_cycle_edge [OF x(2) single refl refl refl _ _ _ _ refl, where fpu = fpu and ar = ar]
  show ?thesis
    using edge row x(3) by (auto simp: Let_def d unat_eq_zero)
qed

text \<open>A stage after reset, and inputs without any request besides a decoded instruction.\<close>

definition stage_reset :: exec_stage where
  "stage_reset = \<lparr>st_ex = InstrExecute_r_reset, st_alu = res_r_reset, st_addsub = res_r_reset,
     st_shifter = res_r_reset, st_mul = IntMul_r_reset, st_div = IntDiv_r_reset\<rparr>"

definition quiet_in :: "dec_regs \<Rightarrow> u64 \<Rightarrow> u64 \<Rightarrow> exec_in" where
  "quiet_in d a b =
     \<lparr>x_d_radr1 = d_radr1 d, x_d_radr2 = d_radr2 d, x_d_waddr = d_waddr d, x_d_csr_addr = d_csr_addr d,
      x_d_imm = d_imm d, x_d_pc = d_pc d, x_d_instr = d_instr d, x_d_progbuf_ena = d_progbuf_ena d,
      x_memop_store = d_memop_store d, x_memop_load = d_memop_load d, x_memop_sign_ext = d_memop_sign_ext d,
      x_memop_size = d_memop_size d, x_unsigned_op = d_unsigned_op d, x_rv32 = d_rv32 d,
      x_compressed = d_compressed d, x_amo = d_amo d, x_f64 = d_f64 d, x_isa_type = d_isa_type d,
      x_ivec = d_instr_vec d, x_stack_overflow = False, x_stack_underflow = False,
      x_unsup_exception = d_instr_unimplemented d, x_instr_load_fault = d_instr_load_fault d,
      x_mem_valid = False, x_mem_rdata = 0, x_mem_ex_debug = False, x_mem_ex_load_fault = False,
      x_mem_ex_store_fault = False, x_page_fault_x = d_instr_page_fault_x d, x_page_fault_r = False,
      x_page_fault_w = False, x_mem_ex_addr = 0, x_irq_pending = 0, x_wakeup = False, x_haltreq = False,
      x_resumereq = False, x_step = False, x_dbg_progbuf_ena = False, x_rdata1 = a, x_rtag1 = 0,
      x_rdata2 = b, x_rtag2 = 0, x_csr_req_ready = False, x_csr_resp_valid = False, x_csr_resp_data = 0,
      x_csr_resp_exception = False, x_memop_ready = True, x_memop_idle = True, x_dbg_mem_req_valid = False,
      x_dbg_mem_req_write = False, x_dbg_mem_req_size = 0, x_dbg_mem_req_addr = 0,
      x_dbg_mem_req_wdata = 0, x_fpu_res = 0, x_fpu_valid = False\<rparr>"

lemma quiet_wired: "wired d (quiet_in d a b)"
  by (simp add: wired_def quiet_in_def)

lemma tag_0: "tag_of 0 a = 0"
  by (simp add: tag_of_def getf_def)

text \<open>The instruction \<open>addi x1, x0, 5\<close> in the first cycle after reset.\<close>

definition addi_in :: exec_in where
  "addi_in = quiet_in (DecoderRv_registers False False (stage_in 0x00500093)) 0 0"

lemma addi_decoded:
  "rv_cases False 0x00500093 = (dec Instr_ADDI (isa ISA_I_type dec_init))\<lparr>vb_waddr := 1, vb_imm := 5\<rparr>"
  by (simp add: rv_case_defs Let_def getf_numeral I_ops_def, simp add: rv_ops_defs getf_numeral fill_sign_def)

lemma addi_accepted: "accepting addi_in InstrExecute_r_reset"
  by (simp add: accepting_def Let_def InstrExecute_r_reset_def addi_in_def quiet_in_def input_mux_def operands_def
      DecoderRv_registers_def DecoderRv_comb_def stage_in_def addi_decoded rv_ops_defs one_hot_fold,
    simp add: one_hot_apply d_valid_def hazard_def tag_0 csr_cmd_ena_def mem_ex_def load_misaligned_def
      store_misaligned_def returns_def csr_instrs_def)

lemma addi_fields [simp]:
  "x_dbg_progbuf_ena addi_in = False" "x_rdata1 addi_in = 0" "x_rdata2 addi_in = 0"
  "st_ex stage_reset = InstrExecute_r_reset" "i_f_pc (stage_in w) = 0x10000"
  by (simp_all add: addi_in_def quiet_in_def stage_reset_def stage_in_def)

theorem rtl_executes_rv64i_witness:
  "let s' = InstrExecute_registers False False True addi_in stage_reset
   in e_valid (st_ex s') \<and> e_npc (st_ex s') = 0x10004"
proof -
  let ?c = "(river_cpu (\<lambda>_. 0))\<lparr>cacheline := 0x00500093\<rparr>"
  let ?i = "RiscvInstruction ''ADDI'' ''?????????????????000?????0010011'' ADDI_exec
    :: (nat \<Rightarrow> memdev) instruction"
  have i: "?i \<in> set addIsaUserRV64I" by (simp add: addIsaUserRV64I_def)
  have p: "parse ?i (buf32 (cacheline ?c))"
    by (simp add: parse_def RiscvInstruction_def pattern_horner horner_def)
  have w: "wired (DecoderRv_registers False False (stage_in 0x00500093)) addi_in"
    by (simp add: addi_in_def quiet_wired)
  have "getPC ?c = getPC (river_cpu (\<lambda>_. 0))" by (simp add: getPC_def)
  then have pc: "getPC ?c = 0x10000" by simp
  have n: "next_pc (fst (iexec ?i river (cacheline ?c) ?c)) = 0x10004"
    by (simp add: RiscvInstruction_def ADDI_exec_def Let_def next_pc_def pc)
  show ?thesis
    using rtl_executes_rv64i [OF i p _ _ _ _ w, where s = stage_reset and P = river and fpu = False and x' = addi_in] n
    by (simp add: RiscvInstruction_def single_names_def signed_names_def addi_accepted Let_def pc)
qed

end
