(* ===== verification/Rtl_ExecSafe.thy ===== *)
theory Rtl_ExecSafe
  imports Rtl_Retire
begin

section \<open>Every state of the execution stage\<close>

text \<open>
  Invariants of \<open>InstrExecute\<close> over any sequence of inputs and resets, and what a memory request
  of the debugger does to the instruction that is about to start.
\<close>

subsection \<open>Expected tags\<close>

lemma tag_of_bits: "tag_of t a = tag_of t' a \<longleftrightarrow> (\<forall>k<3. bit t (3 * unat a + k) \<longleftrightarrow> bit t' (3 * unat a + k))"
proof -
  have u: "unat a < 64" by (rule u6_less)
  show ?thesis
  proof
    assume e: "tag_of t a = tag_of t' a"
    have "bit t (3 * unat a + k) \<longleftrightarrow> bit (tag_of t a) k" if "k < 3" for t :: "192 word" and k
      using that by (simp add: tag_of_def bit_getf)
    then show "\<forall>k<3. bit t (3 * unat a + k) \<longleftrightarrow> bit t' (3 * unat a + k)"
      using e by simp
  next
    assume "\<forall>k<3. bit t (3 * unat a + k) \<longleftrightarrow> bit t' (3 * unat a + k)"
    then show "tag_of t a = tag_of t' a"
      by (intro bit_word_eqI) (simp add: tag_of_def bit_getf)
  qed
qed

lemma bit_tag_of: "k < 3 \<Longrightarrow> bit (tag_of t a) k \<longleftrightarrow> bit t (3 * unat a + k)"
  by (simp add: tag_of_def bit_getf)

text \<open>Writing a register moves its own tag on and no other; the tag of x0 stays 0.\<close>

lemma tag_next:
  "tag_of (tagcnt_next r a) b = (if b = 0 then 0 else if b = a then tag_of (e_tagcnt r) a + 1 else tag_of (e_tagcnt r) b)"
proof (rule bit_word_eqI)
  fix k assume "k < LENGTH(3)"
  then have k: "k < 3" by simp
  have ab: "unat a < 64" "unat b < 64" by (rule u6_less)+
  have ne: "b \<noteq> a \<longleftrightarrow> unat b \<noteq> unat a" "b \<noteq> 0 \<longleftrightarrow> unat b \<noteq> 0"
    by (metis unsigned_word_eqI, metis unat_eq_zero)
  show "bit (tag_of (tagcnt_next r a) b) k \<longleftrightarrow>
      bit (if b = 0 then 0 else if b = a then tag_of (e_tagcnt r) a + 1 else tag_of (e_tagcnt r) b) k"
    using k ab ne unfolding bit_tag_of [OF k]
    by (auto simp: tagcnt_next_def tagcnt_wr_def bit_setf bit_simps bit_tag_of)
qed

subsection \<open>The invariant\<close>

text \<open>
  The state is one of the nine of the machine, and never a CSR access without a phase; the
  register port never writes x0, and the expected tag of x0 is 0.
\<close>

definition exec_states :: "4 word set" where
  "exec_states = {State_Idle, State_WaitMemAcces, State_WaitMulti, State_Amo, State_Csr, State_Halted,
     State_DebugMemRequest, State_DebugMemError, State_Wfi}"

definition exec_wf :: "exec_regs \<Rightarrow> bool" where
  "exec_wf r \<longleftrightarrow> e_state r \<in> exec_states \<and> (e_state r = State_Csr \<longrightarrow> e_csrstate r \<in> {CsrState_Req, CsrState_Resp})
     \<and> (e_reg_write r \<longrightarrow> e_reg_waddr r \<noteq> 0) \<and> tag_of (e_tagcnt r) 0 = 0"

text \<open>What a branch of the \<open>switch\<close> keeps.\<close>

definition act_ok :: "exec_regs \<Rightarrow> exec_act \<Rightarrow> bool" where
  "act_ok r a \<longleftrightarrow> e_state (ac_v a) \<in> exec_states
     \<and> (e_state (ac_v a) = State_Csr \<longrightarrow> e_csrstate (ac_v a) \<in> {CsrState_Req, CsrState_Resp})
     \<and> \<not> e_reg_write (ac_v a) \<and> e_tagcnt (ac_v a) = e_tagcnt r \<and> (ac_reg_ena a \<longrightarrow> ac_reg_waddr a \<noteq> 0 \<and> \<not> ac_memop_ena a)"

lemma start_ok: "exec_wf r \<Longrightarrow> act_ok r (exec_start x r m p)"
  by (simp add: act_ok_def exec_wf_def)

lemma dbg_ok: "act_ok r a \<Longrightarrow> act_ok r (exec_dbg_mem x h a)"
  by (simp add: act_ok_def exec_dbg_mem_def exec_states_def)

lemma Idle_ok: "exec_wf r \<Longrightarrow> act_ok r (exec_Idle fpu x r m p (exec_start x r m p))"
  using start_ok [of r x m p] dbg_ok
  by (auto simp: exec_Idle_def Let_def act_ok_def exec_states_def exec_dbg_mem_def split: prod.splits)

lemma csr_resp_ok:
  assumes "act_ok r a" and "\<not> ac_memop_ena a" and "\<not> ac_reg_ena a"
  shows "act_ok r (exec_csr_resp x r m p a)"
  using assms by (simp add: exec_csr_resp_def Let_def act_ok_def exec_states_def csr_illegal_def new_npc_def)

lemma Csr_ok: "exec_wf r \<Longrightarrow> e_state r = State_Csr \<Longrightarrow> act_ok r (exec_Csr x r m p (exec_start x r m p))"
  using start_ok [of r x m p] csr_resp_ok [of r "exec_start x r m p\<lparr>ac_csr_resp_ready := True\<rparr>" x m p]
  by (auto simp: exec_Csr_def Let_def act_ok_def exec_states_def)

definition fresh_ok :: "exec_regs \<Rightarrow> exec_act \<Rightarrow> bool" where
  "fresh_ok r a \<longleftrightarrow> act_ok r a \<and> \<not> ac_memop_ena a \<and> \<not> ac_reg_ena a"

lemma fresh_start: "exec_wf r \<Longrightarrow> fresh_ok r (exec_start x r m p)"
  using start_ok [of r x m p] by (simp add: fresh_ok_def)

lemma branch_ok:
  "fresh_ok r a \<Longrightarrow> act_ok r a"
  "fresh_ok r a \<Longrightarrow> act_ok r (exec_WaitMemAcces x r a)"
  "fresh_ok r a \<Longrightarrow> act_ok r (exec_WaitMulti r v a)"
  "fresh_ok r a \<Longrightarrow> act_ok r (exec_DebugMemRequest x r a)"
  "fresh_ok r a \<Longrightarrow> act_ok r (exec_DebugMemError r a)"
  "fresh_ok r a \<Longrightarrow> act_ok r (exec_Wfi x a)"
  by (simp_all add: fresh_ok_def act_ok_def exec_states_def exec_WaitMemAcces_def exec_WaitMulti_def
      exec_DebugMemRequest_def exec_DebugMemError_def exec_Wfi_def after_debug_def Let_def)

lemma Amo_ok: "fresh_ok r a \<Longrightarrow> act_ok r (exec_Amo x r res a)"
  by (simp add: fresh_ok_def act_ok_def exec_states_def exec_Amo_def Let_def)

lemma Halted_ok: "fresh_ok r a \<Longrightarrow> act_ok r (exec_Halted x a)"
  by (simp add: fresh_ok_def act_ok_def exec_states_def exec_Halted_def exec_dbg_mem_def Let_def)

lemma switch_ok:
  assumes "exec_wf (st_ex s)"
  shows "act_ok (st_ex s) (exec_switch fpu x s m p)"
  using branch_ok [OF fresh_start [OF assms]] Amo_ok [OF fresh_start [OF assms]]
    Halted_ok [OF fresh_start [OF assms]] Idle_ok [OF assms] Csr_ok [OF assms]
  unfolding exec_switch_def Let_def by simp

subsection \<open>The end of the process keeps it\<close>

lemma tag_write: "tag_of (tagcnt_next r a) 0 = 0"
  by (simp add: tag_next)

lemma exec_regs_next_wf:
  assumes "exec_wf (st_ex s)"
  shows "exec_wf (exec_regs_next fpu x s)"
proof -
  let ?r = "st_ex s"
  let ?m = "input_mux x ?r"
  let ?a = "exec_switch fpu x s ?m (operands x ?r ?m)"
  have t: "tag_of (e_tagcnt ?r) 0 = 0" using assms by (simp add: exec_wf_def)
  show ?thesis
    using switch_ok [OF assms, of fpu x ?m "operands x ?r ?m"] t tag_write
    unfolding exec_regs_next_def Let_def
    by (auto simp: act_ok_def exec_wf_def exec_memop_def exec_write_tag_def exec_latch_def Let_def)
qed

lemma reset_wf: "exec_wf InstrExecute_r_reset"
  by (simp add: exec_wf_def InstrExecute_r_reset_def exec_states_def tag_0)

lemma step_wf: "exec_wf (st_ex s) \<Longrightarrow> exec_wf (st_ex (InstrExecute_registers ar fpu nrst x s))"
  using exec_regs_next_wf [of s fpu x] reset_wf
  by (simp add: InstrExecute_registers_def Let_def clock_edge_def sync_reset_def)

text \<open>A run: one reset pin and one set of inputs per clock edge.\<close>

definition exec_run :: "bool \<Rightarrow> bool \<Rightarrow> (bool \<times> exec_in) list \<Rightarrow> exec_stage \<Rightarrow> exec_stage" where
  "exec_run ar fpu ins s = fold (\<lambda>(nrst, x). InstrExecute_registers ar fpu nrst x) ins s"

text \<open>
  C22: The execution stage is well-formed in every state that any sequence of inputs and resets
  reaches: the state register holds one of the nine states, a CSR access is always in its
  request or its response phase (so it cannot hang), the register write port is never
  enabled for x0, and the expected tag of x0 is 0.
\<close>

theorem rtl_exec_well_formed: "exec_wf (st_ex (exec_run ar fpu ins stage_reset))"
proof -
  have "exec_wf (st_ex (exec_run ar fpu ins s))" if "exec_wf (st_ex s)" for s
    using that by (induction ins arbitrary: s) (auto simp: exec_run_def step_wf)
  then show ?thesis using reset_wf by simp
qed

subsection \<open>A debugger's memory request while the core runs\<close>

text \<open>
  C23: A memory request of the debugger to a running core swallows an instruction.  The stage
  takes the request in a cycle in which the decoder shows the expected instruction; it
  latches the address after that instruction as the next one, writes no register and no
  memory, and goes back to it when the request is done.  The instruction is never executed.
\<close>

theorem rtl_debug_access_drops_instruction:
  assumes "e_state (st_ex s) = State_Idle" and "e_memop_valid (st_ex s) \<longrightarrow> x_memop_ready x"
    and m: "m = input_mux x (st_ex s)" and p: "p = operands x (st_ex s) m"
    and "d_valid x (st_ex s)" and "\<not> hazard x (st_ex s) m p"
    and "x_dbg_mem_req_valid x" and "\<not> x_dbg_progbuf_ena x" and "\<not> debug_misaligned x"
    and "x_memop_ready x'" and "\<not> x_dbg_progbuf_ena x'"
  shows "let s' = InstrExecute_registers ar fpu True x s; s'' = InstrExecute_registers ar fpu True x' s' in
    \<not> e_valid (st_ex s') \<and> \<not> e_reg_write (st_ex s') \<and> e_state (st_ex s') = State_DebugMemRequest
    \<and> e_npc (st_ex s') = prog_npc m p
    \<and> \<not> e_valid (st_ex s'') \<and> \<not> e_reg_write (st_ex s'') \<and> e_memop_debug (st_ex s'')
    \<and> e_state (st_ex s'') = State_Idle \<and> e_npc (st_ex s'') = prog_npc m p"
proof -
  let ?s' = "InstrExecute_registers ar fpu True x s"
  let ?s'' = "InstrExecute_registers ar fpu True x' ?s'"
  have ex: "st_ex ?s' = exec_regs_next fpu x s" "st_ex ?s'' = exec_regs_next fpu x' ?s'"
    by (simp_all add: InstrExecute_registers_def Let_def)
  have sw: "exec_switch fpu x s m p = exec_dbg_mem x False
      (let a = exec_start x (st_ex s) m p
       in a\<lparr>ac_latch_input := True, ac_v := (ac_v a)\<lparr>e_stepdone := x_step x \<and> \<not> x_dbg_progbuf_ena x\<rparr>\<rparr>)"
    using assms by (auto simp: exec_switch_def exec_Idle_def Let_def)
  have 1: "\<not> e_valid (st_ex ?s')" "\<not> e_reg_write (st_ex ?s')" "e_state (st_ex ?s') = State_DebugMemRequest"
    "e_npc (st_ex ?s') = prog_npc m p" "\<not> e_memop_halted (st_ex ?s')"
    unfolding ex exec_regs_next_def Let_def m [symmetric] p [symmetric] sw
    using assms(7-9) by (simp_all add: exec_dbg_mem_def exec_latch_def exec_memop_def Let_def)
  have 2: "\<not> e_valid (st_ex ?s'')" "\<not> e_reg_write (st_ex ?s'')" "e_memop_debug (st_ex ?s'')"
    "e_state (st_ex ?s'') = State_Idle" "e_npc (st_ex ?s'') = prog_npc m p"
    unfolding ex(2) exec_regs_next_def Let_def
    using assms(10,11) 1 by (simp_all add: exec_switch_def exec_DebugMemRequest_def after_debug_def exec_memop_def Let_def)
  show ?thesis using 1 2 by (simp add: Let_def)
qed

lemma addi_shown: "shows_signals (rv_cases False 0x00500093) 0x10000 (input_mux addi_in InstrExecute_r_reset)"
  using wired_shows [where y = "stage_in 0x00500093" and fpu = False and x = addi_in and r = InstrExecute_r_reset
      and ar = False, OF _ _ refl]
  by (simp add: addi_in_def quiet_wired InstrExecute_r_reset_def getf_numeral)

lemma addi_next: "prog_npc (input_mux addi_in InstrExecute_r_reset)
    (operands addi_in InstrExecute_r_reset (input_mux addi_in InstrExecute_r_reset)) = 0x10004"
  using addi_shown unfolding shows_signals_def addi_decoded
  by (simp add: rv_ops_defs one_hot_fold)
    (simp add: prog_npc_def pc_branch_def opcode_len_def one_hot_apply Let_def)

theorem rtl_debug_access_drops_instruction_witness:
  "let x = addi_in\<lparr>x_dbg_mem_req_valid := True\<rparr>;
       s'' = InstrExecute_registers False False True x (InstrExecute_registers False False True x stage_reset)
   in \<not> e_reg_write (st_ex s'') \<and> e_state (st_ex s'') = State_Idle \<and> e_npc (st_ex s'') = 0x10004"
proof -
  let ?x = "addi_in\<lparr>x_dbg_mem_req_valid := True\<rparr>" and ?r = InstrExecute_r_reset
  have m: "input_mux ?x ?r = input_mux addi_in ?r" "operands ?x ?r m = operands addi_in ?r m"
    "d_valid ?x ?r = d_valid addi_in ?r" "hazard ?x ?r m p = hazard addi_in ?r m p" for m p
    by (simp_all add: input_mux_def operands_def d_valid_def hazard_def Let_def)
  have f: "x_dbg_mem_req_valid ?x" "\<not> x_dbg_progbuf_ena ?x" "\<not> debug_misaligned ?x" "x_memop_ready ?x"
    by (simp_all add: addi_in_def quiet_in_def debug_misaligned_def)
  show ?thesis
    using rtl_debug_access_drops_instruction [OF _ _ refl refl _ _ f(1,2,3,4,2), of stage_reset False False] addi_accepted
    by (simp add: m accepting_def addi_next Let_def)
qed

end
