(* ===== verification/Jtag.thy ===== *)
theory Jtag
  imports Prelude
begin

section \<open>The JTAG transport of the debugger\<close>

text \<open>
  Both ends of the JTAG cable.  The target end is \<open>DtmFunctional\<close>
  (cpu_fnc_plugin/dmi/dtmfunc.cpp): the TAP state machine with its instruction and data
  registers; the server of libdbg64g/services/remote/tcpsrv_jtagbb.cpp moves its pins as the
  characters of the remote bit-bang protocol say.  The host end is \<open>OpenOcdWrapper::scan\<close>
  (libdbg64g/services/debug/openocdwrap.cpp), which turns one exchange of a data register into
  such characters and collects the answer.  The debug module behind the TAP is the interface
  \<open>IDmi\<close>; the socket between the ends is reliable and delivers in order, in pieces of any size.
\<close>

subsection \<open>The test access port\<close>

datatype jtag_state_t = RESET_TAP | IDLE | SELECT_DR_SCAN | CAPTURE_DR | SHIFT_DR | EXIT1_DR | PAUSE_DR
  | EXIT2_DR | UPDATE_DR | SELECT_IR_SCAN | CAPTURE_IR | SHIFT_IR | EXIT1_IR | PAUSE_IR | EXIT2_IR | UPDATE_IR

fun next_state :: "jtag_state_t \<Rightarrow> bool \<Rightarrow> jtag_state_t" where
  "next_state RESET_TAP tms = (if tms then RESET_TAP else IDLE)"
| "next_state IDLE tms = (if tms then SELECT_DR_SCAN else IDLE)"
| "next_state SELECT_DR_SCAN tms = (if tms then SELECT_IR_SCAN else CAPTURE_DR)"
| "next_state CAPTURE_DR tms = (if tms then EXIT1_DR else SHIFT_DR)"
| "next_state SHIFT_DR tms = (if tms then EXIT1_DR else SHIFT_DR)"
| "next_state EXIT1_DR tms = (if tms then UPDATE_DR else PAUSE_DR)"
| "next_state PAUSE_DR tms = (if tms then EXIT2_DR else PAUSE_DR)"
| "next_state EXIT2_DR tms = (if tms then UPDATE_DR else SHIFT_DR)"
| "next_state UPDATE_DR tms = (if tms then SELECT_DR_SCAN else IDLE)"
| "next_state SELECT_IR_SCAN tms = (if tms then RESET_TAP else CAPTURE_IR)"
| "next_state CAPTURE_IR tms = (if tms then EXIT1_IR else SHIFT_IR)"
| "next_state SHIFT_IR tms = (if tms then EXIT1_IR else SHIFT_IR)"
| "next_state EXIT1_IR tms = (if tms then UPDATE_IR else PAUSE_IR)"
| "next_state PAUSE_IR tms = (if tms then EXIT2_IR else PAUSE_IR)"
| "next_state EXIT2_IR tms = (if tms then UPDATE_IR else SHIFT_IR)"
| "next_state UPDATE_IR tms = (if tms then SELECT_DR_SCAN else IDLE)"

definition IR_IDCODE :: u32 where "IR_IDCODE = 0x01"
definition IR_DTMCONTROL :: u32 where "IR_DTMCONTROL = 0x10"
definition IR_DBUS :: u32 where "IR_DBUS = 0x11"
definition IR_BYPASS :: u32 where "IR_BYPASS = 0x1f"

lemmas IR_defs = IR_IDCODE_def IR_DTMCONTROL_def IR_DBUS_def IR_BYPASS_def

text \<open>The interface \<open>IDmi\<close>; \<open>dmi_read_op\<close> gets the old contents of \<open>*rdata\<close>.\<close>

record 'd idmi =
  dmi_read_op :: "u32 \<Rightarrow> u32 \<Rightarrow> 'd \<Rightarrow> u32 \<times> 'd"
  dmi_write_op :: "u32 \<Rightarrow> u32 \<Rightarrow> 'd \<Rightarrow> 'd"
  dmi_status_op :: "'d \<Rightarrow> u32"
  dtm_dmihardreset_op :: "'d \<Rightarrow> 'd"

text \<open>The attributes of \<open>DtmFunctional\<close>, and its members (the pins are bits).\<close>

record dtm_cfg =
  dtm_version :: u32
  dtm_idcode :: u32
  dtm_irlen :: nat
  dtm_abits :: nat

record tap =
  t_tck :: bool
  t_tms :: bool
  t_tdi :: bool
  t_estate :: jtag_state_t
  t_ir :: u64
  t_dr :: u64
  t_dr_length :: nat
  t_bypass :: u64
  t_dmi_addr :: u32
  t_dmi_data :: u32
  t_dmi_status :: u32
  t_ub :: bool  \<comment> \<open>a shift by a negative amount was executed\<close>

text \<open>The members that the constructor does not set are arguments.\<close>

definition DtmFunctional :: "bool \<Rightarrow> bool \<Rightarrow> bool \<Rightarrow> u32 \<Rightarrow> tap" where
  "DtmFunctional tck tms tdi status =
     \<lparr>t_tck = tck, t_tms = tms, t_tdi = tdi, t_estate = RESET_TAP, t_ir = ucast IR_IDCODE, t_dr = 0,
      t_dr_length = 0, t_bypass = 0, t_dmi_addr = 0, t_dmi_data = 0, t_dmi_status = status, t_ub = False\<rparr>"

definition resetTAP :: "bool \<Rightarrow> bool \<Rightarrow> tap \<Rightarrow> tap" where
  "resetTAP trst srst t = (if trst then t\<lparr>t_estate := RESET_TAP, t_ir := ucast IR_IDCODE\<rparr> else t)"

definition bit_to :: "bool \<Rightarrow> u64" where
  "bit_to b = (if b then 1 else 0)"

definition capture_dr :: "dtm_cfg \<Rightarrow> 'd idmi \<Rightarrow> 'd \<Rightarrow> tap \<Rightarrow> tap" where
  "capture_dr C D d t =
     (if t_ir t = ucast IR_IDCODE then t\<lparr>t_dr := ucast (dtm_idcode C), t_dr_length := 32\<rparr>
      else if t_ir t = ucast IR_DTMCONTROL then
        (let dtmcs = 0 :: u32;
             dtmcs = setf 0 4 (dtm_version C) dtmcs;
             dtmcs = setf 4 6 (of_nat (dtm_abits C)) dtmcs;
             dtmcs = setf 10 2 (dmi_status_op D d) dtmcs
         in t\<lparr>t_dr := ucast dtmcs, t_dr_length := 32\<rparr>)
      else if t_ir t = ucast IR_DBUS then
        (let dmi = 0 :: u64;
             dmi = setf 0 2 (ucast (t_dmi_status t)) dmi;
             dmi = setf 2 32 (ucast (t_dmi_data t)) dmi;
             dmi = setf 34 7 (ucast (t_dmi_addr t)) dmi
         in t\<lparr>t_dr := dmi, t_dr_length := dtm_abits C + 34\<rparr>)
      else if t_ir t = ucast IR_BYPASS then t\<lparr>t_dr := t_bypass t, t_dr_length := 1\<rparr>
      else t)"

definition shift_dr :: "tap \<Rightarrow> tap" where
  "shift_dr t = t\<lparr>t_dr := drop_bit 1 (t_dr t) OR push_bit (t_dr_length t - 1) (bit_to (t_tdi t)),
     t_ub := (t_ub t \<or> t_dr_length t = 0)\<rparr>"

definition update_dr :: "'d idmi \<Rightarrow> tap \<Rightarrow> 'd \<Rightarrow> tap \<times> 'd" where
  "update_dr D t d =
     (if t_ir t = ucast IR_BYPASS then (t\<lparr>t_bypass := t_dr t AND 1\<rparr>, d)
      else if t_ir t = ucast IR_DTMCONTROL then
        (let dtmcs = ucast (t_dr t) :: u32;
             d = (if bit dtmcs 17 then dtm_dmihardreset_op D d else d)
         in (if bit dtmcs 16 then t\<lparr>t_dmi_status := 0\<rparr> else t, d))
      else if t_ir t = ucast IR_DBUS then
        (let t = t\<lparr>t_dmi_addr := getf 34 7 (t_dr t), t_dmi_data := getf 2 32 (t_dr t)\<rparr>;
             (t, d) = (if t_dr t AND 2 \<noteq> 0 then (t, dmi_write_op D (t_dmi_addr t) (t_dmi_data t) d)
                       else if t_dr t AND 1 \<noteq> 0 then
                         (case dmi_read_op D (t_dmi_addr t) (t_dmi_data t) d of (v, d) \<Rightarrow> (t\<lparr>t_dmi_data := v\<rparr>, d))
                       else (t, d))
         in (t\<lparr>t_dmi_status := dmi_status_op D d\<rparr>, d))
      else (t, d))"

definition capture_ir :: "dtm_cfg \<Rightarrow> tap \<Rightarrow> tap" where
  "capture_ir C t =
     (let dr = t_ir t AND mask (dtm_irlen C);
          dr = push_bit 2 (drop_bit 2 dr)
      in t\<lparr>t_dr := dr OR 1\<rparr>)"

definition shift_ir :: "dtm_cfg \<Rightarrow> tap \<Rightarrow> tap" where
  "shift_ir C t = t\<lparr>t_dr := drop_bit 1 (t_dr t) OR push_bit (dtm_irlen C - 1) (bit_to (t_tdi t))\<rparr>"

definition update_ir :: "dtm_cfg \<Rightarrow> tap \<Rightarrow> tap" where
  "update_ir C t = t\<lparr>t_ir := t_dr t AND mask (dtm_irlen C)\<rparr>"

text \<open>
  A rising edge of TCK does the work of the current state and moves on, with the TMS and TDI
  that were sampled before; the new pins are stored after that.
\<close>

definition tap_act :: "dtm_cfg \<Rightarrow> 'd idmi \<Rightarrow> tap \<times> 'd \<Rightarrow> tap \<times> 'd" where
  "tap_act C D s =
     (case s of (t, d) \<Rightarrow>
        (case t_estate t of
           RESET_TAP \<Rightarrow> (t\<lparr>t_ir := ucast IR_IDCODE\<rparr>, d)
         | CAPTURE_DR \<Rightarrow> (capture_dr C D d t, d)
         | SHIFT_DR \<Rightarrow> (shift_dr t, d)
         | UPDATE_DR \<Rightarrow> update_dr D t d
         | CAPTURE_IR \<Rightarrow> (capture_ir C t, d)
         | SHIFT_IR \<Rightarrow> (shift_ir C t, d)
         | UPDATE_IR \<Rightarrow> (update_ir C t, d)
         | _ \<Rightarrow> (t, d)))"

definition setPins :: "dtm_cfg \<Rightarrow> 'd idmi \<Rightarrow> bool \<Rightarrow> bool \<Rightarrow> bool \<Rightarrow> tap \<times> 'd \<Rightarrow> tap \<times> 'd" where
  "setPins C D tck tms tdi s =
     (let tck_posedge = (\<not> t_tck (fst s) \<and> tck);
          s = (if tck_posedge
               then (case tap_act C D s of (t, d) \<Rightarrow> (t\<lparr>t_estate := next_state (t_estate t) (t_tms t)\<rparr>, d))
               else s)
      in (case s of (t, d) \<Rightarrow> (t\<lparr>t_tck := tck, t_tdi := tdi, t_tms := tms\<rparr>, d)))"

definition getTDO :: "tap \<Rightarrow> bool" where
  "getTDO t \<longleftrightarrow> t_dr t AND 1 \<noteq> 0"

subsection \<open>The bit-bang server\<close>

text \<open>One command character: the TAP, the characters sent back, and the return value.\<close>

type_synonym 'd bb = "(tap \<times> 'd) \<times> string \<times> int"

definition bb_char :: "dtm_cfg \<Rightarrow> 'd idmi \<Rightarrow> char \<Rightarrow> 'd bb \<Rightarrow> 'd bb" where
  "bb_char C D ch b =
     (case b of (s, tx, ret) \<Rightarrow>
        if ch = CHR ''B'' \<or> ch = CHR ''b'' then (s, tx, ret)
        else if ch = CHR ''r'' then (apfst (resetTAP False False) s, tx, ret)
        else if ch = CHR ''s'' then (apfst (resetTAP False True) s, tx, ret)
        else if ch = CHR ''t'' then (apfst (resetTAP True False) s, tx, ret)
        else if ch = CHR ''u'' then (apfst (resetTAP True True) s, tx, ret)
        else if ch = CHR ''0'' then (setPins C D False False False s, tx, ret)
        else if ch = CHR ''1'' then (setPins C D False False True s, tx, ret)
        else if ch = CHR ''2'' then (setPins C D False True False s, tx, ret)
        else if ch = CHR ''3'' then (setPins C D False True True s, tx, ret)
        else if ch = CHR ''4'' then (setPins C D True False False s, tx, ret)
        else if ch = CHR ''5'' then (setPins C D True False True s, tx, ret)
        else if ch = CHR ''6'' then (setPins C D True True False s, tx, ret)
        else if ch = CHR ''7'' then (setPins C D True True True s, tx, ret)
        else if ch = CHR ''R'' then (s, tx @ (if getTDO (fst s) then ''1'' else ''0''), ret)
        else (s, tx, -1))"

definition bb_server :: "dtm_cfg \<Rightarrow> 'd idmi \<Rightarrow> string \<Rightarrow> 'd bb \<Rightarrow> 'd bb" where
  "bb_server C D cmd b = fold (bb_char C D) cmd b"

subsection \<open>The host\<close>

datatype ETapState = RESET_bb | IDLE_bb | DRSCAN | DRCAPTURE | DRSHIFT | DREXIT1 | DRPAUSE | DREXIT2 | DRUPDATE
  | IRSCAN | IRCAPTURE | IRSHIFT | IREXIT1 | IRPAUSE | IREXIT2 | IRUPDATE

definition IRLEN :: nat where "IRLEN = 5"
definition ABITS :: nat where "ABITS = 7"

record ocd =
  bbstate :: ETapState
  rq_valid :: bool
  rq_ir :: u32
  rq_dr :: u64
  rq_drlen :: nat
  ircnt :: nat
  drcnt :: nat
  o_ir :: u32
  o_dr :: u64
  msgcnt :: nat
  o_ub :: bool  \<comment> \<open>a shift by a negative amount was executed\<close>

text \<open>One round of the loop of \<open>scan\<close>: TMS, TDO, whether the answer is read, the new state.\<close>

definition scan_step :: "ocd \<Rightarrow> bool \<times> bool \<times> bool \<times> ocd" where
  "scan_step h =
     (case bbstate h of
        IDLE_bb \<Rightarrow> if rq_valid h then (True, True, False, h\<lparr>rq_valid := False, bbstate := DRSCAN\<rparr>)
                 else (False, True, False, h)
      | DRSCAN \<Rightarrow> if o_ir h \<noteq> rq_ir h then (True, True, False, h\<lparr>bbstate := IRSCAN\<rparr>)
                  else (False, True, False, h\<lparr>bbstate := DRCAPTURE\<rparr>)
      | IRSCAN \<Rightarrow> (False, True, False, h\<lparr>bbstate := IRCAPTURE\<rparr>)
      | IRCAPTURE \<Rightarrow> (False, True, False, h\<lparr>o_ir := rq_ir h, ircnt := 0, bbstate := IRSHIFT\<rparr>)
      | IRSHIFT \<Rightarrow>
          (let tdo = bit (o_ir h) (ircnt h); h = h\<lparr>ircnt := ircnt h + 1\<rparr>
           in if ircnt h = IRLEN then (True, tdo, False, h\<lparr>bbstate := IREXIT1\<rparr>) else (False, tdo, False, h))
      | IREXIT1 \<Rightarrow> (True, True, False, h\<lparr>bbstate := IRUPDATE\<rparr>)
      | IRUPDATE \<Rightarrow> (True, True, False, h\<lparr>bbstate := DRSCAN\<rparr>)
      | DRCAPTURE \<Rightarrow> (False, True, False, h\<lparr>o_dr := rq_dr h, drcnt := 0, bbstate := DRSHIFT\<rparr>)
      | DRSHIFT \<Rightarrow>
          (let tdo = (o_dr h AND 1 \<noteq> 0); h = h\<lparr>o_dr := drop_bit 1 (o_dr h), drcnt := drcnt h + 1\<rparr>
           in if drcnt h = rq_drlen h then (True, tdo, True, h\<lparr>bbstate := DREXIT1\<rparr>) else (False, tdo, True, h))
      | DREXIT1 \<Rightarrow> (True, True, False, h\<lparr>o_dr := drop_bit 1 (o_dr h), bbstate := DRUPDATE\<rparr>)
      | DRUPDATE \<Rightarrow> (False, True, False, h\<lparr>bbstate := IDLE_bb\<rparr>)
      | _ \<Rightarrow> (False, True, False, h\<lparr>bbstate := IDLE_bb\<rparr>))"

text \<open>The characters of a round: TCK low, perhaps a read, TCK high.\<close>

definition pins :: "bool \<Rightarrow> bool \<Rightarrow> bool \<Rightarrow> string" where
  "pins tms tdo read =
     (let k = (if tms then 2 else 0) + (if tdo then 1 else 0)
      in [''0123'' ! k] @ (if read then ''R'' else []) @ [''4567'' ! k])"

partial_function (option) scan_loop :: "ocd \<Rightarrow> (string \<times> ocd) option" where
  "scan_loop h =
     (if rq_valid h \<or> bbstate h \<noteq> IDLE_bb
      then (case scan_step h of (tms, tdo, read, h) \<Rightarrow>
              Option.bind (scan_loop h) (\<lambda>(buf, h). Some (pins tms tdo read @ buf, h)))
      else Some ([], h))"

text \<open>The answers of the server come in; the rest of a piece after the last bit is dropped.\<close>

fun ocd_processRxBuffer :: "string \<Rightarrow> ocd \<Rightarrow> ocd" where
  "ocd_processRxBuffer [] h = h"
| "ocd_processRxBuffer (ch # buf) h =
     (let h = h\<lparr>o_dr := drop_bit 1 (o_dr h) OR push_bit (rq_drlen h - 1) (bit_to (ch = CHR ''1'')),
                o_ub := (o_ub h \<or> rq_drlen h = 0), msgcnt := msgcnt h + 1\<rparr>
      in if msgcnt h \<ge> rq_drlen h then h else ocd_processRxBuffer buf h)"

text \<open>
  The whole exchange: the request is turned into characters, the server executes them, the
  answer is read.  The host waits for the last bit: without it there is no result.
\<close>

type_synonym 'd link = "ocd \<times> tap \<times> 'd"

definition ocd_exchange :: "dtm_cfg \<Rightarrow> 'd idmi \<Rightarrow> string \<Rightarrow> 'd link \<Rightarrow> 'd link option" where
  "ocd_exchange C D buf l =
     (case l of (h, s) \<Rightarrow>
        case bb_server C D buf (s, [], 0) of (s, tx, ret) \<Rightarrow>
          let h = ocd_processRxBuffer tx (h\<lparr>msgcnt := 0\<rparr>)
          in if msgcnt h \<ge> rq_drlen h \<and> msgcnt h \<noteq> 0 then Some (h, s) else None)"

definition scan :: "dtm_cfg \<Rightarrow> 'd idmi \<Rightarrow> u32 \<Rightarrow> u64 \<Rightarrow> nat \<Rightarrow> 'd link \<Rightarrow> 'd link option" where
  "scan C D ir dr drlen l =
     (case l of (h, s) \<Rightarrow>
        Option.bind (scan_loop (h\<lparr>rq_ir := ir, rq_dr := dr, rq_drlen := drlen, rq_valid := True\<rparr>))
          (\<lambda>(buf, h). ocd_exchange C D buf (h, s)))"

definition resetAsync :: "dtm_cfg \<Rightarrow> 'd idmi \<Rightarrow> 'd link \<Rightarrow> 'd link option" where
  "resetAsync C D l = ocd_exchange C D ''ur15R'' (apfst (\<lambda>h. h\<lparr>rq_drlen := 0\<rparr>) l)"

definition resetSync :: "dtm_cfg \<Rightarrow> 'd idmi \<Rightarrow> 'd link \<Rightarrow> 'd link option" where
  "resetSync C D l = ocd_exchange C D ''373737373737373737373715R'' (apfst (\<lambda>h. h\<lparr>rq_drlen := 0\<rparr>) l)"

definition scanIdCode :: "dtm_cfg \<Rightarrow> 'd idmi \<Rightarrow> 'd link \<Rightarrow> (u32 \<times> 'd link) option" where
  "scanIdCode C D l = map_option (\<lambda>l. (ucast (o_dr (fst l)), l)) (scan C D IR_IDCODE 0xFFFFFFFFFFFFFFFF 32 l)"

definition scanDtmcs :: "dtm_cfg \<Rightarrow> 'd idmi \<Rightarrow> 'd link \<Rightarrow> (u32 \<times> 'd link) option" where
  "scanDtmcs C D l = map_option (\<lambda>l. (ucast (o_dr (fst l)), l)) (scan C D IR_DTMCONTROL 0 32 l)"

datatype EDmiOperation = DmiOp_None | DmiOp_Read | DmiOp_Write | DmiOp_ReadWrite

fun dmi_op_code :: "EDmiOperation \<Rightarrow> u64" where
  "dmi_op_code DmiOp_None = 0"
| "dmi_op_code DmiOp_Read = 1"
| "dmi_op_code DmiOp_Write = 2"
| "dmi_op_code DmiOp_ReadWrite = 3"

text \<open>A scan that makes the request, and a second one that fetches the result.\<close>

definition scanDmi ::
  "dtm_cfg \<Rightarrow> 'd idmi \<Rightarrow> u32 \<Rightarrow> u32 \<Rightarrow> EDmiOperation \<Rightarrow> 'd link \<Rightarrow> (u32 \<times> 'd link) option" where
  "scanDmi C D adr data op l =
     (let dr = ucast adr :: u64;
          dr = push_bit 32 dr OR ucast data;
          dr = push_bit 2 dr OR dmi_op_code op
      in Option.bind (scan C D IR_DBUS dr (34 + ABITS) l)
           (\<lambda>l. let dr = push_bit 34 (ucast adr)
                in Option.bind (scan C D IR_DBUS dr (34 + ABITS) l)
                     (\<lambda>l. Some (getf 2 32 (o_dr (fst l)), l))))"

end
