(* ===== verification/Dmi.thy ===== *)
theory Dmi
  imports Jtag Pipeline
begin

section \<open>The debug module\<close>

text \<open>
  \<open>DmiFunctional\<close> (cpu_fnc_plugin/dmi/dmifunc.cpp): the registers of the debug module, abstract
  commands and the selection of a hart.  It stands between the interface \<open>IDmi\<close> of the TAP
  (or the system bus) and the interface \<open>IDPort\<close> of the harts; the functional CPU implements
  the latter.  Messages are left out.
\<close>

subsection \<open>The interface of a hart\<close>

text \<open>
  \<open>IDPort\<close> (common/coreservices/idport.h) over the state \<open>'w\<close> of everything behind the debug
  module; \<open>'w\<close> is shared by the harts.  The functions return the error code, the value of the
  output argument and the new state.
\<close>

record 'w idport =
  dp_resumereq :: "'w \<Rightarrow> int \<times> 'w"
  dp_haltreq :: "'w \<Rightarrow> int \<times> 'w"
  dp_isHalted :: "'w \<Rightarrow> bool"
  dp_isResumeAck :: "'w \<Rightarrow> bool"
  dp_readReg :: "u32 \<Rightarrow> 'w \<Rightarrow> int \<times> u64 \<times> 'w"
  dp_writeReg :: "u32 \<Rightarrow> u64 \<Rightarrow> 'w \<Rightarrow> int \<times> 'w"
  dp_readMem :: "u64 \<Rightarrow> u32 \<Rightarrow> u32 \<Rightarrow> u64 \<Rightarrow> 'w \<Rightarrow> int \<times> u64 \<times> 'w"
  dp_writeMem :: "u64 \<Rightarrow> u32 \<Rightarrow> u32 \<Rightarrow> u64 \<Rightarrow> 'w \<Rightarrow> int \<times> 'w"
  dp_executeProgbuf :: "(nat \<Rightarrow> u32) \<Rightarrow> 'w \<Rightarrow> bool \<times> 'w"

text \<open>The attributes, the harts, and all reset listeners of the platform.\<close>

record 'w dmi_cfg =
  dataregTotal :: nat
  progbufTotal :: nat
  hartlist :: "'w idport list"
  reset_listeners :: "'w \<Rightarrow> 'w"

record dmi =
  ndmreset :: u32
  hartsel :: u32
  arg0 :: u64
  arg1 :: u64
  arg2 :: u64
  command :: u32
  autoexecdata :: u32
  autoexecprogbuf :: u32
  progbuf_mem :: "nat \<Rightarrow> u32"
  cmderr :: u32

definition DmiFunctional :: dmi where
  "DmiFunctional = \<lparr>ndmreset = 0, hartsel = 0, arg0 = 0, arg1 = 0, arg2 = 0, command = 0, autoexecdata = 0,
     autoexecprogbuf = 0, progbuf_mem = (\<lambda>_. 0), cmderr = 0\<rparr>"

definition DMI_ABSTRACT_DATA0 :: u32 where "DMI_ABSTRACT_DATA0 = 0x04"
definition DMI_ABSTRACT_DATA1 :: u32 where "DMI_ABSTRACT_DATA1 = 0x05"
definition DMI_ABSTRACT_DATA2 :: u32 where "DMI_ABSTRACT_DATA2 = 0x06"
definition DMI_ABSTRACT_DATA3 :: u32 where "DMI_ABSTRACT_DATA3 = 0x07"
definition DMI_ABSTRACT_DATA4 :: u32 where "DMI_ABSTRACT_DATA4 = 0x08"
definition DMI_ABSTRACT_DATA5 :: u32 where "DMI_ABSTRACT_DATA5 = 0x09"
definition DMI_DMCONTROL :: u32 where "DMI_DMCONTROL = 0x10"
definition DMI_DMSTATUS :: u32 where "DMI_DMSTATUS = 0x11"
definition DMI_HARTINFO :: u32 where "DMI_HARTINFO = 0x12"
definition DMI_ABSTRACTCS :: u32 where "DMI_ABSTRACTCS = 0x16"
definition DMI_COMMAND :: u32 where "DMI_COMMAND = 0x17"
definition DMI_ABSTRACTAUTO :: u32 where "DMI_ABSTRACTAUTO = 0x18"
definition DMI_PROGBUF0 :: u32 where "DMI_PROGBUF0 = 0x20"
definition DMI_SBCS :: u32 where "DMI_SBCS = 0x38"
definition DMI_HALTSUM0 :: u32 where "DMI_HALTSUM0 = 0x40"

lemmas DMI_defs = DMI_ABSTRACT_DATA0_def DMI_ABSTRACT_DATA1_def DMI_ABSTRACT_DATA2_def DMI_ABSTRACT_DATA3_def
  DMI_ABSTRACT_DATA4_def DMI_ABSTRACT_DATA5_def DMI_DMCONTROL_def DMI_DMSTATUS_def DMI_HARTINFO_def
  DMI_ABSTRACTCS_def DMI_COMMAND_def DMI_ABSTRACTAUTO_def DMI_PROGBUF0_def DMI_SBCS_def DMI_HALTSUM0_def

definition CMDERR_NONE :: u32 where "CMDERR_NONE = 0"
definition CMDERR_EXCEPTION :: u32 where "CMDERR_EXCEPTION = 3"
definition CMDERR_HALTRESUME :: u32 where "CMDERR_HALTRESUME = 4"

definition setCmdErr :: "u32 \<Rightarrow> dmi \<Rightarrow> dmi" where
  "setCmdErr v s = s\<lparr>cmderr := v\<rparr>"

definition getCmdErr :: "dmi \<Rightarrow> u32" where
  "getCmdErr s = cmderr s"

text \<open>The halves of a \<open>Reg64Type\<close>.\<close>

definition half_of :: "nat \<Rightarrow> u64 \<Rightarrow> u32" where
  "half_of i v = getf (32 * i) 32 v"

definition set_half :: "nat \<Rightarrow> u32 \<Rightarrow> u64 \<Rightarrow> u64" where
  "set_half i x v = setf (32 * i) 32 (ucast x) v"

subsection \<open>Abstract commands\<close>

text \<open>Fields of \<open>dmi_command_type\<close>.\<close>

definition cmd_regno :: "u32 \<Rightarrow> u32" where "cmd_regno c = getf 0 16 c"
definition cmd_write :: "u32 \<Rightarrow> bool" where "cmd_write c = bit c 16"
definition cmd_transfer :: "u32 \<Rightarrow> bool" where "cmd_transfer c = bit c 17"
definition cmd_postexec :: "u32 \<Rightarrow> bool" where "cmd_postexec c = bit c 18"
definition cmd_aarpostincrement :: "u32 \<Rightarrow> bool" where "cmd_aarpostincrement c = bit c 19"
definition cmd_aampostincrement :: "u32 \<Rightarrow> bool" where "cmd_aampostincrement c = bit c 19"
definition cmd_aamsize :: "u32 \<Rightarrow> u32" where "cmd_aamsize c = getf 20 3 c"
definition cmd_aamvirtual :: "u32 \<Rightarrow> u32" where "cmd_aamvirtual c = getf 23 1 c"
definition cmd_cmdtype :: "u32 \<Rightarrow> u32" where "cmd_cmdtype c = getf 24 8 c"

definition command_regaccess :: "'w idport \<Rightarrow> dmi \<times> 'w \<Rightarrow> dmi \<times> 'w" where
  "command_regaccess port sw =
     (case sw of (s, w) \<Rightarrow>
        let (errcode, s, w) =
              (if cmd_transfer (command s)
               then if cmd_write (command s)
                 then (case dp_writeReg port (cmd_regno (command s)) (arg0 s) w of (e, w) \<Rightarrow> (e, s, w))
                 else (case dp_readReg port (cmd_regno (command s)) w of (e, v, w) \<Rightarrow> (e, s\<lparr>arg0 := v\<rparr>, w))
               else (0, s, w));
            (errcode, s, w) =
              (if errcode \<noteq> 0 then (errcode, setCmdErr CMDERR_EXCEPTION s, w)
               else if cmd_postexec (command s)
                 then (case dp_executeProgbuf port (progbuf_mem s) w of (e, w) \<Rightarrow> (if e then 1 else 0, s, w))
               else (errcode, s, w))
        in if errcode \<noteq> 0 then (setCmdErr CMDERR_EXCEPTION s, w)
           else if cmd_aarpostincrement (command s)
             then (s\<lparr>command := setf 0 16 (cmd_regno (command s) + 1) (command s)\<rparr>, w)
           else (s, w))"

definition command_memaccess :: "'w idport \<Rightarrow> dmi \<times> 'w \<Rightarrow> dmi \<times> 'w" where
  "command_memaccess port sw =
     (case sw of (s, w) \<Rightarrow>
        let memsz = push_bit (unat (cmd_aamsize (command s))) 1 :: u32;
            (errcode, s, w) =
              (if cmd_write (command s)
               then (case dp_writeMem port (arg1 s) (cmd_aamvirtual (command s)) memsz (arg0 s) w of (e, w) \<Rightarrow> (e, s, w))
               else (case dp_readMem port (arg1 s) (cmd_aamvirtual (command s)) memsz (arg0 s) w of
                       (e, v, w) \<Rightarrow> (e, s\<lparr>arg0 := v\<rparr>, w)))
        in if errcode \<noteq> 0 then (setCmdErr CMDERR_EXCEPTION s, w)
           else if cmd_aampostincrement (command s) then (s\<lparr>arg1 := arg1 s + ucast memsz\<rparr>, w)
           else (s, w))"

definition executeCommand :: "'w dmi_cfg \<Rightarrow> dmi \<times> 'w \<Rightarrow> dmi \<times> 'w" where
  "executeCommand M sw =
     (let port = hartlist M ! unat (hartsel (fst sw)); c = command (fst sw)
      in if getCmdErr (fst sw) \<noteq> CMDERR_NONE then sw
         else if cmd_cmdtype c = 0 then command_regaccess port sw
         else if cmd_cmdtype c = 1 then sw
         else if cmd_cmdtype c = 2 then command_memaccess port sw
         else sw)"

text \<open>An access to data register \<open>i\<close> may run the last command again.\<close>

definition autoexec :: "'w dmi_cfg \<Rightarrow> nat \<Rightarrow> dmi \<times> 'w \<Rightarrow> dmi \<times> 'w" where
  "autoexec M i sw = (if bit (autoexecdata (fst sw)) i then executeCommand M sw else sw)"

subsection \<open>Reading and writing the registers\<close>

text \<open>One round of the loop over the harts that computes \<open>dmstatus\<close>.\<close>

definition dmstatus_hart :: "'w \<Rightarrow> 'w idport \<Rightarrow> u32 \<Rightarrow> u32" where
  "dmstatus_hart w port st =
     (let st = (if dp_isHalted port w then setf 9 1 1 (setf 11 1 0 st) else setf 10 1 1 (setf 9 1 0 st))
      in if \<not> dp_isResumeAck port w then setf 17 1 0 st else setf 16 1 1 st)"

definition dmstatus_init :: u32 where
  "dmstatus_init =
     (let st = 0;
          st = setf 0 4 2 st;
          st = setf 7 1 1 st;
          st = setf 5 1 1 st;
          st = setf 9 1 1 st;
          st = setf 8 1 0 st;
          st = setf 11 1 1 st;
          st = setf 10 1 0 st;
          st = setf 17 1 1 st
      in setf 16 1 0 st)"

definition haltsum_bit :: "'w \<Rightarrow> nat \<times> 'w idport \<Rightarrow> u32 \<Rightarrow> u32" where
  "haltsum_bit w ip v = (if dp_isHalted (snd ip) w then v OR push_bit (fst ip) 1 else v)"

definition dmi_read :: "'w dmi_cfg \<Rightarrow> u32 \<Rightarrow> u32 \<Rightarrow> dmi \<times> 'w \<Rightarrow> u32 \<times> dmi \<times> 'w" where
  "dmi_read M adr rdata sw =
     (let (s, w) = sw
      in if adr = DMI_DMCONTROL then
           (setf 16 10 (hartsel s) (setf 6 10 (drop_bit 10 (hartsel s)) (setf 1 1 (ndmreset s) (setf 0 1 1 0))), sw)
         else if adr = DMI_DMSTATUS then (fold (dmstatus_hart w) (hartlist M) dmstatus_init, sw)
         else if adr = DMI_HARTINFO then (push_bit 20 2, sw)
         else if adr = DMI_ABSTRACTCS then (setf 8 3 (getCmdErr s) (setf 24 5 16 (setf 0 4 2 0)), sw)
         else if adr = DMI_ABSTRACT_DATA0 then (half_of 0 (arg0 s), autoexec M 0 sw)
         else if adr = DMI_ABSTRACT_DATA1 then (half_of 1 (arg0 s), autoexec M 1 sw)
         else if adr = DMI_ABSTRACT_DATA2 then (half_of 0 (arg1 s), autoexec M 2 sw)
         else if adr = DMI_ABSTRACT_DATA3 then (half_of 1 (arg1 s), autoexec M 3 sw)
         else if adr = DMI_ABSTRACT_DATA4 then (half_of 0 (arg2 s), autoexec M 4 sw)
         else if adr = DMI_ABSTRACT_DATA5 then (half_of 1 (arg2 s), autoexec M 5 sw)
         else if DMI_PROGBUF0 \<le> adr \<and> adr < DMI_PROGBUF0 + of_nat (progbufTotal M)
           then (progbuf_mem s (unat (adr - DMI_PROGBUF0)), sw)
         else if adr = DMI_ABSTRACTAUTO then (autoexecdata s OR push_bit 16 (autoexecprogbuf s), sw)
         else if adr = DMI_HALTSUM0 then (fold (haltsum_bit w) (enumerate 0 (hartlist M)) 0, sw)
         else if adr = DMI_SBCS then (0, sw)
         else (rdata, sw))"

text \<open>A write to \<open>dmcontrol\<close>: hart selection, halt and resume requests, the reset line.\<close>

definition write_dmcontrol :: "'w dmi_cfg \<Rightarrow> u32 \<Rightarrow> dmi \<times> 'w \<Rightarrow> dmi \<times> 'w" where
  "write_dmcontrol M wdata sw =
     (let (s, w) = sw;
          n = length (hartlist M);
          haltreq = bit wdata 31; resumereq = bit wdata 30; ndmreset_bit = getf 1 1 wdata :: u32;
          sel = getf 6 10 wdata :: u32;
          sel = push_bit 10 sel OR getf 16 10 wdata;
          sel = (if sel \<ge> of_nat n then of_nat n - 1 else sel);
          s = s\<lparr>hartsel := sel\<rparr>;
          port = hartlist M ! unat sel;
          (errcode, w) =
            (if getCmdErr s \<noteq> 0 then (0, w)
             else if haltreq then
               (if ndmreset s = 0 \<and> ndmreset_bit = 0 then dp_haltreq port w else (0, w))
             else if resumereq then dp_resumereq port w
             else (0, w));
          w = (if ndmreset s \<noteq> 0 \<and> ndmreset_bit = 0 then reset_listeners M w else w);
          s = s\<lparr>ndmreset := ndmreset_bit\<rparr>
      in (if errcode \<noteq> 0 then setCmdErr CMDERR_HALTRESUME s else s, w))"

definition dmi_write :: "'w dmi_cfg \<Rightarrow> u32 \<Rightarrow> u32 \<Rightarrow> dmi \<times> 'w \<Rightarrow> dmi \<times> 'w" where
  "dmi_write M adr wdata sw =
     (let (s, w) = sw
      in if adr = DMI_DMCONTROL then write_dmcontrol M wdata sw
         else if adr = DMI_ABSTRACTCS then
           (if (getf 8 3 wdata :: u32) = 1 then (setCmdErr CMDERR_NONE s, w) else sw)
         else if adr = DMI_COMMAND then executeCommand M (s\<lparr>command := wdata\<rparr>, w)
         else if adr = DMI_ABSTRACT_DATA0 then autoexec M 0 (s\<lparr>arg0 := set_half 0 wdata (arg0 s)\<rparr>, w)
         else if adr = DMI_ABSTRACT_DATA1 then autoexec M 1 (s\<lparr>arg0 := set_half 1 wdata (arg0 s)\<rparr>, w)
         else if adr = DMI_ABSTRACT_DATA2 then autoexec M 2 (s\<lparr>arg1 := set_half 0 wdata (arg1 s)\<rparr>, w)
         else if adr = DMI_ABSTRACT_DATA3 then autoexec M 3 (s\<lparr>arg1 := set_half 1 wdata (arg1 s)\<rparr>, w)
         else if adr = DMI_ABSTRACT_DATA4 then autoexec M 4 (s\<lparr>arg2 := set_half 0 wdata (arg2 s)\<rparr>, w)
         else if adr = DMI_ABSTRACT_DATA5 then autoexec M 5 (s\<lparr>arg2 := set_half 1 wdata (arg2 s)\<rparr>, w)
         else if DMI_PROGBUF0 \<le> adr \<and> adr < DMI_PROGBUF0 + of_nat (progbufTotal M)
           then (s\<lparr>progbuf_mem := (progbuf_mem s)(unat (adr - DMI_PROGBUF0) := wdata)\<rparr>, w)
         else if adr = DMI_ABSTRACTAUTO then
           (s\<lparr>autoexecdata := ucast (ucast wdata AND (push_bit (dataregTotal M) 1 - 1 :: u64)),
              autoexecprogbuf := ucast (ucast (drop_bit 16 wdata) AND (push_bit (progbufTotal M) 1 - 1 :: u64))\<rparr>, w)
         else sw)"

text \<open>The module as the \<open>IDmi\<close> of the TAP; it is always ready.\<close>

definition dmi_if :: "'w dmi_cfg \<Rightarrow> (dmi \<times> 'w) idmi" where
  "dmi_if M = \<lparr>dmi_read_op = dmi_read M, dmi_write_op = dmi_write M, dmi_status_op = (\<lambda>_. 0),
     dtm_dmihardreset_op = (\<lambda>sw. sw)\<rparr>"

text \<open>And as a slave of the system bus: aligned words only.\<close>

definition dmi_b_transport ::
  "'w dmi_cfg \<Rightarrow> u64 \<Rightarrow> trans \<Rightarrow> dmi \<times> 'w \<Rightarrow> ETransStatus \<times> trans \<times> dmi \<times> 'w" where
  "dmi_b_transport M base tr sw =
     (let off = drop_bit 2 (ucast (addr tr - base)) :: u32
      in if xsize tr \<noteq> 4 \<or> addr tr AND 3 \<noteq> 0 then (TRANS_ERROR, tr, sw)
         else if action tr = MemAction_Write then (TRANS_OK, tr, dmi_write M off (half_of 0 (wpayload tr)) sw)
         else (case dmi_read M off (half_of 0 (rpayload tr)) sw of
                 (v, sw) \<Rightarrow> (TRANS_OK, tr\<lparr>rpayload := set_half 0 v (rpayload tr)\<rparr>, sw)))"

subsection \<open>The functional CPU as a hart\<close>

text \<open>
  The program buffer is passed as a pointer; the CPU fetches from its bytes.  The call waits
  until the CPU has left the buffer: its cycles follow the request.
\<close>

definition progbuf_bytes :: "(nat \<Rightarrow> u32) \<Rightarrow> u64 \<Rightarrow> u8" where
  "progbuf_bytes pb a = getf (8 * unat (a AND 3)) 8 (pb (unat (drop_bit 2 a)))"

definition cpu_port :: "'m platform \<Rightarrow> 'm cpu idport" where
  "cpu_port P =
     \<lparr>dp_resumereq = resumereq_req, dp_haltreq = haltreq_req, dp_isHalted = isHalted, dp_isResumeAck = resumeack,
      dp_readReg = (\<lambda>regno c. case dportReadReg P regno c of (e, v) \<Rightarrow> (e, v, c)),
      dp_writeReg = dportWriteReg P,
      dp_readMem = (\<lambda>a virt sz payload c. dportReadMem P a sz payload c),
      dp_writeMem = (\<lambda>a virt sz payload c. dportWriteMem P a sz payload c),
      dp_executeProgbuf = (\<lambda>pb c. executeProgbuf (progbuf_bytes pb) c)\<rparr>"

end
