(* ===== verification/Jtag_Scan.thy ===== *)
theory Jtag_Scan
  imports Jtag
begin

section \<open>A scan exchanges one register\<close>

text \<open>
  What \<open>OpenOcdWrapper::scan\<close> and \<open>DtmFunctional\<close> do together, bit by bit over the bit-bang
  protocol, is one atomic exchange: the register that the instruction selects is captured and
  read, and updated with the value of the host.
\<close>

subsection \<open>Serial shifting\<close>

text \<open>\<open>w\<close> is shifted out at the low end, \<open>v\<close> is shifted in at bit \<open>n - 1\<close>; \<open>k\<close> bits are done.\<close>

definition shifted :: "nat \<Rightarrow> u64 \<Rightarrow> u64 \<Rightarrow> nat \<Rightarrow> u64" where
  "shifted n w v k = drop_bit k w OR push_bit (n - k) (take_bit k v)"

lemma shifted_0 [simp]: "shifted n w v 0 = w"
  by (simp add: shifted_def)

lemma shifted_all: "drop_bit n w = 0 \<Longrightarrow> shifted n w v n = take_bit n v"
  by (simp add: shifted_def)

lemma shifted_Suc:
  assumes "k < n" and "n \<le> 64"
  shows "drop_bit 1 (shifted n w v k) OR push_bit (n - 1) (bit_to (bit v k)) = shifted n w v (Suc k)"
proof (rule bit_word_eqI)
  fix i assume "i < LENGTH(64)"
  then have i: "i < 64" by simp
  consider "i < n - Suc k" | "i = n - 1" | "n - Suc k \<le> i \<and> i < n - 1" | "n \<le> i"
    using assms by linarith
  then show "bit (drop_bit 1 (shifted n w v k) OR push_bit (n - 1) (bit_to (bit v k))) i = bit (shifted n w v (Suc k)) i"
  proof cases
    case 1
    then show ?thesis using assms i by (auto simp: shifted_def bit_to_def bit_simps)
  next
    case 2
    then show ?thesis using assms i by (auto simp: shifted_def bit_to_def bit_simps)
  next
    case 3
    then have "1 + i - (n - k) = i - (n - Suc k)" "\<not> n - 1 \<le> i" "n - k \<le> 1 + i" "n - Suc k \<le> i" 
      "i - (n - Suc k) < k \<longleftrightarrow> i - (n - Suc k) < Suc k" "i < 63"
      using assms by auto
    then show ?thesis using i by (auto simp: shifted_def bit_to_def bit_simps)
  next
    case 4
    then have "1 + i - (n - k) = i - (n - Suc k)" "\<not> i - (n - Suc k) < Suc k" "\<not> i - (n - Suc k) < k" "\<not> i - (n - 1) = 0"
      using assms by auto
    then show ?thesis using i by (auto simp: shifted_def bit_to_def bit_simps)
  qed
qed

lemma shifted_out: "k < n \<Longrightarrow> shifted n w v k AND 1 \<noteq> 0 \<longleftrightarrow> bit w k"
  by (simp add: and_one_eq flip: odd_iff_mod_2_eq_one) (simp add: shifted_def bit_0_eq flip: bit_0, simp add: bit_simps)

subsection \<open>One round of the protocol\<close>

definition tap_edge :: "dtm_cfg \<Rightarrow> 'd idmi \<Rightarrow> bool \<Rightarrow> bool \<Rightarrow> tap \<times> 'd \<Rightarrow> tap \<times> 'd" where
  "tap_edge C D tms tdi s =
     (case s of (t, d) \<Rightarrow>
        case tap_act C D (t\<lparr>t_tck := False, t_tdi := tdi, t_tms := tms\<rparr>, d) of (t, d) \<Rightarrow>
          (t\<lparr>t_estate := next_state (t_estate t) tms, t_tck := True\<rparr>, d))"

lemma act_pins [simp]:
  "t_tms (fst (tap_act C D (t, d))) = t_tms t" "t_tdi (fst (tap_act C D (t, d))) = t_tdi t"
  "t_tck (fst (tap_act C D (t, d))) = t_tck t" "t_estate (fst (tap_act C D (t, d))) = t_estate t"
  by (auto simp: tap_act_def capture_dr_def shift_dr_def update_dr_def capture_ir_def shift_ir_def update_ir_def
      Let_def split: jtag_state_t.split prod.splits)

lemma setPins_cycle:
  "setPins C D True tms tdi (setPins C D False tms tdi (t, d)) = tap_edge C D tms tdi (t, d)"
proof -
  obtain t' d' where a: "tap_act C D (t\<lparr>t_tck := False, t_tdi := tdi, t_tms := tms\<rparr>, d) = (t', d')"
    by fastforce
  have "t_tms t' = tms" "t_tdi t' = tdi" "t_tck t' = False"
    using act_pins [of C D "t\<lparr>t_tck := False, t_tdi := tdi, t_tms := tms\<rparr>" d] by (simp_all add: a)
  then show ?thesis
    using a by (cases t') (simp add: setPins_def tap_edge_def)
qed

lemma setPins_low: "getTDO (fst (setPins C D False tms tdi s)) = getTDO (fst s)"
  by (cases s) (simp add: setPins_def getTDO_def)

lemma server_append: "bb_server C D (a @ b) x = bb_server C D b (bb_server C D a x)"
  by (simp add: bb_server_def)

lemma server_Nil [simp]: "bb_server C D [] x = x"
  by (simp add: bb_server_def)

definition tdo_char :: "bool \<Rightarrow> string" where
  "tdo_char b = (if b then ''1'' else ''0'')"

lemma server_pins:
  "bb_server C D (pins tms tdo rd) (s, tx, ret)
   = (tap_edge C D tms tdo s, tx @ (if rd then tdo_char (getTDO (fst s)) else []), ret)"
proof -
  obtain t d where s: "s = (t, d)" by fastforce
  show ?thesis
    unfolding s by (cases tms; cases tdo; cases rd)
      (simp_all add: bb_server_def pins_def bb_char_def tdo_char_def setPins_cycle setPins_low)
qed

subsection \<open>The phases of the TAP\<close>

lemma edge_idle: "t_estate t \<in> {IDLE, SELECT_DR_SCAN, SELECT_IR_SCAN, EXIT1_DR, EXIT1_IR} \<Longrightarrow>
  tap_edge C D tms tdi (t, d)
  = (t\<lparr>t_tck := True, t_tms := tms, t_tdi := tdi, t_estate := next_state (t_estate t) tms\<rparr>, d)"
  by (auto simp: tap_edge_def tap_act_def)

lemma edge_work:
  "t_estate t = CAPTURE_IR \<Longrightarrow> tap_edge C D tms tdi (t, d)
   = ((capture_ir C t)\<lparr>t_tck := True, t_tms := tms, t_tdi := tdi, t_estate := next_state CAPTURE_IR tms\<rparr>, d)"
  "t_estate t = UPDATE_IR \<Longrightarrow> tap_edge C D tms tdi (t, d)
   = ((update_ir C t)\<lparr>t_tck := True, t_tms := tms, t_tdi := tdi, t_estate := next_state UPDATE_IR tms\<rparr>, d)"
  "t_estate t = CAPTURE_DR \<Longrightarrow> tap_edge C D tms tdi (t, d)
   = ((capture_dr C D d t)\<lparr>t_tck := True, t_tms := tms, t_tdi := tdi, t_estate := next_state CAPTURE_DR tms\<rparr>, d)"
  by (simp_all add: tap_edge_def tap_act_def capture_ir_def update_ir_def capture_dr_def Let_def)

lemma edge_shift:
  "t_estate t = SHIFT_IR \<Longrightarrow> tap_edge C D tms tdi (t, d)
   = (t\<lparr>t_tck := True, t_tms := tms, t_tdi := tdi, t_estate := next_state SHIFT_IR tms,
        t_dr := drop_bit 1 (t_dr t) OR push_bit (dtm_irlen C - 1) (bit_to tdi)\<rparr>, d)"
  "t_estate t = SHIFT_DR \<Longrightarrow> 0 < t_dr_length t \<Longrightarrow> tap_edge C D tms tdi (t, d)
   = (t\<lparr>t_tck := True, t_tms := tms, t_tdi := tdi, t_estate := next_state SHIFT_DR tms,
        t_dr := drop_bit 1 (t_dr t) OR push_bit (t_dr_length t - 1) (bit_to tdi)\<rparr>, d)"
  by (simp_all add: tap_edge_def tap_act_def shift_ir_def shift_dr_def)

text \<open>The bits \<open>k\<close> to \<open>n - 1\<close> of \<open>v\<close> on the wire, the last one with TMS.\<close>

definition bits_from :: "(nat \<Rightarrow> bool) \<Rightarrow> bool \<Rightarrow> nat \<Rightarrow> nat \<Rightarrow> string" where
  "bits_from v rd n k = concat (map (\<lambda>i. pins (Suc i = n) (v i) rd) [k..<n])"

lemma bits_from_step: "k < n \<Longrightarrow> bits_from v rd n k = pins (Suc k = n) (v k) rd @ bits_from v rd n (Suc k)"
  by (simp add: bits_from_def upt_conv_Cons)

lemma bits_from_end [simp]: "bits_from v rd n n = []"
  by (simp add: bits_from_def)

lemma shift_dr_phase:
  assumes "k < n" and "n \<le> 64" and "t_estate t = SHIFT_DR" and "t_dr_length t = n" and "t_dr t = shifted n w v k"
  shows "bb_server C D (bits_from (bit v) True n k) ((t, d), tx, ret)
    = ((t\<lparr>t_tck := True, t_tms := True, t_tdi := bit v (n - 1), t_estate := EXIT1_DR, t_dr := shifted n w v n\<rparr>, d),
       tx @ concat (map (\<lambda>i. tdo_char (bit w i)) [k..<n]), ret)"
  using assms
proof (induction "n - k" arbitrary: k t tx)
  case 0
  then show ?case by simp
next
  case (Suc m)
  have out: "getTDO t = bit w k"
    using Suc.prems shifted_out by (simp add: getTDO_def)
  note edge = edge_shift(2) [OF Suc.prems(3), of C D "Suc k = n" "bit v k" d]
  show ?case
  proof (cases "Suc k = n")
    case True
    then show ?thesis
      using Suc.prems edge out shifted_Suc [OF Suc.prems(1,2), of w v]
      by (auto simp: bits_from_step server_append server_pins upt_conv_Cons)
  next
    case False
    then have k: "m = n - Suc k" "Suc k < n" using Suc.hyps(2) Suc.prems(1) by auto
    then show ?thesis
      using Suc.prems edge out shifted_Suc [OF Suc.prems(1,2), of w v]
        Suc.hyps(1) [OF k(1) k(2) Suc.prems(2), of "fst (tap_edge C D False (bit v k) (t, d))"]
      by (simp add: bits_from_step [OF Suc.prems(1)] server_append server_pins upt_conv_Cons)
  qed
qed

lemma shift_ir_phase:
  assumes "k < n" and "n \<le> 64" and "t_estate t = SHIFT_IR" and "dtm_irlen C = n" and "t_dr t = shifted n w v k"
  shows "bb_server C D (bits_from (bit v) False n k) ((t, d), tx, ret)
    = ((t\<lparr>t_tck := True, t_tms := True, t_tdi := bit v (n - 1), t_estate := EXIT1_IR, t_dr := shifted n w v n\<rparr>, d), tx, ret)"
  using assms
proof (induction "n - k" arbitrary: k t)
  case 0
  then show ?case by simp
next
  case (Suc m)
  note edge = edge_shift(1) [OF Suc.prems(3), of C D "Suc k = n" "bit v k" d]
  show ?case
  proof (cases "Suc k = n")
    case True
    then show ?thesis
      using Suc.prems edge shifted_Suc [OF Suc.prems(1,2), of w v]
      by (auto simp: bits_from_step server_append server_pins)
  next
    case False
    then have k: "m = n - Suc k" "Suc k < n" using Suc.hyps(2) Suc.prems(1) by auto
    then show ?thesis
      using Suc.prems edge shifted_Suc [OF Suc.prems(1,2), of w v]
        Suc.hyps(1) [OF k(1) k(2) Suc.prems(2), of "fst (tap_edge C D False (bit v k) (t, d))"]
      by (simp add: bits_from_step [OF Suc.prems(1)] server_append server_pins)
  qed
qed

subsection \<open>The phases of the host\<close>

lemma scan_loop_step:
  "rq_valid h \<or> bbstate h \<noteq> IDLE_bb \<Longrightarrow> scan_step h = (tms, tdo, rd, h') \<Longrightarrow> scan_loop h' = Some (buf, h'') \<Longrightarrow>
   scan_loop h = Some (pins tms tdo rd @ buf, h'')"
  by (subst scan_loop.simps) simp

lemma scan_loop_done: "\<not> rq_valid h \<Longrightarrow> bbstate h = IDLE_bb \<Longrightarrow> scan_loop h = Some ([], h)"
  by (subst scan_loop.simps) simp

lemma host_shift_dr:
  assumes "k < rq_drlen h" and "bbstate h = DRSHIFT" and "drcnt h = k" and "o_dr h = drop_bit k v"
    and "scan_loop (h\<lparr>o_dr := drop_bit (rq_drlen h) v, drcnt := rq_drlen h, bbstate := DREXIT1\<rparr>) = Some (buf, h')"
  shows "scan_loop h = Some (bits_from (bit v) True (rq_drlen h) k @ buf, h')"
  using assms
proof (induction "rq_drlen h - k" arbitrary: k h)
  case 0
  then show ?case by simp
next
  case (Suc m)
  have tdo: "o_dr h AND 1 \<noteq> 0 \<longleftrightarrow> bit v k"
    using shifted_out [of 0 1 "drop_bit k v" 0] Suc.prems(4) by (simp add: bit_simps)
  have nx: "scan_step h = (Suc k = rq_drlen h, bit v k, True, h\<lparr>o_dr := drop_bit (Suc k) v, drcnt := Suc k,
      bbstate := (if Suc k = rq_drlen h then DREXIT1 else DRSHIFT)\<rparr>)"
    using Suc.prems tdo by (simp add: scan_step_def Let_def)
  show ?case
  proof (cases "Suc k = rq_drlen h")
    case True
    then show ?thesis
      using Suc.prems scan_loop_step [OF _ nx] by (simp add: bits_from_step flip: True)
  next
    case False
    then have k: "Suc k < rq_drlen h" "m = rq_drlen h - Suc k" using Suc.hyps(2) Suc.prems(1) by auto
    have "scan_loop (h\<lparr>o_dr := drop_bit (Suc k) v, drcnt := Suc k, bbstate := DRSHIFT\<rparr>)
        = Some (bits_from (bit v) True (rq_drlen h) (Suc k) @ buf, h')"
      using Suc.hyps(1) [of "h\<lparr>o_dr := drop_bit (Suc k) v, drcnt := Suc k, bbstate := DRSHIFT\<rparr>" "Suc k"] Suc.prems k
      by simp
    then show ?thesis
      using Suc.prems False scan_loop_step [OF _ nx] by (simp add: bits_from_step)
  qed
qed

lemma host_shift_ir:
  assumes "k < IRLEN" and "bbstate h = IRSHIFT" and "ircnt h = k"
    and "scan_loop (h\<lparr>ircnt := IRLEN, bbstate := IREXIT1\<rparr>) = Some (buf, h')"
  shows "scan_loop h = Some (bits_from (bit (o_ir h)) False IRLEN k @ buf, h')"
  using assms
proof (induction "IRLEN - k" arbitrary: k h)
  case 0
  then show ?case by simp
next
  case (Suc m)
  have nx: "scan_step h = (Suc k = IRLEN, bit (o_ir h) k, False, h\<lparr>ircnt := Suc k,
      bbstate := (if Suc k = IRLEN then IREXIT1 else IRSHIFT)\<rparr>)"
    using Suc.prems by (simp add: scan_step_def Let_def)
  show ?case
  proof (cases "Suc k = IRLEN")
    case True
    then show ?thesis
      using Suc.prems scan_loop_step [OF _ nx] by (simp add: bits_from_step flip: True)
  next
    case False
    then have k: "Suc k < IRLEN" "m = IRLEN - Suc k" using Suc.hyps(2) Suc.prems(1) by auto
    have "scan_loop (h\<lparr>ircnt := Suc k, bbstate := IRSHIFT\<rparr>) = Some (bits_from (bit (o_ir h)) False IRLEN (Suc k) @ buf, h')"
      using Suc.hyps(1) [of "Suc k" "h\<lparr>ircnt := Suc k, bbstate := IRSHIFT\<rparr>"] Suc.prems k by simp
    then show ?thesis
      using Suc.prems False scan_loop_step [OF _ nx] by (simp add: bits_from_step)
  qed
qed

subsection \<open>The exchange\<close>

text \<open>The length of a data register, and the atomic exchange of its contents.\<close>

definition dr_len :: "u32 \<Rightarrow> nat" where
  "dr_len ir = (if ir = IR_DBUS then 34 + ABITS else 32)"

definition scanned :: "u32 set" where
  "scanned = {IR_IDCODE, IR_DTMCONTROL, IR_DBUS}"

definition at_rest :: "tap \<Rightarrow> tap" where
  "at_rest t = t\<lparr>t_tck := True, t_tdi := True, t_tms := False, t_estate := IDLE\<rparr>"

definition dr_exchange :: "dtm_cfg \<Rightarrow> 'd idmi \<Rightarrow> u64 \<Rightarrow> tap \<times> 'd \<Rightarrow> u64 \<times> tap \<times> 'd" where
  "dr_exchange C D v s =
     (case s of (t, d) \<Rightarrow>
        let t = capture_dr C D d t
        in (t_dr t, apfst at_rest (update_dr D (t\<lparr>t_dr := v\<rparr>) d)))"

lemma capture_pins:
  "capture_dr C D d (t\<lparr>t_tck := a, t_tms := b, t_tdi := e, t_estate := st\<rparr>)
   = (capture_dr C D d t)\<lparr>t_tck := a, t_tms := b, t_tdi := e, t_estate := st\<rparr>"
  by (simp add: capture_dr_def Let_def)

lemma capture_fresh:
  "t_ir t \<in> ucast ` scanned \<Longrightarrow> capture_dr C D d (t\<lparr>t_dr := x\<rparr>) = capture_dr C D d t"
  by (auto simp: capture_dr_def Let_def scanned_def)

lemma ir_distinct:
  "(ucast IR_IDCODE :: u64) = 1" "(ucast IR_DTMCONTROL :: u64) = 0x10" "(ucast IR_DBUS :: u64) = 0x11"
  "(ucast IR_BYPASS :: u64) = 0x1f"
  by (simp_all add: IR_defs)

lemma capture_len:
  assumes "t_ir t = ucast ir" and "ir \<in> scanned" and "dtm_abits C = ABITS"
  shows "t_dr_length (capture_dr C D d t) = dr_len ir" "drop_bit (dr_len ir) (t_dr (capture_dr C D d t)) = 0"
proof -
  have u: "drop_bit 32 (ucast (w :: u32) :: u64) = 0" for w
    by (rule bit_word_eqI) (auto simp: bit_simps dest: bit_imp_le_length)
  have m: "drop_bit 41 (setf 34 7 a (setf 2 32 b (setf 0 2 e 0)) :: u64) = 0" for a b e
    by (rule bit_word_eqI) (auto simp: bit_simps bit_setf)
  show "t_dr_length (capture_dr C D d t) = dr_len ir" "drop_bit (dr_len ir) (t_dr (capture_dr C D d t)) = 0"
    using assms u m
    by (auto simp: capture_dr_def Let_def scanned_def ir_distinct dr_len_def ABITS_def IR_defs)
qed

lemma update_pins:
  "update_dr D (t\<lparr>t_tck := a, t_tms := b, t_tdi := e, t_estate := st\<rparr>) d
   = apfst (\<lambda>t. t\<lparr>t_tck := a, t_tms := b, t_tdi := e, t_estate := st\<rparr>) (update_dr D t d)"
  by (auto simp: update_dr_def Let_def split: prod.split)

lemma edge_update:
  assumes "t_estate t = UPDATE_DR"
  shows "tap_edge C D False True (t, d) = apfst at_rest (update_dr D t d)"
proof -
  obtain t' d' where u: "update_dr D t d = (t', d')" by fastforce
  have "t_estate t' = UPDATE_DR" using assms u act_pins(4) [of C D t d] by (simp add: tap_act_def)
  moreover have e: "t\<lparr>t_tck := False, t_tdi := True, t_tms := False\<rparr>
      = t\<lparr>t_tck := False, t_tms := False, t_tdi := True, t_estate := UPDATE_DR\<rparr>"
    using assms by (cases t) simp
  have "update_dr D (t\<lparr>t_tck := False, t_tdi := True, t_tms := False\<rparr>) d
      = (t'\<lparr>t_tck := False, t_tms := False, t_tdi := True, t_estate := UPDATE_DR\<rparr>, d')"
    by (subst e, subst update_pins) (simp add: u)
  ultimately show ?thesis
    using assms u by (cases t') (simp add: tap_edge_def tap_act_def at_rest_def)
qed

lemma tap_dr_scan:
  assumes "t_estate t = SELECT_DR_SCAN" and "t_ir t = ucast ir" and "ir \<in> scanned" and "dtm_abits C = ABITS"
  shows "bb_server C D (pins False True False @ pins False True False @ bits_from (bit v) True (dr_len ir) 0
        @ pins True True False @ pins False True False) ((t, d), tx, ret)
    = (case dr_exchange C D (take_bit (dr_len ir) v) (t, d) of (w, s) \<Rightarrow>
         (s, tx @ concat (map (\<lambda>i. tdo_char (bit w i)) [0..<dr_len ir]), ret))"
proof -
  let ?n = "dr_len ir" and ?c = "capture_dr C D d t"
  have n: "0 < ?n" "?n \<le> 64" by (simp_all add: dr_len_def ABITS_def)
  note c = capture_len [OF assms(2-4), of D d]
  let ?t = "?c\<lparr>t_tck := True, t_tms := False, t_tdi := True, t_estate := SHIFT_DR\<rparr>"
  have s: "bb_server C D (bits_from (bit v) True ?n 0) ((?t, d), tx, ret)
     = ((?t\<lparr>t_tck := True, t_tms := True, t_tdi := bit v (?n - 1), t_estate := EXIT1_DR, t_dr := take_bit ?n v\<rparr>, d),
        tx @ concat (map (\<lambda>i. tdo_char (bit (t_dr ?c) i)) [0..<?n]), ret)" for tx
    using shift_dr_phase [where t = ?t and k = 0 and n = ?n and w = "t_dr ?c" and v = v and C = C and D = D] n c
    by (simp add: shifted_all)
  show ?thesis
    using assms(1) s
    by (simp add: server_append server_pins edge_idle edge_work capture_pins edge_update dr_exchange_def)
      (cases "update_dr D (?c\<lparr>t_dr := take_bit ?n v\<rparr>) d", simp add: update_pins at_rest_def)
qed

lemma bits_from_cong: "(\<And>i. i < n \<Longrightarrow> f i = g i) \<Longrightarrow> bits_from f rd n k = bits_from g rd n k"
  unfolding bits_from_def by (intro arg_cong [where f = concat] map_cong) auto

lemma tap_ir_scan:
  assumes "t_estate t = SELECT_DR_SCAN" and "ir \<in> scanned" and "dtm_irlen C = IRLEN"
  shows "bb_server C D (pins True True False @ pins False True False @ pins False True False
        @ bits_from (bit ir) False IRLEN 0 @ pins True True False @ pins True True False) ((t, d), tx, ret)
    = ((t\<lparr>t_tck := True, t_tms := True, t_tdi := True, t_estate := SELECT_DR_SCAN, t_ir := ucast ir, t_dr := ucast ir\<rparr>, d),
       tx, ret)"
proof -
  let ?c = "capture_ir C t" and ?v = "ucast ir :: u64"
  let ?t = "?c\<lparr>t_tck := True, t_tms := False, t_tdi := True, t_estate := SHIFT_IR\<rparr>"
  have "drop_bit IRLEN (t_dr ?c) = 0"
    by (rule bit_word_eqI) (auto simp: capture_ir_def assms(3) IRLEN_def bit_simps simp flip: bit_0)
  then have s: "bb_server C D (bits_from (bit ?v) False IRLEN 0) ((?t, d), tx, ret)
     = ((?t\<lparr>t_tck := True, t_tms := True, t_tdi := bit ?v (IRLEN - 1), t_estate := EXIT1_IR, t_dr := take_bit IRLEN ?v\<rparr>, d), tx, ret)"
    using shift_ir_phase [where t = ?t and k = 0 and n = IRLEN and w = "t_dr ?c" and v = ?v and C = C and D = D] assms(3)
    by (simp add: shifted_all IRLEN_def)
  have b: "bits_from (bit ir) False IRLEN 0 = bits_from (bit ?v) False IRLEN 0"
    by (rule bits_from_cong) (simp add: IRLEN_def bit_simps)
  have v: "take_bit IRLEN ?v = ?v"
    using assms(2) by (auto simp: scanned_def IRLEN_def ir_distinct)
  have "capture_ir C (t\<lparr>t_tck := x1, t_tms := x2, t_tdi := x3, t_estate := x4\<rparr>) = ?c\<lparr>t_tck := x1, t_tms := x2, t_tdi := x3, t_estate := x4\<rparr>"
    for x1 x2 x3 x4 by (simp add: capture_ir_def)
  then show ?thesis
    using assms(1,3) s v
    by (simp add: b server_append server_pins edge_idle edge_work update_ir_def take_bit_eq_mask [symmetric])
      (simp add: capture_ir_def)
qed

subsection \<open>The host's side\<close>

lemma host_dr_scan:
  assumes "\<not> rq_valid h" and "bbstate h = DRSCAN" and "o_ir h = rq_ir h" and "0 < rq_drlen h"
  shows "scan_loop h = Some (pins False True False @ pins False True False @ bits_from (bit (rq_dr h)) True (rq_drlen h) 0
      @ pins True True False @ pins False True False,
    h\<lparr>o_dr := drop_bit (Suc (rq_drlen h)) (rq_dr h), drcnt := rq_drlen h, bbstate := IDLE_bb\<rparr>)"
proof -
  let ?n = "rq_drlen h" and ?v = "rq_dr h"
  let ?e = "h\<lparr>o_dr := drop_bit (Suc ?n) ?v, drcnt := ?n, bbstate := IDLE_bb\<rparr>"
  have 1: "scan_loop (h\<lparr>o_dr := drop_bit (Suc ?n) ?v, drcnt := ?n, bbstate := DRUPDATE\<rparr>)
      = Some (pins False True False @ [], ?e)"
    by (rule scan_loop_step [where h' = ?e]) (use assms in \<open>simp_all add: scan_step_def scan_loop_done\<close>)
  have 2: "scan_loop (h\<lparr>o_dr := drop_bit ?n ?v, drcnt := ?n, bbstate := DREXIT1\<rparr>)
      = Some (pins True True False @ pins False True False, ?e)"
    by (rule scan_loop_step [where h' = "h\<lparr>o_dr := drop_bit (Suc ?n) ?v, drcnt := ?n, bbstate := DRUPDATE\<rparr>"])
      (use 1 in \<open>simp_all add: scan_step_def\<close>)
  have 3: "scan_loop (h\<lparr>o_dr := ?v, drcnt := 0, bbstate := DRSHIFT\<rparr>)
      = Some (bits_from (bit ?v) True ?n 0 @ pins True True False @ pins False True False, ?e)"
    using host_shift_dr [where h = "h\<lparr>o_dr := ?v, drcnt := 0, bbstate := DRSHIFT\<rparr>" and k = 0 and v = ?v] assms(4) 2
    by simp
  have 4: "scan_loop (h\<lparr>bbstate := DRCAPTURE\<rparr>)
      = Some (pins False True False @ bits_from (bit ?v) True ?n 0 @ pins True True False @ pins False True False, ?e)"
    by (rule scan_loop_step [where h' = "h\<lparr>o_dr := ?v, drcnt := 0, bbstate := DRSHIFT\<rparr>"])
      (use 3 in \<open>simp_all add: scan_step_def\<close>)
  show ?thesis
    by (rule scan_loop_step [where h' = "h\<lparr>bbstate := DRCAPTURE\<rparr>"]) (use 4 assms in \<open>simp_all add: scan_step_def\<close>)
qed

lemma host_ir_scan:
  assumes "\<not> rq_valid h" and "bbstate h = DRSCAN" and "o_ir h \<noteq> rq_ir h"
    and "scan_loop (h\<lparr>o_ir := rq_ir h, ircnt := IRLEN, bbstate := DRSCAN\<rparr>) = Some (buf, h')"
  shows "scan_loop h = Some (pins True True False @ pins False True False @ pins False True False
      @ bits_from (bit (rq_ir h)) False IRLEN 0 @ pins True True False @ pins True True False @ buf, h')"
proof -
  let ?h = "\<lambda>k st. h\<lparr>o_ir := rq_ir h, ircnt := k, bbstate := st\<rparr>"
  have 1: "scan_loop (?h IRLEN IRUPDATE) = Some (pins True True False @ buf, h')"
    by (rule scan_loop_step [where h' = "?h IRLEN DRSCAN"]) (use assms in \<open>simp_all add: scan_step_def\<close>)
  have 2: "scan_loop (?h IRLEN IREXIT1) = Some (pins True True False @ pins True True False @ buf, h')"
    by (rule scan_loop_step [where h' = "?h IRLEN IRUPDATE"]) (use 1 in \<open>simp_all add: scan_step_def\<close>)
  have 3: "scan_loop (?h 0 IRSHIFT) = Some (bits_from (bit (rq_ir h)) False IRLEN 0
      @ pins True True False @ pins True True False @ buf, h')"
    using host_shift_ir [where h = "?h 0 IRSHIFT" and k = 0] 2 by (simp add: IRLEN_def)
  have 4: "scan_loop (h\<lparr>bbstate := IRCAPTURE\<rparr>) = Some (pins False True False @ bits_from (bit (rq_ir h)) False IRLEN 0
      @ pins True True False @ pins True True False @ buf, h')"
    by (rule scan_loop_step [where h' = "?h 0 IRSHIFT"]) (use 3 in \<open>simp_all add: scan_step_def\<close>)
  have 5: "scan_loop (h\<lparr>bbstate := IRSCAN\<rparr>) = Some (pins False True False @ pins False True False
      @ bits_from (bit (rq_ir h)) False IRLEN 0 @ pins True True False @ pins True True False @ buf, h')"
    by (rule scan_loop_step [where h' = "h\<lparr>bbstate := IRCAPTURE\<rparr>"]) (use 4 in \<open>simp_all add: scan_step_def\<close>)
  show ?thesis
    by (rule scan_loop_step [where h' = "h\<lparr>bbstate := IRSCAN\<rparr>"]) (use 5 assms in \<open>simp_all add: scan_step_def\<close>)
qed

lemma tdo_tdi: "tdo_char b = [if b then CHR ''1'' else CHR ''0'']"
  by (simp add: tdo_char_def)

lemma received:
  assumes "k < rq_drlen h" and "rq_drlen h \<le> 64" and "msgcnt h = k" and "o_dr h = shifted (rq_drlen h) r w k"
  shows "ocd_processRxBuffer (concat (map (\<lambda>i. tdo_char (bit w i)) [k..<rq_drlen h])) h
    = h\<lparr>o_dr := shifted (rq_drlen h) r w (rq_drlen h), msgcnt := rq_drlen h\<rparr>"
  using assms
proof (induction "rq_drlen h - k" arbitrary: k h)
  case 0
  then show ?case by simp
next
  case (Suc m)
  let ?h = "h\<lparr>o_dr := shifted (rq_drlen h) r w (Suc k), msgcnt := Suc k\<rparr>"
  have e: "drop_bit 1 (o_dr h) OR push_bit (rq_drlen h - 1) (bit_to (bit w k)) = shifted (rq_drlen h) r w (Suc k)"
    using shifted_Suc [OF Suc.prems(1,2), of r w] Suc.prems(4) by simp
  let ?rest = "concat (map (\<lambda>i. tdo_char (bit w i)) [Suc k..<rq_drlen h])"
  have "concat (map (\<lambda>i. tdo_char (bit w i)) [k..<rq_drlen h]) = (if bit w k then CHR ''1'' else CHR ''0'') # ?rest"
    using Suc.prems(1) by (simp add: upt_conv_Cons tdo_tdi)
  moreover have c: "((if bit w k then CHR ''1'' else CHR ''0'') = CHR ''1'') = bit w k" by simp
  ultimately have step: "ocd_processRxBuffer (concat (map (\<lambda>i. tdo_char (bit w i)) [k..<rq_drlen h])) h
      = (if Suc k \<ge> rq_drlen h then ?h else ocd_processRxBuffer ?rest ?h)"
    using e Suc.prems(1,3) by (simp only: ocd_processRxBuffer.simps Let_def c) simp
  show ?case
  proof (cases "Suc k = rq_drlen h")
    case True
    then show ?thesis unfolding step by simp
  next
    case False
    then have "m = rq_drlen ?h - Suc k" "Suc k < rq_drlen ?h" using Suc.hyps(2) Suc.prems(1) by auto
    then show ?thesis
      unfolding step using Suc.prems(2) Suc.hyps(1) [of ?h "Suc k"] by simp
  qed
qed

subsection \<open>Both ends together\<close>

lemma exchange_pins:
  assumes "t_ir t \<in> ucast ` scanned"
  shows "dr_exchange C D v (t\<lparr>t_dr := y, t_tck := a, t_tms := b, t_tdi := e, t_estate := st\<rparr>, d) = dr_exchange C D v (t, d)"
proof -
  let ?c = "capture_dr C D d t"
  have c: "capture_dr C D d (t\<lparr>t_dr := y, t_tck := a, t_tms := b, t_tdi := e, t_estate := st\<rparr>)
      = ?c\<lparr>t_tck := a, t_tms := b, t_tdi := e, t_estate := st\<rparr>"
    using capture_fresh [OF assms, of C D d y] by (simp add: capture_pins)
  have u: "?c\<lparr>t_tck := a, t_tms := b, t_tdi := e, t_estate := st, t_dr := v\<rparr>
      = ?c\<lparr>t_dr := v, t_tck := a, t_tms := b, t_tdi := e, t_estate := st\<rparr>"
    by simp
  show ?thesis
    unfolding dr_exchange_def Let_def prod.case c u update_pins
    by (cases "update_dr D (?c\<lparr>t_dr := v\<rparr>) d") (simp add: at_rest_def)
qed

lemma pins_length: "length (pins tms tdo rd) = (if rd then 3 else 2)"
  by (simp add: pins_def Let_def)

lemma bits_from_length: "length (bits_from v rd n 0) = n * (if rd then 3 else 2)"
  by (simp add: bits_from_def length_concat comp_def pins_length sum_list_triv)

text \<open>The characters that a scan sends, and what they do at the other end.\<close>

lemma scan_characters:
  assumes C: "dtm_irlen C = IRLEN" "dtm_abits C = ABITS" and ir: "ir \<in> scanned"
    and idle: "bbstate h = IDLE_bb" "t_estate t = IDLE" and sync: "o_ir h = ir \<longrightarrow> t_ir t = ucast ir"
  shows "\<exists>buf h'. scan_loop (h\<lparr>rq_ir := ir, rq_dr := v, rq_drlen := dr_len ir, rq_valid := True\<rparr>) = Some (buf, h')
    \<and> length buf < 1024 \<and> bbstate h' = IDLE_bb \<and> o_ir h' = ir \<and> rq_drlen h' = dr_len ir
    \<and> o_dr h' = drop_bit (Suc (dr_len ir)) v \<and> o_ub h' = o_ub h
    \<and> bb_server C D buf ((t, d), [], 0)
      = (case dr_exchange C D (take_bit (dr_len ir) v) (t\<lparr>t_ir := ucast ir\<rparr>, d) of (w, s) \<Rightarrow>
           (s, concat (map (\<lambda>i. tdo_char (bit w i)) [0..<dr_len ir]), 0))"
proof -
  let ?n = "dr_len ir"
  let ?h = "h\<lparr>rq_ir := ir, rq_dr := v, rq_drlen := ?n, rq_valid := False, bbstate := DRSCAN\<rparr>"
  let ?dr = "pins False True False @ pins False True False @ bits_from (bit v) True ?n 0 @ pins True True False @ pins False True False"
  let ?t = "t\<lparr>t_tck := True, t_tms := True, t_tdi := True, t_estate := SELECT_DR_SCAN\<rparr>"
  have n: "0 < ?n" "3 * ?n \<le> 123" by (simp_all add: dr_len_def ABITS_def)
  have first: "scan_loop ?h = Some (buf, h') \<Longrightarrow>
      scan_loop (h\<lparr>rq_ir := ir, rq_dr := v, rq_drlen := ?n, rq_valid := True\<rparr>) = Some (pins True True False @ buf, h')" for buf h'
    by (rule scan_loop_step) (simp_all add: scan_step_def idle)
  have edge: "bb_server C D (pins True True False) ((t, d), [], 0) = ((?t, d), [], 0)"
    using idle by (simp add: server_pins edge_idle)
  have mem: "ucast ir \<in> (ucast ` scanned :: u64 set)" using ir by simp
  show ?thesis
  proof (cases "o_ir h = ir")
    case True
    let ?e = "?h\<lparr>o_dr := drop_bit (Suc ?n) v, drcnt := ?n, bbstate := IDLE_bb\<rparr>"
    have run: "scan_loop ?h = Some (?dr, ?e)"
      using host_dr_scan [where h = ?h] n True by simp
    have tir: "t_ir t = ucast ir" "t\<lparr>t_ir := ucast ir\<rparr> = t" using True sync by simp_all
    have "dr_exchange C D x (?t, d) = dr_exchange C D x (t, d)" for x
      using exchange_pins [where t = t and y = "t_dr t" and C = C and D = D and v = x] mem tir by simp
    then have "bb_server C D (pins True True False @ ?dr) ((t, d), [], 0)
        = (case dr_exchange C D (take_bit ?n v) (t, d) of (w, s) \<Rightarrow>
             (s, concat (map (\<lambda>i. tdo_char (bit w i)) [0..<?n]), 0))"
      unfolding server_append [of _ _ "pins True True False"] edge
      using tap_dr_scan [of ?t ir C D v d "[]" 0] tir ir C by simp
    moreover have "length (pins True True False @ ?dr) < 1024"
      using n by (simp add: pins_length bits_from_length)
    ultimately show ?thesis
      using first [OF run] True tir(2) by (intro exI [of _ "pins True True False @ ?dr"] exI [of _ ?e]) simp
  next
    case False
    let ?g = "?h\<lparr>o_ir := ir, ircnt := IRLEN\<rparr>"
    let ?e = "?g\<lparr>o_dr := drop_bit (Suc ?n) v, drcnt := ?n, bbstate := IDLE_bb\<rparr>"
    let ?irs = "pins True True False @ pins False True False @ pins False True False
        @ bits_from (bit ir) False IRLEN 0 @ pins True True False @ pins True True False"
    let ?u = "t\<lparr>t_tck := True, t_tms := True, t_tdi := True, t_estate := SELECT_DR_SCAN, t_ir := ucast ir, t_dr := ucast ir\<rparr>"
    have "scan_loop ?g = Some (?dr, ?e)"
      using host_dr_scan [where h = ?g] n by simp
    moreover have g: "?h\<lparr>o_ir := rq_ir ?h, ircnt := IRLEN, bbstate := DRSCAN\<rparr> = ?g" by simp
    ultimately have run: "scan_loop ?h = Some (?irs @ ?dr, ?e)"
      using host_ir_scan [where h = ?h and buf = ?dr and h' = ?e, unfolded g] False by simp
    have u: "?u = (t\<lparr>t_ir := ucast ir\<rparr>)\<lparr>t_dr := ucast ir, t_tck := True, t_tms := True, t_tdi := True, t_estate := SELECT_DR_SCAN\<rparr>"
      by simp
    have "dr_exchange C D x (?u, d) = dr_exchange C D x (t\<lparr>t_ir := ucast ir\<rparr>, d)" for x
      unfolding u by (rule exchange_pins) (simp add: mem)
    moreover have "bb_server C D ?irs ((?t, d), [], 0) = ((?u, d), [], 0)"
      using tap_ir_scan [of ?t ir C D d "[]" 0] ir C by simp
    moreover have "bb_server C D (pins True True False @ ?irs @ ?dr) ((t, d), [], 0)
        = bb_server C D ?dr (bb_server C D ?irs (bb_server C D (pins True True False) ((t, d), [], 0)))"
      by (simp add: server_append)
    ultimately have "bb_server C D (pins True True False @ ?irs @ ?dr) ((t, d), [], 0)
        = (case dr_exchange C D (take_bit ?n v) (t\<lparr>t_ir := ucast ir\<rparr>, d) of (w, s) \<Rightarrow>
             (s, concat (map (\<lambda>i. tdo_char (bit w i)) [0..<?n]), 0))"
      using tap_dr_scan [of ?u ir C D v d "[]" 0] ir C by (simp add: edge)
    moreover have "length (pins True True False @ ?irs @ ?dr) < 1024"
      using n by (simp add: pins_length bits_from_length IRLEN_def)
    ultimately show ?thesis
      using first [OF run]
      by (intro exI [of _ "pins True True False @ ?irs @ ?dr"] exI [of _ ?e]) simp
  qed
qed

lemma exchange_fields:
  assumes "dr_exchange C D v (t, d) = (w, t', d')"
  shows "t_estate t' = IDLE" "t_ir t' = t_ir t" "w = t_dr (capture_dr C D d t)"
proof -
  have "t_ir (fst (update_dr D t d)) = t_ir t" for t
    by (auto simp: update_dr_def Let_def split: prod.split)
  moreover have "t_ir (capture_dr C D d t) = t_ir t"
    by (simp add: capture_dr_def Let_def)
  ultimately have "t_ir (fst (update_dr D ((capture_dr C D d t)\<lparr>t_dr := v\<rparr>) d)) = t_ir t" by simp
  then show "t_estate t' = IDLE" "t_ir t' = t_ir t" "w = t_dr (capture_dr C D d t)"
    using assms by (auto simp: dr_exchange_def Let_def at_rest_def apfst_def map_prod_def split: prod.splits)
qed

lemma scan_exchange:
  assumes C: "dtm_irlen C = IRLEN" "dtm_abits C = ABITS" and ir: "ir \<in> scanned"
    and idle: "bbstate h = IDLE_bb" "t_estate t = IDLE" and sync: "o_ir h = ir \<longrightarrow> t_ir t = ucast ir"
  shows "\<exists>h' w s. scan C D ir v (dr_len ir) (h, t, d) = Some (h', s)
    \<and> dr_exchange C D (take_bit (dr_len ir) v) (t\<lparr>t_ir := ucast ir\<rparr>, d) = (w, s)
    \<and> o_dr h' = w \<and> bbstate h' = IDLE_bb \<and> o_ir h' = ir \<and> o_ub h' = o_ub h"
proof -
  let ?n = "dr_len ir"
  obtain buf h1 where run: "scan_loop (h\<lparr>rq_ir := ir, rq_dr := v, rq_drlen := ?n, rq_valid := True\<rparr>) = Some (buf, h1)"
    and h1: "bbstate h1 = IDLE_bb" "o_ir h1 = ir" "rq_drlen h1 = ?n" "o_dr h1 = drop_bit (Suc ?n) v" "o_ub h1 = o_ub h"
    and server: "bb_server C D buf ((t, d), [], 0)
      = (case dr_exchange C D (take_bit ?n v) (t\<lparr>t_ir := ucast ir\<rparr>, d) of (w, s) \<Rightarrow>
           (s, concat (map (\<lambda>i. tdo_char (bit w i)) [0..<?n]), 0))"
    using scan_characters [OF assms, of v D d] by blast
  obtain w t' d' where ex: "dr_exchange C D (take_bit ?n v) (t\<lparr>t_ir := ucast ir\<rparr>, d) = (w, t', d')"
    using prod_cases3 by blast
  have n: "0 < ?n" "?n \<le> 64" "64 \<le> Suc ?n + ?n" by (simp_all add: dr_len_def ABITS_def)
  have "drop_bit ?n (drop_bit (Suc ?n) v) = 0"
    by (rule bit_word_eqI) (use n(3) in \<open>auto simp: bit_simps dest: bit_imp_le_length\<close>)
  moreover have "w = t_dr (capture_dr C D d (t\<lparr>t_ir := ucast ir\<rparr>))"
    using exchange_fields(3) [OF ex] .
  then have "take_bit ?n w = w"
    using capture_len(2) [of "t\<lparr>t_ir := ucast ir\<rparr>" ir C D d] ir C(2)
    by (simp add: take_bit_eq_self_iff_drop_bit_eq_0)
  ultimately have w: "shifted ?n (drop_bit (Suc ?n) v) w ?n = w"
    by (simp add: shifted_all)
  have rx: "ocd_processRxBuffer (concat (map (\<lambda>i. tdo_char (bit w i)) [0..<?n])) (h1\<lparr>msgcnt := 0\<rparr>)
      = h1\<lparr>o_dr := w, msgcnt := ?n\<rparr>"
    using received [where h = "h1\<lparr>msgcnt := 0\<rparr>" and k = 0 and r = "drop_bit (Suc ?n) v" and w = w] n h1 w by simp
  show ?thesis
    using run server ex rx h1 n(1) by (simp add: scan_def ocd_exchange_def)
qed

subsection \<open>Requests to the debug module\<close>

text \<open>
  Both ends are idle, and the instruction register that the host remembers is the one of the
  TAP: what every scan keeps, and what a reset followed by reading the identification code
  establishes.
\<close>

definition linked :: "'d link \<Rightarrow> bool" where
  "linked l = (case l of (h, t, d) \<Rightarrow>
     bbstate h = IDLE_bb \<and> t_estate t = IDLE \<and> (o_ir h \<in> scanned \<longrightarrow> t_ir t = ucast (o_ir h)))"

definition module_of :: "'d link \<Rightarrow> 'd" where
  "module_of l = snd (snd l)"

lemma scan_linked:
  assumes "dtm_irlen C = IRLEN" and "dtm_abits C = ABITS" and "ir \<in> scanned" and "linked (h, t, d)"
  shows "\<exists>h' w s. scan C D ir v (dr_len ir) (h, t, d) = Some (h', s) \<and> linked (h', s) \<and> o_dr h' = w \<and> o_ir h' = ir
    \<and> dr_exchange C D (take_bit (dr_len ir) v) (t\<lparr>t_ir := ucast ir\<rparr>, d) = (w, s)"
proof -
  obtain h' w s where sc: "scan C D ir v (dr_len ir) (h, t, d) = Some (h', s)"
      "dr_exchange C D (take_bit (dr_len ir) v) (t\<lparr>t_ir := ucast ir\<rparr>, d) = (w, s)"
      "o_dr h' = w" "bbstate h' = IDLE_bb" "o_ir h' = ir"
    using scan_exchange [OF assms(1-3), where h = h and t = t and v = v and D = D and d = d] assms(3,4) by (auto simp: linked_def)
  obtain t' d' where s: "s = (t', d')" by fastforce
  show ?thesis
    using sc exchange_fields(1,2) [OF sc(2) [unfolded s]] by (auto simp: linked_def s)
qed

definition dmi_request :: "u32 \<Rightarrow> u32 \<Rightarrow> EDmiOperation \<Rightarrow> u64" where
  "dmi_request adr data op = push_bit 2 (push_bit 32 (ucast adr) OR ucast data) OR dmi_op_code op"

lemma scanDmi_alt:
  "scanDmi C D adr data op l =
     Option.bind (scan C D IR_DBUS (dmi_request adr data op) (dr_len IR_DBUS) l)
       (\<lambda>l. Option.bind (scan C D IR_DBUS (dmi_request adr 0 DmiOp_None) (dr_len IR_DBUS) l)
         (\<lambda>l. Some (getf 2 32 (o_dr (fst l)), l)))"
proof -
  have "push_bit 34 (ucast adr :: u64) = dmi_request adr 0 DmiOp_None" by (simp add: dmi_request_def)
  then show ?thesis by (simp add: scanDmi_def dmi_request_def dr_len_def Let_def)
qed

lemma mask_bits: "w AND 2 \<noteq> 0 \<longleftrightarrow> bit w 1" "w AND 1 \<noteq> 0 \<longleftrightarrow> bit w 0" for w :: u64
  using bit_iff_and_push_bit_not_eq_0 [of w 1] bit_iff_and_push_bit_not_eq_0 [of w 0] by simp_all

lemma request_fields:
  assumes "adr < 128"
  shows "getf 34 7 (take_bit 41 (dmi_request adr data op)) = adr" (is ?A)
    and "getf 2 32 (take_bit 41 (dmi_request adr data op)) = data" (is ?B)
    and "bit (take_bit 41 (dmi_request adr data op)) 1 \<longleftrightarrow> op \<in> {DmiOp_Write, DmiOp_ReadWrite}" (is ?C)
    and "bit (take_bit 41 (dmi_request adr data op)) 0 \<longleftrightarrow> op \<in> {DmiOp_Read, DmiOp_ReadWrite}" (is ?D)
proof -
  have "drop_bit 2 (dmi_op_code op) = 0" by (cases op) simp_all
  then have op: "\<not> bit (dmi_op_code op) (2 + n)" for n by (metis bit_0_eq bit_drop_bit_eq bot_apply bot_bool_def comp_apply)
  have "unat (take_bit 7 adr) = unat adr"
    using assms by (simp add: unsigned_take_bit_eq take_bit_nat_eq_self word_less_nat_alt)
  then have "take_bit 7 adr = adr" by (rule unsigned_word_eqI)
  then have adr: "bit adr n \<Longrightarrow> n < 7" for n
    by (metis bit_take_bit_iff)
  show ?A
  proof (rule bit_word_eqI)
    fix n assume "n < LENGTH(32)"
    then show "bit (getf 34 7 (take_bit 41 (dmi_request adr data op)) :: u32) n = bit adr n"
      using op [of "32 + n"] adr [of n] by (auto simp: dmi_request_def bit_getf bit_simps dest: bit_imp_le_length)
  qed
  show ?B
  proof (rule bit_word_eqI)
    fix n assume "n < LENGTH(32)"
    then show "bit (getf 2 32 (take_bit 41 (dmi_request adr data op)) :: u32) n = bit data n"
      using op [of n] by (auto simp: dmi_request_def bit_getf bit_simps)
  qed
  show ?C ?D
    by (cases op; simp add: dmi_request_def bit_simps; simp add: bit_iff_odd)+
qed

text \<open>One exchange with the debug module's register.\<close>

lemma dmi_scan:
  assumes C: "dtm_irlen C = IRLEN" "dtm_abits C = ABITS" and l: "linked (h, t, d)" and adr: "adr < 128"
  shows "\<exists>h' t' d'. scan C D IR_DBUS (dmi_request adr data op) (dr_len IR_DBUS) (h, t, d) = Some (h', t', d')
    \<and> linked (h', t', d') \<and> getf 2 32 (o_dr h') = t_dmi_data t
    \<and> (t_dmi_data t', d') =
        (if op \<in> {DmiOp_Write, DmiOp_ReadWrite} then (data, dmi_write_op D adr data d)
         else if op = DmiOp_Read then dmi_read_op D adr data d else (data, d))"
proof -
  have sc: "IR_DBUS \<in> scanned" by (simp add: scanned_def)
  obtain h' w t' d' where s: "scan C D IR_DBUS (dmi_request adr data op) (dr_len IR_DBUS) (h, t, d) = Some (h', t', d')"
      "linked (h', t', d')" "o_dr h' = w"
      "dr_exchange C D (take_bit (dr_len IR_DBUS) (dmi_request adr data op)) (t\<lparr>t_ir := ucast IR_DBUS\<rparr>, d) = (w, t', d')"
    using scan_linked [OF C sc l, of D "dmi_request adr data op"] by (metis prod.collapse)
  have "w = t_dr (capture_dr C D d (t\<lparr>t_ir := ucast IR_DBUS\<rparr>))"
    using exchange_fields(3) [OF s(4)] .
  moreover have "ucast (take_bit 32 (ucast (v :: u32) :: u64)) = v" for v
    by (rule bit_word_eqI) (auto simp: bit_simps)
  ultimately have "getf 2 32 w = t_dmi_data t"
    by (simp add: capture_dr_def ir_distinct getf_setf_same getf_setf_other)
  moreover have "(t_dmi_data t', d') = (if op \<in> {DmiOp_Write, DmiOp_ReadWrite} then (data, dmi_write_op D adr data d)
         else if op = DmiOp_Read then dmi_read_op D adr data d else (data, d))"
    using s(4) request_fields [OF adr, of data op]
    by (cases op)
      (auto simp: dr_exchange_def Let_def capture_dr_def update_dr_def ir_distinct dr_len_def ABITS_def mask_bits at_rest_def
        split: prod.splits)
  ultimately show ?thesis using s by blast
qed

text \<open>\<open>scanDmi\<close> as the two operations of the interface \<open>IDmi\<close>.\<close>

lemma scanDmi_write:
  assumes C: "dtm_irlen C = IRLEN" "dtm_abits C = ABITS" and l: "linked l" and adr: "adr < 128"
  shows "\<exists>l'. scanDmi C D adr data DmiOp_Write l = Some (data, l') \<and> linked l'
    \<and> module_of l' = dmi_write_op D adr data (module_of l)"
proof -
  obtain h t d where hl: "l = (h, t, d)" using prod_cases3 by blast
  obtain h1 t1 d1 where 1: "scan C D IR_DBUS (dmi_request adr data DmiOp_Write) (dr_len IR_DBUS) l = Some (h1, t1, d1)"
      "linked (h1, t1, d1)" "t_dmi_data t1 = data" "d1 = dmi_write_op D adr data d"
    using dmi_scan [OF C l [unfolded hl] adr, of D data DmiOp_Write] by (auto simp: hl)
  obtain h2 t2 d2 where 2: "scan C D IR_DBUS (dmi_request adr 0 DmiOp_None) (dr_len IR_DBUS) (h1, t1, d1) = Some (h2, t2, d2)"
      "linked (h2, t2, d2)" "getf 2 32 (o_dr h2) = t_dmi_data t1" "d2 = d1"
    using dmi_scan [OF C 1(2) adr, of D 0 DmiOp_None] by auto
  show ?thesis using 1 2 by (simp add: scanDmi_alt hl module_of_def)
qed

lemma scanDmi_read:
  assumes C: "dtm_irlen C = IRLEN" "dtm_abits C = ABITS" and l: "linked l" and adr: "adr < 128"
  shows "\<exists>l'. scanDmi C D adr data DmiOp_Read l = Some (fst (dmi_read_op D adr data (module_of l)), l') \<and> linked l'
    \<and> module_of l' = snd (dmi_read_op D adr data (module_of l))"
proof -
  obtain h t d where hl: "l = (h, t, d)" using prod_cases3 by blast
  obtain h1 t1 d1 where 1: "scan C D IR_DBUS (dmi_request adr data DmiOp_Read) (dr_len IR_DBUS) l = Some (h1, t1, d1)"
      "linked (h1, t1, d1)" "dmi_read_op D adr data d = (t_dmi_data t1, d1)"
    using dmi_scan [OF C l [unfolded hl] adr, of D data DmiOp_Read] by (auto simp: hl)
  obtain h2 t2 d2 where 2: "scan C D IR_DBUS (dmi_request adr 0 DmiOp_None) (dr_len IR_DBUS) (h1, t1, d1) = Some (h2, t2, d2)"
      "linked (h2, t2, d2)" "getf 2 32 (o_dr h2) = t_dmi_data t1" "d2 = d1"
    using dmi_scan [OF C 1(2) adr, of D 0 DmiOp_None] by auto
  show ?thesis using 1 2 by (simp add: scanDmi_alt hl module_of_def)
qed

subsection \<open>Establishing the link\<close>

definition in_reset :: "tap \<Rightarrow> tap" where
  "in_reset t = t\<lparr>t_estate := RESET_TAP, t_ir := ucast IR_IDCODE\<rparr>"

lemma server_read: "bb_server C D ''R'' (s, tx, ret) = (s, tx @ tdo_char (getTDO (fst s)), ret)"
  by (simp add: bb_server_def bb_char_def tdo_char_def)

lemma reset_server:
  "bb_server C D ''ur15R'' ((t, d), [], 0)
   = (((in_reset t)\<lparr>t_tck := True, t_tms := False, t_tdi := True, t_estate := IDLE\<rparr>, d), tdo_char (getTDO t), 0)"
proof -
  have "bb_server C D ''ur15R'' ((t, d), [], 0)
      = bb_server C D (pins False True False @ ''R'') ((in_reset t, d), [], 0)"
    by (simp add: bb_server_def bb_char_def resetTAP_def in_reset_def pins_def)
  moreover have "tap_edge C D False True (in_reset t, d) = ((in_reset t)\<lparr>t_tck := True, t_tms := False, t_tdi := True, t_estate := IDLE\<rparr>, d)"
    by (simp add: tap_edge_def tap_act_def in_reset_def)
  ultimately show ?thesis
    by (simp add: server_append server_pins, simp add: bb_server_def bb_char_def tdo_char_def getTDO_def in_reset_def)
qed

lemma edge_reset:
  "t_estate t = RESET_TAP \<Longrightarrow> tap_edge C D tms tdi (t, d)
   = (t\<lparr>t_tck := True, t_tms := tms, t_tdi := tdi, t_ir := ucast IR_IDCODE, t_estate := next_state RESET_TAP tms\<rparr>, d)"
  by (simp add: tap_edge_def tap_act_def)

lemma sync_server:
  assumes "t_estate t = IDLE"
  shows "bb_server C D ''373737373737373737373715R'' ((t, d), [], 0)
   = (((in_reset t)\<lparr>t_tck := True, t_tms := False, t_tdi := True, t_estate := IDLE\<rparr>, d), tdo_char (getTDO t), 0)"
proof -
  have "''373737373737373737373715R'' = concat (replicate 11 (pins True True False)) @ pins False True False @ ''R''"
    by (simp add: pins_def numeral_eq_Suc)
  moreover have "bb_server C D (pins False True False) (bb_server C D (concat (replicate 11 (pins True True False))) ((t, d), [], 0))
      = (((in_reset t)\<lparr>t_tck := True, t_tms := False, t_tdi := True, t_estate := IDLE\<rparr>, d), [], 0)"
    using assms by (simp add: numeral_eq_Suc server_append server_pins edge_idle edge_reset in_reset_def)
  ultimately show ?thesis
    by (simp only: server_append server_read) (simp add: getTDO_def in_reset_def)
qed

lemma one_answer:
  "rq_drlen h = 0 \<Longrightarrow> \<exists>h'. ocd_processRxBuffer (tdo_char b) (h\<lparr>msgcnt := 0\<rparr>) = h' \<and> msgcnt h' = 1
     \<and> rq_drlen h' = 0 \<and> bbstate h' = bbstate h \<and> o_ir h' = o_ir h"
  by (simp add: tdo_char_def Let_def)

lemma reset_exchange:
  assumes "bb_server C D buf ((t, d), [], 0) = ((t', d), tdo_char b, 0)"
  shows "\<exists>h'. ocd_exchange C D buf (apfst (\<lambda>h. h\<lparr>rq_drlen := 0\<rparr>) (h, t, d)) = Some (h', t', d)
    \<and> bbstate h' = bbstate h \<and> o_ir h' = o_ir h"
  using one_answer [of "h\<lparr>rq_drlen := 0\<rparr>" b] assms by (auto simp: ocd_exchange_def Let_def)

text \<open>The answers may come in pieces.\<close>

lemma rx_pieces:
  "msgcnt h + length a < rq_drlen h \<Longrightarrow> ocd_processRxBuffer (a @ b) h = ocd_processRxBuffer b (ocd_processRxBuffer a h)"
  by (induction a arbitrary: h) (simp_all add: Let_def)

text \<open>
  Resetting the TAP by TRST and by five and more ones on TMS, then reading the
  identification code: from any state of the TAP and any remembered instruction.
\<close>

lemma link_init:
  assumes C: "dtm_irlen C = IRLEN" "dtm_abits C = ABITS" and h: "bbstate h = IDLE_bb"
  shows "\<exists>l1 l2 l3. resetAsync C D (h, t, d) = Some l1 \<and> resetSync C D l1 = Some l2
    \<and> scanIdCode C D l2 = Some (dtm_idcode C, l3) \<and> linked l3 \<and> module_of l3 = d"
proof -
  define t1 where "t1 = (in_reset t)\<lparr>t_tck := True, t_tms := False, t_tdi := True, t_estate := IDLE\<rparr>"
  define t2 where "t2 = (in_reset t1)\<lparr>t_tck := True, t_tms := False, t_tdi := True, t_estate := IDLE\<rparr>"
  obtain h1 where 1: "resetAsync C D (h, t, d) = Some (h1, t1, d)" "bbstate h1 = IDLE_bb"
    using reset_exchange [where h = h, OF reset_server [of C D t d]] h by (auto simp: resetAsync_def t1_def)
  obtain h2 where 2: "resetSync C D (h1, t1, d) = Some (h2, t2, d)" "bbstate h2 = IDLE_bb"
    using reset_exchange [where h = h1, OF sync_server [of t1 C D d]] 1(2) by (auto simp: resetSync_def t2_def t1_def)
  have ir: "t_ir t2 = ucast IR_IDCODE" "t_estate t2 = IDLE" "IR_IDCODE \<in> scanned"
    by (simp_all add: t2_def in_reset_def scanned_def)
  obtain h3 w s where 3: "scan C D IR_IDCODE 0xFFFFFFFFFFFFFFFF (dr_len IR_IDCODE) (h2, t2, d) = Some (h3, s)"
      "dr_exchange C D (take_bit (dr_len IR_IDCODE) 0xFFFFFFFFFFFFFFFF) (t2\<lparr>t_ir := ucast IR_IDCODE\<rparr>, d) = (w, s)"
      "o_dr h3 = w" "bbstate h3 = IDLE_bb" "o_ir h3 = IR_IDCODE"
    using scan_exchange [OF C ir(3) 2(2) ir(2), where v = "0xFFFFFFFFFFFFFFFF" and D = D and d = d] ir(1) by auto
  obtain t3 d3 where s: "s = (t3, d3)" by fastforce
  note ex = exchange_fields [OF 3(2) [unfolded s]]
  have "dr_len IR_IDCODE = 32" by (simp add: dr_len_def IR_defs)
  moreover have "ucast (o_dr h3) = dtm_idcode C"
    using ex(3) 3(3) by (simp add: capture_dr_def) (rule bit_word_eqI, simp add: bit_simps)
  moreover have "d3 = d"
    using 3(2) by (auto simp: s dr_exchange_def Let_def capture_dr_def update_dr_def ir_distinct)
  ultimately show ?thesis
    using 1 2 3 ex by (auto simp: scanIdCode_def linked_def module_of_def s)
qed

end
