(* ===== verification/Jtag_Client.thy ===== *)
theory Jtag_Client
  imports Dmi Jtag_Scan
begin

section \<open>The debugger's requests to the debug module\<close>

text \<open>
  The member functions of \<open>IJtag\<close> (common/coreservices/ijtag.h), which every command of the
  debugger uses: registers and memory of the target through abstract commands.  Each of them is
  a program over the virtual function \<open>scanDmi\<close>, which is a parameter; \<open>None\<close> is a call that does
  not return.
\<close>

type_synonym 's scan_fun = "u32 \<Rightarrow> u32 \<Rightarrow> EDmiOperation \<Rightarrow> 's \<Rightarrow> (u32 \<times> 's) option"

definition read_dmi :: "'s scan_fun \<Rightarrow> u32 \<Rightarrow> 's \<Rightarrow> (u32 \<times> 's) option" where
  "read_dmi scn adr s = scn adr 0 DmiOp_Read s"

definition write_dmi :: "'s scan_fun \<Rightarrow> u32 \<Rightarrow> u32 \<Rightarrow> 's \<Rightarrow> 's option" where
  "write_dmi scn adr data s = map_option snd (scn adr data DmiOp_Write s)"

definition acs_cmderr :: "u32 \<Rightarrow> u32" where "acs_cmderr v = getf 8 3 v"
definition acs_busy :: "u32 \<Rightarrow> bool" where "acs_busy v = bit v 12"

definition clear_cmderr :: "'s scan_fun \<Rightarrow> 's \<Rightarrow> 's option" where
  "clear_cmderr scn s = write_dmi scn DMI_ABSTRACTCS (setf 8 3 1 0) s"

partial_function (option) wait_dmi :: "'s scan_fun \<Rightarrow> 's \<Rightarrow> (u32 \<times> 's) option" where
  "wait_dmi scn s =
     Option.bind (read_dmi scn DMI_ABSTRACTCS s) (\<lambda>(v, s).
       if acs_busy v then wait_dmi scn s else Some (acs_cmderr v, s))"

definition bytesz2cmdsz :: "u64 \<Rightarrow> u32" where
  "bytesz2cmdsz sz = (if sz \<ge> 8 then 3 else if sz \<ge> 4 then 2 else if sz \<ge> 2 then 1 else 0)"

text \<open>The register names that the debugger knows; an unknown one is \<open>REG_ADDR_ERROR\<close>.\<close>

definition RISCV_REG_MAP :: "(string \<times> u32) list" where
  "RISCV_REG_MAP =
     [(''dcsr'', 0x7b0), (''dpc'', 0x7b1), (''pc'', 0x7b1), (''cycle'', 0xc00), (''time'', 0xc01), (''insret'', 0xc02),
      (''r0'', 0x1000), (''ra'', 0x1001), (''sp'', 0x1002), (''gp'', 0x1003), (''tp'', 0x1004), (''t0'', 0x1005),
      (''t1'', 0x1006), (''t2'', 0x1007), (''s0'', 0x1008), (''s1'', 0x1009), (''a0'', 0x100A), (''a1'', 0x100B),
      (''a2'', 0x100C), (''a3'', 0x100D), (''a4'', 0x100E), (''a5'', 0x100F), (''a6'', 0x1010), (''a7'', 0x1011),
      (''s2'', 0x1012), (''s3'', 0x1013), (''s4'', 0x1014), (''s5'', 0x1015), (''s6'', 0x1016), (''s7'', 0x1017),
      (''s8'', 0x1018), (''s9'', 0x1019), (''s10'', 0x101A), (''s11'', 0x101B), (''t3'', 0x101C), (''t4'', 0x101D),
      (''t5'', 0x101E), (''t6'', 0x101F), (''stktr_cnt'', 0xC040), (''stktr_buf'', 0xC080)]"

definition reg2addr :: "string \<Rightarrow> u32" where
  "reg2addr name = (case map_of RISCV_REG_MAP name of Some a \<Rightarrow> a | None \<Rightarrow> 0xFFFFFFFF)"

definition reg_command :: "bool \<Rightarrow> u32 \<Rightarrow> u32 \<Rightarrow> u32" where
  "reg_command write regsize regaddr =
     (let c = 0 :: u32;
          c = setf 24 8 0 c;
          c = setf 20 3 regsize c;
          c = (if write then setf 16 1 1 c else c);
          c = setf 17 1 1 c;
          c = setf 19 1 1 c
      in setf 0 16 regaddr c)"

definition get_reg_addr :: "'s scan_fun \<Rightarrow> u32 \<Rightarrow> u32 \<Rightarrow> 's \<Rightarrow> (u32 \<times> u64 \<times> 's) option" where
  "get_reg_addr scn regaddr regsize s =
     Option.bind (write_dmi scn DMI_COMMAND (reg_command False regsize regaddr) s) (\<lambda>s.
     Option.bind (wait_dmi scn s) (\<lambda>(err, s).
     Option.bind (read_dmi scn DMI_ABSTRACT_DATA0 s) (\<lambda>(lo, s).
     Option.bind (read_dmi scn DMI_ABSTRACT_DATA1 s) (\<lambda>(hi, s).
       Some (err, set_half 1 hi (set_half 0 lo 0), s)))))"

definition regsize_of :: "string \<Rightarrow> u32" where "regsize_of name = 3"

definition get_reg :: "'s scan_fun \<Rightarrow> string \<Rightarrow> 's \<Rightarrow> (u32 \<times> u64 \<times> 's) option" where
  "get_reg scn name = get_reg_addr scn (reg2addr name) (regsize_of name)"

definition set_reg :: "'s scan_fun \<Rightarrow> string \<Rightarrow> u64 \<Rightarrow> 's \<Rightarrow> (u32 \<times> 's) option" where
  "set_reg scn name val s =
     Option.bind (write_dmi scn DMI_ABSTRACT_DATA0 (half_of 0 val) s) (\<lambda>s.
     Option.bind (write_dmi scn DMI_ABSTRACT_DATA1 (half_of 1 val) s) (\<lambda>s.
     Option.bind (write_dmi scn DMI_COMMAND (reg_command True (regsize_of name) (reg2addr name)) s) (\<lambda>s.
       wait_dmi scn s)))"

subsection \<open>Memory\<close>

definition mem_command :: "bool \<Rightarrow> u32 \<Rightarrow> u32" where
  "mem_command write aamsize =
     (let c = 0 :: u32;
          c = setf 24 8 2 c;
          c = setf 23 1 0 c;
          c = setf 19 1 1 c;
          c = setf 16 1 (if write then 1 else 0) c
      in setf 20 3 aamsize c)"

text \<open>The bytes that \<open>memcpy\<close> moves between a buffer and \<open>Reg64Type::buf\<close>.\<close>

definition bytes_of :: "nat \<Rightarrow> u64 \<Rightarrow> u8 list" where
  "bytes_of n v = map (byte_of v) [0..<n]"

definition set_address :: "'s scan_fun \<Rightarrow> u64 \<Rightarrow> 's \<Rightarrow> 's option" where
  "set_address scn adr s =
     Option.bind (write_dmi scn DMI_ABSTRACT_DATA2 (half_of 0 adr) s) (\<lambda>s.
       write_dmi scn DMI_ABSTRACT_DATA3 (half_of 1 adr) s)"

text \<open>
  The loops count \<open>sz\<close> down to 0 in units of 8, 4, 2 and 1 bytes; \<open>r64\<close> keeps the bytes that a
  round does not write.
\<close>

partial_function (option) read_memory_loop ::
  "'s scan_fun \<Rightarrow> u64 \<Rightarrow> u64 \<Rightarrow> u8 list \<Rightarrow> 's \<Rightarrow> (u32 \<times> u8 list \<times> 's) option" where
  "read_memory_loop scn sz r64 obuf s =
     (let aamsize = bytesz2cmdsz sz; tsz = push_bit (unat aamsize) 1 :: u64
      in Option.bind (write_dmi scn DMI_COMMAND (mem_command False aamsize) s) (\<lambda>s.
         Option.bind (wait_dmi scn s) (\<lambda>(err, s).
           if err \<noteq> 0 then map_option (\<lambda>s. (err, obuf, s)) (clear_cmderr scn s)
           else Option.bind (read_dmi scn DMI_ABSTRACT_DATA0 s) (\<lambda>(lo, s).
                Option.bind (if tsz > 4 then map_option (\<lambda>(hi, s). (set_half 1 hi (set_half 0 lo r64), s)) (read_dmi scn DMI_ABSTRACT_DATA1 s)
                             else Some (set_half 0 lo r64, s)) (\<lambda>(r64, s).
                let obuf = obuf @ bytes_of (unat tsz) r64; sz = sz - tsz
                in if sz \<noteq> 0 then read_memory_loop scn sz r64 obuf s else Some (0, obuf, s))))))"

definition read_memory :: "'s scan_fun \<Rightarrow> u64 \<Rightarrow> u64 \<Rightarrow> 's \<Rightarrow> (u32 \<times> u8 list \<times> 's) option" where
  "read_memory scn adr sz s = Option.bind (set_address scn adr s) (read_memory_loop scn sz adr [])"

partial_function (option) write_memory_loop ::
  "'s scan_fun \<Rightarrow> u64 \<Rightarrow> u64 \<Rightarrow> u8 list \<Rightarrow> 's \<Rightarrow> (u32 \<times> 's) option" where
  "write_memory_loop scn sz r64 ibuf s =
     (let aamsize = bytesz2cmdsz sz; tsz = push_bit (unat aamsize) 1 :: u64;
          r64 = payload_load (\<lambda>i. ibuf ! i) (unat tsz) r64
      in Option.bind (write_dmi scn DMI_ABSTRACT_DATA0 (half_of 0 r64) s) (\<lambda>s.
         Option.bind (if tsz > 4 then write_dmi scn DMI_ABSTRACT_DATA1 (half_of 1 r64) s else Some s) (\<lambda>s.
         Option.bind (write_dmi scn DMI_COMMAND (mem_command True aamsize) s) (\<lambda>s.
         Option.bind (wait_dmi scn s) (\<lambda>(err, s).
           if err \<noteq> 0 then map_option (\<lambda>s. (err, s)) (clear_cmderr scn s)
           else let sz = sz - tsz
                in if sz \<noteq> 0 then write_memory_loop scn sz r64 (drop (unat tsz) ibuf) s else Some (0, s))))))"

definition write_memory :: "'s scan_fun \<Rightarrow> u64 \<Rightarrow> u64 \<Rightarrow> u8 list \<Rightarrow> 's \<Rightarrow> (u32 \<times> 's) option" where
  "write_memory scn adr sz ibuf s = Option.bind (set_address scn adr s) (write_memory_loop scn sz adr ibuf)"

subsection \<open>Fields of the commands\<close>

lemma reg_command_fields:
  "cmd_cmdtype (reg_command wr sz a) = 0" "cmd_write (reg_command wr sz a) = wr" "cmd_transfer (reg_command wr sz a)"
  "\<not> cmd_postexec (reg_command wr sz a)" "cmd_aarpostincrement (reg_command wr sz a)"
  "cmd_regno (reg_command wr sz a) = getf 0 16 a"
  by (auto simp: reg_command_def cmd_cmdtype_def cmd_write_def cmd_transfer_def cmd_postexec_def
      cmd_aarpostincrement_def cmd_regno_def Let_def bit_setf getf_setf_other getf_setf_same bit_1_iff)
    (rule bit_word_eqI, auto simp: bit_getf bit_simps)

lemma mem_command_fields:
  "cmd_cmdtype (mem_command wr sz) = 2" "cmd_write (mem_command wr sz) = wr" "cmd_aampostincrement (mem_command wr sz)"
  "cmd_aamsize (mem_command wr sz) = take_bit 3 sz"
  by (auto simp: mem_command_def cmd_cmdtype_def cmd_write_def cmd_aampostincrement_def cmd_aamsize_def
      Let_def bit_setf getf_setf_other getf_setf_same bit_1_iff)

lemma half_of_set_half:
  "i < 2 \<Longrightarrow> half_of i (set_half i x v) = x" "i < 2 \<Longrightarrow> j < 2 \<Longrightarrow> i \<noteq> j \<Longrightarrow> half_of j (set_half i x v) = half_of j v"
  by (rule bit_word_eqI, auto simp: half_of_def set_half_def bit_getf bit_setf bit_simps)
    (rule bit_word_eqI, auto simp: half_of_def set_half_def bit_getf bit_setf bit_simps)

lemma halves: "set_half 1 (half_of 1 v) (set_half 0 (half_of 0 v) x) = v"
  by (rule bit_word_eqI) (auto simp: half_of_def set_half_def bit_getf bit_setf bit_simps)

lemma low_half_bytes: "i < 4 \<Longrightarrow> byte_of (set_half 0 (half_of 0 v) x) i = byte_of v i"
  by (rule bit_word_eqI) (auto simp: half_of_def set_half_def byte_of_def bit_getf bit_setf bit_simps)

end
