(* ===== verification/Jtag_Debug.thy ===== *)
theory Jtag_Debug
  imports Jtag_Client River
begin

section \<open>What the debugger reads and writes reaches the hart\<close>

text \<open>
  Two interfaces meet in the debug module.  \<open>dmi_link\<close>: \<open>scanDmi\<close> performs the operations of
  the debug module; the JTAG transport provides it.  \<open>hart_memory\<close>: the memory operations of a
  debug port read and write bytes; the functional CPU on the bus of memories provides it.  The
  functions of \<open>IJtag\<close> are proved against these contracts.
\<close>

subsection \<open>The link to the debug module\<close>

locale dmi_link =
  fixes scn :: "'s scan_fun"
    and M :: "'w dmi_cfg"
    and ok :: "'s \<Rightarrow> bool"
    and dm :: "'s \<Rightarrow> dmi \<times> 'w"
  assumes write_law: "ok s \<Longrightarrow> adr < 128 \<Longrightarrow>
      \<exists>s'. scn adr data DmiOp_Write s = Some (data, s') \<and> ok s' \<and> dm s' = dmi_write M adr data (dm s)"
    and read_law: "ok s \<Longrightarrow> adr < 128 \<Longrightarrow>
      \<exists>s'. scn adr data DmiOp_Read s = Some (fst (dmi_read M adr data (dm s)), s') \<and> ok s'
        \<and> dm s' = snd (dmi_read M adr data (dm s))"

text \<open>Hart \<open>k\<close> is selected, no command has failed and no command runs by itself.\<close>

definition dm_ready :: "nat \<Rightarrow> dmi \<Rightarrow> bool" where
  "dm_ready k m \<longleftrightarrow> unat (hartsel m) = k \<and> cmderr m = 0 \<and> autoexecdata m = 0"

lemma dmi_data_regs:
  assumes "autoexecdata m = 0"
  shows "dmi_write M DMI_ABSTRACT_DATA0 v (m, w) = (m\<lparr>arg0 := set_half 0 v (arg0 m)\<rparr>, w)"
    "dmi_write M DMI_ABSTRACT_DATA1 v (m, w) = (m\<lparr>arg0 := set_half 1 v (arg0 m)\<rparr>, w)"
    "dmi_write M DMI_ABSTRACT_DATA2 v (m, w) = (m\<lparr>arg1 := set_half 0 v (arg1 m)\<rparr>, w)"
    "dmi_write M DMI_ABSTRACT_DATA3 v (m, w) = (m\<lparr>arg1 := set_half 1 v (arg1 m)\<rparr>, w)"
    "dmi_read M DMI_ABSTRACT_DATA0 v (m, w) = (half_of 0 (arg0 m), m, w)"
    "dmi_read M DMI_ABSTRACT_DATA1 v (m, w) = (half_of 1 (arg0 m), m, w)"
  using assms by (simp_all add: dmi_write_def dmi_read_def autoexec_def DMI_defs)

lemma dmi_command:
  "cmderr m = 0 \<Longrightarrow> dmi_write M DMI_COMMAND c (m, w) =
     (let port = hartlist M ! unat (hartsel m); mw = (m\<lparr>command := c\<rparr>, w)
      in if cmd_cmdtype c = 0 then command_regaccess port mw else if cmd_cmdtype c = 1 then mw
         else if cmd_cmdtype c = 2 then command_memaccess port mw else mw)"
  by (simp add: dmi_write_def DMI_defs executeCommand_def getCmdErr_def CMDERR_NONE_def Let_def)

lemma abstractcs_fields:
  "acs_busy (fst (dmi_read M DMI_ABSTRACTCS v mw)) = False"
  "acs_cmderr (fst (dmi_read M DMI_ABSTRACTCS v mw)) = take_bit 3 (cmderr (fst mw))"
  "snd (dmi_read M DMI_ABSTRACTCS v mw) = mw"
  by (cases mw, auto simp: dmi_read_def DMI_defs acs_busy_def acs_cmderr_def getCmdErr_def bit_setf getf_setf_same)+

lemma dmi_addresses:
  "DMI_ABSTRACT_DATA0 < 128" "DMI_ABSTRACT_DATA1 < 128" "DMI_ABSTRACT_DATA2 < 128" "DMI_ABSTRACT_DATA3 < 128"
  "DMI_COMMAND < 128" "DMI_ABSTRACTCS < 128" "DMI_DMCONTROL < 128" "DMI_DMSTATUS < 128"
  by (simp_all add: DMI_defs)

context dmi_link
begin

lemma write_dmi_law:
  assumes "ok s" and "adr < 128"
  obtains s' where "write_dmi scn adr data s = Some s'" "ok s'" "dm s' = dmi_write M adr data (dm s)"
  using write_law [OF assms, of data] by (auto simp: write_dmi_def)

lemma read_dmi_law:
  assumes "ok s" and "adr < 128"
  obtains s' where "read_dmi scn adr s = Some (fst (dmi_read M adr 0 (dm s)), s')" "ok s'"
    "dm s' = snd (dmi_read M adr 0 (dm s))"
  using read_law [OF assms, of 0] by (auto simp: read_dmi_def)

text \<open>The module is never busy: waiting ends at once with the error code.\<close>

lemma wait_dmi_law:
  assumes "ok s"
  obtains s' where "wait_dmi scn s = Some (take_bit 3 (cmderr (fst (dm s))), s')" "ok s'" "dm s' = dm s"
proof -
  obtain s' where r: "read_dmi scn DMI_ABSTRACTCS s = Some (fst (dmi_read M DMI_ABSTRACTCS 0 (dm s)), s')" "ok s'"
      "dm s' = snd (dmi_read M DMI_ABSTRACTCS 0 (dm s))"
    using read_dmi_law [OF assms dmi_addresses(6)] by blast
  have "wait_dmi scn s = Some (take_bit 3 (cmderr (fst (dm s))), s')"
    by (subst wait_dmi.simps) (simp add: r(1) abstractcs_fields)
  moreover have "dm s' = dm s" using r(3) by (simp add: abstractcs_fields)
  ultimately show ?thesis using that r(2) by blast
qed

lemma command_law:
  assumes "ok s" and "dm s = (m, w)" and "dmi_write M DMI_COMMAND c (m, w) = (m', w')" and "take_bit 3 (cmderr m') = err"
  obtains s' where "Option.bind (write_dmi scn DMI_COMMAND c s) (wait_dmi scn) = Some (err, s')" "ok s'" "dm s' = (m', w')"
proof -
  obtain s1 where 1: "write_dmi scn DMI_COMMAND c s = Some s1" "ok s1" "dm s1 = (m', w')"
    using write_dmi_law [OF assms(1) dmi_addresses(5)] assms(2,3) by metis
  obtain s2 where 2: "wait_dmi scn s1 = Some (err, s2)" "ok s2" "dm s2 = (m', w')"
    using wait_dmi_law [OF 1(2)] 1(3) assms(4) by (metis fst_conv)
  show ?thesis using that 1 2 by simp
qed

text \<open>Registers.\<close>

lemma set_reg_law:
  assumes s: "ok s" "dm s = (m, w)" and m: "dm_ready k m"
    and port: "dp_writeReg (hartlist M ! k) (getf 0 16 (reg2addr name)) v w = (0, w')"
  shows "\<exists>s' m'. set_reg scn name v s = Some (0, s') \<and> ok s' \<and> dm s' = (m', w') \<and> dm_ready k m'"
proof -
  obtain s1 where 1: "write_dmi scn DMI_ABSTRACT_DATA0 (half_of 0 v) s = Some s1" "ok s1"
      "dm s1 = (m\<lparr>arg0 := set_half 0 (half_of 0 v) (arg0 m)\<rparr>, w)"
    using write_dmi_law [OF s(1) dmi_addresses(1), of "half_of 0 v"] s(2) m by (auto simp: dmi_data_regs dm_ready_def)
  obtain s2 where 2: "write_dmi scn DMI_ABSTRACT_DATA1 (half_of 1 v) s1 = Some s2" "ok s2" "dm s2 = (m\<lparr>arg0 := v\<rparr>, w)"
    using write_dmi_law [OF 1(2) dmi_addresses(2), of "half_of 1 v"] 1(3) m
    by (auto simp: dmi_data_regs dm_ready_def halves [unfolded One_nat_def])
  let ?c = "reg_command True (regsize_of name) (reg2addr name)"
  let ?m = "m\<lparr>arg0 := v, command := setf 0 16 (cmd_regno ?c + 1) ?c\<rparr>"
  have c: "dmi_write M DMI_COMMAND ?c (m\<lparr>arg0 := v\<rparr>, w) = (?m, w')"
    using m port by (simp add: dmi_command dm_ready_def command_regaccess_def reg_command_fields Let_def)
  obtain s3 where 3: "Option.bind (write_dmi scn DMI_COMMAND ?c s2) (wait_dmi scn) = Some (0, s3)" "ok s3" "dm s3 = (?m, w')"
    using command_law [OF 2(2,3) c, of 0] m by (auto simp: dm_ready_def)
  have "dm_ready k ?m" using m by (simp add: dm_ready_def)
  then show ?thesis using 1 2 3 by (auto simp: set_reg_def)
qed

lemma get_reg_law:
  assumes s: "ok s" "dm s = (m, w)" and m: "dm_ready k m"
    and port: "dp_readReg (hartlist M ! k) (getf 0 16 (reg2addr name)) w = (0, v, w')"
  shows "\<exists>s' m'. get_reg scn name s = Some (0, v, s') \<and> ok s' \<and> dm s' = (m', w') \<and> dm_ready k m'"
proof -
  let ?c = "reg_command False (regsize_of name) (reg2addr name)"
  let ?m = "m\<lparr>command := setf 0 16 (cmd_regno ?c + 1) ?c, arg0 := v\<rparr>"
  have c: "dmi_write M DMI_COMMAND ?c (m, w) = (?m, w')"
    using m port by (simp add: dmi_command dm_ready_def command_regaccess_def reg_command_fields Let_def)
  have a: "autoexecdata ?m = 0" using m by (simp add: dm_ready_def)
  obtain s1 where 1: "Option.bind (write_dmi scn DMI_COMMAND ?c s) (wait_dmi scn) = Some (0, s1)" "ok s1" "dm s1 = (?m, w')"
    using command_law [OF s c, of 0] m by (auto simp: dm_ready_def)
  obtain s2 where 2: "read_dmi scn DMI_ABSTRACT_DATA0 s1 = Some (half_of 0 v, s2)" "ok s2" "dm s2 = (?m, w')"
    using read_dmi_law [OF 1(2) dmi_addresses(1)] 1(3) dmi_data_regs(5) [OF a, of M 0 w'] by auto
  obtain s3 where 3: "read_dmi scn DMI_ABSTRACT_DATA1 s2 = Some (half_of 1 v, s3)" "ok s3" "dm s3 = (?m, w')"
    using read_dmi_law [OF 2(2) dmi_addresses(2)] 2(3) dmi_data_regs(6) [OF a, of M 0 w'] by auto
  have "dm_ready k ?m" using m by (simp add: dm_ready_def)
  moreover have "get_reg scn name s = Some (0, v, s3)"
    using 1(1) 2(1) 3(1) by (auto simp: get_reg_def get_reg_addr_def halves [unfolded One_nat_def] bind_eq_Some_conv)
  ultimately show ?thesis using 3 by blast
qed

end

subsection \<open>The memory behind a hart\<close>

definition access_size :: "nat \<Rightarrow> bool" where
  "access_size n \<longleftrightarrow> n = 1 \<or> n = 2 \<or> n = 4 \<or> n = 8"

locale hart_memory =
  fixes port :: "'w idport"
    and view :: "'w \<Rightarrow> u64 \<Rightarrow> u8"
    and acc :: "u64 \<Rightarrow> nat \<Rightarrow> bool"
    and good :: "'w \<Rightarrow> bool"
  assumes port_read: "good w \<Longrightarrow> access_size n \<Longrightarrow> acc a n \<Longrightarrow>
      dp_readMem port a virt (of_nat n) payload w = (0, payload_load (\<lambda>i. view w (a + of_nat i)) n payload, w)"
    and port_write: "good w \<Longrightarrow> access_size n \<Longrightarrow> acc a n \<Longrightarrow>
      \<exists>w'. dp_writeMem port a virt (of_nat n) payload w = (0, w') \<and> good w'
        \<and> (\<forall>x. view w' x = (if unat (x - a) < n then byte_of payload (unat (x - a)) else view w x))"

text \<open>The size of the next access when \<open>n\<close> bytes are left.\<close>

definition chunk :: "nat \<Rightarrow> nat" where
  "chunk n = (if n \<ge> 8 then 8 else if n \<ge> 4 then 4 else if n \<ge> 2 then 2 else 1)"

lemma chunk_size: "0 < n \<Longrightarrow> 0 < chunk n \<and> chunk n \<le> n \<and> chunk n \<le> 8" "access_size (chunk n)"
  by (auto simp: chunk_def access_size_def)

lemma chunk_cmd:
  assumes "n < 2 ^ 64"
  shows "2 ^ unat (bytesz2cmdsz (of_nat n)) = (of_nat (chunk n) :: u64)"
    and "2 ^ unat (cmd_aamsize (mem_command wr (bytesz2cmdsz (of_nat n)))) = (of_nat (chunk n) :: u32)"
    and "unat (of_nat (chunk n) :: u64) = chunk n" and "(of_nat (chunk n) :: u64) > 4 \<longleftrightarrow> chunk n > 4"
    and "of_nat n - (of_nat (chunk n) :: u64) = of_nat (n - (if 0 < n then chunk n else 0)) \<or> n = 0"
proof -
  have le: "(8::u64) \<le> of_nat n \<longleftrightarrow> 8 \<le> n" "(4::u64) \<le> of_nat n \<longleftrightarrow> 4 \<le> n" "(2::u64) \<le> of_nat n \<longleftrightarrow> 2 \<le> n"
    using assms by (simp_all add: word_le_nat_alt unat_of_nat take_bit_nat_eq_self)
  show "2 ^ unat (bytesz2cmdsz (of_nat n)) = (of_nat (chunk n) :: u64)"
    "2 ^ unat (cmd_aamsize (mem_command wr (bytesz2cmdsz (of_nat n)))) = (of_nat (chunk n) :: u32)"
    by (simp_all add: bytesz2cmdsz_def chunk_def le mem_command_fields)
  show "unat (of_nat (chunk n) :: u64) = chunk n" "(of_nat (chunk n) :: u64) > 4 \<longleftrightarrow> chunk n > 4"
    by (simp_all add: chunk_def)
  show "of_nat n - (of_nat (chunk n) :: u64) = of_nat (n - (if 0 < n then chunk n else 0)) \<or> n = 0"
    using chunk_size(1) [of n] by (auto simp: of_nat_diff)
qed

lemma bind_bind_Some: "Option.bind x f = Some y \<Longrightarrow> Option.bind x (\<lambda>z. Option.bind (f z) g) = g y"
  by (cases x) auto

lemma unat_minus_small:
  "t \<le> 8 \<Longrightarrow> unat (y - of_nat t) = (if unat y < t then 2 ^ 64 + unat y - t else unat y - t)" for y :: u64
  by (auto simp: unat_sub_if_size word_size unat_of_nat take_bit_nat_eq_self)

lemma of_nat_zero: "j < 2 ^ 64 \<Longrightarrow> (of_nat j :: u64) = 0 \<longleftrightarrow> j = 0"
  by (cases "j = 0") (auto simp: word_of_nat_eq_0_iff dest!: dvd_imp_le)

locale debugged_hart = dmi_link scn M ok dm + hart_memory port view acc good
  for scn :: "'s scan_fun" and M :: "'w dmi_cfg" and ok :: "'s \<Rightarrow> bool" and dm :: "'s \<Rightarrow> dmi \<times> 'w"
    and port :: "'w idport" and view :: "'w \<Rightarrow> u64 \<Rightarrow> u8" and acc :: "u64 \<Rightarrow> nat \<Rightarrow> bool" and good :: "'w \<Rightarrow> bool" +
  fixes k :: nat
  assumes selected: "hartlist M ! k = port"
begin

lemma set_address_law:
  assumes s: "ok s" "dm s = (m, w)" and m: "dm_ready k m"
  obtains s' where "set_address scn a s = Some s'" "ok s'" "dm s' = (m\<lparr>arg1 := a\<rparr>, w)"
proof -
  obtain s1 where 1: "write_dmi scn DMI_ABSTRACT_DATA2 (half_of 0 a) s = Some s1" "ok s1"
      "dm s1 = (m\<lparr>arg1 := set_half 0 (half_of 0 a) (arg1 m)\<rparr>, w)"
    using write_dmi_law [OF s(1) dmi_addresses(3), of "half_of 0 a"] s(2) m by (auto simp: dmi_data_regs dm_ready_def)
  obtain s2 where 2: "write_dmi scn DMI_ABSTRACT_DATA3 (half_of 1 a) s1 = Some s2" "ok s2" "dm s2 = (m\<lparr>arg1 := a\<rparr>, w)"
    using write_dmi_law [OF 1(2) dmi_addresses(4), of "half_of 1 a"] 1(3) m
    by (auto simp: dmi_data_regs dm_ready_def halves [unfolded One_nat_def])
  show ?thesis using that [of s2] 1 2 by (simp add: set_address_def)
qed

text \<open>One round of each loop.\<close>

lemma write_round:
  assumes s: "ok s" "dm s = (m, w)" and m: "dm_ready k m" and w: "good w" and a: "acc (arg1 m) (chunk n)" and n: "0 < n" "n < 2 ^ 64"
  obtains s' m' w' where
    "write_memory_loop scn (of_nat n) r64 ibuf s =
      (let r64 = payload_load (\<lambda>i. ibuf ! i) (chunk n) r64
       in if n = chunk n then Some (0, s')
          else write_memory_loop scn (of_nat (n - chunk n)) r64 (drop (chunk n) ibuf) s')"
    "ok s'" "dm s' = (m', w')" "dm_ready k m'" "arg1 m' = arg1 m + of_nat (chunk n)" "good w'"
    "\<And>x. view w' x = (if unat (x - arg1 m) < chunk n then ibuf ! unat (x - arg1 m) else view w x)"
proof -
  let ?t = "chunk n" and ?c = "mem_command True (bytesz2cmdsz (of_nat n))"
  let ?r = "payload_load (\<lambda>i. ibuf ! i) ?t r64"
  note t = chunk_size [of n] chunk_cmd [OF n(2)]
  obtain s1 where 1: "write_dmi scn DMI_ABSTRACT_DATA0 (half_of 0 ?r) s = Some s1" "ok s1"
      "dm s1 = (m\<lparr>arg0 := set_half 0 (half_of 0 ?r) (arg0 m)\<rparr>, w)"
    using write_dmi_law [OF s(1) dmi_addresses(1), of "half_of 0 ?r"] s(2) m by (auto simp: dmi_data_regs dm_ready_def)
  define v where "v = (if ?t > 4 then ?r else set_half 0 (half_of 0 ?r) (arg0 m))"
  obtain s2 where 2: "(if ?t > 4 then write_dmi scn DMI_ABSTRACT_DATA1 (half_of 1 ?r) s1 else Some s1) = Some s2" "ok s2"
      "dm s2 = (m\<lparr>arg0 := v\<rparr>, w)"
  proof (cases "?t > 4")
    case True
    obtain s2 where "write_dmi scn DMI_ABSTRACT_DATA1 (half_of 1 ?r) s1 = Some s2" "ok s2" "dm s2 = (m\<lparr>arg0 := ?r\<rparr>, w)"
      using write_dmi_law [OF 1(2) dmi_addresses(2), of "half_of 1 ?r"] 1 m
      by (auto simp: dmi_data_regs dm_ready_def halves [unfolded One_nat_def])
    with True show ?thesis by (intro that [of s2]) (simp_all add: v_def)
  next
    case False
    then show ?thesis using 1 by (intro that [of s1]) (simp_all add: v_def)
  qed
  have bytes: "byte_of v i = ibuf ! i" if "i < ?t" for i
    using that t(1) n(1) by (auto simp: v_def low_half_bytes byte_of_payload_load)
  obtain w' where w': "dp_writeMem port (arg1 m) (cmd_aamvirtual ?c) (of_nat ?t) v w = (0, w')" "good w'"
      "\<forall>x. view w' x = (if unat (x - arg1 m) < ?t then byte_of v (unat (x - arg1 m)) else view w x)"
    using port_write [OF w t(2) a] by blast
  let ?m = "m\<lparr>arg0 := v, command := ?c, arg1 := arg1 m + of_nat ?t\<rparr>"
  have ut: "ucast (of_nat ?t :: u32) = (of_nat ?t :: u64)" by (simp add: chunk_def)
  have c: "dmi_write M DMI_COMMAND ?c (m\<lparr>arg0 := v\<rparr>, w) = (?m, w')"
    using m w'(1) by (simp add: dmi_command dm_ready_def command_memaccess_def mem_command_fields(1-3) t(4) selected ut Let_def)
  obtain s3 where 3: "Option.bind (write_dmi scn DMI_COMMAND ?c s2) (wait_dmi scn) = Some (0, s3)" "ok s3" "dm s3 = (?m, w')"
    using command_law [OF 2(2,3) c, of 0] m by (auto simp: dm_ready_def)
  have sub: "of_nat n - (of_nat ?t :: u64) = of_nat (n - ?t)" using t(7) n(1) by simp
  have z: "(of_nat (n - ?t) :: u64) = 0 \<longleftrightarrow> n = ?t"
    using t(1) n by (subst of_nat_zero) auto
  have loop: "write_memory_loop scn (of_nat n) r64 ibuf s =
      (if n = ?t then Some (0, s3) else write_memory_loop scn (of_nat (n - ?t)) ?r (drop ?t ibuf) s3)"
    unfolding write_memory_loop.simps [of scn "of_nat n"] Let_def push_bit_eq_mult mult_1 t(3,5,6) 1(1) Option.bind.bind_lunit 2(1)
      bind_bind_Some [OF 3(1)]
    by (simp add: sub z)
  show ?thesis
    using that [of s3 ?m w'] loop 3 w' bytes m by (simp add: dm_ready_def Let_def)
qed

lemma read_round:
  assumes s: "ok s" "dm s = (m, w)" and m: "dm_ready k m" and w: "good w" and a: "acc (arg1 m) (chunk n)" and n: "0 < n" "n < 2 ^ 64"
  obtains s' m' r' where
    "read_memory_loop scn (of_nat n) r64 obuf s =
      (let obuf = obuf @ map (\<lambda>i. view w (arg1 m + of_nat i)) [0..<chunk n]
       in if n = chunk n then Some (0, obuf, s') else read_memory_loop scn (of_nat (n - chunk n)) r' obuf s')"
    "ok s'" "dm s' = (m', w)" "dm_ready k m'" "arg1 m' = arg1 m + of_nat (chunk n)"
proof -
  let ?t = "chunk n" and ?c = "mem_command False (bytesz2cmdsz (of_nat n))"
  let ?v = "payload_load (\<lambda>i. view w (arg1 m + of_nat i)) ?t (arg0 m)"
  let ?m = "m\<lparr>command := ?c, arg0 := ?v, arg1 := arg1 m + of_nat ?t\<rparr>"
  note t = chunk_size [of n] chunk_cmd [OF n(2)]
  have ut: "ucast (of_nat ?t :: u32) = (of_nat ?t :: u64)" by (simp add: chunk_def)
  have c: "dmi_write M DMI_COMMAND ?c (m, w) = (?m, w)"
    using m port_read [OF w t(2) a, of "cmd_aamvirtual ?c" "arg0 m"]
    by (simp add: dmi_command dm_ready_def command_memaccess_def mem_command_fields(1-3) t(4) selected ut Let_def)
  have auto: "autoexecdata ?m = 0" using m by (simp add: dm_ready_def)
  obtain s1 where 1: "Option.bind (write_dmi scn DMI_COMMAND ?c s) (wait_dmi scn) = Some (0, s1)" "ok s1" "dm s1 = (?m, w)"
    using command_law [OF s c, of 0] m by (auto simp: dm_ready_def)
  obtain s2 where 2: "read_dmi scn DMI_ABSTRACT_DATA0 s1 = Some (half_of 0 ?v, s2)" "ok s2" "dm s2 = (?m, w)"
    using read_dmi_law [OF 1(2) dmi_addresses(1)] 1(3) dmi_data_regs(5) [OF auto, of M 0 w] by auto
  define r' where "r' = (if ?t > 4 then ?v else set_half 0 (half_of 0 ?v) r64)"
  obtain s3 where 3: "(if ?t > 4 then map_option (\<lambda>(hi, s). (set_half 1 hi (set_half 0 (half_of 0 ?v) r64), s)) (read_dmi scn DMI_ABSTRACT_DATA1 s2)
        else Some (set_half 0 (half_of 0 ?v) r64, s2)) = Some (r', s3)" "ok s3" "dm s3 = (?m, w)"
  proof (cases "?t > 4")
    case True
    obtain s3 where "read_dmi scn DMI_ABSTRACT_DATA1 s2 = Some (half_of 1 ?v, s3)" "ok s3" "dm s3 = (?m, w)"
      using read_dmi_law [OF 2(2) dmi_addresses(2)] 2(3) dmi_data_regs(6) [OF auto, of M 0 w] by auto
    with True show ?thesis by (intro that [of s3]) (simp_all add: r'_def halves [unfolded One_nat_def])
  next
    case False
    then show ?thesis using 2 by (intro that [of s2]) (simp_all add: r'_def)
  qed
  have "byte_of r' i = view w (arg1 m + of_nat i)" if "i < ?t" for i
    using that t(1) n(1) by (auto simp: r'_def low_half_bytes byte_of_payload_load)
  then have bytes: "bytes_of ?t r' = map (\<lambda>i. view w (arg1 m + of_nat i)) [0..<?t]"
    by (simp add: bytes_of_def)
  have sub: "of_nat n - (of_nat ?t :: u64) = of_nat (n - ?t)" using t(7) n(1) by simp
  have z: "(of_nat (n - ?t) :: u64) = 0 \<longleftrightarrow> n = ?t"
    using t(1) n by (subst of_nat_zero) auto
  have loop: "read_memory_loop scn (of_nat n) r64 obuf s =
      (let obuf = obuf @ map (\<lambda>i. view w (arg1 m + of_nat i)) [0..<?t]
       in if n = ?t then Some (0, obuf, s3) else read_memory_loop scn (of_nat (n - ?t)) r' obuf s3)"
    unfolding read_memory_loop.simps [of scn "of_nat n"] Let_def push_bit_eq_mult mult_1 t(3,5,6) bind_bind_Some [OF 1(1)]
      prod.case 2(1) Option.bind.bind_lunit 3(1) bytes sub
    by (simp add: z)
  have "dm_ready k ?m" using m by (simp add: dm_ready_def)
  then show ?thesis using that [of s3 r' ?m] loop 3 by simp
qed

text \<open>The loops: all bytes, chunk by chunk.\<close>

lemma write_loop:
  assumes "ok s" and "dm s = (m, w)" and "dm_ready k m" and "good w" and "0 < n" and "n < 2 ^ 64"
    and "\<And>j c. access_size c \<Longrightarrow> j + c \<le> n \<Longrightarrow> acc (arg1 m + of_nat j) c"
    and "n \<le> length ibuf"
  shows "\<exists>s' m' w'. write_memory_loop scn (of_nat n) r64 ibuf s = Some (0, s') \<and> ok s' \<and> dm s' = (m', w') \<and> dm_ready k m'
    \<and> good w' \<and> (\<forall>x. view w' x = (if unat (x - arg1 m) < n then ibuf ! unat (x - arg1 m) else view w x))"
  using assms
proof (induction n arbitrary: s m w r64 ibuf rule: less_induct)
  case (less n)
  let ?t = "chunk n"
  note t = chunk_size(1) [OF less.prems(5)] chunk_size(2) [of n]
  have acc0: "acc (arg1 m) ?t" using less.prems(7) [OF t(2), of 0] t(1) by simp
  obtain s' m' w' where r: "write_memory_loop scn (of_nat n) r64 ibuf s =
      (let r64 = payload_load (\<lambda>i. ibuf ! i) ?t r64
       in if n = ?t then Some (0, s') else write_memory_loop scn (of_nat (n - ?t)) r64 (drop ?t ibuf) s')"
    and s': "ok s'" "dm s' = (m', w')" "dm_ready k m'" "arg1 m' = arg1 m + of_nat ?t" "good w'"
    and v: "\<And>x. view w' x = (if unat (x - arg1 m) < ?t then ibuf ! unat (x - arg1 m) else view w x)"
    using write_round [OF less.prems(1-4) acc0 less.prems(5,6)] by metis
  show ?case
  proof (cases "n = ?t")
    case True
    then show ?thesis using r s' v by (intro exI [of _ s'] exI [of _ m'] exI [of _ w']) (auto simp flip: True)
  next
    case False
    let ?n = "n - ?t"
    have n: "0 < ?n" "?n < n" "?n < 2 ^ 64" using False t(1) less.prems(6) by auto
    have sub: "acc (arg1 m' + of_nat j) c" if "access_size c" "j + c \<le> ?n" for j c
    proof -
      have "?t + j + c \<le> n" using that(2) t(1) by linarith
      from less.prems(7) [OF that(1) this] show ?thesis by (simp add: s'(4) add.assoc)
    qed
    have len: "?n \<le> length (drop ?t ibuf)" using less.prems(8) by simp
    obtain s2 m2 w2 where 2: "write_memory_loop scn (of_nat ?n) (payload_load (\<lambda>i. ibuf ! i) ?t r64) (drop ?t ibuf) s' = Some (0, s2)"
      "ok s2" "dm s2 = (m2, w2)" "dm_ready k m2" "good w2"
      and v2: "\<forall>x. view w2 x = (if unat (x - arg1 m') < ?n then drop ?t ibuf ! unat (x - arg1 m') else view w' x)"
      using less.IH [OF n(2) s'(1-3,5) n(1,3) sub len] by metis
    have "view w2 x = (if unat (x - arg1 m) < n then ibuf ! unat (x - arg1 m) else view w x)" for x
    proof -
      have d: "unat (x - arg1 m') = (if unat (x - arg1 m) < ?t then 2 ^ 64 + unat (x - arg1 m) - ?t else unat (x - arg1 m) - ?t)"
        using t(1) unat_minus_small [of ?t "x - arg1 m"] by (simp add: s'(4) diff_diff_eq)
      show ?thesis using v2 v [of x] d n t(1) less.prems(6,8) by (auto simp: nth_drop)
    qed
    then show ?thesis using r 2 False by (auto simp: Let_def)
  qed
qed

lemma read_loop:
  assumes "ok s" and "dm s = (m, w)" and "dm_ready k m" and "good w" and "0 < n" and "n < 2 ^ 64"
    and "\<And>j c. access_size c \<Longrightarrow> j + c \<le> n \<Longrightarrow> acc (arg1 m + of_nat j) c"
  shows "\<exists>s' m'. read_memory_loop scn (of_nat n) r64 obuf s = Some (0, obuf @ map (\<lambda>i. view w (arg1 m + of_nat i)) [0..<n], s')
    \<and> ok s' \<and> dm s' = (m', w) \<and> dm_ready k m'"
  using assms
proof (induction n arbitrary: s m r64 obuf rule: less_induct)
  case (less n)
  let ?t = "chunk n"
  note t = chunk_size(1) [OF less.prems(5)] chunk_size(2) [of n]
  have acc0: "acc (arg1 m) ?t" using less.prems(7) [OF t(2), of 0] t(1) by simp
  obtain s' m' r' where r: "read_memory_loop scn (of_nat n) r64 obuf s =
      (let obuf = obuf @ map (\<lambda>i. view w (arg1 m + of_nat i)) [0..<?t]
       in if n = ?t then Some (0, obuf, s') else read_memory_loop scn (of_nat (n - ?t)) r' obuf s')"
    and s': "ok s'" "dm s' = (m', w)" "dm_ready k m'" "arg1 m' = arg1 m + of_nat ?t"
    using read_round [OF less.prems(1-4) acc0 less.prems(5,6)] by metis
  show ?case
  proof (cases "n = ?t")
    case True
    then show ?thesis using r s' by (intro exI [of _ s'] exI [of _ m']) (auto simp flip: True)
  next
    case False
    let ?n = "n - ?t" and ?o = "obuf @ map (\<lambda>i. view w (arg1 m + of_nat i)) [0..<?t]"
    have n: "0 < ?n" "?n < n" "?n < 2 ^ 64" using False t(1) less.prems(6) by auto
    have sub: "acc (arg1 m' + of_nat j) c" if "access_size c" "j + c \<le> ?n" for j c
    proof -
      have "?t + j + c \<le> n" using that(2) t(1) by linarith
      from less.prems(7) [OF that(1) this] show ?thesis by (simp add: s'(4) add.assoc)
    qed
    obtain s2 m2 where 2: "read_memory_loop scn (of_nat ?n) r' ?o s' = Some (0, ?o @ map (\<lambda>i. view w (arg1 m' + of_nat i)) [0..<?n], s2)"
      "ok s2" "dm s2 = (m2, w)" "dm_ready k m2"
      using less.IH [OF n(2) s'(1-3) less.prems(4) n(1,3) sub] by metis
    have "[0..<n] = [0..<?t] @ [?t..<n]" using t(1) upt_add_eq_append [of 0 ?t ?n] by simp
    moreover have "map (\<lambda>i. view w (arg1 m + of_nat i)) [?t..<n] = map (\<lambda>i. view w (arg1 m' + of_nat i)) [0..<?n]"
      using t(1) by (intro nth_equalityI) (simp_all add: s'(4) algebra_simps)
    ultimately show ?thesis using r 2 False by (auto simp: Let_def)
  qed
qed

lemma write_memory_law:
  assumes s: "ok s" "dm s = (m, w)" and m: "dm_ready k m" and w: "good w" and bs: "bs \<noteq> []" "length bs < 2 ^ 64"
    and acc: "\<And>j c. access_size c \<Longrightarrow> j + c \<le> length bs \<Longrightarrow> acc (a + of_nat j) c"
  shows "\<exists>s' m' w'. write_memory scn a (of_nat (length bs)) bs s = Some (0, s') \<and> ok s' \<and> dm s' = (m', w') \<and> dm_ready k m'
    \<and> good w' \<and> (\<forall>x. view w' x = (if unat (x - a) < length bs then bs ! unat (x - a) else view w x))"
proof -
  obtain s1 where 1: "set_address scn a s = Some s1" "ok s1" "dm s1 = (m\<lparr>arg1 := a\<rparr>, w)"
    using set_address_law [OF s m] by blast
  have m1: "dm_ready k (m\<lparr>arg1 := a\<rparr>)" using m by (simp add: dm_ready_def)
  have n: "0 < length bs" using bs(1) by simp
  have acc': "access_size c \<Longrightarrow> j + c \<le> length bs \<Longrightarrow> acc (arg1 (m\<lparr>arg1 := a\<rparr>) + of_nat j) c" for j c
    using acc by simp
  have "arg1 (m\<lparr>arg1 := a\<rparr>) = a" by simp
  from write_loop [OF 1(2,3) m1 w n bs(2) acc' order.refl, of a, unfolded this] 1(1) show ?thesis
    by (simp add: write_memory_def)
qed

lemma read_memory_law:
  assumes s: "ok s" "dm s = (m, w)" and m: "dm_ready k m" and w: "good w" and n: "0 < n" "n < 2 ^ 64"
    and acc: "\<And>j c. access_size c \<Longrightarrow> j + c \<le> n \<Longrightarrow> acc (a + of_nat j) c"
  shows "\<exists>s' m'. read_memory scn a (of_nat n) s = Some (0, map (\<lambda>i. view w (a + of_nat i)) [0..<n], s')
    \<and> ok s' \<and> dm s' = (m', w) \<and> dm_ready k m'"
proof -
  obtain s1 where 1: "set_address scn a s = Some s1" "ok s1" "dm s1 = (m\<lparr>arg1 := a\<rparr>, w)"
    using set_address_law [OF s m] by blast
  have m1: "dm_ready k (m\<lparr>arg1 := a\<rparr>)" using m by (simp add: dm_ready_def)
  have acc': "access_size c \<Longrightarrow> j + c \<le> n \<Longrightarrow> acc (arg1 (m\<lparr>arg1 := a\<rparr>) + of_nat j) c" for j c
    using acc by simp
  show ?thesis
    using read_loop [OF 1(2,3) m1 w n acc', of a "[]"] 1(1) by (simp add: read_memory_def)
qed

end

subsection \<open>The JTAG transport provides the link\<close>

definition jtag_ok :: "dtm_cfg \<Rightarrow> 'd link \<Rightarrow> bool" where
  "jtag_ok C l \<longleftrightarrow> dtm_irlen C = IRLEN \<and> dtm_abits C = ABITS \<and> linked l"

lemma dmi_if_simps [simp]:
  "dmi_read_op (dmi_if M) = dmi_read M" "dmi_write_op (dmi_if M) = dmi_write M"
  by (simp_all add: dmi_if_def)

interpretation jtag: dmi_link "scanDmi C (dmi_if M)" M "jtag_ok C" module_of for C M
proof unfold_locales
  fix l :: "(dmi \<times> 'a) link" and adr data :: u32
  assume l: "jtag_ok C l" and adr: "adr < 128"
  show "\<exists>l'. scanDmi C (dmi_if M) adr data DmiOp_Write l = Some (data, l') \<and> jtag_ok C l'
      \<and> module_of l' = dmi_write M adr data (module_of l)"
    using scanDmi_write [of C l adr "dmi_if M" data] l adr by (auto simp: jtag_ok_def)
  show "\<exists>l'. scanDmi C (dmi_if M) adr data DmiOp_Read l = Some (fst (dmi_read M adr data (module_of l)), l') \<and> jtag_ok C l'
      \<and> module_of l' = snd (dmi_read M adr data (module_of l))"
    using scanDmi_read [of C l adr "dmi_if M" data] l adr by (auto simp: jtag_ok_def)
qed

subsection \<open>The functional CPU provides the memory\<close>

text \<open>The CPU \<open>c0\<close> with any contents of the memories.\<close>

definition cpu_on :: "(nat \<Rightarrow> memdev) platform \<Rightarrow> nat \<Rightarrow> (memcfg \<times> int) list \<Rightarrow> (nat \<Rightarrow> memdev) cpu \<Rightarrow> (nat \<Rightarrow> memdev) cpu \<Rightarrow> bool" where
  "cpu_on P w Ks c0 c \<longleftrightarrow> b_transport P = soc_b_transport w Ks \<and> 8 \<le> sysBusWidthBytes P \<and> bare_access P c0
     \<and> (\<exists>m. c = c0\<lparr>isysbus := m\<rparr>)"

lemma access_words:
  "access_size n \<Longrightarrow> n \<le> 8 \<and> unat (of_nat n :: u32) = n \<and> (of_nat n :: u32) \<le> 8"
  by (auto simp: access_size_def)

interpretation cpu_mem: hart_memory "cpu_port P" "\<lambda>c. soc_view w Ks (isysbus c)" "soc_ram w Ks" "cpu_on P w Ks c0" for P w Ks c0
proof unfold_locales
  fix c a n virt and payload :: u64
  assume c: "cpu_on P w Ks c0 c" and n: "access_size n" and a: "soc_ram w Ks a n"
  have bus: "b_transport P = soc_b_transport w Ks" "8 \<le> sysBusWidthBytes P" and b: "bare_access P c"
    using c by (auto simp: cpu_on_def bare_access_def)
  note w = access_words [OF n]
  have sz: "of_nat n \<le> sysBusWidthBytes P" using w bus(2) by (meson order_trans)
  let ?rd = "new_trans P MemAction_Read a (of_nat n)" and ?wr = "new_trans P MemAction_Write a (of_nat n)\<lparr>wpayload := payload\<rparr>"
  show "dp_readMem (cpu_port P) a virt (of_nat n) payload c
      = (0, payload_load (\<lambda>i. soc_view w Ks (isysbus c) (a + of_nat i)) n payload, c)"
  proof -
    have "dma_memop P ?rd False c = (TRANS_OK, ?rd\<lparr>source_idx := sysBusMasterID P, response := MemResp_Valid,
        rpayload := value_of (soc_view w Ks) (isysbus c) a n\<rparr>, c)"
      using soc.dma_read_ram [OF bus(1) b, of ?rd False] sz a w by (simp add: new_trans_def)
    moreover have "payload_load (byte_of (value_of (soc_view w Ks) (isysbus c) a n)) n payload
        = payload_load (\<lambda>i. soc_view w Ks (isysbus c) (a + of_nat i)) n payload"
      using w by (intro payload_load_cong) (simp add: value_of_def byte_of_payload_load)
    ultimately show ?thesis using w by (simp add: cpu_port_def dportReadMem_def)
  qed
  show "\<exists>c'. dp_writeMem (cpu_port P) a virt (of_nat n) payload c = (0, c') \<and> cpu_on P w Ks c0 c'
      \<and> (\<forall>x. soc_view w Ks (isysbus c') x
          = (if unat (x - a) < n then byte_of payload (unat (x - a)) else soc_view w Ks (isysbus c) x))"
  proof -
    let ?t = "?wr\<lparr>source_idx := sysBusMasterID P\<rparr>"
    have t: "addr ?t = a" "action ?t = MemAction_Write" "unat (xsize ?t) = n" "wstrb ?t = full_wstrb (xsize ?t)" "wpayload ?t = payload"
      using w by (simp_all add: new_trans_def)
    obtain t' m where bt: "soc_b_transport w Ks ?t (isysbus c) = (TRANS_OK, t', m)"
      using soc.write_status [of w Ks ?t "isysbus c"] a t by (metis prod.collapse)
    have v: "soc_view w Ks m x = (if unat (x - a) < n then byte_of payload (unat (x - a)) else soc_view w Ks (isysbus c) x)" for x
      using soc.write_view [of w Ks ?t "isysbus c" x] a t bt by simp
    have "dp_writeMem (cpu_port P) a virt (of_nat n) payload c = (0, c\<lparr>isysbus := m\<rparr>)"
      using bt sz by (simp add: cpu_port_def dportWriteMem_def dma_memop_bare [OF b] bus(1) new_trans_def)
    moreover have "cpu_on P w Ks c0 (c\<lparr>isysbus := m\<rparr>)"
      using c by (auto simp: cpu_on_def)
    ultimately show ?thesis using v by (intro exI [of _ "c\<lparr>isysbus := m\<rparr>"]) simp
  qed
qed

end
