(* ===== verification/Jtag_Props.thy ===== *)
theory Jtag_Props
  imports Jtag_Debug
begin

section \<open>The debugger from the command to the memory\<close>

text \<open>
  The contracts of the JTAG transport, the debug module and the functional CPU put together:
  what \<open>set_reg\<close>, \<open>get_reg\<close>, \<open>write_memory\<close> and \<open>read_memory\<close> of the debugger do to the CPU.
\<close>

subsection \<open>The configuration\<close>

text \<open>The attributes of dtm0 and dmi0 in targets/func_river_x1_gui.json, with the CPU as the only hart.\<close>

definition river_dtm :: dtm_cfg where
  "river_dtm = \<lparr>dtm_version = 1, dtm_idcode = 0x10e31913, dtm_irlen = 5, dtm_abits = 7\<rparr>"

definition one_hart :: "'m platform \<Rightarrow> ('m cpu \<Rightarrow> 'm cpu) \<Rightarrow> 'm cpu dmi_cfg" where
  "one_hart P rst = \<lparr>dataregTotal = 6, progbufTotal = 16, hartlist = [cpu_port P], reset_listeners = rst\<rparr>"

lemma one_hart_simps [simp]: "hartlist (one_hart P rst) = [cpu_port P]"
  by (simp add: one_hart_def)

interpretation jtag_cpu: debugged_hart "scanDmi C (dmi_if (one_hart P rst))" "one_hart P rst" "jtag_ok C" module_of
  "cpu_port P" "\<lambda>c. soc_view w Ks (isysbus c)" "soc_ram w Ks" "cpu_on P w Ks c0" 0 for C P rst w Ks c0
  by unfold_locales simp

text \<open>
  The debugger is connected: the link is established, hart 0 is selected, no command has
  failed and none is set to run by itself.  \<open>hart\<close> is the CPU at the other end.
\<close>

type_synonym 'm session = "(dmi \<times> 'm cpu) link"

definition connected :: "dtm_cfg \<Rightarrow> 'm session \<Rightarrow> bool" where
  "connected C l \<longleftrightarrow> jtag_ok C l \<and> dm_ready 0 (fst (module_of l))"

definition hart :: "'m session \<Rightarrow> 'm cpu" where
  "hart l = snd (module_of l)"

text \<open>The calls of the debugger on such a session.\<close>

definition dbg_set_reg :: "dtm_cfg \<Rightarrow> 'm cpu dmi_cfg \<Rightarrow> string \<Rightarrow> u64 \<Rightarrow> 'm session \<Rightarrow> (u32 \<times> 'm session) option" where
  "dbg_set_reg C M = set_reg (scanDmi C (dmi_if M))"

definition dbg_get_reg :: "dtm_cfg \<Rightarrow> 'm cpu dmi_cfg \<Rightarrow> string \<Rightarrow> 'm session \<Rightarrow> (u32 \<times> u64 \<times> 'm session) option" where
  "dbg_get_reg C M = get_reg (scanDmi C (dmi_if M))"

definition dbg_write_memory :: "dtm_cfg \<Rightarrow> 'm cpu dmi_cfg \<Rightarrow> u64 \<Rightarrow> u8 list \<Rightarrow> 'm session \<Rightarrow> (u32 \<times> 'm session) option" where
  "dbg_write_memory C M a bs = write_memory (scanDmi C (dmi_if M)) a (of_nat (length bs)) bs"

definition dbg_read_memory :: "dtm_cfg \<Rightarrow> 'm cpu dmi_cfg \<Rightarrow> u64 \<Rightarrow> nat \<Rightarrow> 'm session \<Rightarrow> (u32 \<times> u8 list \<times> 'm session) option" where
  "dbg_read_memory C M a n = read_memory (scanDmi C (dmi_if M)) a (of_nat n)"

text \<open>After \<open>init\<close> the debugger is connected, whatever state the cable was in.\<close>

lemma init_connects:
  assumes "dtm_irlen C = IRLEN" "dtm_abits C = ABITS" "bbstate h = IDLE_bb" "dm_ready 0 m"
  shows "\<exists>l1 l2 l3. resetAsync C D (h, t, m, c) = Some l1 \<and> resetSync C D l1 = Some l2
    \<and> scanIdCode C D l2 = Some (dtm_idcode C, l3) \<and> connected C l3 \<and> hart l3 = c"
  using link_init [OF assms(1-3), of D t "(m, c)"] assms by (auto simp: connected_def jtag_ok_def hart_def)

subsection \<open>Registers\<close>

definition gpr_names :: "string list" where
  "gpr_names = map fst (filter (\<lambda>(_, a). drop_bit 12 a = 1) RISCV_REG_MAP)"

definition gpr_index :: "string \<Rightarrow> nat" where
  "gpr_index name = unat (reg2addr name AND 0x3F)"

lemma gpr_ports:
  assumes "name \<in> set gpr_names"
  shows "dp_writeReg (cpu_port P) (getf 0 16 (reg2addr name)) v c = (0, c\<lparr>R := (R c)(gpr_index name := v)\<rparr>)"
    and "dp_readReg (cpu_port P) (getf 0 16 (reg2addr name)) c = (0, R c (gpr_index name), c)"
proof -
  have "list_all (\<lambda>name. (getf 0 16 (reg2addr name) :: u32) = reg2addr name \<and> drop_bit 12 (reg2addr name) = 1) gpr_names"
    unfolding gpr_names_def RISCV_REG_MAP_def reg2addr_def by (simp add: getf_def)
  with assms have a: "(getf 0 16 (reg2addr name) :: u32) = reg2addr name" "drop_bit 12 (reg2addr name) = 1"
    by (auto simp: list_all_iff)
  then show "dp_writeReg (cpu_port P) (getf 0 16 (reg2addr name)) v c = (0, c\<lparr>R := (R c)(gpr_index name := v)\<rparr>)"
    "dp_readReg (cpu_port P) (getf 0 16 (reg2addr name)) c = (0, R c (gpr_index name), c)"
    by (simp_all add: cpu_port_def dportWriteReg_def dportReadReg_def writeGPR_def readGPR_def gpr_index_def Let_def)
qed

text \<open>
  C25: The debugger's register access works end to end.  On a connected session \<open>set_reg\<close> of a
  general register returns without error and has written exactly that register of the CPU;
  \<open>get_reg\<close> then returns the value and changes nothing in the CPU.  The session stays connected.
  (Through the debug port also x0, \<open>r0\<close> of the debugger, is written.)
\<close>

theorem debugger_register_roundtrip:
  assumes "connected C l" and "name \<in> set gpr_names"
  shows "\<exists>l1 l2. dbg_set_reg C (one_hart P rst) name v l = Some (0, l1) \<and> connected C l1
    \<and> hart l1 = (hart l)\<lparr>R := (R (hart l))(gpr_index name := v)\<rparr>
    \<and> dbg_get_reg C (one_hart P rst) name l1 = Some (0, v, l2) \<and> connected C l2 \<and> hart l2 = hart l1"
proof -
  obtain m c where dm: "module_of l = (m, c)" by fastforce
  have ok: "jtag_ok C l" and m: "dm_ready 0 m" using assms(1) dm by (simp_all add: connected_def)
  let ?c = "c\<lparr>R := (R c)(gpr_index name := v)\<rparr>"
  obtain l1 m1 where 1: "set_reg (scanDmi C (dmi_if (one_hart P rst))) name v l = Some (0, l1)" "jtag_ok C l1"
      "module_of l1 = (m1, ?c)" "dm_ready 0 m1"
    using jtag.set_reg_law [where M = "one_hart P rst", OF ok dm m] gpr_ports(1) [OF assms(2)] by (metis nth_Cons_0 one_hart_simps)
  have "dp_readReg (cpu_port P) (getf 0 16 (reg2addr name)) ?c = (0, v, ?c)"
    by (simp add: gpr_ports(2) [OF assms(2)])
  then obtain l2 m2 where 2: "get_reg (scanDmi C (dmi_if (one_hart P rst))) name l1 = Some (0, v, l2)" "jtag_ok C l2"
      "module_of l2 = (m2, ?c)" "dm_ready 0 m2"
    using jtag.get_reg_law [where M = "one_hart P rst", OF 1(2,3,4)] by (metis nth_Cons_0 one_hart_simps)
  show ?thesis
    unfolding dbg_set_reg_def dbg_get_reg_def connected_def
    using 1 2 dm by (intro exI [of _ l1] exI [of _ l2]) (simp add: hart_def)
qed

subsection \<open>Memory\<close>

text \<open>
  C26: The debugger's memory access works end to end.  On a connected session with a CPU in
  machine mode, \<open>write_memory\<close> of any bytes to RAM returns without error: it splits them into
  accesses of 8, 4, 2 and 1 bytes, and afterwards the memory holds these bytes at the given
  addresses and is unchanged everywhere else, as is the rest of the CPU.  \<open>read_memory\<close> then
  returns the same bytes.
\<close>

theorem debugger_memory_roundtrip:
  assumes l: "connected C l" and P: "b_transport P = soc_b_transport w Ks" "8 \<le> sysBusWidthBytes P"
    and c: "bare_access P (hart l)" and bs: "bs \<noteq> []" "length bs < 2 ^ 64"
    and ram: "\<forall>j n. access_size n \<longrightarrow> j + n \<le> length bs \<longrightarrow> soc_ram w Ks (a + of_nat j) n"
  shows "\<exists>l1 l2 mem. dbg_write_memory C (one_hart P rst) a bs l = Some (0, l1) \<and> connected C l1
    \<and> hart l1 = (hart l)\<lparr>isysbus := mem\<rparr>
    \<and> (\<forall>x. soc_view w Ks mem x = (if unat (x - a) < length bs then bs ! unat (x - a) else soc_view w Ks (isysbus (hart l)) x))
    \<and> dbg_read_memory C (one_hart P rst) a (length bs) l1 = Some (0, bs, l2) \<and> connected C l2 \<and> hart l2 = hart l1"
proof -
  obtain m c where dm: "module_of l = (m, c)" by fastforce
  have ok: "jtag_ok C l" and m: "dm_ready 0 m" and h: "hart l = c"
    using l dm by (simp_all add: connected_def hart_def)
  have on: "cpu_on P w Ks c c" using P c h by (auto simp: cpu_on_def intro: exI [of _ "isysbus c"])
  have acc: "access_size n \<Longrightarrow> j + n \<le> length bs \<Longrightarrow> soc_ram w Ks (a + of_nat j) n" for j n
    using ram by blast
  obtain l1 m1 c1 where 1: "write_memory (scanDmi C (dmi_if (one_hart P rst))) a (of_nat (length bs)) bs l = Some (0, l1)"
      "jtag_ok C l1" "module_of l1 = (m1, c1)" "dm_ready 0 m1" "cpu_on P w Ks c c1"
    and v: "\<And>x. soc_view w Ks (isysbus c1) x = (if unat (x - a) < length bs then bs ! unat (x - a) else soc_view w Ks (isysbus c) x)"
    using jtag_cpu.write_memory_law [OF ok dm m on bs acc] by blast
  obtain mem where mem: "c1 = c\<lparr>isysbus := mem\<rparr>" using 1(5) by (auto simp: cpu_on_def)
  have n: "0 < length bs" using bs(1) by simp
  have "soc_view w Ks mem (a + of_nat i) = bs ! i" if "i < length bs" for i
    using v [of "a + of_nat i"] that bs(2) by (simp add: mem unat_of_nat take_bit_nat_eq_self)
  then have "map (\<lambda>i. soc_view w Ks (isysbus c1) (a + of_nat i)) [0..<length bs] = bs"
    by (intro nth_equalityI) (simp_all add: mem)
  then obtain l2 m2 where 2: "read_memory (scanDmi C (dmi_if (one_hart P rst))) a (of_nat (length bs)) l1 = Some (0, bs, l2)"
      "jtag_ok C l2" "module_of l2 = (m2, c1)" "dm_ready 0 m2"
    using jtag_cpu.read_memory_law [OF 1(2-5) n bs(2) acc] by metis
  show ?thesis
    unfolding dbg_write_memory_def dbg_read_memory_def connected_def
    using 1 2 v mem h by (intro exI [of _ l1] exI [of _ l2] exI [of _ mem]) (simp add: hart_def)
qed

subsection \<open>Instances\<close>

text \<open>A session after \<open>init\<close>: an idle host and TAP in front of the CPU after start-up.\<close>

definition idle_host :: ocd where
  "idle_host = \<lparr>bbstate = IDLE_bb, rq_valid = False, rq_ir = 0, rq_dr = 0, rq_drlen = 0, ircnt = 0, drcnt = 0,
     o_ir = 0, o_dr = 0, msgcnt = 0, o_ub = False\<rparr>"

definition river_session :: "(nat \<Rightarrow> memdev) session" where
  "river_session = (idle_host, at_rest (DtmFunctional False False False 0), DmiFunctional, river_cpu (\<lambda>_. 0))"

lemma river_connected: "connected river_dtm river_session"
  by (simp add: connected_def jtag_ok_def linked_def river_session_def river_dtm_def idle_host_def at_rest_def
      scanned_def IR_defs IRLEN_def ABITS_def module_of_def dm_ready_def DmiFunctional_def)

lemma river_hart: "hart river_session = river_cpu (\<lambda>_. 0)"
  by (simp add: hart_def module_of_def river_session_def)

theorem debugger_register_roundtrip_witness:
  "\<exists>l1 l2. dbg_set_reg river_dtm (one_hart river id) ''a0'' 0x123456789 river_session = Some (0, l1)
    \<and> R (hart l1) 10 = 0x123456789 \<and> dbg_get_reg river_dtm (one_hart river id) ''a0'' l1 = Some (0, 0x123456789, l2)"
proof -
  have n: "''a0'' \<in> set gpr_names" "gpr_index ''a0'' = 10"
    by (simp_all add: gpr_names_def gpr_index_def reg2addr_def RISCV_REG_MAP_def)
  obtain l1 l2 where "dbg_set_reg river_dtm (one_hart river id) ''a0'' 0x123456789 river_session = Some (0, l1)"
      "hart l1 = (hart river_session)\<lparr>R := (R (hart river_session))(gpr_index ''a0'' := 0x123456789)\<rparr>"
      "dbg_get_reg river_dtm (one_hart river id) ''a0'' l1 = Some (0, 0x123456789, l2)"
    using debugger_register_roundtrip [OF river_connected n(1)] by blast
  then show ?thesis using n(2) by (intro exI [of _ l1] exI [of _ l2]) simp
qed

lemma river_ram3:
  "access_size n \<Longrightarrow> j + n \<le> 3 \<Longrightarrow> soc_ram 39 river_mems (0x08000100 + of_nat j) n"
proof -
  assume n: "access_size n" "j + n \<le> 3"
  then have "(n, j) \<in> {(1, 0), (1, 1), (1, 2), (2, 0), (2, 1)}" by (auto simp: access_size_def)
  then show ?thesis
    by (auto simp: soc_ram_def soc_mem_def river_mems_def soc_bus_def busmap_wf_def device_wf_def
        scan_devices_def pick_def covers_def upt_consts)
qed

theorem debugger_memory_roundtrip_witness:
  "\<exists>l1 l2. dbg_write_memory river_dtm (one_hart river id) 0x08000100 [1, 2, 3] river_session = Some (0, l1)
    \<and> dbg_read_memory river_dtm (one_hart river id) 0x08000100 3 l1 = Some (0, [1, 2, 3], l2)"
proof -
  have ram: "\<forall>j n. access_size n \<longrightarrow> j + n \<le> length [1, 2, 3 :: u8] \<longrightarrow> soc_ram 39 river_mems (0x08000100 + of_nat j) n"
    using river_ram3 by simp
  have "8 \<le> sysBusWidthBytes river" "bare_access river (hart river_session)" "[1, 2, 3 :: u8] \<noteq> []"
    "length [1, 2, 3 :: u8] < 2 ^ 64" by (simp_all add: river_hart)
  from debugger_memory_roundtrip [OF river_connected river_simps(1) this ram, of id]
  obtain l1 l2 where "dbg_write_memory river_dtm (one_hart river id) 0x08000100 [1, 2, 3] river_session = Some (0, l1)"
      "dbg_read_memory river_dtm (one_hart river id) 0x08000100 (length [1, 2, 3 :: u8]) l1 = Some (0, [1, 2, 3], l2)"
    by blast
  then show ?thesis by (intro exI [of _ l1] exI [of _ l2]) (simp add: numeral_3_eq_3)
qed

subsection \<open>The scan\<close>

text \<open>
  C24: A scan is an atomic exchange of one register.  When both ends are idle, the loop of
  \<open>OpenOcdWrapper::scan\<close> ends and its characters fit into \<open>scanbuf\<close>; the bit-bang server and the
  TAP, executing them edge by edge, select the instruction \<open>ir\<close>, capture its register, and
  perform its update once with exactly the bits of the host's value; the host ends with the
  captured value; and both ends are idle and agree on the instruction again.
\<close>

theorem jtag_scan_exchanges:
  fixes D :: "'d idmi"
  assumes C: "dtm_irlen C = IRLEN" "dtm_abits C = ABITS" and ir: "ir \<in> {IR_IDCODE, IR_DTMCONTROL, IR_DBUS}"
    and idle: "bbstate h = IDLE_bb" "t_estate t = IDLE" and sync: "o_ir h = ir \<longrightarrow> t_ir t = ucast ir"
    and len: "drlen = (if ir = IR_DBUS then 34 + ABITS else 32)"
  shows "\<exists>buf h1 h' t' d'. let captured = capture_dr C D d (t\<lparr>t_ir := ucast ir\<rparr>) in
    scan_loop (h\<lparr>rq_ir := ir, rq_dr := v, rq_drlen := drlen, rq_valid := True\<rparr>) = Some (buf, h1) \<and> length buf < 1024
    \<and> scan C D ir v drlen (h, t, d) = Some (h', t', d')
    \<and> o_dr h' = t_dr captured
    \<and> (t', d') = apfst at_rest (update_dr D (captured\<lparr>t_dr := take_bit drlen v\<rparr>) d)
    \<and> bbstate h' = IDLE_bb \<and> t_estate t' = IDLE \<and> o_ir h' = ir \<and> t_ir t' = ucast ir"
proof -
  have ir': "ir \<in> scanned" and n: "drlen = dr_len ir" using ir len by (simp_all add: scanned_def dr_len_def)
  obtain buf h1 where run: "scan_loop (h\<lparr>rq_ir := ir, rq_dr := v, rq_drlen := drlen, rq_valid := True\<rparr>) = Some (buf, h1)"
      "length buf < 1024"
    using scan_characters [OF C ir' idle sync, where v = v and D = D and d = d] n by blast
  obtain h' w s where sc: "scan C D ir v drlen (h, t, d) = Some (h', s)"
      "dr_exchange C D (take_bit drlen v) (t\<lparr>t_ir := ucast ir\<rparr>, d) = (w, s)"
      "o_dr h' = w" "bbstate h' = IDLE_bb" "o_ir h' = ir"
    using scan_exchange [OF C ir' idle sync, where v = v and D = D and d = d] n by blast
  obtain t' d' where s: "s = (t', d')" by fastforce
  show ?thesis
    using run sc exchange_fields [OF sc(2) [unfolded s]]
    by (simp add: s dr_exchange_def Let_def)
qed

theorem jtag_scan_exchanges_witness:
  "\<exists>h' s. scan river_dtm (dmi_if (one_hart river id)) IR_IDCODE 0 32 river_session = Some (h', s) \<and> o_dr h' = 0x10e31913"
proof -
  let ?t = "at_rest (DtmFunctional False False False 0)"
  have c: "t_dr (capture_dr river_dtm D d (?t\<lparr>t_ir := ucast IR_IDCODE\<rparr>)) = 0x10e31913" for D d
    by (simp add: capture_dr_def river_dtm_def)
  have pre: "dtm_irlen river_dtm = IRLEN" "dtm_abits river_dtm = ABITS" "IR_IDCODE \<in> {IR_IDCODE, IR_DTMCONTROL, IR_DBUS}"
    "bbstate idle_host = IDLE_bb" "t_estate ?t = IDLE" "o_ir idle_host = IR_IDCODE \<longrightarrow> t_ir ?t = ucast IR_IDCODE"
    "32 = (if IR_IDCODE = IR_DBUS then 34 + ABITS else 32)"
    by (simp_all add: river_dtm_def IRLEN_def ABITS_def idle_host_def at_rest_def IR_defs)
  show ?thesis
    using jtag_scan_exchanges [OF pre, where v = 0 and D = "dmi_if (one_hart river id)" and d = "(DmiFunctional, river_cpu (\<lambda>_. 0))"]
    by (auto simp: Let_def c river_session_def)
qed

end
