(* ===== verification/Regs.thy ===== *)
theory Regs
  imports Bus
begin

section \<open>Mapped registers and register banks\<close>

text \<open>
  common/generic/mapreg.h, mapreg.cpp and common/generic/rmembank_gen1.cpp of debugger/src:
  the single registers \<open>MappedReg64Type\<close> \dots\ \<open>MappedReg8Type\<close>, the arrays
  \<open>GenericReg64Bank\<close> \dots\ \<open>GenericReg16Bank\<close>, and the device \<open>RegMemBankGeneric\<close> that maps
  them into its address range and splits a transaction over them.

  A register belongs to a parent device.  Its transport takes the transaction and the
  parent's state and gives back both and a flag: an access ran outside the array it
  addresses (undefined in C++).  The value of the register is read and assigned by \<open>get\<close>
  and \<open>put\<close>; \<open>rd\<close> and \<open>wr\<close> are the virtual \<open>aboutToRead\<close> and \<open>aboutToWrite\<close> (a bank:
  \<open>read\<close> and \<open>write\<close>), which may change the parent.
\<close>

type_synonym 's regop = "trans \<Rightarrow> 's \<Rightarrow> trans \<times> 's \<times> bool"

text \<open>\<open>memcpy(&dst[d], &src[s], n)\<close> on arrays of eight bytes.\<close>

definition memcpy8 :: "nat \<Rightarrow> nat \<Rightarrow> nat \<Rightarrow> u64 \<Rightarrow> u64 \<Rightarrow> u64" where
  "memcpy8 d s n src dst = fold (\<lambda>i. set_byte (d + i) (byte_of src (s + i))) [0..<n] dst"

lemma byte_of_memcpy8:
  "d + n \<le> 8 \<Longrightarrow> byte_of (memcpy8 d s n src dst) j
     = (if d \<le> j \<and> j < d + n then byte_of src (s + (j - d)) else byte_of dst j)"
proof (induction n)
  case 0
  then show ?case by (auto simp: memcpy8_def)
next
  case (Suc n)
  have "memcpy8 d s (Suc n) src dst = set_byte (d + n) (byte_of src (s + n)) (memcpy8 d s n src dst)"
    by (simp add: memcpy8_def)
  with Suc show ?case by (auto simp: byte_of_set_byte)
qed

subsection \<open>Single registers\<close>

definition MappedReg64_b_transport ::
  "u64 \<Rightarrow> ('s \<Rightarrow> u64) \<Rightarrow> (u64 \<Rightarrow> 's \<Rightarrow> 's) \<Rightarrow> (u64 \<Rightarrow> 's \<Rightarrow> u64 \<times> 's) \<Rightarrow> (u64 \<Rightarrow> 's \<Rightarrow> u64 \<times> 's) \<Rightarrow> 's regop"
where
  "MappedReg64_b_transport base get put rd wr t s =
     (let off = unat (addr t - base); n = unat (xsize t); bad = 8 < off + n
      in case action t of
           MemAction_Read \<Rightarrow>
             (case rd (get s) s of (cur, s) \<Rightarrow>
                (t\<lparr>rpayload := memcpy8 0 off n cur (rpayload t)\<rparr>, s, bad))
         | MemAction_Write \<Rightarrow>
             (case wr (memcpy8 off 0 n (wpayload t) (get s)) s of (new_val, s) \<Rightarrow>
                (t, put new_val s, bad)))"

text \<open>
  \<open>rsz = xsz - roff\<close> is negative when the offset within the word is above the size:
  \<open>memcpy\<close> then gets a huge size.
\<close>

definition MappedReg32_b_transport ::
  "u64 \<Rightarrow> ('s \<Rightarrow> u32) \<Rightarrow> (u32 \<Rightarrow> 's \<Rightarrow> 's) \<Rightarrow> (u32 \<Rightarrow> 's \<Rightarrow> u32 \<times> 's) \<Rightarrow> (u32 \<Rightarrow> 's \<Rightarrow> u32 \<times> 's) \<Rightarrow> 's regop"
where
  "MappedReg32_b_transport base get put rd wr t s =
     (let off = addr t - base;
          xsz = (if xsize t \<ge> 4 then 4 else unat (xsize t));
          roff = unat (off AND 3);
          rsz = xsz - roff; bad = xsz < roff
      in case action t of
           MemAction_Read \<Rightarrow>
             (case rd (get s) s of (cur, s) \<Rightarrow>
                (t\<lparr>rpayload := memcpy8 0 roff rsz (ucast cur) (memcpy8 0 0 4 0 (rpayload t))\<rparr>, s, bad))
         | MemAction_Write \<Rightarrow>
             (case wr (ucast (memcpy8 roff 0 rsz (wpayload t) (ucast (get s)))) s of (new_val, s) \<Rightarrow>
                (t, put new_val s, bad)))"

definition MappedReg16_b_transport ::
  "u64 \<Rightarrow> ('s \<Rightarrow> u16) \<Rightarrow> (u16 \<Rightarrow> 's \<Rightarrow> 's) \<Rightarrow> (u16 \<Rightarrow> 's \<Rightarrow> u16 \<times> 's) \<Rightarrow> (u16 \<Rightarrow> 's \<Rightarrow> u16 \<times> 's) \<Rightarrow> 's regop"
where
  "MappedReg16_b_transport base get put rd wr t s =
     (let off = unat (addr t - base)
      in case action t of
           MemAction_Read \<Rightarrow>
             (case rd (get s) s of (cur, s) \<Rightarrow>
                if bit (addr t) 0
                then (t\<lparr>rpayload := set_byte 1 0 (set_byte 0 (byte_of (ucast cur) off) (rpayload t))\<rparr>,
                      s, 2 \<le> off)
                else (t\<lparr>rpayload := set_byte 1 (byte_of (ucast cur) (off + 1))
                         (set_byte 0 (byte_of (ucast cur) off) (rpayload t))\<rparr>, s, 1 \<le> off))
         | MemAction_Write \<Rightarrow>
             (case wr (if xsize t = 1
                       then ucast (set_byte (of_bool (bit (addr t) 0)) (byte_of (wpayload t) 0) (ucast (get s)))
                       else ucast (wpayload t)) s of (new_val, s) \<Rightarrow>
                (t, put new_val s, False)))"

definition MappedReg8_b_transport ::
  "('s \<Rightarrow> u8) \<Rightarrow> (u8 \<Rightarrow> 's \<Rightarrow> 's) \<Rightarrow> (u8 \<Rightarrow> 's \<Rightarrow> u8 \<times> 's) \<Rightarrow> (u8 \<Rightarrow> 's \<Rightarrow> u8 \<times> 's) \<Rightarrow> 's regop"
where
  "MappedReg8_b_transport get put rd wr t s =
     (case action t of
        MemAction_Read \<Rightarrow>
          (case rd (get s) s of (cur, s) \<Rightarrow> (t\<lparr>rpayload := set_byte 0 cur (rpayload t)\<rparr>, s, False))
      | MemAction_Write \<Rightarrow>
          (case wr (ucast (wpayload t)) s of (new_val, s) \<Rightarrow> (t, put new_val s, False)))"

subsection \<open>Arrays of registers\<close>

definition GenericReg64Bank_b_transport ::
  "u64 \<Rightarrow> nat \<Rightarrow> (nat \<Rightarrow> 's \<Rightarrow> u64) \<Rightarrow> (nat \<Rightarrow> u64 \<Rightarrow> 's \<Rightarrow> 's) \<Rightarrow> 's regop" where
  "GenericReg64Bank_b_transport base len rd wr t s =
     (let idx = unat (drop_bit 3 (addr t - base)); bad = len \<le> idx
      in case action t of
           MemAction_Read \<Rightarrow> (t\<lparr>rpayload := rd idx s\<rparr>, s, bad)
         | MemAction_Write \<Rightarrow> (t, wr idx (wpayload t) s, bad))"

definition GenericReg32Bank_b_transport ::
  "u64 \<Rightarrow> nat \<Rightarrow> (nat \<Rightarrow> 's \<Rightarrow> u32) \<Rightarrow> (nat \<Rightarrow> u32 \<Rightarrow> 's \<Rightarrow> 's) \<Rightarrow> 's regop" where
  "GenericReg32Bank_b_transport base len rd wr t s =
     (let idx = unat (drop_bit 2 (addr t - base)); bad = len \<le> idx
      in case action t of
           MemAction_Read \<Rightarrow> (t\<lparr>rpayload := ucast (rd idx s)\<rparr>, s, bad)
         | MemAction_Write \<Rightarrow> (t, wr idx (ucast (wpayload t)) s, bad))"

definition GenericReg16Bank_b_transport ::
  "u64 \<Rightarrow> nat \<Rightarrow> (nat \<Rightarrow> 's \<Rightarrow> u16) \<Rightarrow> (nat \<Rightarrow> u16 \<Rightarrow> 's \<Rightarrow> 's) \<Rightarrow> (nat \<Rightarrow> u16 \<Rightarrow> u16) \<Rightarrow>
     (nat \<Rightarrow> u16 \<Rightarrow> u16) \<Rightarrow> 's regop" where
  "GenericReg16Bank_b_transport base len rd wr aboutToRead aboutToWrite t s =
     (let off = addr t - base; idx = unat (drop_bit 1 off); bad = len \<le> idx
      in case action t of
           MemAction_Read \<Rightarrow> (t\<lparr>rpayload := ucast (aboutToRead idx (rd idx s))\<rparr>, s, bad)
         | MemAction_Write \<Rightarrow>
             (let v = (if xsize t = 1
                       then ucast (set_byte (of_bool (bit off 0)) (byte_of (wpayload t) 0) (ucast (rd idx s)))
                       else ucast (wpayload t))
              in (t, wr idx (aboutToWrite idx v) s, bad)))"

text \<open>The virtual methods as the base classes have them.\<close>

definition plain :: "'a \<Rightarrow> 's \<Rightarrow> 'a \<times> 's" where
  "plain v s = (v, s)"

lemma plain_simps [simp]: "plain v s = (v, s)"
  by (simp add: plain_def)

subsection \<open>RegMemBankGeneric: the hash\<close>

text \<open>
  A bank maps registers by base address (relative to the bank), length in bytes and
  priority; \<open>imaphash_\<close> has an entry per byte.  Registers must lie inside the bank.
\<close>

record regdesc =
  r_base :: u64
  r_length :: nat
  r_prio :: int

record 's regbank =
  b_regs :: "(regdesc \<times> 's regop) list"
  b_base :: u64
  b_length :: nat

definition maphash_byte :: "(nat \<Rightarrow> regdesc) \<Rightarrow> nat \<Rightarrow> nat \<Rightarrow> (nat \<Rightarrow> nat option) \<Rightarrow> (nat \<Rightarrow> nat option)" where
  "maphash_byte d k a h =
     (case h a of
        Some j \<Rightarrow> if r_prio (d j) > r_prio (d k) then h else h(a := Some k)
      | None \<Rightarrow> h(a := Some k))"

definition bank_maphash ::
  "nat \<Rightarrow> (nat \<Rightarrow> regdesc) \<Rightarrow> nat \<Rightarrow> (nat \<Rightarrow> nat option) \<Rightarrow> (nat \<Rightarrow> nat option)" where
  "bank_maphash len d k h =
     (let off = unat (r_base (d k))
      in if off \<ge> len then h
         else fold (\<lambda>i. maphash_byte d k (off + i)) [0..<r_length (d k)] h)"

definition imaphash :: "'s regbank \<Rightarrow> nat \<Rightarrow> nat option" where
  "imaphash B =
     fold (bank_maphash (b_length B) (\<lambda>k. fst (b_regs B ! k))) [0..<length (b_regs B)] (\<lambda>_. None)"

text \<open>The bytes of a register.\<close>

definition reg_covers :: "regdesc \<Rightarrow> nat \<Rightarrow> bool" where
  "reg_covers d a \<longleftrightarrow> unat (r_base d) \<le> a \<and> a < unat (r_base d) + r_length d"

lemma maphash_byte_other: "a \<noteq> x \<Longrightarrow> maphash_byte d k a h x = h x"
  by (auto simp: maphash_byte_def split: option.split)

lemma maphash_byte_same:
  "maphash_byte d k a h a = (case h a of
     Some j \<Rightarrow> if r_prio (d j) > r_prio (d k) then Some j else Some k | None \<Rightarrow> Some k)"
  by (simp add: maphash_byte_def split: option.split)

lemma maphash_bytes:
  "fold (\<lambda>i. maphash_byte d k (off + i)) [0..<n] h x
     = (if off \<le> x \<and> x < off + n then maphash_byte d k x h x else h x)"
proof (induction n)
  case 0
  then show ?case by auto
next
  case (Suc n)
  let ?f = "fold (\<lambda>i. maphash_byte d k (off + i)) [0..<n] h"
  have "fold (\<lambda>i. maphash_byte d k (off + i)) [0..<Suc n] h x = maphash_byte d k (off + n) ?f x"
    by simp
  also have "\<dots> = (if off + n = x then maphash_byte d k x h x else ?f x)"
    using Suc.IH by (auto simp: maphash_byte_other maphash_byte_same)
  finally show ?case using Suc.IH by auto
qed

lemma bank_maphash_apply:
  "bank_maphash len d k h x
     = (if unat (r_base (d k)) < len \<and> reg_covers (d k) x then maphash_byte d k x h x else h x)"
  by (auto simp: bank_maphash_def reg_covers_def Let_def maphash_bytes)

text \<open>The entry of a byte: the last of the registers of highest priority that cover it.\<close>

definition reg_pick :: "(nat \<Rightarrow> regdesc) \<Rightarrow> nat \<Rightarrow> nat \<Rightarrow> nat option \<Rightarrow> nat option" where
  "reg_pick d x k best =
     (if reg_covers (d k) x \<and> (case best of Some j \<Rightarrow> r_prio (d j) \<le> r_prio (d k) | None \<Rightarrow> True)
      then Some k else best)"

lemma imaphash_pick:
  assumes "list_all (\<lambda>r. unat (r_base (fst r)) < b_length B) (b_regs B)"
  shows "imaphash B x = fold (reg_pick (\<lambda>k. fst (b_regs B ! k)) x) [0..<length (b_regs B)] None"
proof -
  let ?d = "\<lambda>k. fst (b_regs B ! k)"
  have "fold (bank_maphash (b_length B) ?d) ks h x = fold (reg_pick ?d x) ks (h x)"
    if "set ks \<subseteq> {..<length (b_regs B)}" for ks h
    using that
  proof (induction ks arbitrary: h)
    case Nil
    then show ?case by simp
  next
    case (Cons k ks)
    then have "unat (r_base (?d k)) < b_length B"
      using assms by (auto simp: list_all_length)
    then have "bank_maphash (b_length B) ?d k h x = reg_pick ?d x k (h x)"
      by (auto simp: bank_maphash_apply maphash_byte_same reg_pick_def split: option.split)
    with Cons show ?case by simp
  qed
  from this [of "[0..<length (b_regs B)]" "\<lambda>_. None"] show ?thesis
    by (simp add: imaphash_def atLeast0LessThan)
qed

subsection \<open>RegMemBankGeneric: transactions\<close>

text \<open>The state of a device that is a register bank: its own, the stub memory, the flag.\<close>

record 's bankst =
  dev :: 's
  stubmem :: "nat \<Rightarrow> u8"
  bank_oob :: bool

text \<open>
  One pass of the loop of \<open>b_transport\<close>: \<open>tr\<close> is the local copy of the transaction, \<open>off\<close>
  and \<open>tsz\<close> what is left of it.  A write whose strobes for the register are all zero is
  dropped, and then the strobes and the data are not shifted.
\<close>

definition bank_step ::
  "'s regbank \<Rightarrow> u64 \<Rightarrow> trans \<times> trans \<times> u32 \<times> u64 \<times> 's bankst \<Rightarrow> trans \<times> trans \<times> u32 \<times> u64 \<times> 's bankst"
where
  "bank_step B off0 x = (case x of (t, tr, tsz, off, b) \<Rightarrow>
     let b = (if unat off < b_length B then b else b\<lparr>bank_oob := True\<rparr>);
         i = unat (off - off0);
         b = (if i < 8 then b else b\<lparr>bank_oob := True\<rparr>)
     in case imaphash B (unat off) of
          Some k \<Rightarrow>
            (let len = of_nat (r_length (fst (b_regs B ! k)));
                 tr = tr\<lparr>addr := off, xsize := (if len < tsz then len else tsz)\<rparr>;
                 sz = xsize tr;
                 call = (\<lambda>tr b. case snd (b_regs B ! k) tr (dev b) of (tr, s, bad) \<Rightarrow>
                           (tr, b\<lparr>dev := s, bank_oob := bank_oob b \<or> bad\<rparr>))
             in case action t of
                  MemAction_Read \<Rightarrow>
                    (case call tr b of (tr, b) \<Rightarrow>
                       (t\<lparr>rpayload := memcpy8 i 0 (unat sz) (rpayload tr) (rpayload t)\<rparr>,
                        tr, tsz - sz, off + ucast sz, b))
                | MemAction_Write \<Rightarrow>
                    (if wstrb tr AND full_wstrb sz \<noteq> 0 then
                       (case call tr b of (tr, b) \<Rightarrow>
                          (t, tr\<lparr>wstrb := drop_bit (unat sz) (wstrb tr),
                                 wpayload := drop_bit (8 * unat sz) (wpayload tr)\<rparr>,
                           tsz - sz, off + ucast sz, b))
                     else (t, tr, tsz - sz, off + ucast sz, b)))
        | None \<Rightarrow>
            (let (t, b) = (case action t of
                    MemAction_Read \<Rightarrow>
                      (t\<lparr>rpayload := set_byte i (stubmem b (unat off)) (rpayload t)\<rparr>, b)
                  | MemAction_Write \<Rightarrow>
                      (t, if bit (wstrb tr) 0
                          then b\<lparr>stubmem := (stubmem b)(unat off := byte_of (wpayload t) i)\<rparr> else b))
             in (t, tr\<lparr>wstrb := drop_bit 1 (wstrb tr), wpayload := drop_bit 8 (wpayload tr)\<rparr>,
                 tsz - 1, off + 1, b)))"

text \<open>
  The loop runs while \<open>tsz > 0\<close>; every pass consumes at least a byte when no register has
  length 0, so \<open>xsize\<close> passes are enough.
\<close>

fun bank_loop ::
  "nat \<Rightarrow> 's regbank \<Rightarrow> u64 \<Rightarrow> trans \<times> trans \<times> u32 \<times> u64 \<times> 's bankst \<Rightarrow> (trans \<times> 's bankst) option"
where
  "bank_loop fuel B off0 (t, tr, tsz, off, b) =
     (if tsz = 0 then Some (t, b)
      else case fuel of 0 \<Rightarrow> None
           | Suc n \<Rightarrow> bank_loop n B off0 (bank_step B off0 (t, tr, tsz, off, b)))"

declare bank_loop.simps [simp del]

definition bank_b_transport ::
  "'s regbank \<Rightarrow> trans \<Rightarrow> 's bankst \<Rightarrow> (ETransStatus \<times> trans \<times> 's bankst) option" where
  "bank_b_transport B t b =
     (let off = addr t - b_base B
      in case bank_loop (unat (xsize t)) B off (t, t, xsize t, off, b) of
           None \<Rightarrow> None
         | Some (t', b) \<Rightarrow> Some (TRANS_OK, t'\<lparr>addr := addr t\<rparr>, b))"

subsection \<open>The loop returns\<close>

definition regs_nonempty :: "'s regbank \<Rightarrow> bool" where
  "regs_nonempty B \<longleftrightarrow>
     list_all (\<lambda>r. 0 < r_length (fst r) \<and> r_length (fst r) < 2 ^ 32 \<and> unat (r_base (fst r)) < b_length B)
       (b_regs B)"

lemma reg_pick_covers:
  "fold (reg_pick d x) ks best = Some k \<Longrightarrow> best = Some k \<or> (k \<in> set ks \<and> reg_covers (d k) x)"
  by (induction ks arbitrary: best) (fastforce simp: reg_pick_def split: if_splits)+

lemma imaphash_covers:
  assumes "regs_nonempty B" and "imaphash B x = Some k"
  shows "k < length (b_regs B)" and "reg_covers (fst (b_regs B ! k)) x"
proof -
  have "list_all (\<lambda>r. unat (r_base (fst r)) < b_length B) (b_regs B)"
    using assms(1) by (auto simp: regs_nonempty_def list_all_iff)
  from imaphash_pick [OF this] assms(2)
  have "fold (reg_pick (\<lambda>k. fst (b_regs B ! k)) x) [0..<length (b_regs B)] None = Some k"
    by simp
  from reg_pick_covers [OF this] show "k < length (b_regs B)" "reg_covers (fst (b_regs B ! k)) x"
    by auto
qed

lemma bank_step_shrinks:
  assumes "regs_nonempty B" and "tsz \<noteq> 0"
  obtains t' tr' tsz' off' b' where
    "bank_step B off0 (t, tr, tsz, off, b) = (t', tr', tsz', off', b')" and "unat tsz' < unat tsz"
proof -
  have one: "unat (tsz - 1) < unat tsz"
    using assms(2) by (simp add: unat_minus_one unat_gt_0)
  have "unat (fst (snd (snd (bank_step B off0 (t, tr, tsz, off, b))))) < unat tsz"
  proof (cases "imaphash B (unat off)")
    case None
    with one show ?thesis
      by (simp add: bank_step_def Let_def split: EAxi4Action.split)
  next
    case (Some k)
    let ?n = "r_length (fst (b_regs B ! k))"
    define sz where "sz = (if (of_nat ?n :: u32) < tsz then of_nat ?n else tsz)"
    have "0 < ?n" "?n < 2 ^ 32"
      using assms(1) imaphash_covers(1) [OF assms(1) Some] by (auto simp: regs_nonempty_def list_all_length)
    then have "0 < unat (of_nat ?n :: u32)"
      by (simp add: unat_of_nat take_bit_nat_eq_self)
    then have sz: "0 < unat sz" "sz \<le> tsz"
      using assms(2) by (auto simp: sz_def unat_gt_0)
    then have "unat (tsz - sz) < unat tsz"
      by (simp add: unat_sub word_le_nat_alt)
    with Some show ?thesis
      by (auto simp: bank_step_def Let_def case_prod_beta sz_def split: EAxi4Action.split if_splits)
  qed
  then show ?thesis
    using that by (metis prod.collapse)
qed

lemma bank_loop_returns:
  assumes "regs_nonempty B" and "unat tsz \<le> n"
  shows "\<exists>t' b'. bank_loop n B off0 (t, tr, tsz, off, b) = Some (t', b')"
  using assms(2)
proof (induction n arbitrary: t tr tsz off b)
  case 0
  then have "tsz = 0" by (simp add: unat_eq_0)
  then show ?case by (simp add: bank_loop.simps)
next
  case (Suc n)
  show ?case
  proof (cases "tsz = 0")
    case True
    then show ?thesis by (simp add: bank_loop.simps)
  next
    case False
    from bank_step_shrinks [OF assms(1) False] obtain t' tr' tsz' off' b'
      where s: "bank_step B off0 (t, tr, tsz, off, b) = (t', tr', tsz', off', b')"
        and l: "unat tsz' < unat tsz" .
    then have "unat tsz' \<le> n" using Suc.prems by simp
    from Suc.IH [OF this, of t' tr' off' b'] show ?thesis
      using False by (simp add: bank_loop.simps [of "Suc n"] s)
  qed
qed

lemma bank_b_transport_returns:
  assumes "regs_nonempty B"
  shows "\<exists>t' b'. bank_b_transport B t b = Some (TRANS_OK, t', b') \<and> addr t' = addr t"
  using bank_loop_returns [OF assms order_refl, of "xsize t" "addr t - b_base B" t t "addr t - b_base B" b]
  by (auto simp: bank_b_transport_def Let_def)

subsection \<open>A transaction inside one register\<close>

lemma fold_reg_pick_other:
  "\<forall>k\<in>set ks. \<not> reg_covers (d k) x \<Longrightarrow> fold (reg_pick d x) ks best = best"
  by (induction ks arbitrary: best) (auto simp: reg_pick_def)

lemma imaphash_unique:
  assumes "regs_nonempty B" and "k < length (b_regs B)" and "reg_covers (fst (b_regs B ! k)) x"
    and "\<And>j. j < length (b_regs B) \<Longrightarrow> j \<noteq> k \<Longrightarrow> \<not> reg_covers (fst (b_regs B ! j)) x"
  shows "imaphash B x = Some k"
proof -
  let ?d = "\<lambda>k. fst (b_regs B ! k)" and ?n = "length (b_regs B)"
  have "list_all (\<lambda>r. unat (r_base (fst r)) < b_length B) (b_regs B)"
    using assms(1) by (auto simp: regs_nonempty_def list_all_iff)
  moreover have "[0..<?n] = [0..<k] @ k # [Suc k..<?n]"
    using assms(2) upt_add_eq_append [of 0 k "?n - k"] by (simp add: upt_conv_Cons)
  ultimately have "imaphash B x = fold (reg_pick ?d x) ([0..<k] @ k # [Suc k..<?n]) None"
    by (simp only: imaphash_pick)
  also have "\<dots> = Some k"
    using assms(2-4) by (simp add: fold_reg_pick_other reg_pick_def)
  finally show ?thesis .
qed

lemma imaphash_none:
  assumes "regs_nonempty B" and "\<And>j. j < length (b_regs B) \<Longrightarrow> \<not> reg_covers (fst (b_regs B ! j)) x"
  shows "imaphash B x = None"
  using assms imaphash_covers [OF assms(1), of x] by (cases "imaphash B x") auto

definition reg_hit :: "'s regbank \<Rightarrow> nat \<Rightarrow> trans \<Rightarrow> bool" where
  "reg_hit B k t \<longleftrightarrow> imaphash B (unat (addr t - b_base B)) = Some k
     \<and> unat (addr t - b_base B) < b_length B
     \<and> xsize t \<noteq> 0 \<and> unat (xsize t) \<le> r_length (fst (b_regs B ! k))"

lemma reg_hit_len:
  assumes "regs_nonempty B" and "reg_hit B k t"
  shows "\<not> (of_nat (r_length (fst (b_regs B ! k))) < xsize t)"
proof -
  have "r_length (fst (b_regs B ! k)) < 2 ^ 32"
    using assms imaphash_covers(1) [OF assms(1), of _ k]
    by (auto simp: regs_nonempty_def list_all_length reg_hit_def)
  then show ?thesis
    using assms(2) by (simp add: reg_hit_def word_less_nat_alt unat_of_nat take_bit_nat_eq_self)
qed

lemma bank_read_hit:
  assumes B: "regs_nonempty B" and hit: "reg_hit B k t" and rd: "action t = MemAction_Read"
    and call: "snd (b_regs B ! k) (t\<lparr>addr := addr t - b_base B\<rparr>) (dev b) = (tr, s, bad)"
  shows "bank_b_transport B t b = Some (TRANS_OK,
    t\<lparr>rpayload := memcpy8 0 0 (unat (xsize t)) (rpayload tr) (rpayload t)\<rparr>,
    b\<lparr>dev := s, bank_oob := bank_oob b \<or> bad\<rparr>)"
proof -
  obtain n where n: "unat (xsize t) = Suc n"
    using hit by (cases "unat (xsize t)") (auto simp: reg_hit_def unat_eq_0)
  have t: "t\<lparr>addr := addr t - b_base B, xsize := xsize t\<rparr> = t\<lparr>addr := addr t - b_base B\<rparr>"
    by (cases t) simp
  show ?thesis
    using hit reg_hit_len [OF B hit] rd call
    by (simp add: bank_b_transport_def Let_def n bank_loop.simps bank_step_def reg_hit_def t)
qed

lemma bank_write_hit:
  assumes B: "regs_nonempty B" and hit: "reg_hit B k t" and wr: "action t = MemAction_Write"
    and st: "wstrb t AND full_wstrb (xsize t) \<noteq> 0"
    and call: "snd (b_regs B ! k) (t\<lparr>addr := addr t - b_base B\<rparr>) (dev b) = (tr, s, bad)"
  shows "bank_b_transport B t b = Some (TRANS_OK, t, b\<lparr>dev := s, bank_oob := bank_oob b \<or> bad\<rparr>)"
proof -
  obtain n where n: "unat (xsize t) = Suc n"
    using hit by (cases "unat (xsize t)") (auto simp: reg_hit_def unat_eq_0)
  have t: "t\<lparr>addr := addr t - b_base B, xsize := xsize t\<rparr> = t\<lparr>addr := addr t - b_base B\<rparr>"
    by (cases t) simp
  show ?thesis
    using hit reg_hit_len [OF B hit] wr st call
    by (simp add: bank_b_transport_def Let_def n bank_loop.simps bank_step_def reg_hit_def t)
qed

end
