(* ===== verification/Clint.thy ===== *)
theory Clint
  imports Regs
begin

section \<open>The core-local interruptor\<close>

text \<open>
  socsim_plugin/clint.h and clint.cpp of debugger/src: the software interrupt bits, the timer
  compare registers and the timer of the harts, a register bank of \<open>0x10000\<close> bytes.  The
  timer is brought up to date only when it is read; \<open>now\<close> is \<open>iclk_->getStepCounter()\<close>, the
  step counter of the CPU.  Context ids (\<open>2 * hart\<close>, \<open>2 * hart + 1\<close>) are not negative.
\<close>

record clint =
  msip :: "nat \<Rightarrow> u32"
  mtimecmp :: "nat \<Rightarrow> u64"
  mtime :: u64
  update_time :: u64

abbreviation (input) CLINT_HART_MAX :: nat where "CLINT_HART_MAX \<equiv> 4096"

definition clint_init :: clint where
  "clint_init = \<lparr>msip = (\<lambda>_. 0), mtimecmp = (\<lambda>_. 0), mtime = 0, update_time = 0\<rparr>"

definition setTimer :: "u64 \<Rightarrow> u64 \<Rightarrow> clint \<Rightarrow> clint" where
  "setTimer now v d = d\<lparr>update_time := now, mtime := v\<rparr>"

definition updateTimer :: "u64 \<Rightarrow> clint \<Rightarrow> clint" where
  "updateTimer now d =
     (let cur_time = now; dt = cur_time - update_time d; t = mtime d
      in d\<lparr>update_time := cur_time, mtime := t + dt\<rparr>)"

definition clint_getPendingRequest :: "u64 \<Rightarrow> u32 \<Rightarrow> clint \<Rightarrow> u64 \<times> clint" where
  "clint_getPendingRequest now ctxid d =
     (let hart = unat (ctxid div 2); sw = NOT ctxid AND 1; tmr = ctxid AND 1
      in if truth sw then (getf 0 1 (msip d hart), d)
         else if truth tmr then
           (let d = updateTimer now d in (if mtime d \<ge> mtimecmp d hart then 1 else 0, d))
         else (0, d))"

definition CLINT_MTIME_aboutToRead :: "u64 \<Rightarrow> u64 \<Rightarrow> clint \<Rightarrow> u64 \<times> clint" where
  "CLINT_MTIME_aboutToRead now cur_val d = (let d = updateTimer now d in (mtime d, d))"

definition CLINT_MTIME_aboutToWrite :: "u64 \<Rightarrow> u64 \<Rightarrow> clint \<Rightarrow> u64 \<times> clint" where
  "CLINT_MTIME_aboutToWrite now new_val d = (new_val, setTimer now new_val d)"

text \<open>The three registers of the map list, and the bank at \<open>base\<close>.\<close>

definition CLINT_regs :: "u64 \<Rightarrow> (regdesc \<times> clint regop) list" where
  "CLINT_regs now =
     [(\<lparr>r_base = 0, r_length = CLINT_HART_MAX * 4, r_prio = 0\<rparr>,
       GenericReg32Bank_b_transport 0 CLINT_HART_MAX (\<lambda>i d. msip d i)
         (\<lambda>i v d. d\<lparr>msip := (msip d)(i := v)\<rparr>)),
      (\<lparr>r_base = 0x4000, r_length = (CLINT_HART_MAX - 1) * 8, r_prio = 0\<rparr>,
       GenericReg64Bank_b_transport 0x4000 (CLINT_HART_MAX - 1) (\<lambda>i d. mtimecmp d i)
         (\<lambda>i v d. d\<lparr>mtimecmp := (mtimecmp d)(i := v)\<rparr>)),
      (\<lparr>r_base = 0xBFF8, r_length = 8, r_prio = 1\<rparr>,
       MappedReg64_b_transport 0xBFF8 mtime (\<lambda>v d. d\<lparr>mtime := v\<rparr>)
         (CLINT_MTIME_aboutToRead now) (CLINT_MTIME_aboutToWrite now))]"

definition clint_bank :: "u64 \<Rightarrow> u64 \<Rightarrow> clint regbank" where
  "clint_bank base now = \<lparr>b_regs = CLINT_regs now, b_base = base, b_length = 0x10000\<rparr>"

definition clint_b_transport ::
  "u64 \<Rightarrow> u64 \<Rightarrow> trans \<Rightarrow> clint bankst \<Rightarrow> (ETransStatus \<times> trans \<times> clint bankst) option" where
  "clint_b_transport base now = bank_b_transport (clint_bank base now)"

subsection \<open>The timer\<close>

lemma updateTimer_simps [simp]:
  "mtime (updateTimer now d) = mtime d + (now - update_time d)"
  "update_time (updateTimer now d) = now"
  "mtimecmp (updateTimer now d) = mtimecmp d" "msip (updateTimer now d) = msip d"
  by (simp_all add: updateTimer_def Let_def)

text \<open>
  The update is invisible: what the device answers later does not depend on how often, or
  when, it was asked before.
\<close>

lemma updateTimer_twice: "updateTimer now2 (updateTimer now1 d) = updateTimer now2 d"
  by (simp add: updateTimer_def Let_def)

lemma pending_updates:
  "snd (clint_getPendingRequest now x d) = d \<or> snd (clint_getPendingRequest now x d) = updateTimer now d"
  by (simp add: clint_getPendingRequest_def Let_def)

lemma pending_after_update:
  "fst (clint_getPendingRequest now2 x (updateTimer now1 d)) = fst (clint_getPendingRequest now2 x d)"
  by (simp add: clint_getPendingRequest_def Let_def)

text \<open>The contexts of hart \<open>h\<close>: even for the software, odd for the timer interrupt.\<close>

lemma ctx_halves:
  assumes "h < 2 ^ 31"
  shows "unat (2 * of_nat h div 2 :: u32) = h" and "unat ((2 * of_nat h + 1) div 2 :: u32) = h"
    and "NOT (2 * of_nat h :: u32) AND 1 = 1" and "NOT (2 * of_nat h + 1 :: u32) AND 1 = 0"
    and "(2 * of_nat h + 1 :: u32) AND 1 = 1"
proof -
  have e: "(2 * of_nat h :: u32) = of_nat (2 * h)" "(2 * of_nat h + 1 :: u32) = of_nat (2 * h + 1)"
    by simp_all
  have u: "unat (of_nat (2 * h) :: u32) = 2 * h" "unat (of_nat (2 * h + 1) :: u32) = 2 * h + 1"
    using assms by (simp_all only: unat_of_nat) (simp_all add: take_bit_nat_eq_self)
  have u': "unat (2 * of_nat h :: u32) = 2 * h" "unat (2 * of_nat h + 1 :: u32) = 2 * h + 1"
    by (simp only: e(1) u(1), simp only: e(2) u(2))
  show "unat (2 * of_nat h div 2 :: u32) = h" "unat ((2 * of_nat h + 1) div 2 :: u32) = h"
    by (simp_all only: unat_div u') simp_all
  have "odd (2 * of_nat h + 1 :: u32)" "even (2 * of_nat h :: u32)" by simp_all
  then show "NOT (2 * of_nat h :: u32) AND 1 = 1" "NOT (2 * of_nat h + 1 :: u32) AND 1 = 0"
    "(2 * of_nat h + 1 :: u32) AND 1 = 1"
    by (simp_all add: and_one_eq flip: odd_iff_mod_2_eq_one even_iff_mod_2_eq_zero)
qed

lemma clint_sw_pending:
  "h < 2 ^ 31 \<Longrightarrow> fst (clint_getPendingRequest now (2 * of_nat h) d) = getf 0 1 (msip d h)"
  by (simp add: clint_getPendingRequest_def Let_def ctx_halves)

lemma clint_timer_pending:
  "h < 2 ^ 31 \<Longrightarrow> fst (clint_getPendingRequest now (2 * of_nat h + 1) d)
     = (if mtimecmp d h \<le> mtime d + (now - update_time d) then 1 else 0)"
  by (simp add: clint_getPendingRequest_def Let_def ctx_halves)

subsection \<open>The registers of the bank\<close>

lemma clint_regs_nonempty: "regs_nonempty (clint_bank base now)"
  by (simp add: regs_nonempty_def clint_bank_def CLINT_regs_def)

lemma clint_lengths [simp]: "length (b_regs (clint_bank base now)) = 3"
  "b_base (clint_bank base now) = base" "b_length (clint_bank base now) = 0x10000"
  by (simp_all add: clint_bank_def CLINT_regs_def)

lemma clint_covers:
  "reg_covers (fst (b_regs (clint_bank base now) ! 0)) x \<longleftrightarrow> x < 0x4000"
  "reg_covers (fst (b_regs (clint_bank base now) ! 1)) x \<longleftrightarrow> 0x4000 \<le> x \<and> x < 0xBFF8"
  "reg_covers (fst (b_regs (clint_bank base now) ! 2)) x \<longleftrightarrow> 0xBFF8 \<le> x \<and> x < 0xC000"
  by (simp_all add: reg_covers_def clint_bank_def CLINT_regs_def)

lemma clint_hash:
  "imaphash (clint_bank base now) x = (if x < 0x4000 then Some 0 else if x < 0xBFF8 then Some 1
     else if x < 0xC000 then Some 2 else None)"
proof -
  have three: "j < 3 \<longleftrightarrow> j = 0 \<or> j = Suc 0 \<or> j = 2" for j :: nat
    by auto
  consider "x < 0x4000" | "0x4000 \<le> x" "x < 0xBFF8" | "0xBFF8 \<le> x" "x < 0xC000" | "0xC000 \<le> x"
    by linarith
  then show ?thesis
  proof cases
    case 1
    have "imaphash (clint_bank base now) x = Some 0"
      by (rule imaphash_unique [OF clint_regs_nonempty]) 
        (use 1 in \<open>auto simp: three clint_covers [unfolded One_nat_def]\<close>)
    with 1 show ?thesis by simp
  next
    case 2
    have "imaphash (clint_bank base now) x = Some 1"
      by (rule imaphash_unique [OF clint_regs_nonempty])
        (use 2 in \<open>auto simp: three clint_covers [unfolded One_nat_def]\<close>)
    with 2 show ?thesis by simp
  next
    case 3
    have "imaphash (clint_bank base now) x = Some 2"
      by (rule imaphash_unique [OF clint_regs_nonempty])
        (use 3 in \<open>auto simp: three clint_covers [unfolded One_nat_def]\<close>)
    with 3 show ?thesis by simp
  next
    case 4
    have "imaphash (clint_bank base now) x = None"
      by (rule imaphash_none [OF clint_regs_nonempty])
        (use 4 in \<open>auto simp: three clint_covers [unfolded One_nat_def]\<close>)
    with 4 show ?thesis by simp
  qed
qed

text \<open>A doubleword written to \<open>mtimecmp\<close> of hart \<open>h\<close> by a full-strobe transaction.\<close>

lemma clint_write_mtimecmp:
  assumes h: "h < CLINT_HART_MAX - 1" and t: "addr t = base + 0x4000 + 8 * of_nat h" "xsize t = 8"
    "action t = MemAction_Write" "wstrb t = 0xFF"
  shows "clint_b_transport base now t b =
    Some (TRANS_OK, t, b\<lparr>dev := (dev b)\<lparr>mtimecmp := (mtimecmp (dev b))(h := wpayload t)\<rparr>\<rparr>)"
proof -
  have off: "addr t - base = 0x4000 + 8 * of_nat h" by (simp add: t(1))
  have "unat (8 * of_nat h :: u64) = 8 * h"
    using h by (simp add: unat_word_ariths unat_of_nat take_bit_nat_eq_self)
  then have u: "unat (addr t - base) = 0x4000 + 8 * h"
    using h unfolding off by (simp add: unat_word_ariths)
  have hit: "reg_hit (clint_bank base now) 1 t"
    using h by (simp add: reg_hit_def u clint_hash t(2)) (simp add: clint_bank_def CLINT_regs_def)
  have idx: "unat (drop_bit 3 (addr t - base - 0x4000)) = h"
    using \<open>unat (8 * of_nat h :: u64) = 8 * h\<close> unfolding off
    by (simp add: unsigned_drop_bit_eq drop_bit_eq_div unat_div)
  have "bank_b_transport (clint_bank base now) t b = Some (TRANS_OK, t,
      b\<lparr>dev := (dev b)\<lparr>mtimecmp := (mtimecmp (dev b))(h := wpayload t)\<rparr>, bank_oob := bank_oob b \<or> False\<rparr>)"
    by (rule bank_write_hit [OF clint_regs_nonempty hit t(3)])
      (use h t idx in \<open>simp_all add: full_wstrb_def clint_bank_def CLINT_regs_def
        GenericReg64Bank_b_transport_def Let_def\<close>)
  then show ?thesis
    by (simp add: clint_b_transport_def)
qed

end
