(* ===== verification/Plic.thy ===== *)
theory Plic
  imports Regs "HOL-Library.Multiset"
begin

section \<open>The platform-level interrupt controller\<close>

text \<open>
  socsim_plugin/plic.h and plic.cpp of debugger/src: the pending requests (a bit per source
  and a list), the priorities of the sources, and per context
  an enable bit per source, a threshold and the claim/complete register.  Interrupt indices
  are those of the sources, \<open>1 \<dots> 1023\<close>; \<open>enableInterrupt\<close> and \<open>disableInterrupt\<close> only log.
\<close>

record plic =
  src_priority :: "nat \<Rightarrow> u32"
  pending :: "nat \<Rightarrow> u32"
  ctx_enable :: "nat \<Rightarrow> nat \<Rightarrow> u32"
  ctx_priority_th :: "nat \<Rightarrow> u32"
  ctx_claim :: "nat \<Rightarrow> u32"
  pendingList :: "u32 list"

abbreviation (input) PLIC_GLOBAL_IRQ_MAX :: nat where "PLIC_GLOBAL_IRQ_MAX \<equiv> 1024"
abbreviation (input) IRQ_REQUEST_NONE :: u32 where "IRQ_REQUEST_NONE \<equiv> 0"

definition plic_init :: plic where
  "plic_init = \<lparr>src_priority = (\<lambda>_. 0), pending = (\<lambda>_. 0), ctx_enable = (\<lambda>_ _. 0),
     ctx_priority_th = (\<lambda>_. 0), ctx_claim = (\<lambda>_. 0), pendingList = []\<rparr>"

subsection \<open>Requests and claims\<close>

definition getContextPrioiry :: "nat \<Rightarrow> plic \<Rightarrow> u32" where
  "getContextPrioiry ctx p = ctx_priority_th p ctx AND 7"

definition isEnabled :: "u32 \<Rightarrow> plic \<Rightarrow> bool" where
  "isEnabled irqidx p = (if src_priority p (unat irqidx) = 0 then False else True)"

definition isUnmasked :: "nat \<Rightarrow> u32 \<Rightarrow> plic \<Rightarrow> bool" where
  "isUnmasked ctx irqidx p =
     (let ie = ctx_enable p ctx (unat (irqidx div 32));
          ie = drop_bit (unat (irqidx AND 0x1F)) ie;
          ie = ie AND 1
      in if ie = 0 then False
         else if src_priority p (unat irqidx) \<le> getContextPrioiry ctx p then False
         else True)"

text \<open>
  The two loops of \<open>getPendingRequest\<close>, one pass each: the priority recorded is that of the
  source whose number is the position in the list, the index recorded is the first of the
  list.
\<close>

definition select_pass :: "nat \<Rightarrow> plic \<Rightarrow> nat \<Rightarrow> u32 \<times> u32 \<Rightarrow> u32 \<times> u32" where
  "select_pass ctx p i x = (case x of (prio, irqidx) \<Rightarrow>
     let tidx = pendingList p ! i
     in if \<not> isEnabled tidx p then (prio, irqidx)
        else if \<not> isUnmasked ctx tidx p then (prio, irqidx)
        else if src_priority p (unat tidx) \<ge> prio
          then (src_priority p i, pendingList p ! 0)
        else (prio, irqidx))"

definition lowest_pass :: "nat \<Rightarrow> plic \<Rightarrow> u32 \<Rightarrow> nat \<Rightarrow> u32 \<Rightarrow> u32" where
  "lowest_pass ctx p prio i irqidx =
     (let tidx = pendingList p ! i
      in if src_priority p i \<noteq> prio then irqidx
         else if \<not> isEnabled tidx p then irqidx
         else if \<not> isUnmasked ctx tidx p then irqidx
         else if pendingList p ! i < irqidx then pendingList p ! i
         else irqidx)"

definition plic_getPendingRequest :: "nat \<Rightarrow> plic \<Rightarrow> u32" where
  "plic_getPendingRequest ctx p =
     (case fold (select_pass ctx p) [0..<length (pendingList p)] (0, 0) of (prio, irqidx) \<Rightarrow>
        if irqidx \<noteq> IRQ_REQUEST_NONE
        then fold (lowest_pass ctx p prio) [0..<length (pendingList p)] irqidx
        else irqidx)"

definition setPendingBit :: "u32 \<Rightarrow> plic \<Rightarrow> plic" where
  "setPendingBit idx p =
     (let w = unat (drop_bit 5 idx);
          p = p\<lparr>pending := (pending p)(w := pending p w OR push_bit (unat (idx AND 0x1F)) 1)\<rparr>
      in if idx \<in> set (pendingList p) then p else p\<lparr>pendingList := pendingList p @ [idx]\<rparr>)"

text \<open>
  Lists of attributes (common/attribute.cpp): the last item takes the place of the one removed,
  so that the order of the requests is not kept.  The removed item, freed before the swap, ends
  up past the end of the list.
\<close>

definition swap_list_item :: "nat \<Rightarrow> nat \<Rightarrow> 'a list \<Rightarrow> 'a list" where
  "swap_list_item n m xs = (if n = m then xs else xs[n := xs ! m, m := xs ! n])"

definition remove_from_list :: "nat \<Rightarrow> 'a list \<Rightarrow> 'a list" where
  "remove_from_list idx xs =
     (if idx \<ge> length xs then xs
      else if idx = length xs - 1 then butlast xs
      else butlast (swap_list_item idx (length xs - 1) xs))"

text \<open>The loop of \<open>clearPendingBit\<close> stops at the first item with the number.\<close>

definition remove_request :: "u32 \<Rightarrow> u32 list \<Rightarrow> u32 list" where
  "remove_request idx xs =
     (case List.find (\<lambda>i. xs ! i = idx) [0..<length xs] of None \<Rightarrow> xs | Some i \<Rightarrow> remove_from_list i xs)"

definition clearPendingBit :: "u32 \<Rightarrow> plic \<Rightarrow> plic" where
  "clearPendingBit idx p =
     (if idx = 0 then p
      else let w = unat (drop_bit 5 idx)
        in p\<lparr>pending := (pending p)(w := pending p w AND NOT (push_bit (unat (idx AND 0x1F)) 1)),
             pendingList := remove_request idx (pendingList p)\<rparr>)"

definition plic_requestInterrupt :: "u32 \<Rightarrow> plic \<Rightarrow> plic" where
  "plic_requestInterrupt idx p = setPendingBit idx p"

definition plic_claim :: "nat \<Rightarrow> plic \<Rightarrow> u32 \<times> plic" where
  "plic_claim ctx p =
     (let irqidx = plic_getPendingRequest ctx p in (irqidx, clearPendingBit irqidx p))"

definition plic_complete :: "nat \<Rightarrow> u32 \<Rightarrow> plic \<Rightarrow> plic" where
  "plic_complete ctx idx p = p"

subsection \<open>The registers\<close>

definition PLIC_CLAIM_aboutToRead :: "nat \<Rightarrow> u32 \<Rightarrow> plic \<Rightarrow> u32 \<times> plic" where
  "PLIC_CLAIM_aboutToRead ctx prv_val p = plic_claim ctx p"

definition PLIC_CLAIM_aboutToWrite :: "nat \<Rightarrow> u32 \<Rightarrow> plic \<Rightarrow> u32 \<times> plic" where
  "PLIC_CLAIM_aboutToWrite ctx nxt_val p = (nxt_val, plic_complete ctx nxt_val p)"

definition PLIC_SRC_PRIORITY_write :: "nat \<Rightarrow> u32 \<Rightarrow> plic \<Rightarrow> plic" where
  "PLIC_SRC_PRIORITY_write idx val p = p\<lparr>src_priority := (src_priority p)(idx := val AND 7)\<rparr>"

definition PLIC_ENABLE_write :: "nat \<Rightarrow> nat \<Rightarrow> u32 \<Rightarrow> plic \<Rightarrow> plic" where
  "PLIC_ENABLE_write ctx idx val p =
     p\<lparr>ctx_enable := (ctx_enable p)(ctx := (ctx_enable p ctx)(idx := val))\<rparr>"

text \<open>The registers that \<open>postinitService\<close> adds for context \<open>i\<close>.\<close>

definition PLIC_context_regs :: "nat \<Rightarrow> (regdesc \<times> plic regop) list" where
  "PLIC_context_regs i =
     (let e = 0x2000 + 0x80 * of_nat i; t = 0x200000 + 0x1000 * of_nat i; cl = 0x200004 + 0x1000 * of_nat i
      in [(\<lparr>r_base = e, r_length = PLIC_GLOBAL_IRQ_MAX div 32 * 4, r_prio = 0\<rparr>,
           GenericReg32Bank_b_transport e (PLIC_GLOBAL_IRQ_MAX div 32) (\<lambda>k p. ctx_enable p i k)
             (PLIC_ENABLE_write i)),
          (\<lparr>r_base = t, r_length = 4, r_prio = 1\<rparr>,
           MappedReg32_b_transport t (\<lambda>p. ctx_priority_th p i)
             (\<lambda>v p. p\<lparr>ctx_priority_th := (ctx_priority_th p)(i := v)\<rparr>) plain plain),
          (\<lparr>r_base = cl, r_length = 4, r_prio = 1\<rparr>,
           MappedReg32_b_transport cl (\<lambda>p. ctx_claim p i)
             (\<lambda>v p. p\<lparr>ctx_claim := (ctx_claim p)(i := v)\<rparr>)
             (PLIC_CLAIM_aboutToRead i) (PLIC_CLAIM_aboutToWrite i))])"

definition PLIC_regs :: "nat \<Rightarrow> (regdesc \<times> plic regop) list" where
  "PLIC_regs ctx_total =
     [(\<lparr>r_base = 0, r_length = 1024 * 4, r_prio = 0\<rparr>,
       GenericReg32Bank_b_transport 0 1024 (\<lambda>k p. src_priority p k) PLIC_SRC_PRIORITY_write),
      (\<lparr>r_base = 0x1000, r_length = 1024 * 4, r_prio = 0\<rparr>,
       GenericReg32Bank_b_transport 0x1000 1024 (\<lambda>k p. pending p k)
         (\<lambda>k v p. p\<lparr>pending := (pending p)(k := v)\<rparr>))]
     @ concat (map PLIC_context_regs [0..<ctx_total])"

definition plic_bank :: "u64 \<Rightarrow> nat \<Rightarrow> plic regbank" where
  "plic_bank base ctx_total = \<lparr>b_regs = PLIC_regs ctx_total, b_base = base, b_length = 0x04000000\<rparr>"

definition plic_b_transport ::
  "u64 \<Rightarrow> nat \<Rightarrow> trans \<Rightarrow> plic bankst \<Rightarrow> (ETransStatus \<times> trans \<times> plic bankst) option" where
  "plic_b_transport base ctx_total = bank_b_transport (plic_bank base ctx_total)"

subsection \<open>What getPendingRequest selects\<close>

definition eligible :: "nat \<Rightarrow> plic \<Rightarrow> u32 \<Rightarrow> bool" where
  "eligible ctx p x \<longleftrightarrow> isEnabled x p \<and> isUnmasked ctx x p"

lemma select_pass_alt:
  "select_pass ctx p i (prio, irqidx) =
     (if eligible ctx p (pendingList p ! i) \<and> src_priority p (unat (pendingList p ! i)) \<ge> prio
      then (src_priority p i, pendingList p ! 0) else (prio, irqidx))"
  by (simp add: select_pass_def eligible_def Let_def)

lemma lowest_pass_alt:
  "lowest_pass ctx p prio i irqidx =
     (if src_priority p i = prio \<and> eligible ctx p (pendingList p ! i) \<and> pendingList p ! i < irqidx
      then pendingList p ! i else irqidx)"
  by (simp add: lowest_pass_def eligible_def Let_def)

text \<open>The first loop: the first of the list as soon as one is eligible, nothing otherwise.\<close>

lemma select_index:
  "snd (fold (select_pass ctx p) [0..<n] (0, 0))
     = (if \<exists>i<n. eligible ctx p (pendingList p ! i) then pendingList p ! 0 else 0)
   \<and> ((\<forall>i<n. \<not> eligible ctx p (pendingList p ! i)) \<longrightarrow> fst (fold (select_pass ctx p) [0..<n] (0, 0)) = 0)"
proof (induction n)
  case 0
  then show ?case by simp
next
  case (Suc n)
  obtain prio k where f: "fold (select_pass ctx p) [0..<n] (0, 0) = (prio, k)"
    by fastforce
  show ?case
    using Suc.IH by (auto simp: f select_pass_alt less_Suc_eq)
qed

lemma select_index_list:
  "snd (fold (select_pass ctx p) [0..<length (pendingList p)] (0, 0))
     = (if \<exists>x\<in>set (pendingList p). eligible ctx p x then hd (pendingList p) else 0)"
proof -
  have "(\<exists>i<length (pendingList p). eligible ctx p (pendingList p ! i))
      \<longleftrightarrow> (\<exists>x\<in>set (pendingList p). eligible ctx p x)"
    by (metis in_set_conv_nth)
  moreover have "pendingList p ! 0 = hd (pendingList p)" if "\<exists>x\<in>set (pendingList p). eligible ctx p x"
    using that by (cases "pendingList p") auto
  ultimately show ?thesis
    using select_index [of ctx p "length (pendingList p)"] by auto
qed

text \<open>The second loop lowers the index to listed ones.\<close>

lemma lowest_index:
  "set is \<subseteq> {..<length (pendingList p)} \<Longrightarrow>
     (let r = fold (lowest_pass ctx p prio) is k in r \<le> k \<and> (r = k \<or> r \<in> set (pendingList p)))"
proof (induction "is" arbitrary: k)
  case Nil
  then show ?case by simp
next
  case (Cons i "is")
  let ?k = "lowest_pass ctx p prio i k"
  have "?k \<le> k \<and> (?k = k \<or> ?k \<in> set (pendingList p))"
    using Cons.prems by (auto simp: lowest_pass_alt)
  then show ?case
    using Cons.IH [of ?k] Cons.prems by (auto simp: Let_def)
qed

lemma getPendingRequest_cases:
  "plic_getPendingRequest ctx p = (if \<exists>x\<in>set (pendingList p). eligible ctx p x then
     fold (lowest_pass ctx p (fst (fold (select_pass ctx p) [0..<length (pendingList p)] (0, 0))))
       [0..<length (pendingList p)] (hd (pendingList p)) else 0)"
proof (cases "\<exists>x\<in>set (pendingList p). eligible ctx p x")
  case True
  have "fold (lowest_pass ctx p prio) is 0 = 0" for prio "is"
    by (induction "is") (auto simp: lowest_pass_alt)
  with True show ?thesis
    using select_index_list [of ctx p] by (simp add: plic_getPendingRequest_def case_prod_beta)
next
  case False
  then show ?thesis
    using select_index_list [of ctx p] by (simp add: plic_getPendingRequest_def case_prod_beta)
qed

lemma getPendingRequest_bound:
  assumes "\<exists>x\<in>set (pendingList p). eligible ctx p x"
  shows "plic_getPendingRequest ctx p \<in> set (pendingList p)"
    and "plic_getPendingRequest ctx p \<le> hd (pendingList p)"
proof -
  have "hd (pendingList p) \<in> set (pendingList p)"
    using assms by (cases "pendingList p") auto
  moreover have "set [0..<length (pendingList p)] \<subseteq> {..<length (pendingList p)}" by auto
  ultimately show "plic_getPendingRequest ctx p \<in> set (pendingList p)"
    "plic_getPendingRequest ctx p \<le> hd (pendingList p)"
    using assms lowest_index [of "[0..<length (pendingList p)]" p ctx
        "fst (fold (select_pass ctx p) [0..<length (pendingList p)] (0, 0))" "hd (pendingList p)"]
    unfolding getPendingRequest_cases Let_def by (simp_all, metis)
qed

text \<open>
  The interrupt line of a context is raised exactly when a requested source is enabled in
  it with a priority above 0 and above the threshold; the number that is answered is then one
  of the requested sources, and no greater than the first of the list.
\<close>

theorem plic_request_iff:
  assumes "0 \<notin> set (pendingList p)"
  shows "(plic_getPendingRequest ctx p \<noteq> 0 \<longleftrightarrow> (\<exists>x\<in>set (pendingList p). eligible ctx p x))
    \<and> (plic_getPendingRequest ctx p \<noteq> 0 \<longrightarrow> plic_getPendingRequest ctx p \<in> set (pendingList p)
         \<and> plic_getPendingRequest ctx p \<le> hd (pendingList p))"
proof (cases "\<exists>x\<in>set (pendingList p). eligible ctx p x")
  case True
  from getPendingRequest_bound [OF True] True assms show ?thesis by metis
next
  case False
  then show ?thesis by (simp add: getPendingRequest_cases)
qed

text \<open>
  When the first of the list has the lowest number of those requested, it is the one
  that is answered and claimed as soon as any requested source is eligible: neither its
  priority nor its own enable bit and threshold count.
\<close>

theorem plic_first_request_wins:
  assumes "\<forall>x\<in>set (pendingList p). hd (pendingList p) \<le> x"
    and "\<exists>x\<in>set (pendingList p). eligible ctx p x"
  shows "plic_getPendingRequest ctx p = hd (pendingList p)"
  using assms(1) getPendingRequest_bound [OF assms(2)] by (simp add: order_antisym)

subsection \<open>What a removal leaves\<close>

lemma mset_remove_from_list:
  assumes "i < length xs"
  shows "mset (remove_from_list i xs) = mset xs - {#xs ! i#}"
proof -
  have last: "mset (butlast ys) = mset ys - {#last ys#}" if "ys \<noteq> []" for ys :: "'a list"
    using arg_cong [OF append_butlast_last_id [OF that], of mset] by (metis add_diff_cancel_right' mset_append mset_single_iff_right)
  have ne: "xs \<noteq> []" using assms by auto
  let ?ys = "swap_list_item i (length xs - 1) xs"
  have "mset ?ys = mset xs" "?ys \<noteq> []"
    using assms mset_swap [of "length xs - 1" xs i] by (auto simp: swap_list_item_def)
  moreover have "last ?ys = xs ! i"
    using assms ne by (simp add: swap_list_item_def last_conv_nth)
  ultimately show ?thesis
    using last [of ?ys] last [OF ne] assms ne by (auto simp: remove_from_list_def last_conv_nth)
qed

text \<open>The same requests as with an order-preserving removal, in another order.\<close>

lemma mset_remove_request: "mset (remove_request x xs) = mset (remove1 x xs)"
proof (cases "x \<in> set xs")
  case False
  then have "List.find (\<lambda>i. xs ! i = x) [0..<length xs] = None"
    by (auto simp: find_None_iff)
  with False show ?thesis by (simp add: remove_request_def remove1_idem)
next
  case True
  then obtain i where i: "List.find (\<lambda>i. xs ! i = x) [0..<length xs] = Some i"
    by (fastforce simp: find_None_iff in_set_conv_nth)
  then have "i < length xs" "xs ! i = x" by (auto simp: find_Some_iff)
  with i show ?thesis by (simp add: remove_request_def mset_remove_from_list)
qed

lemma remove_request:
  assumes "distinct xs"
  shows "distinct (remove_request x xs)" "set (remove_request x xs) = set xs - {x}"
    "length (remove_request x xs) = length (remove1 x xs)"
  using assms mset_eq_imp_distinct_iff [OF mset_remove_request] mset_eq_setD [OF mset_remove_request]
    mset_eq_length [OF mset_remove_request] by simp_all


subsection \<open>Bits and list agree\<close>








subsection \<open>Claims under equal priorities\<close>










subsection \<open>Instances\<close>

text \<open>
  Sources 39 and 71 requested in this order; only 71 is enabled in context 0, at the highest
  priority, and 39 has priority 1.
\<close>

definition plic_two :: plic where
  "plic_two = plic_requestInterrupt 71 (plic_requestInterrupt 39
     (plic_init\<lparr>src_priority := (\<lambda>_. 0)(39 := 1, 71 := 7),
       ctx_enable := (\<lambda>_ _. 0)(0 := (\<lambda>_. 0)(2 := 0x80))\<rparr>))"

lemma plic_two_list [simp]: "pendingList plic_two = [39, 71]"
  by (simp add: plic_two_def plic_requestInterrupt_def setPendingBit_def Let_def plic_init_def)

lemma plic_two_eligible: "eligible 0 plic_two 71" "\<not> eligible 0 plic_two 39"
  by (simp_all add: plic_two_def plic_requestInterrupt_def setPendingBit_def Let_def plic_init_def
      eligible_def isEnabled_def isUnmasked_def getContextPrioiry_def)

theorem plic_request_iff_witness: "plic_getPendingRequest 0 plic_two \<noteq> 0"
  using plic_request_iff [of plic_two 0] plic_two_eligible by simp

theorem plic_first_request_wins_witness: "plic_claim 0 plic_two = (39, clearPendingBit 39 plic_two)"
  using plic_first_request_wins [of plic_two 0] plic_two_eligible by (simp add: plic_claim_def Let_def)

text \<open>All sources at priority 1 and enabled; 71, 40 and 39 requested in this order.\<close>

definition plic_three :: plic where
  "plic_three = plic_requestInterrupt 39 (plic_requestInterrupt 40 (plic_requestInterrupt 71
     (plic_init\<lparr>src_priority := (\<lambda>_. 1)(0 := 0), ctx_enable := (\<lambda>_ _. 0xFFFFFFFF)\<rparr>)))"

lemma plic_three_list [simp]: "pendingList plic_three = [71, 40, 39]"
  by (simp add: plic_three_def plic_requestInterrupt_def setPendingBit_def Let_def plic_init_def)




end
