(* ===== verification/Soc_Irq.thy ===== *)
theory Soc_Irq
  imports Fetch Clint Plic
begin

section \<open>The CPU with its interrupt controllers\<close>

text \<open>
  The functional CPU, the memories, the CLINT and the PLIC on one system bus, as
  targets/common_soc.json and func_river_x1_gui.json connect them.  The timer of the CLINT
  reads the step counter of the CPU when it is accessed: \<open>irq_platform now\<close> is the platform of
  the cycle in which the counter is \<open>now\<close>.  The CPU asks the controllers for pending
  interrupts; that the CLINT updates its timer for the answer is invisible
  (\<open>pending_after_update\<close>), so the queries do not change the state.
\<close>

record socst =
  mems :: "nat \<Rightarrow> memdev"
  clint0 :: "clint bankst"
  plic0 :: "plic bankst"

definition CLINT_BASE :: u64 where "CLINT_BASE = 0x02000000"
definition PLIC_BASE :: u64 where "PLIC_BASE = 0x0C000000"

definition irq_bus :: "nat \<Rightarrow> (memcfg \<times> int) list \<Rightarrow> busmap" where
  "irq_bus w Ks = (soc_bus w Ks)\<lparr>imap := imap (soc_bus w Ks) @
     [\<lparr>baseAddress = CLINT_BASE, dlength = 0x10000, priority = 0\<rparr>,
      \<lparr>baseAddress = PLIC_BASE, dlength = 0x04000000, priority = 0\<rparr>]\<rparr>"

text \<open>The devices of the bus.  The loops of the register banks return (\<open>bank_b_transport_returns\<close>).\<close>

definition irq_dev ::
  "u64 \<Rightarrow> (memcfg \<times> int) list \<Rightarrow> nat \<Rightarrow> trans \<Rightarrow> socst \<Rightarrow> trans \<times> socst" where
  "irq_dev now Ks i t m =
     (if i < length Ks then (case soc_dev Ks i t (mems m) of (t, d) \<Rightarrow> (t, m\<lparr>mems := d\<rparr>))
      else if i = length Ks then
        (case clint_b_transport CLINT_BASE now t (clint0 m) of
           Some (_, t, d) \<Rightarrow> (t, m\<lparr>clint0 := d\<rparr>) | None \<Rightarrow> (t, m))
      else
        (case plic_b_transport PLIC_BASE 2 t (plic0 m) of
           Some (_, t, d) \<Rightarrow> (t, m\<lparr>plic0 := d\<rparr>) | None \<Rightarrow> (t, m)))"

definition irq_bt ::
  "u64 \<Rightarrow> nat \<Rightarrow> (memcfg \<times> int) list \<Rightarrow> trans \<Rightarrow> socst \<Rightarrow> ETransStatus \<times> trans \<times> socst" where
  "irq_bt now w Ks =
     bus_b_transport (irq_bus w Ks) (maphash (irq_bus w Ks) (\<lambda>_. empty_item)) (irq_dev now Ks)"

definition irq_platform :: "u64 \<Rightarrow> nat \<Rightarrow> (memcfg \<times> int) list \<Rightarrow> socst platform" where
  "irq_platform now w Ks =
     \<lparr>b_transport = irq_bt now w Ks,
      iirqloc = (\<lambda>ctx t m. fst (clint_getPendingRequest t ctx (dev (clint0 m)))),
      iirqext = (\<lambda>ctx m. ucast (plic_getPendingRequest (unat ctx) (dev (plic0 m)))),
      stepCallbacks = (\<lambda>_ m. m), hartid = 0, vendorid = 0xF1, implementationid = 0x20211219,
      resetVector = 0x10000, pmpTotal = 8, triggersTotal = 2, mcontrolMaskmax = 63,
      stackTraceSize = 64, sysBusWidthBytes = 8, sysBusMasterID = 0, stack_garbage = 0\<rparr>"

lemma irq_platform_simps [simp]:
  "b_transport (irq_platform now w Ks) = irq_bt now w Ks"
  "iirqloc (irq_platform now w Ks) ctx t m = fst (clint_getPendingRequest t ctx (dev (clint0 m)))"
  "iirqext (irq_platform now w Ks) ctx m = ucast (plic_getPendingRequest (unat ctx) (dev (plic0 m)))"
  "stepCallbacks (irq_platform now w Ks) = (\<lambda>_ m. m)" "hartid (irq_platform now w Ks) = 0"
  "triggersTotal (irq_platform now w Ks) = 2" "sysBusWidthBytes (irq_platform now w Ks) = 8"
  by (simp_all add: irq_platform_def)

subsection \<open>Memory behind the bus\<close>

definition irq_view :: "nat \<Rightarrow> (memcfg \<times> int) list \<Rightarrow> socst \<Rightarrow> u64 \<Rightarrow> u8" where
  "irq_view w Ks m x = (case scan_devices (irq_bus w Ks) x of
       Some i \<Rightarrow> if i < length Ks then mem (mems m i) (unat (x - m_base (fst (Ks ! i)))) else 0
     | None \<Rightarrow> 0)"

definition irq_mem :: "nat \<Rightarrow> (memcfg \<times> int) list \<Rightarrow> u64 \<Rightarrow> nat \<Rightarrow> bool" where
  "irq_mem w Ks a n \<longleftrightarrow> busmap_wf (irq_bus w Ks) \<and> 0 < n \<and> n \<le> 8
     \<and> (case scan_devices (irq_bus w Ks) a of
          None \<Rightarrow> False
        | Some i \<Rightarrow> i < length Ks \<and> m_length (fst (Ks ! i)) < 2 ^ 64
            \<and> unat (a - m_base (fst (Ks ! i))) + n \<le> m_length (fst (Ks ! i))
            \<and> list_all (\<lambda>k. scan_devices (irq_bus w Ks) (a + of_nat k) = Some i) [0..<n])"

lemma irq_getMapedDevice:
  assumes "busmap_wf (irq_bus w Ks)" and "scan_devices (irq_bus w Ks) a = Some i"
  shows "getMapedDevice (irq_bus w Ks) (maphash (irq_bus w Ks) (\<lambda>_. empty_item)) a = Some i"
  using getMapedDevice_scan [OF assms(1), of a] scan_devices_covers [OF assms(2)] assms(2) by auto

lemma irq_step:
  assumes "busmap_wf (irq_bus w Ks)" and "scan_devices (irq_bus w Ks) (addr t) = Some i"
  shows "irq_bt now w Ks t m = (case irq_dev now Ks i t m of (t', m') \<Rightarrow> (TRANS_OK, t', m'))"
  using irq_getMapedDevice [OF assms] by (simp add: irq_bt_def bus_b_transport_def)

interpretation irqmem: read_bus "irq_bt now w Ks" "irq_view w Ks" "irq_mem w Ks" for now w Ks
proof unfold_locales
  fix t :: trans and m :: socst
  assume ram: "irq_mem w Ks (addr t) (unat (xsize t))" and rd: "action t = MemAction_Read"
  obtain i where i: "scan_devices (irq_bus w Ks) (addr t) = Some i" "i < length Ks"
    using ram by (auto simp: irq_mem_def split: option.splits)
  let ?K = "fst (Ks ! i)"
  let ?o = "unat (addr t - m_base ?K)"
  have b: "?o + unat (xsize t) \<le> m_length ?K" "m_length ?K < 2 ^ 64" "0 < unat (xsize t)" "unat (xsize t) \<le> 8"
    using ram i by (simp_all add: irq_mem_def)
  then have off: "mem_off ?K (addr t) = ?o" "in_bounds ?K ?o (unat (xsize t))"
    by (simp_all add: mem_off_def in_bounds_def)
  have "mem (mems m i) (?o + k) = irq_view w Ks m (addr t + of_nat k)" if k: "k < unat (xsize t)" for k
  proof -
    have s: "scan_devices (irq_bus w Ks) (addr t + of_nat k) = Some i"
      using ram i k by (simp add: irq_mem_def list_all_iff)
    have "unat (addr t - m_base ?K + of_nat k) = ?o + k"
      using b k by (simp add: unat_word_ariths unat_of_nat take_bit_nat_eq_self)
    then show ?thesis
      using s i(2) by (simp add: irq_view_def algebra_simps)
  qed
  then have "payload_load (\<lambda>k. mem (mems m i) (?o + k)) (unat (xsize t)) 0
      = payload_load (\<lambda>k. irq_view w Ks m (addr t + of_nat k)) (unat (xsize t)) 0"
    by (rule payload_load_cong)
  then show "irq_bt now w Ks t m = (TRANS_OK, t\<lparr>response := MemResp_Valid,
      rpayload := payload_load (\<lambda>i. irq_view w Ks m (addr t + of_nat i)) (unat (xsize t)) 0\<rparr>, m)"
    using ram i rd off
    by (simp add: irq_step [OF _ i(1)] irq_mem_def irq_dev_def soc_dev_def mem_b_transport_def Let_def)
qed

subsection \<open>Cycles\<close>

text \<open>One cycle and \<open>k\<close> cycles; \<open>n\<close> fetches are allowed in each.\<close>

definition soc_cycle ::
  "nat \<Rightarrow> char list \<Rightarrow> nat \<Rightarrow> (memcfg \<times> int) list \<Rightarrow> socst cpu \<Rightarrow> socst cpu option" where
  "soc_cycle n exts w Ks c =
     updatePipeline n (listInstr exts) (irq_platform (step_cnt c + 1) w Ks) c"

fun soc_run ::
  "nat \<Rightarrow> nat \<Rightarrow> char list \<Rightarrow> nat \<Rightarrow> (memcfg \<times> int) list \<Rightarrow> socst cpu \<Rightarrow> socst cpu option" where
  "soc_run 0 n exts w Ks c = Some c"
| "soc_run (Suc k) n exts w Ks c =
     (case soc_cycle n exts w Ks c of None \<Rightarrow> None | Some c \<Rightarrow> soc_run k n exts w Ks c)"

text \<open>
  The CPU in the endless loop \<open>j .\<close>, machine mode, with the timer interrupt enabled and the
  software and external interrupts masked.
\<close>

definition spinning :: "nat \<Rightarrow> (memcfg \<times> int) list \<Rightarrow> socst cpu \<Rightarrow> bool" where
  "spinning w Ks c \<longleftrightarrow> ready (irq_platform 0 w Ks) c \<and> exceptions c = 0 \<and> stack_ok c
     \<and> mstatus_MIE (portCSR c CSR_mstatus) = 1
     \<and> mie_MTIE (portCSR c CSR_mie) = 1 \<and> mie_MSIE (portCSR c CSR_mie) = 0 \<and> mie_MEIE (portCSR c CSR_mie) = 0
     \<and> irq_mem w Ks (getNPC c) 4
     \<and> value_of (irq_view w Ks) (isysbus c) (getNPC c) 4 = 0x6F"

definition timer_due :: "u64 \<Rightarrow> clint \<Rightarrow> bool" where
  "timer_due now d \<longleftrightarrow> mtimecmp d 0 \<le> mtime d + (now - update_time d)"

lemma UJ_fields_spin: "UJ_rd 0x6F = 0" "UJ_simm 0x6F = 0" "buf32 0x6F = 0x6F"
  by code_simp+

lemma JAL_spin: "JAL_exec P 0x6F c = (setNPC (getPC c) (c\<lparr>branch := True\<rparr>), 4)"
  by (simp add: JAL_exec_def Let_def UJ_fields_spin setBranch_def)

lemma JAL_supported:
  "RiscvInstruction ''JAL'' ''?????????????????????????1101111'' JAL_exec \<in> set (supported exts)"
  by (simp add: supported_def addIsaUserRV64I_def)

lemma JAL_parse:
  "parse (RiscvInstruction ''JAL'' ''?????????????????????????1101111'' JAL_exec) 0x6F"
  by (simp add: parse_def RiscvInstruction_def pattern_horner horner_def)

text \<open>The trap check after the jump: only the timer can interrupt.\<close>

lemma spin_irq_code:
  assumes "spinning w Ks c"
  shows "irq_code (irq_platform now w Ks) c
    = (if timer_due (step_cnt c) (dev (clint0 (isysbus c))) then Some 7 else None)"
  using assms clint_timer_pending [of 0 "step_cnt c" "dev (clint0 (isysbus c))"]
  by (simp add: spinning_def irq_code_def Let_def timer_due_def)

lemma handleInterrupts_none: "irq_code P c = None \<Longrightarrow> handleInterrupts P c = c"
  by (simp add: handleInterrupts_def Let_def pending_irq_alt mcause_values)

definition timer_vector :: "'m cpu \<Rightarrow> u64" where
  "timer_vector c = (let mtvec = portCSR c CSR_mtvec; base = mtvec AND NOT 3
     in if mtvec AND 3 = 1 then base + 28 else base)"

definition timer_taken :: "'m cpu \<Rightarrow> 'm cpu \<Rightarrow> bool" where
  "timer_taken c c' \<longleftrightarrow> getNPC c' = timer_vector c \<and> cur_prv_level c' = PRV_M
     \<and> portCSR c' = (portCSR c)(CSR_mcause := 0x8000000000000007,
         CSR_mstatus := trap_mstatus (cur_prv_level c) (portCSR c CSR_mstatus), CSR_mepc := getNPC c)
     \<and> R c' = R c \<and> isysbus c' = isysbus c"

lemma handleInterrupts_timer:
  assumes "irq_code P c = Some 7" and "mstatus_MIE (portCSR c CSR_mstatus) = 1"
  shows "timer_taken c (handleInterrupts P c)" and "step_cnt (handleInterrupts P c) = step_cnt c"
  using assms
  by (simp_all add: timer_taken_def timer_vector_def handleInterrupts_def Let_def pending_irq_alt mcause_values
      writeCSR_plain portCSR_write_def switchContext_alt getNPC_def setNPC_def fun_upd_twist)

text \<open>The state at the end of a cycle that executed \<open>j .\<close>, before the trap check.\<close>

definition spun :: "socst cpu \<Rightarrow> socst cpu \<Rightarrow> bool" where
  "spun c d \<longleftrightarrow> estate d = estate c \<and> haltreq d = haltreq c \<and> ptriggers d = ptriggers c
     \<and> portCSR d = portCSR c \<and> cur_prv_level d = cur_prv_level c \<and> exceptions d = exceptions c \<and> R d = R c
     \<and> isysbus d = isysbus c \<and> getNPC d = getNPC c \<and> step_cnt d = step_cnt c + 1"

lemma spun_spinning: "spun c d \<Longrightarrow> spinning w Ks c \<Longrightarrow> spinning w Ks d"
  by (simp add: spun_def spinning_def ready_def no_triggers_def bare_access_def stack_ok_def)

lemma spin_executes:
  assumes "distinct exts" and c: "spinning w Ks c"
  shows "\<exists>d. soc_cycle (Suc n) exts w Ks c = Some (handleTrap (irq_platform (step_cnt c + 1) w Ks) d) \<and> spun c d"
proof -
  let ?P = "irq_platform (step_cnt c + 1) w Ks"
  have r: "ready ?P c"
    using c by (simp add: spinning_def ready_def no_triggers_def bare_access_def)
  have bt: "b_transport ?P = irq_bt (step_cnt c + 1) w Ks" by simp
  have m: "irq_mem w Ks (getNPC c) 4"
    "0x6F = value_of (irq_view w Ks) (isysbus c) (getNPC c) 4"
    using c by (simp_all add: spinning_def)
  have p: "parse (RiscvInstruction ''JAL'' ''?????????????????????????1101111'' JAL_exec) (buf32 0x6F)"
    using JAL_parse by (simp only: UJ_fields_spin)
  from irqmem.cycle_ram [OF assms(1) r bt m JAL_supported p, of n] obtain tr where u: "updatePipeline (Suc n) (listInstr exts) ?P c =
    (let c0 = (setPC (getNPC c) c)\<lparr>step_cnt := step_cnt c + 1, branch := False, oplen := 0,
           fetch_addr := getNPC c, fetch_trans := tr, cacheline := 0x6F,
           mmuReservedAddrWatchdog := mmuReservedAddrWatchdog c - 1\<rparr>;
         (c1, len) = iexec (RiscvInstruction ''JAL'' ''?????????????????????????1101111'' JAL_exec) ?P 0x6F c0
     in Some (finishCycle ?P (c1\<lparr>oplen := len, do_not_cache := False, pc_z := getPC c1\<rparr>)))"
    by blast
  let ?d = "(setPC (getNPC c) c)\<lparr>step_cnt := step_cnt c + 1, fetch_addr := getNPC c, fetch_trans := tr,
      cacheline := 0x6F, mmuReservedAddrWatchdog := mmuReservedAddrWatchdog c - 1, branch := True,
      ctx_npc := (ctx_npc c)(cur_ctx c := getNPC c), oplen := 4, do_not_cache := False, pc_z := getNPC c\<rparr>"
  have "soc_cycle (Suc n) exts w Ks c = Some (handleTrap ?P ?d)"
    unfolding soc_cycle_def u
    by (simp add: Let_def RiscvInstruction_def JAL_spin finishCycle_def updateQueue_def setNPC_def setPC_def getPC_def)
  moreover have "spun c ?d"
    by (simp add: spun_def setNPC_def setPC_def getNPC_def)
  ultimately show ?thesis by blast
qed

lemma spin_cycle:
  assumes "distinct exts" and c: "spinning w Ks c"
  shows "\<exists>c'. soc_cycle (Suc n) exts w Ks c = Some c' \<and> step_cnt c' = step_cnt c + 1
    \<and> (if timer_due (step_cnt c + 1) (dev (clint0 (isysbus c))) then timer_taken c c' else spun c c')"
proof -
  let ?P = "irq_platform (step_cnt c + 1) w Ks"
  obtain d where d: "soc_cycle (Suc n) exts w Ks c = Some (handleTrap ?P d)" "spun c d"
    using spin_executes [OF assms] by blast
  have s: "spinning w Ks d" by (rule spun_spinning [OF d(2) c])
  then have h: "handleTrap ?P d = handleInterrupts ?P d"
    by (simp add: spinning_def handleTrap_def Let_def checkStackProtection_ok)
  have i: "irq_code ?P d = (if timer_due (step_cnt c + 1) (dev (clint0 (isysbus c))) then Some 7 else None)"
    using spin_irq_code [OF s] d(2) by (simp add: spun_def)
  show ?thesis
  proof (cases "timer_due (step_cnt c + 1) (dev (clint0 (isysbus c)))")
    case True
    then have "timer_taken d (handleInterrupts ?P d)" "step_cnt (handleInterrupts ?P d) = step_cnt d"
      using handleInterrupts_timer [of ?P d] i s by (simp_all add: spinning_def)
    moreover have "timer_taken c x \<longleftrightarrow> timer_taken d x" for x
      using d(2) by (simp add: spun_def timer_taken_def timer_vector_def)
    ultimately show ?thesis
      using True d h by (simp add: spun_def)
  next
    case False
    then show ?thesis
      using handleInterrupts_none [of ?P d] i d h by (simp add: spun_def)
  qed
qed

text \<open>
  C32: The timer interrupt arrives.  A CPU in an endless loop, with the compare register
  \<open>k\<close> ticks ahead of the timer, runs in the loop for \<open>k - 1\<close> cycles and is at the timer
  vector after exactly \<open>k\<close>, with the cause, the address of the loop and the previous level
  saved, interrupts disabled and the registers and devices as they were.
\<close>

theorem timer_interrupt_arrives:
  assumes "distinct exts" and "spinning w Ks c" and "0 < k"
    and "unat (mtime (dev (clint0 (isysbus c))) + (step_cnt c - update_time (dev (clint0 (isysbus c))))) + k
      = unat (mtimecmp (dev (clint0 (isysbus c))) 0)"
  shows "(\<exists>c'. soc_run k (Suc n) exts w Ks c = Some c' \<and> timer_taken c c' \<and> step_cnt c' = step_cnt c + of_nat k)
    \<and> (\<forall>j<k. \<exists>c'. soc_run j (Suc n) exts w Ks c = Some c' \<and> getNPC c' = getNPC c
         \<and> portCSR c' = portCSR c \<and> step_cnt c' = step_cnt c + of_nat j)"
  using assms(2-4)
proof (induction k arbitrary: c)
  case 0
  then show ?case by simp
next
  case (Suc k)
  let ?D = "\<lambda>c. dev (clint0 (isysbus c))"
  let ?t = "\<lambda>c. mtime (?D c) + (step_cnt c - update_time (?D c))"
  have lt: "unat (?t c) + 1 < 2 ^ 64"
    using Suc.prems(3) unsigned_less [of "mtimecmp (?D c) 0", where 'a = nat] Suc.prems(2) by simp
  then have t1: "unat (?t c + 1) = unat (?t c) + 1"
    by (simp add: unat_word_ariths)
  have due: "timer_due (step_cnt c + 1) (?D c) \<longleftrightarrow> k = 0"
  proof -
    have "timer_due (step_cnt c + 1) (?D c) \<longleftrightarrow> unat (mtimecmp (?D c) 0) \<le> unat (?t c + 1)"
      by (simp add: timer_due_def word_le_nat_alt algebra_simps)
    with Suc.prems(3) t1 show ?thesis by linarith
  qed
  obtain c' where c': "soc_cycle (Suc n) exts w Ks c = Some c'" "step_cnt c' = step_cnt c + 1"
    "if k = 0 then timer_taken c c' else spun c c'"
    using spin_cycle [OF assms(1) Suc.prems(1), of n] unfolding due by blast
  show ?case
  proof (cases "k = 0")
    case True
    with c' show ?thesis by simp
  next
    case False
    then have s: "spun c c'" using c'(3) by simp
    have same: "timer_taken c x \<longleftrightarrow> timer_taken c' x" for x
      using s by (simp add: spun_def timer_taken_def timer_vector_def)
    have t': "unat (?t c') + k = unat (mtimecmp (?D c') 0)"
      using Suc.prems(3) t1 s by (simp add: spun_def algebra_simps)
    have IH: "(\<exists>c''. soc_run k (Suc n) exts w Ks c' = Some c'' \<and> timer_taken c' c'' \<and> step_cnt c'' = step_cnt c' + of_nat k)
    \<and> (\<forall>j<k. \<exists>c''. soc_run j (Suc n) exts w Ks c' = Some c'' \<and> getNPC c'' = getNPC c'
         \<and> portCSR c'' = portCSR c' \<and> step_cnt c'' = step_cnt c' + of_nat j)"
      using Suc.IH [OF spun_spinning [OF s Suc.prems(1)] _ t'] False by simp
    have "\<exists>c''. soc_run j (Suc n) exts w Ks c = Some c'' \<and> getNPC c'' = getNPC c
         \<and> portCSR c'' = portCSR c \<and> step_cnt c'' = step_cnt c + of_nat j" if "j < Suc k" for j
      using that IH s c' by (cases j) (auto simp: spun_def algebra_simps)
    moreover have "\<exists>c''. soc_run (Suc k) (Suc n) exts w Ks c = Some c'' \<and> timer_taken c c''
        \<and> step_cnt c'' = step_cnt c + of_nat (Suc k)"
      using IH c'(1,2) by (auto simp: same algebra_simps)
    ultimately show ?thesis by blast
  qed
qed

subsection \<open>Programming the timer\<close>

lemma push_bit_low: "push_bit n x AND mask n = 0" for x :: "'a::len word"
  by (rule bit_word_eqI) (auto simp: bit_simps)

lemma mtimecmp_aligned: "(CLINT_BASE + 0x4000 + 8 * x) AND 7 = 0"
proof -
  have "CLINT_BASE + 0x4000 + 8 * x = push_bit 3 (0x400800 + x)"
    by (simp add: CLINT_BASE_def push_bit_eq_mult algebra_simps)
  moreover have "(7 :: u64) = mask 3" by (simp add: mask_eq_exp_minus_1)
  ultimately show ?thesis by (metis push_bit_low)
qed

text \<open>The compare register of hart \<open>h\<close> with a new value.\<close>

definition with_mtimecmp :: "nat \<Rightarrow> u64 \<Rightarrow> socst \<Rightarrow> socst" where
  "with_mtimecmp h v m = m\<lparr>clint0 := (clint0 m)\<lparr>dev :=
     (dev (clint0 m))\<lparr>mtimecmp := (mtimecmp (dev (clint0 m)))(h := v)\<rparr>\<rparr>\<rparr>"

lemma store_mtimecmp:
  assumes c: "bare_access (irq_platform now w Ks) c" and h: "h < CLINT_HART_MAX - 1"
    and a: "a = CLINT_BASE + 0x4000 + 8 * of_nat h"
    and bus: "busmap_wf (irq_bus w Ks)" "scan_devices (irq_bus w Ks) a = Some (length Ks)"
  shows "store_access (irq_platform now w Ks) a 8 7 v c = c\<lparr>isysbus := with_mtimecmp h v (isysbus c)\<rparr>"
proof -
  let ?t = "(new_trans (irq_platform now w Ks) MemAction_Write a 8)\<lparr>wpayload := v,
      source_idx := sysBusMasterID (irq_platform now w Ks)\<rparr>"
  have t: "addr ?t = CLINT_BASE + 0x4000 + 8 * of_nat h" "xsize ?t = 8" "action ?t = MemAction_Write" "wstrb ?t = 0xFF"
    "wpayload ?t = v"
    using a by (simp_all add: new_trans_def full_wstrb_def)
  have "irq_dev now Ks (length Ks) ?t (isysbus c) = (?t, with_mtimecmp h v (isysbus c))"
    using clint_write_mtimecmp [OF h t(1-4), of now "clint0 (isysbus c)"]
    by (simp add: irq_dev_def t(5) with_mtimecmp_def)
  moreover have "scan_devices (irq_bus w Ks) (addr ?t) = Some (length Ks)"
    using bus(2) a t(1) by simp
  ultimately have "irq_bt now w Ks ?t (isysbus c) = (TRANS_OK, ?t, with_mtimecmp h v (isysbus c))"
    by (simp add: irq_step [OF bus(1)])
  moreover have "a AND 7 = 0" unfolding a by (rule mtimecmp_aligned)
  ultimately show ?thesis
    by (simp add: store_access_def Let_def dma_memop_bare [OF c] new_trans_def)
qed

lemma mip_MTIP:
  "bit (mip_value (irq_platform now w Ks) c) 7 \<longleftrightarrow> timer_due (step_cnt c) (dev (clint0 (isysbus c)))"
  using clint_timer_pending [of 0 "step_cnt c" "dev (clint0 (isysbus c))"]
  by (simp add: mip_value_def Let_def set_MEIP_def set_MTIP_def bit_setf timer_due_def)

text \<open>
  C33: A doubleword stored by SD at the address of a compare register goes through the memory
  access of the CPU, the hash of the bus and the split of the register bank into exactly that
  register, and nothing else of the CPU or the devices changes; for hart 0, bit MTIP of mip
  then reads 1 from the step on at which the timer has reached the value.
\<close>

theorem timer_programmed:
  assumes c: "bare_access (irq_platform now w Ks) c" and h: "h < CLINT_HART_MAX - 1"
    and a: "Rx c (S_rs1 (buf32 line)) + S_simm (buf32 line) = CLINT_BASE + 0x4000 + 8 * of_nat h"
    and bus: "busmap_wf (irq_bus w Ks)" "scan_devices (irq_bus w Ks) (CLINT_BASE + 0x4000 + 8 * of_nat h) = Some (length Ks)"
  shows "SD_exec (irq_platform now w Ks) line c =
      (c\<lparr>isysbus := with_mtimecmp h (Rx c (S_rs2 (buf32 line))) (isysbus c)\<rparr>, 4)
    \<and> (h = 0 \<longrightarrow> (bit (mip_value (irq_platform s w Ks) ((fst (SD_exec (irq_platform now w Ks) line c))\<lparr>step_cnt := s\<rparr>)) 7
      \<longleftrightarrow> Rx c (S_rs2 (buf32 line)) \<le> mtime (dev (clint0 (isysbus c))) + (s - update_time (dev (clint0 (isysbus c))))))"
proof -
  have "SD_exec (irq_platform now w Ks) line c =
      (c\<lparr>isysbus := with_mtimecmp h (Rx c (S_rs2 (buf32 line))) (isysbus c)\<rparr>, 4)"
    using store_mtimecmp [OF c h a] bus a by (simp add: SD_exec_def Let_def)
  then show ?thesis
    by (simp add: mip_MTIP timer_due_def with_mtimecmp_def)
qed

subsection \<open>Instances\<close>

text \<open>
  The boot ROM of the river configuration with \<open>j .\<close> at its start, and the CPU after start-up with
  the timer interrupt enabled and the compare register at 3.
\<close>

definition irq_mems :: "(memcfg \<times> int) list" where
  "irq_mems = [(\<lparr>m_base = 0x10000, m_length = 0x10000, m_readOnly = True\<rparr>, 0),
      (\<lparr>m_base = 0x08000000, m_length = 0x200000, m_readOnly = False\<rparr>, 0)]"

definition irq_st :: socst where
  "irq_st = \<lparr>mems = zero_mem(0 := \<lparr>mem = (\<lambda>_. 0)(0 := 0x6F), m_oob = False\<rparr>),
     clint0 = \<lparr>dev = clint_init\<lparr>mtimecmp := (\<lambda>_. 0)(0 := 3)\<rparr>, stubmem = (\<lambda>_. 0xFF), bank_oob = False\<rparr>,
     plic0 = \<lparr>dev = plic_init, stubmem = (\<lambda>_. 0xFF), bank_oob = False\<rparr>\<rparr>"

definition irq_cpu :: "socst cpu" where
  "irq_cpu = (power POWER_ON (postinit (irq_platform 0 39 irq_mems) ''IMAC'' (init_cpu False irq_st)))
     \<lparr>portCSR := (\<lambda>_. 0)(CSR_mstatus := 8, CSR_mie := 0x80, CSR_mtvec := 0x10100)\<rparr>"

lemma irq_bus_wf: "busmap_wf (irq_bus 39 irq_mems)"
  by (simp add: irq_bus_def soc_bus_def irq_mems_def busmap_wf_def device_wf_def CLINT_BASE_def PLIC_BASE_def)

lemma irq_scan:
  "scan_devices (irq_bus 39 irq_mems) 0x2004000 = Some 2"
  "scan_devices (irq_bus 39 irq_mems) 0x10000 = Some 0" "scan_devices (irq_bus 39 irq_mems) 0x10001 = Some 0"
  "scan_devices (irq_bus 39 irq_mems) 0x10002 = Some 0" "scan_devices (irq_bus 39 irq_mems) 0x10003 = Some 0"
  by (simp_all add: irq_bus_def soc_bus_def irq_mems_def scan_devices_def pick_def covers_def upt_consts
      CLINT_BASE_def PLIC_BASE_def)

lemma irq_rom: "irq_mem 39 irq_mems 0x10000 4"
  by (simp add: irq_mem_def irq_bus_wf irq_scan upt_consts) (simp add: irq_mems_def)

lemma irq_rom_word: "value_of (irq_view 39 irq_mems) irq_st 0x10000 4 = 0x6F"
  by (simp add: value_of_def payload_load_def upt_consts irq_view_def irq_scan)
    (simp add: irq_mems_def irq_st_def zero_mem_def set_byte_def setf_def mask_eq_exp_minus_1 push_bit_eq_mult)

lemma irq_cpu_fields [simp]:
  "estate irq_cpu = CORE_Normal" "haltreq irq_cpu = False" "exceptions irq_cpu = 0" "step_cnt irq_cpu = 0"
  "cur_prv_level irq_cpu = PRV_M" "getNPC irq_cpu = 0x10000" "isysbus irq_cpu = irq_st" "R irq_cpu = (\<lambda>_. 0)"
  "portCSR irq_cpu = (\<lambda>_. 0)(CSR_mstatus := 8, CSR_mie := 0x80, CSR_mtvec := 0x10100)"
  by (simp_all add: irq_cpu_def irq_platform_def power_def postinit_def reset_def generic_reset_def init_cpu_def
      getNPC_def setPC_def setNPC_def frame_simps Let_def)

lemma irq_cpu_triggers: "ptriggers irq_cpu i = \<lparr>data1 = 0, data2 = 0, extra = 0\<rparr>"
  by (simp add: irq_cpu_def irq_platform_def power_def postinit_def reset_def generic_reset_def init_cpu_def
      setPC_def setNPC_def start_writes portCSR_write_def Let_def)

lemma irq_cpu_spinning: "spinning 39 irq_mems irq_cpu"
  by (simp add: spinning_def ready_def no_triggers_def bare_access_def stack_ok_def irq_cpu_triggers irq_rom
      irq_rom_word tdata1_type_def getf_def dcsr_step_def mstatus_MPRV_def mstatus_MIE_def mie_MTIE_def
      mie_MSIE_def mie_MEIE_def)

theorem timer_interrupt_arrives_witness:
  "\<exists>c. soc_run 3 1 ''MAC'' 39 irq_mems irq_cpu = Some c \<and> getNPC c = 0x10100
     \<and> portCSR c CSR_mcause = 0x8000000000000007 \<and> portCSR c CSR_mepc = 0x10000"
proof -
  have "unat (mtime (dev (clint0 (isysbus irq_cpu))) + (step_cnt irq_cpu - update_time (dev (clint0 (isysbus irq_cpu))))) + 3
      = unat (mtimecmp (dev (clint0 (isysbus irq_cpu))) 0)"
    by (simp add: irq_st_def clint_init_def)
  with timer_interrupt_arrives [OF _ irq_cpu_spinning, of "''MAC''" 3 0] show ?thesis
    by (auto simp: timer_taken_def timer_vector_def Let_def)
qed

text \<open>\<open>sd x11, 0(x10)\<close> with the address of the compare register of hart 0 in x10.\<close>

theorem timer_programmed_witness:
  "fst (SD_exec (irq_platform 0 39 irq_mems) 0x00B53023 (irq_cpu\<lparr>R := (\<lambda>_. 0)(10 := 0x2004000, 11 := 77)\<rparr>))
     = irq_cpu\<lparr>R := (\<lambda>_. 0)(10 := 0x2004000, 11 := 77), isysbus := with_mtimecmp 0 77 irq_st\<rparr>"
proof -
  have f: "S_rs1 0x00B53023 = 10" "S_rs2 0x00B53023 = 11" "S_simm 0x00B53023 = 0" "buf32 0x00B53023 = 0x00B53023"
    by code_simp+
  let ?c = "irq_cpu\<lparr>R := (\<lambda>_. 0)(10 := 0x2004000, 11 := 77)\<rparr>"
  have "bare_access (irq_platform 0 39 irq_mems) ?c"
    by (simp add: bare_access_def mstatus_MPRV_def getf_def)
  moreover have "length irq_mems = 2" by (simp add: irq_mems_def)
  ultimately show ?thesis
    using timer_programmed [where now = 0 and w = 39 and Ks = irq_mems and c = "?c" and h = 0 and line = "0x00B53023"]
      irq_bus_wf irq_scan(1)
    by (simp add: f CLINT_BASE_def)
qed

end
