(* ===== verification/Ddr.thy ===== *)
theory Ddr
  imports Regs
begin

section \<open>The DDR model\<close>

text \<open>
  socsim_plugin/ddr.cpp of debugger/src: a sparse memory kept as a linked list of blocks,
  ordered by block number and extended on demand by \<open>getpMem\<close>.  The list of the model holds
  the blocks from the embedded head \<open>mem_\<close> on.  A block covers 1 KB of addresses
  (\<open>addr >> 10\<close>) although it owns 1 MB of storage, so an access that runs past the end of its
  kilobyte ends in the spare storage of the same block.  The theory shows that the list is a
  flat byte memory for all other accesses.
\<close>

type_synonym block = "u64 \<times> (nat \<Rightarrow> u8)"
type_synonym ddr = "block list"

definition ddr_init :: ddr where
  "ddr_init = [(0, \<lambda>_. 0)]"

text \<open>
  \<open>getpMem\<close>: the list afterwards and the position of the block.  A new block in front of the
  head would not be linked from \<open>mem_\<close>; the head has number 0, so there is none.
\<close>

fun getpMem_walk :: "u64 \<Rightarrow> ddr \<Rightarrow> ddr \<times> nat" where
  "getpMem_walk bid [] = ([], 0)"
| "getpMem_walk bid (b # bs) =
     (if bs \<noteq> [] \<and> bid > fst b
      then (case getpMem_walk bid bs of (bs, i) \<Rightarrow> (b # bs, Suc i))
      else if fst b < bid then (b # (bid, \<lambda>_. 0) # bs, 1)
      else if fst b = bid then (b # bs, 0)
      else ((bid, \<lambda>_. 0) # b # bs, 0))"

definition getpMem :: "u64 \<Rightarrow> ddr \<Rightarrow> ddr \<times> nat \<times> nat" where
  "getpMem a bs = (case getpMem_walk (drop_bit 10 a) bs of (bs, i) \<Rightarrow> (bs, i, unat (a AND 0x3FF)))"

definition ddr_b_transport :: "u64 \<Rightarrow> trans \<Rightarrow> ddr \<Rightarrow> ETransStatus \<times> trans \<times> ddr" where
  "ddr_b_transport base t bs =
     (let off = addr t - base; n = unat (xsize t)
      in case getpMem off bs of
           (bs, i, p) \<Rightarrow>
             (case action t of
                MemAction_Read \<Rightarrow>
                  (TRANS_OK, t\<lparr>rpayload := payload_load (\<lambda>k. snd (bs ! i) (p + k)) n (rpayload t)\<rparr>, bs)
              | MemAction_Write \<Rightarrow>
                  (TRANS_OK, t,
                   bs[i := (fst (bs ! i), mem_put p (wpayload t) (\<lambda>_. True) n (snd (bs ! i)))])))"

subsection \<open>The list is sorted and starts with block 0\<close>

definition ddr_inv :: "ddr \<Rightarrow> bool" where
  "ddr_inv bs \<longleftrightarrow> sorted_wrt (<) (map fst bs) \<and> bs \<noteq> [] \<and> fst (hd bs) = 0"

definition ddr_view :: "ddr \<Rightarrow> u64 \<Rightarrow> u8" where
  "ddr_view bs off =
     (case map_of bs (drop_bit 10 off) of Some m \<Rightarrow> m (unat (off AND 0x3FF)) | None \<Rightarrow> 0)"

text \<open>
  What the walk does to a sorted list: it finds the block or links an empty one at its place.
\<close>

lemma walk_set:
  assumes "bs \<noteq> []"
  shows "set (map fst (fst (getpMem_walk bid bs))) = insert bid (set (map fst bs))"
  using assms
proof (induction bid bs rule: getpMem_walk.induct)
  case (1 bid)
  then show ?case by simp
next
  case (2 bid b bs)
  then show ?case
    by (cases "bs \<noteq> [] \<and> bid > fst b") (auto simp: case_prod_beta insert_commute)
qed

lemma walk_found:
  assumes "bs \<noteq> []"
  shows "snd (getpMem_walk bid bs) < length (fst (getpMem_walk bid bs))
    \<and> fst (fst (getpMem_walk bid bs) ! snd (getpMem_walk bid bs)) = bid
    \<and> fst (getpMem_walk bid bs) \<noteq> []"
  using assms by (induction bid bs rule: getpMem_walk.induct) (auto split: prod.splits)

lemma walk_sorted:
  assumes "bs \<noteq> []" and "sorted_wrt (<) (map fst bs)"
  shows "sorted_wrt (<) (map fst (fst (getpMem_walk bid bs)))"
  using assms
proof (induction bid bs rule: getpMem_walk.induct)
  case (1 bid)
  then show ?case by simp
next
  case (2 bid b bs)
  show ?case
  proof (cases "bs \<noteq> [] \<and> bid > fst b")
    case True
    have "set (map fst (fst (getpMem_walk bid bs))) = insert bid (set (map fst bs))"
      using walk_set True by blast
    moreover have "sorted_wrt (<) (map fst (fst (getpMem_walk bid bs)))"
      using 2 True by simp
    ultimately show ?thesis
      using 2(3) True by (auto simp: case_prod_beta)
  next
    case False
    then show ?thesis using 2(3) by auto
  qed
qed

lemma walk_map_of:
  assumes "bs \<noteq> []" and "sorted_wrt (<) (map fst bs)"
  shows "map_of (fst (getpMem_walk bid bs))
    = (map_of bs)(bid := Some (case map_of bs bid of Some m \<Rightarrow> m | None \<Rightarrow> (\<lambda>_. 0)))"
  using assms
proof (induction bid bs rule: getpMem_walk.induct)
  case (1 bid)
  then show ?case by simp
next
  case (2 bid b bs)
  have later: "fst b < k" if "k \<in> fst ` set bs" for k
    using 2(3) that by auto
  show ?case
  proof (cases "bs \<noteq> [] \<and> bid > fst b")
    case True
    then show ?thesis
      using 2 by (auto simp: case_prod_beta fun_eq_iff)
  next
    case False
    have "map_of bs bid = None" if "\<not> bid > fst b"
      using that later by (fastforce simp: map_of_eq_None_iff)
    with False show ?thesis
      by (cases "bs = []") (auto simp: fun_eq_iff)
  qed
qed

lemma walk_head:
  "ddr_inv bs \<Longrightarrow> fst (hd (fst (getpMem_walk bid bs))) = 0"
  by (cases bs) (auto simp: ddr_inv_def case_prod_beta word_gt_0)

lemma sorted_wrt_less_distinct: "sorted_wrt (<) (xs :: 'a::linorder list) \<Longrightarrow> distinct xs"
  by (induction xs) auto

lemma ddr_inv_distinct: "ddr_inv bs \<Longrightarrow> distinct (map fst bs)"
  unfolding ddr_inv_def using sorted_wrt_less_distinct by blast

lemma walk_inv:
  assumes "ddr_inv bs"
  shows "ddr_inv (fst (getpMem_walk bid bs))"
proof -
  have "bs \<noteq> []" "sorted_wrt (<) (map fst bs)"
    using assms by (auto simp: ddr_inv_def)
  then show ?thesis
    using walk_sorted walk_found walk_head [OF assms, of bid] by (fastforce simp: ddr_inv_def)
qed

lemma walk_view:
  assumes "ddr_inv bs"
  shows "ddr_view (fst (getpMem_walk bid bs)) = ddr_view bs"
  using assms walk_map_of [of bs bid]
  by (auto simp: ddr_inv_def ddr_view_def fun_eq_iff split: option.split)

text \<open>The block and the offset of an address.\<close>

lemma getpMem_inv:
  assumes "ddr_inv bs" and "getpMem a bs = (bs', i, p)"
  shows "ddr_inv bs'" and "ddr_view bs' = ddr_view bs" and "i < length bs'"
    and "fst (bs' ! i) = drop_bit 10 a" and "p = unat (a AND 0x3FF)"
    and "map_of bs' (drop_bit 10 a) = Some (snd (bs' ! i))"
proof -
  have ne: "bs \<noteq> []" using assms(1) by (simp add: ddr_inv_def)
  have parts: "bs' = fst (getpMem_walk (drop_bit 10 a) bs)" "i = snd (getpMem_walk (drop_bit 10 a) bs)"
    "p = unat (a AND 0x3FF)"
    using assms(2) by (simp_all add: getpMem_def case_prod_beta)
  show inv: "ddr_inv bs'" and "ddr_view bs' = ddr_view bs" and i: "i < length bs'"
    and f: "fst (bs' ! i) = drop_bit 10 a" and "p = unat (a AND 0x3FF)"
    using walk_inv [OF assms(1), of "drop_bit 10 a"] walk_view [OF assms(1), of "drop_bit 10 a"]
      walk_found [OF ne, of "drop_bit 10 a"] parts by simp_all
  show "map_of bs' (drop_bit 10 a) = Some (snd (bs' ! i))"
    using ddr_inv_distinct [OF inv] i f by (metis map_of_eq_Some_iff nth_mem prod.collapse)
qed

text \<open>Addresses in the kilobyte of \<open>a\<close>.\<close>

lemma kilobyte_split: "unat a = 1024 * unat (drop_bit 10 a) + unat (a AND 0x3FF)" for a :: u64
proof -
  have "a AND 0x3FF = take_bit 10 a"
    by (simp add: take_bit_eq_mask mask_eq_exp_minus_1)
  then show ?thesis
    by (simp add: unsigned_drop_bit_eq unsigned_take_bit_eq drop_bit_eq_div take_bit_eq_mod unat_div unat_mod)
qed

lemma kilobyte_low: "unat (a AND 0x3FF :: u64) < 1024"
proof -
  have "a AND 0x3FF = take_bit 10 a"
    by (simp add: take_bit_eq_mask mask_eq_exp_minus_1)
  then show ?thesis
    by (simp add: unsigned_take_bit_eq take_bit_eq_mod unat_mod)
qed

lemma kilobyte_unique:
  "(1024 :: nat) * x + y = 1024 * x' + y' \<Longrightarrow> y < 1024 \<Longrightarrow> y' < 1024 \<Longrightarrow> x = x' \<and> y = y'"
proof -
  assume e: "1024 * x + y = 1024 * x' + y'" and y: "y < 1024" "y' < 1024"
  from arg_cong [OF e, of "\<lambda>n. n div 1024"] y have "x = x'" by simp
  with e show ?thesis by simp
qed

lemma kilobyte_add:
  fixes a :: u64
  assumes "unat (a AND 0x3FF) + k < 1024"
  shows "drop_bit 10 (a + of_nat k) = drop_bit 10 a" and "unat ((a + of_nat k) AND 0x3FF) = unat (a AND 0x3FF) + k"
proof -
  have "unat (drop_bit 10 a) < 2 ^ 54"
    using unsigned_less [of a, where 'a = nat] by (simp add: drop_bit_eq_div unat_div less_mult_imp_div_less)
  then have "unat a + k < 2 ^ 64"
    using kilobyte_split [of a] assms by simp
  moreover have "k < 2 ^ 64" using assms by simp
  ultimately have u: "unat (a + of_nat k) = unat a + k"
    by (simp add: unat_word_ariths unat_of_nat take_bit_nat_eq_self)
  have s: "1024 * unat (drop_bit 10 (a + of_nat k)) + unat ((a + of_nat k) AND 0x3FF)
      = 1024 * unat (drop_bit 10 a) + (unat (a AND 0x3FF) + k)"
    using kilobyte_split [of a] kilobyte_split [of "a + of_nat k"] u by simp
  have "unat (drop_bit 10 (a + of_nat k)) = unat (drop_bit 10 a)
      \<and> unat ((a + of_nat k) AND 0x3FF) = unat (a AND 0x3FF) + k"
    using kilobyte_unique [OF s kilobyte_low assms] .
  then show "drop_bit 10 (a + of_nat k) = drop_bit 10 a"
    "unat ((a + of_nat k) AND 0x3FF) = unat (a AND 0x3FF) + k"
    by (simp_all only: word_unat_eq_iff)
qed

lemma kilobyte_eqI:
  fixes x a :: u64
  assumes "drop_bit 10 x = drop_bit 10 a"
  shows "unat x - unat a = unat (x AND 0x3FF) - unat (a AND 0x3FF)" and "x \<ge> a \<longleftrightarrow> unat (x AND 0x3FF) \<ge> unat (a AND 0x3FF)"
  using kilobyte_split [of x] kilobyte_split [of a] assms by (auto simp: word_le_nat_alt)

subsection \<open>A flat byte memory\<close>

text \<open>An access that stays in its kilobyte.\<close>

definition in_kilobyte :: "u64 \<Rightarrow> nat \<Rightarrow> bool" where
  "in_kilobyte off n \<longleftrightarrow> unat (off AND 0x3FF) + n \<le> 1024"

lemma map_of_update:
  assumes "distinct (map fst bs)" and "i < length bs"
  shows "map_of (bs[i := (fst (bs ! i), m)]) = (map_of bs)(fst (bs ! i) := Some m)"
  using assms
proof (induction bs arbitrary: i)
  case Nil
  then show ?case by simp
next
  case (Cons b bs)
  then show ?case
    by (cases i) (auto simp: fun_eq_iff, metis image_eqI nth_mem)
qed

lemma update_view:
  assumes "ddr_inv bs" and "i < length bs"
  shows "ddr_inv (bs[i := (fst (bs ! i), m)])"
    and "ddr_view (bs[i := (fst (bs ! i), m)]) x
      = (if drop_bit 10 x = fst (bs ! i) then m (unat (x AND 0x3FF)) else ddr_view bs x)"
proof -
  have "map fst (bs[i := (fst (bs ! i), m)]) = map fst bs"
    using assms(2) by (simp add: map_update list_update_same_conv)
  moreover have "bs \<noteq> []" using assms(2) by auto
  moreover have "fst (hd (bs[i := (fst (bs ! i), m)])) = fst (hd bs)"
    using assms(2) by (cases bs; cases i) auto
  ultimately show "ddr_inv (bs[i := (fst (bs ! i), m)])"
    using assms by (simp add: ddr_inv_def)
  show "ddr_view (bs[i := (fst (bs ! i), m)]) x
      = (if drop_bit 10 x = fst (bs ! i) then m (unat (x AND 0x3FF)) else ddr_view bs x)"
    using map_of_update [OF ddr_inv_distinct [OF assms(1)] assms(2), of m]
    by (simp add: ddr_view_def)
qed

text \<open>The reference: transactions on a flat array of bytes.\<close>

definition flat_access :: "u64 \<Rightarrow> trans \<Rightarrow> (u64 \<Rightarrow> u8) \<Rightarrow> trans \<times> (u64 \<Rightarrow> u8)" where
  "flat_access base t f =
     (let off = addr t - base; n = unat (xsize t)
      in case action t of
           MemAction_Read \<Rightarrow> (t\<lparr>rpayload := payload_load (\<lambda>k. f (off + of_nat k)) n (rpayload t)\<rparr>, f)
         | MemAction_Write \<Rightarrow>
             (t, \<lambda>x. if unat (x - off) < n then byte_of (wpayload t) (unat (x - off)) else f x))"

lemma flat_index:
  fixes x a :: u64
  assumes "unat (a AND 0x3FF) + n \<le> 1024"
  shows "unat (x - a) < n \<longleftrightarrow> drop_bit 10 x = drop_bit 10 a
      \<and> unat (a AND 0x3FF) \<le> unat (x AND 0x3FF) \<and> unat (x AND 0x3FF) < unat (a AND 0x3FF) + n"
    and "unat (x - a) < n \<Longrightarrow> unat (x AND 0x3FF) - unat (a AND 0x3FF) = unat (x - a)"
proof -
  have x: "x = a + of_nat (unat (x - a))" by simp
  have to: "drop_bit 10 x = drop_bit 10 a \<and> unat (x AND 0x3FF) = unat (a AND 0x3FF) + unat (x - a)"
    if "unat (x - a) < n"
    using kilobyte_add [of a "unat (x - a)"] x assms that by simp
  then show "unat (x - a) < n \<Longrightarrow> unat (x AND 0x3FF) - unat (a AND 0x3FF) = unat (x - a)"
    by simp
  have "unat (x - a) < n" if d: "drop_bit 10 x = drop_bit 10 a"
    "unat (a AND 0x3FF) \<le> unat (x AND 0x3FF)" "unat (x AND 0x3FF) < unat (a AND 0x3FF) + n"
    using kilobyte_eqI [OF d(1)] d(2-3) by (simp add: unat_sub)
  with to show "unat (x - a) < n \<longleftrightarrow> drop_bit 10 x = drop_bit 10 a
      \<and> unat (a AND 0x3FF) \<le> unat (x AND 0x3FF) \<and> unat (x AND 0x3FF) < unat (a AND 0x3FF) + n"
    by auto
qed

lemma getpMem_update:
  assumes "ddr_inv bs" and "getpMem a bs = (bs', i, p)"
  shows "ddr_inv (bs'[i := (fst (bs' ! i), m)])"
    and "ddr_view (bs'[i := (fst (bs' ! i), m)]) x
      = (if drop_bit 10 x = drop_bit 10 a then m (unat (x AND 0x3FF)) else ddr_view bs x)"
  using getpMem_inv [OF assms] update_view [where bs = bs' and i = i and m = m] by simp_all

lemma ddr_access:
  assumes inv: "ddr_inv bs" and k: "in_kilobyte (addr t - base) (unat (xsize t))"
  obtains bs' where "ddr_b_transport base t bs = (TRANS_OK, fst (flat_access base t (ddr_view bs)), bs')"
    and "ddr_inv bs'" and "ddr_view bs' = snd (flat_access base t (ddr_view bs))"
proof -
  define off where "off = addr t - base"
  obtain bs1 i p where g: "getpMem off bs = (bs1, i, p)" by (metis prod_cases3)
  note b = getpMem_inv [OF inv g]
  have k': "unat (off AND 0x3FF) + unat (xsize t) \<le> 1024"
    using k by (simp add: in_kilobyte_def off_def)
  show ?thesis
  proof (cases "action t")
    case MemAction_Read
    have "snd (bs1 ! i) (p + j) = ddr_view bs (off + of_nat j)" if "j < unat (xsize t)" for j
      using kilobyte_add [of off j] k' that b by (simp add: ddr_view_def flip: b(2))
    then have "payload_load (\<lambda>j. snd (bs1 ! i) (p + j)) (unat (xsize t)) (rpayload t)
        = payload_load (\<lambda>j. ddr_view bs (off + of_nat j)) (unat (xsize t)) (rpayload t)"
      by (rule payload_load_cong)
    with MemAction_Read g b that [of bs1] show ?thesis
      by (simp add: ddr_b_transport_def flat_access_def Let_def flip: off_def)
  next
    case MemAction_Write
    let ?bs = "bs1[i := (fst (bs1 ! i), mem_put p (wpayload t) (\<lambda>_. True) (unat (xsize t)) (snd (bs1 ! i)))]"
    have "ddr_view ?bs x = snd (flat_access base t (ddr_view bs)) x" for x
    proof (cases "drop_bit 10 x = drop_bit 10 off")
      case True
      then have old: "ddr_view bs x = snd (bs1 ! i) (unat (x AND 0x3FF))"
        using b by (simp add: ddr_view_def flip: b(2))
      show ?thesis
        using True flat_index [OF k', of x] b(5) MemAction_Write
        by (auto simp: getpMem_update(2) [OF inv g] flat_access_def Let_def mem_put_apply old simp flip: off_def)
    next
      case False
      then show ?thesis
        using flat_index(1) [OF k', of x] MemAction_Write
        by (simp add: getpMem_update(2) [OF inv g] flat_access_def Let_def flip: off_def)
    qed
    with MemAction_Write g that [of ?bs] getpMem_update(1) [OF inv g] show ?thesis
      by (simp add: ddr_b_transport_def flat_access_def Let_def fun_eq_iff flip: off_def)
  qed
qed

text \<open>A run of transactions: the answers and the memory afterwards.\<close>

fun ddr_run :: "u64 \<Rightarrow> trans list \<Rightarrow> ddr \<Rightarrow> (ETransStatus \<times> trans) list \<times> ddr" where
  "ddr_run base [] bs = ([], bs)"
| "ddr_run base (t # ts) bs =
     (case ddr_b_transport base t bs of (r, t, bs) \<Rightarrow>
        case ddr_run base ts bs of (rs, bs) \<Rightarrow> ((r, t) # rs, bs))"

fun flat_run :: "u64 \<Rightarrow> trans list \<Rightarrow> (u64 \<Rightarrow> u8) \<Rightarrow> (ETransStatus \<times> trans) list \<times> (u64 \<Rightarrow> u8)" where
  "flat_run base [] f = ([], f)"
| "flat_run base (t # ts) f =
     (case flat_access base t f of (t, f) \<Rightarrow>
        case flat_run base ts f of (rs, f) \<Rightarrow> ((TRANS_OK, t) # rs, f))"

lemma ddr_run_flat:
  assumes "ddr_inv bs" and "list_all (\<lambda>t. in_kilobyte (addr t - base) (unat (xsize t))) ts"
  shows "fst (ddr_run base ts bs) = fst (flat_run base ts (ddr_view bs))
    \<and> ddr_inv (snd (ddr_run base ts bs))
    \<and> ddr_view (snd (ddr_run base ts bs)) = snd (flat_run base ts (ddr_view bs))"
  using assms
proof (induction ts arbitrary: bs)
  case Nil
  then show ?case by simp
next
  case (Cons t ts)
  from Cons.prems(2) have "in_kilobyte (addr t - base) (unat (xsize t))" by simp
  then obtain bs' where s: "ddr_b_transport base t bs = (TRANS_OK, fst (flat_access base t (ddr_view bs)), bs')"
    "ddr_inv bs'" "ddr_view bs' = snd (flat_access base t (ddr_view bs))"
    by (rule ddr_access [OF Cons.prems(1)])
  have "fst (ddr_run base ts bs') = fst (flat_run base ts (ddr_view bs'))
    \<and> ddr_inv (snd (ddr_run base ts bs'))
    \<and> ddr_view (snd (ddr_run base ts bs')) = snd (flat_run base ts (ddr_view bs'))"
    using Cons.prems(2) by (intro Cons.IH [OF s(2)]) simp
  then show ?case
    by (simp add: s(1,3) case_prod_beta)
qed

lemma ddr_init_inv: "ddr_inv ddr_init" "ddr_view ddr_init = (\<lambda>_. 0)"
  by (simp_all add: ddr_inv_def ddr_init_def ddr_view_def fun_eq_iff)

text \<open>C36: From power-on, any sequence of reads and writes that stay in their kilobyte gets from the
  linked list of blocks, in whatever order it grows, the answers of a flat byte memory that
  starts all zero; the list stays sorted by block number with block 0 first, and afterwards it
  still represents that memory.\<close>

theorem ddr_is_flat_memory:
  assumes "list_all (\<lambda>t. in_kilobyte (addr t - base) (unat (xsize t))) ts"
  shows "fst (ddr_run base ts ddr_init) = fst (flat_run base ts (\<lambda>_. 0))
    \<and> ddr_inv (snd (ddr_run base ts ddr_init))
    \<and> ddr_view (snd (ddr_run base ts ddr_init)) = snd (flat_run base ts (\<lambda>_. 0))"
  using ddr_run_flat [OF ddr_init_inv(1) assms] by (simp add: ddr_init_inv(2))

definition ddr_wr :: "u64 \<Rightarrow> u64 \<Rightarrow> trans" where
  "ddr_wr a v = \<lparr>action = MemAction_Write, response = MemResp_Valid, xsize = 8, wstrb = 0xFF,
     addr = a, rpayload = 0, wpayload = v, source_idx = 0\<rparr>"

theorem ddr_is_flat_memory_witness:
  "ddr_inv (snd (ddr_run 0x80000000 [ddr_wr 0x80000C00 1, ddr_wr 0x80000400 2, ddr_wr 0x80000BF8 3] ddr_init))"
proof -
  have "list_all (\<lambda>t. in_kilobyte (addr t - 0x80000000) (unat (xsize t)))
      [ddr_wr 0x80000C00 1, ddr_wr 0x80000400 2, ddr_wr 0x80000BF8 3]"
    by (simp add: in_kilobyte_def ddr_wr_def)
  from ddr_is_flat_memory [OF this] show ?thesis by blast
qed

text \<open>The bytes past the kilobyte are not written where they are read.\<close>

lemma ddr_overrun:
  assumes "ddr_inv bs" and "action t = MemAction_Write" and "drop_bit 10 x \<noteq> drop_bit 10 (addr t - base)"
  shows "ddr_view (snd (snd (ddr_b_transport base t bs))) x = ddr_view bs x"
proof -
  obtain bs1 i p where g: "getpMem (addr t - base) bs = (bs1, i, p)" by (metis prod_cases3)
  show ?thesis
    using assms(2,3) g by (simp add: ddr_b_transport_def Let_def getpMem_update(2) [OF assms(1) g])
qed

end
