(* ===== verification/Fifo.thy ===== *)
theory Fifo
  imports Prelude
begin

section \<open>Ring buffers\<close>

text \<open>
  The devices keep received bytes in an array with a read and a write position and a count.
  \<open>ring_queue\<close> is the sequence of bytes such an array holds.  \<open>byte_fifo\<close> is what the users of
  a receive buffer rely on; the UART and the QSPI controller interpret it.
\<close>

definition ring_queue :: "nat \<Rightarrow> (nat \<Rightarrow> u8) \<Rightarrow> nat \<Rightarrow> nat \<Rightarrow> u8 list" where
  "ring_queue N buf rd cnt = map (\<lambda>i. buf ((rd + i) mod N)) [0..<cnt]"

definition ring_wf :: "nat \<Rightarrow> nat \<Rightarrow> nat \<Rightarrow> nat \<Rightarrow> bool" where
  "ring_wf N rd wr cnt \<longleftrightarrow> rd < N \<and> cnt \<le> N \<and> wr = (rd + cnt) mod N"

definition ring_next :: "nat \<Rightarrow> nat \<Rightarrow> nat" where
  "ring_next N p = (if Suc p \<ge> N then 0 else Suc p)"

lemma length_ring_queue [simp]: "length (ring_queue N buf rd cnt) = cnt"
  by (simp add: ring_queue_def)

lemma ring_next_mod: "p < N \<Longrightarrow> ring_next N p = Suc p mod N"
  by (cases "Suc p = N") (auto simp: ring_next_def)

lemma ring_wf_wr: "ring_wf N rd wr cnt \<Longrightarrow> wr < N"
  by (auto simp: ring_wf_def intro: mod_less_divisor)

lemma ring_distinct:
  assumes "i < cnt" "cnt < (N :: nat)"
  shows "(rd + i) mod N \<noteq> (rd + cnt) mod N"
proof
  assume "(rd + i) mod N = (rd + cnt) mod N"
  then have "N dvd (rd + cnt) - (rd + i)"
    using mod_eq_dvd_iff_nat [of "rd + i" "rd + cnt" N] assms(1) by simp
  then have "N dvd cnt - i" by simp
  with assms show False by (auto dest: dvd_imp_le)
qed

lemma ring_put:
  assumes "ring_wf N rd wr cnt" and "cnt < N"
  shows "ring_wf N rd (ring_next N wr) (Suc cnt)"
    and "ring_queue N (buf(wr := b)) rd (Suc cnt) = ring_queue N buf rd cnt @ [b]"
proof -
  have wr: "wr = (rd + cnt) mod N" using assms(1) by (simp add: ring_wf_def)
  show "ring_wf N rd (ring_next N wr) (Suc cnt)"
    using assms ring_wf_wr [OF assms(1)] wr by (simp add: ring_wf_def ring_next_mod mod_Suc_eq)
  have "(buf(wr := b)) ((rd + i) mod N) = buf ((rd + i) mod N)" if "i < cnt" for i
    using ring_distinct [OF that assms(2), of rd] wr by simp
  then show "ring_queue N (buf(wr := b)) rd (Suc cnt) = ring_queue N buf rd cnt @ [b]"
    by (simp add: ring_queue_def wr)
qed

lemma ring_get:
  assumes "ring_wf N rd wr (Suc cnt)"
  shows "ring_wf N (ring_next N rd) wr cnt"
    and "ring_queue N buf rd (Suc cnt) = buf rd # ring_queue N buf (ring_next N rd) cnt"
proof -
  have rd: "rd < N" using assms by (simp add: ring_wf_def)
  show "ring_wf N (ring_next N rd) wr cnt"
    using assms rd by (auto simp: ring_wf_def ring_next_mod mod_add_left_eq intro: mod_less_divisor)
  have "(rd + Suc i) mod N = (ring_next N rd + i) mod N" for i
    using rd by (simp add: ring_next_mod mod_add_left_eq)
  then show "ring_queue N buf rd (Suc cnt) = buf rd # ring_queue N buf (ring_next N rd) cnt"
    using rd by (simp add: ring_queue_def upt_conv_Cons o_def del: upt_Suc flip: map_Suc_upt)
qed

text \<open>\<open>n\<close> bytes copied to the write position, up to the end of the array.\<close>

lemma ring_block:
  assumes "ring_wf N rd wr cnt" and "cnt + n \<le> N" and "wr + n \<le> N"
  shows "ring_wf N rd ((wr + n) mod N) (cnt + n)"
    and "ring_queue N (\<lambda>x. if wr \<le> x \<and> x < wr + n then g (x - wr) else buf x) rd (cnt + n)
      = ring_queue N buf rd cnt @ map g [0..<n]"
proof -
  have "ring_wf N rd ((wr + n) mod N) (cnt + n)
    \<and> ring_queue N (\<lambda>x. if wr \<le> x \<and> x < wr + n then g (x - wr) else buf x) rd (cnt + n)
      = ring_queue N buf rd cnt @ map g [0..<n]"
    using assms(2,3)
  proof (induction n)
    case 0
    have "(\<lambda>x. if wr \<le> x \<and> x < wr + 0 then g (x - wr) else buf x) = buf" by (auto simp: fun_eq_iff)
    then show ?case
      using assms(1) ring_wf_wr [OF assms(1)] by simp
  next
    case (Suc n)
    let ?f = "\<lambda>n x. if wr \<le> x \<and> x < wr + n then g (x - wr) else buf x"
    have m: "(wr + n) mod N = wr + n" using Suc.prems by simp
    then have wf: "ring_wf N rd (wr + n) (cnt + n)" and q: "ring_queue N (?f n) rd (cnt + n)
        = ring_queue N buf rd cnt @ map g [0..<n]"
      using Suc by simp_all
    have f: "?f (Suc n) = (?f n)(wr + n := g n)" by (auto simp: fun_eq_iff)
    have "cnt + n < N" using Suc.prems by simp
    note p = ring_put [OF wf this]
    show ?case
      using p(1) p(2) [of "?f n" "g n"] q f Suc.prems ring_next_mod [of "wr + n" N] by simp
  qed
  then show "ring_wf N rd ((wr + n) mod N) (cnt + n)"
    "ring_queue N (\<lambda>x. if wr \<le> x \<and> x < wr + n then g (x - wr) else buf x) rd (cnt + n)
      = ring_queue N buf rd cnt @ map g [0..<n]"
    by blast+
qed

subsection \<open>The interface of a receive buffer\<close>

locale byte_fifo =
  fixes inv :: "'s \<Rightarrow> bool" and queue :: "'s \<Rightarrow> u8 list" and room :: "'s \<Rightarrow> nat"
    and put :: "u8 \<Rightarrow> 's \<Rightarrow> 's" and get :: "'s \<Rightarrow> u8 \<times> 's"
  assumes put_law: "inv s \<Longrightarrow> 0 < room s \<Longrightarrow>
      inv (put b s) \<and> queue (put b s) = queue s @ [b] \<and> room (put b s) = room s - 1"
    and get_law: "inv s \<Longrightarrow> queue s = x # xs \<Longrightarrow>
      fst (get s) = x \<and> inv (snd (get s)) \<and> queue (snd (get s)) = xs \<and> room (snd (get s)) = room s + 1"
begin

definition put_all :: "u8 list \<Rightarrow> 's \<Rightarrow> 's" where
  "put_all bs s = fold put bs s"

fun get_all :: "nat \<Rightarrow> 's \<Rightarrow> u8 list \<times> 's" where
  "get_all 0 s = ([], s)"
| "get_all (Suc n) s = (case get s of (x, s) \<Rightarrow> case get_all n s of (xs, s) \<Rightarrow> (x # xs, s))"

lemma put_all_law:
  "inv s \<Longrightarrow> length bs \<le> room s \<Longrightarrow>
     inv (put_all bs s) \<and> queue (put_all bs s) = queue s @ bs \<and> room (put_all bs s) = room s - length bs"
proof (induction bs arbitrary: s)
  case Nil
  then show ?case by (simp add: put_all_def)
next
  case (Cons b bs)
  then have "0 < room s" by simp
  from put_law [OF Cons.prems(1) this, of b] Cons.IH [of "put b s"] Cons.prems(2)
  show ?case by (simp add: put_all_def)
qed

lemma get_all_law:
  "inv s \<Longrightarrow> n \<le> length (queue s) \<Longrightarrow>
     fst (get_all n s) = take n (queue s) \<and> inv (snd (get_all n s))
     \<and> queue (snd (get_all n s)) = drop n (queue s) \<and> room (snd (get_all n s)) = room s + n"
proof (induction n arbitrary: s)
  case 0
  then show ?case by simp
next
  case (Suc n)
  then obtain x xs where q: "queue s = x # xs" by (cases "queue s") auto
  note g = get_law [OF Suc.prems(1) q]
  with Suc.IH [of "snd (get s)"] Suc.prems(2) q show ?case
    by (simp add: case_prod_beta)
qed

end

end
