(* ===== verification/Uart.thy ===== *)
theory Uart
  imports Regs Fifo
begin

section \<open>The UART\<close>

text \<open>
  socsim_plugin/uart.h and uart.cpp of debugger/src, with \<open>FAST_UART_SIM\<close> as it is defined.
  The terminal of the debugger writes into the receive buffer (\<open>writeData\<close>), the program reads
  it through the register \<open>rxdata\<close>; bytes written to \<open>txdata\<close> go to the listeners at once, so
  the transmit counter stays 0.  \<open>tx_log\<close> are the bytes the listeners got; operations that
  request an interrupt return the numbers requested.
\<close>

record uartcfg =
  fifoSize :: nat
  irqidrx :: u32
  irqidtx :: u32

record uart =
  rxfifo :: "nat \<Rightarrow> u8"
  p_rx_wr :: nat
  p_rx_rd :: nat
  rx_total :: nat
  tx_total :: nat
  txdata :: u32
  rxdata :: u32
  txctrl :: u32
  rxctrl :: u32
  uart_ie :: u32
  uart_ip :: u32
  scaler :: u32
  fwcpuid :: u32
  tx_log :: "u8 list"

abbreviation (input) FIFOSZ :: nat where "FIFOSZ \<equiv> 15"

definition uart_init :: uart where
  "uart_init = \<lparr>rxfifo = (\<lambda>_. 0), p_rx_wr = 0, p_rx_rd = 0, rx_total = 0, tx_total = 0, txdata = 0,
     rxdata = 0, txctrl = 0, rxctrl = 0, uart_ie = 0, uart_ip = 0, scaler = 0, fwcpuid = 0, tx_log = []\<rparr>"

definition txwm_ena :: "uart \<Rightarrow> bool" where "txwm_ena u = bit (uart_ie u) 0"
definition rxwm_ena :: "uart \<Rightarrow> bool" where "rxwm_ena u = bit (uart_ie u) 1"

definition getRxWatermark :: "uart \<Rightarrow> u32" where "getRxWatermark u = getf 16 3 (rxctrl u)"
definition getTxWatermark :: "uart \<Rightarrow> u32" where "getTxWatermark u = getf 16 3 (txctrl u)"
definition getScaler :: u64 where "getScaler = 100"

text \<open>The body of the loop of \<open>writeData\<close>.\<close>

definition uart_put :: "uartcfg \<Rightarrow> u8 \<Rightarrow> uart \<Rightarrow> uart" where
  "uart_put K b u =
     u\<lparr>rx_total := rx_total u + 1, rxfifo := (rxfifo u)(p_rx_wr u := b),
       p_rx_wr := ring_next (fifoSize K) (p_rx_wr u)\<rparr>"

definition writeData :: "uartcfg \<Rightarrow> u8 list \<Rightarrow> uart \<Rightarrow> nat \<times> uart \<times> u32 list" where
  "writeData K buf u =
     (let sz = length buf;
          sz = (if sz > fifoSize K - rx_total u then fifoSize K - rx_total u else sz);
          u = fold (uart_put K) (take sz buf) u
      in (sz, u, if rxwm_ena u \<and> of_nat (rx_total u) > getRxWatermark u then [irqidrx K] else []))"

definition getByte :: "uartcfg \<Rightarrow> uart \<Rightarrow> u8 \<times> uart" where
  "getByte K u =
     (if rx_total u = 0 then (0, u)
      else (rxfifo u (p_rx_rd u), u\<lparr>rx_total := rx_total u - 1, p_rx_rd := ring_next (fifoSize K) (p_rx_rd u)\<rparr>))"

definition putByte :: "u8 \<Rightarrow> uart \<Rightarrow> uart" where
  "putByte v u = u\<lparr>tx_log := tx_log u @ [v]\<rparr>"

text \<open>\<open>stepCallback\<close>: the interrupts requested and the time of the next call, if any.\<close>

definition uart_stepCallback :: "uartcfg \<Rightarrow> u64 \<Rightarrow> uart \<Rightarrow> uart \<times> u32 list \<times> u64 option" where
  "uart_stepCallback K t u =
     (let sent = tx_total u \<noteq> 0; u = (if tx_total u \<noteq> 0 then u\<lparr>tx_total := tx_total u - 1\<rparr> else u)
      in if sent \<and> txwm_ena u \<and> of_nat (tx_total u) < getTxWatermark u then (u, [irqidtx K], None)
         else (u, [], Some (t + getScaler)))"

subsection \<open>The registers\<close>

definition UART_FWCPUID_aboutToWrite :: "u32 \<Rightarrow> uart \<Rightarrow> u32 \<times> uart" where
  "UART_FWCPUID_aboutToWrite new_val u = (if new_val = 0 \<or> fwcpuid u = 0 then (new_val, u) else (0, u))"

definition UART_TXDATA_aboutToRead :: "u32 \<Rightarrow> uart \<Rightarrow> u32 \<times> uart" where
  "UART_TXDATA_aboutToRead cur_val u = (if tx_total u = FIFOSZ then push_bit 31 1 else 0, u)"

definition UART_TXDATA_aboutToWrite :: "u32 \<Rightarrow> uart \<Rightarrow> u32 \<times> uart" where
  "UART_TXDATA_aboutToWrite new_val u = (new_val, putByte (ucast new_val) u)"

definition UART_RXDATA_aboutToRead :: "uartcfg \<Rightarrow> u32 \<Rightarrow> uart \<Rightarrow> u32 \<times> uart" where
  "UART_RXDATA_aboutToRead K cur_val u =
     (if rx_total u = 0 then (push_bit 31 1, u) else case getByte K u of (b, u) \<Rightarrow> (ucast b, u))"

definition UART_IP_aboutToRead :: "u32 \<Rightarrow> uart \<Rightarrow> u32 \<times> uart" where
  "UART_IP_aboutToRead cur_val u =
     (let ret = 0;
          ret = (if of_nat (tx_total u) < getTxWatermark u then setf 0 1 1 ret else ret);
          ret = (if of_nat (rx_total u) > getRxWatermark u then setf 1 1 1 ret else ret)
      in (ret, u))"

definition UART_regs :: "uartcfg \<Rightarrow> (regdesc \<times> uart regop) list" where
  "UART_regs K = map (\<lambda>(a, op). (\<lparr>r_base = a, r_length = 4, r_prio = 1\<rparr>, op))
     [(0x00, MappedReg32_b_transport 0x00 txdata (\<lambda>v u. u\<lparr>txdata := v\<rparr>)
               UART_TXDATA_aboutToRead UART_TXDATA_aboutToWrite),
      (0x04, MappedReg32_b_transport 0x04 rxdata (\<lambda>v u. u\<lparr>rxdata := v\<rparr>) (UART_RXDATA_aboutToRead K) plain),
      (0x08, MappedReg32_b_transport 0x08 txctrl (\<lambda>v u. u\<lparr>txctrl := v\<rparr>) plain plain),
      (0x0C, MappedReg32_b_transport 0x0C rxctrl (\<lambda>v u. u\<lparr>rxctrl := v\<rparr>) plain plain),
      (0x10, MappedReg32_b_transport 0x10 uart_ie (\<lambda>v u. u\<lparr>uart_ie := v\<rparr>) plain plain),
      (0x14, MappedReg32_b_transport 0x14 uart_ip (\<lambda>v u. u\<lparr>uart_ip := v\<rparr>) UART_IP_aboutToRead plain),
      (0x18, MappedReg32_b_transport 0x18 scaler (\<lambda>v u. u\<lparr>scaler := v\<rparr>) plain plain),
      (0x1C, MappedReg32_b_transport 0x1C fwcpuid (\<lambda>v u. u\<lparr>fwcpuid := v\<rparr>) plain UART_FWCPUID_aboutToWrite)]"

definition uart_bank :: "uartcfg \<Rightarrow> u64 \<Rightarrow> uart regbank" where
  "uart_bank K base = \<lparr>b_regs = UART_regs K, b_base = base, b_length = 4096\<rparr>"

subsection \<open>The receive buffer is a queue\<close>

definition uart_inv :: "uartcfg \<Rightarrow> uart \<Rightarrow> bool" where
  "uart_inv K u \<longleftrightarrow> ring_wf (fifoSize K) (p_rx_rd u) (p_rx_wr u) (rx_total u)"

definition uart_queue :: "uartcfg \<Rightarrow> uart \<Rightarrow> u8 list" where
  "uart_queue K u = ring_queue (fifoSize K) (rxfifo u) (p_rx_rd u) (rx_total u)"

definition uart_room :: "uartcfg \<Rightarrow> uart \<Rightarrow> nat" where
  "uart_room K u = fifoSize K - rx_total u"

interpretation uartq: byte_fifo "uart_inv K" "uart_queue K" "uart_room K" "uart_put K" "getByte K" for K
proof unfold_locales
  fix s :: uart and b x :: u8 and xs
  assume inv: "uart_inv K s"
  {
    assume "0 < uart_room K s"
    with inv show "uart_inv K (uart_put K b s) \<and> uart_queue K (uart_put K b s) = uart_queue K s @ [b]
        \<and> uart_room K (uart_put K b s) = uart_room K s - 1"
      by (simp add: uart_inv_def uart_queue_def uart_room_def uart_put_def ring_put)
  }
  {
    assume q: "uart_queue K s = x # xs"
    then obtain n where n: "rx_total s = Suc n"
      by (cases "rx_total s") (auto simp: uart_queue_def ring_queue_def)
    have "Suc n \<le> fifoSize K"
      using inv by (simp add: uart_inv_def ring_wf_def n)
    with inv q show "fst (getByte K s) = x \<and> uart_inv K (snd (getByte K s)) \<and> uart_queue K (snd (getByte K s)) = xs
        \<and> uart_room K (snd (getByte K s)) = uart_room K s + 1"
      using ring_get [where N = "fifoSize K" and rd = "p_rx_rd s" and wr = "p_rx_wr s" and cnt = n]
      by (simp add: uart_inv_def uart_queue_def uart_room_def getByte_def n)
  }
qed

lemma uart_queue_length [simp]: "length (uart_queue K u) = rx_total u"
  by (simp add: uart_queue_def)

lemma writeData_law:
  assumes "uart_inv K u"
  shows "case writeData K buf u of (k, u', irqs) \<Rightarrow> k = min (length buf) (fifoSize K - rx_total u)
    \<and> uart_inv K u' \<and> uart_queue K u' = uart_queue K u @ take k buf"
proof -
  let ?k = "min (length buf) (fifoSize K - rx_total u)"
  have "(if length buf > fifoSize K - rx_total u then fifoSize K - rx_total u else length buf) = ?k"
    by simp
  moreover have "length (take ?k buf) \<le> uart_room K u" by (simp add: uart_room_def)
  from uartq.put_all_law [OF assms this]
  have "uart_inv K (fold (uart_put K) (take ?k buf) u)
      \<and> uart_queue K (fold (uart_put K) (take ?k buf) u) = uart_queue K u @ take ?k buf"
    by (simp add: uartq.put_all_def)
  ultimately show ?thesis
    by (simp only: writeData_def Let_def prod.case)
qed

text \<open>\<open>n\<close> reads of \<open>rxdata\<close> by the program.\<close>

fun rxdata_reads :: "uartcfg \<Rightarrow> nat \<Rightarrow> uart \<Rightarrow> u32 list \<times> uart" where
  "rxdata_reads K 0 u = ([], u)"
| "rxdata_reads K (Suc n) u =
     (case UART_RXDATA_aboutToRead K (rxdata u) u of (v, u) \<Rightarrow>
        case rxdata_reads K n u of (vs, u) \<Rightarrow> (v # vs, u))"

lemma rxdata_reads_law:
  "uart_inv K u \<Longrightarrow> fst (rxdata_reads K n u)
     = map ucast (take n (uart_queue K u)) @ replicate (n - rx_total u) (push_bit 31 1)
   \<and> uart_queue K (snd (rxdata_reads K n u)) = drop n (uart_queue K u)"
proof (induction n arbitrary: u)
  case 0
  then show ?case by simp
next
  case (Suc n)
  show ?case
  proof (cases "uart_queue K u")
    case Nil
    then have "rx_total u = 0" by (metis list.size(3) uart_queue_length)
    with Suc.IH [OF Suc.prems] Nil show ?thesis
      by (simp add: UART_RXDATA_aboutToRead_def case_prod_beta)
  next
    case (Cons x xs)
    then have t: "rx_total u = Suc (length xs)" by (metis length_Cons uart_queue_length)
    note g = uartq.get_law [OF Suc.prems Cons]
    then have "rx_total (snd (getByte K u)) = length xs" by (metis uart_queue_length)
    with g t Suc.IH [of "snd (getByte K u)"] Cons show ?thesis
      by (simp add: UART_RXDATA_aboutToRead_def case_prod_beta)
  qed
qed

text \<open>
  C37: What the terminal sends the program receives: \<open>writeData\<close> accepts as many bytes as
  there is room for, and the reads of \<open>rxdata\<close> give the bytes waiting before and then the
  accepted ones, in order and each once, and the empty flag after the last; the interrupt is
  requested exactly when it is enabled and more bytes than the watermark wait.
\<close>

theorem uart_receives:
  assumes "uart_inv K u" and "writeData K buf u = (k, u', irqs)"
  shows "k = min (length buf) (fifoSize K - rx_total u)
    \<and> fst (rxdata_reads K n u') = (let q = uart_queue K u @ take k buf
        in map ucast (take n q) @ replicate (n - length q) 0x80000000)
    \<and> (irqs = [irqidrx K] \<or> irqs = [])
    \<and> (irqs = [irqidrx K] \<longleftrightarrow> rxwm_ena u' \<and> of_nat (length (uart_queue K u @ take k buf)) > getRxWatermark u')"
proof -
  have w: "k = min (length buf) (fifoSize K - rx_total u)" "uart_inv K u'"
    "uart_queue K u' = uart_queue K u @ take k buf"
    using writeData_law [OF assms(1), of buf] assms(2) by simp_all
  then have t: "rx_total u' = length (uart_queue K u @ take k buf)" by (metis uart_queue_length)
  have "irqs = (if rxwm_ena u' \<and> of_nat (rx_total u') > getRxWatermark u' then [irqidrx K] else [])"
    using assms(2) by (auto simp: writeData_def Let_def)
  then show ?thesis
    using rxdata_reads_law [OF w(2), of n] w t by (simp add: Let_def push_bit_eq_mult)
qed

definition uart0 :: uartcfg where
  "uart0 = \<lparr>fifoSize = 16, irqidrx = 39, irqidtx = 39\<rparr>"

theorem uart_receives_witness:
  "case writeData uart0 [0x68, 0x69] uart_init of (k, u', irqs) \<Rightarrow>
     k = 2 \<and> fst (rxdata_reads uart0 3 u') = [0x68, 0x69, 0x80000000]"
proof -
  have "uart_inv uart0 uart_init"
    by (simp add: uart_inv_def uart0_def uart_init_def ring_wf_def)
  moreover have "uart_queue uart0 uart_init = []" "rx_total uart_init = 0"
    by (simp_all add: uart_queue_def uart_init_def ring_queue_def)
  ultimately show ?thesis
    using uart_receives [of uart0 uart_init "[0x68, 0x69]" _ _ _ 3]
    by (auto simp: Let_def uart0_def numeral_3_eq_3 simp del: rxdata_reads.simps split: prod.split)
qed

end
