(* ===== verification/Crc16.thy ===== *)
theory Crc16
  imports Prelude
begin

section \<open>The CRC of the SD card blocks\<close>

text \<open>
  The table-driven \<open>crc16_ccitt\<close> of socsim_plugin/qspi_ctrl.cpp of debugger/src, and the proof
  that it divides by \<open>x^16 + x^12 + x^5 + 1\<close> bit by bit.
\<close>

definition crc16_tab :: "u16 list" where
  "crc16_tab =
    [0x0000, 0x1021, 0x2042, 0x3063, 0x4084, 0x50a5, 0x60c6, 0x70e7,
     0x8108, 0x9129, 0xa14a, 0xb16b, 0xc18c, 0xd1ad, 0xe1ce, 0xf1ef,
     0x1231, 0x0210, 0x3273, 0x2252, 0x52b5, 0x4294, 0x72f7, 0x62d6,
     0x9339, 0x8318, 0xb37b, 0xa35a, 0xd3bd, 0xc39c, 0xf3ff, 0xe3de,
     0x2462, 0x3443, 0x0420, 0x1401, 0x64e6, 0x74c7, 0x44a4, 0x5485,
     0xa56a, 0xb54b, 0x8528, 0x9509, 0xe5ee, 0xf5cf, 0xc5ac, 0xd58d,
     0x3653, 0x2672, 0x1611, 0x0630, 0x76d7, 0x66f6, 0x5695, 0x46b4,
     0xb75b, 0xa77a, 0x9719, 0x8738, 0xf7df, 0xe7fe, 0xd79d, 0xc7bc,
     0x48c4, 0x58e5, 0x6886, 0x78a7, 0x0840, 0x1861, 0x2802, 0x3823,
     0xc9cc, 0xd9ed, 0xe98e, 0xf9af, 0x8948, 0x9969, 0xa90a, 0xb92b,
     0x5af5, 0x4ad4, 0x7ab7, 0x6a96, 0x1a71, 0x0a50, 0x3a33, 0x2a12,
     0xdbfd, 0xcbdc, 0xfbbf, 0xeb9e, 0x9b79, 0x8b58, 0xbb3b, 0xab1a,
     0x6ca6, 0x7c87, 0x4ce4, 0x5cc5, 0x2c22, 0x3c03, 0x0c60, 0x1c41,
     0xedae, 0xfd8f, 0xcdec, 0xddcd, 0xad2a, 0xbd0b, 0x8d68, 0x9d49,
     0x7e97, 0x6eb6, 0x5ed5, 0x4ef4, 0x3e13, 0x2e32, 0x1e51, 0x0e70,
     0xff9f, 0xefbe, 0xdfdd, 0xcffc, 0xbf1b, 0xaf3a, 0x9f59, 0x8f78,
     0x9188, 0x81a9, 0xb1ca, 0xa1eb, 0xd10c, 0xc12d, 0xf14e, 0xe16f,
     0x1080, 0x00a1, 0x30c2, 0x20e3, 0x5004, 0x4025, 0x7046, 0x6067,
     0x83b9, 0x9398, 0xa3fb, 0xb3da, 0xc33d, 0xd31c, 0xe37f, 0xf35e,
     0x02b1, 0x1290, 0x22f3, 0x32d2, 0x4235, 0x5214, 0x6277, 0x7256,
     0xb5ea, 0xa5cb, 0x95a8, 0x8589, 0xf56e, 0xe54f, 0xd52c, 0xc50d,
     0x34e2, 0x24c3, 0x14a0, 0x0481, 0x7466, 0x6447, 0x5424, 0x4405,
     0xa7db, 0xb7fa, 0x8799, 0x97b8, 0xe75f, 0xf77e, 0xc71d, 0xd73c,
     0x26d3, 0x36f2, 0x0691, 0x16b0, 0x6657, 0x7676, 0x4615, 0x5634,
     0xd94c, 0xc96d, 0xf90e, 0xe92f, 0x99c8, 0x89e9, 0xb98a, 0xa9ab,
     0x5844, 0x4865, 0x7806, 0x6827, 0x18c0, 0x08e1, 0x3882, 0x28a3,
     0xcb7d, 0xdb5c, 0xeb3f, 0xfb1e, 0x8bf9, 0x9bd8, 0xabbb, 0xbb9a,
     0x4a75, 0x5a54, 0x6a37, 0x7a16, 0x0af1, 0x1ad0, 0x2ab3, 0x3a92,
     0xfd2e, 0xed0f, 0xdd6c, 0xcd4d, 0xbdaa, 0xad8b, 0x9de8, 0x8dc9,
     0x7c26, 0x6c07, 0x5c64, 0x4c45, 0x3ca2, 0x2c83, 0x1ce0, 0x0cc1,
     0xef1f, 0xff3e, 0xcf5d, 0xdf7c, 0xaf9b, 0xbfba, 0x8fd9, 0x9ff8,
     0x6e17, 0x7e36, 0x4e55, 0x5e74, 0x2e93, 0x3eb2, 0x0ed1, 0x1ef0]"

definition crc16_ccitt :: "u16 \<Rightarrow> u8 list \<Rightarrow> u16" where
  "crc16_ccitt cksum buf =
     fold (\<lambda>b cksum. crc16_tab ! unat ((drop_bit 8 cksum XOR ucast b) AND 0xFF) XOR push_bit 8 cksum) buf cksum"

text \<open>The reference: one bit of the message at a time.\<close>

definition crc_bit :: "u16 \<Rightarrow> u16" where
  "crc_bit c = (if bit c 15 then push_bit 1 c XOR 0x1021 else push_bit 1 c)"

definition crc_byte :: "u8 \<Rightarrow> u16 \<Rightarrow> u16" where
  "crc_byte b c = (crc_bit ^^ 8) (c XOR push_bit 8 (ucast b))"

lemma crc_bit_xor: "crc_bit (x XOR y) = crc_bit x XOR crc_bit y"
proof (rule bit_word_eqI)
  fix n :: nat
  show "bit (crc_bit (x XOR y)) n \<longleftrightarrow> bit (crc_bit x XOR crc_bit y) n"
    by (auto simp: crc_bit_def bit_xor_iff bit_push_bit_iff)
qed

lemma crc_bits_xor: "(crc_bit ^^ k) (x XOR y) = (crc_bit ^^ k) x XOR (crc_bit ^^ k) y"
  by (induction k) (simp_all add: crc_bit_xor)

lemma crc_bits_low:
  assumes "take_bit 8 y = (y :: u16)" and "k \<le> 8"
  shows "(crc_bit ^^ k) y = push_bit k y"
  using assms(2)
proof (induction k)
  case 0
  then show ?case by simp
next
  case (Suc k)
  have "\<not> bit y m" if "8 \<le> m" for m
    using assms(1) that by (metis bit_take_bit_iff not_le)
  then have "\<not> bit (push_bit k y) 15"
    using Suc.prems by (simp add: bit_push_bit_iff)
  moreover have "push_bit 1 (push_bit k y) = push_bit (Suc k) y"
    by (simp only: push_bit_push_bit plus_1_eq_Suc)
  ultimately show ?case
    using Suc by (simp add: crc_bit_def)
qed

text \<open>
  The table is linear: entry \<open>2^i + j\<close> is entry \<open>2^i\<close> xor entry \<open>j\<close>.  So the eight entries of the
  powers of two determine it.
\<close>

fun lin_tab :: "u16 list \<Rightarrow> u16 list" where
  "lin_tab [] = [0]"
| "lin_tab (b # bs) = lin_tab bs @ map ((XOR) b) (lin_tab bs)"

lemma length_lin_tab [simp]: "length (lin_tab bs) = 2 ^ length bs"
  by (induction bs) simp_all

definition crc_entry :: "nat \<Rightarrow> u16" where
  "crc_entry k = (crc_bit ^^ 8) (push_bit 8 (of_nat k))"

lemma crc_entry_split:
  assumes "j < 2 ^ n" and "n < 8"
  shows "crc_entry (2 ^ n + j) = crc_entry (2 ^ n) XOR crc_entry j"
proof -
  have "bit (of_nat j :: u16) m \<Longrightarrow> m < n" for m
    using assms(1) by (metis bit_of_nat_iff bit_take_bit_iff take_bit_nat_eq_self)
  then have "(2 ^ n :: u16) AND of_nat j = 0"
    by (intro bit_word_eqI) (auto simp: bit_simps)
  then have "(of_nat (2 ^ n + j) :: u16) = of_nat (2 ^ n) XOR of_nat j"
    by (simp add: disjunctive_add_eq_xor)
  then show ?thesis
    by (simp add: crc_entry_def push_bit_xor crc_bits_xor)
qed

lemma crc16_tab_lin:
  "lin_tab [0x9188, 0x48c4, 0x2462, 0x1231, 0x8108, 0x4084, 0x2042, 0x1021] = crc16_tab"
  unfolding crc16_tab_def by simp

lemma lin_tab_entry:
  "n \<le> 8 \<Longrightarrow> k < 2 ^ n \<Longrightarrow> lin_tab (rev (map (\<lambda>i. crc_entry (2 ^ i)) [0..<n])) ! k = crc_entry k"
proof (induction n arbitrary: k)
  case 0
  then show ?case by (simp add: crc_entry_def crc_bits_low)
next
  case (Suc n)
  let ?t = "lin_tab (rev (map (\<lambda>i. crc_entry (2 ^ i)) [0..<n]))"
  have l: "length ?t = 2 ^ n" by simp
  have t: "lin_tab (rev (map (\<lambda>i. crc_entry (2 ^ i)) [0..<Suc n])) = ?t @ map ((XOR) (crc_entry (2 ^ n))) ?t"
    by simp
  show ?case
  proof (cases "k < 2 ^ n")
    case True
    then show ?thesis
      using Suc by (simp only: t nth_append l if_True)
  next
    case False
    then have j: "k - 2 ^ n < 2 ^ n" "2 ^ n + (k - 2 ^ n) = k" using Suc.prems by simp_all
    then have "(?t @ map ((XOR) (crc_entry (2 ^ n))) ?t) ! k = crc_entry (2 ^ n) XOR crc_entry (k - 2 ^ n)"
      using Suc False by (simp add: nth_append l)
    then show ?thesis
      using crc_entry_split [OF j(1)] j(2) Suc.prems by (simp only: t)
  qed
qed

lemma crc_basis: "rev (map (\<lambda>i. crc_entry (2 ^ i)) [0..<8])
    = [0x9188, 0x48C4, 0x2462, 0x1231, 0x8108, 0x4084, 0x2042, 0x1021]"
  by code_simp

lemma crc16_tab_entry: "k < 256 \<Longrightarrow> crc16_tab ! k = crc_entry k"
  using lin_tab_entry [of 8 k] by (simp only: crc_basis crc16_tab_lin) simp

lemma crc_table_step:
  "crc16_tab ! unat ((drop_bit 8 c XOR ucast b) AND 0xFF) XOR push_bit 8 c = crc_byte b c"
proof -
  define k where "k = (drop_bit 8 c XOR ucast b) AND 0xFF"
  have k: "k = take_bit 8 (drop_bit 8 c XOR ucast b)"
    by (simp add: k_def take_bit_eq_mask mask_eq_exp_minus_1)
  have "unat k < 256"
    unfolding k using take_bit_nat_less_exp [of 8 "unat (drop_bit 8 c XOR ucast b)"]
    by (simp only: unsigned_take_bit_eq) simp
  then have "crc16_tab ! unat k = (crc_bit ^^ 8) (push_bit 8 k)"
    by (simp add: crc16_tab_entry crc_entry_def)
  moreover have "push_bit 8 c = (crc_bit ^^ 8) (take_bit 8 c)"
    by (subst crc_bits_low) (auto intro!: bit_word_eqI simp: bit_simps)
  moreover have "push_bit 8 k XOR take_bit 8 c = c XOR push_bit 8 (ucast b)"
    unfolding k by (rule bit_word_eqI) (auto simp: bit_simps)
  ultimately show ?thesis
    unfolding crc_byte_def k_def [symmetric] by (metis crc_bits_xor)
qed

text \<open>
  C38: The table-driven CRC equals the division by \<open>x^16 + x^12 + x^5 + 1\<close>, bit by bit, for every
  start value and message.
\<close>

theorem crc16_ccitt_bitwise: "crc16_ccitt cksum buf = fold crc_byte buf cksum"
  by (induction buf arbitrary: cksum) (simp_all add: crc16_ccitt_def crc_table_step)

end
