(* ===== verification/Qspi.thy ===== *)
theory Qspi
  imports Regs Fifo Crc16
begin

section \<open>The QSPI controller and the SD card\<close>

text \<open>
  socsim_plugin/qspi_ctrl.h, qspi_ctrl.cpp and sdcard.cpp of debugger/src: six bytes written to
  \<open>txdata\<close> are an SD command; \<open>CMD18\<close> starts a transfer that streams the card from an address,
  block by block, through the receive buffer of 4096 bytes that \<open>rxdata\<close> reads.  The card is its
  image file, \<open>None\<close> when it could not be opened.  A byte stored past the end of the buffer
  is undefined in C++ (the next member is the count) and sets \<open>q_oob\<close>.
\<close>

datatype EWrState = Idle | BulkReading

record qspi =
  qstate :: EWrState
  wrbytecnt :: nat
  cmd_u8 :: "nat \<Rightarrow> u8"
  rdblocksize :: nat
  q_addr :: u64
  rxbuf :: "nat \<Rightarrow> u8"
  rxcnt :: nat
  prx_wr :: nat
  prx_rd :: nat
  q_oob :: bool
  q_regs :: "nat \<Rightarrow> u32"

abbreviation (input) FIFO_SIZE :: nat where "FIFO_SIZE \<equiv> 4096"

definition R1_RESPONSE_NO_ERROR :: u8 where "R1_RESPONSE_NO_ERROR = 0x01"
definition TOKEN_CMD18 :: u8 where "TOKEN_CMD18 = 0xFE"

text \<open>The registers by offset; those with a reset value of their own.\<close>

definition qspi_init :: qspi where
  "qspi_init = \<lparr>qstate = Idle, wrbytecnt = 0, cmd_u8 = (\<lambda>_. 0), rdblocksize = 512, q_addr = 0,
     rxbuf = (\<lambda>_. 0), rxcnt = 0, prx_wr = 0, prx_rd = 0, q_oob = False,
     q_regs = (\<lambda>_. 0)(0x14 := 1, 0x40 := push_bit 16 8, 0x60 := 1,
       0x64 := push_bit 16 3 OR push_bit 1 3 OR 1)\<rparr>"

subsection \<open>SdCard\<close>

text \<open>
  \<open>spiRead\<close> copies what the file has left: \<open>fread\<close> gives fewer bytes at the end of the file
  and the rest of the buffer stays.
\<close>

definition spiRead :: "u8 list option \<Rightarrow> u64 \<Rightarrow> nat \<Rightarrow> nat \<Rightarrow> (nat \<Rightarrow> u8) \<Rightarrow> (nat \<Rightarrow> u8) \<times> nat" where
  "spiRead img_file a pos bufsz buf =
     (case img_file of
        None \<Rightarrow> (buf, 0)
      | Some img \<Rightarrow>
          (let n = min bufsz (length img - unat a)
           in (\<lambda>x. if pos \<le> x \<and> x < pos + n then img ! (unat a + (x - pos)) else buf x, n)))"

definition spiWrite :: "u64 \<Rightarrow> u8 list \<Rightarrow> nat" where
  "spiWrite a buf = length buf"

subsection \<open>The controller\<close>

definition put_rx_fifo :: "u8 \<Rightarrow> qspi \<Rightarrow> qspi" where
  "put_rx_fifo b q =
     (if rxcnt q < FIFO_SIZE
      then q\<lparr>rxbuf := (rxbuf q)(prx_wr q := b), q_oob := q_oob q \<or> FIFO_SIZE \<le> prx_wr q,
             rxcnt := rxcnt q + 1, prx_wr := ring_next FIFO_SIZE (prx_wr q)\<rparr>
      else q)"

definition cmd_code :: "qspi \<Rightarrow> u8" where "cmd_code q = cmd_u8 q 0 AND 0x3F"

definition cmd_addr :: "qspi \<Rightarrow> u64" where
  "cmd_addr q = (let a = ucast (cmd_u8 q 1);
      a = push_bit 8 a OR ucast (cmd_u8 q 2);
      a = push_bit 8 a OR ucast (cmd_u8 q 3)
    in push_bit 8 a OR ucast (cmd_u8 q 4))"

definition processCommand :: "qspi \<Rightarrow> qspi" where
  "processCommand q =
     (let q = (if cmd_code q = 0 then q
               else if cmd_code q = 12 then q\<lparr>qstate := Idle, rxcnt := 0, prx_rd := 0, prx_wr := 0\<rparr>
               else if cmd_code q = 18 then q\<lparr>q_addr := cmd_addr q, qstate := BulkReading\<rparr>
               else q)
      in put_rx_fifo R1_RESPONSE_NO_ERROR q)"

definition write_fifo :: "u8 \<Rightarrow> qspi \<Rightarrow> qspi" where
  "write_fifo b q =
     (let q = (if wrbytecnt q = 0 \<and> b AND 0xC0 = 0x40
               then q\<lparr>cmd_u8 := (cmd_u8 q)(wrbytecnt q := b), wrbytecnt := wrbytecnt q + 1\<rparr>
               else if wrbytecnt q \<noteq> 0
               then q\<lparr>cmd_u8 := (cmd_u8 q)(wrbytecnt q := b), wrbytecnt := wrbytecnt q + 1\<rparr>
               else q)
      in if wrbytecnt q = 6 then processCommand (q\<lparr>wrbytecnt := 0\<rparr>) else q)"

text \<open>\<open>n\<close> bytes of the card into the buffer at \<open>prx_wr\<close>, and the CRC over them.\<close>

definition read_part :: "u8 list option \<Rightarrow> u64 \<Rightarrow> nat \<Rightarrow> u16 \<times> qspi \<Rightarrow> u16 \<times> qspi" where
  "read_part sd a n x = (case x of (crc, q) \<Rightarrow>
     let q = q\<lparr>rxbuf := fst (spiRead sd a (prx_wr q) n (rxbuf q))\<rparr>
     in (crc16_ccitt crc (map (rxbuf q) [prx_wr q..<prx_wr q + n]), q))"

text \<open>\<open>ics\<close> is the slave; \<open>None\<close> when no card is connected.\<close>

definition load_data_block :: "u8 list option option \<Rightarrow> qspi \<Rightarrow> qspi" where
  "load_data_block ics q =
     (case ics of
        None \<Rightarrow> q
      | Some sd \<Rightarrow>
          (let q = put_rx_fifo TOKEN_CMD18 q; n = rdblocksize q;
               (crc, q) =
                 (if prx_wr q + n \<le> FIFO_SIZE then
                    (case read_part sd (q_addr q) n (0, q) of
                       (crc, q) \<Rightarrow> (crc, q\<lparr>prx_wr := prx_wr q + n\<rparr>))
                  else
                    (let t = FIFO_SIZE - prx_wr q
                     in case read_part sd (q_addr q) t (0, q) of
                       (crc, q) \<Rightarrow>
                         (case read_part sd (q_addr q + of_nat t) (n - t) (crc, q\<lparr>prx_wr := 0\<rparr>) of
                            (crc, q) \<Rightarrow> (crc, q\<lparr>prx_wr := prx_wr q + (n - t)\<rparr>))));
               q = q\<lparr>rxcnt := rxcnt q + n, q_addr := q_addr q + of_nat n\<rparr>
           in put_rx_fifo (ucast crc) (put_rx_fifo (ucast (drop_bit 8 crc)) q)))"

text \<open>The reading branch of \<open>read_fifo\<close>.\<close>

definition pop_rx_fifo :: "qspi \<Rightarrow> u8 \<times> qspi" where
  "pop_rx_fifo q =
     (rxbuf q (prx_rd q), q\<lparr>rxcnt := rxcnt q - 1, prx_rd := ring_next FIFO_SIZE (prx_rd q)\<rparr>)"

definition load_if_empty :: "u8 list option option \<Rightarrow> qspi \<Rightarrow> qspi" where
  "load_if_empty ics q = (if rxcnt q = 0 \<and> qstate q = BulkReading then load_data_block ics q else q)"

definition read_fifo :: "u8 list option option \<Rightarrow> qspi \<Rightarrow> u8 \<times> qspi" where
  "read_fifo ics q =
     (let q = load_if_empty ics q in if rxcnt q = 0 then (0xFF, q) else pop_rx_fifo q)"

definition isPendingRx :: "u8 list option option \<Rightarrow> qspi \<Rightarrow> u32 \<times> qspi" where
  "isPendingRx ics q =
     (let q = load_if_empty ics q
      in (if rxcnt q > unat (q_regs q 0x54 AND 7) then 1 else 0, q))"

definition isRxFifoEmpty :: "qspi \<Rightarrow> u32" where
  "isRxFifoEmpty q = (if rxcnt q = 0 \<and> qstate q \<noteq> BulkReading then 1 else 0)"

subsection \<open>The registers\<close>

definition QSPI_TXDATA_aboutToWrite :: "u32 \<Rightarrow> qspi \<Rightarrow> u32 \<times> qspi" where
  "QSPI_TXDATA_aboutToWrite new_val q = (new_val, write_fifo (ucast (new_val AND 0xFF)) q)"

definition QSPI_RXDATA_aboutToRead :: "u8 list option option \<Rightarrow> u32 \<Rightarrow> qspi \<Rightarrow> u32 \<times> qspi" where
  "QSPI_RXDATA_aboutToRead ics cur_val q =
     (if truth (isRxFifoEmpty q) then (push_bit 31 1, q)
      else case read_fifo ics q of (b, q) \<Rightarrow> (ucast b, q))"

definition QSPI_IP_aboutToRead :: "u8 list option option \<Rightarrow> u32 \<Rightarrow> qspi \<Rightarrow> u32 \<times> qspi" where
  "QSPI_IP_aboutToRead ics cur_val q = (case isPendingRx ics q of (r, q) \<Rightarrow> (setf 1 1 r 0, q))"

definition qspi_reg ::
  "nat \<Rightarrow> (u32 \<Rightarrow> qspi \<Rightarrow> u32 \<times> qspi) \<Rightarrow> (u32 \<Rightarrow> qspi \<Rightarrow> u32 \<times> qspi) \<Rightarrow> regdesc \<times> qspi regop" where
  "qspi_reg a rd wr = (\<lparr>r_base = of_nat a, r_length = 4, r_prio = 1\<rparr>,
     MappedReg32_b_transport (of_nat a) (\<lambda>q. q_regs q a) (\<lambda>v q. q\<lparr>q_regs := (q_regs q)(a := v)\<rparr>) rd wr)"

definition QSPI_regs :: "u8 list option option \<Rightarrow> (regdesc \<times> qspi regop) list" where
  "QSPI_regs ics =
     map (\<lambda>a. qspi_reg a plain plain) [0x00, 0x04, 0x10, 0x14, 0x18, 0x28, 0x2C, 0x40]
     @ [qspi_reg 0x48 plain QSPI_TXDATA_aboutToWrite, qspi_reg 0x4C (QSPI_RXDATA_aboutToRead ics) plain]
     @ map (\<lambda>a. qspi_reg a plain plain) [0x50, 0x54, 0x60, 0x64, 0x70]
     @ [qspi_reg 0x74 (QSPI_IP_aboutToRead ics) plain]"

definition qspi_bank :: "u8 list option option \<Rightarrow> u64 \<Rightarrow> qspi regbank" where
  "qspi_bank ics base = \<lparr>b_regs = QSPI_regs ics, b_base = base, b_length = 0x1000\<rparr>"

subsection \<open>The receive buffer is a queue\<close>

definition qspi_inv :: "qspi \<Rightarrow> bool" where
  "qspi_inv q \<longleftrightarrow> ring_wf FIFO_SIZE (prx_rd q) (prx_wr q) (rxcnt q) \<and> \<not> q_oob q \<and> rdblocksize q = 512"

definition qspi_queue :: "qspi \<Rightarrow> u8 list" where
  "qspi_queue q = ring_queue FIFO_SIZE (rxbuf q) (prx_rd q) (rxcnt q)"

definition qspi_room :: "qspi \<Rightarrow> nat" where
  "qspi_room q = FIFO_SIZE - rxcnt q"

interpretation qspiq: byte_fifo qspi_inv qspi_queue qspi_room put_rx_fifo pop_rx_fifo
proof unfold_locales
  fix s :: qspi and b x :: u8 and xs
  assume inv: "qspi_inv s"
  then have wr: "prx_wr s < FIFO_SIZE" using ring_wf_wr by (auto simp: qspi_inv_def)
  {
    assume "0 < qspi_room s"
    with inv wr show "qspi_inv (put_rx_fifo b s) \<and> qspi_queue (put_rx_fifo b s) = qspi_queue s @ [b]
        \<and> qspi_room (put_rx_fifo b s) = qspi_room s - 1"
      by (simp add: qspi_inv_def qspi_queue_def qspi_room_def put_rx_fifo_def ring_put
          ring_put(1) [where cnt = "rxcnt s", simplified])
  }
  {
    assume q: "qspi_queue s = x # xs"
    then obtain n where n: "rxcnt s = Suc n"
      by (cases "rxcnt s") (auto simp: qspi_queue_def ring_queue_def)
    have "Suc n \<le> FIFO_SIZE"
      using inv by (simp add: qspi_inv_def ring_wf_def n)
    with inv q show "fst (pop_rx_fifo s) = x \<and> qspi_inv (snd (pop_rx_fifo s)) \<and> qspi_queue (snd (pop_rx_fifo s)) = xs
        \<and> qspi_room (snd (pop_rx_fifo s)) = qspi_room s + 1"
      using ring_get [where N = FIFO_SIZE and rd = "prx_rd s" and wr = "prx_wr s" and cnt = n]
      by (simp add: qspi_inv_def qspi_queue_def qspi_room_def pop_rx_fifo_def n)
  }
qed

subsection \<open>A block of the card\<close>

definition img_bytes :: "u8 list \<Rightarrow> nat \<Rightarrow> nat \<Rightarrow> u8 list" where
  "img_bytes img a n = map (\<lambda>i. img ! (a + i)) [0..<n]"

definition sd_block :: "u8 list \<Rightarrow> nat \<Rightarrow> u8 list" where
  "sd_block img a =
     (let d = img_bytes img a 512; crc = crc16_ccitt 0 d
      in 0xFE # d @ [ucast (drop_bit 8 crc), ucast crc])"

lemma length_img_bytes [simp]: "length (img_bytes img a n) = n"
  by (simp add: img_bytes_def)

lemma length_sd_block [simp]: "length (sd_block img a) = 515"
  by (simp add: sd_block_def Let_def)

lemma img_bytes_append: "img_bytes img a (n + k) = img_bytes img a n @ img_bytes img (a + n) k"
  by (auto simp: img_bytes_def nth_append intro!: nth_equalityI)

lemma read_part_alt:
  assumes "unat a + n \<le> length img"
  shows "read_part (Some img) a n (crc, q) = (crc16_ccitt crc (img_bytes img (unat a) n),
    q\<lparr>rxbuf := \<lambda>x. if prx_wr q \<le> x \<and> x < prx_wr q + n then img ! (unat a + (x - prx_wr q)) else rxbuf q x\<rparr>)"
proof -
  have "min n (length img - unat a) = n" using assms by simp
  moreover have "map (\<lambda>x. if prx_wr q \<le> x \<and> x < prx_wr q + n then img ! (unat a + (x - prx_wr q)) else rxbuf q x)
      [prx_wr q..<prx_wr q + n] = img_bytes img (unat a) n"
    by (auto simp: img_bytes_def intro: nth_equalityI)
  ultimately show ?thesis
    by (simp add: read_part_def spiRead_def Let_def)
qed

text \<open>
  The data is in the buffer after the token when the block does not end exactly at the end of
  the array.
\<close>

lemma load_data:
  assumes inv: "qspi_inv q" and e: "rxcnt q = 0" and n512: "ring_next FIFO_SIZE (prx_wr q) + 512 \<noteq> FIFO_SIZE"
    and img: "unat (q_addr q) + 512 \<le> length img" "length img < 2 ^ 64"
  obtains q' where "load_data_block (Some (Some img)) q
      = (let crc = crc16_ccitt 0 (img_bytes img (unat (q_addr q)) 512)
         in put_rx_fifo (ucast crc) (put_rx_fifo (ucast (drop_bit 8 crc)) q'))"
    and "qspi_inv q'" and "qspi_queue q' = 0xFE # img_bytes img (unat (q_addr q)) 512"
    and "qstate q' = qstate q" and "q_addr q' = q_addr q + 512" and "wrbytecnt q' = wrbytecnt q"
proof -
  define q1 where "q1 = put_rx_fifo TOKEN_CMD18 q"
  have t: "qspi_inv q1" "qspi_queue q1 = [0xFE]"
    using qspiq.put_law [OF inv, of TOKEN_CMD18] e
    by (simp_all add: q1_def qspi_room_def TOKEN_CMD18_def qspi_queue_def ring_queue_def)
  have f: "rxcnt q1 = 1" "q_addr q1 = q_addr q" "rdblocksize q1 = 512" "qstate q1 = qstate q"
    "prx_wr q1 = ring_next FIFO_SIZE (prx_wr q)" "wrbytecnt q1 = wrbytecnt q" "prx_rd q1 = prx_rd q"
    using e inv by (simp_all add: q1_def put_rx_fifo_def qspi_inv_def)
  let ?a = "unat (q_addr q)"
  have wf: "ring_wf FIFO_SIZE (prx_rd q1) (prx_wr q1) 1" and oob: "\<not> q_oob q1"
    using t(1) f by (simp_all add: qspi_inv_def)
  have q1q: "ring_queue FIFO_SIZE (rxbuf q1) (prx_rd q1) 1 = [0xFE]"
    using t(2) f by (simp add: qspi_queue_def)
  define w where "w = prx_wr q1"
  have w: "w < FIFO_SIZE" using ring_wf_wr [OF wf] by (simp add: w_def)
  show ?thesis
  proof (cases "w + 512 \<le> FIFO_SIZE")
    case True
    let ?b = "\<lambda>x. if w \<le> x \<and> x < w + 512 then img ! (?a + (x - w)) else rxbuf q1 x"
    let ?q = "q1\<lparr>rxbuf := ?b, prx_wr := w + 512, rxcnt := 513, q_addr := q_addr q + 512\<rparr>"
    have lt: "(w + 512) mod FIFO_SIZE = w + 512"
      using True n512 f(5) by (simp add: w_def)
    note r = ring_block [OF wf [folded w_def], of 512]
    have "ring_wf FIFO_SIZE (prx_rd q1) (w + 512) 513"
      using r(1) True lt by simp
    moreover have "ring_queue FIFO_SIZE ?b (prx_rd q1) 513 = 0xFE # img_bytes img ?a 512"
      using r(2) [of "\<lambda>i. img ! (?a + i)" "rxbuf q1"] True q1q by (simp add: img_bytes_def)
    moreover have "load_data_block (Some (Some img)) q
      = (let crc = crc16_ccitt 0 (img_bytes img ?a 512)
         in put_rx_fifo (ucast crc) (put_rx_fifo (ucast (drop_bit 8 crc)) ?q))"
      using True img f(1-4,6,7)
      by (simp add: load_data_block_def q1_def [symmetric] w_def [symmetric] Let_def read_part_alt cong: if_cong)
    ultimately show ?thesis
      using that [of ?q] oob f by (simp add: qspi_inv_def qspi_queue_def)
  next
    case False
    define k where "k = FIFO_SIZE - w"
    have k: "k < 512" "w + k = FIFO_SIZE" using False w by (simp_all add: k_def)
    let ?b1 = "\<lambda>x. if w \<le> x \<and> x < w + k then img ! (?a + (x - w)) else rxbuf q1 x"
    let ?b2 = "\<lambda>x. if 0 \<le> x \<and> x < 0 + (512 - k) then img ! (?a + k + (x - 0)) else ?b1 x"
    let ?q = "q1\<lparr>rxbuf := ?b2, prx_wr := 512 - k, rxcnt := 513, q_addr := q_addr q + 512\<rparr>"
    have ak: "unat (q_addr q + of_nat k) = ?a + k"
      using img k by (simp add: unat_word_ariths unat_of_nat take_bit_nat_eq_self)
    note r1 = ring_block [OF wf [folded w_def], of k]
    have wf1: "ring_wf FIFO_SIZE (prx_rd q1) 0 (1 + k)"
      using r1(1) k by simp
    note r2 = ring_block [OF wf1, of "512 - k"]
    have "ring_wf FIFO_SIZE (prx_rd q1) (512 - k) 513"
      using r2(1) k by simp
    moreover have "ring_queue FIFO_SIZE ?b2 (prx_rd q1) 513 = 0xFE # img_bytes img ?a k @ img_bytes img (?a + k) (512 - k)"
      using r2(2) [of "\<lambda>i. img ! (?a + k + i)" ?b1] r1(2) [of "\<lambda>i. img ! (?a + i)" "rxbuf q1"] k q1q
      by (simp add: img_bytes_def)
    moreover have "img_bytes img ?a k @ img_bytes img (?a + k) (512 - k) = img_bytes img ?a 512"
      using img_bytes_append [of img ?a k "512 - k"] k by simp
    moreover have "crc16_ccitt (crc16_ccitt 0 (img_bytes img ?a k)) (img_bytes img (?a + k) (512 - k))
        = crc16_ccitt 0 (img_bytes img ?a k @ img_bytes img (?a + k) (512 - k))"
      by (simp add: crc16_ccitt_def)
    ultimately show ?thesis
      using that [of ?q] oob f(1-4,6,7) False img k ak
      by (simp add: load_data_block_def q1_def [symmetric] w_def [symmetric] k_def [symmetric] Let_def read_part_alt
        qspi_inv_def qspi_queue_def cong: if_cong)
  qed
qed

lemma load_block:
  assumes "qspi_inv q" "rxcnt q = 0" "ring_next FIFO_SIZE (prx_wr q) \<noteq> 3584"
    and "unat (q_addr q) + 512 \<le> length img" "length img < 2 ^ 64"
  obtains q' where "load_data_block (Some (Some img)) q = q'"
    and "qspi_inv q'" and "qspi_queue q' = sd_block img (unat (q_addr q))"
    and "qstate q' = qstate q" and "q_addr q' = q_addr q + 512" and "prx_rd q' = prx_rd q"
proof -
  let ?crc = "crc16_ccitt 0 (img_bytes img (unat (q_addr q)) 512)"
  have "ring_next FIFO_SIZE (prx_wr q) + 512 \<noteq> FIFO_SIZE" using assms(3) by simp
  from load_data [OF assms(1,2) this assms(4,5)] obtain q1 where
    l: "load_data_block (Some (Some img)) q = put_rx_fifo (ucast ?crc) (put_rx_fifo (ucast (drop_bit 8 ?crc)) q1)"
    and q1: "qspi_inv q1" "qspi_queue q1 = 0xFE # img_bytes img (unat (q_addr q)) 512"
      "qstate q1 = qstate q" "q_addr q1 = q_addr q + 512"
    by (auto simp: Let_def)
  have room: "2 \<le> qspi_room q1"
  proof -
    have "rxcnt q1 = length (qspi_queue q1)" by (simp add: qspi_queue_def)
    then show ?thesis by (simp add: qspi_room_def q1(2))
  qed
  then have "0 < qspi_room q1" by simp
  note p1 = qspiq.put_law [OF q1(1) this, of "ucast (drop_bit 8 ?crc)"]
  with room have "0 < qspi_room (put_rx_fifo (ucast (drop_bit 8 ?crc)) q1)" by simp
  note p2 = qspiq.put_law [OF conjunct1 [OF p1] this, of "ucast ?crc"]
  have "prx_rd (load_data_block (Some (Some img)) q) = prx_rd q"
    by (simp add: load_data_block_def Let_def put_rx_fifo_def read_part_def case_prod_beta)
  with l p1 p2 q1 show ?thesis
    by (intro that [of "load_data_block (Some (Some img)) q"])
      (simp_all add: sd_block_def Let_def put_rx_fifo_def [of _ q1] put_rx_fifo_def)
qed

subsection \<open>The stream that the program reads\<close>

text \<open>\<open>n\<close> reads of \<open>rxdata\<close>.\<close>

fun qspi_reads :: "u8 list option option \<Rightarrow> nat \<Rightarrow> qspi \<Rightarrow> u32 list \<times> qspi" where
  "qspi_reads ics 0 q = ([], q)"
| "qspi_reads ics (Suc n) q =
     (case QSPI_RXDATA_aboutToRead ics (q_regs q 0x4C) q of (v, q) \<Rightarrow>
        case qspi_reads ics n q of (vs, q) \<Rightarrow> (v # vs, q))"

lemma qspi_reads_add:
  "qspi_reads ics (m + n) q = (case qspi_reads ics m q of (xs, q) \<Rightarrow>
     case qspi_reads ics n q of (ys, q) \<Rightarrow> (xs @ ys, q))"
  by (induction m arbitrary: q) (simp_all add: case_prod_beta)

lemma qspi_reads_queue:
  assumes "qspi_inv q" and "n \<le> length (qspi_queue q)"
  shows "fst (qspi_reads ics n q) = map ucast (take n (qspi_queue q))
    \<and> (let q' = snd (qspi_reads ics n q) in qspi_inv q' \<and> qspi_queue q' = drop n (qspi_queue q)
         \<and> prx_wr q' = prx_wr q \<and> qstate q' = qstate q \<and> q_addr q' = q_addr q)"
  using assms
proof (induction n arbitrary: q)
  case 0
  then show ?case by (simp add: Let_def)
next
  case (Suc n)
  then obtain x xs where q: "qspi_queue q = x # xs" by (cases "qspi_queue q") auto
  have "rxcnt q = length (qspi_queue q)" by (simp add: qspi_queue_def)
  with q have r: "rxcnt q \<noteq> 0" by simp
  note g = qspiq.get_law [OF Suc.prems(1) q]
  have "prx_wr (snd (pop_rx_fifo q)) = prx_wr q" "qstate (snd (pop_rx_fifo q)) = qstate q"
    "q_addr (snd (pop_rx_fifo q)) = q_addr q"
    by (simp_all add: pop_rx_fifo_def)
  with g r Suc.IH [of "snd (pop_rx_fifo q)"] Suc.prems(2) q show ?case
    by (simp add: QSPI_RXDATA_aboutToRead_def isRxFifoEmpty_def read_fifo_def load_if_empty_def Let_def
        case_prod_beta)
qed

lemma qspi_reads_block:
  assumes inv: "qspi_inv q" and e: "rxcnt q = 0" "qstate q = BulkReading"
    and p: "(prx_wr q + 1) mod FIFO_SIZE \<noteq> 3584"
    and img: "unat (q_addr q) + 512 \<le> length img" "length img < 2 ^ 64"
  obtains q' where "qspi_reads (Some (Some img)) 515 q = (map ucast (sd_block img (unat (q_addr q))), q')"
    and "qspi_inv q'" and "rxcnt q' = 0" and "qstate q' = BulkReading"
    and "prx_wr q' = (prx_wr q + 515) mod FIFO_SIZE" and "q_addr q' = q_addr q + 512"
proof -
  have w: "prx_wr q < FIFO_SIZE" "prx_rd q = prx_wr q"
    using inv e(1) by (simp_all add: qspi_inv_def ring_wf_def)
  then have "ring_next FIFO_SIZE (prx_wr q) \<noteq> 3584"
    using p by (simp add: ring_next_mod)
  from load_block [OF inv e(1) this img] obtain q1 where
    l: "load_data_block (Some (Some img)) q = q1" and q1: "qspi_inv q1" "qspi_queue q1 = sd_block img (unat (q_addr q))"
      "qstate q1 = qstate q" "q_addr q1 = q_addr q + 512" "prx_rd q1 = prx_rd q" .
  have n: "rxcnt q1 = 515"
    using arg_cong [OF q1(2), of length] by (simp add: qspi_queue_def)
  then have "prx_wr q1 = (prx_wr q + 515) mod FIFO_SIZE"
    using q1(1,5) w(2) by (simp add: qspi_inv_def ring_wf_def)
  have first: "qspi_reads (Some (Some img)) (Suc k) q = qspi_reads (Some (Some img)) (Suc k) q1" for k
    using e l n q1(3) by (simp add: QSPI_RXDATA_aboutToRead_def isRxFifoEmpty_def read_fifo_def load_if_empty_def)
  have r: "fst (qspi_reads (Some (Some img)) 515 q1) = map ucast (sd_block img (unat (q_addr q)))
    \<and> (let q' = snd (qspi_reads (Some (Some img)) 515 q1) in qspi_inv q' \<and> qspi_queue q' = []
         \<and> prx_wr q' = prx_wr q1 \<and> qstate q' = qstate q1 \<and> q_addr q' = q_addr q1)"
    using qspi_reads_queue [OF q1(1), of 515 "Some (Some img)"] q1(2) by simp
  define q' where "q' = snd (qspi_reads (Some (Some img)) 515 q1)"
  have "rxcnt q' = 0" if "qspi_queue q' = []"
    using arg_cong [OF that, of length] by (simp add: qspi_queue_def)
  moreover have "qspi_reads (Some (Some img)) 515 q = (fst (qspi_reads (Some (Some img)) 515 q1), q')"
    using first [of 514] by (simp add: q'_def del: qspi_reads.simps)
  ultimately show ?thesis
    using r that [of q'] q1 e \<open>prx_wr q1 = (prx_wr q + 515) mod FIFO_SIZE\<close>
    by (simp add: q'_def Let_def del: qspi_reads.simps)
qed

lemma qspi_reads_stream:
  assumes "qspi_inv q" "rxcnt q = 0" "qstate q = BulkReading"
    and "\<forall>k<n. (prx_wr q + 1 + 515 * k) mod FIFO_SIZE \<noteq> 3584"
    and "unat (q_addr q) + 512 * n \<le> length img" "length img < 2 ^ 64"
  shows "\<exists>q'. qspi_reads (Some (Some img)) (515 * n) q
      = (map ucast (concat (map (\<lambda>k. sd_block img (unat (q_addr q) + 512 * k)) [0..<n])), q')
    \<and> qspi_inv q' \<and> rxcnt q' = 0 \<and> qstate q' = BulkReading
    \<and> prx_wr q' = (prx_wr q + 515 * n) mod FIFO_SIZE \<and> q_addr q' = q_addr q + of_nat (512 * n)"
  using assms
proof (induction n arbitrary: q)
  case 0
  then show ?case
    using ring_wf_wr by (auto simp: qspi_inv_def)
next
  case (Suc n)
  have "(prx_wr q + 1) mod FIFO_SIZE \<noteq> 3584" using Suc.prems(4) by auto
  moreover have "unat (q_addr q) + 512 \<le> length img" using Suc.prems(5) by simp
  ultimately obtain q1 where b: "qspi_reads (Some (Some img)) 515 q = (map ucast (sd_block img (unat (q_addr q))), q1)"
    and q1: "qspi_inv q1" "rxcnt q1 = 0" "qstate q1 = BulkReading"
      "prx_wr q1 = (prx_wr q + 515) mod FIFO_SIZE" "q_addr q1 = q_addr q + 512"
    using qspi_reads_block [OF Suc.prems(1-3)] Suc.prems(6) by metis
  have "unat (q_addr q + 512) = unat (q_addr q) + 512"
    using Suc.prems(5,6) by (simp add: unat_word_ariths)
  then have a: "unat (q_addr q1) = unat (q_addr q) + 512" using q1(5) by simp
  have "(prx_wr q1 + 1 + 515 * k) mod FIFO_SIZE \<noteq> 3584" if "k < n" for k
  proof -
    have "(prx_wr q1 + 1 + 515 * k) mod FIFO_SIZE = (prx_wr q + 1 + 515 * Suc k) mod FIFO_SIZE"
      unfolding q1(4) using mod_add_left_eq [of "prx_wr q + 515" FIFO_SIZE "1 + 515 * k"]
      by (simp add: algebra_simps)
    moreover have "Suc k < Suc n" using that by simp
    ultimately show ?thesis using Suc.prems(4) by presburger
  qed
  then have p1: "\<forall>k<n. (prx_wr q1 + 1 + 515 * k) mod FIFO_SIZE \<noteq> 3584" by blast
  have i1: "unat (q_addr q1) + 512 * n \<le> length img" using a Suc.prems(5) by simp
  from Suc.IH [OF q1(1-3) p1 i1 Suc.prems(6)] obtain q2 where r: "qspi_reads (Some (Some img)) (515 * n) q1
      = (map ucast (concat (map (\<lambda>k. sd_block img (unat (q_addr q1) + 512 * k)) [0..<n])), q2)"
    and q2: "qspi_inv q2" "rxcnt q2 = 0" "qstate q2 = BulkReading"
      "prx_wr q2 = (prx_wr q1 + 515 * n) mod FIFO_SIZE" "q_addr q2 = q_addr q1 + of_nat (512 * n)"
    by blast
  have "map (\<lambda>k. sd_block img (unat (q_addr q) + 512 * k)) [0..<Suc n]
      = sd_block img (unat (q_addr q)) # map (\<lambda>k. sd_block img (unat (q_addr q1) + 512 * k)) [0..<n]"
    by (simp add: upt_conv_Cons a o_def algebra_simps del: upt_Suc flip: map_Suc_upt)
  moreover have "prx_wr q2 = (prx_wr q + 515 * Suc n) mod FIFO_SIZE"
    unfolding q2(4) q1(4) mod_add_left_eq by (simp add: algebra_simps)
  ultimately show ?case
    using b r q2 q1 qspi_reads_add [of "Some (Some img)" 515 "515 * n" q]
    by (intro exI [of _ q2]) (simp add: algebra_simps del: upt_Suc qspi_reads.simps)
qed

subsection \<open>A read command\<close>

definition cmd18 :: "u8 \<Rightarrow> u8 \<Rightarrow> u8 \<Rightarrow> u8 \<Rightarrow> u8 \<Rightarrow> u8 list" where
  "cmd18 b3 b2 b1 b0 c = [0x52, b3, b2, b1, b0, c]"

definition addr_of :: "u8 \<Rightarrow> u8 \<Rightarrow> u8 \<Rightarrow> u8 \<Rightarrow> u64" where
  "addr_of b3 b2 b1 b0 =
     push_bit 8 (push_bit 8 (push_bit 8 (ucast b3) OR ucast b2) OR ucast b1) OR ucast b0"

lemma cmd18_written:
  assumes "wrbytecnt q = 0"
  shows "\<exists>cu. fold write_fifo (cmd18 b3 b2 b1 b0 c) q
    = put_rx_fifo 1 (q\<lparr>cmd_u8 := cu, wrbytecnt := 0, q_addr := addr_of b3 b2 b1 b0, qstate := BulkReading\<rparr>)"
  using assms
  by (simp add: cmd18_def write_fifo_def processCommand_def cmd_code_def cmd_addr_def addr_of_def
      R1_RESPONSE_NO_ERROR_def Let_def) (intro exI, rule refl)

lemma cmd18_state:
  assumes "qspi_inv q" and "wrbytecnt q = 0" and "rxcnt q < FIFO_SIZE"
    and q': "q' = fold write_fifo (cmd18 b3 b2 b1 b0 c) q"
  shows "qspi_inv q'" and "qspi_queue q' = qspi_queue q @ [1]" and "qstate q' = BulkReading"
    and "q_addr q' = addr_of b3 b2 b1 b0" and "prx_wr q' = (prx_wr q + 1) mod FIFO_SIZE"
proof -
  obtain cu where e: "q' = put_rx_fifo 1 (q\<lparr>cmd_u8 := cu, wrbytecnt := 0, q_addr := addr_of b3 b2 b1 b0,
      qstate := BulkReading\<rparr>)"
    using cmd18_written [OF assms(2)] q' by blast
  let ?q = "q\<lparr>cmd_u8 := cu, wrbytecnt := 0, q_addr := addr_of b3 b2 b1 b0, qstate := BulkReading\<rparr>"
  have inv: "qspi_inv ?q" "0 < qspi_room ?q" "qspi_queue ?q = qspi_queue q"
    using assms(1,3) by (simp_all add: qspi_inv_def qspi_room_def qspi_queue_def)
  from qspiq.put_law [OF inv(1,2), of 1] inv(3) show "qspi_inv q'" "qspi_queue q' = qspi_queue q @ [1]"
    by (simp_all add: e)
  show "qstate q' = BulkReading" "q_addr q' = addr_of b3 b2 b1 b0"
    by (simp_all add: e put_rx_fifo_def)
  have "prx_wr q < FIFO_SIZE" using assms(1) ring_wf_wr by (auto simp: qspi_inv_def)
  then show "prx_wr q' = (prx_wr q + 1) mod FIFO_SIZE"
    using assms(3) by (simp add: e put_rx_fifo_def ring_next_mod)
qed

lemma qspi_transfer:
  assumes "qspi_inv q" and "wrbytecnt q = 0" and "rxcnt q < FIFO_SIZE"
    and "\<forall>k<n. (prx_wr q + 2 + 515 * k) mod FIFO_SIZE \<noteq> 3584"
    and "unat (addr_of b3 b2 b1 b0) + 512 * n \<le> length img" "length img < 2 ^ 64"
    and q': "q' = fold write_fifo (cmd18 b3 b2 b1 b0 c) q"
  shows "\<exists>q2. qspi_reads (Some (Some img)) (rxcnt q + 1 + 515 * n) q'
      = (map ucast (qspi_queue q @ [1] @ concat (map (\<lambda>k. sd_block img (unat (addr_of b3 b2 b1 b0) + 512 * k)) [0..<n])), q2)
    \<and> qspi_inv q2 \<and> rxcnt q2 = 0 \<and> qstate q2 = BulkReading
    \<and> prx_wr q2 = (prx_wr q + 1 + 515 * n) mod FIFO_SIZE \<and> q_addr q2 = addr_of b3 b2 b1 b0 + of_nat (512 * n)"
proof -
  note s = cmd18_state [OF assms(1-3) q']
  have l: "length (qspi_queue q') = rxcnt q + 1"
    unfolding s(2) by (simp add: qspi_queue_def)
  define q1 where "q1 = snd (qspi_reads (Some (Some img)) (rxcnt q + 1) q')"
  have r1: "qspi_reads (Some (Some img)) (rxcnt q + 1) q' = (map ucast (qspi_queue q @ [1]), q1)"
    and q1: "qspi_inv q1" "qspi_queue q1 = []" "prx_wr q1 = (prx_wr q + 1) mod FIFO_SIZE"
      "qstate q1 = BulkReading" "q_addr q1 = addr_of b3 b2 b1 b0"
    using qspi_reads_queue [OF s(1), of "rxcnt q + 1" "Some (Some img)"] l s
    by (simp_all add: q1_def Let_def prod_eq_iff del: qspi_reads.simps)
  have e: "rxcnt q1 = 0"
    using arg_cong [OF q1(2), of length] by (simp add: qspi_queue_def)
  have "(prx_wr q1 + 1 + 515 * k) mod FIFO_SIZE = (prx_wr q + 2 + 515 * k) mod FIFO_SIZE" for k
    unfolding q1(3) using mod_add_left_eq [of "prx_wr q + 1" FIFO_SIZE "1 + 515 * k"] by simp
  then have p: "\<forall>k<n. (prx_wr q1 + 1 + 515 * k) mod FIFO_SIZE \<noteq> 3584" using assms(4) by simp
  have i: "unat (q_addr q1) + 512 * n \<le> length img" using assms(5) q1(5) by simp
  from qspi_reads_stream [OF q1(1) e q1(4) p i assms(6)] obtain q2 where
    r2: "qspi_reads (Some (Some img)) (515 * n) q1
      = (map ucast (concat (map (\<lambda>k. sd_block img (unat (q_addr q1) + 512 * k)) [0..<n])), q2)"
    and q2: "qspi_inv q2" "rxcnt q2 = 0" "qstate q2 = BulkReading"
    "prx_wr q2 = (prx_wr q1 + 515 * n) mod FIFO_SIZE" "q_addr q2 = q_addr q1 + of_nat (512 * n)"
    by blast
  have "prx_wr q2 = (prx_wr q + 1 + 515 * n) mod FIFO_SIZE"
    unfolding q2(4) q1(3) mod_add_left_eq ..
  moreover have "qspi_reads (Some (Some img)) (rxcnt q + 1 + 515 * n) q'
      = (map ucast (qspi_queue q @ [1]) @ map ucast (concat (map (\<lambda>k. sd_block img (unat (q_addr q1) + 512 * k)) [0..<n])), q2)"
    using qspi_reads_add [of "Some (Some img)" "rxcnt q + 1" "515 * n" q'] by (simp only: r1 r2 prod.case)
  ultimately show ?thesis
    using q2 q1(5) by simp
qed

text \<open>
  C39: A block transfer.  After the six bytes of CMD18 with a 32-bit address, the reads of
  \<open>rxdata\<close> give what was waiting, the response, and then for each block of the card the start
  token, its 512 bytes and their CRC, as long as no block ends exactly at the end of the
  receive buffer; no access leaves the buffer.
\<close>

theorem qspi_reads_blocks:
  assumes "qspi_inv q" and "wrbytecnt q = 0" and "rxcnt q < FIFO_SIZE"
    and "\<forall>k<n. (prx_wr q + 2 + 515 * k) mod FIFO_SIZE \<noteq> 3584"
    and "unat (addr_of b3 b2 b1 b0) + 512 * n \<le> length img" "length img < 2 ^ 64"
  shows "let (vs, q2) = qspi_reads (Some (Some img)) (rxcnt q + 1 + 515 * n)
                          (fold write_fifo (cmd18 b3 b2 b1 b0 c) q)
    in vs = map ucast (qspi_queue q @ [1]
              @ concat (map (\<lambda>k. sd_block img (unat (addr_of b3 b2 b1 b0) + 512 * k)) [0..<n]))
       \<and> \<not> q_oob q2"
  using qspi_transfer [OF assms refl, of c] by (auto simp: qspi_inv_def)

text \<open>When the block ends at the end of the array, the CRC is stored past it.\<close>

lemma put_rx_fifo_oob:
  "rxcnt q < FIFO_SIZE \<Longrightarrow> FIFO_SIZE \<le> prx_wr q \<Longrightarrow> q_oob (put_rx_fifo b q)"
  "q_oob q \<Longrightarrow> q_oob (put_rx_fifo b q)"
  by (simp_all add: put_rx_fifo_def)

lemma load_overflow:
  assumes "qspi_inv q" "rxcnt q = 0" "(prx_wr q + 1) mod FIFO_SIZE = 3584"
  shows "q_oob (load_data_block (Some (Some img)) q)"
proof -
  define q1 where "q1 = put_rx_fifo TOKEN_CMD18 q"
  have "prx_wr q < FIFO_SIZE" using assms(1) ring_wf_wr by (auto simp: qspi_inv_def)
  then have f: "prx_wr q1 = 3584" "rdblocksize q1 = 512" "rxcnt q1 = 1"
    using assms by (simp_all add: q1_def put_rx_fifo_def ring_next_mod qspi_inv_def)
  show ?thesis
    unfolding load_data_block_def q1_def [symmetric] Let_def
    by (simp add: f read_part_def case_prod_beta) (intro put_rx_fifo_oob, simp_all add: f)
qed

lemma block_position: "(2 + 515 * k) mod FIFO_SIZE = 3584 \<Longrightarrow> k mod FIFO_SIZE = 2218"
proof -
  assume a: "(2 + 515 * k) mod FIFO_SIZE = 3584"
  have "2219 * (2 + 515 * k) = (4438 + k) + FIFO_SIZE * (279 * k)" by simp
  then have "(4438 + k) mod FIFO_SIZE = (2219 * (2 + 515 * k)) mod FIFO_SIZE"
    by (simp only: mod_mult_self2)
  also have "\<dots> = (2219 * 3584) mod FIFO_SIZE"
    by (simp only: a mod_mult_right_eq [of 2219 "2 + 515 * k", symmetric])
  finally have "(342 + k + FIFO_SIZE) mod FIFO_SIZE = 2560" by simp
  then have m: "(342 + k mod FIFO_SIZE) mod FIFO_SIZE = 2560"
    by (simp only: mod_add_self2 mod_add_right_eq)
  show ?thesis
  proof (cases "342 + k mod FIFO_SIZE < FIFO_SIZE")
    case True
    with m show ?thesis by simp
  next
    case False
    have "k mod FIFO_SIZE < FIFO_SIZE" by simp
    then have "(342 + k mod FIFO_SIZE) mod FIFO_SIZE = 342 + k mod FIFO_SIZE - FIFO_SIZE"
      using False by (simp add: mod_if [of "342 + k mod FIFO_SIZE"])
    with m \<open>k mod FIFO_SIZE < FIFO_SIZE\<close> False show ?thesis by linarith
  qed
qed

text \<open>
  C40: The overflow.  Starting with CMD18 after power-on, the 2218 blocks of the card that
  follow are read without an access outside the receive buffer, and the next byte the program
  reads stores past its end.
\<close>

theorem qspi_overflow:
  assumes "unat (addr_of b3 b2 b1 b0) + 512 * 2219 \<le> length img" "length img < 2 ^ 64"
  shows "(let q = fold write_fifo (cmd18 b3 b2 b1 b0 c) qspi_init
    in \<not> q_oob (snd (qspi_reads (Some (Some img)) (1 + 515 * 2218) q))
       \<and> q_oob (snd (qspi_reads (Some (Some img)) (1 + 515 * 2218 + 1) q)))"
proof -
  define q where "q = fold write_fifo (cmd18 b3 b2 b1 b0 c) qspi_init"
  have inv: "qspi_inv qspi_init" "wrbytecnt qspi_init = 0" "rxcnt qspi_init = 0" "prx_wr qspi_init = 0"
    by (simp_all add: qspi_init_def qspi_inv_def ring_wf_def)
  have "(prx_wr qspi_init + 2 + 515 * k) mod FIFO_SIZE \<noteq> 3584" if "k < 2218" for k
    using block_position [of k] that inv(4) by auto
  then have pos: "\<forall>k<2218. (prx_wr qspi_init + 2 + 515 * k) mod FIFO_SIZE \<noteq> 3584" by blast
  have room: "rxcnt qspi_init < FIFO_SIZE" by (simp add: inv(3))
  have len: "unat (addr_of b3 b2 b1 b0) + 512 * 2218 \<le> length img" using assms(1) by simp
  from qspi_transfer [OF inv(1,2) room pos len assms(2) q_def] obtain q2 where
    r: "snd (qspi_reads (Some (Some img)) (1 + 515 * 2218) q) = q2"
    and q2: "qspi_inv q2" "rxcnt q2 = 0" "qstate q2 = BulkReading" "prx_wr q2 = (1 + 515 * 2218) mod FIFO_SIZE"
    unfolding inv(3,4) by (auto simp del: qspi_reads.simps)
  have "(prx_wr q2 + 1) mod FIFO_SIZE = 3584" by (simp add: q2(4))
  from load_overflow [OF q2(1,2) this, of img]
  have o: "q_oob (load_data_block (Some (Some img)) q2)" .
  have "q_oob (snd (QSPI_RXDATA_aboutToRead (Some (Some img)) v q2))" for v
    using o q2(2,3)
    by (simp add: QSPI_RXDATA_aboutToRead_def isRxFifoEmpty_def read_fifo_def load_if_empty_def Let_def pop_rx_fifo_def
        case_prod_beta)
  then have "q_oob (snd (qspi_reads (Some (Some img)) 1 q2))"
    by (simp add: case_prod_beta)
  moreover have "snd (qspi_reads (Some (Some img)) (1 + 515 * 2218 + 1) q) = snd (qspi_reads (Some (Some img)) 1 q2)"
    using qspi_reads_add [of "Some (Some img)" "1 + 515 * 2218" 1 q] by (simp only: case_prod_beta r snd_conv)
  ultimately show ?thesis
    using r q2(1) by (simp only: Let_def qspi_inv_def flip: q_def) simp
qed

subsection \<open>Instances\<close>

lemma qspi_init_facts: "qspi_inv qspi_init" "wrbytecnt qspi_init = 0" "rxcnt qspi_init < FIFO_SIZE"
  "prx_wr qspi_init = 0" "qspi_queue qspi_init = []" "rxcnt qspi_init = 0"
  by (simp_all add: qspi_init_def qspi_inv_def ring_wf_def qspi_queue_def ring_queue_def)

theorem qspi_reads_blocks_witness:
  "fst (qspi_reads (Some (Some (replicate 512 7))) 516 (fold write_fifo (cmd18 0 0 0 0 1) qspi_init))
     = map ucast ((1 :: u8) # sd_block (replicate 512 7) 0)"
proof -
  have "addr_of 0 0 0 0 = 0" by (simp add: addr_of_def)
  then show ?thesis
    using qspi_reads_blocks [OF qspi_init_facts(1-3), of 1 0 0 0 0 "replicate 512 7" 1]
    by (simp add: qspi_init_facts case_prod_beta del: qspi_reads.simps)
qed

theorem qspi_overflow_witness:
  "q_oob (snd (qspi_reads (Some (Some (replicate 1136128 7))) 1142272
     (fold write_fifo (cmd18 0 0 0 0 1) qspi_init)))"
proof -
  have "addr_of 0 0 0 0 = 0" by (simp add: addr_of_def)
  then show ?thesis
    using qspi_overflow [of 0 0 0 0 "replicate 1136128 7" 1]
    by (simp add: Let_def del: qspi_reads.simps)
qed

end
