(* ===== verification/Rtl_Csr.thy ===== *)
theory Rtl_Csr
  imports Rtl_Types
begin

section \<open>The CSR module of the RTL\<close>

text \<open>
  sc/rtl/riverlib/core/csr.h and csr.cpp: \<open>CsrRegs\<close> keeps the privileged state of the core.  The
  execution stage sends it requests (read, write, exception, interrupt, return from a trap, halt,
  fence); each is answered by a value, for a trap the address of its handler.  The process
  \<open>comb\<close> is a sequence of steps over the new values of the registers (\<open>v\<close> in C++) and its local
  variables, both in the record \<open>csr_loc\<close>; every step reads the old values in \<open>r\<close>.
\<close>

subsection \<open>Constants\<close>

abbreviation (input) PRV_U :: "2 word" where "PRV_U \<equiv> 0"
abbreviation (input) PRV_S :: "2 word" where "PRV_S \<equiv> 1"
abbreviation (input) PRV_M :: "2 word" where "PRV_M \<equiv> 3"
abbreviation (input) CState_Idle :: "4 word" where "CState_Idle \<equiv> 0"
abbreviation (input) CState_RW :: "4 word" where "CState_RW \<equiv> 1"
abbreviation (input) CState_Exception :: "4 word" where "CState_Exception \<equiv> 2"
abbreviation (input) CState_Breakpoint :: "4 word" where "CState_Breakpoint \<equiv> 3"
abbreviation (input) CState_Interrupt :: "4 word" where "CState_Interrupt \<equiv> 4"
abbreviation (input) CState_TrapReturn :: "4 word" where "CState_TrapReturn \<equiv> 5"
abbreviation (input) CState_Halt :: "4 word" where "CState_Halt \<equiv> 6"
abbreviation (input) CState_Resume :: "4 word" where "CState_Resume \<equiv> 7"
abbreviation (input) CState_Wfi :: "4 word" where "CState_Wfi \<equiv> 8"
abbreviation (input) CState_Fence :: "4 word" where "CState_Fence \<equiv> 9"
abbreviation (input) CState_WaitPmp :: "4 word" where "CState_WaitPmp \<equiv> 10"
abbreviation (input) CState_Response :: "4 word" where "CState_Response \<equiv> 11"
abbreviation (input) Fence_None :: "3 word" where "Fence_None \<equiv> 0"
abbreviation (input) Fence_DataBarrier :: "3 word" where "Fence_DataBarrier \<equiv> 1"
abbreviation (input) Fence_DataFlush :: "3 word" where "Fence_DataFlush \<equiv> 2"
abbreviation (input) Fence_WaitDataFlushEnd :: "3 word" where "Fence_WaitDataFlushEnd \<equiv> 3"
abbreviation (input) Fence_FlushInstr :: "3 word" where "Fence_FlushInstr \<equiv> 4"
abbreviation (input) Fence_End :: "3 word" where "Fence_End \<equiv> 7"
abbreviation (input) SATP_MODE_SV39 :: "4 word" where "SATP_MODE_SV39 \<equiv> 8"
abbreviation (input) SATP_MODE_SV48 :: "4 word" where "SATP_MODE_SV48 \<equiv> 9"
abbreviation (input) CReq_ReadBit :: nat where "CReq_ReadBit \<equiv> 0"
abbreviation (input) CReq_WriteBit :: nat where "CReq_WriteBit \<equiv> 1"
abbreviation (input) CReq_TrapReturnBit :: nat where "CReq_TrapReturnBit \<equiv> 2"
abbreviation (input) CReq_ExceptionBit :: nat where "CReq_ExceptionBit \<equiv> 3"
abbreviation (input) CReq_InterruptBit :: nat where "CReq_InterruptBit \<equiv> 4"
abbreviation (input) CReq_BreakpointBit :: nat where "CReq_BreakpointBit \<equiv> 5"
abbreviation (input) CReq_HaltBit :: nat where "CReq_HaltBit \<equiv> 6"
abbreviation (input) CReq_ResumeBit :: nat where "CReq_ResumeBit \<equiv> 7"
abbreviation (input) CReq_WfiBit :: nat where "CReq_WfiBit \<equiv> 8"
abbreviation (input) CReq_FenceBit :: nat where "CReq_FenceBit \<equiv> 9"
abbreviation (input) IRQ_SSIP :: nat where "IRQ_SSIP \<equiv> 1"
abbreviation (input) IRQ_MSIP :: nat where "IRQ_MSIP \<equiv> 3"
abbreviation (input) IRQ_STIP :: nat where "IRQ_STIP \<equiv> 5"
abbreviation (input) IRQ_MTIP :: nat where "IRQ_MTIP \<equiv> 7"
abbreviation (input) IRQ_SEIP :: nat where "IRQ_SEIP \<equiv> 9"
abbreviation (input) IRQ_MEIP :: nat where "IRQ_MEIP \<equiv> 11"
abbreviation (input) CFG_VENDOR_ID :: u64 where "CFG_VENDOR_ID \<equiv> 0xF1"
abbreviation (input) CFG_IMPLEMENTATION_ID :: u64 where "CFG_IMPLEMENTATION_ID \<equiv> 0x20220813"
abbreviation (input) CFG_PMP_TBL_SIZE :: nat where "CFG_PMP_TBL_SIZE \<equiv> 8"

abbreviation (input) bool_at :: "nat \<Rightarrow> bool \<Rightarrow> u64 \<Rightarrow> u64" where
  "bool_at n b w \<equiv> setf n 1 (of_bool b) w"

subsection \<open>Registers and inputs\<close>

record regmode =
  xepc :: u64
  xpp :: "2 word"
  xpie :: bool
  xie :: bool
  xsie :: bool
  xtie :: bool
  xeie :: bool
  xtvec_off :: u64
  xtvec_mode :: "2 word"
  xtval :: u64
  xcause_irq :: bool
  xcause_code :: "5 word"
  xscratch :: u64
  xcounteren :: u32

record pmp_item =
  pmp_cfg :: u8
  pmp_addr :: u64
  pmp_mask :: u64

record csr_regs =
  c_xmode :: "2 word \<Rightarrow> regmode"
  c_pmp :: "nat \<Rightarrow> pmp_item"
  c_state :: "4 word"
  c_fencestate :: "3 word"
  c_irq_pending :: "16 word"
  c_cmd_type :: "10 word"
  c_cmd_addr :: "12 word"
  c_cmd_data :: u64
  c_cmd_exception :: bool
  c_progbuf_end :: bool
  c_progbuf_err :: bool
  c_mip_ssip :: bool
  c_mip_stip :: bool
  c_mip_seip :: bool
  c_medeleg :: u64
  c_mideleg :: "16 word"
  c_mcountinhibit :: u32
  c_mstackovr :: u64
  c_mstackund :: u64
  c_mmu_ena :: bool
  c_satp_ppn :: "44 word"
  c_satp_sv39 :: bool
  c_satp_sv48 :: bool
  c_mode :: "2 word"
  c_mprv :: bool
  c_mxr :: bool
  c_sum :: bool
  c_tvm :: bool
  c_ex_fpu :: "5 word"
  c_mcycle_cnt :: u64
  c_minstret_cnt :: u64
  c_dscratch0 :: u64
  c_dscratch1 :: u64
  c_dpc :: u64
  c_halt_cause :: "3 word"
  c_dcsr_ebreakm :: bool
  c_dcsr_stopcount :: bool
  c_dcsr_stoptimer :: bool
  c_dcsr_step :: bool
  c_dcsr_stepie :: bool
  c_pmp_upd_ena :: u8
  c_pmp_upd_cnt :: "3 word"
  c_pmp_ena :: bool
  c_pmp_we :: bool
  c_pmp_region :: "3 word"
  c_pmp_start_addr :: u64
  c_pmp_end_addr :: u64
  c_pmp_flags :: "5 word"

text \<open>
  The five FPU flags \<open>ex_fpu_*\<close> are the bits of \<open>c_ex_fpu\<close> in the order of \<open>fflags\<close>; \<open>trap_addr\<close>,
  \<open>stepping_mode_cnt\<close> and \<open>ins_per_step\<close> are never used.
\<close>

definition regmode_reset :: regmode where
  "regmode_reset = \<lparr>xepc = 0, xpp = 0, xpie = False, xie = False, xsie = False, xtie = False, xeie = False,
     xtvec_off = 0, xtvec_mode = 0, xtval = 0, xcause_irq = False, xcause_code = 0, xscratch = 0,
     xcounteren = 0\<rparr>"

definition CsrRegs_r_reset :: csr_regs where
  "CsrRegs_r_reset = \<lparr>c_xmode = (\<lambda>_. regmode_reset), c_pmp = (\<lambda>_. \<lparr>pmp_cfg = 0, pmp_addr = 0, pmp_mask = 0\<rparr>),
     c_state = CState_Idle, c_fencestate = Fence_None, c_irq_pending = 0, c_cmd_type = 0, c_cmd_addr = 0,
     c_cmd_data = 0, c_cmd_exception = False, c_progbuf_end = False, c_progbuf_err = False,
     c_mip_ssip = False, c_mip_stip = False, c_mip_seip = False, c_medeleg = 0, c_mideleg = 0,
     c_mcountinhibit = 0, c_mstackovr = 0, c_mstackund = 0, c_mmu_ena = False, c_satp_ppn = 0,
     c_satp_sv39 = False, c_satp_sv48 = False, c_mode = PRV_M, c_mprv = False, c_mxr = False,
     c_sum = False, c_tvm = False, c_ex_fpu = 0, c_mcycle_cnt = 0, c_minstret_cnt = 0, c_dscratch0 = 0,
     c_dscratch1 = 0, c_dpc = 0x10000, c_halt_cause = 0, c_dcsr_ebreakm = False,
     c_dcsr_stopcount = False, c_dcsr_stoptimer = False, c_dcsr_step = False, c_dcsr_stepie = False,
     c_pmp_upd_ena = 0, c_pmp_upd_cnt = 0, c_pmp_ena = False, c_pmp_we = False, c_pmp_region = 0,
     c_pmp_start_addr = 0, c_pmp_end_addr = 0, c_pmp_flags = 0\<rparr>"

record csr_in =
  y_sp :: u64
  y_req_valid :: bool
  y_req_type :: "10 word"
  y_req_addr :: "12 word"
  y_req_data :: u64
  y_resp_ready :: bool
  y_e_halted :: bool
  y_e_pc :: u64
  y_irq_pending :: "16 word"
  y_f_flush_ready :: bool
  y_e_valid :: bool
  y_m_memop_ready :: bool
  y_m_idle :: bool
  y_flushd_end :: bool
  y_mtimer :: u64
  y_dbg_progbuf_ena :: bool

record csr_loc =
  cv :: csr_regs
  v_csr_rena :: bool
  v_csr_wena :: bool
  v_csr_trapreturn :: bool
  vb_rdata :: u64
  vb_e_emux :: u64
  vb_e_imux :: "16 word"
  wb_trap_cause :: "5 word"
  vb_xtval :: u64
  v_flushd :: bool
  v_flushi :: bool
  v_flushmmu :: bool
  v_flushpipeline :: bool
  vb_pmp_upd_ena :: u8

definition csr_start :: "csr_regs \<Rightarrow> csr_loc" where
  "csr_start r = \<lparr>cv = r, v_csr_rena = False, v_csr_wena = False, v_csr_trapreturn = False, vb_rdata = 0,
     vb_e_emux = 0, vb_e_imux = 0, wb_trap_cause = 0, vb_xtval = 0, v_flushd = False, v_flushi = False,
     v_flushmmu = False, v_flushpipeline = False, vb_pmp_upd_ena = c_pmp_upd_ena r\<rparr>"


definition upd_mode :: "2 word \<Rightarrow> (regmode \<Rightarrow> regmode) \<Rightarrow> csr_regs \<Rightarrow> csr_regs" where
  "upd_mode p f v = v\<lparr>c_xmode := (c_xmode v)(p := f (c_xmode v p))\<rparr>"

subsection \<open>The state machine\<close>

text \<open>The handler's address: exceptions and interrupts from S or U mode may be delegated.\<close>

definition xtvec_off_edeleg :: "csr_regs \<Rightarrow> u64" where
  "xtvec_off_edeleg r =
     (if c_mode r \<le> PRV_S \<and> bit (c_medeleg r) (unat (rng (c_cmd_addr r) 4 0 :: 5 word))
      then xtvec_off (c_xmode r PRV_S) else xtvec_off (c_xmode r PRV_M))"

definition xtvec_off_ideleg :: "csr_regs \<Rightarrow> u64" where
  "xtvec_off_ideleg r =
     (if c_mode r \<le> PRV_S \<and> bit (c_mideleg r) (unat (rng (c_cmd_addr r) 3 0 :: 4 word))
      then xtvec_off (c_xmode r PRV_S) else xtvec_off (c_xmode r PRV_M))"

definition csr_fence_req :: "csr_in \<Rightarrow> csr_regs \<Rightarrow> csr_loc \<Rightarrow> csr_loc" where
  "csr_fence_req x r l =
     (let a = y_req_addr x; v = (cv l)\<lparr>c_state := CState_Fence\<rparr>
      in if bit a 0 then l\<lparr>cv := v\<lparr>c_fencestate := Fence_DataBarrier\<rparr>\<rparr>
         else if bit a 1 then l\<lparr>v_flushmmu := True, cv := v\<lparr>c_fencestate := Fence_DataFlush\<rparr>\<rparr>
         else if bit a 2 \<and> \<not> (c_tvm r \<and> \<not> bit (c_mode r) 1)
              then l\<lparr>v_flushmmu := True, cv := v\<lparr>c_fencestate := Fence_End\<rparr>\<rparr>
         else l\<lparr>cv := v\<lparr>c_state := CState_Response, c_cmd_exception := True\<rparr>\<rparr>)"

definition csr_Idle :: "csr_in \<Rightarrow> csr_regs \<Rightarrow> csr_loc \<Rightarrow> csr_loc" where
  "csr_Idle x r l =
     (let v = (cv l)\<lparr>c_progbuf_end := False, c_progbuf_err := False\<rparr>; ty = y_req_type x; a = y_req_addr x
      in if \<not> y_req_valid x then l\<lparr>cv := v\<rparr>
         else let v = v\<lparr>c_cmd_type := ty, c_cmd_addr := a, c_cmd_data := y_req_data x, c_cmd_exception := False\<rparr>
           in if bit ty CReq_ExceptionBit then
                l\<lparr>cv := v\<lparr>c_state := CState_Exception,
                  c_cmd_addr := (if a = 8 then a + ucast (c_mode r) else a)\<rparr>\<rparr>
              else if bit ty CReq_BreakpointBit then l\<lparr>cv := v\<lparr>c_state := CState_Breakpoint\<rparr>\<rparr>
              else if bit ty CReq_HaltBit then l\<lparr>cv := v\<lparr>c_state := CState_Halt\<rparr>\<rparr>
              else if bit ty CReq_ResumeBit then l\<lparr>cv := v\<lparr>c_state := CState_Resume\<rparr>\<rparr>
              else if bit ty CReq_InterruptBit then l\<lparr>cv := v\<lparr>c_state := CState_Interrupt\<rparr>\<rparr>
              else if bit ty CReq_TrapReturnBit then l\<lparr>cv := v\<lparr>c_state := CState_TrapReturn\<rparr>\<rparr>
              else if bit ty CReq_WfiBit then l\<lparr>cv := v\<lparr>c_state := CState_Wfi\<rparr>\<rparr>
              else if bit ty CReq_FenceBit then csr_fence_req x r (l\<lparr>cv := v\<rparr>)
              else l\<lparr>cv := v\<lparr>c_state := CState_RW\<rparr>\<rparr>)"

text \<open>The other states; all of them but the waiting ones go to Response.\<close>

definition csr_Exception :: "csr_in \<Rightarrow> csr_regs \<Rightarrow> csr_loc \<Rightarrow> csr_loc" where
  "csr_Exception x r l =
     (let cause = rng (c_cmd_addr r) 4 0 :: 5 word; v = (cv l)\<lparr>c_state := CState_Response, c_cmd_data := xtvec_off_edeleg r\<rparr>
      in l\<lparr>vb_e_emux := setf (unat cause) 1 1 (vb_e_emux l), vb_xtval := c_cmd_data r, wb_trap_cause := cause,
           cv := (if y_dbg_progbuf_ena x
                  then v\<lparr>c_progbuf_err := True, c_progbuf_end := True, c_cmd_exception := True\<rparr> else v)\<rparr>)"

definition csr_Breakpoint :: "csr_in \<Rightarrow> csr_regs \<Rightarrow> csr_loc \<Rightarrow> csr_loc" where
  "csr_Breakpoint x r l =
     (let v = (cv l)\<lparr>c_state := CState_Response\<rparr>
      in if y_dbg_progbuf_ena x then l\<lparr>cv := v\<lparr>c_progbuf_end := True, c_cmd_data := NOT 0\<rparr>\<rparr>
         else if c_dcsr_ebreakm r then
           l\<lparr>cv := v\<lparr>c_halt_cause := 1, c_dpc := c_cmd_data r, c_cmd_data := NOT 0\<rparr>\<rparr>
         else l\<lparr>vb_e_emux := setf 3 1 1 (vb_e_emux l), wb_trap_cause := rng (c_cmd_addr r) 4 0,
                vb_xtval := y_e_pc x, cv := v\<lparr>c_cmd_data := xtvec_off_edeleg r\<rparr>\<rparr>)"

definition csr_Halt :: "csr_in \<Rightarrow> csr_regs \<Rightarrow> csr_loc \<Rightarrow> csr_loc" where
  "csr_Halt x r l = l\<lparr>cv := (cv l)\<lparr>c_state := CState_Response, c_halt_cause := rng (c_cmd_addr r) 2 0, c_dpc := y_e_pc x\<rparr>\<rparr>"

definition csr_Resume :: "csr_in \<Rightarrow> csr_regs \<Rightarrow> csr_loc \<Rightarrow> csr_loc" where
  "csr_Resume x r l = l\<lparr>cv := (cv l)\<lparr>c_state := CState_Response,
     c_cmd_data := (if y_dbg_progbuf_ena x then 0 else c_dpc r)\<rparr>\<rparr>"

definition csr_Interrupt :: "csr_regs \<Rightarrow> csr_loc \<Rightarrow> csr_loc" where
  "csr_Interrupt r l =
     (let cause = rng (c_cmd_addr r) 4 0 :: 5 word
      in l\<lparr>vb_e_imux := setf (unat (rng (c_cmd_addr r) 3 0 :: 4 word)) 1 1 (vb_e_imux l), wb_trap_cause := cause,
           cv := (cv l)\<lparr>c_state := CState_Response,
             c_cmd_data := (if xtvec_mode (c_xmode r (c_mode r)) = 1
               then xtvec_off_ideleg r + push_bit 2 (ucast cause) else xtvec_off_ideleg r)\<rparr>\<rparr>)"

definition csr_TrapReturn :: "csr_regs \<Rightarrow> csr_loc \<Rightarrow> csr_loc" where
  "csr_TrapReturn r l = l\<lparr>v_csr_trapreturn := True,
     cv := (cv l)\<lparr>c_state := CState_Response, c_cmd_data := xepc (c_xmode r (c_mode r))\<rparr>\<rparr>"

definition csr_RW :: "csr_regs \<Rightarrow> csr_loc \<Rightarrow> csr_loc" where
  "csr_RW r l =
     (let v = (cv l)\<lparr>c_state := CState_Response\<rparr>
      in if c_mode r < rng (c_cmd_addr r) 9 8 then l\<lparr>cv := v\<lparr>c_cmd_exception := True\<rparr>\<rparr>
         else l\<lparr>v_csr_rena := bit (c_cmd_type r) CReq_ReadBit, v_csr_wena := bit (c_cmd_type r) CReq_WriteBit,
                cv := (if (rng (c_cmd_addr r) 11 4 :: u8) = 0x3A then v\<lparr>c_state := CState_WaitPmp\<rparr> else v)\<rparr>)"

definition csr_Wfi :: "csr_loc \<Rightarrow> csr_loc" where
  "csr_Wfi l = l\<lparr>cv := (cv l)\<lparr>c_state := CState_Response, c_cmd_data := 0\<rparr>\<rparr>"

definition csr_Fence :: "csr_regs \<Rightarrow> csr_loc \<Rightarrow> csr_loc" where
  "csr_Fence r l =
     (if c_fencestate r = Fence_End
      then l\<lparr>cv := (cv l)\<lparr>c_state := CState_Response, c_cmd_data := 0, c_fencestate := Fence_None\<rparr>\<rparr> else l)"

definition csr_WaitPmp :: "csr_regs \<Rightarrow> csr_loc \<Rightarrow> csr_loc" where
  "csr_WaitPmp r l = (if c_pmp_upd_ena r = 0 then l\<lparr>cv := (cv l)\<lparr>c_state := CState_Response\<rparr>\<rparr> else l)"

definition csr_Response :: "csr_in \<Rightarrow> csr_loc \<Rightarrow> csr_loc" where
  "csr_Response x l = (if y_resp_ready x then l\<lparr>cv := (cv l)\<lparr>c_state := CState_Idle\<rparr>\<rparr> else l)"

definition csr_switch :: "csr_in \<Rightarrow> csr_regs \<Rightarrow> csr_loc \<Rightarrow> csr_loc" where
  "csr_switch x r l =
     (let st = c_state r
      in if st = CState_Idle then csr_Idle x r l
         else if st = CState_Exception then csr_Exception x r l
         else if st = CState_Breakpoint then csr_Breakpoint x r l
         else if st = CState_Halt then csr_Halt x r l
         else if st = CState_Resume then csr_Resume x r l
         else if st = CState_Interrupt then csr_Interrupt r l
         else if st = CState_TrapReturn then csr_TrapReturn r l
         else if st = CState_RW then csr_RW r l
         else if st = CState_Wfi then csr_Wfi l
         else if st = CState_Fence then csr_Fence r l
         else if st = CState_WaitPmp then csr_WaitPmp r l
         else if st = CState_Response then csr_Response x l
         else l)"

text \<open>Flushing the caches.\<close>

definition csr_fences :: "csr_in \<Rightarrow> csr_regs \<Rightarrow> csr_loc \<Rightarrow> csr_loc" where
  "csr_fences x r l =
     (let go = (\<lambda>b f l. if b then l\<lparr>cv := (cv l)\<lparr>c_fencestate := f\<rparr>\<rparr> else l); f = c_fencestate r
      in if f = Fence_DataBarrier then go (y_m_idle x) Fence_End l
         else if f = Fence_DataFlush then go (y_m_memop_ready x) Fence_WaitDataFlushEnd (l\<lparr>v_flushd := True\<rparr>)
         else if f = Fence_WaitDataFlushEnd then go (y_flushd_end x) Fence_FlushInstr l
         else if f = Fence_FlushInstr then go (y_f_flush_ready x) Fence_End (l\<lparr>v_flushi := True\<rparr>)
         else if f = Fence_End then l\<lparr>v_flushpipeline := True\<rparr>
         else l)"


subsection \<open>The registers\<close>

text \<open>
  The values that a read gives and what a write does, register by register.  Bits without an
  implementation read 0.
\<close>

abbreviation (input) modeM :: "csr_regs \<Rightarrow> regmode" where "modeM r \<equiv> c_xmode r PRV_M"
abbreviation (input) modeS :: "csr_regs \<Rightarrow> regmode" where "modeS r \<equiv> c_xmode r PRV_S"

definition counter_denied :: "csr_regs \<Rightarrow> nat \<Rightarrow> bool" where
  "counter_denied r n \<longleftrightarrow>
     c_mode r = PRV_U \<and> (\<not> bit (xcounteren (modeM r)) n \<or> \<not> bit (xcounteren (modeS r)) n)
     \<or> c_mode r = PRV_S \<and> \<not> bit (xcounteren (modeM r)) n"

definition fcsr_rdata :: "csr_regs \<Rightarrow> u64" where
  "fcsr_rdata r = setf 5 3 4 (ucast (c_ex_fpu r))"

definition sstatus_rdata :: "csr_regs \<Rightarrow> u64" where
  "sstatus_rdata r =
     bool_at 1 (xie (modeS r)) (bool_at 5 (xpie (modeS r)) (bool_at 8 (bit (xpp (modeS r)) 0)
       (setf 13 2 1 (setf 32 2 2 0))))"

definition sstatus_write :: "u64 \<Rightarrow> csr_regs \<Rightarrow> csr_regs" where
  "sstatus_write d = upd_mode PRV_S (\<lambda>m. m\<lparr>xie := bit d 1, xpie := bit d 5, xpp := of_bool (bit d 8)\<rparr>)"

definition sie_rdata :: "csr_regs \<Rightarrow> u64" where
  "sie_rdata r =
     bool_at (IRQ_SSIP - 1) (xsie (modeS r)) (bool_at (IRQ_STIP - 1) (xtie (modeS r))
       (bool_at (IRQ_SEIP - 1) (xeie (modeS r)) 0))"

definition sie_write :: "u64 \<Rightarrow> csr_regs \<Rightarrow> csr_regs" where
  "sie_write d = upd_mode PRV_S (\<lambda>m. m\<lparr>xsie := bit d IRQ_SSIP, xtie := bit d IRQ_STIP, xeie := bit d IRQ_SEIP\<rparr>)"

definition xtvec_rdata :: "2 word \<Rightarrow> csr_regs \<Rightarrow> u64" where
  "xtvec_rdata p r = setf 0 2 (ucast (xtvec_mode (c_xmode r p))) (xtvec_off (c_xmode r p))"

definition xtvec_write :: "2 word \<Rightarrow> u64 \<Rightarrow> csr_regs \<Rightarrow> csr_regs" where
  "xtvec_write p d = upd_mode p (\<lambda>m. m\<lparr>xtvec_off := push_bit 2 (rng d 63 2), xtvec_mode := rng d 1 0\<rparr>)"

definition xcounteren_write :: "2 word \<Rightarrow> u64 \<Rightarrow> csr_regs \<Rightarrow> csr_regs" where
  "xcounteren_write p d = upd_mode p (\<lambda>m. m\<lparr>xcounteren := rng d 15 0\<rparr>)"

definition xcause_rdata :: "2 word \<Rightarrow> csr_regs \<Rightarrow> u64" where
  "xcause_rdata p r = bool_at 63 (xcause_irq (c_xmode r p)) (setf 0 5 (ucast (xcause_code (c_xmode r p))) 0)"

definition xip_write :: "u64 \<Rightarrow> csr_regs \<Rightarrow> csr_regs" where
  "xip_write d v = v\<lparr>c_mip_ssip := bit d IRQ_SSIP, c_mip_stip := bit d IRQ_STIP, c_mip_seip := bit d IRQ_SEIP\<rparr>"

definition satp_rdata :: "csr_regs \<Rightarrow> u64" where
  "satp_rdata r =
     (let d = setf 0 44 (ucast (c_satp_ppn r)) 0
      in if c_satp_sv39 r then setf 60 4 (ucast SATP_MODE_SV39) d
         else if c_satp_sv48 r then setf 60 4 (ucast SATP_MODE_SV48) d else d)"

definition satp_write :: "u64 \<Rightarrow> csr_regs \<Rightarrow> csr_regs" where
  "satp_write d v = v\<lparr>c_satp_ppn := rng d 43 0, c_satp_sv39 := (rng d 63 60 = SATP_MODE_SV39),
     c_satp_sv48 := (rng d 63 60 = SATP_MODE_SV48)\<rparr>"

definition mstatus_rdata :: "csr_regs \<Rightarrow> u64" where
  "mstatus_rdata r =
     bool_at 1 (xie (modeS r)) (bool_at 3 (xie (modeM r)) (bool_at 5 (xpie (modeS r))
       (bool_at 7 (xpie (modeM r)) (bool_at 8 (bit (xpp (modeS r)) 0)
         (setf 11 2 (ucast (xpp (modeM r))) (setf 13 2 1 (bool_at 17 (c_mprv r) (bool_at 18 (c_sum r)
           (bool_at 19 (c_mxr r) (bool_at 20 (c_tvm r) (setf 32 2 2 (setf 34 2 2 0))))))))))))"

definition mstatus_write :: "u64 \<Rightarrow> csr_regs \<Rightarrow> csr_regs" where
  "mstatus_write d v =
     (upd_mode PRV_M (\<lambda>m. m\<lparr>xie := bit d 3, xpie := bit d 7, xpp := rng d 12 11\<rparr>) (sstatus_write d v))
       \<lparr>c_mprv := bit d 17, c_sum := bit d 18, c_mxr := bit d 19, c_tvm := bit d 20\<rparr>"

definition misa_rdata :: u64 where
  "misa_rdata = setf 62 2 2 (bool_at 0 True (bool_at 8 True (bool_at 12 True (bool_at 18 True
     (bool_at 20 True (bool_at 2 True (bool_at 3 True 0)))))))"

definition mie_rdata :: "csr_regs \<Rightarrow> u64" where
  "mie_rdata r =
     bool_at (IRQ_MSIP - 1) (xsie (modeM r)) (bool_at (IRQ_MTIP - 1) (xtie (modeM r))
       (bool_at (IRQ_MEIP - 1) (xeie (modeM r)) (sie_rdata r)))"

definition mie_write :: "u64 \<Rightarrow> csr_regs \<Rightarrow> csr_regs" where
  "mie_write d v =
     upd_mode PRV_M (\<lambda>m. m\<lparr>xsie := bit d IRQ_MSIP, xtie := bit d IRQ_MTIP, xeie := bit d IRQ_MEIP\<rparr>) (sie_write d v)"

definition dcsr_rdata :: "csr_regs \<Rightarrow> u64" where
  "dcsr_rdata r =
     setf 28 4 4 (bool_at 15 (c_dcsr_ebreakm r) (bool_at 11 (c_dcsr_stepie r) (bool_at 10 (c_dcsr_stopcount r)
       (bool_at 9 (c_dcsr_stoptimer r) (setf 6 3 (ucast (c_halt_cause r)) (bool_at 2 (c_dcsr_step r)
         (setf 0 2 3 0)))))))"

definition dcsr_write :: "u64 \<Rightarrow> csr_regs \<Rightarrow> csr_regs" where
  "dcsr_write d v = v\<lparr>c_dcsr_ebreakm := bit d 15, c_dcsr_stepie := bit d 11, c_dcsr_stopcount := bit d 10,
     c_dcsr_stoptimer := bit d 9, c_dcsr_step := bit d 2\<rparr>"

text \<open>Physical memory protection: eight configurations in \<open>pmpcfg0\<close>, the address registers.\<close>

definition pmpcfg_entry :: "nat \<Rightarrow> u64 \<Rightarrow> csr_loc \<Rightarrow> csr_regs \<Rightarrow> csr_loc" where
  "pmpcfg_entry i d l r =
     (let p = c_pmp r i; l = l\<lparr>vb_rdata := setf (8 * i) 8 (ucast (pmp_cfg p)) (vb_rdata l)\<rparr>
      in if v_csr_wena l \<and> \<not> bit (pmp_cfg p) 7
         then l\<lparr>cv := (cv l)\<lparr>c_pmp := (c_pmp (cv l))(i := (c_pmp (cv l) i)\<lparr>pmp_cfg := rng d (8 * i + 7) (8 * i)\<rparr>)\<rparr>,
                vb_pmp_upd_ena := setf i 1 1 (vb_pmp_upd_ena l)\<rparr>
         else l)"

definition pmpcfg_access :: "csr_regs \<Rightarrow> csr_loc \<Rightarrow> csr_loc" where
  "pmpcfg_access r l = fold (\<lambda>i l. pmpcfg_entry i (c_cmd_data r) l r) [0..<8] l"

definition napot_mask :: "u64 \<Rightarrow> u64" where
  "napot_mask d =
     fst (fold (\<lambda>i (m, shift). if bit d i \<and> \<not> shift then (push_bit 1 m OR 1, shift) else (m, True))
       [0..<62] (7, False))"

definition pmpaddr_access :: "csr_regs \<Rightarrow> csr_loc \<Rightarrow> csr_loc" where
  "pmpaddr_access r l =
     (let i = unat (c_cmd_addr r) - 0x3B0; p = c_pmp r i; d = c_cmd_data r;
          l' = l\<lparr>vb_rdata := take_bit 62 (pmp_addr p)\<rparr>
      in if i < CFG_PMP_TBL_SIZE then
           (if v_csr_wena l \<and> \<not> bit (pmp_cfg p) 7
            then l'\<lparr>cv := (cv l)\<lparr>c_pmp := (c_pmp (cv l))(i := (c_pmp (cv l) i)
                     \<lparr>pmp_addr := push_bit 2 (take_bit 62 d), pmp_mask := napot_mask d\<rparr>)\<rparr>\<rparr>
            else l')
         else l)"

text \<open>What an address stands for: nothing, a value, a value and a write, an error, the protection table.\<close>

datatype csr_entry =
    CNone
  | CRead u64
  | CReadWrite u64 "csr_regs \<Rightarrow> csr_regs"
  | CFail
  | CPmpcfg
  | CPmpaddr

text \<open>
  The chain of comparisons with the address, in the order of the source.  It looks at the stored
  address in every state of the module; only reads and writes depend on the request.
\<close>

definition csr_lookup :: "u64 \<Rightarrow> csr_in \<Rightarrow> csr_regs \<Rightarrow> csr_entry" where
  "csr_lookup hartid x r =
     (let a = c_cmd_addr r; d = c_cmd_data r
      in if a = 0x000 \<or> a = 0x004 \<or> a = 0x005 \<or> a = 0x040 then CNone
         else if a = 0x041 then CReadWrite (xepc (c_xmode r PRV_U)) (upd_mode PRV_U (\<lambda>m. m\<lparr>xepc := d\<rparr>))
         else if a = 0x042 \<or> a = 0x043 \<or> a = 0x044 then CNone
         else if a = 0x001 then CRead (ucast (c_ex_fpu r))
         else if a = 0x002 then CRead 4
         else if a = 0x003 then CRead (fcsr_rdata r)
         else if a = 0xC00 then (if counter_denied r 0 then CFail else CRead (c_mcycle_cnt r))
         else if a = 0xC01 then (if counter_denied r 1 then CFail else CRead (y_mtimer x))
         else if a = 0xC03 then (if counter_denied r 2 then CFail else CRead (c_minstret_cnt r))
         else if a = 0x100 then CReadWrite (sstatus_rdata r) (sstatus_write d)
         else if a = 0x104 then CReadWrite (sie_rdata r) (sie_write d)
         else if a = 0x105 then CReadWrite (xtvec_rdata PRV_S r) (xtvec_write PRV_S d)
         else if a = 0x106 then CReadWrite (ucast (xcounteren (modeS r))) (xcounteren_write PRV_S d)
         else if a = 0x10A then CNone
         else if a = 0x140 then CReadWrite (xscratch (modeS r)) (upd_mode PRV_S (\<lambda>m. m\<lparr>xscratch := d\<rparr>))
         else if a = 0x141 then CReadWrite (xepc (modeS r)) (upd_mode PRV_S (\<lambda>m. m\<lparr>xepc := d\<rparr>))
         else if a = 0x142 then CRead (xcause_rdata PRV_S r)
         else if a = 0x143 then CReadWrite (xtval (modeS r)) (upd_mode PRV_S (\<lambda>m. m\<lparr>xtval := d\<rparr>))
         else if a = 0x144 then CReadWrite (ucast (c_irq_pending r AND 0x222)) (xip_write d)
         else if a = 0x180 then
           (if c_tvm r \<and> c_mode r = PRV_S then CFail else CReadWrite (satp_rdata r) (satp_write d))
         else if a = 0x5A8 then CNone
         else if a = 0xF11 then CRead CFG_VENDOR_ID
         else if a = 0xF12 then CNone
         else if a = 0xF13 then CRead CFG_IMPLEMENTATION_ID
         else if a = 0xF14 then CRead hartid
         else if a = 0xF15 then CNone
         else if a = 0x300 then CReadWrite (mstatus_rdata r) (mstatus_write d)
         else if a = 0x301 then CRead misa_rdata
         else if a = 0x302 then CReadWrite (c_medeleg r) (\<lambda>v. v\<lparr>c_medeleg := d AND 0xB3FF\<rparr>)
         else if a = 0x303 then CReadWrite (ucast (c_mideleg r)) (\<lambda>v. v\<lparr>c_mideleg := rng d 15 0 AND 0x222\<rparr>)
         else if a = 0x304 then CReadWrite (mie_rdata r) (mie_write d)
         else if a = 0x305 then CReadWrite (xtvec_rdata PRV_M r) (xtvec_write PRV_M d)
         else if a = 0x306 then CReadWrite (ucast (xcounteren (modeM r))) (xcounteren_write PRV_M d)
         else if a = 0x340 then CReadWrite (xscratch (modeM r)) (upd_mode PRV_M (\<lambda>m. m\<lparr>xscratch := d\<rparr>))
         else if a = 0x341 then CReadWrite (xepc (modeM r)) (upd_mode PRV_M (\<lambda>m. m\<lparr>xepc := d\<rparr>))
         else if a = 0x342 then CRead (xcause_rdata PRV_M r)
         else if a = 0x343 then CReadWrite (xtval (modeM r)) (upd_mode PRV_M (\<lambda>m. m\<lparr>xtval := d\<rparr>))
         else if a = 0x344 then CReadWrite (ucast (c_irq_pending r)) (xip_write d)
         else if a = 0x34A \<or> a = 0x34B \<or> a = 0x30A \<or> a = 0x747 then CNone
         else if (rng a 11 4 :: u8) = 0x3A then
           (if bit a 0 then CFail
            else if 8 * unat (rng a 3 1 :: 3 word) < CFG_PMP_TBL_SIZE then CPmpcfg else CNone)
         else if 0x3B0 \<le> a \<and> a \<le> 0x3EF then CPmpaddr
         else if a \<le> 0x3EF then CNone
         else if a = 0xB00 then CReadWrite (c_mcycle_cnt r) (\<lambda>v. v\<lparr>c_mcycle_cnt := d\<rparr>)
         else if a = 0xB02 then CReadWrite (c_minstret_cnt r) (\<lambda>v. v\<lparr>c_minstret_cnt := d\<rparr>)
         else if a = 0x320 then CReadWrite (ucast (c_mcountinhibit r)) (\<lambda>v. v\<lparr>c_mcountinhibit := rng d 15 0\<rparr>)
         else if a = 0x323 \<or> a = 0x324 \<or> a = 0x33F \<or> a = 0x7A0 \<or> a = 0x7A1 \<or> a = 0x7A2 \<or> a = 0x7A3 \<or> a = 0x7A8 then CNone
         else if a = 0x7B0 then CReadWrite (dcsr_rdata r) (dcsr_write d)
         else if a = 0x7B1 then
           CReadWrite (if y_e_halted x then c_dpc r else y_e_pc x) (\<lambda>v. v\<lparr>c_dpc := d\<rparr>)
         else if a = 0x7B2 then CReadWrite (c_dscratch0 r) (\<lambda>v. v\<lparr>c_dscratch0 := d\<rparr>)
         else if a = 0x7B3 then CReadWrite (c_dscratch1 r) (\<lambda>v. v\<lparr>c_dscratch1 := d\<rparr>)
         else if a = 0xBC0 then CReadWrite (c_mstackovr r) (\<lambda>v. v\<lparr>c_mstackovr := d\<rparr>)
         else if a = 0xBC1 then CReadWrite (c_mstackund r) (\<lambda>v. v\<lparr>c_mstackund := d\<rparr>)
         else if c_state r = CState_RW then CFail
         else CNone)"

definition csr_access :: "u64 \<Rightarrow> csr_in \<Rightarrow> csr_regs \<Rightarrow> csr_loc \<Rightarrow> csr_loc" where
  "csr_access hartid x r l =
     (case csr_lookup hartid x r of
        CNone \<Rightarrow> l
      | CRead rd \<Rightarrow> l\<lparr>vb_rdata := rd\<rparr>
      | CReadWrite rd wr \<Rightarrow> l\<lparr>vb_rdata := rd, cv := (if v_csr_wena l then wr (cv l) else cv l)\<rparr>
      | CFail \<Rightarrow> l\<lparr>cv := (cv l)\<lparr>c_cmd_exception := True\<rparr>\<rparr>
      | CPmpcfg \<Rightarrow> pmpcfg_access r l
      | CPmpaddr \<Rightarrow> pmpaddr_access r l)"

subsection \<open>The end of the process\<close>

definition csr_read :: "csr_loc \<Rightarrow> csr_loc" where
  "csr_read l = (if v_csr_rena l then l\<lparr>cv := (cv l)\<lparr>c_cmd_data := vb_rdata l\<rparr>\<rparr> else l)"

text \<open>The return from a trap; the address of the request is the level of the xRET instruction.\<close>

definition csr_return :: "csr_regs \<Rightarrow> csr_loc \<Rightarrow> csr_loc" where
  "csr_return r l =
     (if v_csr_trapreturn l then
        (let m = c_mode r; v = cv l;
             v = (if ucast m = c_cmd_addr r
                  then upd_mode m (\<lambda>x. x\<lparr>xpie := True, xpp := PRV_U\<rparr>) (v\<lparr>c_mode := xpp (c_xmode r m)\<rparr>)
                  else v\<lparr>c_cmd_exception := True\<rparr>)
         in l\<lparr>cv := (if xpp (c_xmode r m) \<noteq> PRV_M then v\<lparr>c_mprv := False\<rparr> else v)\<rparr>)
      else l)"

definition csr_mmu :: "csr_regs \<Rightarrow> csr_loc \<Rightarrow> csr_loc" where
  "csr_mmu r l =
     (let l = l\<lparr>cv := (cv l)\<lparr>c_mmu_ena := False\<rparr>\<rparr>
      in if c_satp_sv39 r \<or> c_satp_sv48 r then
           (if \<not> bit (c_mode r) 1 \<or> c_mprv r \<and> \<not> bit (xpp (c_xmode r (c_mode r))) 1
            then l\<lparr>cv := (cv l)\<lparr>c_mmu_ena := True\<rparr>, v_flushpipeline := \<not> c_mmu_ena r\<rparr> else l)
         else l)"

text \<open>Trap entry in mode \<open>p\<close>.\<close>

definition xtrap :: "2 word \<Rightarrow> csr_in \<Rightarrow> csr_regs \<Rightarrow> csr_loc \<Rightarrow> csr_regs \<Rightarrow> csr_regs" where
  "xtrap p x r l v =
     (upd_mode p (\<lambda>m. m\<lparr>xpp := c_mode r, xpie := xie (c_xmode r (c_mode r)), xie := False, xepc := y_e_pc x,
        xtval := vb_xtval l, xcause_code := wb_trap_cause l, xcause_irq := (vb_e_emux l = 0)\<rparr>) v)\<lparr>c_mode := p\<rparr>"

definition csr_trap :: "csr_in \<Rightarrow> csr_regs \<Rightarrow> csr_loc \<Rightarrow> csr_loc" where
  "csr_trap x r l =
     (if c_mode r \<le> PRV_S \<and> (vb_e_emux l AND c_medeleg r \<noteq> 0 \<or> vb_e_imux l AND c_mideleg r \<noteq> 0)
      then l\<lparr>cv := xtrap PRV_S x r l (cv l)\<rparr>
      else if vb_e_emux l \<noteq> 0 \<or> vb_e_imux l \<noteq> 0
      then l\<lparr>cv := (xtrap PRV_M x r l (cv l))\<lparr>c_mmu_ena := False\<rparr>\<rparr>
      else l)"

text \<open>Which interrupts the pending register offers (\<open>o_irq_pending\<close>) and takes over.\<close>

definition irq_enabled :: "csr_regs \<Rightarrow> 16 word" where
  "irq_enabled r =
     (let e = (if \<not> c_dcsr_step r \<or> c_dcsr_stepie r then (if xie (modeM r) then NOT (c_mideleg r) else 0) else 0)
      in if \<not> c_dcsr_step r \<or> c_dcsr_stepie r then (if xie (modeS r) then e OR c_mideleg r else e) else e)"

definition pending_bits :: "csr_in \<Rightarrow> csr_regs \<Rightarrow> 16 word" where
  "pending_bits x r =
     (let i = y_irq_pending x; at = (\<lambda>n b w. setf n 1 (of_bool b) w)
      in at IRQ_SEIP ((bit i IRQ_SEIP \<or> c_mip_seip r) \<and> xeie (modeS r))
        (at IRQ_STIP ((bit i IRQ_STIP \<or> c_mip_stip r) \<and> xtie (modeS r))
        (at IRQ_SSIP ((bit i IRQ_SSIP \<or> c_mip_ssip r) \<and> xsie (modeS r))
        (at IRQ_MEIP (bit i IRQ_MEIP \<and> xeie (modeM r))
        (at IRQ_MTIP (bit i IRQ_MTIP \<and> xtie (modeM r))
        (at IRQ_MSIP (bit i IRQ_MSIP \<and> xsie (modeM r)) 0))))))"

text \<open>One entry of the protection table per cycle goes to the PMP module.\<close>

definition pmp_range :: "pmp_item \<Rightarrow> u64 \<Rightarrow> u64 \<times> u64 \<times> 5 word" where
  "pmp_range p prev_end =
     (let A = rng (pmp_cfg p) 4 3 :: 2 word; flags = setf 4 1 1 (setf 3 1 (of_bool (bit (pmp_cfg p) 7)) (rng (pmp_cfg p) 2 0))
      in if A = 0 then (0, pmp_addr p, 0)
         else if A = 1 then (if bit prev_end 0 then prev_end + 1 else prev_end, pmp_addr p - 1, flags)
         else if A = 2 then (pmp_addr p, pmp_addr p OR 3, flags)
         else (pmp_addr p AND NOT (pmp_mask p), pmp_addr p OR pmp_mask p, flags))"

definition csr_pmp :: "csr_regs \<Rightarrow> csr_loc \<Rightarrow> csr_loc" where
  "csr_pmp r l =
     (let n = c_pmp_upd_cnt r; v = cv l; ena = vb_pmp_upd_ena l;
          ena' = (if c_pmp_upd_ena r \<noteq> 0 then setf (unat n) 1 0 ena else ena);
          v = (if c_pmp_upd_ena r \<noteq> 0 then
                 (case pmp_range (c_pmp r (unat n)) (c_pmp_end_addr r) of (sa, ea, fl) \<Rightarrow>
                    v\<lparr>c_pmp_upd_cnt := n + 1, c_pmp_we := bit (c_pmp_upd_ena r) (unat n), c_pmp_region := n,
                      c_pmp_start_addr := sa, c_pmp_end_addr := ea, c_pmp_flags := fl\<rparr>)
               else v\<lparr>c_pmp_upd_cnt := 0, c_pmp_start_addr := 0, c_pmp_end_addr := 0, c_pmp_flags := 0, c_pmp_we := False\<rparr>)
      in l\<lparr>vb_pmp_upd_ena := ena', cv := v\<lparr>c_pmp_upd_ena := ena', c_pmp_ena := (\<not> bit (c_mode r) 1 \<or> c_mprv r)\<rparr>\<rparr>)"

definition stack_over :: "csr_in \<Rightarrow> csr_regs \<Rightarrow> bool" where
  "stack_over x r \<longleftrightarrow> c_mstackovr r \<noteq> 0 \<and> y_sp x < c_mstackovr r"

definition stack_under :: "csr_in \<Rightarrow> csr_regs \<Rightarrow> bool" where
  "stack_under x r \<longleftrightarrow> c_mstackund r \<noteq> 0 \<and> y_sp x > c_mstackund r"

definition csr_stack :: "csr_in \<Rightarrow> csr_regs \<Rightarrow> csr_regs \<Rightarrow> csr_regs" where
  "csr_stack x r v =
     (let v = (if stack_over x r then v\<lparr>c_mstackovr := 0\<rparr> else v)
      in if stack_under x r then v\<lparr>c_mstackund := 0\<rparr> else v)"

definition csr_count :: "csr_in \<Rightarrow> csr_regs \<Rightarrow> csr_regs \<Rightarrow> csr_regs" where
  "csr_count x r v =
     (let v = (if \<not> y_e_halted x \<and> \<not> c_dcsr_stopcount r \<and> \<not> bit (c_mcountinhibit r) 0
               then v\<lparr>c_mcycle_cnt := c_mcycle_cnt r + 1\<rparr> else v)
      in if y_e_valid x \<and> \<not> c_dcsr_stopcount r \<and> \<not> y_dbg_progbuf_ena x \<and> \<not> bit (c_mcountinhibit r) 2
         then v\<lparr>c_minstret_cnt := c_minstret_cnt r + 1\<rparr> else v)"

definition csr_body :: "u64 \<Rightarrow> csr_in \<Rightarrow> csr_regs \<Rightarrow> csr_loc" where
  "csr_body hartid x r =
     (let l = csr_start r;
          l = csr_switch x r l;
          l = csr_fences x r l;
          l = csr_access hartid x r l;
          l = csr_read l;
          l = csr_return r l;
          l = csr_mmu r l
      in csr_trap x r l)"

definition csr_comb :: "u64 \<Rightarrow> csr_in \<Rightarrow> csr_regs \<Rightarrow> csr_loc" where
  "csr_comb hartid x r =
     (let l = csr_body hartid x r;
          l = l\<lparr>cv := (cv l)\<lparr>c_irq_pending := pending_bits x r\<rparr>\<rparr>;
          l = csr_pmp r l
      in l\<lparr>cv := csr_count x r (csr_stack x r (cv l))\<rparr>)"

definition CsrRegs_registers :: "bool \<Rightarrow> u64 \<Rightarrow> bool \<Rightarrow> csr_in \<Rightarrow> csr_regs \<Rightarrow> csr_regs" where
  "CsrRegs_registers ar hartid nrst x r =
     clock_edge ar nrst CsrRegs_r_reset (sync_reset ar nrst CsrRegs_r_reset (cv (csr_comb hartid x r)))"

text \<open>The outputs that the properties look at.\<close>

definition CsrRegs_o_req_ready :: "csr_regs \<Rightarrow> bool" where
  "CsrRegs_o_req_ready r \<longleftrightarrow> c_state r = CState_Idle"

definition CsrRegs_o_resp_valid :: "csr_regs \<Rightarrow> bool" where
  "CsrRegs_o_resp_valid r \<longleftrightarrow> c_state r = CState_Response"

definition CsrRegs_o_irq_pending :: "csr_regs \<Rightarrow> 16 word" where
  "CsrRegs_o_irq_pending r = c_irq_pending r AND irq_enabled r"

definition CsrRegs_o_wakeup :: "csr_regs \<Rightarrow> bool" where
  "CsrRegs_o_wakeup r \<longleftrightarrow> c_irq_pending r \<noteq> 0"

definition CsrRegs_o_flushpipeline_valid :: "u64 \<Rightarrow> csr_in \<Rightarrow> csr_regs \<Rightarrow> bool" where
  "CsrRegs_o_flushpipeline_valid hartid x r = v_flushpipeline (csr_comb hartid x r)"

definition CsrRegs_o_stack_overflow :: "csr_in \<Rightarrow> csr_regs \<Rightarrow> bool" where
  "CsrRegs_o_stack_overflow x r = stack_over x r"

end
