(* ===== verification/Rtl_CsrFacts.thy ===== *)
theory Rtl_CsrFacts
  imports Rtl_Csr
begin

section \<open>Requests to the CSR module\<close>

text \<open>
  One clock of \<open>CsrRegs\<close> without reset is \<open>cv (csr_comb h x r)\<close>.  The lemmas reduce it to the
  state machine, and a request to its answer; the properties are about whole requests.
\<close>

abbreviation (input) csr_clock :: "u64 \<Rightarrow> csr_in \<Rightarrow> csr_regs \<Rightarrow> csr_regs" where
  "csr_clock h x r \<equiv> CsrRegs_registers False h True x r"

lemma csr_clock_comb: "CsrRegs_registers ar h True x r = cv (csr_comb h x r)"
  by (simp add: CsrRegs_registers_def)

subsection \<open>Fields that the end of the process leaves alone\<close>

lemma csr_count_keeps [simp]:
  "c_xmode (csr_count x r v) = c_xmode v" "c_pmp (csr_count x r v) = c_pmp v" "c_state (csr_count x r v) = c_state v"
  "c_fencestate (csr_count x r v) = c_fencestate v" "c_cmd_type (csr_count x r v) = c_cmd_type v"
  "c_cmd_addr (csr_count x r v) = c_cmd_addr v" "c_cmd_data (csr_count x r v) = c_cmd_data v"
  "c_cmd_exception (csr_count x r v) = c_cmd_exception v" "c_medeleg (csr_count x r v) = c_medeleg v"
  "c_mideleg (csr_count x r v) = c_mideleg v" "c_mode (csr_count x r v) = c_mode v"
  "c_mprv (csr_count x r v) = c_mprv v" "c_mxr (csr_count x r v) = c_mxr v" "c_sum (csr_count x r v) = c_sum v"
  "c_tvm (csr_count x r v) = c_tvm v" "c_satp_ppn (csr_count x r v) = c_satp_ppn v"
  "c_satp_sv39 (csr_count x r v) = c_satp_sv39 v" "c_satp_sv48 (csr_count x r v) = c_satp_sv48 v"
  "c_dscratch0 (csr_count x r v) = c_dscratch0 v" "c_dscratch1 (csr_count x r v) = c_dscratch1 v"
  "c_dpc (csr_count x r v) = c_dpc v" "c_halt_cause (csr_count x r v) = c_halt_cause v"
  "c_pmp_upd_ena (csr_count x r v) = c_pmp_upd_ena v" "c_pmp_upd_cnt (csr_count x r v) = c_pmp_upd_cnt v"
  "c_pmp_we (csr_count x r v) = c_pmp_we v" "c_pmp_region (csr_count x r v) = c_pmp_region v"
  "c_pmp_start_addr (csr_count x r v) = c_pmp_start_addr v" "c_pmp_end_addr (csr_count x r v) = c_pmp_end_addr v"
  "c_pmp_flags (csr_count x r v) = c_pmp_flags v" "c_irq_pending (csr_count x r v) = c_irq_pending v"
  "c_mmu_ena (csr_count x r v) = c_mmu_ena v"
  by (simp_all add: csr_count_def Let_def)

lemma csr_stack_keeps [simp]:
  "c_xmode (csr_stack x r v) = c_xmode v" "c_pmp (csr_stack x r v) = c_pmp v" "c_state (csr_stack x r v) = c_state v"
  "c_fencestate (csr_stack x r v) = c_fencestate v" "c_cmd_type (csr_stack x r v) = c_cmd_type v"
  "c_cmd_addr (csr_stack x r v) = c_cmd_addr v" "c_cmd_data (csr_stack x r v) = c_cmd_data v"
  "c_cmd_exception (csr_stack x r v) = c_cmd_exception v" "c_medeleg (csr_stack x r v) = c_medeleg v"
  "c_mideleg (csr_stack x r v) = c_mideleg v" "c_mode (csr_stack x r v) = c_mode v"
  "c_mprv (csr_stack x r v) = c_mprv v" "c_mxr (csr_stack x r v) = c_mxr v" "c_sum (csr_stack x r v) = c_sum v"
  "c_tvm (csr_stack x r v) = c_tvm v" "c_satp_ppn (csr_stack x r v) = c_satp_ppn v"
  "c_satp_sv39 (csr_stack x r v) = c_satp_sv39 v" "c_satp_sv48 (csr_stack x r v) = c_satp_sv48 v"
  "c_dscratch0 (csr_stack x r v) = c_dscratch0 v" "c_dscratch1 (csr_stack x r v) = c_dscratch1 v"
  "c_dpc (csr_stack x r v) = c_dpc v" "c_halt_cause (csr_stack x r v) = c_halt_cause v"
  "c_pmp_upd_ena (csr_stack x r v) = c_pmp_upd_ena v" "c_pmp_upd_cnt (csr_stack x r v) = c_pmp_upd_cnt v"
  "c_pmp_we (csr_stack x r v) = c_pmp_we v" "c_pmp_region (csr_stack x r v) = c_pmp_region v"
  "c_pmp_start_addr (csr_stack x r v) = c_pmp_start_addr v" "c_pmp_end_addr (csr_stack x r v) = c_pmp_end_addr v"
  "c_pmp_flags (csr_stack x r v) = c_pmp_flags v" "c_irq_pending (csr_stack x r v) = c_irq_pending v"
  "c_mmu_ena (csr_stack x r v) = c_mmu_ena v"
  by (simp_all add: csr_stack_def Let_def)

lemma csr_pmp_keeps [simp]:
  "c_xmode (cv (csr_pmp r l)) = c_xmode (cv l)" "c_pmp (cv (csr_pmp r l)) = c_pmp (cv l)"
  "c_state (cv (csr_pmp r l)) = c_state (cv l)" "c_fencestate (cv (csr_pmp r l)) = c_fencestate (cv l)"
  "c_cmd_type (cv (csr_pmp r l)) = c_cmd_type (cv l)" "c_cmd_addr (cv (csr_pmp r l)) = c_cmd_addr (cv l)"
  "c_cmd_data (cv (csr_pmp r l)) = c_cmd_data (cv l)" "c_cmd_exception (cv (csr_pmp r l)) = c_cmd_exception (cv l)"
  "c_medeleg (cv (csr_pmp r l)) = c_medeleg (cv l)" "c_mideleg (cv (csr_pmp r l)) = c_mideleg (cv l)"
  "c_mode (cv (csr_pmp r l)) = c_mode (cv l)" "c_mprv (cv (csr_pmp r l)) = c_mprv (cv l)"
  "c_mxr (cv (csr_pmp r l)) = c_mxr (cv l)" "c_sum (cv (csr_pmp r l)) = c_sum (cv l)"
  "c_tvm (cv (csr_pmp r l)) = c_tvm (cv l)" "c_satp_ppn (cv (csr_pmp r l)) = c_satp_ppn (cv l)"
  "c_satp_sv39 (cv (csr_pmp r l)) = c_satp_sv39 (cv l)" "c_satp_sv48 (cv (csr_pmp r l)) = c_satp_sv48 (cv l)"
  "c_dscratch0 (cv (csr_pmp r l)) = c_dscratch0 (cv l)" "c_dscratch1 (cv (csr_pmp r l)) = c_dscratch1 (cv l)"
  "c_dpc (cv (csr_pmp r l)) = c_dpc (cv l)" "c_halt_cause (cv (csr_pmp r l)) = c_halt_cause (cv l)"
  "c_irq_pending (cv (csr_pmp r l)) = c_irq_pending (cv l)" "c_mmu_ena (cv (csr_pmp r l)) = c_mmu_ena (cv l)"
  by (simp_all add: csr_pmp_def Let_def split: prod.split)

lemmas csr_field = csr_clock_comb csr_comb_def Let_def

lemma csr_comb_fields:
  "c_xmode (cv (csr_comb h x r)) = c_xmode (cv (csr_body h x r))" "c_pmp (cv (csr_comb h x r)) = c_pmp (cv (csr_body h x r))"
  "c_state (cv (csr_comb h x r)) = c_state (cv (csr_body h x r))"
  "c_fencestate (cv (csr_comb h x r)) = c_fencestate (cv (csr_body h x r))"
  "c_cmd_type (cv (csr_comb h x r)) = c_cmd_type (cv (csr_body h x r))"
  "c_cmd_addr (cv (csr_comb h x r)) = c_cmd_addr (cv (csr_body h x r))"
  "c_cmd_data (cv (csr_comb h x r)) = c_cmd_data (cv (csr_body h x r))"
  "c_cmd_exception (cv (csr_comb h x r)) = c_cmd_exception (cv (csr_body h x r))"
  "c_medeleg (cv (csr_comb h x r)) = c_medeleg (cv (csr_body h x r))"
  "c_mideleg (cv (csr_comb h x r)) = c_mideleg (cv (csr_body h x r))"
  "c_mode (cv (csr_comb h x r)) = c_mode (cv (csr_body h x r))" "c_mprv (cv (csr_comb h x r)) = c_mprv (cv (csr_body h x r))"
  "c_mxr (cv (csr_comb h x r)) = c_mxr (cv (csr_body h x r))" "c_sum (cv (csr_comb h x r)) = c_sum (cv (csr_body h x r))"
  "c_tvm (cv (csr_comb h x r)) = c_tvm (cv (csr_body h x r))"
  "c_satp_ppn (cv (csr_comb h x r)) = c_satp_ppn (cv (csr_body h x r))"
  "c_satp_sv39 (cv (csr_comb h x r)) = c_satp_sv39 (cv (csr_body h x r))"
  "c_satp_sv48 (cv (csr_comb h x r)) = c_satp_sv48 (cv (csr_body h x r))"
  "c_dscratch0 (cv (csr_comb h x r)) = c_dscratch0 (cv (csr_body h x r))"
  "c_dscratch1 (cv (csr_comb h x r)) = c_dscratch1 (cv (csr_body h x r))"
  "c_dpc (cv (csr_comb h x r)) = c_dpc (cv (csr_body h x r))"
  "c_halt_cause (cv (csr_comb h x r)) = c_halt_cause (cv (csr_body h x r))"
  "c_mmu_ena (cv (csr_comb h x r)) = c_mmu_ena (cv (csr_body h x r))"
  by (simp_all add: csr_comb_def Let_def)

subsection \<open>The address without a read or write\<close>

text \<open>What an access never touches.\<close>

lemma fold_keeps: "(\<And>i l. F (f i l) = F l) \<Longrightarrow> F (fold f xs l) = F l"
  by (induction xs arbitrary: l) auto

lemma pmpcfg_access_loc [simp]:
  "v_csr_rena (pmpcfg_access r l) = v_csr_rena l" "v_csr_wena (pmpcfg_access r l) = v_csr_wena l"
  "v_csr_trapreturn (pmpcfg_access r l) = v_csr_trapreturn l" "vb_e_emux (pmpcfg_access r l) = vb_e_emux l"
  "vb_e_imux (pmpcfg_access r l) = vb_e_imux l" "wb_trap_cause (pmpcfg_access r l) = wb_trap_cause l"
  "vb_xtval (pmpcfg_access r l) = vb_xtval l" "v_flushpipeline (pmpcfg_access r l) = v_flushpipeline l"
  unfolding pmpcfg_access_def by (rule fold_keeps, simp add: pmpcfg_entry_def Let_def)+

lemma pmpaddr_access_loc [simp]:
  "v_csr_rena (pmpaddr_access r l) = v_csr_rena l" "v_csr_wena (pmpaddr_access r l) = v_csr_wena l"
  "v_csr_trapreturn (pmpaddr_access r l) = v_csr_trapreturn l" "vb_e_emux (pmpaddr_access r l) = vb_e_emux l"
  "vb_e_imux (pmpaddr_access r l) = vb_e_imux l" "wb_trap_cause (pmpaddr_access r l) = wb_trap_cause l"
  "vb_xtval (pmpaddr_access r l) = vb_xtval l" "v_flushpipeline (pmpaddr_access r l) = v_flushpipeline l"
  "vb_pmp_upd_ena (pmpaddr_access r l) = vb_pmp_upd_ena l"
  by (simp_all add: pmpaddr_access_def Let_def)

lemma pmpcfg_quiet:
  assumes "\<not> v_csr_wena l"
  shows "cv (pmpcfg_access r l) = cv l \<and> vb_pmp_upd_ena (pmpcfg_access r l) = vb_pmp_upd_ena l"
proof -
  have "\<not> v_csr_wena (fold (\<lambda>i l. pmpcfg_entry i d l r) xs l) \<and> cv (fold (\<lambda>i l. pmpcfg_entry i d l r) xs l) = cv l
      \<and> vb_pmp_upd_ena (fold (\<lambda>i l. pmpcfg_entry i d l r) xs l) = vb_pmp_upd_ena l" for xs d
    using assms by (induction xs arbitrary: l) (simp_all add: pmpcfg_entry_def Let_def)
  then show ?thesis by (simp add: pmpcfg_access_def)
qed

lemma csr_access_loc [simp]:
  "v_csr_rena (csr_access h x r l) = v_csr_rena l" "v_csr_wena (csr_access h x r l) = v_csr_wena l"
  "v_csr_trapreturn (csr_access h x r l) = v_csr_trapreturn l" "vb_e_emux (csr_access h x r l) = vb_e_emux l"
  "vb_e_imux (csr_access h x r l) = vb_e_imux l" "wb_trap_cause (csr_access h x r l) = wb_trap_cause l"
  "vb_xtval (csr_access h x r l) = vb_xtval l" "v_flushpipeline (csr_access h x r l) = v_flushpipeline l"
  by (simp_all add: csr_access_def split: csr_entry.split)

lemma csr_access_quiet:
  assumes "\<not> v_csr_wena l"
  shows "cv (csr_access h x r l)
      = (if csr_lookup h x r = CFail then (cv l)\<lparr>c_cmd_exception := True\<rparr> else cv l)"
    and "vb_pmp_upd_ena (csr_access h x r l) = vb_pmp_upd_ena l"
  using assms pmpcfg_quiet [OF assms]
  by (simp_all add: csr_access_def pmpaddr_access_def Let_def split: csr_entry.split)

text \<open>When the chain raises the exception flag.\<close>

lemma csr_lookup_fails:
  assumes "csr_lookup h x r = CFail"
  shows "c_cmd_addr r = 0xC00 \<and> counter_denied r 0 \<or> c_cmd_addr r = 0xC01 \<and> counter_denied r 1
    \<or> c_cmd_addr r = 0xC03 \<and> counter_denied r 2
    \<or> c_cmd_addr r = 0x180 \<and> c_tvm r \<and> c_mode r = PRV_S
    \<or> (rng (c_cmd_addr r) 11 4 :: u8) = 0x3A \<and> bit (c_cmd_addr r) 0
    \<or> c_state r = CState_RW \<and> c_cmd_addr r > 0x3EF"
  using assms unfolding csr_lookup_def Let_def by (simp split: if_splits)

subsection \<open>The fences and the translation flag\<close>

lemma csr_fences_keeps [simp]:
  "v_csr_rena (csr_fences x r l) = v_csr_rena l" "v_csr_wena (csr_fences x r l) = v_csr_wena l"
  "v_csr_trapreturn (csr_fences x r l) = v_csr_trapreturn l" "vb_e_emux (csr_fences x r l) = vb_e_emux l"
  "vb_e_imux (csr_fences x r l) = vb_e_imux l" "wb_trap_cause (csr_fences x r l) = wb_trap_cause l"
  "vb_xtval (csr_fences x r l) = vb_xtval l" "vb_pmp_upd_ena (csr_fences x r l) = vb_pmp_upd_ena l"
  "c_xmode (cv (csr_fences x r l)) = c_xmode (cv l)" "c_pmp (cv (csr_fences x r l)) = c_pmp (cv l)"
  "c_state (cv (csr_fences x r l)) = c_state (cv l)" "c_cmd_type (cv (csr_fences x r l)) = c_cmd_type (cv l)"
  "c_cmd_addr (cv (csr_fences x r l)) = c_cmd_addr (cv l)" "c_cmd_data (cv (csr_fences x r l)) = c_cmd_data (cv l)"
  "c_cmd_exception (cv (csr_fences x r l)) = c_cmd_exception (cv l)" "c_medeleg (cv (csr_fences x r l)) = c_medeleg (cv l)"
  "c_mideleg (cv (csr_fences x r l)) = c_mideleg (cv l)" "c_mode (cv (csr_fences x r l)) = c_mode (cv l)"
  "c_mprv (cv (csr_fences x r l)) = c_mprv (cv l)" "c_mxr (cv (csr_fences x r l)) = c_mxr (cv l)"
  "c_sum (cv (csr_fences x r l)) = c_sum (cv l)" "c_tvm (cv (csr_fences x r l)) = c_tvm (cv l)"
  "c_satp_ppn (cv (csr_fences x r l)) = c_satp_ppn (cv l)" "c_satp_sv39 (cv (csr_fences x r l)) = c_satp_sv39 (cv l)"
  "c_satp_sv48 (cv (csr_fences x r l)) = c_satp_sv48 (cv l)"
  "c_dscratch0 (cv (csr_fences x r l)) = c_dscratch0 (cv l)" "c_dscratch1 (cv (csr_fences x r l)) = c_dscratch1 (cv l)"
  by (simp_all add: csr_fences_def Let_def)

lemma csr_mmu_keeps [simp]:
  "v_csr_rena (csr_mmu r l) = v_csr_rena l" "v_csr_wena (csr_mmu r l) = v_csr_wena l"
  "v_csr_trapreturn (csr_mmu r l) = v_csr_trapreturn l" "vb_e_emux (csr_mmu r l) = vb_e_emux l"
  "vb_e_imux (csr_mmu r l) = vb_e_imux l" "wb_trap_cause (csr_mmu r l) = wb_trap_cause l"
  "vb_xtval (csr_mmu r l) = vb_xtval l" "vb_pmp_upd_ena (csr_mmu r l) = vb_pmp_upd_ena l"
  "c_xmode (cv (csr_mmu r l)) = c_xmode (cv l)" "c_pmp (cv (csr_mmu r l)) = c_pmp (cv l)"
  "c_state (cv (csr_mmu r l)) = c_state (cv l)" "c_fencestate (cv (csr_mmu r l)) = c_fencestate (cv l)"
  "c_cmd_type (cv (csr_mmu r l)) = c_cmd_type (cv l)"
  "c_cmd_addr (cv (csr_mmu r l)) = c_cmd_addr (cv l)" "c_cmd_data (cv (csr_mmu r l)) = c_cmd_data (cv l)"
  "c_cmd_exception (cv (csr_mmu r l)) = c_cmd_exception (cv l)" "c_medeleg (cv (csr_mmu r l)) = c_medeleg (cv l)"
  "c_mideleg (cv (csr_mmu r l)) = c_mideleg (cv l)" "c_mode (cv (csr_mmu r l)) = c_mode (cv l)"
  "c_mprv (cv (csr_mmu r l)) = c_mprv (cv l)" "c_mxr (cv (csr_mmu r l)) = c_mxr (cv l)"
  "c_sum (cv (csr_mmu r l)) = c_sum (cv l)" "c_tvm (cv (csr_mmu r l)) = c_tvm (cv l)"
  "c_satp_ppn (cv (csr_mmu r l)) = c_satp_ppn (cv l)" "c_satp_sv39 (cv (csr_mmu r l)) = c_satp_sv39 (cv l)"
  "c_satp_sv48 (cv (csr_mmu r l)) = c_satp_sv48 (cv l)"
  "c_dscratch0 (cv (csr_mmu r l)) = c_dscratch0 (cv l)" "c_dscratch1 (cv (csr_mmu r l)) = c_dscratch1 (cv l)"
  by (simp_all add: csr_mmu_def Let_def)

subsection \<open>Trap requests\<close>

lemma mode_less: "unat (p :: 2 word) < 4"
  using unsigned_less [of p] by simp

lemma mode_M_most: "\<not> (3 :: 2 word) < p"
  using mode_less [of p] by (simp add: word_less_nat_alt)

text \<open>A request presented in Idle, and the mode that takes exception or interrupt \<open>n\<close>.\<close>

definition requests :: "10 word \<Rightarrow> 12 word \<Rightarrow> u64 \<Rightarrow> csr_in \<Rightarrow> bool" where
  "requests ty a d x \<longleftrightarrow> y_req_valid x \<and> y_req_type x = ty \<and> y_req_addr x = a \<and> y_req_data x = d"

definition trap_mode :: "csr_regs \<Rightarrow> bool \<Rightarrow> 2 word" where
  "trap_mode r deleg = (if c_mode r \<le> PRV_S \<and> deleg then PRV_S else PRV_M)"

definition trapped :: "csr_regs \<Rightarrow> u64 \<Rightarrow> u64 \<Rightarrow> 5 word \<Rightarrow> bool \<Rightarrow> regmode \<Rightarrow> regmode" where
  "trapped r pc tval cause irq m = m\<lparr>xpp := c_mode r, xpie := xie (c_xmode r (c_mode r)), xie := False,
     xepc := pc, xtval := tval, xcause_code := cause, xcause_irq := irq\<rparr>"

lemma one_bit_and: "setf n (Suc 0) 1 0 AND w \<noteq> 0 \<longleftrightarrow> n < LENGTH('a) \<and> bit w n" for w :: "'a::len word"
proof -
  have "bit (setf n (Suc 0) 1 0 AND w) i \<longleftrightarrow> i = n \<and> i < LENGTH('a) \<and> bit w i" for i
    by (auto simp: bit_setf bit_simps bit_1_iff less_Suc_eq_le dest: bit_imp_le_length)
  then show ?thesis
    by (metis bit_0_eq bit_eqI bot_apply bot_bool_def bit_imp_le_length)
qed

lemma one_bit_nonzero: "setf n (Suc 0) (1 :: 'a::len word) 0 = 0 \<longleftrightarrow> LENGTH('a) \<le> n"
  using one_bit_and [of n "- 1 :: 'a word"] by auto

lemma csr_trap_keeps [simp]:
  "c_pmp (cv (csr_trap x r l)) = c_pmp (cv l)"
  "c_state (cv (csr_trap x r l)) = c_state (cv l)" "c_fencestate (cv (csr_trap x r l)) = c_fencestate (cv l)"
  "c_cmd_type (cv (csr_trap x r l)) = c_cmd_type (cv l)"
  "c_cmd_addr (cv (csr_trap x r l)) = c_cmd_addr (cv l)" "c_cmd_data (cv (csr_trap x r l)) = c_cmd_data (cv l)"
  "c_cmd_exception (cv (csr_trap x r l)) = c_cmd_exception (cv l)" "c_medeleg (cv (csr_trap x r l)) = c_medeleg (cv l)"
  "c_mideleg (cv (csr_trap x r l)) = c_mideleg (cv l)"
  "c_mprv (cv (csr_trap x r l)) = c_mprv (cv l)" "c_mxr (cv (csr_trap x r l)) = c_mxr (cv l)"
  "c_sum (cv (csr_trap x r l)) = c_sum (cv l)" "c_tvm (cv (csr_trap x r l)) = c_tvm (cv l)"
  "c_satp_ppn (cv (csr_trap x r l)) = c_satp_ppn (cv l)"
  "c_satp_sv39 (cv (csr_trap x r l)) = c_satp_sv39 (cv l)" "c_satp_sv48 (cv (csr_trap x r l)) = c_satp_sv48 (cv l)"
  "vb_pmp_upd_ena (csr_trap x r l) = vb_pmp_upd_ena l"
  by (simp_all add: csr_trap_def xtrap_def upd_mode_def)

lemma csr_trap_none: "vb_e_emux l = 0 \<Longrightarrow> vb_e_imux l = 0 \<Longrightarrow> csr_trap x r l = l"
  by (simp add: csr_trap_def)

text \<open>A state that neither accesses a register nor returns from a trap: what it decides stays.\<close>

definition csr_decision :: "csr_in \<Rightarrow> csr_regs \<Rightarrow> csr_loc" where
  "csr_decision x r = csr_switch x r (csr_start r)"

lemma csr_body_quiet:
  assumes "\<not> v_csr_rena (csr_decision x r)" "\<not> v_csr_wena (csr_decision x r)"
    "\<not> v_csr_trapreturn (csr_decision x r)"
  shows "c_state (cv (csr_comb h x r)) = c_state (cv (csr_decision x r))"
    "c_cmd_type (cv (csr_comb h x r)) = c_cmd_type (cv (csr_decision x r))"
    "c_cmd_addr (cv (csr_comb h x r)) = c_cmd_addr (cv (csr_decision x r))"
    "c_cmd_data (cv (csr_comb h x r)) = c_cmd_data (cv (csr_decision x r))"
    "c_medeleg (cv (csr_comb h x r)) = c_medeleg (cv (csr_decision x r))"
    "c_mideleg (cv (csr_comb h x r)) = c_mideleg (cv (csr_decision x r))"
    "c_mprv (cv (csr_comb h x r)) = c_mprv (cv (csr_decision x r))"
    "c_cmd_exception (cv (csr_comb h x r))
      \<longleftrightarrow> csr_lookup h x r = CFail \<or> c_cmd_exception (cv (csr_decision x r))"
    "c_xmode (cv (csr_comb h x r)) = c_xmode (cv (csr_trap x r (csr_decision x r)))"
    "c_mode (cv (csr_comb h x r)) = c_mode (cv (csr_trap x r (csr_decision x r)))"
proof -
  define l where "l = csr_access h x r (csr_fences x r (csr_decision x r))"
  have body: "csr_body h x r = csr_trap x r (csr_mmu r l)"
    using assms by (simp add: csr_body_def csr_read_def csr_return_def Let_def l_def csr_decision_def)
  have cvl: "cv l = (if csr_lookup h x r = CFail then (cv (csr_fences x r (csr_decision x r)))\<lparr>c_cmd_exception := True\<rparr>
      else cv (csr_fences x r (csr_decision x r)))"
    using assms by (simp add: l_def csr_access_quiet)
  have loc: "vb_e_emux l = vb_e_emux (csr_decision x r)" "vb_e_imux l = vb_e_imux (csr_decision x r)"
    "wb_trap_cause l = wb_trap_cause (csr_decision x r)" "vb_xtval l = vb_xtval (csr_decision x r)"
    by (simp_all add: l_def)
  show "c_state (cv (csr_comb h x r)) = c_state (cv (csr_decision x r))"
    "c_cmd_type (cv (csr_comb h x r)) = c_cmd_type (cv (csr_decision x r))"
    "c_cmd_addr (cv (csr_comb h x r)) = c_cmd_addr (cv (csr_decision x r))"
    "c_cmd_data (cv (csr_comb h x r)) = c_cmd_data (cv (csr_decision x r))"
    "c_medeleg (cv (csr_comb h x r)) = c_medeleg (cv (csr_decision x r))"
    "c_mideleg (cv (csr_comb h x r)) = c_mideleg (cv (csr_decision x r))"
    "c_mprv (cv (csr_comb h x r)) = c_mprv (cv (csr_decision x r))"
    "c_cmd_exception (cv (csr_comb h x r))
      \<longleftrightarrow> csr_lookup h x r = CFail \<or> c_cmd_exception (cv (csr_decision x r))"
    by (simp_all add: csr_comb_fields body cvl)
  show "c_xmode (cv (csr_comb h x r)) = c_xmode (cv (csr_trap x r (csr_decision x r)))"
    "c_mode (cv (csr_comb h x r)) = c_mode (cv (csr_trap x r (csr_decision x r)))"
    by (auto simp: csr_comb_fields body csr_trap_def xtrap_def upd_mode_def loc cvl)
qed

text \<open>Decisions in the states of a trap.\<close>

lemma decision_Idle:
  assumes "c_state r = CState_Idle" and "requests ty a d x"
  shows "let l = csr_decision x r in
     \<not> v_csr_rena l \<and> \<not> v_csr_wena l \<and> \<not> v_csr_trapreturn l \<and> vb_e_emux l = 0 \<and> vb_e_imux l = 0
     \<and> c_xmode (cv l) = c_xmode r \<and> c_mode (cv l) = c_mode r \<and> c_medeleg (cv l) = c_medeleg r
     \<and> c_mideleg (cv l) = c_mideleg r \<and> c_cmd_type (cv l) = ty \<and> c_cmd_data (cv l) = d \<and> c_mprv (cv l) = c_mprv r
     \<and> c_cmd_addr (cv l) = (if bit ty CReq_ExceptionBit \<and> a = 8 then a + ucast (c_mode r) else a)
     \<and> (\<not> bit ty CReq_FenceBit \<or> bit ty CReq_ExceptionBit \<longrightarrow> \<not> c_cmd_exception (cv l))"
  using assms
  by (simp add: csr_decision_def csr_switch_def csr_Idle_def requests_def csr_start_def csr_fence_req_def Let_def)

lemma decision_Idle_state:
  assumes "c_state r = CState_Idle" and "requests ty a d x"
  shows "bit ty CReq_ExceptionBit \<Longrightarrow> c_state (cv (csr_decision x r)) = CState_Exception"
    "ty = 16 \<Longrightarrow> c_state (cv (csr_decision x r)) = CState_Interrupt"
    "ty = 4 \<Longrightarrow> c_state (cv (csr_decision x r)) = CState_TrapReturn"
    "ty = 1 \<or> ty = 2 \<Longrightarrow> c_state (cv (csr_decision x r)) = CState_RW"
  using assms
  by (auto simp: csr_decision_def csr_switch_def csr_Idle_def requests_def csr_start_def Let_def)

lemma decision_Exception:
  assumes "c_state r = CState_Exception" and "\<not> y_dbg_progbuf_ena x"
  shows "let l = csr_decision x r in
     \<not> v_csr_rena l \<and> \<not> v_csr_wena l \<and> \<not> v_csr_trapreturn l \<and> vb_e_imux l = 0
     \<and> vb_e_emux l = setf (unat (rng (c_cmd_addr r) 4 0 :: 5 word)) 1 1 0 \<and> wb_trap_cause l = rng (c_cmd_addr r) 4 0
     \<and> vb_xtval l = c_cmd_data r
     \<and> cv l = r\<lparr>c_state := CState_Response, c_cmd_data := xtvec_off_edeleg r\<rparr>"
  using assms by (simp add: csr_decision_def csr_switch_def csr_Exception_def csr_start_def Let_def)

lemma decision_Interrupt:
  assumes "c_state r = CState_Interrupt"
  shows "let l = csr_decision x r in
     \<not> v_csr_rena l \<and> \<not> v_csr_wena l \<and> \<not> v_csr_trapreturn l \<and> vb_e_emux l = 0
     \<and> vb_e_imux l = setf (unat (rng (c_cmd_addr r) 3 0 :: 4 word)) 1 1 0 \<and> wb_trap_cause l = rng (c_cmd_addr r) 4 0
     \<and> vb_xtval l = 0
     \<and> cv l = r\<lparr>c_state := CState_Response, c_cmd_data :=
         (if xtvec_mode (c_xmode r (c_mode r)) = 1
          then xtvec_off_ideleg r + push_bit 2 (ucast (rng (c_cmd_addr r) 4 0 :: 5 word)) else xtvec_off_ideleg r)\<rparr>"
  using assms by (simp add: csr_decision_def csr_switch_def csr_Interrupt_def csr_start_def Let_def)

subsection \<open>Trap entry\<close>

definition cause_of :: "csr_regs \<Rightarrow> 12 word \<Rightarrow> 5 word" where
  "cause_of r a = rng (if a = 8 then a + ucast (c_mode r) else a) 4 0"

lemma request_clock:
  assumes "c_state r = CState_Idle" and "requests ty a d x"
  shows "c_xmode (cv (csr_comb h x r)) = c_xmode r" "c_mode (cv (csr_comb h x r)) = c_mode r"
    "c_medeleg (cv (csr_comb h x r)) = c_medeleg r" "c_mideleg (cv (csr_comb h x r)) = c_mideleg r"
    "c_cmd_type (cv (csr_comb h x r)) = ty" "c_cmd_data (cv (csr_comb h x r)) = d"
    "c_cmd_addr (cv (csr_comb h x r)) = (if bit ty CReq_ExceptionBit \<and> a = 8 then a + ucast (c_mode r) else a)"
    "c_mprv (cv (csr_comb h x r)) = c_mprv r"
    "c_state (cv (csr_comb h x r)) = c_state (cv (csr_decision x r))"
    "\<not> bit ty CReq_FenceBit \<Longrightarrow> c_cmd_exception (cv (csr_comb h x r)) \<longleftrightarrow> csr_lookup h x r = CFail"
  using decision_Idle [OF assms] by (simp_all add: Let_def csr_body_quiet csr_trap_none)

lemma rng_cause: "unat (getf 0 5 a :: 5 word) < 32"
  using unsigned_less [of "getf 0 5 a :: 5 word"] by simp

lemma exception_clock:
  assumes "c_state r = CState_Exception" and "\<not> y_dbg_progbuf_ena x"
  shows "let n = rng (c_cmd_addr r) 4 0; p = trap_mode r (bit (c_medeleg r) (unat n)); r' = cv (csr_comb h x r) in
    c_state r' = CState_Response \<and> c_cmd_data r' = xtvec_off (c_xmode r p) \<and> c_mode r' = p
    \<and> c_xmode r' = (c_xmode r)(p := trapped r (y_e_pc x) (c_cmd_data r) n False (c_xmode r p))
    \<and> c_mprv r' = c_mprv r \<and> c_medeleg r' = c_medeleg r \<and> c_mideleg r' = c_mideleg r"
proof -
  define n where "n = (getf 0 5 (c_cmd_addr r) :: 5 word)"
  define l where "l = csr_decision x r"
  have l: "\<not> v_csr_rena l" "\<not> v_csr_wena l" "\<not> v_csr_trapreturn l" "vb_e_imux l = 0"
    "vb_e_emux l = setf (unat n) (Suc 0) 1 0" "wb_trap_cause l = n" "vb_xtval l = c_cmd_data r"
    "cv l = r\<lparr>c_state := CState_Response, c_cmd_data := xtvec_off_edeleg r\<rparr>"
    using decision_Exception [OF assms] by (simp_all add: l_def n_def Let_def)
  note b = csr_body_quiet [OF l(1-3) [unfolded l_def], where h = h, folded l_def]
  have n: "unat n < 32" by (simp add: n_def rng_cause)
  have nz: "vb_e_emux l \<noteq> 0" "vb_e_emux l AND c_medeleg r \<noteq> 0 \<longleftrightarrow> bit (c_medeleg r) (unat n)"
    using n by (simp_all add: l(5) one_bit_nonzero one_bit_and)
  have "xtvec_off_edeleg r = xtvec_off (c_xmode r (trap_mode r (bit (c_medeleg r) (unat n))))"
    by (simp add: xtvec_off_edeleg_def trap_mode_def n_def)
  moreover have "c_xmode (cv (csr_trap x r l)) = (c_xmode r)(trap_mode r (bit (c_medeleg r) (unat n)) :=
      trapped r (y_e_pc x) (c_cmd_data r) n False (c_xmode r (trap_mode r (bit (c_medeleg r) (unat n)))))
    \<and> c_mode (cv (csr_trap x r l)) = trap_mode r (bit (c_medeleg r) (unat n))"
    using nz by (auto simp: csr_trap_def xtrap_def upd_mode_def l trap_mode_def trapped_def)
  ultimately show ?thesis
    by (simp add: Let_def b l(8) flip: n_def)
qed

lemma exception_request:
  assumes "c_state r = CState_Idle" and "requests 8 a d x1" and "\<not> y_dbg_progbuf_ena x2"
  shows "let n = cause_of r a; p = trap_mode r (bit (c_medeleg r) (unat n));
      r' = csr_clock h x2 (csr_clock h x1 r) in
    c_state r' = CState_Response \<and> c_cmd_data r' = xtvec_off (c_xmode r p) \<and> c_mode r' = p
    \<and> c_xmode r' = (c_xmode r)(p := trapped r (y_e_pc x2) d n False (c_xmode r p))"
proof -
  define r1 where "r1 = cv (csr_comb h x1 r)"
  have bit8: "bit (8 :: 10 word) 3" by simp
  have r1: "c_xmode r1 = c_xmode r" "c_mode r1 = c_mode r" "c_medeleg r1 = c_medeleg r"
    "c_cmd_data r1 = d" "c_state r1 = CState_Exception" "getf 0 5 (c_cmd_addr r1) = cause_of r a"
    using request_clock [OF assms(1,2), of h] decision_Idle_state(1) [OF assms(1,2)] bit8
    by (simp_all add: r1_def cause_of_def)
  have "trapped r1 = trapped r" "trap_mode r1 = trap_mode r"
    by (simp_all add: fun_eq_iff trapped_def trap_mode_def r1)
  then show ?thesis
    using exception_clock [OF r1(5) assms(3), of h]
    by (simp add: Let_def r1 csr_clock_comb flip: r1_def)
qed

subsection \<open>Return from a trap\<close>

lemma return_clock:
  assumes "c_state r = CState_TrapReturn"
  shows "let m = c_mode r; r' = cv (csr_comb h x r) in
    c_state r' = CState_Response \<and> c_cmd_data r' = xepc (c_xmode r m)
    \<and> (if ucast m = c_cmd_addr r
       then c_mode r' = xpp (c_xmode r m)
         \<and> c_xmode r' = (c_xmode r)(m := (c_xmode r m)\<lparr>xpie := True, xpp := PRV_U\<rparr>)
       else c_mode r' = m \<and> c_xmode r' = c_xmode r \<and> c_cmd_exception r')"
proof -
  define l where "l = csr_access h x r (csr_fences x r (csr_decision x r))"
  have d: "csr_decision x r = csr_TrapReturn r (csr_start r)"
    using assms by (simp add: csr_decision_def csr_switch_def)
  have w: "\<not> v_csr_wena (csr_decision x r)" "\<not> v_csr_rena (csr_decision x r)" "v_csr_trapreturn (csr_decision x r)"
    "vb_e_emux (csr_decision x r) = 0" "vb_e_imux (csr_decision x r) = 0"
    "cv (csr_decision x r) = r\<lparr>c_state := CState_Response, c_cmd_data := xepc (c_xmode r (c_mode r))\<rparr>"
    by (simp_all add: d csr_TrapReturn_def csr_start_def)
  have cvl: "cv l = (if csr_lookup h x r = CFail then (cv (csr_fences x r (csr_decision x r)))\<lparr>c_cmd_exception := True\<rparr>
      else cv (csr_fences x r (csr_decision x r)))"
    using w by (simp add: l_def csr_access_quiet)
  have e: "v_csr_trapreturn l" "vb_e_emux l = 0" "vb_e_imux l = 0"
    using w by (simp_all add: l_def)
  have ret: "vb_e_emux (csr_return r l) = 0" "vb_e_imux (csr_return r l) = 0"
    using e by (simp_all add: csr_return_def Let_def)
  have "csr_body h x r = csr_mmu r (csr_return r l)"
    using w ret by (simp add: csr_body_def Let_def csr_read_def csr_trap_none flip: csr_decision_def l_def)
  then show ?thesis
    using e w by (simp add: csr_comb_fields Let_def csr_return_def cvl upd_mode_def)
qed

text \<open>The registers between requests: waiting in Idle or in Response changes none of them.\<close>

lemma response_clock:
  assumes "c_state r = CState_Response" and "y_resp_ready x"
  shows "c_state (cv (csr_comb h x r)) = CState_Idle" "c_xmode (cv (csr_comb h x r)) = c_xmode r"
    "c_mode (cv (csr_comb h x r)) = c_mode r" "c_medeleg (cv (csr_comb h x r)) = c_medeleg r"
    "c_mideleg (cv (csr_comb h x r)) = c_mideleg r" "c_cmd_addr (cv (csr_comb h x r)) = c_cmd_addr r"
    "c_cmd_data (cv (csr_comb h x r)) = c_cmd_data r"
    "c_cmd_exception (cv (csr_comb h x r)) \<longleftrightarrow> csr_lookup h x r = CFail \<or> c_cmd_exception r"
proof -
  have d: "csr_decision x r = (csr_start r)\<lparr>cv := r\<lparr>c_state := CState_Idle\<rparr>\<rparr>"
    using assms by (simp add: csr_decision_def csr_switch_def csr_Response_def csr_start_def)
  have "\<not> v_csr_rena (csr_decision x r)" "\<not> v_csr_wena (csr_decision x r)" "\<not> v_csr_trapreturn (csr_decision x r)"
    by (simp_all add: d csr_start_def)
  from csr_body_quiet [OF this, where h = h]
  show "c_state (cv (csr_comb h x r)) = CState_Idle" "c_xmode (cv (csr_comb h x r)) = c_xmode r"
    "c_mode (cv (csr_comb h x r)) = c_mode r" "c_medeleg (cv (csr_comb h x r)) = c_medeleg r"
    "c_mideleg (cv (csr_comb h x r)) = c_mideleg r" "c_cmd_addr (cv (csr_comb h x r)) = c_cmd_addr r"
    "c_cmd_data (cv (csr_comb h x r)) = c_cmd_data r"
    "c_cmd_exception (cv (csr_comb h x r)) \<longleftrightarrow> csr_lookup h x r = CFail \<or> c_cmd_exception r"
    by (simp_all add: csr_trap_none d csr_start_def)
qed

lemma return_request:
  assumes "c_state r = CState_Idle" and "requests 4 (ucast (c_mode r)) d x1"
  shows "let m = c_mode r; r' = csr_clock h x2 (csr_clock h x1 r) in
    c_state r' = CState_Response \<and> c_cmd_data r' = xepc (c_xmode r m) \<and> c_mode r' = xpp (c_xmode r m)
    \<and> c_xmode r' = (c_xmode r)(m := (c_xmode r m)\<lparr>xpie := True, xpp := PRV_U\<rparr>)"
proof -
  define r1 where "r1 = cv (csr_comb h x1 r)"
  have r1: "c_xmode r1 = c_xmode r" "c_mode r1 = c_mode r" "c_cmd_addr r1 = ucast (c_mode r)"
    "c_state r1 = CState_TrapReturn"
    using request_clock [OF assms, of h] decision_Idle_state(3) [OF assms] by (simp_all add: r1_def)
  then show ?thesis
    using return_clock [OF r1(4), of h x2] by (simp add: Let_def csr_clock_comb flip: r1_def)
qed

subsection \<open>Register accesses\<close>

lemma csr_mmu_cv: "\<exists>b. cv (csr_mmu r l) = (cv l)\<lparr>c_mmu_ena := b\<rparr>"
  by (auto simp: csr_mmu_def Let_def)

lemma csr_fences_none: "c_fencestate r = Fence_None \<Longrightarrow> csr_fences x r l = l"
  by (simp add: csr_fences_def)

text \<open>State RW with enough privilege, at an address outside the configuration of the protection.\<close>

definition plain_access :: "csr_regs \<Rightarrow> bool" where
  "plain_access r \<longleftrightarrow> c_state r = CState_RW \<and> \<not> c_mode r < getf 8 2 (c_cmd_addr r)
     \<and> (getf 4 8 (c_cmd_addr r) :: u8) \<noteq> 0x3A"

lemma decision_RW:
  assumes "plain_access r"
  shows "csr_decision x r = (csr_start r)\<lparr>v_csr_rena := bit (c_cmd_type r) 0, v_csr_wena := bit (c_cmd_type r) 1,
    cv := r\<lparr>c_state := CState_Response\<rparr>\<rparr>"
  using assms by (simp add: plain_access_def csr_decision_def csr_switch_def csr_RW_def csr_start_def)

lemma access_body:
  assumes "plain_access r"
  shows "csr_body h x r = csr_mmu r (csr_read (csr_access h x r (csr_fences x r (csr_decision x r))))"
proof -
  let ?l = "csr_read (csr_access h x r (csr_fences x r (csr_decision x r)))"
  have "csr_return r ?l = ?l" "vb_e_emux (csr_mmu r ?l) = 0" "vb_e_imux (csr_mmu r ?l) = 0"
    by (simp_all add: csr_return_def csr_read_def decision_RW [OF assms] csr_start_def)
  then show ?thesis
    by (simp add: csr_body_def Let_def csr_trap_none flip: csr_decision_def)
qed

lemma failed_access:
  assumes "plain_access r" and "csr_lookup h x r = CFail"
  shows "c_state (cv (csr_comb h x r)) = CState_Response" "c_cmd_exception (cv (csr_comb h x r))"
    "c_xmode (cv (csr_comb h x r)) = c_xmode r" "c_mode (cv (csr_comb h x r)) = c_mode r"
    "c_medeleg (cv (csr_comb h x r)) = c_medeleg r" "c_cmd_addr (cv (csr_comb h x r)) = c_cmd_addr r"
  using decision_RW [OF assms(1), of x]
  by (simp_all add: csr_comb_fields access_body [OF assms(1)] csr_read_def csr_access_def assms(2))

lemma plain_access_clock:
  assumes "plain_access r" and "c_fencestate r = Fence_None" and "csr_lookup h x r = CReadWrite rd wr"
  shows "\<exists>b. cv (csr_body h x r) =
    (let v = r\<lparr>c_state := CState_Response\<rparr>; v = (if bit (c_cmd_type r) 1 then wr v else v)
     in (if bit (c_cmd_type r) 0 then v\<lparr>c_cmd_data := rd\<rparr> else v)\<lparr>c_mmu_ena := b\<rparr>)"
proof -
  obtain b where "cv (csr_body h x r) = (cv (csr_read (csr_access h x r (csr_decision x r))))\<lparr>c_mmu_ena := b\<rparr>"
    using csr_mmu_cv by (auto simp: access_body [OF assms(1)] csr_fences_none [OF assms(2)])
  then show ?thesis
    by (auto simp: csr_read_def csr_access_def assms(3) decision_RW [OF assms(1)] Let_def)
qed

end
