(* ===== verification/Rtl_CsrTrap.thy ===== *)
theory Rtl_CsrTrap
  imports Rtl_CsrFacts Traps River
begin

section \<open>Traps of the RTL and of the simulator\<close>

text \<open>
  The CSR module keeps the fields of mstatus in one record per privilege mode, the simulator in a
  word.  \<open>status_agrees\<close> relates the two, \<open>rtl_trap_agrees\<close> shows that trap entry keeps the
  relation; the return from a trap does not.
\<close>

definition status_agrees :: "csr_regs \<Rightarrow> u64 \<Rightarrow> bool" where
  "status_agrees r m \<longleftrightarrow>
     (\<forall>p. xie (c_xmode r p) = bit m (unat p)) \<and> xpie (c_xmode r 3) = bit m 7 \<and> xpp (c_xmode r 3) = getf 11 2 m
     \<and> xpie (c_xmode r 1) = bit m 5 \<and> bit (xpp (c_xmode r 1)) 0 = bit m 8"

lemma bit_trap_mstatus:
  assumes "unat prv < 4"
  shows "bit (trap_mstatus prv m) n \<longleftrightarrow>
    (if n = 3 then False else if n = 7 then bit m (unat prv)
     else if n = 11 then bit prv 0 else if n = 12 then bit prv 1 else bit m n)"
proof -
  define w where "w = set_MPP prv m"
  have w: "bit w k \<longleftrightarrow> (if k = 11 then bit prv 0 else if k = 12 then bit prv 1 else bit m k)" for k
    by (auto simp: w_def set_MPP_def bit_setf less_Suc_eq numeral_eq_Suc dest: bit_imp_le_length)
  have "bit (drop_bit (unat prv) w AND 1) 0 \<longleftrightarrow> bit m (unat prv)"
    using assms by (simp add: bit_simps bit_1_iff w)
  then have v: "bit (set_MPIE (drop_bit (unat prv) w AND 1) w) k \<longleftrightarrow> (if k = 7 then bit m (unat prv) else bit w k)" for k
    by (auto simp: set_MPIE_def bit_setf less_Suc_eq_le dest: bit_imp_le_length)
  have "trap_mstatus prv m = set_MIE 0 (set_MPIE (drop_bit (unat prv) w AND 1) w)"
    by (simp add: trap_mstatus_def Let_def w_def)
  moreover have "bit (set_MIE 0 x) n \<longleftrightarrow> n \<noteq> 3 \<and> bit x n" for x
    by (auto simp: set_MIE_def bit_setf dest: bit_imp_le_length)
  ultimately show ?thesis
    by (simp add: v w)
qed

lemma status_agrees_trap:
  assumes "status_agrees r m" and "c_xmode r' = (c_xmode r)(3 := trapped r pc tval n irq (c_xmode r 3))"
  shows "status_agrees r' (trap_mstatus (ucast (c_mode r)) m)"
proof -
  let ?m = "trap_mstatus (ucast (c_mode r)) m"
  have u: "unat (ucast (c_mode r) :: u64) = unat (c_mode r)"
    by (simp add: unat_widen)
  have t: "bit ?m n \<longleftrightarrow>
      (if n = 3 then False else if n = 7 then bit m (unat (c_mode r))
       else if n = 11 then bit (c_mode r) 0 else if n = 12 then bit (c_mode r) 1 else bit m n)" for n
    using mode_less [of "c_mode r"] by (simp add: bit_trap_mstatus u bit_simps)
  have p3: "unat p = 3 \<longleftrightarrow> p = 3" "unat p < 4" for p :: "2 word"
    using mode_less [of p] by (auto simp: word_unat_eq_iff)
  have xie: "xie (c_xmode r' p) = bit ?m (unat p)" for p
    using assms p3 [of p] by (simp add: status_agrees_def t trapped_def)
  have xpp: "c_mode r = getf 11 2 ?m"
    by (rule bit_word_eqI) (auto simp: bit_getf t less_2_cases_iff numeral_2_eq_2 less_Suc_eq)
  have "xpie (c_xmode r' 3) = bit ?m 7 \<and> xpp (c_xmode r' 3) = getf 11 2 ?m
      \<and> xpie (c_xmode r' 1) = bit ?m 5 \<and> bit (xpp (c_xmode r' 1)) 0 = bit ?m 8"
    using assms xpp by (simp add: t [of 7] t [of 5] t [of 8] status_agrees_def trapped_def)
  then show ?thesis
    using xie by (simp add: status_agrees_def)
qed

subsection \<open>Trap entry agrees\<close>

text \<open>
  C27: An exception that is not delegated.  Starting from agreeing state, the request that the
  execution stage sends to the CSR module and \<open>handleTrap\<close> of the simulator enter machine mode
  at the same address, with the same cause and agreeing status (previous level, previous interrupt
  enable, interrupts off).
\<close>

theorem rtl_trap_agrees:
  assumes sim: "exceptions c \<noteq> 0" "stack_ok c" "estate c \<noteq> CORE_ProgbufExec"
      "lowest_exception (exceptions c) 0 = unat (cause_of r a)"
      "unat (cause_of r a) = EXCEPTION_Breakpoint \<longrightarrow> dcsr_ebreakm (portCSR c CSR_dcsr) \<noteq> 1"
    and agree: "status_agrees r (portCSR c CSR_mstatus)" "cur_prv_level c = ucast (c_mode r)"
      "xtvec_off (c_xmode r 3) = portCSR c CSR_mtvec AND NOT 3"
    and rtl: "c_state r = 0" "requests 8 a d x1" "\<not> y_dbg_progbuf_ena x2"
      "trap_mode r (bit (c_medeleg r) (unat (cause_of r a))) = 3"
  shows "let c' = handleTrap P c;
      r' = CsrRegs_registers ar h True x2 (CsrRegs_registers ar h True x1 r) in
    status_agrees r' (portCSR c' CSR_mstatus) \<and> cur_prv_level c' = ucast (c_mode r')
    \<and> getNPC c' = c_cmd_data r' \<and> portCSR c' CSR_mcause = xcause_rdata 3 r'"
proof -
  define r' where "r' = cv (csr_comb h x2 (cv (csr_comb h x1 r)))"
  let ?e = "unat (cause_of r a)"
  have r': "c_cmd_data r' = xtvec_off (c_xmode r 3)" "c_mode r' = 3"
    "c_xmode r' = (c_xmode r)(3 := trapped r (y_e_pc x2) d (cause_of r a) False (c_xmode r 3))"
    using exception_request [OF rtl(1-3), of h] rtl(4) by (simp_all add: Let_def csr_clock_comb r'_def)
  have "handleTrap P c = exception_entry ?e (c\<lparr>exceptions := exceptions c AND NOT (bit1 ?e)\<rparr>)"
    using sim lowest_exception_less [OF sim(1)]
    by (simp add: handleTrap_def checkStackProtection_ok Let_def handleException_entry)
  moreover have "of_nat ?e = xcause_rdata 3 r'"
    by (rule bit_word_eqI)
      (auto simp: xcause_rdata_def r' trapped_def bit_setf bit_simps dest: bit_imp_le_length)
  ultimately show ?thesis
    using status_agrees_trap [OF agree(1) r'(3)] agree(2,3)
    by (simp add: Let_def csr_clock_comb exception_entry_def setNPC_def getNPC_def r'(1,2) flip: r'_def)
qed

text \<open>A cycle without a request.\<close>

definition quiet_csr :: csr_in where
  "quiet_csr = \<lparr>y_sp = 0, y_req_valid = False, y_req_type = 0, y_req_addr = 0, y_req_data = 0,
     y_resp_ready = True, y_e_halted = False, y_e_pc = 0x10040, y_irq_pending = 0, y_f_flush_ready = False,
     y_e_valid = False, y_m_memop_ready = True, y_m_idle = True, y_flushd_end = False, y_mtimer = 0,
     y_dbg_progbuf_ena = False\<rparr>"

definition csr_request :: "10 word \<Rightarrow> 12 word \<Rightarrow> u64 \<Rightarrow> csr_in" where
  "csr_request ty a d = quiet_csr\<lparr>y_req_valid := True, y_req_type := ty, y_req_addr := a, y_req_data := d\<rparr>"

lemma csr_request_requests: "requests ty a d (csr_request ty a d)"
  by (simp add: requests_def csr_request_def)

lemma quiet_csr_simps [simp]: "\<not> y_dbg_progbuf_ena quiet_csr" "y_resp_ready quiet_csr" "y_e_pc quiet_csr = 0x10040"
  by (simp_all add: quiet_csr_def)

text \<open>The core after a change to U-mode, with a handler at \<open>0x200\<close>.\<close>

definition user_csr :: csr_regs where
  "user_csr = (upd_mode 3 (\<lambda>m. m\<lparr>xtvec_off := 0x200\<rparr>) CsrRegs_r_reset)\<lparr>c_mode := 0\<rparr>"

lemma user_csr_simps [simp]: "c_state user_csr = 0" "c_mode user_csr = 0" "c_medeleg user_csr = 0"
  "c_xmode user_csr = (\<lambda>_. regmode_reset)(3 := regmode_reset\<lparr>xtvec_off := 0x200\<rparr>)" "c_cmd_addr user_csr = 0"
  by (simp_all add: user_csr_def upd_mode_def CsrRegs_r_reset_def)

theorem rtl_trap_agrees_witness:
  "let c = (river_cpu (\<lambda>_. 0))\<lparr>exceptions := 4, cur_prv_level := 0, portCSR := (\<lambda>_. 0)(CSR_mtvec := 0x201)\<rparr>;
       r' = CsrRegs_registers False 0 True quiet_csr (CsrRegs_registers False 0 True (csr_request 8 2 0x13) user_csr)
   in getNPC (handleTrap river c) = c_cmd_data r' \<and> portCSR (handleTrap river c) CSR_mcause = xcause_rdata 3 r'
     \<and> cur_prv_level (handleTrap river c) = ucast (c_mode r')"
proof -
  let ?c = "(river_cpu (\<lambda>_. 0))\<lparr>exceptions := 4, cur_prv_level := 0, portCSR := (\<lambda>_. 0)(CSR_mtvec := 0x201)\<rparr>"
  have st: "exceptions ?c \<noteq> 0" "stack_ok ?c" "estate ?c \<noteq> CORE_ProgbufExec"
    by (simp_all add: stack_ok_def)
  have cause: "cause_of user_csr 2 = 2"
    by (simp add: cause_of_def getf_def)
  have e: "lowest_exception (exceptions ?c) 0 = unat (cause_of user_csr 2)"
    unfolding cause by (simp, code_simp)
  have b: "unat (cause_of user_csr 2) = EXCEPTION_Breakpoint \<longrightarrow> dcsr_ebreakm (portCSR ?c CSR_dcsr) \<noteq> 1"
    unfolding cause by simp
  have agree: "status_agrees user_csr (portCSR ?c CSR_mstatus)" "cur_prv_level ?c = ucast (c_mode user_csr)"
    "xtvec_off (c_xmode user_csr 3) = portCSR ?c CSR_mtvec AND NOT 3"
    by (simp_all add: status_agrees_def regmode_reset_def getf_def)
  have t: "trap_mode user_csr (bit (c_medeleg user_csr) (unat (cause_of user_csr 2))) = 3"
    by (simp add: trap_mode_def)
  from rtl_trap_agrees [OF st e b agree user_csr_simps(1) csr_request_requests quiet_csr_simps(1) t,
      where P = river and ar = False and h = 0 and d = "0x13"] show ?thesis
    unfolding Let_def by blast
qed

subsection \<open>The return leaves interrupts off\<close>

text \<open>
  C29: After a trap to machine mode, an MRET at the end of a handler that leaves the state alone
  returns to the interrupted address and level, but the interrupt enable, which the trap moved
  to MPIE and cleared, stays off: it is not restored from MPIE.
\<close>

theorem rtl_mret_interrupts_stay_off:
  assumes rtl: "c_state r = 0" "requests 8 a d x1" "\<not> y_dbg_progbuf_ena x2"
      "trap_mode r (bit (c_medeleg r) (unat (cause_of r a))) = 3"
    and t: "t = CsrRegs_registers ar h True x2 (CsrRegs_registers ar h True x1 r)"
    and handler: "c_state s = 0" "c_mode s = c_mode t" "c_xmode s = c_xmode t" "requests 4 3 d' x3"
  shows "let u = CsrRegs_registers ar h True x4 (CsrRegs_registers ar h True x3 s) in
    c_cmd_data u = y_e_pc x2 \<and> c_mode u = c_mode r
    \<and> xpie (c_xmode t 3) = xie (c_xmode r (c_mode r)) \<and> \<not> xie (c_xmode u 3)"
proof -
  have tr: "c_mode t = 3" "c_xmode t = (c_xmode r)(3 := trapped r (y_e_pc x2) d (cause_of r a) False (c_xmode r 3))"
    using exception_request [OF rtl(1-3), of h] rtl(4) t by (simp_all add: Let_def csr_clock_comb)
  have "requests 4 (ucast (c_mode s)) d' x3"
    using handler(2,4) tr(1) by simp
  from return_request [OF handler(1) this, of h x4] show ?thesis
    by (simp add: Let_def csr_clock_comb handler(2,3) tr trapped_def)
qed

theorem rtl_mret_interrupts_stay_off_witness:
  "let r = (upd_mode 3 (\<lambda>m. m\<lparr>xie := True\<rparr>) user_csr)\<lparr>c_mode := 3\<rparr>;
       ck = CsrRegs_registers False 0 True;
       u = ck quiet_csr (ck (csr_request 4 3 0) (ck quiet_csr (ck quiet_csr (ck (csr_request 8 2 0x13) r))))
   in c_mode u = 3 \<and> c_cmd_data u = 0x10040 \<and> xie (c_xmode r 3) \<and> \<not> xie (c_xmode u 3)"
proof -
  let ?r = "(upd_mode 3 (\<lambda>m. m\<lparr>xie := True\<rparr>) user_csr)\<lparr>c_mode := 3\<rparr>"
  let ?ck = "CsrRegs_registers False 0 True"
  let ?t = "?ck quiet_csr (?ck (csr_request 8 2 0x13) ?r)"
  have r: "c_state ?r = 0" "trap_mode ?r (bit (c_medeleg ?r) (unat (cause_of ?r 2))) = 3"
    by (simp_all add: upd_mode_def trap_mode_def)
  have t: "c_state ?t = 11"
    using exception_request [OF r(1) csr_request_requests quiet_csr_simps(1)] by (simp add: Let_def)
  note h = response_clock [OF t quiet_csr_simps(2), of 0, folded csr_clock_comb [where ar = False]]
  from rtl_mret_interrupts_stay_off [OF r(1) csr_request_requests quiet_csr_simps(1) r(2) refl
      h(1) h(3) h(2) csr_request_requests] show ?thesis
    unfolding Let_def by (simp add: upd_mode_def)
qed

subsection \<open>An illegal read that traps twice\<close>

text \<open>
  The comparison with \<open>cycle\<close> raises the exception flag in every state, also in the Idle cycle in
  which the execution stage presents the illegal instruction exception that follows.  The answer to
  that request is then an exception too, and the execution stage repeats it.
\<close>

lemma cycle_lookup:
  assumes "c_cmd_addr r = 0xC00" and "counter_denied r 0"
  shows "csr_lookup h x r = CFail"
  using assms by (simp add: csr_lookup_def)

lemma denied_read:
  assumes "c_state r = 0" and "requests 1 0xC00 d x1" and "counter_denied r 0"
  shows "let r' = cv (csr_comb h x2 (cv (csr_comb h x1 r))) in
    c_state r' = CState_Response \<and> c_cmd_exception r' \<and> c_xmode r' = c_xmode r \<and> c_mode r' = c_mode r
    \<and> c_medeleg r' = c_medeleg r \<and> c_cmd_addr r' = 0xC00"
proof -
  define r1 where "r1 = cv (csr_comb h x1 r)"
  have r1: "c_xmode r1 = c_xmode r" "c_mode r1 = c_mode r" "c_medeleg r1 = c_medeleg r" "c_cmd_addr r1 = 0xC00"
    "c_state r1 = CState_RW"
    using request_clock [OF assms(1,2), of h] decision_Idle_state(4) [OF assms(1,2)]
    by (simp_all add: r1_def)
  have "counter_denied r1 0"
    using assms(3) by (simp add: counter_denied_def r1)
  then have "csr_lookup h x2 r1 = CFail" "plain_access r1"
    using r1 by (simp_all add: cycle_lookup plain_access_def getf_def)
  from failed_access [OF this(2,1)] show ?thesis
    by (simp add: Let_def r1 flip: r1_def)
qed

text \<open>
  C28: A program in U-mode reads \<open>cycle\<close> without permission.  The exception request that the
  execution stage then sends enters machine mode with the previous level U, but is answered as
  an exception; repeated, it traps again, from machine mode.  The handler's MRET returns to the
  program in machine mode.
\<close>

theorem rtl_counter_read_escalates:
  assumes start: "c_state r = 0" "c_mode r = 0" "counter_denied r 0"
    and rd: "requests 1 0xC00 d x1"
    and x3: "y_resp_ready x3"
    and trap: "requests 8 2 d' x4" "\<not> y_dbg_progbuf_ena x5" "\<not> bit (c_medeleg r) 2"
    and x6: "y_resp_ready x6"
    and again: "requests 8 2 d' x7" "\<not> y_dbg_progbuf_ena x8"
  shows "let ck = CsrRegs_registers ar h True;
      r2 = ck x2 (ck x1 r); r5 = ck x5 (ck x4 (ck x3 r2)); r8 = ck x8 (ck x7 (ck x6 r5)) in
    c_cmd_exception r2 \<and> xpp (c_xmode r5 3) = 0 \<and> c_cmd_exception r5
    \<and> c_state r8 = 11 \<and> c_mode r8 = 3 \<and> xpp (c_xmode r8 3) = 3
    \<and> (\<forall>s d'' x9 x10. c_state s = 0 \<and> c_mode s = 3 \<and> c_xmode s = c_xmode r8 \<and> requests 4 3 d'' x9
         \<longrightarrow> c_mode (ck x10 (ck x9 s)) = 3)"
proof -
  let ?ck = "\<lambda>x r. cv (csr_comb h x r)"
  define r2 where "r2 = ?ck x2 (?ck x1 r)"
  define r3 where "r3 = ?ck x3 r2"
  define r4 where "r4 = ?ck x4 r3"
  define r5 where "r5 = ?ck x5 r4"
  define r6 where "r6 = ?ck x6 r5"
  have r2: "c_state r2 = 11" "c_cmd_exception r2" "c_xmode r2 = c_xmode r" "c_mode r2 = 0"
    "c_medeleg r2 = c_medeleg r" "c_cmd_addr r2 = 0xC00"
    using denied_read [OF start(1) rd start(3), of h x2] start(2) by (simp_all add: Let_def r2_def)
  note r3 = response_clock [OF r2(1) x3, of h, folded r3_def, unfolded r2(3-6)]
  have den: "csr_lookup h x4 r3 = CFail"
    using start(2,3) by (intro cycle_lookup) (simp_all add: r3 counter_denied_def)
  have c2: "cause_of q 2 = 2" for q
    by (simp add: cause_of_def getf_def)
  have r4: "c_cmd_exception r4" "c_state r4 = CState_Exception" "c_cmd_addr r4 = 2"
    "c_xmode r4 = c_xmode r" "c_mode r4 = 0"
    using request_clock [OF r3(1) trap(1), of h] decision_Idle_state(1) [OF r3(1) trap(1)] den
    by (simp_all add: r4_def r3)
  have "c_cmd_exception r5"
    using decision_Exception [OF r4(2) trap(2)] r4(1) by (simp add: r5_def Let_def csr_body_quiet)
  moreover have r5: "c_state r5 = 11" "c_mode r5 = 3"
    "c_xmode r5 = (c_xmode r)(3 := trapped r3 (y_e_pc x5) d' 2 False (c_xmode r 3))"
    using exception_request [OF r3(1) trap(1,2), of h] trap(3)
    by (simp_all add: Let_def csr_clock_comb r3 c2 trap_mode_def r5_def r4_def)
  note r6 = response_clock [OF r5(1) x6, of h, folded r6_def, unfolded r5(2,3)]
  define r8 where "r8 = ?ck x8 (?ck x7 r6)"
  have "\<not> (3 :: 2 word) \<le> 1" by (simp add: word_le_nat_alt)
  then have r8: "c_state r8 = 11" "c_mode r8 = 3" "xpp (c_xmode r8 3) = 3"
    using exception_request [OF r6(1) again, of h]
    by (simp_all add: Let_def csr_clock_comb r6 c2 trap_mode_def r8_def trapped_def)
  have "c_mode (?ck x10 (?ck x9 s)) = 3"
    if "c_state s = 0 \<and> c_mode s = 3 \<and> c_xmode s = c_xmode r8 \<and> requests 4 3 d'' x9" for s d'' x9 x10
    using return_request [of s d'' x9 h x10] that r8(3) by (simp add: Let_def csr_clock_comb)
  ultimately show ?thesis
    using r8 r2(2) r5(3)
    by (auto simp: Let_def csr_clock_comb trapped_def r3 simp flip: r2_def r3_def r4_def r5_def r6_def r8_def)
qed

theorem rtl_counter_read_escalates_witness:
  "let ck = CsrRegs_registers False 0 True;
      r2 = ck quiet_csr (ck (csr_request 1 0xC00 0) user_csr);
      r5 = ck quiet_csr (ck (csr_request 8 2 0xC0002573) (ck quiet_csr r2));
      r8 = ck quiet_csr (ck (csr_request 8 2 0xC0002573) (ck quiet_csr r5)) in
    xpp (c_xmode r5 3) = 0 \<and> c_mode r8 = 3 \<and> xpp (c_xmode r8 3) = 3"
proof -
  have "counter_denied user_csr 0"
    by (simp add: counter_denied_def regmode_reset_def)
  from rtl_counter_read_escalates [OF user_csr_simps(1,2) this csr_request_requests quiet_csr_simps(2)
      csr_request_requests quiet_csr_simps(1) _ quiet_csr_simps(2) csr_request_requests quiet_csr_simps(1)]
  show ?thesis by (simp add: Let_def)
qed

end
