(* ===== verification/Rtl_CsrRw.thy ===== *)
theory Rtl_CsrRw
  imports Rtl_CsrFacts Rtl_Execute
begin

section \<open>Writing and reading back\<close>

text \<open>
  What a read returns after a write, for the registers that keep what is written, in machine
  mode; and what the read-modify-write of the execution stage makes of it.
\<close>

subsection \<open>The state that accesses are about\<close>

definition csr_arch where
  "csr_arch r = (c_xmode r, c_mode r, c_medeleg r, c_mideleg r, (c_mprv r, c_mxr r, c_sum r, c_tvm r),
     (c_satp_ppn r, c_satp_sv39 r, c_satp_sv48 r), c_dscratch0 r, c_dscratch1 r)"

lemma csr_arch_body: "csr_arch (cv (csr_comb h x r)) = csr_arch (cv (csr_body h x r))"
  by (simp add: csr_arch_def csr_comb_fields)

lemma quiet_arch:
  assumes "\<not> v_csr_rena (csr_decision x r)" "\<not> v_csr_wena (csr_decision x r)"
    "\<not> v_csr_trapreturn (csr_decision x r)" "vb_e_emux (csr_decision x r) = 0" "vb_e_imux (csr_decision x r) = 0"
  shows "csr_arch (cv (csr_comb h x r)) = csr_arch (cv (csr_decision x r))"
    and "c_fencestate (cv (csr_comb h x r)) = c_fencestate (cv (csr_fences x r (csr_decision x r)))"
proof -
  define l where "l = csr_access h x r (csr_fences x r (csr_decision x r))"
  have "csr_body h x r = csr_mmu r l"
    using assms by (simp add: csr_body_def csr_read_def csr_return_def csr_trap_none Let_def l_def csr_decision_def)
  moreover have "cv l = (if csr_lookup h x r = CFail then (cv (csr_fences x r (csr_decision x r)))\<lparr>c_cmd_exception := True\<rparr>
      else cv (csr_fences x r (csr_decision x r)))"
    using assms by (simp add: l_def csr_access_quiet)
  ultimately show "csr_arch (cv (csr_comb h x r)) = csr_arch (cv (csr_decision x r))"
    "c_fencestate (cv (csr_comb h x r)) = c_fencestate (cv (csr_fences x r (csr_decision x r)))"
    by (simp_all add: csr_arch_def csr_comb_fields)
qed

lemma request_arch:
  assumes "c_state r = 0" and "requests ty a d x" and "\<not> bit ty CReq_FenceBit"
  shows "csr_arch (cv (csr_comb h x r)) = csr_arch r"
    and "c_fencestate r = 0 \<Longrightarrow> c_fencestate (cv (csr_comb h x r)) = 0"
proof -
  let ?l = "csr_decision x r"
  have l: "\<not> v_csr_rena ?l" "\<not> v_csr_wena ?l" "\<not> v_csr_trapreturn ?l" "vb_e_emux ?l = 0" "vb_e_imux ?l = 0"
    using decision_Idle [OF assms(1,2)] by (simp_all add: Let_def)
  have "csr_arch (cv ?l) = csr_arch r \<and> c_fencestate (cv ?l) = c_fencestate r"
    using assms by (simp add: csr_decision_def csr_switch_def csr_Idle_def requests_def csr_start_def csr_arch_def Let_def)
  then show "csr_arch (cv (csr_comb h x r)) = csr_arch r"
    "c_fencestate r = 0 \<Longrightarrow> c_fencestate (cv (csr_comb h x r)) = 0"
    by (simp_all add: quiet_arch [OF l] csr_fences_none)
qed

lemma response_arch:
  assumes "c_state r = 11" and "y_resp_ready x"
  shows "csr_arch (cv (csr_comb h x r)) = csr_arch r"
    and "c_fencestate r = 0 \<Longrightarrow> c_fencestate (cv (csr_comb h x r)) = 0"
proof -
  let ?l = "csr_decision x r"
  have d: "?l = (csr_start r)\<lparr>cv := r\<lparr>c_state := CState_Idle\<rparr>\<rparr>"
    using assms by (simp add: csr_decision_def csr_switch_def csr_Response_def csr_start_def)
  have l: "\<not> v_csr_rena ?l" "\<not> v_csr_wena ?l" "\<not> v_csr_trapreturn ?l" "vb_e_emux ?l = 0" "vb_e_imux ?l = 0"
    by (simp_all add: d csr_start_def)
  show "csr_arch (cv (csr_comb h x r)) = csr_arch r"
    "c_fencestate r = 0 \<Longrightarrow> c_fencestate (cv (csr_comb h x r)) = 0"
    by (simp_all add: quiet_arch [OF l] csr_fences_none) (simp_all add: d csr_arch_def)
qed

subsection \<open>One register\<close>

text \<open>Register \<open>a\<close> reads as \<open>rd\<close> and is written by \<open>wr\<close>, which depend on that state only.\<close>

definition rw_register :: "12 word \<Rightarrow> (csr_regs \<Rightarrow> u64) \<Rightarrow> (u64 \<Rightarrow> csr_regs \<Rightarrow> csr_regs) \<Rightarrow> bool" where
  "rw_register a rd wr \<longleftrightarrow>
     (\<forall>h x r. c_mode r = 3 \<and> c_cmd_addr r = a \<longrightarrow> csr_lookup h x r = CReadWrite (rd r) (wr (c_cmd_data r)))
     \<and> (\<forall>r s. csr_arch r = csr_arch s \<longrightarrow> rd r = rd s)
     \<and> (\<forall>d r s. csr_arch r = csr_arch s \<longrightarrow> csr_arch (wr d r) = csr_arch (wr d s))
     \<and> (\<forall>d r. c_state (wr d r) = c_state r \<and> c_mode (wr d r) = c_mode r \<and> c_fencestate (wr d r) = c_fencestate r)
     \<and> (getf 4 8 a :: u8) \<noteq> 0x3A"

lemma rw_registerD:
  assumes "rw_register a rd wr"
  shows "c_mode r = 3 \<Longrightarrow> c_cmd_addr r = a \<Longrightarrow> csr_lookup h x r = CReadWrite (rd r) (wr (c_cmd_data r))"
    "csr_arch r = csr_arch s \<Longrightarrow> rd r = rd s"
    "csr_arch r = csr_arch s \<Longrightarrow> csr_arch (wr d r) = csr_arch (wr d s)"
    "c_state (wr d r) = c_state r" "c_mode (wr d r) = c_mode r" "c_fencestate (wr d r) = c_fencestate r"
    "(getf 4 8 a :: u8) \<noteq> 0x3A"
  using assms unfolding rw_register_def by blast+

text \<open>The state of the module between requests in machine mode.\<close>

definition ready_M :: "csr_regs \<Rightarrow> bool" where
  "ready_M r \<longleftrightarrow> c_state r = 0 \<and> c_mode r = 3 \<and> c_fencestate r = 0"

lemma arch_fields:
  "csr_arch (r\<lparr>c_state := s\<rparr>) = csr_arch r" "csr_arch (r\<lparr>c_mmu_ena := b\<rparr>) = csr_arch r"
  "csr_arch (r\<lparr>c_cmd_data := d\<rparr>) = csr_arch r"
  by (simp_all add: csr_arch_def)

lemma access_request:
  assumes rw: "rw_register a rd wr" and r: "ready_M r" and ty: "ty = 1 \<or> ty = 2" and x: "requests ty a d x1"
  shows "c_state (cv (csr_comb h x1 r)) = CState_RW" "c_cmd_addr (cv (csr_comb h x1 r)) = a"
    "c_cmd_data (cv (csr_comb h x1 r)) = d" "c_cmd_type (cv (csr_comb h x1 r)) = ty"
    "csr_arch (cv (csr_comb h x1 r)) = csr_arch r" "c_fencestate (cv (csr_comb h x1 r)) = 0"
    "c_mode (cv (csr_comb h x1 r)) = 3" "plain_access (cv (csr_comb h x1 r))"
proof -
  have i: "c_state r = 0" "c_mode r = 3" "c_fencestate r = 0" using r by (simp_all add: ready_M_def)
  have ty: "\<not> bit ty 9" "\<not> bit ty 3" using ty by auto
  note q = request_clock [OF i(1) x, of h]
  show 1: "c_state (cv (csr_comb h x1 r)) = CState_RW"
    using decision_Idle_state(4) [OF i(1) x] assms(3) by (simp add: q(9))
  show 2: "c_cmd_addr (cv (csr_comb h x1 r)) = a" using ty by (simp add: q(7))
  show "c_cmd_data (cv (csr_comb h x1 r)) = d" by (rule q(6))
  show "c_cmd_type (cv (csr_comb h x1 r)) = ty" by (rule q(5))
  show "csr_arch (cv (csr_comb h x1 r)) = csr_arch r" by (rule request_arch(1) [OF i(1) x ty(1)])
  show "c_fencestate (cv (csr_comb h x1 r)) = 0" by (rule request_arch(2) [OF i(1) x ty(1) i(3)])
  show 3: "c_mode (cv (csr_comb h x1 r)) = 3" by (simp add: q(2) i)
  show "plain_access (cv (csr_comb h x1 r))"
    unfolding plain_access_def 1 2 3 using rw_registerD(7) [OF rw] mode_M_most by simp
qed

lemma write_request:
  assumes rw: "rw_register a rd wr" and r: "ready_M r"
    and x: "requests 2 a d x1" "y_resp_ready x3"
  shows "let s = csr_clock h x3 (csr_clock h x2 (csr_clock h x1 r)) in ready_M s \<and> csr_arch s = csr_arch (wr d r)"
proof -
  define r1 where "r1 = cv (csr_comb h x1 r)"
  define r2 where "r2 = cv (csr_comb h x2 r1)"
  note r1 = access_request [OF rw r disjI2 [OF refl] x(1), of h, folded r1_def]
  have lk: "csr_lookup h x2 r1 = CReadWrite (rd r1) (wr d)"
    using rw_registerD(1) [OF rw r1(7,2)] by (simp add: r1(3))
  obtain b where b: "cv (csr_body h x2 r1) = (wr d (r1\<lparr>c_state := 11\<rparr>))\<lparr>c_mmu_ena := b\<rparr>"
    using plain_access_clock [OF r1(8,6) lk] by (auto simp: r1(4))
  have a2: "csr_arch r2 = csr_arch (wr d r)"
    unfolding r2_def csr_arch_body b arch_fields
    by (rule rw_registerD(3) [OF rw]) (simp add: arch_fields r1(5))
  have s2: "c_state r2 = 11" "c_fencestate r2 = 0" "c_mode r2 = 3"
    using r1(6,7) by (simp_all add: r2_def csr_comb_fields b rw_registerD(4-6) [OF rw])
  show ?thesis
    using response_clock(1,3) [OF s2(1) x(2), of h] response_arch [OF s2(1) x(2), of h] a2 s2(2,3)
    by (simp add: Let_def csr_clock_comb ready_M_def flip: r1_def r2_def)
qed

lemma read_request:
  assumes rw: "rw_register a rd wr" and r: "ready_M r" and x: "requests 1 a d x1"
  shows "let s = csr_clock h x2 (csr_clock h x1 r) in c_cmd_data s = rd r \<and> csr_arch s = csr_arch r
    \<and> c_state s = 11 \<and> c_fencestate s = 0 \<and> c_mode s = 3"
proof -
  define r1 where "r1 = cv (csr_comb h x1 r)"
  note r1 = access_request [OF rw r disjI1 [OF refl] x(1), of h, folded r1_def]
  have lk: "csr_lookup h x2 r1 = CReadWrite (rd r) (wr d)"
    using rw_registerD(1) [OF rw r1(7,2)] rw_registerD(2) [OF rw r1(5)] by (simp add: r1(3))
  obtain b where b: "cv (csr_body h x2 r1) = r1\<lparr>c_state := 11, c_cmd_data := rd r, c_mmu_ena := b\<rparr>"
    using plain_access_clock [OF r1(8,6) lk] by (auto simp: r1(4))
  show ?thesis
    using r1(5-7) by (simp add: Let_def csr_clock_comb csr_arch_body csr_comb_fields b arch_fields flip: r1_def)
qed

subsection \<open>All of them\<close>

definition keeps :: "12 word \<Rightarrow> (u64 \<Rightarrow> u64) \<Rightarrow> bool" where
  "keeps a f \<longleftrightarrow> (\<exists>rd wr. rw_register a rd wr \<and> (\<forall>d r. rd (wr d r) = f d))"

lemma keepsI: "rw_register a rd wr \<Longrightarrow> (\<And>d r. rd (wr d r) = f d) \<Longrightarrow> keeps a f"
  by (auto simp: keeps_def)

lemmas lookup_simps = rw_register_def csr_lookup_def csr_arch_def upd_mode_def getf_def

lemma rw_registerI:
  assumes "\<And>h x r. c_mode r = 3 \<Longrightarrow> c_cmd_addr r = a \<Longrightarrow> csr_lookup h x r = CReadWrite (rd r) (wr (c_cmd_data r))"
    and "\<And>r s. csr_arch r = csr_arch s \<Longrightarrow> rd r = rd s"
    and "\<And>d r s. csr_arch r = csr_arch s \<Longrightarrow> csr_arch (wr d r) = csr_arch (wr d s)"
    and "\<And>d r. c_state (wr d r) = c_state r \<and> c_mode (wr d r) = c_mode r \<and> c_fencestate (wr d r) = c_fencestate r"
    and "(getf 4 8 a :: u8) \<noteq> 0x3A"
  shows "rw_register a rd wr"
  using assms unfolding rw_register_def by blast

lemmas lookup_only = csr_lookup_def Let_def getf_def

lemma keeps_plain:
  "keeps 0x041 (\<lambda>d. d)" "keeps 0x140 (\<lambda>d. d)" "keeps 0x141 (\<lambda>d. d)" "keeps 0x143 (\<lambda>d. d)"
  "keeps 0x340 (\<lambda>d. d)" "keeps 0x341 (\<lambda>d. d)" "keeps 0x343 (\<lambda>d. d)" "keeps 0x7B2 (\<lambda>d. d)" "keeps 0x7B3 (\<lambda>d. d)"
proof -
  show "keeps 0x041 (\<lambda>d. d)"
    by (rule keepsI [where rd = "\<lambda>r. xepc (c_xmode r 0)" and wr = "\<lambda>d. upd_mode 0 (\<lambda>m. m\<lparr>xepc := d\<rparr>)"])
      (simp_all add: lookup_simps)
  show "keeps 0x140 (\<lambda>d. d)"
    by (rule keepsI [where rd = "\<lambda>r. xscratch (c_xmode r 1)" and wr = "\<lambda>d. upd_mode 1 (\<lambda>m. m\<lparr>xscratch := d\<rparr>)"])
      (simp_all add: lookup_simps)
  show "keeps 0x141 (\<lambda>d. d)"
    by (rule keepsI [where rd = "\<lambda>r. xepc (c_xmode r 1)" and wr = "\<lambda>d. upd_mode 1 (\<lambda>m. m\<lparr>xepc := d\<rparr>)"])
      (simp_all add: lookup_simps)
  show "keeps 0x143 (\<lambda>d. d)"
    by (rule keepsI [where rd = "\<lambda>r. xtval (c_xmode r 1)" and wr = "\<lambda>d. upd_mode 1 (\<lambda>m. m\<lparr>xtval := d\<rparr>)"])
      (simp_all add: lookup_simps)
  show "keeps 0x340 (\<lambda>d. d)"
    by (rule keepsI [where rd = "\<lambda>r. xscratch (c_xmode r 3)" and wr = "\<lambda>d. upd_mode 3 (\<lambda>m. m\<lparr>xscratch := d\<rparr>)"])
      (simp_all add: lookup_simps)
  show "keeps 0x341 (\<lambda>d. d)"
    by (rule keepsI [where rd = "\<lambda>r. xepc (c_xmode r 3)" and wr = "\<lambda>d. upd_mode 3 (\<lambda>m. m\<lparr>xepc := d\<rparr>)"])
      (simp_all add: lookup_simps)
  show "keeps 0x343 (\<lambda>d. d)"
    by (rule keepsI [where rd = "\<lambda>r. xtval (c_xmode r 3)" and wr = "\<lambda>d. upd_mode 3 (\<lambda>m. m\<lparr>xtval := d\<rparr>)"])
      (simp_all add: lookup_simps)
  show "keeps 0x7B2 (\<lambda>d. d)"
    by (rule keepsI [where rd = c_dscratch0 and wr = "\<lambda>d v. v\<lparr>c_dscratch0 := d\<rparr>"]) (simp_all add: lookup_simps)
  show "keeps 0x7B3 (\<lambda>d. d)"
    by (rule keepsI [where rd = c_dscratch1 and wr = "\<lambda>d v. v\<lparr>c_dscratch1 := d\<rparr>"]) (simp_all add: lookup_simps)
qed

text \<open>Registers with fields: each bit of the value is compared.\<close>

lemma rw_xtvec:
  "rw_register 0x105 (xtvec_rdata 1) (xtvec_write 1)" "rw_register 0x305 (xtvec_rdata 3) (xtvec_write 3)"
  by (rule rw_registerI; (simp add: lookup_only; fail)?; simp add: csr_arch_def xtvec_rdata_def xtvec_write_def upd_mode_def)+

lemma rw_counteren:
  "rw_register 0x106 (\<lambda>r. ucast (xcounteren (c_xmode r 1))) (xcounteren_write 1)"
  "rw_register 0x306 (\<lambda>r. ucast (xcounteren (c_xmode r 3))) (xcounteren_write 3)"
  by (rule rw_registerI; (simp add: lookup_only; fail)?; simp add: csr_arch_def xcounteren_write_def upd_mode_def)+

lemma rw_deleg:
  "rw_register 0x302 c_medeleg (\<lambda>d v. v\<lparr>c_medeleg := d AND 0xB3FF\<rparr>)"
  "rw_register 0x303 (\<lambda>r. ucast (c_mideleg r)) (\<lambda>d v. v\<lparr>c_mideleg := rng d 15 0 AND 0x222\<rparr>)"
  by (rule rw_registerI; (simp add: lookup_only; fail)?; simp add: csr_arch_def)+

lemma rw_status:
  "rw_register 0x100 sstatus_rdata sstatus_write" "rw_register 0x300 mstatus_rdata mstatus_write"
  by (rule rw_registerI; (simp add: lookup_only; fail)?;
      simp add: csr_arch_def sstatus_rdata_def sstatus_write_def mstatus_rdata_def mstatus_write_def upd_mode_def)+

lemma rw_ie: "rw_register 0x104 sie_rdata sie_write" "rw_register 0x304 mie_rdata mie_write"
  by (rule rw_registerI; (simp add: lookup_only; fail)?;
      simp add: csr_arch_def sie_rdata_def sie_write_def mie_rdata_def mie_write_def upd_mode_def)+

lemma rw_satp: "rw_register 0x180 satp_rdata satp_write"
  by (rule rw_registerI; (simp add: lookup_only; fail)?; simp add: csr_arch_def satp_rdata_def satp_write_def Let_def)

lemma read_xtvec: "xtvec_rdata p (xtvec_write p d r) = d"
  by (rule u64_eq_bits) (simp add: upt_64 xtvec_rdata_def xtvec_write_def upd_mode_def bit_setf bit_getf bit_simps)

lemma read_counteren: "ucast (xcounteren (c_xmode (xcounteren_write p d r) p)) = (d AND 0xFFFF :: u64)"
  by (rule u64_eq_bits) (simp add: upt_64 xcounteren_write_def upd_mode_def bit_getf bit_simps)

lemma read_mideleg: "ucast (rng d 15 0 AND 0x222 :: 16 word) = (d AND 0x222 :: u64)" for d :: u64
  by (rule u64_eq_bits) (simp add: upt_64 bit_getf bit_simps)

lemma read_sstatus: "sstatus_rdata (sstatus_write d r) = d AND 0x122 OR 0x200002000"
  by (rule u64_eq_bits) (simp add: upt_64 sstatus_rdata_def sstatus_write_def upd_mode_def bit_setf bit_simps)

lemma read_mstatus: "mstatus_rdata (mstatus_write d r) = d AND 0x1E19AA OR 0xA00002000"
  by (rule u64_eq_bits)
    (simp add: upt_64 mstatus_rdata_def mstatus_write_def sstatus_write_def upd_mode_def bit_setf bit_getf bit_simps)

lemma read_sie: "sie_rdata (sie_write d r) = drop_bit 1 d AND 0x111"
  by (rule u64_eq_bits) (simp add: upt_64 sie_rdata_def sie_write_def upd_mode_def bit_setf bit_simps)

lemma read_mie: "mie_rdata (mie_write d r) = drop_bit 1 d AND 0x555"
  by (rule u64_eq_bits)
    (simp add: upt_64 mie_rdata_def mie_write_def sie_rdata_def sie_write_def upd_mode_def bit_setf bit_simps)

definition satp_kept :: "u64 \<Rightarrow> u64" where
  "satp_kept d = (if rng d 63 60 = SATP_MODE_SV39 \<or> rng d 63 60 = SATP_MODE_SV48
     then d AND 0xF0000FFFFFFFFFFF else d AND 0xFFFFFFFFFFF)"

lemma read_satp: "satp_rdata (satp_write d r) = satp_kept d"
proof -
  have top: "(getf 60 4 d :: 4 word) = v \<longleftrightarrow> bit d 60 = bit v 0 \<and> bit d 61 = bit v 1 \<and> bit d 62 = bit v 2 \<and> bit d 63 = bit v 3"
    for v
  proof -
    have "(getf 60 4 d :: 4 word) = v \<longleftrightarrow> (\<forall>n<4. bit (getf 60 4 d :: 4 word) n = bit v n)"
      by (auto intro: bit_word_eqI)
    then show ?thesis by (simp add: bit_getf All_less_Suc numeral_eq_Suc) blast
  qed
  show ?thesis
  proof (cases "(getf 60 4 d :: 4 word) = 8 \<or> (getf 60 4 d :: 4 word) = 9")
    case True
    have k: "getf 60 4 d = (8 :: 4 word) \<or> getf 60 4 d = (9 :: 4 word) \<longleftrightarrow> True" using True by simp
    have "bit d 63 \<and> \<not> bit d 62 \<and> \<not> bit d 61 \<and> (getf 60 4 d = (8 :: 4 word) \<longleftrightarrow> \<not> bit d 60)"
      using True by (auto simp: top)
    then show ?thesis
      by (rule_tac u64_eq_bits)
        (simp add: upt_64 satp_kept_def satp_rdata_def satp_write_def k bit_setf bit_getf bit_simps Let_def,
         use True in \<open>simp add: numeral_2_eq_2\<close>)
  next
    case False
    then show ?thesis
      by (rule_tac u64_eq_bits)
        (simp add: upt_64 satp_kept_def satp_rdata_def satp_write_def bit_setf bit_getf bit_simps Let_def,
         simp add: numeral_2_eq_2)
  qed
qed

text \<open>What a register gives back of a value.\<close>

definition csr_readback :: "12 word \<Rightarrow> u64 \<Rightarrow> u64 option" where
  "csr_readback a d =
     (if List.member [0x041, 0x140, 0x141, 0x143, 0x340, 0x341, 0x343, 0x7B2, 0x7B3, 0x105, 0x305] a then Some d
      else if a = 0x106 \<or> a = 0x306 then Some (d AND 0xFFFF)
      else if a = 0x302 then Some (d AND 0xB3FF)
      else if a = 0x303 then Some (d AND 0x222)
      else if a = 0x100 then Some (d AND 0x122 OR 0x200002000)
      else if a = 0x300 then Some (d AND 0x1E19AA OR 0xA00002000)
      else if a = 0x180 then Some (satp_kept d)
      else if a = 0x104 then Some (drop_bit 1 d AND 0x111)
      else if a = 0x304 then Some (drop_bit 1 d AND 0x555)
      else None)"

lemma readback_register:
  assumes "csr_readback a d = Some v"
  shows "\<exists>f. keeps a f \<and> f d = v"
proof -
  note k = keepsI [OF rw_xtvec(1) read_xtvec] keepsI [OF rw_xtvec(2) read_xtvec]
    keepsI [OF rw_counteren(1) read_counteren] keepsI [OF rw_counteren(2) read_counteren]
    keepsI [OF rw_status(1) read_sstatus] keepsI [OF rw_status(2) read_mstatus]
    keepsI [OF rw_satp read_satp] keepsI [OF rw_ie(1) read_sie] keepsI [OF rw_ie(2) read_mie]
  have d: "keeps 0x302 (\<lambda>d. d AND 0xB3FF)" "keeps 0x303 (\<lambda>d. d AND 0x222)"
    using read_mideleg by (auto intro: keepsI [OF rw_deleg(1)] keepsI [OF rw_deleg(2)])
  show ?thesis
    using assms keeps_plain k d by (auto simp: csr_readback_def split: if_splits)
qed

text \<open>
  C30: In machine mode a write request to one of these registers, followed by a read request,
  returns what was written, cut to the implemented fields; but \<open>mie\<close> and \<open>sie\<close> return the
  enable bits one place too low.
\<close>

theorem rtl_csr_readback:
  assumes "csr_readback a d = Some v" and "ready_M r"
    and "requests 2 a d x1" "y_resp_ready x3" and "requests 1 a d' x4"
  shows "let ck = CsrRegs_registers ar h True; s = ck x5 (ck x4 (ck x3 (ck x2 (ck x1 r)))) in
    c_state s = 11 \<and> c_cmd_data s = v"
proof -
  obtain rd wr where rw: "rw_register a rd wr" and v: "\<And>r. rd (wr d r) = v"
    using readback_register [OF assms(1)] by (auto simp: keeps_def)
  define s where "s = cv (csr_comb h x3 (cv (csr_comb h x2 (cv (csr_comb h x1 r)))))"
  have s: "ready_M s" "csr_arch s = csr_arch (wr d r)"
    using write_request [OF rw assms(2-4), of h x2] by (simp_all add: Let_def csr_clock_comb s_def)
  show ?thesis
    using read_request [OF rw s(1) assms(5), of h x5] rw_registerD(2) [OF rw s(2)] v
    by (simp add: Let_def csr_clock_comb flip: s_def)
qed

text \<open>
  C31: CSRRS on \<open>mie\<close>, as the execution stage does it: a read, then a write of the value read
  with bits added.  Afterwards exactly the interrupts in the operand are enabled; every other
  that was enabled before is disabled, all of them when the instruction only reads.
\<close>

theorem rtl_csrrs_mie_disables:
  assumes "ready_M r" and "requests 1 0x304 d x1" and r2: "r2 = CsrRegs_registers ar h True x2 (CsrRegs_registers ar h True x1 r)"
    and "y_resp_ready x3" and old: "x_csr_resp_data xe = c_cmd_data r2"
    and "requests 2 0x304 (csr_wdata xe re (\<lambda>i. i = Instr_CSRRS)) x4" and "y_resp_ready x6"
  shows "let ck = CsrRegs_registers ar h True; s = ck x6 (ck x5 (ck x4 (ck x3 r2))); m = c_xmode s 3; u = c_xmode s 1 in
    xsie m = bit (e_rdata1 re) 3 \<and> xtie m = bit (e_rdata1 re) 7 \<and> xeie m = bit (e_rdata1 re) 11
    \<and> xsie u = bit (e_rdata1 re) 1 \<and> xtie u = bit (e_rdata1 re) 5 \<and> xeie u = bit (e_rdata1 re) 9"
proof -
  define s where "s = cv (csr_comb h x3 r2)"
  have rd: "c_cmd_data r2 = mie_rdata r" "csr_arch r2 = csr_arch r" "c_state r2 = 11" "c_fencestate r2 = 0" "c_mode r2 = 3"
    using read_request [OF rw_ie(2) assms(1,2), of h x2] by (simp_all add: Let_def csr_clock_comb r2)
  have s: "ready_M s" "csr_arch s = csr_arch r"
    using response_clock(1,3) [OF rd(3) assms(4), of h] response_arch [OF rd(3) assms(4), of h] rd
    by (simp_all add: s_def ready_M_def)
  define w where "w = csr_wdata xe re (\<lambda>i. i = Instr_CSRRS)"
  have w: "bit w n = bit (e_rdata1 re) n" if "n \<in> {1, 3, 5, 7, 9, 11}" for n
    using that by (auto simp: w_def csr_wdata_def old rd(1) mie_rdata_def sie_rdata_def bit_setf bit_simps Let_def)
  define t where "t = cv (csr_comb h x6 (cv (csr_comb h x5 (cv (csr_comb h x4 s)))))"
  have "csr_arch t = csr_arch (mie_write w s)"
    using write_request [OF rw_ie(2) s(1) assms(6,7), of h x5]
    by (simp add: Let_def csr_clock_comb t_def w_def)
  then have "c_xmode t = c_xmode (mie_write w s)" by (simp add: csr_arch_def)
  then show ?thesis
    by (simp add: Let_def csr_clock_comb mie_write_def sie_write_def upd_mode_def w flip: s_def t_def)
qed

subsection \<open>Instances\<close>

text \<open>The registers after a reset, and one input of a request.\<close>

definition csr_req_in :: "10 word \<Rightarrow> 12 word \<Rightarrow> u64 \<Rightarrow> csr_in" where
  "csr_req_in ty a d = \<lparr>y_sp = 0, y_req_valid = True, y_req_type = ty, y_req_addr = a, y_req_data = d,
     y_resp_ready = True, y_e_halted = False, y_e_pc = 0, y_irq_pending = 0, y_f_flush_ready = False,
     y_e_valid = False, y_m_memop_ready = True, y_m_idle = True, y_flushd_end = False, y_mtimer = 0,
     y_dbg_progbuf_ena = False\<rparr>"

lemma csr_req_in_requests: "requests ty a d (csr_req_in ty a d)" "y_resp_ready (csr_req_in ty a d)"
  by (simp_all add: requests_def csr_req_in_def)

lemma reset_ready: "ready_M CsrRegs_r_reset"
  by (simp add: ready_M_def CsrRegs_r_reset_def)

theorem rtl_csr_readback_witness:
  "let ck = CsrRegs_registers False 0 True; x = csr_req_in 0 0 0;
       s = ck x (ck (csr_req_in 1 0x304 0) (ck x (ck x (ck (csr_req_in 2 0x304 0x80) CsrRegs_r_reset))))
   in c_cmd_data s = 0x40"
proof -
  have "csr_readback 0x304 0x80 = Some 0x40" by (simp add: csr_readback_def)
  from rtl_csr_readback [OF this reset_ready csr_req_in_requests csr_req_in_requests(1)]
  show ?thesis by (simp add: Let_def)
qed

theorem rtl_csrrs_mie_disables_witness:
  "let ck = CsrRegs_registers False 0 True; x = csr_req_in 0 0 0;
       r = mie_write 0x888 CsrRegs_r_reset; r2 = ck x (ck (csr_req_in 1 0x304 0) r);
       w = csr_wdata (undefined\<lparr>x_csr_resp_data := c_cmd_data r2\<rparr>) InstrExecute_r_reset (\<lambda>i. i = Instr_CSRRS);
       s = ck x (ck x (ck (csr_req_in 2 0x304 w) (ck x r2)))
   in xtie (c_xmode r 3) \<and> \<not> xtie (c_xmode s 3) \<and> \<not> xeie (c_xmode s 3) \<and> \<not> xsie (c_xmode s 3)"
proof -
  let ?r = "mie_write 0x888 CsrRegs_r_reset"
  have r: "ready_M ?r"
    by (simp add: ready_M_def mie_write_def sie_write_def upd_mode_def CsrRegs_r_reset_def)
  have "xtie (c_xmode ?r 3)" by (simp add: mie_write_def upd_mode_def)
  moreover have "e_rdata1 InstrExecute_r_reset = 0" by (simp add: InstrExecute_r_reset_def)
  moreover have "x_csr_resp_data (undefined\<lparr>x_csr_resp_data := v\<rparr>) = v" for v by simp
  ultimately show ?thesis
    using rtl_csrrs_mie_disables [OF r csr_req_in_requests(1) refl csr_req_in_requests(2) _
        csr_req_in_requests(1) csr_req_in_requests(2), of "undefined\<lparr>x_csr_resp_data := _\<rparr>"]
    unfolding Let_def by simp
qed

end
