(* ===== verification/Rtl_Pmp.thy ===== *)
theory Rtl_Pmp
  imports Rtl_CsrFacts
begin

section \<open>The physical memory protection of the RTL\<close>

















subsection \<open>The table that a configuration stands for\<close>




subsection \<open>One clock of the update\<close>





subsection \<open>The update\<close>













subsection \<open>The write of \<open>pmpcfg0\<close>\<close>






subsection \<open>Between two requests nothing is pending\<close>











subsection \<open>The request\<close>







subsection \<open>What the table means\<close>


























subsection \<open>From the write to the checks\<close>





end
