(* ===== verification/Spec2Isabelle.thy ===== *)
theory Spec2Isabelle
  imports Debug Isa_MulDiv Fetch Rtl_ExecSafe Jtag_Props Soc_Irq Ddr Uart Qspi Rtl_CsrTrap Rtl_CsrRw Rtl_Pmp
begin

text \<open>
  This development models the functional RISC-V simulator of the repository (directory
  debugger/src): the CPU \<open>CpuRiver_Functional\<close> on top of \<open>CpuGeneric\<close>, the instruction
  classes of RV64I, M, A and C with the privileged instructions, the system bus and the
  memory devices behind it; and the instruction decoders, the execution stage, the CSR module and the memory protection of the SystemC
  RTL of the core (directory sc/rtl), which implement the same instruction set a second time;
  and the path of the debugger into the simulator: the JTAG client, the TAP, the debug module;
  and the devices on the bus that keep a state of their own (socsim_plugin).

  \<^bold>\<open>How the program works.\<close>  \<open>CpuGeneric::busyLoop\<close> calls \<open>updatePipeline\<close> for ever.  One call
  serves the requests of the debugger (\<open>updateState\<close>), moves the next program counter into
  the program counter, asks the address triggers, fetches a word through \<open>dma_memop\<close>
  (protection check, then the bus), decodes it through a hash table of instruction objects,
  runs the object's \<open>exec\<close>, runs the due step callbacks and takes a pending exception or
  interrupt (\<open>handleTrap\<close>).  Loads, stores and atomics go through \<open>dma_memop\<close> as well.  The
  debug module halts, resumes and single-steps the CPU, reads and writes its registers and
  memory, and lets it run a program buffer in a second register context.

  \<^bold>\<open>Theories.\<close>
  \<^item> \<^verbatim>\<open>Prelude\<close>: C++ integers as words, bit fields, bytes, C++ division.
  \<^item> \<^verbatim>\<open>Isa_Formats\<close>: the unions of common/riscv-isa.h as field accessors.
  \<^item> \<^verbatim>\<open>Bus\<close>: \<open>Axi4TransactionType\<close>, \<open>MemoryGeneric::b_transport\<close>, \<open>BusGeneric\<close> (\<open>maphash\<close>,
    \<open>getMapedDevice\<close>, \<open>b_transport\<close>); the hash table gives the answer of a scan of all devices.
  \<^item> \<^verbatim>\<open>Cpu_State\<close>: the fields of the CPU (record \<open>cpu\<close>), its services (record \<open>platform\<close>), CSRs,
    triggers, physical memory protection, \<open>dma_memop\<close>, \<open>generateException\<close>; \<^verbatim>\<open>Cpu_Facts\<close>: which
    fields each of them can change, and the interface \<open>cpu_invariant\<close>.
  \<^item> \<^verbatim>\<open>Isa_I\<close>, \<^verbatim>\<open>Isa_M\<close>, \<^verbatim>\<open>Isa_A\<close>, \<^verbatim>\<open>Isa_C\<close>, \<^verbatim>\<open>Isa_Priv\<close>: one function \<open>NAME_exec\<close> per instruction class.
  \<^item> \<^verbatim>\<open>Isa_Facts\<close>, \<^verbatim>\<open>Isa_MulDiv\<close>: sign extension as casts, the multiplier, division and the 32-bit
    operations against the ISA manual.
  \<^item> \<^verbatim>\<open>Decode\<close>: instruction objects, the table, \<open>decodeInstruction\<close>; patterns as masks, and the
    proof that no two supported patterns overlap.
  \<^item> \<^verbatim>\<open>Pipeline\<close>: traps, triggers, debug state machine, the cycle, debug port, reset, start-up.
  \<^item> \<^verbatim>\<open>Machine\<close>: sequences of cycles and external events; three nested interfaces for invariants
    (one instruction, one cycle, every event) and their interpretations.
  \<^item> \<^verbatim>\<open>Soc\<close>: the interface \<open>memory_bus\<close> between CPU and memory, loads and stores proved against it,
    and its interpretation on a bus of memory devices; \<^verbatim>\<open>River\<close>: the configuration of
    targets/func_river_x1_gui.json, on which the concrete instances are stated (without its D extension and not
    halted).
  \<^item> \<^verbatim>\<open>LoadStore\<close>: loads, stores and atomics on that interface; \<^verbatim>\<open>Fetch\<close>: a cycle from the bus
    to the trap check, fetches that fault.
  \<^item> \<^verbatim>\<open>Rtl_Types\<close>, \<^verbatim>\<open>Rtl_Decoder\<close>, \<^verbatim>\<open>Rtl_DecoderC\<close>: \<open>DecoderRv\<close> and \<open>DecoderRvc\<close> of the RTL; \<^verbatim>\<open>Rtl_DecodeEq\<close>,
    \<^verbatim>\<open>Rtl_CompressedEq\<close>, \<^verbatim>\<open>Rtl_Agree\<close>: they find the instructions, registers and immediates that the
    functional CPU finds, and a compressed instruction is the base instruction it stands for.
  \<^item> \<^verbatim>\<open>Rtl_Alu\<close>, \<^verbatim>\<open>Rtl_Mul\<close>, \<^verbatim>\<open>Rtl_Div\<close>: the units of riverlib/core/arith, register by register and cycle
    by cycle; their results as numbers, and where they leave the ISA.
  \<^item> \<^verbatim>\<open>Rtl_Execute\<close>: \<open>InstrExecute\<close> of execute.cpp with its state machine; \<^verbatim>\<open>Rtl_Retire\<close>: what it retires
    is what the functional CPU executes; \<^verbatim>\<open>Rtl_ExecSafe\<close>: the invariant of its states, and an
    instruction that it drops.
  \<^item> \<^verbatim>\<open>Rtl_Csr\<close>: \<open>CsrRegs\<close> of csr.cpp; \<^verbatim>\<open>Rtl_CsrFacts\<close>: its requests, from presentation to answer;
    \<^verbatim>\<open>Rtl_CsrTrap\<close>: trap entry against the simulator, the return from a trap, an illegal read that traps
    twice; \<^verbatim>\<open>Rtl_CsrRw\<close>: writes read back, the interface between \<open>CsrRegs\<close> and the execution stage; \<^verbatim>\<open>Rtl_Pmp\<close>: \<open>PMP\<close> of cache/pmp.cpp, the
    table that a write of \<open>pmpcfg0\<close> leaves in it, and its answers against the privileged architecture.
  \<^item> \<^verbatim>\<open>Jtag\<close>: both ends of the JTAG cable, \<open>DtmFunctional\<close> (dmi/dtmfunc.cpp) with the bit-bang server and
    \<open>OpenOcdWrapper::scan\<close>; \<^verbatim>\<open>Jtag_Scan\<close>: a scan is an atomic exchange of one register.  \<^verbatim>\<open>Dmi\<close>:
    \<open>DmiFunctional\<close> (dmi/dmifunc.cpp) and the CPU as its hart.  \<^verbatim>\<open>Jtag_Client\<close>: the functions of
    \<open>IJtag\<close>; \<^verbatim>\<open>Jtag_Debug\<close>: the interfaces \<open>dmi_link\<close> (transport to debug module) and \<open>hart_memory\<close>
    (debug module to memory), the functions proved against them, and their interpretations on
    the JTAG transport and on the CPU with its bus; \<^verbatim>\<open>Jtag_Props\<close>: register and memory access of
    the debugger from end to end.
  \<^item> \<^verbatim>\<open>Regs\<close>: the register classes of common/generic/mapreg.cpp and \<open>RegMemBankGeneric\<close>, which splits an
    access over the registers of a device.  \<^verbatim>\<open>Clint\<close>, \<^verbatim>\<open>Plic\<close>: timer and interrupt controller;
    \<^verbatim>\<open>Soc_Irq\<close>: the CPU with both on its bus, the timer interrupt from the store to the compare
    register to the trap.  \<^verbatim>\<open>Ddr\<close>: the block list of \<open>DDR\<close> against a flat memory.  \<^verbatim>\<open>Fifo\<close>: ring
    buffers, with the interface \<open>byte_fifo\<close> that \<^verbatim>\<open>Uart\<close> (\<open>UART\<close>) and \<^verbatim>\<open>Qspi\<close> (\<open>QspiController\<close>,
    \<open>SdCard\<close>) meet; \<^verbatim>\<open>Crc16\<close>: the table of the block CRC against the polynomial.
  \<^item> \<^verbatim>\<open>Traps\<close>, \<^verbatim>\<open>Debug\<close>: exception entry, interrupts and MRET; halting, stepping, program buffer.

  \<^bold>\<open>Conventions.\<close>  Every C++ integer keeps its width (\<open>u8\<close> to \<open>u64\<close>), so wrap-around is that of
  the program.  State is passed explicitly.  The state behind the bus is a type parameter;
  the bus, the CLINT, the PLIC and the step callbacks are fields of \<open>platform\<close>, because the
  CPU reaches them through interfaces only.  Where C++ would leave an array (PMP entries,
  triggers, memory) the model raises a flag (\<open>oob\<close>, \<open>m_oob\<close>).  A fetch that faults fetches
  again at the trap vector without a bound: \<open>fetchILine\<close> counts the fetches and gives \<open>None\<close>
  when the given number does not suffice; the properties of a cycle hold for every number.
  The loops of the debugger's client are partial functions (\<open>None\<close>: no return); that they
  return is part of its properties.
  All other loops end and are total functions.

  \<^bold>\<open>Not modelled.\<close>  The F and D extensions (host floating point), the register stubs of the
  board (GPIO, PRCI, OTP and the like), the SystemC RTL but for its decoders, execution stage, CSR module
  and memory protection, the ARM CPU, and the rest
  of the tooling (console commands, GDB mode, sockets, GUI, disassemblers).  Of the modelled classes: the
  instruction cache (the fetched word is decoded again in every step, so its contents reach
  no other field), trace and coverage output, locks, messages, the DPI co-simulation hook and
  the non-blocking bus transport.
\<close>

section \<open>Properties that span the components\<close>

subsection \<open>Decoding\<close>

text \<open>
  C1: The decoder is exact.  For every 32-bit word the two-level hash lookup of
  \<open>decodeInstruction\<close> finds an instruction if and only if it is one of the supported ones
  and its pattern (with the extra conditions of its \<open>parse\<close>) matches: no instruction is in a
  bucket where it is not looked for, and no two of them match the same word.
\<close>

theorem decode_exact:
  fixes c :: "'m cpu"
  assumes "distinct exts"
  shows "fst (decodeInstruction (listInstr exts) c) = Some i
    \<longleftrightarrow> i \<in> set (supported exts) \<and> parse i (buf32 (cacheline c))"
  by (simp add: decodeInstruction_def lookup_instr_iff [OF assms])

theorem decode_exact_witness:
  "fst (decodeInstruction (listInstr ''MAC'') ((river_cpu (\<lambda>_. 0))\<lparr>cacheline := 0x00500093\<rparr>))
     = Some (RiscvInstruction ''ADDI'' ''?????????????????000?????0010011'' ADDI_exec)"
proof -
  let ?i = "RiscvInstruction ''ADDI'' ''?????????????????000?????0010011'' ADDI_exec
    :: (nat \<Rightarrow> memdev) instruction"
  have "?i \<in> set (supported ''MAC'')"
    by (simp add: supported_def addIsaUserRV64I_def)
  moreover have "parse ?i 0x00500093"
    by (simp add: parse_def RiscvInstruction_def pattern_horner horner_def)
  ultimately show ?thesis
    using decode_exact [of "''MAC''" "(river_cpu (\<lambda>_. 0))\<lparr>cacheline := 0x00500093\<rparr>" ?i] by simp
qed

subsection \<open>Invariants of every run\<close>

text \<open>
  C2: Register x0 reads zero in every state that any sequence of cycles, traps, debugger
  requests, power events and resets reaches from start-up, provided the debugger does not
  write it through its register port.
\<close>

theorem x0_stays_zero:
  assumes "run P (listInstr exts) (postinit P exts (init_cpu halted m)) es c"
    and "list_all spares_x0 es"
  shows "R c 0 = 0"
  by (rule x0.I_run [OF assms]) (rule postinit_start)

theorem x0_stays_zero_witness:
  "R (reset river (power POWER_ON (postinit river ''IMAC'' (init_cpu False zero_mem)))) 0 = 0"
proof -
  have "run river (listInstr ''IMAC'') (postinit river ''IMAC'' (init_cpu False zero_mem))
      ([Power POWER_ON] @ [Reset]) (reset river (power POWER_ON (postinit river ''IMAC'' (init_cpu False zero_mem))))"
    by (rule run_snoc [OF run_snoc [OF run_Nil step_power, simplified] step_reset])
  then show ?thesis by (rule x0_stays_zero) (simp add: spares_x0_def)
qed

text \<open>
  C3: In every run from start-up (with the same proviso) the privilege level is at
  most 3, the LR/SC watchdog at most 64, the stack trace counter within its buffer, and the
  read-only registers never change: the machine identification registers stay 0, \<open>misa\<close>
  keeps the value computed from the extensions.
\<close>

theorem state_in_range:
  assumes "run P (listInstr exts) (postinit P exts (init_cpu halted m)) es c"
    and "list_all spares_x0 es"
  shows "cur_prv_level c \<le> 3 \<and> mmuReservedAddrWatchdog c \<le> 64
    \<and> unat (stackTraceCnt c) \<le> stackTraceSize P
    \<and> readCSR P CSR_misa c = misa_value exts \<and> readCSR P CSR_mhartid c = 0
    \<and> readCSR P CSR_mvendorid c = 0 \<and> readCSR P CSR_mimplementationid c = 0"
  using wf.I_run [OF assms postinit_start(2)]
  by (simp add: cpu_wf_def read_only_CSRs_def readCSR_def)

theorem state_in_range_witness:
  "readCSR river CSR_mvendorid (reset river (postinit river ''IMAC'' (init_cpu False zero_mem))) = 0
    \<and> vendorid river = 0xF1"
proof -
  have "run river (listInstr ''IMAC'') (postinit river ''IMAC'' (init_cpu False zero_mem))
      [Reset] (reset river (postinit river ''IMAC'' (init_cpu False zero_mem)))"
    by (rule run_snoc [OF run_Nil step_reset, simplified])
  from state_in_range [OF this] have
    "readCSR river CSR_mvendorid (reset river (postinit river ''IMAC'' (init_cpu False zero_mem))) = 0"
    by (simp add: spares_x0_def)
  then show ?thesis by (simp add: river_def soc_platform_def)
qed

end
